(* ===== verification/Prelude.thy ===== *)
theory Prelude
  imports Main "HOL-Library.Product_Lexorder"
begin

text \<open>
  The JavaScript values and library functions that the components share.  A JavaScript string
  is its sequence of UTF-16 code units, so \<open>s.length\<close> is \<^const>\<open>length\<close>, \<open>s + t\<close> is
  append and a literal \<open>'abc'\<close> is written \<open>js ''abc''\<close>; characters outside ASCII are written
  as their code unit.  The theory also holds the two interfaces most components are built
  on: a normaliser (a function into a well-formed set that leaves well-formed values alone)
  and a token codec (a printer and a parser for the items of a separated list).
\<close>

section \<open>Collections of rewrite rules\<close>

named_theorems js_eval \<open>equations that evaluate the string functions on literals\<close>

named_theorems js_str \<open>algebra of the string functions\<close>

section \<open>Strings as sequences of code units\<close>

type_synonym unit16 = nat

type_synonym jsstring = "nat list"

primrec js :: "string \<Rightarrow> jsstring" where
  "js [] = []"
| "js (c # cs) = of_char c # js cs"

lemma js_append [js_str]: "js (s @ t) = js s @ js t"
  by (induction s) auto

lemma js_inject [simp]: "js s = js t \<longleftrightarrow> s = t"
proof (induction s arbitrary: t)
  case Nil
  then show ?case by (cases t) auto
next
  case (Cons c s)
  then show ?case by (cases t) (auto simp: of_char_eq_iff)
qed

lemma js_Nil_iff [simp]: "js s = [] \<longleftrightarrow> s = []" "[] = js s \<longleftrightarrow> s = []"
  by (cases s; simp)+

lemma length_js [simp]: "length (js s) = length s"
  by (induction s) auto

text \<open>White space of \<open>trim\<close> and of the regular expression class \<open>\s\<close>: the WhiteSpace and
  LineTerminator productions of ECMA-262.\<close>

definition is_ws :: "unit16 \<Rightarrow> bool" where
  "is_ws u \<longleftrightarrow> u \<in> {9, 10, 11, 12, 13, 32, 160, 5760, 8232, 8233, 8239, 8287, 12288, 65279}
     \<or> 8192 \<le> u \<and> u \<le> 8202"

definition is_digit :: "unit16 \<Rightarrow> bool" where
  "is_digit u \<longleftrightarrow> 48 \<le> u \<and> u \<le> 57"

definition trim :: "jsstring \<Rightarrow> jsstring" where
  "trim s = rev (dropWhile is_ws (rev (dropWhile is_ws s)))"

definition startsWith :: "jsstring \<Rightarrow> jsstring \<Rightarrow> bool" where
  "startsWith s p \<longleftrightarrow> take (length p) s = p"

definition endsWith :: "jsstring \<Rightarrow> jsstring \<Rightarrow> bool" where
  "endsWith s p \<longleftrightarrow> startsWith (rev s) (rev p)"

text \<open>\<open>s.slice(a, b)\<close> for \<open>0 \<le> a\<close> and \<open>0 \<le> b\<close>; a bound past the end is the end.\<close>

definition slice :: "nat \<Rightarrow> nat \<Rightarrow> 'a list \<Rightarrow> 'a list" where
  "slice a b s = take (b - a) (drop a s)"

fun index_of :: "jsstring \<Rightarrow> jsstring \<Rightarrow> nat option" where
  "index_of p [] = (if p = [] then Some 0 else None)"
| "index_of p (c # s) =
     (if startsWith (c # s) p then Some 0 else map_option Suc (index_of p s))"

definition includes_str :: "jsstring \<Rightarrow> jsstring \<Rightarrow> bool" where
  "includes_str s p \<longleftrightarrow> index_of p s \<noteq> None"

text \<open>\<open>s.split(c)\<close> for a separator of one code unit.\<close>

fun split_unit :: "unit16 \<Rightarrow> jsstring \<Rightarrow> jsstring list" where
  "split_unit c [] = [[]]"
| "split_unit c (u # s) =
     (if u = c then [] # split_unit c s
      else (case split_unit c s of [] \<Rightarrow> [[u]] | w # ws \<Rightarrow> (u # w) # ws))"

fun join :: "jsstring \<Rightarrow> jsstring list \<Rightarrow> jsstring" where
  "join sep [] = []"
| "join sep [w] = w"
| "join sep (w # v # ws) = w @ sep @ join sep (v # ws)"

text \<open>\<open>toLowerCase\<close> on the cased letters of ASCII, Latin-1, Greek, Cyrillic and the full-width
  forms; every other code unit is left as it is.\<close>

definition lower_unit :: "unit16 \<Rightarrow> unit16" where
  "lower_unit u =
     (if 65 \<le> u \<and> u \<le> 90 then u + 32
      else if 192 \<le> u \<and> u \<le> 222 \<and> u \<noteq> 215 then u + 32
      else if 913 \<le> u \<and> u \<le> 939 \<and> u \<noteq> 930 then u + 32
      else if 1040 \<le> u \<and> u \<le> 1071 then u + 32
      else if 1024 \<le> u \<and> u \<le> 1039 then u + 80
      else if 65313 \<le> u \<and> u \<le> 65338 then u + 32
      else u)"

definition toLowerCase :: "jsstring \<Rightarrow> jsstring" where
  "toLowerCase s = map lower_unit s"

text \<open>\<open>[...new Set(xs)]\<close>: the distinct elements in the order of their first occurrence.\<close>

definition js_set :: "'a list \<Rightarrow> 'a list" where
  "js_set xs = rev (remdups (rev xs))"

text \<open>\<open>xs.find(p)\<close> is the library's \<^const>\<open>List.find\<close>; \<open>xs[0]\<close> is the following.\<close>

definition first :: "'a list \<Rightarrow> 'a option" where
  "first xs = (case xs of [] \<Rightarrow> None | x # _ \<Rightarrow> Some x)"

text \<open>Decimal digits of a natural number, as \<open>String(n)\<close> prints an integer below \<open>10 ^ 21\<close>.\<close>

fun show_nat :: "nat \<Rightarrow> jsstring" where
  "show_nat n = (if n < 10 then [48 + n] else show_nat (n div 10) @ [48 + n mod 10])"

declare show_nat.simps [simp del, js_eval]

primrec read_nat_acc :: "nat \<Rightarrow> jsstring \<Rightarrow> nat" where
  "read_nat_acc a [] = a"
| "read_nat_acc a (u # s) = read_nat_acc (10 * a + (u - 48)) s"

definition read_nat :: "jsstring \<Rightarrow> nat" where
  "read_nat s = read_nat_acc 0 s"

lemmas [js_eval] = is_ws_def is_digit_def trim_def startsWith_def endsWith_def slice_def
  includes_str_def lower_unit_def toLowerCase_def js_set_def first_def read_nat_def Let_def

subsection \<open>Lemmas on trimming\<close>

definition trimmed :: "jsstring \<Rightarrow> bool" where
  "trimmed s \<longleftrightarrow> s = [] \<or> \<not> is_ws (hd s) \<and> \<not> is_ws (last s)"

lemma dropWhile_idle: "s = [] \<or> \<not> P (hd s) \<Longrightarrow> dropWhile P s = s"
  by (cases s) auto

lemma trim_id [simp]: "trimmed s \<Longrightarrow> trim s = s"
  unfolding trim_def trimmed_def by (auto simp: dropWhile_idle hd_rev)

lemma dropWhile_hd: "dropWhile P s \<noteq> [] \<Longrightarrow> \<not> P (hd (dropWhile P s))"
  by (rule hd_dropWhile)

lemma trimmed_trim [simp, intro]: "trimmed (trim s)"
proof -
  define t where "t = dropWhile is_ws s"
  define r where "r = dropWhile is_ws (rev t)"
  have eq: "trim s = rev r" by (simp add: trim_def t_def r_def)
  show ?thesis
  proof (cases "r = []")
    case True
    then show ?thesis by (simp add: eq trimmed_def)
  next
    case False
    then have last_ok: "\<not> is_ws (hd r)" unfolding r_def by (rule hd_dropWhile)
    obtain p where p: "rev t = p @ r"
      using takeWhile_dropWhile_id [of is_ws "rev t"] r_def by metis
    then have "t = rev r @ rev p" by (metis rev_append rev_rev_ident)
    with False have "t \<noteq> []" "hd t = last r" by (auto simp: hd_append hd_rev)
    moreover have "\<not> is_ws (hd t)" using \<open>t \<noteq> []\<close> unfolding t_def by (rule hd_dropWhile)
    ultimately show ?thesis using False last_ok by (simp add: eq trimmed_def hd_rev last_rev)
  qed
qed

lemma trim_trim [simp]: "trim (trim s) = trim s"
  by (rule trim_id) (rule trimmed_trim)

lemma trim_Nil [simp]: "trim [] = []"
  by (simp add: trim_def)

lemma set_trim: "set (trim s) \<subseteq> set s"
  by (auto simp: trim_def dest!: set_dropWhileD)

lemma trimmed_Nil [simp]: "trimmed []"
  by (simp add: trimmed_def)

lemma trimmed_no_ws: "\<forall>u\<in>set s. \<not> is_ws u \<Longrightarrow> trimmed s"
  by (auto simp: trimmed_def)

subsection \<open>Lemmas on splitting and joining\<close>

lemma split_unit_nonempty [simp]: "split_unit c s \<noteq> []"
  by (induction s) (auto split: list.splits)

lemma split_unit_fresh [simp]: "c \<notin> set s \<Longrightarrow> split_unit c s = [s]"
  by (induction s) auto

lemma split_unit_append: "c \<notin> set w \<Longrightarrow> split_unit c (w @ c # s) = w # split_unit c s"
  by (induction w) auto

lemma split_join:
  "ws \<noteq> [] \<Longrightarrow> \<forall>w\<in>set ws. c \<notin> set w \<Longrightarrow> split_unit c (join [c] ws) = ws"
  by (induction "[c]" ws rule: join.induct) (auto simp: split_unit_append)

lemma join_split: "join [c] (split_unit c s) = s"
proof (induction s)
  case (Cons u s)
  obtain w ws where "split_unit c s = w # ws" using split_unit_nonempty [of c s]
    by (cases "split_unit c s") auto
  with Cons show ?case by (cases ws) auto
qed simp

lemma split_unit_no_sep: "w \<in> set (split_unit c s) \<Longrightarrow> c \<notin> set w"
  by (induction s arbitrary: w) (auto split: list.splits if_splits)

lemma set_join: "set (join sep ws) \<subseteq> set sep \<union> (\<Union>w\<in>set ws. set w)"
  by (induction sep ws rule: join.induct) auto

lemma join_eq_Nil: "join sep ws = [] \<Longrightarrow> ws \<noteq> [] \<Longrightarrow> hd ws = []"
  by (cases ws; cases "tl ws") auto

subsection \<open>Lemmas on searching\<close>

lemma startsWith_set: "startsWith s w \<Longrightarrow> set w \<subseteq> set s"
  unfolding startsWith_def by (metis set_take_subset)

lemma index_of_set: "index_of w s \<noteq> None \<Longrightarrow> set w \<subseteq> set s"
  by (induction s) (use startsWith_set in \<open>fastforce split: if_splits\<close>)+

lemma startsWith_take: "startsWith w p \<Longrightarrow> n \<le> length p \<Longrightarrow> take n w = take n p"
  by (metis min_absorb2 startsWith_def take_take min.commute)

lemma index_of_Some: "index_of p s = Some i \<Longrightarrow> startsWith (drop i s) p"
proof (induction s arbitrary: i)
  case (Cons u s)
  then show ?case by (cases "startsWith (u # s) p") auto
qed (simp add: startsWith_def split: if_splits)

lemma index_of_least: "startsWith (drop j s) p \<Longrightarrow> j \<le> length s \<Longrightarrow> \<exists>i\<le>j. index_of p s = Some i"
proof (induction s arbitrary: j)
  case (Cons u s)
  show ?case
  proof (cases "startsWith (u # s) p")
    case False
    then obtain k where "j = Suc k" using Cons.prems by (cases j) auto
    with Cons obtain i where "i \<le> k" "index_of p s = Some i" by auto
    with False \<open>j = Suc k\<close> show ?thesis by simp
  qed simp
qed (simp add: startsWith_def)

lemma startsWith_split: "startsWith s p \<Longrightarrow> s = p @ drop (length p) s"
  unfolding startsWith_def by (metis append_take_drop_id)

lemma index_of_bound: "index_of p s = Some i \<Longrightarrow> i + length p \<le> length s"
proof (induction s arbitrary: i)
  case (Cons c s)
  then show ?case
    by (auto simp: startsWith_def split: if_splits dest: arg_cong [of _ _ length])
qed (simp split: if_splits)

lemma index_of_before:
  "index_of p s = Some i \<Longrightarrow> startsWith (drop j s) p \<Longrightarrow> j \<le> length s \<Longrightarrow> i \<le> j"
  using index_of_least by fastforce

text \<open>A text that runs up to the first occurrence of \<open>p\<close>, whatever follows it.\<close>

lemma index_of_follow:
  assumes "index_of p (s @ p) = Some (length s)"
  shows "index_of p (s @ p @ x) = Some (length s)"
proof -
  have "startsWith (drop (length s) (s @ p @ x)) p" by (simp add: startsWith_def)
  then obtain i where i: "i \<le> length s" "index_of p (s @ p @ x) = Some i"
    using index_of_least [of "length s" "s @ p @ x" p] by auto
  have "startsWith (drop i (s @ p)) p"
    using index_of_Some [OF i(2)] i(1) by (simp add: startsWith_def)
  then have "length s \<le> i" by (rule index_of_before [OF assms]) (use i(1) in simp)
  with i show ?thesis by simp
qed

subsection \<open>Lemmas on sets as lists\<close>

lemma set_js_set [simp]: "set (js_set xs) = set xs"
  by (simp add: js_set_def)

lemma distinct_js_set [simp]: "distinct (js_set xs)"
  by (simp add: js_set_def)

lemma js_set_distinct [simp]: "distinct xs \<Longrightarrow> js_set xs = xs"
  by (simp add: js_set_def distinct_remdups_id)

lemma js_set_Nil [simp]: "js_set [] = []"
  by (simp add: js_set_def)

subsection \<open>Lemmas on decimal numbers\<close>

lemma read_nat_acc_append: "read_nat_acc a (s @ t) = read_nat_acc (read_nat_acc a s) t"
  by (induction s arbitrary: a) auto

lemma show_nat_nonempty [simp]: "show_nat n \<noteq> []"
  by (subst show_nat.simps) simp

lemma show_nat_digits: "\<forall>u\<in>set (show_nat n). is_digit u"
proof (induction n rule: show_nat.induct)
  case (1 n)
  show ?case
  proof (cases "n < 10")
    case True
    then show ?thesis by (subst show_nat.simps) (simp add: is_digit_def)
  next
    case False
    with 1 show ?thesis by (subst show_nat.simps) (auto simp: is_digit_def)
  qed
qed

lemma read_show_nat [simp]: "read_nat (show_nat n) = n"
  unfolding read_nat_def
proof (induction n rule: show_nat.induct)
  case (1 n)
  show ?case
  proof (cases "n < 10")
    case True
    then show ?thesis by (subst show_nat.simps) simp
  next
    case False
    with 1 show ?thesis by (subst show_nat.simps) (simp add: read_nat_acc_append)
  qed
qed

lemma digit_not_ws: "is_digit u \<Longrightarrow> \<not> is_ws u"
  by (auto simp: is_digit_def is_ws_def)

lemma ascii_not_ws [simp]: "33 \<le> u \<Longrightarrow> u < 160 \<Longrightarrow> \<not> is_ws u"
  by (auto simp: is_ws_def)

lemma show_nat_trimmed [simp]: "trimmed (show_nat n)"
  using show_nat_digits by (intro trimmed_no_ws) (auto dest: digit_not_ws)

section \<open>Code that can throw\<close>

definition bind_sum :: "'e + 'a \<Rightarrow> ('a \<Rightarrow> 'e + 'b) \<Rightarrow> 'e + 'b" where
  "bind_sum m f = (case m of Inl e \<Rightarrow> Inl e | Inr x \<Rightarrow> f x)"

definition returns :: "'e + 'a \<Rightarrow> bool" where
  "returns r \<longleftrightarrow> (\<exists>x. r = Inr x)"

lemma bind_sum_simps [simp]: "bind_sum (Inr x) f = f x" "bind_sum (Inl e) f = Inl e"
  by (simp_all add: bind_sum_def)

lemma bind_sum_Inr: "bind_sum m f = Inr y \<longleftrightarrow> (\<exists>x. m = Inr x \<and> f x = Inr y)"
  by (cases m) auto

lemma returns_Inr [simp]: "returns (Inr x)"
  by (simp add: returns_def)

lemma returns_map_sum [simp]: "returns (map_sum f g r) \<longleftrightarrow> returns r"
  by (cases r) (auto simp: returns_def)

lemma returns_bind: "returns r \<Longrightarrow> (\<And>x. r = Inr x \<Longrightarrow> returns (f x)) \<Longrightarrow> returns (bind_sum r f)"
  by (auto simp: returns_def)

section \<open>The position of the first hit\<close>

fun find_index :: "('a \<Rightarrow> bool) \<Rightarrow> 'a list \<Rightarrow> nat option" where
  "find_index P [] = None"
| "find_index P (x # xs) = (if P x then Some 0 else map_option Suc (find_index P xs))"

lemma find_index_Some:
  "find_index P xs = Some i \<Longrightarrow> i < length xs \<and> P (xs ! i) \<and> (\<forall>j<i. \<not> P (xs ! j))"
proof (induction xs arbitrary: i)
  case (Cons x xs)
  then show ?case by (cases i) (auto simp: less_Suc_eq_0_disj split: if_splits)
qed simp

lemma find_index_None: "find_index P xs = None \<longleftrightarrow> (\<forall>x\<in>set xs. \<not> P x)"
  by (induction xs) auto

section \<open>Interfaces\<close>

text \<open>A normaliser maps every value into the well-formed values and does not change those.\<close>

locale normaliser =
  fixes norm :: "'a \<Rightarrow> 'a"
    and wf :: "'a \<Rightarrow> bool"
  assumes norm_wf: "wf (norm x)"
    and norm_id: "wf x \<Longrightarrow> norm x = x"
begin

lemma norm_idem: "norm (norm x) = norm x"
  by (rule norm_id) (rule norm_wf)

lemma wf_iff_fixed: "wf x \<longleftrightarrow> norm x = x"
  by (metis norm_wf norm_id)

lemma range_norm: "range norm = {x. wf x}"
  by (auto simp: norm_wf) (metis norm_id rangeI)

end

text \<open>A codec for the items of a list that is printed with a one-unit separator and read
  back by splitting, trimming and dropping the empty pieces.\<close>

definition read_items :: "unit16 \<Rightarrow> jsstring \<Rightarrow> jsstring list" where
  "read_items c s = filter (\<lambda>w. w \<noteq> []) (map trim (split_unit c s))"

declare read_items_def [js_eval]

locale item_codec =
  fixes sep :: unit16
    and show_item :: "'a \<Rightarrow> jsstring"
    and read_item :: "jsstring \<Rightarrow> 'a option"
    and ok :: "'a \<Rightarrow> bool"
  assumes read_show: "ok x \<Longrightarrow> read_item (show_item x) = Some x"
    and show_nonempty: "ok x \<Longrightarrow> show_item x \<noteq> []"
    and show_trimmed: "ok x \<Longrightarrow> trimmed (show_item x)"
    and show_no_sep: "ok x \<Longrightarrow> sep \<notin> set (show_item x)"
begin

lemma read_items_join:
  assumes "\<forall>x\<in>set xs. ok x"
  shows "read_items sep (join [sep] (map show_item xs)) = map show_item xs"
proof (cases "xs = []")
  case True
  then show ?thesis by (simp add: read_items_def)
next
  case False
  with assms have "split_unit sep (join [sep] (map show_item xs)) = map show_item xs"
    by (intro split_join) (auto simp: show_no_sep)
  moreover have "map trim (map show_item xs) = map show_item xs"
    using assms by (auto simp: show_trimmed)
  moreover have "filter (\<lambda>w. w \<noteq> []) (map show_item xs) = map show_item xs"
    using assms by (auto simp: show_nonempty filter_id_conv)
  ultimately show ?thesis by (simp only: read_items_def)
qed

lemma read_back:
  assumes "\<forall>x\<in>set xs. ok x"
  shows "map read_item (read_items sep (join [sep] (map show_item xs))) = map Some xs"
  using assms by (simp add: read_items_join read_show)

end

end
