(* ===== verification/Status_Code_Rules.thy ===== *)
theory Status_Code_Rules
  imports Prelude
begin

text \<open>
  The HTTP status code rules of \<open>web/default/src/lib/http-status-code-rules.ts\<close>: a setting
  such as \<open>429, 500-503\<close> is split at commas, each token is parsed to a range of codes, and
  the ranges are sorted, merged and printed back in a normal form.
\<close>

section \<open>Model\<close>

record StatusCodeRange =
  rstart :: nat
  rend :: nat

record ParsedHttpStatusCodeRules =
  ok :: bool
  ranges :: "StatusCodeRange list"
  tokens :: "jsstring list"
  normalized :: jsstring
  invalidTokens :: "jsstring list"

definition isNumber :: "jsstring \<Rightarrow> bool" where
  "isNumber s \<longleftrightarrow> s \<noteq> [] \<and> list_all is_digit s"

definition isValidCode :: "nat \<Rightarrow> bool" where
  "isValidCode code \<longleftrightarrow> 100 \<le> code \<and> code \<le> 599"

text \<open>\<open>const [a, b] = cleaned.split('-')\<close> takes the first two pieces; a third is ignored.\<close>

definition parseToken :: "jsstring \<Rightarrow> StatusCodeRange option" where
  "parseToken token =
     (let cleaned = filter (\<lambda>u. \<not> is_ws u) (trim token)
      in if cleaned = [] then None
         else if 45 \<in> set cleaned then
           (case split_unit 45 cleaned of
              a # b # _ \<Rightarrow>
                if \<not> isNumber a \<or> \<not> isNumber b then None
                else let s = read_nat a; e = read_nat b
                  in if \<not> isValidCode s \<or> \<not> isValidCode e \<or> s > e then None
                     else Some \<lparr>rstart = s, rend = e\<rparr>
            | _ \<Rightarrow> None)
         else if \<not> isNumber cleaned then None
         else let code = read_nat cleaned
           in if \<not> isValidCode code then None else Some \<lparr>rstart = code, rend = code\<rparr>)"

definition merge_step :: "StatusCodeRange list \<Rightarrow> StatusCodeRange \<Rightarrow> StatusCodeRange list" where
  "merge_step merged current =
     (if merged = [] \<or> rstart current > rend (last merged) + 1 then merged @ [current]
      else butlast merged @ [(last merged)\<lparr>rend := max (rend (last merged)) (rend current)\<rparr>])"

definition mergeRanges :: "StatusCodeRange list \<Rightarrow> StatusCodeRange list" where
  "mergeRanges rs =
     (if rs = [] then []
      else foldl merge_step [] (sort_key (\<lambda>r. (rstart r, rend r)) rs))"

definition show_range :: "StatusCodeRange \<Rightarrow> jsstring" where
  "show_range r =
     (if rstart r = rend r then show_nat (rstart r)
      else show_nat (rstart r) @ js ''-'' @ show_nat (rend r))"

text \<open>The loop over the segments: the parsed ranges and the tokens that do not parse.\<close>

fun parse_segments :: "jsstring list \<Rightarrow> StatusCodeRange list \<times> jsstring list" where
  "parse_segments [] = ([], [])"
| "parse_segments (segment # rest) =
     (let (rs, bad) = parse_segments rest
      in case parseToken segment of
           None \<Rightarrow> (rs, segment # bad)
         | Some r \<Rightarrow> (r # rs, bad))"

definition parseHttpStatusCodeRules :: "jsstring option \<Rightarrow> ParsedHttpStatusCodeRules" where
  "parseHttpStatusCodeRules input =
     (let raw = trim (case input of None \<Rightarrow> [] | Some s \<Rightarrow> s)
      in if raw = [] then
           \<lparr>ok = True, ranges = [], tokens = [], normalized = [], invalidTokens = []\<rparr>
         else
           (let sanitized = map (\<lambda>u. if u = 65292 then 44 else u) raw;
                segments = read_items 44 sanitized;
                (rs, bad) = parse_segments segments
            in if bad \<noteq> [] then
                 \<lparr>ok = False, ranges = [], tokens = [], normalized = raw, invalidTokens = bad\<rparr>
               else
                 (let merged = mergeRanges rs; toks = map show_range merged
                  in \<lparr>ok = True, ranges = merged, tokens = toks,
                      normalized = join (js '','') toks, invalidTokens = []\<rparr>)))"

lemmas [js_eval] = isNumber_def isValidCode_def parseToken_def merge_step_def mergeRanges_def
  show_range_def parseHttpStatusCodeRules_def

section \<open>Specification\<close>

text \<open>The codes a list of ranges stands for, and the normal form of such a list: ranges of
  valid codes in increasing order, with at least one code missing between two neighbours.\<close>

definition codes_of :: "StatusCodeRange list \<Rightarrow> nat set" where
  "codes_of rs = (\<Union>r\<in>set rs. {rstart r..rend r})"

definition valid_range :: "StatusCodeRange \<Rightarrow> bool" where
  "valid_range r \<longleftrightarrow> isValidCode (rstart r) \<and> isValidCode (rend r) \<and> rstart r \<le> rend r"

definition separated :: "StatusCodeRange list \<Rightarrow> bool" where
  "separated rs \<longleftrightarrow> sorted_wrt (\<lambda>a b. rend a + 1 < rstart b) rs"

definition normal_ranges :: "StatusCodeRange list \<Rightarrow> bool" where
  "normal_ranges rs \<longleftrightarrow> (\<forall>r\<in>set rs. valid_range r) \<and> separated rs"

text \<open>What a segment denotes, independently of the parser: without its blanks it is the decimal notation
  of a code from 100 to 599, perhaps with leading zeros, or two such notations, in order, with a
  hyphen between them and perhaps another hyphen and any text after them.\<close>

definition decimal_text :: "nat \<Rightarrow> jsstring \<Rightarrow> bool" where
  "decimal_text n w \<longleftrightarrow> (\<exists>i. w = replicate i 48 @ show_nat n)"

definition names_codes :: "jsstring \<Rightarrow> nat \<Rightarrow> nat \<Rightarrow> bool" where
  "names_codes w a b \<longleftrightarrow> 100 \<le> a \<and> a \<le> b \<and> b \<le> 599 \<and>
     (let v = filter (\<lambda>u. \<not> is_ws u) w
      in a = b \<and> decimal_text a v
         \<or> (\<exists>x y r. v = x @ [45] @ y @ r \<and> decimal_text a x \<and> decimal_text b y \<and> (r = [] \<or> hd r = 45)))"

definition names_none :: "jsstring \<Rightarrow> bool" where
  "names_none w \<longleftrightarrow> (\<forall>a b. \<not> names_codes w a b)"

section \<open>Tokens\<close>

lemma parseToken_valid: "parseToken t = Some r \<Longrightarrow> valid_range r"
  by (auto simp: parseToken_def valid_range_def Let_def split: if_splits list.splits)

lemma show_nat_isNumber [simp]: "isNumber (show_nat n)"
  using show_nat_digits by (simp add: isNumber_def list_all_iff)

lemma dash_not_digit: "45 \<notin> set (show_nat n)"
  using show_nat_digits [of n] by (auto simp: is_digit_def)

lemma comma_not_digit: "44 \<notin> set (show_nat n)"
  using show_nat_digits [of n] by (auto simp: is_digit_def)

lemma show_range_no_ws: "\<forall>u\<in>set (show_range r). \<not> is_ws u"
  using show_nat_digits by (auto simp: show_range_def dest: digit_not_ws)

lemma parseToken_show_range: "valid_range r \<Longrightarrow> parseToken (show_range r) = Some r"
proof -
  assume r: "valid_range r"
  have clean: "filter (\<lambda>u. \<not> is_ws u) (trim (show_range r)) = show_range r"
    using show_range_no_ws [of r] by (simp add: trimmed_no_ws filter_id_conv)
  have pieces: "split_unit 45 (show_nat a @ 45 # show_nat b) = [show_nat a, show_nat b]" for a b
    by (simp add: split_unit_append dash_not_digit)
  show ?thesis
    using r clean unfolding parseToken_def valid_range_def
    by (auto simp: show_range_def Let_def pieces dash_not_digit)
qed

interpretation range_codec: item_codec 44 show_range parseToken valid_range
proof unfold_locales
  fix r assume r: "valid_range r"
  show "parseToken (show_range r) = Some r" using r by (rule parseToken_show_range)
  show "show_range r \<noteq> []" by (simp add: show_range_def)
  show "trimmed (show_range r)" using show_range_no_ws by (rule trimmed_no_ws)
  show "44 \<notin> set (show_range r)" by (simp add: show_range_def comma_not_digit)
qed

section \<open>Merging\<close>

lemma codes_of_simps [simp]:
  "codes_of [] = {}"
  "codes_of (r # rs) = {rstart r..rend r} \<union> codes_of rs"
  "codes_of (rs @ ss) = codes_of rs \<union> codes_of ss"
  by (auto simp: codes_of_def)

text \<open>Invariant of the reduction over the sorted ranges: what is merged so far is in normal
  form, stands for the codes seen so far, and its last range does not start after the ranges
  still to come.\<close>

definition merge_inv :: "StatusCodeRange list \<Rightarrow> bool" where
  "merge_inv m \<longleftrightarrow> (\<forall>r\<in>set m. valid_range r) \<and> separated m"

lemma separated_append_last:
  "separated m \<Longrightarrow> m \<noteq> [] \<Longrightarrow> \<forall>r\<in>set m. rstart r \<le> rend r \<Longrightarrow> rend (last m) + 1 < rstart c
   \<Longrightarrow> separated (m @ [c])"
  by (induction m rule: rev_induct) (force simp: separated_def sorted_wrt_append)+

lemma merge_step_cases:
  assumes "\<forall>r\<in>set m. valid_range r" "separated m" "valid_range c"
    and "m \<noteq> [] \<Longrightarrow> rstart (last m) \<le> rstart c"
  shows "(\<forall>r\<in>set (merge_step m c). valid_range r) \<and> separated (merge_step m c)
    \<and> codes_of (merge_step m c) = codes_of m \<union> {rstart c..rend c}
    \<and> rstart (last (merge_step m c)) \<le> rstart c \<and> merge_step m c \<noteq> []"
proof (cases "m = [] \<or> rstart c > rend (last m) + 1")
  case True
  then have "merge_step m c = m @ [c]" by (simp add: merge_step_def)
  moreover have "separated (m @ [c])"
  proof (cases "m = []")
    case True
    then show ?thesis by (simp add: separated_def)
  next
    case False
    with True assms show ?thesis by (intro separated_append_last) (auto simp: valid_range_def)
  qed
  ultimately show ?thesis using assms by auto
next
  case False
  then obtain b l where m: "m = b @ [l]" by (cases m rule: rev_cases) auto
  define l' where "l' = l\<lparr>rend := max (rend l) (rend c)\<rparr>"
  have step: "merge_step m c = b @ [l']" using False m by (simp add: merge_step_def l'_def)
  have close: "rstart l \<le> rstart c" "rstart c \<le> rend l + 1" "rstart l \<le> rend l"
    "rstart c \<le> rend c"
    using assms m False by (auto simp: valid_range_def)
  have "{rstart l'..rend l'} = {rstart l..rend l} \<union> {rstart c..rend c}"
    using close by (auto simp: l'_def)
  then have "codes_of (b @ [l']) = codes_of m \<union> {rstart c..rend c}" using m by auto
  moreover have "valid_range l'"
    using assms m by (auto simp: valid_range_def l'_def isValidCode_def)
  moreover have "separated (b @ [l'])"
    using assms(2) m by (auto simp: separated_def sorted_wrt_append l'_def)
  ultimately show ?thesis using assms(1) m step close by (auto simp: l'_def)
qed

lemma foldl_merge:
  assumes "\<forall>r\<in>set m. valid_range r" "separated m" "\<forall>r\<in>set rs. valid_range r"
    and "sorted (map (\<lambda>r. (rstart r, rend r)) rs)"
    and "m \<noteq> [] \<Longrightarrow> \<forall>r\<in>set rs. rstart (last m) \<le> rstart r"
  shows "(\<forall>r\<in>set (foldl merge_step m rs). valid_range r) \<and> separated (foldl merge_step m rs)
    \<and> codes_of (foldl merge_step m rs) = codes_of m \<union> codes_of rs"
  using assms
proof (induction rs arbitrary: m)
  case (Cons c rs)
  have step: "(\<forall>r\<in>set (merge_step m c). valid_range r)" "separated (merge_step m c)"
    "codes_of (merge_step m c) = codes_of m \<union> {rstart c..rend c}"
    "rstart (last (merge_step m c)) \<le> rstart c"
    using merge_step_cases [of m c] Cons.prems by auto
  have "\<forall>r\<in>set rs. rstart c \<le> rstart r" using Cons.prems(4) by auto
  with step(4) have "\<forall>r\<in>set rs. rstart (last (merge_step m c)) \<le> rstart r" by fastforce
  with Cons.IH [of "merge_step m c"] Cons.prems step show ?case by auto
qed auto

lemma codes_of_sort: "codes_of (sort_key f rs) = codes_of rs"
  by (simp add: codes_of_def)

lemma mergeRanges_spec:
  assumes "\<forall>r\<in>set rs. valid_range r"
  shows "normal_ranges (mergeRanges rs) \<and> codes_of (mergeRanges rs) = codes_of rs"
proof (cases "rs = []")
  case True
  then show ?thesis by (simp add: mergeRanges_def normal_ranges_def separated_def)
next
  case False
  then show ?thesis
    using foldl_merge [of "[]" "sort_key (\<lambda>r. (rstart r, rend r)) rs"] assms
    by (simp add: mergeRanges_def normal_ranges_def separated_def codes_of_sort)
qed

text \<open>A list in normal form is merged to itself.\<close>

lemma normal_sorted: "normal_ranges rs \<Longrightarrow> sorted (map (\<lambda>r. (rstart r, rend r)) rs)"
  unfolding normal_ranges_def separated_def sorted_map
  by (erule conjE, erule sorted_wrt_mono_rel [rotated]) (fastforce simp: valid_range_def)

lemma foldl_merge_separated:
  "separated (m @ rs) \<Longrightarrow> foldl merge_step m rs = m @ rs"
proof (induction rs arbitrary: m)
  case (Cons c rs)
  have "merge_step m c = m @ [c]"
    using Cons.prems by (cases m rule: rev_cases)
      (auto simp: merge_step_def separated_def sorted_wrt_append)
  with Cons show ?case by simp
qed simp

lemma mergeRanges_normal: "normal_ranges rs \<Longrightarrow> mergeRanges rs = rs"
  using foldl_merge_separated [of "[]" rs] normal_sorted [of rs]
  by (auto simp: mergeRanges_def normal_ranges_def sorted_sort_id sort_key_id_if_sorted)

section \<open>The parser\<close>

lemma parse_segments_split:
  "parse_segments ws =
     (map (the \<circ> parseToken) (filter (\<lambda>w. parseToken w \<noteq> None) ws),
      filter (\<lambda>w. parseToken w = None) ws)"
  by (induction ws) (auto split: option.splits)

lemma parse_segments_valid: "r \<in> set (fst (parse_segments ws)) \<Longrightarrow> valid_range r"
  by (auto simp: parse_segments_split dest: parseToken_valid)


lemma parse_segments_shown:
  "\<forall>r\<in>set rs. valid_range r \<Longrightarrow> parse_segments (map show_range rs) = (rs, [])"
  by (induction rs) (auto simp: parseToken_show_range)

definition segments_of :: "jsstring \<Rightarrow> jsstring list" where
  "segments_of s = read_items 44 (map (\<lambda>u. if u = 65292 then 44 else u) (trim s))"

lemma parse_unfold:
  "parseHttpStatusCodeRules (Some s) =
     (if filter (\<lambda>w. parseToken w = None) (segments_of s) \<noteq> [] then
        \<lparr>ok = False, ranges = [], tokens = [], normalized = trim s,
         invalidTokens = filter (\<lambda>w. parseToken w = None) (segments_of s)\<rparr>
      else
        (let merged = mergeRanges (map (the \<circ> parseToken) (segments_of s))
         in \<lparr>ok = True, ranges = merged, tokens = map show_range merged,
             normalized = join [44] (map show_range merged), invalidTokens = []\<rparr>))"
  proof (cases "trim s = []")
  case True
  then have "segments_of s = []" by (simp add: segments_of_def read_items_def)
  with True show ?thesis by (simp add: parseHttpStatusCodeRules_def mergeRanges_def)
next
  case False
  define segs where "segs = segments_of s"
  define bad where "bad = filter (\<lambda>w. parseToken w = None) segs"
  have parts: "parse_segments segs = (map (the \<circ> parseToken) (filter (\<lambda>w. parseToken w \<noteq> None) segs), bad)"
    by (simp add: parse_segments_split bad_def)
  have "bad = [] \<Longrightarrow> filter (\<lambda>w. parseToken w \<noteq> None) segs = segs"
    by (auto simp: bad_def filter_empty_conv filter_id_conv)
  with False parts show ?thesis
    unfolding parseHttpStatusCodeRules_def
    by (simp add: segs_def [symmetric, unfolded segments_of_def] bad_def [symmetric]
        segs_def [symmetric] Let_def)
qed

definition ok_result :: "StatusCodeRange list \<Rightarrow> ParsedHttpStatusCodeRules" where
  "ok_result m = \<lparr>ok = True, ranges = m, tokens = map show_range m,
     normalized = join [44] (map show_range m), invalidTokens = []\<rparr>"

lemma parse_ok:
  "\<forall>w\<in>set (segments_of s). parseToken w \<noteq> None \<Longrightarrow>
   parseHttpStatusCodeRules (Some s) =
     ok_result (mergeRanges (map (the \<circ> parseToken) (segments_of s)))"
  by (simp add: parse_unfold ok_result_def Let_def filter_empty_conv)

lemma ok_iff:
  "ok (parseHttpStatusCodeRules (Some s)) \<longleftrightarrow> (\<forall>w\<in>set (segments_of s). parseToken w \<noteq> None)"
  by (simp add: parse_unfold Let_def filter_empty_conv)

lemma segments_of_join:
  assumes "\<forall>r\<in>set rs. valid_range r"
  shows "segments_of (join [44] (map show_range rs)) = map show_range rs"
proof -
  let ?s = "join [44] (map show_range rs)"
  have no: "\<forall>u\<in>set ?s. \<not> is_ws u \<and> u \<noteq> 65292"
  proof
    fix u assume "u \<in> set ?s"
    with set_join [of "[44]" "map show_range rs"] consider "u = 44" | r where "u \<in> set (show_range r)"
      by auto
    then show "\<not> is_ws u \<and> u \<noteq> 65292"
    proof cases
      case 2
      then have "u = 45 \<or> is_digit u"
        using show_nat_digits by (auto simp: show_range_def split: if_splits)
      then show ?thesis by (auto simp: is_digit_def)
    qed auto
  qed
  then have "trim ?s = ?s" by (intro trim_id trimmed_no_ws) auto
  moreover have "map (\<lambda>u. if u = 65292 then 44 else u) ?s = ?s"
    using no by (intro map_idI) auto
  ultimately show ?thesis
    using range_codec.read_items_join [OF assms] by (simp add: segments_of_def)
qed

section \<open>What the segments denote\<close>

lemma read_nat_zeros: "read_nat (replicate i 48 @ w) = read_nat w"
  unfolding read_nat_def by (induction i) auto

lemma decimal_text_snoc:
  assumes "decimal_text n w" "d < 10"
  shows "decimal_text (10 * n + d) (w @ [48 + d])"
proof (cases "n = 0")
  case True
  from assms obtain i where "w = replicate i 48 @ show_nat 0" using True by (auto simp: decimal_text_def)
  then have "w @ [48 + d] = replicate (Suc i) 48 @ show_nat d"
    using assms(2) by (simp add: show_nat.simps [of 0] show_nat.simps [of d] replicate_append_same)
  then show ?thesis using True unfolding decimal_text_def by (intro exI [of _ "Suc i"]) simp
next
  case False
  then have "show_nat (10 * n + d) = show_nat n @ [48 + d]" using assms(2) by (subst show_nat.simps) auto
  then show ?thesis using assms(1) by (auto simp: decimal_text_def)
qed

text \<open>A text of digits is the notation of the number that it is read as, and of no other.\<close>

lemma digits_decimal: "isNumber w \<Longrightarrow> decimal_text (read_nat w) w"
proof (induction w rule: rev_induct)
  case (snoc u w)
  obtain d where u: "u = 48 + d" "d < 10"
    using snoc.prems by (auto simp: isNumber_def is_digit_def intro!: that [of "u - 48"])
  have r: "read_nat (w @ [u]) = 10 * read_nat w + d" using u by (simp add: read_nat_def read_nat_acc_append)
  show ?case
  proof (cases "w = []")
    case True
    then show ?thesis using u r
      by (auto simp: decimal_text_def read_nat_def show_nat.simps intro!: exI [of _ 0])
  next
    case False
    then have "decimal_text (read_nat w) w" using snoc by (simp add: isNumber_def)
    then show ?thesis using r u decimal_text_snoc by simp
  qed
qed (simp add: isNumber_def)

lemma decimal_text_iff: "decimal_text n w \<longleftrightarrow> isNumber w \<and> read_nat w = n"
proof
  assume "decimal_text n w"
  then show "isNumber w \<and> read_nat w = n"
    using show_nat_digits [of n] by (auto simp: decimal_text_def isNumber_def list_all_iff read_nat_zeros is_digit_def)
next
  assume "isNumber w \<and> read_nat w = n"
  then show "decimal_text n w" using digits_decimal by blast
qed

lemma decimal_no_dash: "decimal_text n w \<Longrightarrow> 45 \<notin> set w \<and> w \<noteq> []"
  using dash_not_digit by (auto simp: decimal_text_def)

lemma filter_trim: "filter (\<lambda>u. \<not> is_ws u) (trim w) = filter (\<lambda>u. \<not> is_ws u) w"
proof -
  have "filter (\<lambda>u. \<not> is_ws u) (dropWhile is_ws s) = filter (\<lambda>u. \<not> is_ws u) s" for s
    by (induction s) auto
  then show ?thesis by (simp add: trim_def rev_filter [symmetric])
qed

lemma split_two:
  "(\<exists>r. split_unit c v = x # y # r) \<longleftrightarrow>
   c \<notin> set x \<and> c \<notin> set y \<and> (\<exists>r. v = x @ [c] @ y @ r \<and> (r = [] \<or> hd r = c))"
proof
  assume "\<exists>r. split_unit c v = x # y # r"
  then obtain r where r: "split_unit c v = x # y # r" by blast
  then have "c \<notin> set x" "c \<notin> set y" using split_unit_no_sep [of _ c v] by auto
  moreover have "v = x @ [c] @ y @ (if r = [] then [] else c # join [c] r)"
    using join_split [of c v] by (cases r) (simp_all add: r)
  ultimately show "c \<notin> set x \<and> c \<notin> set y \<and> (\<exists>r. v = x @ [c] @ y @ r \<and> (r = [] \<or> hd r = c))"
    by (intro conjI exI [of _ "if r = [] then [] else c # join [c] r"]) auto
next
  assume a: "c \<notin> set x \<and> c \<notin> set y \<and> (\<exists>r. v = x @ [c] @ y @ r \<and> (r = [] \<or> hd r = c))"
  then obtain r where r: "v = x @ [c] @ y @ r" "r = [] \<or> hd r = c" by blast
  show "\<exists>r. split_unit c v = x # y # r"
  proof (cases r)
    case (Cons d s)
    then show ?thesis using a r by (simp add: split_unit_append)
  qed (use a r in \<open>simp add: split_unit_append\<close>)
qed

lemma parseToken_names: "parseToken w = Some r \<longleftrightarrow> names_codes w (rstart r) (rend r)"
proof -
  define v where "v = filter (\<lambda>u. \<not> is_ws u) w"
  define ranged where "ranged x y \<longleftrightarrow> (\<exists>r. v = x @ [45] @ y @ r \<and> (r = [] \<or> hd r = (45::nat)))" for x y
  have names: "names_codes w a b \<longleftrightarrow> 100 \<le> a \<and> a \<le> b \<and> b \<le> 599 \<and>
      (a = b \<and> decimal_text a v \<or> (\<exists>x y. ranged x y \<and> decimal_text a x \<and> decimal_text b y))" for a b
    by (auto simp: names_codes_def v_def ranged_def Let_def)
  have rec: "r = \<lparr>rstart = a, rend = b\<rparr> \<longleftrightarrow> rstart r = a \<and> rend r = b" for a b by (cases r) auto
  show ?thesis
  proof (cases "45 \<in> set v")
    case True
    then have "v \<noteq> []" by auto
    have nd: "\<not> decimal_text a v" for a using True decimal_no_dash by blast
    have "\<exists>x y s. split_unit 45 v = x # y # s"
    proof (cases "split_unit 45 v" rule: remdups_adj.cases)
      case (2 x)
      then show ?thesis using True join_split [of 45 v] split_unit_no_sep [of x 45 v] by simp
    qed auto
    then obtain x y s where s: "split_unit 45 v = x # y # s" by blast
    have R: "ranged x' y' \<and> decimal_text a x' \<and> decimal_text b y' \<longleftrightarrow> x' = x \<and> y' = y \<and> decimal_text a x \<and> decimal_text b y" for x' y' a b
      using split_two [of 45 v x' y'] s decimal_no_dash split_two [of 45 v x y] unfolding ranged_def by auto
    have "parseToken w = Some r \<longleftrightarrow> isNumber x \<and> isNumber y \<and> isValidCode (read_nat x) \<and> isValidCode (read_nat y)
        \<and> read_nat x \<le> read_nat y \<and> rstart r = read_nat x \<and> rend r = read_nat y"
      using True \<open>v \<noteq> []\<close> s unfolding parseToken_def filter_trim v_def [symmetric] by (auto simp: rec Let_def)
    also have "\<dots> \<longleftrightarrow> names_codes w (rstart r) (rend r)"
      unfolding names R using nd by (auto simp: decimal_text_iff isValidCode_def)
    finally show ?thesis .
  next
    case False
    then have nr: "\<not> ranged x y" for x y by (auto simp: ranged_def)
    have "parseToken w = Some r \<longleftrightarrow> isNumber v \<and> isValidCode (read_nat v) \<and> rstart r = read_nat v \<and> rend r = read_nat v"
      using False unfolding parseToken_def filter_trim v_def [symmetric] by (auto simp: rec Let_def isNumber_def)
    also have "\<dots> \<longleftrightarrow> names_codes w (rstart r) (rend r)"
      unfolding names using nr by (auto simp: decimal_text_iff isValidCode_def)
    finally show ?thesis .
  qed
qed

lemma parseToken_None: "parseToken w = None \<longleftrightarrow> names_none w"
proof -
  have "(\<exists>a b. names_codes w a b) \<longleftrightarrow> (\<exists>r. parseToken w = Some r)"
    unfolding parseToken_names by (metis StatusCodeRange.select_convs(1,2))
  then show ?thesis by (cases "parseToken w") (auto simp: names_none_def)
qed

lemma ok_ranges:
  assumes "ok (parseHttpStatusCodeRules (Some s))"
  shows "normal_ranges (ranges (parseHttpStatusCodeRules (Some s))) \<and>
    codes_of (ranges (parseHttpStatusCodeRules (Some s))) =
      {c. \<exists>w\<in>set (segments_of s). \<exists>r. parseToken w = Some r \<and> rstart r \<le> c \<and> c \<le> rend r}"
proof -
  let ?rs = "map (the \<circ> parseToken) (segments_of s)"
  from assms have all: "\<forall>w\<in>set (segments_of s). parseToken w \<noteq> None" by (simp add: ok_iff)
  then have "\<forall>r\<in>set ?rs. valid_range r" by (fastforce dest: parseToken_valid)
  then have "normal_ranges (mergeRanges ?rs) \<and> codes_of (mergeRanges ?rs) = codes_of ?rs"
    by (rule mergeRanges_spec)
  moreover have "ranges (parseHttpStatusCodeRules (Some s)) = mergeRanges ?rs"
    using parse_ok [OF all] by (simp add: ok_result_def)
  moreover have "codes_of ?rs =
      {c. \<exists>w\<in>set (segments_of s). \<exists>r. parseToken w = Some r \<and> rstart r \<le> c \<and> c \<le> rend r}"
    using all by (force simp: codes_of_def)
  ultimately show ?thesis by simp
qed

section \<open>Properties\<close>

text \<open>C18: When the rules parse, the ranges are in normal form (valid codes, in increasing order,
  no two of them overlapping or adjacent), and they cover exactly the codes that the tokens
  of the setting denote.\<close>

theorem status_rules_normal_form:
  assumes "ok (parseHttpStatusCodeRules (Some s))"
  shows "normal_ranges (ranges (parseHttpStatusCodeRules (Some s))) \<and>
    codes_of (ranges (parseHttpStatusCodeRules (Some s))) =
      {c. \<exists>w\<in>set (segments_of s). \<exists>r. parseToken w = Some r \<and> rstart r \<le> c \<and> c \<le> rend r}"
  using assms by (rule ok_ranges)

theorem status_rules_normal_form_witness:
  "ok (parseHttpStatusCodeRules (Some (js '' 500-502,429 , 503 '')))
   \<and> normal_ranges (ranges (parseHttpStatusCodeRules (Some (js '' 500-502,429 , 503 ''))))"
proof -
  have "ok (parseHttpStatusCodeRules (Some (js '' 500-502,429 , 503 '')))" by (simp add: js_eval)
  then show ?thesis using status_rules_normal_form by blast
qed

text \<open>Round trip: the normalised text of rules that parse, parsed again, gives the same
  result, with the same ranges, tokens and normalised text.\<close>

theorem status_rules_round_trip:
  assumes "ok (parseHttpStatusCodeRules (Some s))"
  shows "parseHttpStatusCodeRules (Some (normalized (parseHttpStatusCodeRules (Some s))))
    = parseHttpStatusCodeRules (Some s)"
proof -
  define m where "m = mergeRanges (map (the \<circ> parseToken) (segments_of s))"
  from assms have all: "\<forall>w\<in>set (segments_of s). parseToken w \<noteq> None" by (simp add: ok_iff)
  then have "normal_ranges m"
    unfolding m_def by (intro mergeRanges_spec [THEN conjunct1]) (fastforce dest: parseToken_valid)
  then have valid: "\<forall>r\<in>set m. valid_range r" and fixed: "mergeRanges m = m"
    by (auto simp: normal_ranges_def mergeRanges_normal)
  have res: "parseHttpStatusCodeRules (Some s) = ok_result m"
    using parse_ok [OF all] by (simp add: m_def)
  let ?t = "join [44] (map show_range m)"
  have segs: "segments_of ?t = map show_range m" using valid by (rule segments_of_join)
  then have "\<forall>w\<in>set (segments_of ?t). parseToken w \<noteq> None"
    using valid by (auto simp: parseToken_show_range)
  then have "parseHttpStatusCodeRules (Some ?t) =
      ok_result (mergeRanges (map (the \<circ> parseToken) (map show_range m)))"
    using parse_ok segs by metis
  moreover have "map (the \<circ> parseToken) (map show_range m) = m"
    using valid by (auto intro!: map_idI simp: parseToken_show_range)
  ultimately show ?thesis using fixed by (simp add: res) (simp add: ok_result_def)
qed

theorem status_rules_round_trip_witness:
  "parseHttpStatusCodeRules
     (Some (normalized (parseHttpStatusCodeRules (Some (js ''503,500-502'')))))
   = parseHttpStatusCodeRules (Some (js ''503,500-502''))"
proof -
  have "ok (parseHttpStatusCodeRules (Some (js ''503,500-502'')))" by (simp add: js_eval)
  then show ?thesis by (rule status_rules_round_trip)
qed

text \<open>C33: The parser accepts the setting exactly when every segment between its commas names, without its
  blanks, a code from 100 to 599 or an increasing range of such codes in decimal notation, and the
  ranges then cover exactly the codes named; otherwise it reports exactly the segments that name
  none, in order, gives no range and keeps the trimmed text.\<close>

theorem status_rules_error:
  "(ok (parseHttpStatusCodeRules (Some s)) \<longleftrightarrow> (\<forall>w\<in>set (segments_of s). \<exists>a b. names_codes w a b))
   \<and> (ok (parseHttpStatusCodeRules (Some s)) \<longrightarrow>
        codes_of (ranges (parseHttpStatusCodeRules (Some s))) =
          {c. \<exists>w\<in>set (segments_of s). \<exists>a b. names_codes w a b \<and> a \<le> c \<and> c \<le> b})
   \<and> (\<not> ok (parseHttpStatusCodeRules (Some s)) \<longrightarrow>
        parseHttpStatusCodeRules (Some s) =
          \<lparr>ok = False, ranges = [], tokens = [], normalized = trim s,
           invalidTokens = filter names_none (segments_of s)\<rparr>)"
proof -
  have p: "parseToken w = None \<longleftrightarrow> names_none w" "names_none w \<longleftrightarrow> \<not> (\<exists>a b. names_codes w a b)" for w
    by (simp_all add: parseToken_None names_none_def)
  have c: "(\<exists>r. parseToken w = Some r \<and> rstart r \<le> c \<and> c \<le> rend r) \<longleftrightarrow> (\<exists>a b. names_codes w a b \<and> a \<le> c \<and> c \<le> b)" for w c
    unfolding parseToken_names by (metis StatusCodeRange.select_convs(1,2))
  have "ok (parseHttpStatusCodeRules (Some s)) \<longleftrightarrow> (\<forall>w\<in>set (segments_of s). \<exists>a b. names_codes w a b)"
    unfolding ok_iff p by blast
  moreover have "\<not> ok (parseHttpStatusCodeRules (Some s)) \<Longrightarrow> parseHttpStatusCodeRules (Some s) =
      \<lparr>ok = False, ranges = [], tokens = [], normalized = trim s, invalidTokens = filter names_none (segments_of s)\<rparr>"
    unfolding ok_iff by (simp add: parse_unfold parseToken_None filter_empty_conv)
  ultimately show ?thesis using ok_ranges [of s] unfolding c by blast
qed

theorem status_rules_error_witness:
  "filter names_none (segments_of (js ''600,429'')) = [js ''600'']
   \<and> parseHttpStatusCodeRules (Some (js ''600,429'')) =
       \<lparr>ok = False, ranges = [], tokens = [], normalized = js ''600,429'',
        invalidTokens = [js ''600'']\<rparr>"
proof -
  have r: "parseHttpStatusCodeRules (Some (js ''600,429'')) =
       \<lparr>ok = False, ranges = [], tokens = [], normalized = js ''600,429'',
        invalidTokens = [js ''600'']\<rparr>" by (simp add: js_eval)
  then show ?thesis using status_rules_error [of "js ''600,429''"] by simp
qed

end
