(* ===== verification/JS_Number.thy ===== *)
theory JS_Number
  imports Prelude Complex_Main "HOL-Library.Log_Nat"
begin

text \<open>
  JavaScript numbers: IEEE 754 binary64 values.  A finite value is its rational number (the
  two zeros are one value here: no modelled function can tell them apart), every arithmetic
  result is the exact result rounded to nearest, ties to even, and the conversions
  \<open>Number(s)\<close> and \<open>String(n)\<close> are those of ECMA-262.
\<close>

section \<open>Values and rounding\<close>

datatype jsnum = NaN | PInf | NInf | Fin rat

definition two_pow :: "int \<Rightarrow> rat" where
  "two_pow e = (if 0 \<le> e then 2 ^ nat e else 1 / 2 ^ nat (- e))"

definition ten_pow :: "int \<Rightarrow> rat" where
  "ten_pow e = (if 0 \<le> e then 10 ^ nat e else 1 / 10 ^ nat (- e))"

text \<open>The binary exponent of a positive rational: the \<open>e\<close> with \<open>2 ^ e \<le> x < 2 ^ (e + 1)\<close>.\<close>

definition ilog2 :: "rat \<Rightarrow> int" where
  "ilog2 x = (case quotient_of x of (p, q) \<Rightarrow>
     let e = int (floorlog 2 (nat p)) - int (floorlog 2 (nat q))
     in if two_pow e \<le> x then e else e - 1)"

definition round_half_even :: "rat \<Rightarrow> int" where
  "round_half_even x =
     (let f = \<lfloor>x\<rfloor>; d = x - of_int f
      in if d < 1 / 2 then f else if d > 1 / 2 then f + 1 else if even f then f else f + 1)"

text \<open>Rounding to binary64: 53 significant bits, the smallest exponent \<open>-1074\<close>, overflow at
  \<open>2 ^ 1024\<close>.  An integer of at most 53 bits is a binary64 value already.\<close>

definition round_pos :: "rat \<Rightarrow> rat" where
  "round_pos x = (let u = two_pow (max (ilog2 x - 52) (- 1074)) in of_int (round_half_even (x / u)) * u)"

definition small_int :: "rat \<Rightarrow> bool" where
  "small_int x \<longleftrightarrow> of_int \<lfloor>x\<rfloor> = x \<and> \<bar>x\<bar> \<le> 9007199254740992"

definition round64 :: "rat \<Rightarrow> jsnum" where
  "round64 x =
     (if small_int x then Fin x
      else let r = round_pos \<bar>x\<bar>
        in if r \<ge> two_pow 1024 then (if x > 0 then PInf else NInf)
           else Fin (if x > 0 then r else - r))"

section \<open>Operations\<close>

fun js_neg :: "jsnum \<Rightarrow> jsnum" where
  "js_neg NaN = NaN"
| "js_neg PInf = NInf"
| "js_neg NInf = PInf"
| "js_neg (Fin x) = Fin (- x)"

fun js_add :: "jsnum \<Rightarrow> jsnum \<Rightarrow> jsnum" where
  "js_add NaN y = NaN"
| "js_add x NaN = NaN"
| "js_add PInf NInf = NaN"
| "js_add NInf PInf = NaN"
| "js_add PInf y = PInf"
| "js_add x PInf = PInf"
| "js_add NInf y = NInf"
| "js_add x NInf = NInf"
| "js_add (Fin x) (Fin y) = round64 (x + y)"

definition js_inf :: "bool \<Rightarrow> jsnum" where
  "js_inf pos = (if pos then PInf else NInf)"

fun js_mul :: "jsnum \<Rightarrow> jsnum \<Rightarrow> jsnum" where
  "js_mul NaN y = NaN"
| "js_mul x NaN = NaN"
| "js_mul (Fin x) (Fin y) = round64 (x * y)"
| "js_mul (Fin x) PInf = (if x = 0 then NaN else js_inf (x > 0))"
| "js_mul (Fin x) NInf = (if x = 0 then NaN else js_inf (x < 0))"
| "js_mul PInf (Fin y) = (if y = 0 then NaN else js_inf (y > 0))"
| "js_mul NInf (Fin y) = (if y = 0 then NaN else js_inf (y < 0))"
| "js_mul PInf PInf = PInf"
| "js_mul NInf NInf = PInf"
| "js_mul PInf NInf = NInf"
| "js_mul NInf PInf = NInf"

fun js_less :: "jsnum \<Rightarrow> jsnum \<Rightarrow> bool" where
  "js_less NaN y = False"
| "js_less x NaN = False"
| "js_less NInf y = (y \<noteq> NInf)"
| "js_less x NInf = False"
| "js_less PInf y = False"
| "js_less x PInf = True"
| "js_less (Fin x) (Fin y) = (x < y)"

definition js_sub :: "jsnum \<Rightarrow> jsnum \<Rightarrow> jsnum" where
  "js_sub x y = js_add x (js_neg y)"

fun js_abs :: "jsnum \<Rightarrow> jsnum" where
  "js_abs (Fin x) = Fin \<bar>x\<bar>"
| "js_abs NInf = PInf"
| "js_abs y = y"

text \<open>Division.  A zero divisor is the positive zero: no modelled function divides by a negative one.\<close>

fun js_div :: "jsnum \<Rightarrow> jsnum \<Rightarrow> jsnum" where
  "js_div (Fin x) (Fin y) = (if y = 0 then (if x = 0 then NaN else js_inf (x > 0)) else round64 (x / y))"
| "js_div NaN y = NaN"
| "js_div x NaN = NaN"
| "js_div (Fin x) y = Fin 0"
| "js_div PInf (Fin y) = js_inf (y \<ge> 0)"
| "js_div NInf (Fin y) = js_inf (y < 0)"
| "js_div x y = NaN"

definition js_le :: "jsnum \<Rightarrow> jsnum \<Rightarrow> bool" where
  "js_le x y \<longleftrightarrow> js_less x y \<or> x = y \<and> x \<noteq> NaN"

definition js_min :: "jsnum \<Rightarrow> jsnum \<Rightarrow> jsnum" where
  "js_min x y = (if x = NaN \<or> y = NaN then NaN else if js_less y x then y else x)"

definition js_max :: "jsnum \<Rightarrow> jsnum \<Rightarrow> jsnum" where
  "js_max x y = (if x = NaN \<or> y = NaN then NaN else if js_less x y then y else x)"

text \<open>The remainder \<open>x % y\<close>, which has the sign of \<open>x\<close> and is exact.\<close>

fun js_mod :: "jsnum \<Rightarrow> jsnum \<Rightarrow> jsnum" where
  "js_mod (Fin x) (Fin y) =
     (if y = 0 then NaN
      else Fin (if 0 \<le> x then x - \<bar>y\<bar> * of_int \<lfloor>x / \<bar>y\<bar>\<rfloor> else x + \<bar>y\<bar> * of_int \<lfloor>- x / \<bar>y\<bar>\<rfloor>))"
| "js_mod (Fin x) PInf = Fin x"
| "js_mod (Fin x) NInf = Fin x"
| "js_mod _ _ = NaN"

fun js_isSafeInteger :: "jsnum \<Rightarrow> bool" where
  "js_isSafeInteger (Fin x) \<longleftrightarrow> of_int \<lfloor>x\<rfloor> = x \<and> \<bar>x\<bar> \<le> 9007199254740991"
| "js_isSafeInteger _ \<longleftrightarrow> False"

text \<open>Truthiness: \<open>0\<close> and \<open>NaN\<close> are false.\<close>

fun js_truthy_num :: "jsnum \<Rightarrow> bool" where
  "js_truthy_num NaN = False"
| "js_truthy_num (Fin x) = (x \<noteq> 0)"
| "js_truthy_num _ = True"

fun js_isFinite :: "jsnum \<Rightarrow> bool" where
  "js_isFinite (Fin x) = True"
| "js_isFinite _ = False"

fun js_isInteger :: "jsnum \<Rightarrow> bool" where
  "js_isInteger (Fin x) = (of_int \<lfloor>x\<rfloor> = x)"
| "js_isInteger _ = False"

fun js_ceil :: "jsnum \<Rightarrow> jsnum" where
  "js_ceil (Fin x) = Fin (of_int \<lceil>x\<rceil>)"
| "js_ceil y = y"

fun js_floor :: "jsnum \<Rightarrow> jsnum" where
  "js_floor (Fin x) = Fin (of_int \<lfloor>x\<rfloor>)"
| "js_floor y = y"

abbreviation num :: "nat \<Rightarrow> jsnum" where
  "num n \<equiv> Fin (of_nat n)"

section \<open>Number(s)\<close>

text \<open>StrUnsignedDecimalLiteral: digits with an optional fraction, or a fraction alone, and an
  optional exponent; the whole text must be used.\<close>

definition parse_exponent :: "jsstring \<Rightarrow> int option" where
  "parse_exponent s =
     (case s of
        [] \<Rightarrow> Some 0
      | u # r \<Rightarrow>
          if u = 101 \<or> u = 69 then
            (let neg = (r \<noteq> [] \<and> hd r = 45);
                 ds = (if r \<noteq> [] \<and> (hd r = 43 \<or> hd r = 45) then tl r else r)
             in if ds \<noteq> [] \<and> list_all is_digit ds
                then Some (if neg then - int (read_nat ds) else int (read_nat ds))
                else None)
          else None)"

definition parse_decimal :: "jsstring \<Rightarrow> rat option" where
  "parse_decimal s =
     (let ip = takeWhile is_digit s; r = dropWhile is_digit s;
          dot = (r \<noteq> [] \<and> hd r = 46);
          fp = (if dot then takeWhile is_digit (tl r) else []);
          r' = (if dot then dropWhile is_digit (tl r) else r)
      in if ip = [] \<and> fp = [] then None
         else map_option (\<lambda>e. of_nat (read_nat (ip @ fp)) * ten_pow (e - int (length fp)))
           (parse_exponent r'))"

definition digit_value :: "unit16 \<Rightarrow> nat" where
  "digit_value u =
     (if 48 \<le> u \<and> u \<le> 57 then u - 48 else if 97 \<le> u \<and> u \<le> 122 then u - 87
      else if 65 \<le> u \<and> u \<le> 90 then u - 55 else 99)"

definition parse_radix :: "nat \<Rightarrow> jsstring \<Rightarrow> jsnum" where
  "parse_radix b ds =
     (if ds \<noteq> [] \<and> list_all (\<lambda>u. digit_value u < b) ds
      then round64 (of_nat (foldl (\<lambda>a u. b * a + digit_value u) 0 ds)) else NaN)"

definition js_Number :: "jsstring \<Rightarrow> jsnum" where
  "js_Number str =
     (let s = trim str
      in if s = [] then Fin 0
         else if startsWith s (js ''0x'') \<or> startsWith s (js ''0X'') then parse_radix 16 (drop 2 s)
         else if startsWith s (js ''0o'') \<or> startsWith s (js ''0O'') then parse_radix 8 (drop 2 s)
         else if startsWith s (js ''0b'') \<or> startsWith s (js ''0B'') then parse_radix 2 (drop 2 s)
         else
           (let neg = (hd s = 45);
                body = (if hd s = 43 \<or> hd s = 45 then tl s else s);
                v = (if body = js ''Infinity'' then PInf
                     else case parse_decimal body of None \<Rightarrow> NaN | Some x \<Rightarrow> round64 x)
            in if neg then js_neg v else v))"

section \<open>String(n)\<close>

text \<open>Number::toString: the shortest decimal \<open>d * 10 ^ (e - k)\<close> with \<open>k\<close> digits that rounds to
  the value, found by trying \<open>k = 1, 2, ...\<close>; 17 digits are always enough for binary64.  An
  integer of at most 53 bits is printed with all its digits.\<close>

definition dec_exp :: "rat \<Rightarrow> int" where
  "dec_exp x =
     (let g = \<lfloor>of_int (ilog2 x) * (30103 / 100000 :: rat)\<rfloor>
      in if ten_pow (g + 1) \<le> x then g + 2 else if ten_pow g \<le> x then g + 1 else g)"

fun shortest_digits :: "nat \<Rightarrow> nat \<Rightarrow> rat \<Rightarrow> int \<Rightarrow> nat \<times> nat" where
  "shortest_digits 0 k x e = (nat \<lfloor>x * ten_pow (int k - e)\<rfloor>, k)"
| "shortest_digits (Suc fuel) k x e =
     (let d = round_half_even (x * ten_pow (int k - e))
      in if round64 (of_int d * ten_pow (e - int k)) = Fin x then (nat d, k)
         else shortest_digits fuel (Suc k) x e)"

definition show_pos :: "rat \<Rightarrow> jsstring" where
  "show_pos x =
     (let n = dec_exp x; (d, k) = shortest_digits 17 1 x n; ds = show_nat d;
          n' = int (length ds) - int k + n
      in if int (length ds) \<le> n' \<and> n' \<le> 21 then ds @ replicate (nat n' - length ds) 48
         else if 0 < n' \<and> n' \<le> 21 then take (nat n') ds @ js ''.'' @ drop (nat n') ds
         else if - 6 < n' \<and> n' \<le> 0 then js ''0.'' @ replicate (nat (- n')) 48 @ ds
         else
           (let ex = js (if 0 \<le> n' - 1 then ''e+'' else ''e-'') @ show_nat (nat \<bar>n' - 1\<bar>)
            in if length ds = 1 then ds @ ex else take 1 ds @ js ''.'' @ drop 1 ds @ ex))"

fun js_String :: "jsnum \<Rightarrow> jsstring" where
  "js_String NaN = js ''NaN''"
| "js_String PInf = js ''Infinity''"
| "js_String NInf = js ''-Infinity''"
| "js_String (Fin x) =
     (let sgn = (if x < 0 then js ''-'' else [])
      in if small_int x then sgn @ show_nat (nat \<bar>\<lfloor>x\<rfloor>\<bar>) else sgn @ show_pos \<bar>x\<bar>)"

section \<open>Integers of at most 53 bits\<close>

lemma floor_of_nat_rat [simp]: "\<lfloor>of_nat n :: rat\<rfloor> = int n"
  by (metis floor_of_int of_int_of_nat_eq)

lemma small_int_nat: "n \<le> 9007199254740992 \<Longrightarrow> small_int (of_nat n)"
proof -
  assume "n \<le> 9007199254740992"
  then have "(of_nat n :: rat) \<le> of_nat 9007199254740992" by (rule of_nat_mono)
  then show ?thesis by (simp add: small_int_def)
qed

lemma round64_nat: "n \<le> 9007199254740992 \<Longrightarrow> round64 (of_nat n) = num n"
  by (simp add: round64_def small_int_nat)

lemma js_String_nat: "n \<le> 9007199254740992 \<Longrightarrow> js_String (num n) = show_nat n"
  by (simp add: small_int_nat)

lemma parse_exponent_Nil [simp]: "parse_exponent [] = Some 0"
  by (simp add: parse_exponent_def)

lemma parse_decimal_digits:
  "s \<noteq> [] \<Longrightarrow> list_all is_digit s \<Longrightarrow> parse_decimal s = Some (of_nat (read_nat s))"
proof -
  assume s: "s \<noteq> []" "list_all is_digit s"
  then have run: "takeWhile is_digit s = s" "dropWhile is_digit s = []"
    by (auto simp: takeWhile_eq_all_conv dropWhile_eq_Nil_conv list_all_iff)
  show ?thesis unfolding parse_decimal_def run using s(1) by (simp add: ten_pow_def)
qed

lemma digits_not_prefixed:
  "list_all is_digit s \<Longrightarrow> \<not> is_digit v \<Longrightarrow> \<not> startsWith s [u, v]"
  by (cases s; cases "tl s") (auto simp: startsWith_def)

lemma js_Number_digits:
  assumes "s \<noteq> []" "list_all is_digit s" "read_nat s \<le> 9007199254740992"
  shows "js_Number s = num (read_nat s)"
proof -
  have tr: "trim s = s"
    using assms(2) by (intro trim_id trimmed_no_ws) (auto simp: list_all_iff dest: digit_not_ws)
  have hd: "is_digit (hd s)" using assms(1,2) by (cases s) auto
  then have "hd s \<noteq> 43" "hd s \<noteq> 45" "s \<noteq> js ''Infinity''" by (auto simp: is_digit_def)
  moreover have "\<not> startsWith s [48, v]" if "\<not> is_digit v" for v
    using digits_not_prefixed [OF assms(2) that] .
  ultimately show ?thesis
    using assms tr
    by (simp add: js_Number_def parse_decimal_digits round64_nat is_digit_def Let_def)
qed

text \<open>An integer of at most 53 bits survives \<open>Number(String(n))\<close>.\<close>

lemma js_Number_show_nat: "n \<le> 9007199254740992 \<Longrightarrow> js_Number (show_nat n) = num n"
  using js_Number_digits [of "show_nat n"] show_nat_digits by (simp add: list_all_iff)

lemma js_isInteger_nat [simp]: "js_isInteger (num n)"
  by simp

end
