(* ===== verification/JS_Regex.thy ===== *)
theory JS_Regex
  imports Prelude
begin

text \<open>
  The regular expressions of JavaScript that the sources use, as data, with the backtracking
  matcher of ECMA-262: a pattern maps a state (the text already passed, reversed; the text
  still to read; the capture groups) to the list of the states it can end in, in the order
  in which the backtracking matcher tries them.  The first state of the list is the match.
  An iteration of a star that consumes nothing is discarded, as the standard requires, so
  that the length of the remaining text bounds the iterations.
\<close>

section \<open>Patterns and matching\<close>

type_synonym caps = "nat \<Rightarrow> jsstring option"

type_synonym rstate = "jsstring \<times> jsstring \<times> caps"

datatype re =
    RSet "unit16 \<Rightarrow> bool"
  | REps
  | RSeq re re
  | RAlt re re
  | RStar re
  | RGroup nat re
  | RBack nat
  | RBegin
  | REnd
  | RWordB

abbreviation rest_of :: "rstate \<Rightarrow> jsstring" where
  "rest_of st \<equiv> fst (snd st)"

primrec rstar :: "(rstate \<Rightarrow> rstate list) \<Rightarrow> nat \<Rightarrow> rstate \<Rightarrow> rstate list" where
  "rstar f 0 st = [st]"
| "rstar f (Suc n) st =
     concat (map (\<lambda>st'. if length (rest_of st') < length (rest_of st) then rstar f n st' else [])
       (f st)) @ [st]"

definition is_word :: "unit16 \<Rightarrow> bool" where
  "is_word u \<longleftrightarrow> 48 \<le> u \<and> u \<le> 57 \<or> 65 \<le> u \<and> u \<le> 90 \<or> u = 95 \<or> 97 \<le> u \<and> u \<le> 122"

definition word_at :: "jsstring \<Rightarrow> bool" where
  "word_at s = (case s of [] \<Rightarrow> False | u # _ \<Rightarrow> is_word u)"

primrec rmatch :: "re \<Rightarrow> rstate \<Rightarrow> rstate list" where
  "rmatch (RSet P) st =
     (case st of (pre, s, c) \<Rightarrow>
        (case s of [] \<Rightarrow> [] | u # r \<Rightarrow> if P u then [(u # pre, r, c)] else []))"
| "rmatch REps st = [st]"
| "rmatch (RSeq a b) st = concat (map (rmatch b) (rmatch a st))"
| "rmatch (RAlt a b) st = rmatch a st @ rmatch b st"
| "rmatch (RStar a) st = rstar (rmatch a) (length (rest_of st)) st"
| "rmatch (RGroup i a) st =
     map (\<lambda>(pre', s', c'). (pre', s', c'(i \<mapsto> rev (take (length pre' - length (fst st)) pre'))))
       (rmatch a st)"
| "rmatch (RBack i) st =
     (case st of (pre, s, c) \<Rightarrow>
        let w = (case c i of None \<Rightarrow> [] | Some w \<Rightarrow> w)
        in if startsWith s w then [(rev w @ pre, drop (length w) s, c)] else [])"
| "rmatch RBegin st = (if fst st = [] then [st] else [])"
| "rmatch REnd st = (if rest_of st = [] then [st] else [])"
| "rmatch RWordB st = (if word_at (fst st) \<noteq> word_at (rest_of st) then [st] else [])"

definition no_caps :: caps where
  "no_caps = (\<lambda>_. None)"

text \<open>The search for the leftmost match: the text before the match (reversed), and the state
  after it.\<close>

fun exec_from :: "re \<Rightarrow> jsstring \<Rightarrow> jsstring \<Rightarrow> (jsstring \<times> rstate) option" where
  "exec_from r pre s =
     (case rmatch r (pre, s, no_caps) of
        st # _ \<Rightarrow> Some (pre, st)
      | [] \<Rightarrow> (case s of [] \<Rightarrow> None | u # s' \<Rightarrow> exec_from r (u # pre) s'))"

declare exec_from.simps [simp del]

text \<open>\<open>s.match(re)\<close> for a pattern without the flag \<open>g\<close>: the groups of the leftmost match; and
  \<open>re.test(s)\<close>.\<close>

definition re_match :: "re \<Rightarrow> jsstring \<Rightarrow> caps option" where
  "re_match r s = map_option (\<lambda>(_, _, _, c). c) (exec_from r [] s)"

definition re_test :: "re \<Rightarrow> jsstring \<Rightarrow> bool" where
  "re_test r s \<longleftrightarrow> exec_from r [] s \<noteq> None"

section \<open>Derived patterns\<close>

primrec rlit_units :: "jsstring \<Rightarrow> re" where
  "rlit_units [] = REps"
| "rlit_units (u # us) = RSeq (RSet ((=) u)) (rlit_units us)"

definition rlit :: "string \<Rightarrow> re" where
  "rlit s = rlit_units (js s)"

definition rplus :: "re \<Rightarrow> re" where
  "rplus r = RSeq r (RStar r)"

definition ropt :: "re \<Rightarrow> re" where
  "ropt r = RAlt r REps"

fun rseqs :: "re list \<Rightarrow> re" where
  "rseqs [] = REps"
| "rseqs [r] = r"
| "rseqs (r # rs) = RSeq r (rseqs rs)"

fun ralts :: "re list \<Rightarrow> re" where
  "ralts [] = REps"
| "ralts [r] = r"
| "ralts (r # rs) = RAlt r (ralts rs)"

text \<open>A lower-case ASCII letter under the flag \<open>i\<close>.\<close>

definition any_case :: "unit16 \<Rightarrow> re" where
  "any_case u = RSet (\<lambda>v. v = u \<or> v + 32 = u)"

definition any_dotall :: "unit16 \<Rightarrow> bool" where
  "any_dotall u \<longleftrightarrow> True"

definition any_dot :: "unit16 \<Rightarrow> bool" where
  "any_dot u \<longleftrightarrow> u \<notin> {10, 13, 8232, 8233}"

definition group :: "caps \<Rightarrow> nat \<Rightarrow> jsstring" where
  "group c i = (case c i of None \<Rightarrow> [] | Some w \<Rightarrow> w)"

section \<open>How patterns read their input\<close>

subsection \<open>What a pattern consumes\<close>

lemma rstar_suffix:
  assumes "\<And>st st'. st' \<in> set (f st) \<Longrightarrow> \<exists>w. rest_of st = w @ rest_of st' \<and> fst st' = rev w @ fst st"
    and "st' \<in> set (rstar f n st)"
  shows "\<exists>w. rest_of st = w @ rest_of st' \<and> fst st' = rev w @ fst st"
  using assms(2)
proof (induction n arbitrary: st)
  case (Suc n)
  show ?case
  proof (cases "st' = st")
    case False
    with Suc.prems obtain st1 where "st1 \<in> set (f st)" "st' \<in> set (rstar f n st1)"
      by (auto split: if_splits)
    then obtain v w where "rest_of st = v @ rest_of st1" "fst st1 = rev v @ fst st"
      "rest_of st1 = w @ rest_of st'" "fst st' = rev w @ fst st1"
      using assms(1) Suc.IH by meson
    then show ?thesis by (intro exI [of _ "v @ w"]) simp
  qed simp
qed simp

text \<open>A match moves a prefix of the remaining text to the text already passed.\<close>

lemma rmatch_consumes:
  "st' \<in> set (rmatch r st) \<Longrightarrow> \<exists>w. rest_of st = w @ rest_of st' \<and> fst st' = rev w @ fst st"
proof (induction r arbitrary: st st')
  case (RSet P)
  then show ?case
    by (cases st) (auto split: list.splits if_splits)
next
  case (RSeq a b)
  then obtain st1 where "st1 \<in> set (rmatch a st)" "st' \<in> set (rmatch b st1)" by auto
  with RSeq.IH obtain v w where "rest_of st = v @ rest_of st1" "fst st1 = rev v @ fst st"
      "rest_of st1 = w @ rest_of st'" "fst st' = rev w @ fst st1" by meson
  then show ?case by (intro exI [of _ "v @ w"]) simp
next
  case (RStar r)
  then show ?case using rstar_suffix [of "rmatch r"] by (metis rmatch.simps(5))
next
  case (RBack i)
  then show ?case
    by (cases st) (auto simp: Let_def startsWith_def split: if_splits, metis append_take_drop_id)
qed (auto split: if_splits, blast?)

lemma rmatch_le: "st' \<in> set (rmatch r st) \<Longrightarrow> length (rest_of st') \<le> length (rest_of st)"
  using rmatch_consumes by fastforce

subsection \<open>Enough fuel for the star\<close>

lemma rstar_fuel:
  "length (rest_of st) \<le> n \<Longrightarrow> length (rest_of st) \<le> m \<Longrightarrow> rstar f n st = rstar f m st"
proof (induction n arbitrary: m st)
  case 0
  then show ?case by (cases m) auto
next
  case (Suc n)
  show ?case
  proof (cases m)
    case 0
    with Suc.prems show ?thesis by auto
  next
    case (Suc k)
    have "rstar f n st' = rstar f k st'" if "length (rest_of st') < length (rest_of st)" for st'
      using that Suc Suc.prems by (intro Suc.IH) auto
    then have "map (\<lambda>st'. if length (rest_of st') < length (rest_of st) then rstar f n st' else []) (f st)
        = map (\<lambda>st'. if length (rest_of st') < length (rest_of st) then rstar f k st' else []) (f st)"
      by (intro map_cong) auto
    with Suc show ?thesis by (simp only: rstar.simps)
  qed
qed

text \<open>The star of the standard: one more iteration that consumes something, or stop.\<close>

lemma rmatch_star_unfold:
  "rmatch (RStar r) st =
     concat (map (\<lambda>st'. if length (rest_of st') < length (rest_of st)
       then rmatch (RStar r) st' else []) (rmatch r st)) @ [st]"
proof (cases "rest_of st")
  case Nil
  then show ?thesis by (auto simp: concat_eq_Nil_conv)
next
  case (Cons u s)
  have "(if length (rest_of st') < length (rest_of st) then rstar (rmatch r) (length s) st' else [])
      = (if length (rest_of st') < length (rest_of st) then rmatch (RStar r) st' else [])" for st'
    using Cons rstar_fuel [of st' "length s" "length (rest_of st')" "rmatch r"] by auto
  then show ?thesis using Cons by simp
qed

subsection \<open>Literals and runs of a character class\<close>

lemma rmatch_lit_units [simp]:
  "rmatch (rlit_units w) (pre, s, c) =
     (if startsWith s w then [(rev w @ pre, drop (length w) s, c)] else [])"
  by (induction w arbitrary: pre s) (auto simp: startsWith_def split: list.splits)

lemma rmatch_lit [simp]:
  "rmatch (rlit w) (pre, s, c) =
     (if startsWith s (js w) then [(rev (js w) @ pre, drop (length w) s, c)] else [])"
  by (simp add: rlit_def)

lemma startsWith_append [simp]: "startsWith (w @ s) w"
  by (simp add: startsWith_def)

lemma startsWith_self [simp]: "startsWith w w"
  by (simp add: startsWith_def)

lemma rmatch_set_Cons [simp]:
  "rmatch (RSet P) (pre, u # s, c) = (if P u then [(u # pre, s, c)] else [])"
  "rmatch (RSet P) (pre, [], c) = []"
  by auto

lemma rmatch_class_star:
  "rmatch (RStar (RSet P)) (pre, [], c) = [(pre, [], c)]"
  "rmatch (RStar (RSet P)) (pre, u # s, c) =
     (if P u then rmatch (RStar (RSet P)) (u # pre, s, c) else []) @ [(pre, u # s, c)]"
  by (subst rmatch_star_unfold; simp del: rmatch.simps(5))+

text \<open>A pattern refuses a class when it cannot start on a unit of the class.  A greedy run of
  the class followed by such a pattern takes the longest run and nothing else.\<close>

definition refuses :: "re \<Rightarrow> (unit16 \<Rightarrow> bool) \<Rightarrow> bool" where
  "refuses k P \<longleftrightarrow> (\<forall>pre u s c. P u \<longrightarrow> rmatch k (pre, u # s, c) = [])"

lemma refusesD: "refuses k P \<Longrightarrow> P u \<Longrightarrow> rmatch k (pre, u # s, c) = []"
  by (simp add: refuses_def)

lemma refuses_lit [intro]: "w \<noteq> [] \<Longrightarrow> \<not> P (of_char (hd w)) \<Longrightarrow> refuses (rlit w) P"
  by (cases w) (auto simp: refuses_def startsWith_def)

lemma refuses_seq [intro]: "refuses a P \<Longrightarrow> refuses (RSeq a b) P"
  by (simp add: refuses_def)

lemma refuses_set [intro]: "(\<And>u. P u \<Longrightarrow> \<not> Q u) \<Longrightarrow> refuses (RSet Q) P"
  by (simp add: refuses_def)

lemma refuses_end [intro, simp]: "refuses REnd P"
  by (simp add: refuses_def)

lemma greedy_run:
  assumes "refuses k P"
  shows "concat (map (rmatch k) (rmatch (RStar (RSet P)) (pre, s, c)))
    = rmatch k (rev (takeWhile P s) @ pre, dropWhile P s, c)"
proof (induction s arbitrary: pre)
  case (Cons u s)
  show ?case
  proof (cases "P u")
    case True
    with Cons refusesD [OF assms True] show ?thesis by (simp add: rmatch_class_star del: rmatch.simps(5))
  next
    case False
    then show ?thesis by (simp add: rmatch_class_star del: rmatch.simps(5))
  qed
qed (simp add: rmatch_class_star del: rmatch.simps(5))

definition with_group :: "nat \<Rightarrow> jsstring \<Rightarrow> rstate \<Rightarrow> rstate" where
  "with_group i p0 st =
     (case st of (pre', s', c') \<Rightarrow> (pre', s', c'(i \<mapsto> rev (take (length pre' - length p0) pre'))))"

lemma rmatch_group: "rmatch (RGroup i a) st = map (with_group i (fst st)) (rmatch a st)"
  by (simp add: with_group_def)

lemma with_group_append [simp]:
  "with_group i p0 (rev w @ p0, s, c) = (rev w @ p0, s, c(i \<mapsto> w))"
  by (simp add: with_group_def)

lemma with_group_self [simp]: "with_group i p0 (p0, s, c) = (p0, s, c(i \<mapsto> []))"
  by (simp add: with_group_def)

lemma greedy_group_aux:
  assumes "refuses k P"
  shows "concat (map (rmatch k)
      (map (with_group i p0) (rmatch (RStar (RSet P)) (rev w @ p0, s, c))))
    = rmatch k (rev (w @ takeWhile P s) @ p0, dropWhile P s, c(i \<mapsto> w @ takeWhile P s))"
proof (induction s arbitrary: w)
  case Nil
  then show ?case by (simp add: rmatch_class_star fun_upd_def del: rmatch.simps(5))
next
  case (Cons u s)
  show ?case
  proof (cases "P u")
    case True
    with Cons [of "w @ [u]"] refusesD [OF assms True] show ?thesis
      by (simp add: rmatch_class_star del: rmatch.simps(5))
  next
    case False
    then show ?thesis by (simp add: rmatch_class_star fun_upd_def del: rmatch.simps(5))
  qed
qed

text \<open>A captured, non-empty, greedy run of a class.\<close>

lemma greedy_group:
  assumes "refuses k P"
  shows "rmatch (RSeq (RGroup i (rplus (RSet P))) k) (pre, s, c) =
    (if takeWhile P s = [] then []
     else rmatch k (rev (takeWhile P s) @ pre, dropWhile P s, c(i \<mapsto> takeWhile P s)))"
proof (cases s)
  case Nil
  then show ?thesis by (simp add: rplus_def)
next
  case (Cons u t)
  then show ?thesis
    using greedy_group_aux [OF assms, of i pre "[u]" t c]
    by (simp add: rplus_def rmatch_group del: rmatch.simps(5,6))
qed

text \<open>The possible ends of a run, for patterns whose run is not cut by what follows.\<close>

lemma set_class_star:
  "set (rmatch (RStar (RSet P)) (pre, s, c)) =
     {(rev w @ pre, r, c) |w r. s = w @ r \<and> list_all P w}"
proof (induction s arbitrary: pre)
  case Nil
  then show ?case by (auto simp: rmatch_class_star simp del: rmatch.simps(5))
next
  case (Cons u s)
  have "u # s = w @ r \<and> list_all P w \<longleftrightarrow>
      w = [] \<and> r = u # s \<or> P u \<and> (\<exists>v. w = u # v \<and> s = v @ r \<and> list_all P v)" for w r
    by (cases w) auto
  with Cons [of "u # pre"] show ?case
    by (auto simp: rmatch_class_star simp del: rmatch.simps(5))
qed

lemma set_group_plus:
  "set (rmatch (RGroup i (rplus (RSet P))) (pre, s, c)) =
     {(rev w @ pre, r, c(i \<mapsto> w)) |w r. s = w @ r \<and> w \<noteq> [] \<and> list_all P w}"
proof (cases s)
  case Nil
  then show ?thesis by (auto simp: rplus_def rmatch_group simp del: rmatch.simps(5,6))
next
  case (Cons u t)
  have grp: "with_group i pre (rev w @ u # pre, r, c) = (rev (u # w) @ pre, r, c(i \<mapsto> u # w))" for w r
    using with_group_append [of i pre "u # w" r c] by simp
  have run: "rmatch (rplus (RSet P)) (pre, u # t, c) =
      (if P u then rmatch (RStar (RSet P)) (u # pre, t, c) else [])"
    by (simp add: rplus_def del: rmatch.simps(5))
  have split: "u # t = w @ r \<and> w \<noteq> [] \<and> list_all P w \<longleftrightarrow>
      P u \<and> (\<exists>v. w = u # v \<and> t = v @ r \<and> list_all P v)" for w r
    by (cases w) auto
  have "set (rmatch (RGroup i (rplus (RSet P))) (pre, u # t, c)) =
      (if P u then {with_group i pre (rev v @ u # pre, r, c) |v r. t = v @ r \<and> list_all P v} else {})"
    unfolding rmatch_group set_map run fst_conv by (auto simp: set_class_star simp del: rmatch.simps(5))
  then show ?thesis unfolding Cons split grp by (auto simp del: rmatch.simps)
qed

subsection \<open>Anchored patterns\<close>

lemma rmatch_begin_later [simp]: "rmatch (RSeq RBegin r) (u # pre, s, c) = []"
  by simp

lemma exec_from_begin:
  "exec_from (RSeq RBegin r) (u # pre) s = None"
proof (induction s arbitrary: u pre)
  case Nil
  show ?case by (subst exec_from.simps) simp
next
  case (Cons v s)
  show ?case by (subst exec_from.simps) (simp add: Cons)
qed

lemma exec_begin:
  "exec_from (RSeq RBegin r) [] s =
     map_option (\<lambda>st. ([], st)) (first (rmatch r ([], s, no_caps)))"
  by (subst exec_from.simps) (auto simp: exec_from_begin first_def split: list.splits)

text \<open>A pattern anchored at the start matches at the start or not at all.\<close>

lemma re_match_begin:
  "re_match (RSeq RBegin r) s =
     map_option (\<lambda>(_, _, c). c) (first (rmatch r ([], s, no_caps)))"
  by (cases "first (rmatch r ([], s, no_caps))") (auto simp: re_match_def exec_begin)

lemma re_test_begin:
  "re_test (RSeq RBegin r) s \<longleftrightarrow> rmatch r ([], s, no_caps) \<noteq> []"
  by (auto simp: re_test_def exec_begin first_def split: list.splits)

lemma first_unique: "xs \<noteq> [] \<Longrightarrow> \<forall>y\<in>set xs. y = x \<Longrightarrow> first xs = Some x"
  by (cases xs) (auto simp: first_def)

lemma first_Nil_iff [simp]: "first xs = None \<longleftrightarrow> xs = []"
  by (cases xs) (auto simp: first_def)

lemma first_simps [simp]: "first [] = None" "first (x # xs) = Some x"
  by (auto simp: first_def)

lemmas regex_eval = re_match_begin re_test_begin rmatch_class_star rmatch_group with_group_def
  rplus_def ropt_def rseqs.simps ralts.simps group_def no_caps_def


subsection \<open>Symbolic evaluation\<close>

text \<open>These rules run a pattern on a text of which only some pieces are known: a literal is
  compared unit by unit, a greedy group takes the longest run of its class.\<close>

named_theorems rx \<open>symbolic evaluation of patterns\<close>

lemma startsWith_units [rx]:
  "startsWith s []"
  "startsWith (u # s) (v # w) \<longleftrightarrow> u = v \<and> startsWith s w"
  "\<not> startsWith [] (v # w)"
  by (auto simp: startsWith_def)

lemma rmatch_seq_lit [rx]:
  "rmatch (RSeq (rlit w) k) (pre, s, c) =
     (if startsWith s (js w) then rmatch k (rev (js w) @ pre, drop (length w) s, c) else [])"
  by simp

lemma rmatch_seq_set [rx]:
  "rmatch (RSeq (RSet P) k) (pre, u # s, c) = (if P u then rmatch k (u # pre, s, c) else [])"
  "rmatch (RSeq (RSet P) k) (pre, [], c) = []"
  by auto

lemma concat_map_concat: "concat (map f (concat xss)) = concat (map (\<lambda>xs. concat (map f xs)) xss)"
  by (induction xss) auto

lemma rmatch_seq_assoc [rx]:
  "rmatch (RSeq (RSeq a b) k) st = rmatch (RSeq a (RSeq b k)) st"
  proof -
  have "rmatch (RSeq b k) = (\<lambda>x. concat (map (rmatch k) (rmatch b x)))" by (rule ext) simp
  then show ?thesis by (simp only: rmatch.simps(3) concat_map_concat map_map comp_def)
qed

lemma rmatch_seq_alt [rx]:
  "rmatch (RSeq (RAlt a b) k) st = rmatch (RSeq a k) st @ rmatch (RSeq b k) st"
  by simp

lemma rmatch_seq_eps [rx]: "rmatch (RSeq REps k) st = rmatch k st"
  by simp

lemma rmatch_end [rx]:
  "rmatch REnd (pre, s, c) = (if s = [] then [(pre, s, c)] else [])"
  by simp

lemma rmatch_seq_group_alt [rx]:
  "rmatch (RSeq (RGroup i (RAlt a b)) k) st =
     rmatch (RSeq (RGroup i a) k) st @ rmatch (RSeq (RGroup i b) k) st"
  by simp

lemma rmatch_seq_group_lit [rx]:
  "rmatch (RSeq (RGroup i (rlit w)) k) (pre, s, c) =
     (if startsWith s (js w) then rmatch k (rev (js w) @ pre, drop (length w) s, c(i \<mapsto> js w))
      else [])"
  by (simp add: rmatch_group del: rmatch.simps(6))

lemma rmatch_seq_back [rx]:
  "rmatch (RSeq (RBack i) k) (pre, s, c) =
     (if startsWith s (group c i) then rmatch k (rev (group c i) @ pre, drop (length (group c i)) s, c)
      else [])"
  by (simp add: group_def Let_def split: option.splits)

lemmas [rx] = greedy_group re_match_begin rseqs.simps ralts.simps

lemma refuses_seq_lit [rx]: "w \<noteq> [] \<Longrightarrow> \<not> P (of_char (hd w)) \<Longrightarrow> refuses (RSeq (rlit w) k) P"
  by (intro refuses_seq refuses_lit)

lemmas [rx] = refuses_end

lemma takeWhile_run [rx]:
  "list_all P w \<Longrightarrow> \<not> P u \<Longrightarrow> takeWhile P (w @ u # s) = w"
  "list_all P w \<Longrightarrow> \<not> P u \<Longrightarrow> dropWhile P (w @ u # s) = u # s"
  "list_all P w \<Longrightarrow> takeWhile P w = w"
  "list_all P w \<Longrightarrow> dropWhile P w = []"
  by (auto simp: list_all_iff takeWhile_eq_all_conv dropWhile_eq_Nil_conv)

lemma group_upd [rx]: "group (c(i \<mapsto> w)) j = (if i = j then w else group c j)"
  by (simp add: group_def)

text \<open>The units a pattern can consume.\<close>

primrec reads_only :: "(unit16 \<Rightarrow> bool) \<Rightarrow> re \<Rightarrow> bool" where
  "reads_only P (RSet Q) \<longleftrightarrow> (\<forall>u. Q u \<longrightarrow> P u)"
| "reads_only P REps \<longleftrightarrow> True"
| "reads_only P (RSeq a b) \<longleftrightarrow> reads_only P a \<and> reads_only P b"
| "reads_only P (RAlt a b) \<longleftrightarrow> reads_only P a \<and> reads_only P b"
| "reads_only P (RStar a) \<longleftrightarrow> reads_only P a"
| "reads_only P (RGroup i a) \<longleftrightarrow> reads_only P a"
| "reads_only P (RBack i) \<longleftrightarrow> False"
| "reads_only P RBegin \<longleftrightarrow> True"
| "reads_only P REnd \<longleftrightarrow> True"
| "reads_only P RWordB \<longleftrightarrow> True"

definition advance :: "(unit16 \<Rightarrow> bool) \<Rightarrow> rstate \<Rightarrow> rstate \<Rightarrow> bool" where
  "advance P st st' \<longleftrightarrow> (\<exists>w. rest_of st = w @ rest_of st' \<and> list_all P w)"

lemma advance_refl: "advance P st st"
  by (auto simp: advance_def)

lemma advance_trans: "advance P st st1 \<Longrightarrow> advance P st1 st2 \<Longrightarrow> advance P st st2"
  unfolding advance_def by (metis append.assoc list_all_append)

lemma rstar_advance:
  assumes "\<And>st st'. st' \<in> set (f st) \<Longrightarrow> advance P st st'"
  shows "st' \<in> set (rstar f n st) \<Longrightarrow> advance P st st'"
proof (induction n arbitrary: st)
  case (Suc n)
  then consider "st' = st" | st1 where "st1 \<in> set (f st)" "st' \<in> set (rstar f n st1)"
    by (auto split: if_splits)
  then show ?case by cases (auto intro: advance_refl advance_trans assms Suc.IH)
qed (simp add: advance_refl)

lemma reads_only_advance: "reads_only P r \<Longrightarrow> st' \<in> set (rmatch r st) \<Longrightarrow> advance P st st'"
proof (induction r arbitrary: st st')
  case (RSet Q)
  then show ?case
    by (cases st) (auto simp: advance_def split: list.splits if_splits)
next
  case (RSeq a b)
  then obtain st1 where "st1 \<in> set (rmatch a st)" "st' \<in> set (rmatch b st1)" by auto
  with RSeq show ?case by (meson advance_trans reads_only.simps(3))
next
  case (RStar r)
  then show ?case using rstar_advance [of "rmatch r" P] by (metis rmatch.simps(5) reads_only.simps(5))
next
  case (RGroup i r)
  then obtain st1 where "st1 \<in> set (rmatch r st)" "rest_of st' = rest_of st1" by auto
  moreover from this RGroup have "advance P st st1" by simp
  ultimately show ?case by (simp add: advance_def)
qed (auto simp: advance_refl split: if_splits)

text \<open>The first state of a greedy run over a class.\<close>

lemma first_append: "xs \<noteq> [] \<Longrightarrow> first (xs @ ys) = first xs"
  by (cases xs) simp_all

lemma first_Some: "first xs = Some x \<Longrightarrow> \<exists>ys. xs = x # ys"
  by (cases xs) simp_all

lemma first_class_star: "first (rmatch (RStar (RSet P)) (pre, s, c)) = Some (rev (takeWhile P s) @ pre, dropWhile P s, c)"
proof (induction s arbitrary: pre)
  case (Cons u s)
  show ?case
  proof (cases "P u")
    case True
    then have "first (rmatch (RStar (RSet P)) (u # pre, s, c) @ [(pre, u # s, c)]) = first (rmatch (RStar (RSet P)) (u # pre, s, c))"
      using Cons [of "u # pre"] by (intro first_append) (auto simp del: rmatch.simps)
    then show ?thesis using True Cons [of "u # pre"] by (simp add: rmatch_class_star del: rmatch.simps)
  qed (simp add: rmatch_class_star del: rmatch.simps)
qed (simp add: rmatch_class_star del: rmatch.simps)

end
