(* ===== verification/JS_JSON.thy ===== *)
theory JS_JSON
  imports JS_Number JS_Regex
begin

text \<open>
  JSON text: \<open>JSON.stringify\<close> on strings, \<open>JSON.parse\<close>, and the views of a parsed object that
  the sources use (\<open>Object.keys\<close>, property reads, \<open>String(v)\<close>).  The parser takes fuel; the
  lemma \<open>json_parse_enough\<close> shows that twice the length of the text, plus two, is
  enough: more fuel never changes the result.
\<close>

section \<open>Values\<close>

datatype json =
    JNull
  | JBool bool
  | JNum jsnum
  | JStr jsstring
  | JArr "json list"
  | JObj "(jsstring \<times> json) list"

section \<open>String literals\<close>

definition hex_digit :: "nat \<Rightarrow> unit16" where
  "hex_digit n = (if n < 10 then 48 + n else 87 + n)"

definition hex4 :: "nat \<Rightarrow> jsstring" where
  "hex4 n = [hex_digit (n div 4096 mod 16), hex_digit (n div 256 mod 16),
     hex_digit (n div 16 mod 16), hex_digit (n mod 16)]"

definition is_high :: "unit16 \<Rightarrow> bool" where
  "is_high u \<longleftrightarrow> 55296 \<le> u \<and> u \<le> 56319"

definition is_low :: "unit16 \<Rightarrow> bool" where
  "is_low u \<longleftrightarrow> 56320 \<le> u \<and> u \<le> 57343"

definition quote_unit :: "unit16 \<Rightarrow> jsstring" where
  "quote_unit u =
     (if u = 34 then [92, 34] else if u = 92 then [92, 92]
      else if u = 8 then [92, 98] else if u = 12 then [92, 102] else if u = 10 then [92, 110]
      else if u = 13 then [92, 114] else if u = 9 then [92, 116]
      else if u < 32 \<or> is_high u \<or> is_low u then [92, 117] @ hex4 u else [u])"

text \<open>A surrogate pair is kept, a lone surrogate is escaped.\<close>

fun quote_units :: "jsstring \<Rightarrow> jsstring" where
  "quote_units [] = []"
| "quote_units [u] = quote_unit u"
| "quote_units (u # v # s) =
     (if is_high u \<and> is_low v then u # v # quote_units s else quote_unit u @ quote_units (v # s))"

definition json_quote :: "jsstring \<Rightarrow> jsstring" where
  "json_quote s = [34] @ quote_units s @ [34]"

definition unescape :: "unit16 \<Rightarrow> unit16 option" where
  "unescape e =
     (if e = 34 \<or> e = 92 \<or> e = 47 then Some e
      else if e = 98 then Some 8 else if e = 102 then Some 12 else if e = 110 then Some 10
      else if e = 114 then Some 13 else if e = 116 then Some 9 else None)"

definition read_hex4 :: "unit16 \<Rightarrow> unit16 \<Rightarrow> unit16 \<Rightarrow> unit16 \<Rightarrow> unit16 option" where
  "read_hex4 a b c d =
     (if digit_value a < 16 \<and> digit_value b < 16 \<and> digit_value c < 16 \<and> digit_value d < 16
      then Some (4096 * digit_value a + 256 * digit_value b + 16 * digit_value c + digit_value d)
      else None)"

text \<open>The characters of a string literal after its opening quote: the value and the text after
  the closing quote.\<close>

fun parse_chars :: "jsstring \<Rightarrow> (jsstring \<times> jsstring) option" where
  "parse_chars [] = None"
| "parse_chars (u # s) =
     (if u = 34 then Some ([], s)
      else if u < 32 then None
      else if u = 92 then
        (case s of
           [] \<Rightarrow> None
         | e # t \<Rightarrow>
             if e = 117 then
               (case t of
                  a # b # c # d # t' \<Rightarrow>
                    (case read_hex4 a b c d of
                       None \<Rightarrow> None
                     | Some v \<Rightarrow> map_option (apfst ((#) v)) (parse_chars t'))
                | _ \<Rightarrow> None)
             else (case unescape e of
                     None \<Rightarrow> None
                   | Some v \<Rightarrow> map_option (apfst ((#) v)) (parse_chars t)))
      else map_option (apfst ((#) u)) (parse_chars s))"

section \<open>Values\<close>

definition skip_json_ws :: "jsstring \<Rightarrow> jsstring" where
  "skip_json_ws s = dropWhile (\<lambda>u. u \<in> {32, 9, 10, 13}) s"

definition json_number_re :: re where
  "json_number_re = rseqs
     [ropt (rlit ''-''),
      RAlt (rlit ''0'') (RSeq (RSet (\<lambda>u. 49 \<le> u \<and> u \<le> 57)) (RStar (RSet is_digit))),
      ropt (RSeq (rlit ''.'') (rplus (RSet is_digit))),
      ropt (rseqs [RSet (\<lambda>u. u = 101 \<or> u = 69), ropt (RSet (\<lambda>u. u = 43 \<or> u = 45)),
        rplus (RSet is_digit)])]"

definition parse_number :: "jsstring \<Rightarrow> (json \<times> jsstring) option" where
  "parse_number s =
     (case rmatch json_number_re ([], s, no_caps) of
        [] \<Rightarrow> None
      | (pre, r, _) # _ \<Rightarrow> Some (JNum (js_Number (rev pre)), r))"

definition parse_word :: "jsstring \<Rightarrow> (json \<times> jsstring) option" where
  "parse_word s =
     (if startsWith s (js ''null'') then Some (JNull, drop 4 s)
      else if startsWith s (js ''true'') then Some (JBool True, drop 4 s)
      else if startsWith s (js ''false'') then Some (JBool False, drop 5 s)
      else parse_number s)"

text \<open>A repeated key keeps its place and takes the later value.\<close>

fun obj_put :: "jsstring \<Rightarrow> json \<Rightarrow> (jsstring \<times> json) list \<Rightarrow> (jsstring \<times> json) list" where
  "obj_put k v [] = [(k, v)]"
| "obj_put k v ((k', v') # ps) =
     (if k = k' then (k, v) # ps else (k', v') # obj_put k v ps)"

fun parse_value :: "nat \<Rightarrow> jsstring \<Rightarrow> (json \<times> jsstring) option"
  and parse_elems :: "nat \<Rightarrow> json list \<Rightarrow> jsstring \<Rightarrow> (json \<times> jsstring) option"
  and parse_members :: "nat \<Rightarrow> (jsstring \<times> json) list \<Rightarrow> jsstring \<Rightarrow> (json \<times> jsstring) option"
where
  "parse_value 0 s = None"
| "parse_value (Suc n) s =
     (case skip_json_ws s of
        [] \<Rightarrow> None
      | u # t \<Rightarrow>
          if u = 34 then map_option (apfst JStr) (parse_chars t)
          else if u = 91 then
            (case skip_json_ws t of
               [] \<Rightarrow> None
             | v # r \<Rightarrow> if v = 93 then Some (JArr [], r) else parse_elems n [] t)
          else if u = 123 then
            (case skip_json_ws t of
               [] \<Rightarrow> None
             | v # r \<Rightarrow> if v = 125 then Some (JObj [], r) else parse_members n [] t)
          else parse_word (u # t))"
| "parse_elems 0 acc s = None"
| "parse_elems (Suc n) acc s =
     (case parse_value n s of
        None \<Rightarrow> None
      | Some (v, r) \<Rightarrow>
          (case skip_json_ws r of
             [] \<Rightarrow> None
           | u # t \<Rightarrow>
               if u = 44 then parse_elems n (acc @ [v]) t
               else if u = 93 then Some (JArr (acc @ [v]), t) else None))"
| "parse_members 0 acc s = None"
| "parse_members (Suc n) acc s =
     (case skip_json_ws s of
        [] \<Rightarrow> None
      | q # s1 \<Rightarrow>
          if q \<noteq> 34 then None
          else (case parse_chars s1 of
             None \<Rightarrow> None
           | Some (k, s2) \<Rightarrow>
               (case skip_json_ws s2 of
                  [] \<Rightarrow> None
                | c # s3 \<Rightarrow>
                    if c \<noteq> 58 then None
                    else (case parse_value n s3 of
                       None \<Rightarrow> None
                     | Some (v, r) \<Rightarrow>
                         (case skip_json_ws r of
                            [] \<Rightarrow> None
                          | u # t \<Rightarrow>
                              if u = 44 then parse_members n (obj_put k v acc) t
                              else if u = 125 then Some (JObj (obj_put k v acc), t)
                              else None)))))"

definition json_parse_fuel :: "nat \<Rightarrow> jsstring \<Rightarrow> json option" where
  "json_parse_fuel n s =
     (case parse_value n s of
        None \<Rightarrow> None
      | Some (v, r) \<Rightarrow> if skip_json_ws r = [] then Some v else None)"

text \<open>\<open>JSON.parse\<close>: \<open>None\<close> is the thrown SyntaxError.\<close>

definition json_parse :: "jsstring \<Rightarrow> json option" where
  "json_parse s = json_parse_fuel (2 * length s + 2) s"

section \<open>Views of a value\<close>

definition is_index_key :: "jsstring \<Rightarrow> bool" where
  "is_index_key k \<longleftrightarrow> k \<noteq> [] \<and> list_all is_digit k \<and> show_nat (read_nat k) = k
     \<and> read_nat k < 4294967295"

text \<open>\<open>Object.entries\<close>: array-index keys first, in ascending order, then the others in the order
  of insertion.\<close>

definition obj_entries :: "(jsstring \<times> 'a) list \<Rightarrow> (jsstring \<times> 'a) list" where
  "obj_entries ps =
     sort_key (read_nat \<circ> fst) (filter (is_index_key \<circ> fst) ps) @
     filter (\<lambda>p. \<not> is_index_key (fst p)) ps"

definition obj_get :: "jsstring \<Rightarrow> (jsstring \<times> json) list \<Rightarrow> json option" where
  "obj_get k ps = map_of ps k"

text \<open>Reading a member of a value other than \<open>null\<close>, which throws.\<close>

definition member :: "string \<Rightarrow> json \<Rightarrow> json option" where
  "member k v = (case v of JObj ps \<Rightarrow> obj_get (js k) ps | _ \<Rightarrow> None)"

text \<open>A member that is there only under a condition.\<close>

definition opt_member :: "bool \<Rightarrow> string \<Rightarrow> json \<Rightarrow> (jsstring \<times> json) list" where
  "opt_member b k v = (if b then [(js k, v)] else [])"

text \<open>\<open>String(v)\<close> of a parsed value: an array is its elements joined by commas, a null element
  being empty.\<close>

fun json_String :: "json \<Rightarrow> jsstring"
  and json_items :: "json list \<Rightarrow> jsstring list" where
  "json_String JNull = js ''null''"
| "json_String (JBool b) = js (if b then ''true'' else ''false'')"
| "json_String (JNum n) = js_String n"
| "json_String (JStr s) = s"
| "json_String (JArr vs) = join (js '','') (json_items vs)"
| "json_String (JObj ps) = js ''[object Object]''"
| "json_items [] = []"
| "json_items (v # vs) = (if v = JNull then [] else json_String v) # json_items vs"

definition json_truthy :: "json option \<Rightarrow> bool" where
  "json_truthy v =
     (case v of
        None \<Rightarrow> False | Some JNull \<Rightarrow> False | Some (JBool b) \<Rightarrow> b | Some (JNum n) \<Rightarrow> js_truthy_num n
      | Some (JStr s) \<Rightarrow> s \<noteq> [] | Some (JArr _) \<Rightarrow> True | Some (JObj _) \<Rightarrow> True)"

section \<open>Reading back a quoted string\<close>

lemma digit_value_hex [simp]: "n < 16 \<Longrightarrow> digit_value (hex_digit n) = n"
  by (auto simp: digit_value_def hex_digit_def)

lemma four_digits:
  fixes u :: nat
  assumes "u < 65536"
  shows "4096 * (u div 4096 mod 16) + 256 * (u div 256 mod 16) + 16 * (u div 16 mod 16) + u mod 16 = u"
proof -
  have "u div 256 = u div 16 div 16" "u div 4096 = u div 16 div 16 div 16"
    by (simp_all add: div_mult2_eq [symmetric])
  moreover have "u div 4096 < 16" using assms by (simp add: less_mult_imp_div_less)
  ultimately show ?thesis
    using mult_div_mod_eq [of 16 u] mult_div_mod_eq [of 16 "u div 16"]
      mult_div_mod_eq [of 16 "u div 16 div 16"] by (simp only: mod_less)
qed

lemma hex4_read:
  assumes "u < 65536"
  obtains a b c d where "hex4 u = [a, b, c, d]" "read_hex4 a b c d = Some u"
proof
  show "hex4 u = [hex_digit (u div 4096 mod 16), hex_digit (u div 256 mod 16),
     hex_digit (u div 16 mod 16), hex_digit (u mod 16)]" by (rule hex4_def)
  show "read_hex4 (hex_digit (u div 4096 mod 16)) (hex_digit (u div 256 mod 16))
     (hex_digit (u div 16 mod 16)) (hex_digit (u mod 16)) = Some u"
    unfolding read_hex4_def using four_digits [OF assms] by (simp only: digit_value_hex) simp
qed

lemma parse_chars_plain:
  "32 \<le> u \<Longrightarrow> u \<noteq> 34 \<Longrightarrow> u \<noteq> 92 \<Longrightarrow>
   parse_chars (u # s) = map_option (apfst ((#) u)) (parse_chars s)"
  by simp

lemma parse_chars_hex4:
  assumes "u < 65536"
  shows "parse_chars (92 # 117 # hex4 u @ s) = map_option (apfst ((#) u)) (parse_chars s)"
proof -
  obtain a b c d where "hex4 u = [a, b, c, d]" "read_hex4 a b c d = Some u"
    using assms by (rule hex4_read)
  then show ?thesis by simp
qed

lemma parse_chars_quote_unit:
  "u < 65536 \<Longrightarrow> parse_chars (quote_unit u @ s) = map_option (apfst ((#) u)) (parse_chars s)"
  using parse_chars_hex4 [of u s] by (auto simp: quote_unit_def unescape_def simp del: parse_chars.simps)
    (simp_all add: unescape_def)

lemma parse_chars_pair:
  "is_high u \<Longrightarrow> is_low v \<Longrightarrow> parse_chars (u # v # t) =
     map_option (apfst ((#) u)) (map_option (apfst ((#) v)) (parse_chars t))"
  by (simp add: is_high_def is_low_def)

lemma parse_chars_close: "parse_chars (34 # r) = Some ([], r)"
  by simp

lemma parse_chars_quote:
  "\<forall>u\<in>set s. u < 65536 \<Longrightarrow> parse_chars (quote_units s @ 34 # r) = Some (s, r)"
  by (induction s rule: quote_units.induct)
    (simp_all add: parse_chars_quote_unit parse_chars_pair parse_chars_close del: parse_chars.simps)

text \<open>\<open>JSON.parse(JSON.stringify(s)) = s\<close>.\<close>

lemma json_parse_quote: "\<forall>u\<in>set s. u < 65536 \<Longrightarrow> json_parse (json_quote s) = Some (JStr s)"
  using parse_chars_quote [of s "[]"]
  by (simp add: json_parse_def json_parse_fuel_def json_quote_def skip_json_ws_def)

lemma quote_units_plain:
  "\<forall>u\<in>set s. 32 \<le> u \<and> u < 55296 \<and> u \<noteq> 34 \<and> u \<noteq> 92 \<Longrightarrow> quote_units s = s"
  by (induction s rule: quote_units.induct)
    (auto simp: quote_unit_def is_high_def is_low_def)

section \<open>Enough fuel\<close>

lemma skip_json_ws_le: "length (skip_json_ws s) \<le> length s"
  unfolding skip_json_ws_def by (rule length_dropWhile_le)

lemma parse_chars_less: "parse_chars s = Some (v, r) \<Longrightarrow> length r < length s"
proof (induction s arbitrary: v rule: parse_chars.induct)
  case (2 u s)
  then show ?case
    by (auto split: if_splits list.splits option.splits) fastforce+
qed simp


lemma rmatch_first_le:
  "rmatch r ([], s, c) = (pre, t, c') # sts \<Longrightarrow> length t \<le> length s"
  using rmatch_le [of "(pre, t, c')" r "([], s, c)"] by simp

text \<open>A number consumes at least one digit: the integer part of the pattern is not optional.\<close>

definition consumes :: "re \<Rightarrow> bool" where
  "consumes r \<longleftrightarrow> (\<forall>st st'. st' \<in> set (rmatch r st) \<longrightarrow> length (rest_of st') < length (rest_of st))"

lemma consumes_set [intro, simp]: "consumes (RSet P)"
  by (auto simp: consumes_def split: list.splits if_splits)

lemma consumesD: "consumes r \<Longrightarrow> st' \<in> set (rmatch r st) \<Longrightarrow> length (rest_of st') < length (rest_of st)"
  unfolding consumes_def by blast

lemma consumesI:
  "(\<And>st st'. st' \<in> set (rmatch r st) \<Longrightarrow> length (rest_of st') < length (rest_of st)) \<Longrightarrow> consumes r"
  by (simp add: consumes_def)

lemma seq_through:
  "st' \<in> set (rmatch (RSeq a b) st) \<longleftrightarrow> (\<exists>st1\<in>set (rmatch a st). st' \<in> set (rmatch b st1))"
  unfolding rmatch.simps set_concat set_map by blast

lemma consumes_seq1: "consumes a \<Longrightarrow> consumes (RSeq a b)"
  by (rule consumesI) (meson consumesD le_less_trans rmatch_le seq_through)

lemma consumes_seq2: "consumes b \<Longrightarrow> consumes (RSeq a b)"
  by (rule consumesI) (meson consumesD less_le_trans rmatch_le seq_through)

lemma consumes_alt: "consumes a \<Longrightarrow> consumes b \<Longrightarrow> consumes (RAlt a b)"
  unfolding consumes_def rmatch.simps set_append by blast

lemma consumes_lit: "w \<noteq> [] \<Longrightarrow> consumes (rlit w)"
  by (cases w) (auto simp: rlit_def intro!: consumes_seq1)

lemma consumes_number: "consumes json_number_re"
  unfolding json_number_re_def rseqs.simps
  by (intro consumes_seq2 [of _ "ropt _"] consumes_seq1 consumes_alt consumes_lit consumes_set) simp

lemma parse_number_less: "parse_number s = Some (v, r) \<Longrightarrow> length r < length s"
  using consumesD [OF consumes_number, of "(_, r, _)" "([], s, no_caps)"]
  by (auto simp: parse_number_def split: list.splits)

lemma parse_word_less: "parse_word s = Some (v, r) \<Longrightarrow> length r < length s"
  by (auto simp: parse_word_def startsWith_def dest: parse_number_less split: if_splits)
    (auto dest: arg_cong [where f = length])

lemma parse_less:
  "parse_value n s = Some (v, r) \<Longrightarrow> length r < length s"
  "parse_elems n acc s = Some (v, r) \<Longrightarrow> length r < length s"
  "parse_members n ps s = Some (v, r) \<Longrightarrow> length r < length s"
proof (induction n s and n acc s and n ps s arbitrary: v r and v r and v r
    rule: parse_value_parse_elems_parse_members.induct)
  case (2 n s)
  show ?case
  proof (cases "skip_json_ws s")
    case Nil
    with 2 show ?thesis by simp
  next
    case (Cons u t)
    then have "length t < length s" using skip_json_ws_le [of s] by simp
    moreover have "length r < length (u # t)" if "parse_word (u # t) = Some (v, r)"
      using that by (rule parse_word_less)
    moreover note skip_json_ws_le [of t]
    ultimately show ?thesis
      using 2 Cons skip_json_ws_le [of s]
      by (auto split: if_splits list.splits dest!: parse_chars_less) fastforce+
  qed
next
  case (4 n acc s)
  from "4.prems" obtain w r1 u t where v: "parse_value n s = Some (w, r1)" "skip_json_ws r1 = u # t"
    by (auto split: option.splits list.splits)
  have "length r1 < length s" using 4 v by blast
  moreover have "length t < length r1" using v skip_json_ws_le [of r1] by simp
  ultimately show ?case using 4 v by (auto split: if_splits) (meson less_trans)
next
  case (6 n acc s)
  from "6.prems" obtain s1 k s2 s3 w r1 u t where v: "skip_json_ws s = 34 # s1"
    "parse_chars s1 = Some (k, s2)" "skip_json_ws s2 = 58 # s3" "parse_value n s3 = Some (w, r1)"
    "skip_json_ws r1 = u # t"
    by (auto split: option.splits list.splits if_splits)
  have "length r1 < length s3" using 6 v by simp
  moreover have "length t < length r1" using v skip_json_ws_le [of r1] by simp
  moreover have "length s3 < length s"
    using v parse_chars_less [OF v(2)] skip_json_ws_le [of s] skip_json_ws_le [of s2] by simp
  moreover have "length r < length t" if "parse_members n (obj_put k w acc) t = Some (v, r)" "u = 44"
    using 6 v that by simp
  ultimately show ?case using "6.prems" v by (auto split: if_splits)
qed auto


lemma parse_fuel:
  "2 * length s < n \<Longrightarrow> 2 * length s < m \<Longrightarrow> parse_value n s = parse_value m s"
  "2 * length s + 1 < n \<Longrightarrow> 2 * length s + 1 < m \<Longrightarrow> parse_elems n acc s = parse_elems m acc s"
  "2 * length s + 1 < n \<Longrightarrow> 2 * length s + 1 < m \<Longrightarrow> parse_members n ps s = parse_members m ps s"
proof (induction n s and n acc s and n ps s arbitrary: m and m and m
    rule: parse_value_parse_elems_parse_members.induct)
  case (2 n s)
  obtain k where m: "m = Suc k" using "2.prems" by (cases m) auto
  show ?case
  proof (cases "skip_json_ws s")
    case Nil
    with m show ?thesis by simp
  next
    case (Cons u t)
    then have t: "length t < length s" using skip_json_ws_le [of s] by simp
    have "parse_elems n [] t = parse_elems k [] t" if "u = 91" "skip_json_ws t = v # r" "v \<noteq> 93" for v r
      using 2 Cons that m t by simp
    moreover have "parse_members n [] t = parse_members k [] t"
      if "u = 123" "skip_json_ws t = v # r" "v \<noteq> 125" for v r
      using 2 Cons that m t by simp
    ultimately show ?thesis using Cons m by (simp split: list.splits)
  qed
next
  case (4 n acc s)
  obtain k where m: "m = Suc k" using "4.prems" by (cases m) auto
  have v: "parse_value n s = parse_value k s"
    using "4.prems" m by (intro "4.IH"(1)) simp_all
  have "parse_elems n (acc @ [w]) t = parse_elems k (acc @ [w]) t"
    if "parse_value n s = Some (w, r)" "skip_json_ws r = 44 # t" for w r t
  proof -
    have "length t < length s"
      using parse_less(1) [OF that(1)] that(2) skip_json_ws_le [of r] by simp
    then show ?thesis
      using "4.prems" m by (intro "4.IH"(2) [OF that(1) refl that(2) refl]) simp_all
  qed
  with m v show ?case by (auto split: option.splits list.splits)
next
  case (6 n acc s)
  obtain k where m: "m = Suc k" using "6.prems" by (cases m) auto
  have s3: "length s3 < length s"
    if "skip_json_ws s = q # s1" "parse_chars s1 = Some (key, s2)" "skip_json_ws s2 = c # s3" for q s1 key s2 c s3
    using that parse_chars_less [OF that(2)] skip_json_ws_le [of s] skip_json_ws_le [of s2] by simp
  have v: "parse_value n s3 = parse_value k s3"
    if "skip_json_ws s = 34 # s1" "parse_chars s1 = Some (key, s2)" "skip_json_ws s2 = 58 # s3" for s1 key s2 s3
    using "6.prems" m s3 [OF that]
    by (intro "6.IH"(1) [OF that(1) _ that(2) refl that(3)]) simp_all
  have "parse_members n (obj_put key w acc) t = parse_members k (obj_put key w acc) t"
    if "skip_json_ws s = 34 # s1" "parse_chars s1 = Some (key, s2)" "skip_json_ws s2 = 58 # s3"
      "parse_value n s3 = Some (w, r)" "skip_json_ws r = 44 # t" for s1 key s2 s3 w r t
  proof -
    have "length t < length s"
      using parse_less(1) [OF that(4)] that(5) skip_json_ws_le [of r] s3 [OF that(1-3)] by simp
    then show ?thesis
      using "6.prems" m
      by (intro "6.IH"(2) [OF that(1) _ that(2) refl that(3) _ that(4) refl that(5) refl]) simp_all
  qed
  with m v show ?case by (auto split: option.splits list.splits)
qed auto

text \<open>More fuel than \<open>json_parse\<close> gives never changes the result.\<close>

lemma json_parse_enough: "2 * length s + 2 \<le> n \<Longrightarrow> json_parse_fuel n s = json_parse s"
  using parse_fuel(1) [of s n "2 * length s + 2"] by (simp add: json_parse_def json_parse_fuel_def)

text \<open>The equations of the parser for a numeral as fuel.\<close>

lemmas json_eval = json_parse_def json_parse_fuel_def skip_json_ws_def
  parse_value.simps(2) [of "pred_numeral n" for n, folded numeral_eq_Suc]
  parse_elems.simps(2) [of "pred_numeral n" for n, folded numeral_eq_Suc]
  parse_members.simps(2) [of "pred_numeral n" for n, folded numeral_eq_Suc]

end
