(* ===== verification/Billing_Expr.thy ===== *)
theory Billing_Expr
  imports JS_JSON
begin

text \<open>
  Billing expressions of \<open>web/default/src/features/pricing/lib/billing-expr.ts\<close>: the text of a
  model's price is a base expression times request rules such as
  \<open>(header("x") != "" ? 2 : 1)\<close>.  This theory models how the editor reads and writes the
  request rules and how it separates them from the base expression; every regular
  expression of the source is a pattern of \<open>JS_Regex\<close>.
\<close>

section \<open>Constants and types\<close>

definition SOURCE_PARAM :: jsstring where "SOURCE_PARAM = js ''param''"
definition SOURCE_HEADER :: jsstring where "SOURCE_HEADER = js ''header''"
definition SOURCE_TIME :: jsstring where "SOURCE_TIME = js ''time''"
definition MATCH_EQ :: jsstring where "MATCH_EQ = js ''eq''"
definition MATCH_CONTAINS :: jsstring where "MATCH_CONTAINS = js ''contains''"
definition MATCH_GT :: jsstring where "MATCH_GT = js ''gt''"
definition MATCH_GTE :: jsstring where "MATCH_GTE = js ''gte''"
definition MATCH_LT :: jsstring where "MATCH_LT = js ''lt''"
definition MATCH_LTE :: jsstring where "MATCH_LTE = js ''lte''"
definition MATCH_EXISTS :: jsstring where "MATCH_EXISTS = js ''exists''"
definition MATCH_RANGE :: jsstring where "MATCH_RANGE = js ''range''"

lemmas match_defs = SOURCE_PARAM_def SOURCE_HEADER_def SOURCE_TIME_def MATCH_EQ_def
  MATCH_CONTAINS_def MATCH_GT_def MATCH_GTE_def MATCH_LT_def MATCH_LTE_def MATCH_EXISTS_def
  MATCH_RANGE_def

definition TIME_FUNCS :: "jsstring list" where
  "TIME_FUNCS = [js ''hour'', js ''minute'', js ''weekday'', js ''month'', js ''day'']"

record ParamHeaderCondition =
  ph_source :: jsstring
  ph_path :: jsstring
  ph_mode :: jsstring
  ph_value :: jsstring

record TimeCondition =
  timeFunc :: jsstring
  timezone :: jsstring
  t_mode :: jsstring
  t_value :: jsstring
  rangeStart :: jsstring
  rangeEnd :: jsstring

datatype RequestCondition = PH ParamHeaderCondition | Time TimeCondition

record RequestRuleGroup =
  conditions :: "RequestCondition list"
  multiplier :: jsstring

section \<open>Patterns\<close>

definition numc :: "unit16 \<Rightarrow> bool" where
  "numc u \<longleftrightarrow> is_digit u \<or> u \<in> {46, 101, 69, 43, 45}"

definition notq :: "unit16 \<Rightarrow> bool" where
  "notq u \<longleftrightarrow> u \<noteq> 34"

definition numeric_literal_re :: re where
  "numeric_literal_re = RSeq RBegin (rseqs
     [ropt (rlit ''-''),
      RAlt (rseqs [rplus (RSet is_digit), ropt (rlit ''.''), RStar (RSet is_digit)])
           (RSeq (rlit ''.'') (rplus (RSet is_digit))),
      ropt (rseqs [RSet (\<lambda>u. u = 101 \<or> u = 69), ropt (RSet (\<lambda>u. u = 43 \<or> u = 45)),
        rplus (RSet is_digit)]),
      REnd])"

definition NUMERIC_LITERAL :: "jsstring \<Rightarrow> bool" where
  "NUMERIC_LITERAL s \<longleftrightarrow> re_test numeric_literal_re s"

definition time_funcs_re :: re where
  "time_funcs_re = ralts [rlit ''hour'', rlit ''minute'', rlit ''weekday'', rlit ''month'', rlit ''day'']"

abbreviation path_re :: "nat \<Rightarrow> re" where
  "path_re i \<equiv> RGroup i (rplus (RSet notq))"

abbreviation num_re :: "nat \<Rightarrow> re" where
  "num_re i \<equiv> RGroup i (rplus (RSet numc))"

text \<open>The literal \<open>"(?:[^"\\]|\\.)*"\<close> as group \<open>i\<close>.\<close>

definition quoted_re :: "nat \<Rightarrow> re" where
  "quoted_re i = RGroup i (rseqs [RSet ((=) 34),
     RStar (RAlt (RSet (\<lambda>u. u \<noteq> 34 \<and> u \<noteq> 92)) (RSeq (RSet ((=) 92)) (RSet any_dot))),
     RSet ((=) 34)])"

definition time_range_re :: re where
  \<open>time_range_re = RSeq RBegin (rseqs
     [RGroup 1 time_funcs_re, rlit ''("'', path_re 2, rlit ''") >= '', num_re 3, rlit '' || '',
      RBack 1, rlit ''("'', RBack 2, rlit ''") < '', num_re 4, REnd])\<close>

definition time_paren_range_re :: re where
  \<open>time_paren_range_re = RSeq RBegin (rseqs
     [rlit ''('', RGroup 1 time_funcs_re, rlit ''("'', path_re 2, rlit ''") >= '', num_re 3,
      rlit '' || '', RBack 1, rlit ''("'', RBack 2, rlit ''") < '', num_re 4, rlit '')'', REnd])\<close>

definition time_op_re :: re where
  \<open>time_op_re = RSeq RBegin (rseqs
     [RGroup 1 time_funcs_re, rlit ''("'', path_re 2, rlit ''") '',
      RGroup 3 (ralts [rlit ''=='', rlit ''>='', rlit ''<'']), rlit '' '', num_re 4, REnd])\<close>

definition header_exists_re :: re where
  \<open>header_exists_re = RSeq RBegin (rseqs [rlit ''header("'', path_re 1, rlit ''") != ""'', REnd])\<close>

definition param_exists_re :: re where
  \<open>param_exists_re = RSeq RBegin (rseqs [rlit ''param("'', path_re 1, rlit ''") != nil'', REnd])\<close>

definition header_contains_re :: re where
  \<open>header_contains_re = RSeq RBegin (rseqs
     [rlit ''has(header("'', path_re 1, rlit ''"), '', quoted_re 2, rlit '')'', REnd])\<close>

definition param_contains_re :: re where
  \<open>param_contains_re = RSeq RBegin (rseqs
     [rlit ''param("'', path_re 1, rlit ''") != nil && has(param("'', path_re 2, rlit ''"), '',
      quoted_re 3, rlit '')'', REnd])\<close>

definition param_compare_re :: re where
  \<open>param_compare_re = RSeq RBegin (rseqs
     [rlit ''param("'', path_re 1, rlit ''") != nil && param("'', path_re 2, rlit ''") '',
      RGroup 3 (ralts [rlit ''>'', rlit ''>='', rlit ''<'', rlit ''<='']), rlit '' '', num_re 4,
      REnd])\<close>

definition eq_re :: re where
  \<open>eq_re = RSeq RBegin (rseqs
     [RGroup 1 (RAlt (rlit ''param'') (rlit ''header'')), rlit ''("'', path_re 2, rlit ''") == '',
      RGroup 3 (rplus (RSet any_dot)), REnd])\<close>

definition factor_re :: re where
  "factor_re = RSeq RBegin (rseqs
     [rlit ''('', RGroup 1 (rplus (RSet any_dotall)), rlit '' ? '', num_re 2, rlit '' : 1)'', REnd])"

section \<open>Reading request rules\<close>

definition depth_step :: "int \<Rightarrow> unit16 \<Rightarrow> int" where
  "depth_step d u = (if u = 40 then d + 1 else if u = 41 then d - 1 else d)"

text \<open>The loop of \<open>splitTopLevelMultiply\<close> and \<open>splitTopLevelAnd\<close>: the depth, the current part
  (reversed) and the text still to read.\<close>

function split_top :: "jsstring \<Rightarrow> int \<Rightarrow> jsstring \<Rightarrow> jsstring \<Rightarrow> jsstring list" where
  "split_top sep d cur [] = [trim (rev cur)]"
| "split_top sep d cur (u # s) =
     (let d' = depth_step d u
      in if d' = 0 \<and> startsWith (u # s) sep
         then trim (rev cur) # split_top sep d' [] (drop (length sep - 1) s)
         else split_top sep d' (u # cur) s)"
  by pat_completeness auto
termination
  by (relation "measure (\<lambda>(sep, d, cur, s). length s)") auto

definition splitTopLevelMultiply :: "jsstring \<Rightarrow> jsstring list" where
  "splitTopLevelMultiply expr = filter (\<lambda>p. p \<noteq> []) (split_top (js '' * '') 0 [] expr)"

definition splitTopLevelAnd :: "jsstring \<Rightarrow> jsstring list" where
  "splitTopLevelAnd expr = filter (\<lambda>p. p \<noteq> []) (split_top (js '' && '') 0 [] expr)"

text \<open>\<open>JNull\<close> is the \<open>null\<close> of a failed parse (and of the text \<open>null\<close>).\<close>

definition parseExprLiteral :: "jsstring \<Rightarrow> json" where
  "parseExprLiteral raw =
     (let text = trim raw
      in if text = js ''true'' \<or> text = js ''false'' then JStr text
         else if NUMERIC_LITERAL text then JStr text
         else case json_parse text of None \<Rightarrow> JNull | Some v \<Rightarrow> v)"

definition time_range_of :: "caps \<Rightarrow> RequestCondition" where
  "time_range_of m = Time \<lparr>timeFunc = group m 1, timezone = group m 2, t_mode = MATCH_RANGE,
     t_value = [], rangeStart = group m 3, rangeEnd = group m 4\<rparr>"

definition tryParseTimeCondition :: "jsstring \<Rightarrow> RequestCondition option" where
  "tryParseTimeCondition expr =
     (case re_match time_range_re expr of
        Some m \<Rightarrow> Some (time_range_of m)
      | None \<Rightarrow>
     (case re_match time_paren_range_re expr of
        Some m \<Rightarrow> Some (time_range_of m)
      | None \<Rightarrow>
     (case re_match time_op_re expr of
        Some m \<Rightarrow> Some (Time \<lparr>timeFunc = group m 1, timezone = group m 2,
          t_mode = (if group m 3 = js ''=='' then MATCH_EQ
                    else if group m 3 = js ''>='' then MATCH_GTE
                    else if group m 3 = js ''<'' then MATCH_LT else MATCH_EQ),
          t_value = group m 4, rangeStart = [], rangeEnd = []\<rparr>)
      | None \<Rightarrow> None)))"

text \<open>A \<open>JSON.parse\<close> that throws inside \<open>tryParseRequestCondition\<close> is not caught there: the
  error is the exception, the option the \<open>null\<close> result.\<close>

datatype parse_error = SyntaxError

type_synonym 'a attempt = "parse_error + 'a option"

definition json_parse_str :: "jsstring \<Rightarrow> parse_error + jsstring" where
  "json_parse_str s =
     (case json_parse s of None \<Rightarrow> Inl SyntaxError | Some v \<Rightarrow> Inr (json_String v))"

definition ph :: "jsstring \<Rightarrow> jsstring \<Rightarrow> jsstring \<Rightarrow> jsstring \<Rightarrow> RequestCondition" where
  "ph src path mode val = PH \<lparr>ph_source = src, ph_path = path, ph_mode = mode, ph_value = val\<rparr>"

definition compare_mode :: "jsstring \<Rightarrow> jsstring" where
  "compare_mode op =
     (if op = js ''>'' then MATCH_GT else if op = js ''>='' then MATCH_GTE
      else if op = js ''<'' then MATCH_LT else MATCH_LTE)"

definition try_eq :: "jsstring \<Rightarrow> RequestCondition attempt" where
  "try_eq expr =
     (case re_match eq_re expr of
        None \<Rightarrow> Inr None
      | Some m \<Rightarrow>
          (case parseExprLiteral (group m 3) of
             JNull \<Rightarrow> Inr None
           | v \<Rightarrow> Inr (Some (ph (group m 1) (group m 2) MATCH_EQ (json_String v)))))"

definition try_compare :: "jsstring \<Rightarrow> RequestCondition attempt" where
  "try_compare expr =
     (case re_match param_compare_re expr of
        Some m \<Rightarrow>
          if group m 1 = group m 2
          then Inr (Some (ph SOURCE_PARAM (group m 1) (compare_mode (group m 3)) (group m 4)))
          else try_eq expr
      | None \<Rightarrow> try_eq expr)"

definition try_param_contains :: "jsstring \<Rightarrow> RequestCondition attempt" where
  "try_param_contains expr =
     (case re_match param_contains_re expr of
        Some m \<Rightarrow>
          if group m 1 = group m 2
          then map_sum id (\<lambda>v. Some (ph SOURCE_PARAM (group m 1) MATCH_CONTAINS v))
            (json_parse_str (group m 3))
          else try_compare expr
      | None \<Rightarrow> try_compare expr)"

definition try_header_contains :: "jsstring \<Rightarrow> RequestCondition attempt" where
  "try_header_contains expr =
     (case re_match header_contains_re expr of
        Some m \<Rightarrow> map_sum id (\<lambda>v. Some (ph SOURCE_HEADER (group m 1) MATCH_CONTAINS v))
          (json_parse_str (group m 2))
      | None \<Rightarrow> try_param_contains expr)"

definition tryParseRequestCondition :: "jsstring \<Rightarrow> RequestCondition attempt" where
  "tryParseRequestCondition expr =
     (case tryParseTimeCondition expr of
        Some tc \<Rightarrow> Inr (Some tc)
      | None \<Rightarrow>
     (case re_match header_exists_re expr of
        Some m \<Rightarrow> Inr (Some (ph SOURCE_HEADER (group m 1) MATCH_EXISTS []))
      | None \<Rightarrow>
     (case re_match param_exists_re expr of
        Some m \<Rightarrow> Inr (Some (ph SOURCE_PARAM (group m 1) MATCH_EXISTS []))
      | None \<Rightarrow> try_header_contains expr)))"

text \<open>The loops stop at the first part that does not parse.\<close>

fun try_conditions :: "jsstring list \<Rightarrow> RequestCondition list attempt" where
  "try_conditions [] = Inr (Some [])"
| "try_conditions (ap # rest) =
     (case tryParseRequestCondition (trim ap) of
        Inl e \<Rightarrow> Inl e
      | Inr None \<Rightarrow> Inr None
      | Inr (Some c) \<Rightarrow>
          (case try_conditions rest of
             Inl e \<Rightarrow> Inl e
           | Inr None \<Rightarrow> Inr None
           | Inr (Some cs) \<Rightarrow> Inr (Some (c # cs))))"

definition tryParseRuleGroupFactor :: "jsstring \<Rightarrow> RequestRuleGroup attempt" where
  "tryParseRuleGroupFactor part =
     (case re_match factor_re part of
        None \<Rightarrow> Inr None
      | Some m \<Rightarrow>
          (case try_conditions (splitTopLevelAnd (group m 1)) of
             Inl e \<Rightarrow> Inl e
           | Inr None \<Rightarrow> Inr None
           | Inr (Some cs) \<Rightarrow>
               Inr (if cs = [] then None
                    else Some \<lparr>conditions = cs, multiplier = group m 2\<rparr>)))"

fun try_factors :: "jsstring list \<Rightarrow> RequestRuleGroup list attempt" where
  "try_factors [] = Inr (Some [])"
| "try_factors (p # rest) =
     (case tryParseRuleGroupFactor p of
        Inl e \<Rightarrow> Inl e
      | Inr None \<Rightarrow> Inr None
      | Inr (Some g) \<Rightarrow>
          (case try_factors rest of
             Inl e \<Rightarrow> Inl e
           | Inr None \<Rightarrow> Inr None
           | Inr (Some gs) \<Rightarrow> Inr (Some (g # gs))))"

definition tryParseRequestRuleExpr :: "jsstring \<Rightarrow> RequestRuleGroup list attempt" where
  "tryParseRequestRuleExpr expr =
     (let trimmed = trim expr
      in if trimmed = [] then Inr (Some []) else try_factors (splitTopLevelMultiply trimmed))"

section \<open>Separating the base expression from the rules\<close>

fun paren_scan :: "int \<Rightarrow> jsstring \<Rightarrow> bool" where
  "paren_scan d [] = (d = 0)"
| "paren_scan d (u # s) =
     (let d' = depth_step d u in if d' = 0 \<and> s \<noteq> [] then False else paren_scan d' s)"

definition hasFullOuterParens :: "jsstring \<Rightarrow> bool" where
  "hasFullOuterParens expr \<longleftrightarrow>
     startsWith expr (js ''('') \<and> endsWith expr (js '')'') \<and> paren_scan 0 expr"

lemma hasFullOuterParens_nonempty: "hasFullOuterParens s \<Longrightarrow> s \<noteq> []"
  by (auto simp: hasFullOuterParens_def startsWith_def)

function unwrap_loop :: "jsstring \<Rightarrow> jsstring" where
  "unwrap_loop current =
     (if hasFullOuterParens current then unwrap_loop (trim (butlast (tl current))) else current)"
  by pat_completeness auto
termination
proof (relation "measure length")
  fix current :: jsstring
  assume "hasFullOuterParens current"
  then have "current \<noteq> []" by (rule hasFullOuterParens_nonempty)
  moreover have "length (trim s) \<le> length s" for s
    by (simp add: trim_def) (metis length_dropWhile_le length_rev order_trans)
  ultimately have "length (trim (butlast (tl current))) < length current"
    by (metis le_less_trans length_butlast length_greater_0_conv length_tl diff_le_self
        diff_less less_le_trans zero_less_one)
  then show "(trim (butlast (tl current)), current) \<in> measure length" by simp
qed simp

declare unwrap_loop.simps [simp del]

definition unwrapOuterParens :: "jsstring \<Rightarrow> jsstring" where
  "unwrapOuterParens expr = unwrap_loop (trim expr)"

record SplitBilling =
  billingExpr :: jsstring
  requestRuleExpr :: jsstring

text \<open>\<open>parts.forEach\<close>: the parts that are request rules and the others, in order.\<close>

fun classify :: "jsstring list \<Rightarrow> parse_error + (jsstring list \<times> jsstring list)" where
  "classify [] = Inr ([], [])"
| "classify (p # rest) =
     (case tryParseRequestRuleExpr p of
        Inl e \<Rightarrow> Inl e
      | Inr r \<Rightarrow>
          map_sum id (\<lambda>(rules, base).
              case r of Some (g # gs) \<Rightarrow> (p # rules, base) | _ \<Rightarrow> (rules, p # base))
            (classify rest))"

definition splitBillingExprAndRequestRules :: "jsstring \<Rightarrow> parse_error + SplitBilling" where
  "splitBillingExprAndRequestRules expr =
     (let trimmed = trim expr
      in if trimmed = [] then Inr \<lparr>billingExpr = [], requestRuleExpr = []\<rparr>
         else
           (let parts = splitTopLevelMultiply trimmed
            in if length parts \<le> 1 then Inr \<lparr>billingExpr = trimmed, requestRuleExpr = []\<rparr>
               else map_sum id (\<lambda>(ruleParts, baseParts).
                   if ruleParts = [] \<or> length baseParts \<noteq> 1
                   then \<lparr>billingExpr = trimmed, requestRuleExpr = []\<rparr>
                   else \<lparr>billingExpr = unwrapOuterParens (hd baseParts),
                         requestRuleExpr = join (js '' * '') ruleParts\<rparr>)
                 (classify parts)))"

definition combineBillingExpr :: "jsstring \<Rightarrow> jsstring \<Rightarrow> jsstring" where
  "combineBillingExpr baseExpr requestRules =
     (let base = trim baseExpr; rules = trim requestRules
      in if base = [] then [] else if rules = [] then base
         else js ''('' @ base @ js '') * '' @ rules)"

end
