(* ===== verification/Billing_Editor.thy ===== *)
theory Billing_Editor
  imports Billing_Expr
begin

text \<open>
  The editor half of \<open>billing-expr.ts\<close>: the variable registry, the empty conditions and rule
  groups, the match options of a source, the normalisation of a condition, and the printing of
  conditions, groups and rule expressions.
\<close>

section \<open>Variable registry\<close>

datatype var_side = SideInput | SideOutput | SideCondition

record BillingVar =
  bv_key :: jsstring
  bv_field :: "jsstring option"
  bv_tierField :: "jsstring option"
  bv_label :: jsstring
  bv_shortLabel :: jsstring
  bv_side :: var_side
  bv_isBase :: bool
  bv_isConditionOnly :: bool
  bv_group :: "jsstring option"

definition price_var :: "string \<Rightarrow> string \<Rightarrow> string \<Rightarrow> string \<Rightarrow> string \<Rightarrow> var_side \<Rightarrow> string option \<Rightarrow> BillingVar" where
  "price_var k f tf l sl sd g = \<lparr>bv_key = js k, bv_field = Some (js f), bv_tierField = Some (js tf),
     bv_label = js l, bv_shortLabel = js sl, bv_side = sd, bv_isBase = (g = None),
     bv_isConditionOnly = False, bv_group = map_option js g\<rparr>"

definition BILLING_VARS :: "BillingVar list" where
  "BILLING_VARS =
    [price_var ''p'' ''inputPrice'' ''input_unit_cost'' ''Input price'' ''Input'' SideInput None,
     price_var ''c'' ''outputPrice'' ''output_unit_cost'' ''Completion price'' ''Output'' SideOutput None,
     \<lparr>bv_key = js ''len'', bv_field = None, bv_tierField = None, bv_label = js ''Input length'',
      bv_shortLabel = js ''Length'', bv_side = SideCondition, bv_isBase = False,
      bv_isConditionOnly = True, bv_group = None\<rparr>,
     price_var ''cr'' ''cacheReadPrice'' ''cache_read_unit_cost'' ''Cache read price'' ''Cache Read''
       SideInput (Some ''cache''),
     price_var ''cc'' ''cacheCreatePrice'' ''cache_create_unit_cost'' ''Cache create price''
       ''Cache Write'' SideInput (Some ''cache''),
     price_var ''cc1h'' ''cacheCreate1hPrice'' ''cache_create_1h_unit_cost''
       ''Cache create (1h) price'' ''Cache Write (1h)'' SideInput (Some ''cache''),
     price_var ''img'' ''imagePrice'' ''image_unit_cost'' ''Image input price'' ''Image In''
       SideInput (Some ''media''),
     price_var ''img_o'' ''imageOutputPrice'' ''image_output_unit_cost'' ''Image output price''
       ''Image Out'' SideOutput (Some ''media''),
     price_var ''ai'' ''audioInputPrice'' ''audio_input_unit_cost'' ''Audio input price'' ''Audio In''
       SideInput (Some ''media''),
     price_var ''ao'' ''audioOutputPrice'' ''audio_output_unit_cost'' ''Audio output price''
       ''Audio Out'' SideOutput (Some ''media'')]"

definition BILLING_PRICING_VARS :: "BillingVar list" where
  "BILLING_PRICING_VARS = filter (\<lambda>v. \<not> bv_isConditionOnly v) BILLING_VARS"

definition BILLING_CONDITION_VARS :: "jsstring list" where
  "BILLING_CONDITION_VARS = map bv_key (filter (\<lambda>v. bv_isBase v \<or> bv_isConditionOnly v) BILLING_VARS)"

definition BILLING_EXTRA_VARS :: "BillingVar list" where
  "BILLING_EXTRA_VARS = filter (\<lambda>v. \<not> bv_isBase v \<and> \<not> bv_isConditionOnly v) BILLING_VARS"

definition BILLING_CACHE_VAR_MAP :: "(jsstring \<times> jsstring) list" where
  "BILLING_CACHE_VAR_MAP =
     map (\<lambda>v. (case bv_tierField v of None \<Rightarrow> [] | Some f \<Rightarrow> f, bv_key v)) BILLING_EXTRA_VARS"

section \<open>Empty values\<close>

definition createEmptyCondition :: ParamHeaderCondition where
  "createEmptyCondition = \<lparr>ph_source = SOURCE_PARAM, ph_path = [], ph_mode = MATCH_EQ, ph_value = []\<rparr>"

definition createEmptyTimeCondition :: TimeCondition where
  "createEmptyTimeCondition = \<lparr>timeFunc = js ''hour'', timezone = js ''Asia/Shanghai'',
     t_mode = MATCH_GTE, t_value = [], rangeStart = [], rangeEnd = []\<rparr>"

definition createEmptyRuleGroup :: RequestRuleGroup where
  "createEmptyRuleGroup = \<lparr>conditions = [PH createEmptyCondition], multiplier = []\<rparr>"

definition createEmptyTimeRuleGroup :: RequestRuleGroup where
  "createEmptyTimeRuleGroup = \<lparr>conditions = [Time createEmptyTimeCondition], multiplier = []\<rparr>"

section \<open>Match options and normalisation\<close>

record MatchOption =
  mo_value :: jsstring
  mo_labelKey :: jsstring

definition getRequestRuleMatchOptions :: "jsstring \<Rightarrow> MatchOption list" where
  "getRequestRuleMatchOptions source =
     (let opt = (\<lambda>v l. \<lparr>mo_value = v, mo_labelKey = js l\<rparr>) in
      if source = SOURCE_TIME then
        [opt MATCH_EQ ''Equals'', opt MATCH_GTE ''Greater than or equal'',
         opt MATCH_LT ''Less than'', opt MATCH_RANGE ''Overnight range'']
      else
        (let base = [opt MATCH_EQ ''Equals'', opt MATCH_CONTAINS ''Contains'',
           opt MATCH_EXISTS ''Exists'']
         in if source = SOURCE_HEADER then base
            else base @ [opt MATCH_GT ''Greater than'', opt MATCH_GTE ''Greater than or equal'',
              opt MATCH_LT ''Less than'', opt MATCH_LTE ''Less than or equal'']))"

definition isTimeFunc :: "jsstring \<Rightarrow> bool" where
  "isTimeFunc v \<longleftrightarrow> v \<in> set TIME_FUNCS"

text \<open>A partial condition: a field that is absent or \<open>undefined\<close> is \<open>None\<close>.\<close>

record PartialCondition =
  pc_source :: "jsstring option"
  pc_timeFunc :: "jsstring option"
  pc_timezone :: "jsstring option"
  pc_path :: "jsstring option"
  pc_mode :: "jsstring option"
  pc_value :: "jsstring option"
  pc_rangeStart :: "jsstring option"
  pc_rangeEnd :: "jsstring option"

definition partial_of :: "RequestCondition \<Rightarrow> PartialCondition" where
  "partial_of c =
     (case c of
        PH p \<Rightarrow> \<lparr>pc_source = Some (ph_source p), pc_timeFunc = None, pc_timezone = None,
          pc_path = Some (ph_path p), pc_mode = Some (ph_mode p), pc_value = Some (ph_value p),
          pc_rangeStart = None, pc_rangeEnd = None\<rparr>
      | Time t \<Rightarrow> \<lparr>pc_source = Some SOURCE_TIME, pc_timeFunc = Some (timeFunc t),
          pc_timezone = Some (timezone t), pc_path = None, pc_mode = Some (t_mode t),
          pc_value = Some (t_value t), pc_rangeStart = Some (rangeStart t),
          pc_rangeEnd = Some (rangeEnd t)\<rparr>)"

definition or_empty :: "jsstring option \<Rightarrow> jsstring" where
  "or_empty v = (case v of None \<Rightarrow> [] | Some s \<Rightarrow> s)"

definition pick_mode :: "jsstring \<Rightarrow> jsstring option \<Rightarrow> jsstring \<Rightarrow> jsstring" where
  "pick_mode source mode dflt =
     (case mode of
        None \<Rightarrow> dflt
      | Some m \<Rightarrow> if m \<in> mo_value ` set (getRequestRuleMatchOptions source) then m else dflt)"

definition normalizeCondition :: "PartialCondition \<Rightarrow> RequestCondition" where
  "normalizeCondition cond =
     (let source = (if pc_source cond = Some SOURCE_TIME then SOURCE_TIME
                    else if pc_source cond = Some SOURCE_HEADER then SOURCE_HEADER
                    else SOURCE_PARAM)
      in if source = SOURCE_TIME then
           Time \<lparr>timeFunc = (case pc_timeFunc cond of
                  None \<Rightarrow> js ''hour'' | Some f \<Rightarrow> if isTimeFunc f then f else js ''hour''),
                timezone = (if or_empty (pc_timezone cond) = [] then js ''Asia/Shanghai''
                            else or_empty (pc_timezone cond)),
                t_mode = pick_mode SOURCE_TIME (pc_mode cond) MATCH_GTE,
                t_value = or_empty (pc_value cond),
                rangeStart = or_empty (pc_rangeStart cond),
                rangeEnd = or_empty (pc_rangeEnd cond)\<rparr>
         else
           PH \<lparr>ph_source = source, ph_path = or_empty (pc_path cond),
               ph_mode = pick_mode source (pc_mode cond) MATCH_EQ,
               ph_value = or_empty (pc_value cond)\<rparr>)"

section \<open>Printing\<close>

definition buildExprLiteral :: "jsstring \<Rightarrow> jsstring \<Rightarrow> jsstring" where
  "buildExprLiteral mode val =
     (let text = trim val
      in if mode = MATCH_CONTAINS then json_quote text
         else if text = js ''true'' \<or> text = js ''false'' then text
         else if NUMERIC_LITERAL text then text
         else json_quote text)"

definition time_op :: "jsstring \<Rightarrow> jsstring" where
  "time_op mode =
     js (if mode = MATCH_EQ then ''=='' else if mode = MATCH_GTE then ''>=''
         else if mode = MATCH_LT then ''<'' else ''=='')"

definition buildTimeConditionExpr :: "TimeCondition \<Rightarrow> jsstring" where
  "buildTimeConditionExpr cond =
     (case normalizeCondition (partial_of (Time cond)) of
        PH _ \<Rightarrow> []
      | Time n \<Rightarrow>
          (let fn = timeFunc n @ js ''('' @ json_quote (timezone n) @ js '')''
           in if t_mode n = MATCH_RANGE then
                (let s = trim (rangeStart n); e = trim (rangeEnd n)
                 in if \<not> NUMERIC_LITERAL s \<or> \<not> NUMERIC_LITERAL e then []
                    else fn @ js '' >= '' @ s @ js '' || '' @ fn @ js '' < '' @ e)
              else
                (let v = trim (t_value n)
                 in if \<not> NUMERIC_LITERAL v then []
                    else fn @ js '' '' @ time_op (t_mode n) @ js '' '' @ v)))"

definition compare_op :: "jsstring \<Rightarrow> jsstring" where
  "compare_op mode =
     js (if mode = MATCH_GT then ''>'' else if mode = MATCH_GTE then ''>=''
         else if mode = MATCH_LT then ''<'' else ''<='')"

definition buildRequestConditionExpr :: "RequestCondition \<Rightarrow> jsstring" where
  \<open>buildRequestConditionExpr cond =
     (case cond of
        Time t \<Rightarrow> buildTimeConditionExpr t
      | PH _ \<Rightarrow>
     (case normalizeCondition (partial_of cond) of
        Time _ \<Rightarrow> []
      | PH n \<Rightarrow>
          (let path = trim (ph_path n); hdr = (ph_source n = SOURCE_HEADER);
               src = (if hdr then js ''header('' else js ''param('') @ json_quote path @ js '')''
           in if path = [] then []
              else if ph_mode n = MATCH_EXISTS then
                (if hdr then src @ js '' != ""'' else src @ js '' != nil'')
              else if ph_mode n = MATCH_CONTAINS then
                (if hdr
                 then js ''has('' @ src @ js '', '' @ buildExprLiteral (ph_mode n) (ph_value n) @ js '')''
                 else src @ js '' != nil && has('' @ src @ js '', ''
                   @ buildExprLiteral (ph_mode n) (ph_value n) @ js '')'')
              else if ph_mode n \<in> {MATCH_GT, MATCH_GTE, MATCH_LT, MATCH_LTE} then
                (let numText = trim (ph_value n)
                 in if \<not> NUMERIC_LITERAL numText then []
                    else src @ js '' != nil && '' @ src @ js '' '' @ compare_op (ph_mode n)
                      @ js '' '' @ numText)
              else src @ js '' == '' @ buildExprLiteral (ph_mode n) (ph_value n))))\<close>

definition buildRuleGroupFactor :: "RequestRuleGroup \<Rightarrow> jsstring" where
  "buildRuleGroupFactor grp =
     (let mult = trim (multiplier grp)
      in if \<not> NUMERIC_LITERAL mult then []
         else
           (let condExprs = filter (\<lambda>e. e \<noteq> []) (map buildRequestConditionExpr (conditions grp))
            in if condExprs = [] then []
               else
                 (let combined =
                        (if length condExprs = 1 then hd condExprs
                         else join (js '' && '')
                           (map (\<lambda>e. if includes_str e (js '' || '') then js ''('' @ e @ js '')'' else e)
                             condExprs))
                  in js ''('' @ combined @ js '' ? '' @ mult @ js '' : 1)'')))"

definition buildRequestRuleExpr :: "RequestRuleGroup list \<Rightarrow> jsstring" where
  "buildRequestRuleExpr groups =
     join (js '' * '') (filter (\<lambda>f. f \<noteq> []) (map buildRuleGroupFactor groups))"

end
