(* ===== verification/Billing_Split.thy ===== *)
theory Billing_Split
  imports Billing_Editor
begin

text \<open>
  Splitting at the top level.  The two splitters of \<open>billing-expr.ts\<close> share a contract: a
  separator that starts with neither bracket.  Under it, joining parts that hide every
  separator and splitting again gives the parts back.  The properties here are the round trip
  between \<open>combineBillingExpr\<close> and \<open>splitBillingExprAndRequestRules\<close> and the total
  correctness of \<open>unwrapOuterParens\<close>.
\<close>

section \<open>Bracket depth\<close>

definition depth_after :: "int \<Rightarrow> jsstring \<Rightarrow> int" where
  "depth_after d s = foldl depth_step d s"

primrec stays :: "int \<Rightarrow> jsstring \<Rightarrow> bool" where
  "stays d [] \<longleftrightarrow> True"
| "stays d (u # s) \<longleftrightarrow> 0 \<le> depth_step d u \<and> stays (depth_step d u) s"

text \<open>A text whose brackets are balanced: the depth never falls below zero and ends at zero.\<close>

definition balanced :: "jsstring \<Rightarrow> bool" where
  "balanced s \<longleftrightarrow> stays 0 s \<and> depth_after 0 s = 0"

definition wrap :: "jsstring \<Rightarrow> jsstring" where
  "wrap s = [40] @ s @ [41]"

lemma depth_after_simps [simp]:
  "depth_after d [] = d"
  "depth_after d (u # s) = depth_after (depth_step d u) s"
  "depth_after d (s @ t) = depth_after (depth_after d s) t"
  by (simp_all add: depth_after_def)

lemma depth_step_shift: "depth_step (d + k) u = depth_step d u + k"
  by (simp add: depth_step_def)

lemma depth_after_shift: "depth_after (d + k) s = depth_after d s + k"
  by (induction s arbitrary: d) (simp_all add: depth_step_shift)

lemma no_brackets:
  "\<forall>u\<in>set s. u \<noteq> 40 \<and> u \<noteq> 41 \<Longrightarrow> depth_after d s = d"
  "\<forall>u\<in>set s. u \<noteq> 40 \<and> u \<noteq> 41 \<Longrightarrow> 0 \<le> d \<Longrightarrow> stays d s"
  by (induction s) (simp_all add: depth_step_def)

lemma no_brackets_balanced: "\<forall>u\<in>set s. u \<noteq> 40 \<and> u \<noteq> 41 \<Longrightarrow> balanced s"
  by (simp add: balanced_def no_brackets)

lemma stays_append [simp]: "stays d (s @ t) \<longleftrightarrow> stays d s \<and> stays (depth_after d s) t"
  by (induction s arbitrary: d) simp_all

lemma stays_shift: "stays d s \<Longrightarrow> 0 \<le> k \<Longrightarrow> stays (d + k) s"
  by (induction s arbitrary: d) (auto simp: depth_step_shift)

lemma balanced_append: "balanced s \<Longrightarrow> balanced t \<Longrightarrow> balanced (s @ t)"
  by (simp add: balanced_def)

lemma balanced_wrap: "balanced s \<Longrightarrow> balanced (wrap s)"
  using depth_after_shift [of 0 1 s] stays_shift [of 0 s 1]
  by (simp add: balanced_def wrap_def depth_step_def)

lemma trimmed_wrap [simp]: "trimmed (wrap s)"
  by (simp add: trimmed_def wrap_def)

lemma wrap_nonempty [simp]: "wrap s \<noteq> []" "[] \<noteq> wrap s"
  by (simp_all add: wrap_def)

section \<open>Splitting\<close>

text \<open>Inside brackets nothing is a separator.\<close>

lemma split_top_inside:
  "stays d s \<Longrightarrow> 0 \<le> d \<Longrightarrow>
   split_top sep (d + 1) cur (s @ r) = split_top sep (depth_after (d + 1) s) (rev s @ cur) r"
proof (induction s arbitrary: d cur)
  case (Cons u s)
  then have "0 \<le> depth_step d u" by simp
  then have "depth_step (d + 1) u \<noteq> 0" by (simp add: depth_step_shift)
  with Cons show ?case by (simp add: depth_step_shift)
qed simp

locale top_level_separator =
  fixes sep :: jsstring and h :: unit16 and t :: jsstring
  assumes sep_shape: "sep = h # t"
    and not_bracket: "h \<noteq> 40" "h \<noteq> 41"
begin

text \<open>A part is opaque when the splitter passes over it, whether the text ends after it or goes
  on with a separator.\<close>

definition opaque :: "jsstring \<Rightarrow> bool" where
  "opaque f \<longleftrightarrow> (\<forall>cur r. r = [] \<or> startsWith r sep \<longrightarrow>
     split_top sep 0 cur (f @ r) = split_top sep 0 (rev f @ cur) r)"

lemma split_at_sep: "split_top sep 0 cur (sep @ r) = trim (rev cur) # split_top sep 0 [] r"
  using not_bracket by (simp add: sep_shape depth_step_def startsWith_def)

lemma split_over_wrap:
  assumes "balanced b"
  shows "split_top sep 0 cur (wrap b @ r) = split_top sep 0 (rev (wrap b) @ cur) r"
proof -
  have "split_top sep 0 cur (wrap b @ r) = split_top sep (0 + 1) (40 # cur) (b @ 41 # r)"
    by (simp add: wrap_def depth_step_def)
  also have "\<dots> = split_top sep (depth_after (0 + 1) b) (rev b @ 40 # cur) (41 # r)"
    using assms by (intro split_top_inside) (auto simp: balanced_def)
  also have "depth_after (0 + 1) b = 1"
    using assms depth_after_shift [of 0 1 b] by (simp add: balanced_def)
  also have "split_top sep 1 (rev b @ 40 # cur) (41 # r) = split_top sep 0 (rev (wrap b) @ cur) r"
    using not_bracket by (simp add: wrap_def depth_step_def sep_shape startsWith_def)
  finally show ?thesis .
qed

lemma opaque_wrap: "balanced b \<Longrightarrow> opaque (wrap b)"
  by (simp add: opaque_def split_over_wrap)

lemma split_join_opaque:
  "fs \<noteq> [] \<Longrightarrow> \<forall>f\<in>set fs. opaque f \<Longrightarrow> split_top sep 0 [] (join sep fs) = map trim fs"
proof (induction fs)
  case (Cons f fs)
  show ?case
  proof (cases fs)
    case Nil
    with Cons have "split_top sep 0 [] (f @ []) = split_top sep 0 (rev f @ []) []"
      by (simp only: opaque_def) auto
    with Nil show ?thesis by simp
  next
    case (Cons g gs)
    have "startsWith (sep @ join sep fs) sep" by (simp add: startsWith_def)
    with Cons.prems have "split_top sep 0 [] (f @ sep @ join sep fs)
        = split_top sep 0 (rev f @ []) (sep @ join sep fs)"
      by (simp only: opaque_def) auto
    with Cons Cons.IH Cons.prems show ?thesis by (simp add: split_at_sep)
  qed
qed simp

lemma split_join_trimmed:
  assumes "fs \<noteq> []" "\<forall>f\<in>set fs. opaque f \<and> f \<noteq> [] \<and> trimmed f"
  shows "filter (\<lambda>p. p \<noteq> []) (split_top sep 0 [] (join sep fs)) = fs"
proof -
  have "map trim fs = fs" using assms(2) by (intro map_idI) auto
  moreover have "filter (\<lambda>p. p \<noteq> []) fs = fs" using assms(2) by (simp add: filter_id_conv)
  ultimately show ?thesis using split_join_opaque assms by simp
qed

end

interpretation mul: top_level_separator "js '' * ''" 32 "[42, 32]"
  by unfold_locales simp_all

interpretation conj: top_level_separator "js '' && ''" 32 "[38, 38, 32]"
  by unfold_locales simp_all

lemma splitTopLevelMultiply_join:
  "fs \<noteq> [] \<Longrightarrow> \<forall>f\<in>set fs. mul.opaque f \<and> f \<noteq> [] \<and> trimmed f \<Longrightarrow>
   splitTopLevelMultiply (join (js '' * '') fs) = fs"
  unfolding splitTopLevelMultiply_def by (rule mul.split_join_trimmed)

lemma splitTopLevelAnd_join:
  "fs \<noteq> [] \<Longrightarrow> \<forall>f\<in>set fs. conj.opaque f \<and> f \<noteq> [] \<and> trimmed f \<Longrightarrow>
   splitTopLevelAnd (join (js '' && '') fs) = fs"
  unfolding splitTopLevelAnd_def by (rule conj.split_join_trimmed)

section \<open>Outer brackets\<close>

lemma unwrap_loop_done: "\<not> hasFullOuterParens (unwrap_loop s)"
  by (induction s rule: unwrap_loop.induct) (metis unwrap_loop.simps)

lemma paren_scan_inside:
  "stays d s \<Longrightarrow> 0 \<le> d \<Longrightarrow> s @ r \<noteq> [] \<Longrightarrow> r \<noteq> [] \<Longrightarrow>
   paren_scan (d + 1) (s @ r) = paren_scan (depth_after (d + 1) s) r"
proof (induction s arbitrary: d)
  case (Cons u s)
  then have "0 \<le> depth_step d u" by simp
  then have "depth_step (d + 1) u \<noteq> 0" by (simp add: depth_step_shift)
  with Cons show ?case by (simp add: depth_step_shift)
qed simp

lemma hasFullOuterParens_wrap: "balanced b \<Longrightarrow> hasFullOuterParens (wrap b)"
proof -
  assume b: "balanced b"
  then have "depth_after 1 b = 1" using depth_after_shift [of 0 1 b] by (simp add: balanced_def)
  moreover have "paren_scan 0 (wrap b) = paren_scan (0 + 1) (b @ [41])"
    by (simp add: wrap_def depth_step_def)
  ultimately show ?thesis
    using b paren_scan_inside [of 0 b "[41]"]
    by (simp add: hasFullOuterParens_def balanced_def startsWith_def endsWith_def wrap_def
        depth_step_def)
qed

lemma unwrap_wrap: "balanced b \<Longrightarrow> unwrapOuterParens (wrap b) = unwrapOuterParens b"
  using hasFullOuterParens_wrap [of b]
  by (simp add: unwrapOuterParens_def unwrap_loop.simps [of "wrap b"]) (simp add: wrap_def)

lemma unwrap_trimmed: "trimmed s \<Longrightarrow> trimmed (unwrap_loop s)"
  by (induction s rule: unwrap_loop.induct) (subst unwrap_loop.simps, auto)


interpretation unwrapping: normaliser unwrapOuterParens "\<lambda>s. trimmed s \<and> \<not> hasFullOuterParens s"
proof unfold_locales
  fix s
  show "trimmed (unwrapOuterParens s) \<and> \<not> hasFullOuterParens (unwrapOuterParens s)"
    by (simp add: unwrapOuterParens_def unwrap_trimmed unwrap_loop_done)
  show "trimmed s \<and> \<not> hasFullOuterParens s \<Longrightarrow> unwrapOuterParens s = s"
    by (simp add: unwrapOuterParens_def unwrap_loop.simps [of s])
qed

section \<open>Combining and splitting\<close>

lemma join_wrapped_nonempty: "fs \<noteq> [] \<Longrightarrow> \<forall>f\<in>set fs. \<exists>c. f = wrap c \<Longrightarrow> join sep fs \<noteq> []"
  using join_eq_Nil [of sep fs] by (cases fs) auto

lemma join_ends:
  "fs \<noteq> [] \<Longrightarrow> \<forall>f\<in>set fs. \<exists>c. f = wrap c \<Longrightarrow>
   hd (join sep fs) = 40 \<and> last (join sep fs) = 41"
proof (induction sep fs rule: join.induct)
  case (3 sep w v ws)
  then obtain c where "w = wrap c" by auto
  with 3 show ?case using join_wrapped_nonempty [of "v # ws" sep] by (auto simp: wrap_def)
qed (auto simp: wrap_def)

lemma trimmed_join_wrapped:
  "fs \<noteq> [] \<Longrightarrow> \<forall>f\<in>set fs. \<exists>c. f = wrap c \<Longrightarrow> trimmed (join sep fs)"
  using join_ends [of fs sep] by (simp add: trimmed_def)

lemma try_rule_of_wrapped:
  "balanced c \<Longrightarrow> tryParseRequestRuleExpr (wrap c) =
     (case tryParseRuleGroupFactor (wrap c) of
        Inl e \<Rightarrow> Inl e | Inr None \<Rightarrow> Inr None | Inr (Some g) \<Rightarrow> Inr (Some [g]))"
proof -
  assume "balanced c"
  then have "splitTopLevelMultiply (wrap c) = [wrap c]"
    using splitTopLevelMultiply_join [of "[wrap c]"] mul.opaque_wrap [of c] by simp
  then show ?thesis
    by (simp add: tryParseRequestRuleExpr_def split: sum.splits option.splits)
qed

lemma classify_rules:
  assumes "\<forall>f\<in>set fs. (\<exists>c. f = wrap c \<and> balanced c) \<and> (\<exists>g. tryParseRuleGroupFactor f = Inr (Some g))"
  shows "classify fs = Inr (fs, [])"
  using assms by (induction fs) (auto simp: try_rule_of_wrapped)

lemma combine_then_split:
  assumes "balanced b" "trimmed b" "b \<noteq> []" "fs \<noteq> []"
    and rules: "\<forall>f\<in>set fs. (\<exists>c. f = wrap c \<and> balanced c) \<and> (\<exists>g. tryParseRuleGroupFactor f = Inr (Some g))"
    and base: "tryParseRuleGroupFactor (wrap b) = Inr None"
  shows "splitBillingExprAndRequestRules (combineBillingExpr b (join (js '' * '') fs)) =
    Inr \<lparr>billingExpr = unwrapOuterParens b, requestRuleExpr = join (js '' * '') fs\<rparr>"
proof -
  let ?rules = "join (js '' * '') fs" and ?all = "join (js '' * '') (wrap b # fs)"
  have wrapped: "\<forall>f\<in>set fs. \<exists>c. f = wrap c" using rules by blast
  have nonempty: "?rules \<noteq> []" "trimmed ?rules"
    using join_wrapped_nonempty [OF \<open>fs \<noteq> []\<close> wrapped] trimmed_join_wrapped [OF \<open>fs \<noteq> []\<close> wrapped]
    by auto
  then have comb: "combineBillingExpr b ?rules = ?all"
    using assms(2-4) by (cases fs) (auto simp: combineBillingExpr_def wrap_def Let_def)
  have whole: "trim ?all = ?all" "?all \<noteq> []"
    using trimmed_join_wrapped [of "wrap b # fs" "js '' * ''"] wrapped
      join_wrapped_nonempty [of "wrap b # fs" "js '' * ''"]
    by (auto simp del: js.simps join.simps intro!: trim_id)
  have parts: "splitTopLevelMultiply ?all = wrap b # fs"
    using assms(1) rules by (intro splitTopLevelMultiply_join) (auto simp del: js.simps intro!: mul.opaque_wrap)
  have "classify (wrap b # fs) = Inr (fs, [wrap b])"
    using classify_rules [OF rules] assms(1) base by (simp add: try_rule_of_wrapped)
  with comb whole parts assms(1,4) show ?thesis
    by (simp add: splitBillingExprAndRequestRules_def Let_def unwrap_wrap del: js.simps join.simps)
qed

section \<open>Properties\<close>

text \<open>C2: Round trip of the billing expression: combining a base expression with request rules and
  splitting the result gives the rules back unchanged and the base without its redundant
  outer brackets.  The provisos: the base is trimmed, not empty and has balanced brackets, and in
  brackets of its own it is not itself a rule; there is a rule, and each one is a bracketed text with
  balanced brackets inside that parses.  A bracket without its partner, in a label for instance, is
  outside of them: the text is then not split at its multiplications.\<close>

theorem combine_split_round_trip:
  assumes "balanced b" "trimmed b" "b \<noteq> []" "fs \<noteq> []"
    and rules: "\<forall>f\<in>set fs. (\<exists>c. f = wrap c \<and> balanced c) \<and> (\<exists>g. tryParseRuleGroupFactor f = Inr (Some g))"
    and base: "tryParseRuleGroupFactor (wrap b) = Inr None"
  shows "splitBillingExprAndRequestRules (combineBillingExpr b (join (js '' * '') fs)) =
    Inr \<lparr>billingExpr = unwrapOuterParens b, requestRuleExpr = join (js '' * '') fs\<rparr>"
  using assms by (rule combine_then_split)

definition example_condition :: jsstring where
  \<open>example_condition = js ''header("x") != ""''\<close>

definition example_rule :: jsstring where
  \<open>example_rule = js ''header("x") != "" ? 2 : 1''\<close>

lemma example_base: "tryParseRuleGroupFactor (wrap (js ''p + c'')) = Inr None"
  by (simp add: tryParseRuleGroupFactor_def factor_re_def regex_eval wrap_def any_dotall_def
      js_eval del: rmatch.simps(5,6))

lemma example_factor:
  "\<exists>m. re_match factor_re (wrap example_rule) = Some m \<and> group m 1 = example_condition"
  by (simp add: example_rule_def example_condition_def factor_re_def regex_eval wrap_def numc_def
      any_dotall_def js_eval del: rmatch.simps(5,6))

lemma example_parsed: "\<exists>c. tryParseRequestCondition example_condition = Inr (Some c)"
proof -
  have "tryParseTimeCondition example_condition = None"
    by (simp add: example_condition_def tryParseTimeCondition_def time_range_re_def
        time_paren_range_re_def time_op_re_def time_funcs_re_def regex_eval js_eval
        del: rmatch.simps(5,6))
  then show ?thesis
    by (simp add: tryParseRequestCondition_def)
      (simp add: example_condition_def header_exists_re_def regex_eval notq_def js_eval
        del: rmatch.simps(5,6))
qed

lemma example_is_rule: "\<exists>g. tryParseRuleGroupFactor (wrap example_rule) = Inr (Some g)"
proof -
  obtain m where m: "re_match factor_re (wrap example_rule) = Some m" "group m 1 = example_condition"
    using example_factor by blast
  obtain c where c: "tryParseRequestCondition example_condition = Inr (Some c)"
    using example_parsed by blast
  have "splitTopLevelAnd example_condition = [example_condition]" "trim example_condition = example_condition"
    by (simp_all add: splitTopLevelAnd_def example_condition_def depth_step_def Let_def js_eval)
  with m c show ?thesis by (simp add: tryParseRuleGroupFactor_def)
qed

theorem combine_split_round_trip_witness:
  "splitBillingExprAndRequestRules (combineBillingExpr (js ''p + c'') (join (js '' * '') [wrap example_rule]))
   = Inr \<lparr>billingExpr = unwrapOuterParens (js ''p + c''),
      requestRuleExpr = join (js '' * '') [wrap example_rule]\<rparr>"
proof (rule combine_split_round_trip)
  show "balanced (js ''p + c'')" by (simp add: balanced_def depth_step_def)
  show "trimmed (js ''p + c'')" by (simp add: trimmed_def)
  have "balanced example_rule" by (simp add: balanced_def depth_step_def example_rule_def)
  then show "\<forall>f\<in>set [wrap example_rule]. (\<exists>c. f = wrap c \<and> balanced c)
      \<and> (\<exists>g. tryParseRuleGroupFactor f = Inr (Some g))"
    using example_is_rule by auto
qed (simp_all add: example_base [simplified])

text \<open>\<open>unwrapOuterParens\<close> removes every layer of redundant outer brackets around a balanced
  text, ends (the loop terminates) with a text that has no such layer left, and does nothing
  more when applied again.\<close>

theorem unwrap_layers:
  assumes "balanced b"
  shows "unwrapOuterParens ((wrap ^^ n) b) = unwrapOuterParens b
    \<and> \<not> hasFullOuterParens (unwrapOuterParens b)
    \<and> unwrapOuterParens (unwrapOuterParens b) = unwrapOuterParens b"
proof -
  have "balanced ((wrap ^^ n) b) \<and> unwrapOuterParens ((wrap ^^ n) b) = unwrapOuterParens b"
  proof (induction n)
    case (Suc n)
    then show ?case by (simp add: unwrap_wrap balanced_wrap)
  qed (use assms in simp)
  then show ?thesis using unwrapping.norm_wf unwrapping.norm_idem by blast
qed

theorem unwrap_layers_witness:
  "unwrapOuterParens ((wrap ^^ 2) (js ''p + (c)'')) = unwrapOuterParens (js ''p + (c)'')"
proof -
  have "balanced (js ''p + (c)'')" by (simp add: balanced_def depth_step_def)
  then show ?thesis using unwrap_layers by blast
qed

end
