(* ===== verification/Billing_Props.thy ===== *)
theory Billing_Props
  imports Billing_Split
begin

text \<open>
  What the editor prints, the parser reads: the round trip of request rules for canonical
  conditions, the normal form of conditions, and the two places where the reading half of
  \<open>billing-expr.ts\<close> does not match the writing half: parameter comparisons, and a malformed
  escape inside a \<open>has(..)\<close> test.
\<close>

section \<open>Numbers and plain texts\<close>

text \<open>A numeric literal is a non-empty run of the units a number pattern accepts.\<close>

lemma numeric_reads: "reads_only numc numeric_literal_re"
  by (auto simp: numeric_literal_re_def ropt_def rplus_def rlit_def numc_def)

lemma numeric_run: "NUMERIC_LITERAL s \<Longrightarrow> list_all numc s \<and> s \<noteq> []"
proof -
  assume n: "NUMERIC_LITERAL s"
  let ?r = "rseqs
     [ropt (rlit ''-''),
      RAlt (rseqs [rplus (RSet is_digit), ropt (rlit ''.''), RStar (RSet is_digit)])
           (RSeq (rlit ''.'') (rplus (RSet is_digit))),
      ropt (rseqs [RSet (\<lambda>u. u = 101 \<or> u = 69), ropt (RSet (\<lambda>u. u = 43 \<or> u = 45)),
        rplus (RSet is_digit)]),
      REnd]"
  obtain st where st: "st \<in> set (rmatch ?r ([], s, no_caps))"
    using n unfolding NUMERIC_LITERAL_def numeric_literal_re_def re_test_begin
    by (meson list.set_sel(1))
  then have "rest_of st = []" by (auto split: if_splits)
  moreover have "advance numc ([], s, no_caps) st"
    using numeric_reads by (intro reads_only_advance [OF _ st]) (simp add: numeric_literal_re_def)
  moreover have "s \<noteq> []"
  proof
    assume "s = []"
    with st show False by (simp add: ropt_def rplus_def rlit_def)
  qed
  ultimately show ?thesis by (auto simp: advance_def)
qed

lemma numc_ascii: "numc u \<Longrightarrow> 43 \<le> u \<and> u < 102 \<and> u \<noteq> 47 \<and> u \<noteq> 63"
  by (auto simp: numc_def is_digit_def)

lemma numeric_units: "NUMERIC_LITERAL s \<Longrightarrow> u \<in> set s \<Longrightarrow> 43 \<le> u \<and> u < 102"
  using numeric_run numc_ascii by (fastforce simp: list_all_iff)

lemma numeric_trimmed [simp]: "NUMERIC_LITERAL s \<Longrightarrow> trimmed s"
proof -
  assume n: "NUMERIC_LITERAL s"
  have "\<not> is_ws u" if "u \<in> set s" for u using numeric_units [OF n that] by simp
  then show ?thesis by (intro trimmed_no_ws) blast
qed

definition plain_unit :: "unit16 \<Rightarrow> bool" where
  "plain_unit u \<longleftrightarrow> 32 \<le> u \<and> u < 55296 \<and> u \<notin> {34, 92, 40, 41, 38, 124, 8232, 8233}"

text \<open>A text the printers and the patterns of rules carry unchanged: trimmed, without control
  units, quotes, backslashes, brackets, ampersands and bars.\<close>

definition plain :: "jsstring \<Rightarrow> bool" where
  "plain s \<longleftrightarrow> trimmed s \<and> list_all plain_unit s"

lemma plain_quote: "plain s \<Longrightarrow> json_quote s = [34] @ s @ [34]"
  using quote_units_plain [of s] by (auto simp: plain_def plain_unit_def list_all_iff json_quote_def)

lemma plain_notq: "plain s \<Longrightarrow> list_all notq s"
  by (auto simp: plain_def plain_unit_def notq_def list_all_iff)

lemma plain_no_brackets:
  "plain s \<Longrightarrow> depth_after d s = d"
  "plain s \<Longrightarrow> 0 \<le> d \<Longrightarrow> stays d s"
  by (auto simp: plain_def plain_unit_def list_all_iff intro!: no_brackets)

lemma numeric_no_brackets:
  "NUMERIC_LITERAL s \<Longrightarrow> depth_after d s = d"
  "NUMERIC_LITERAL s \<Longrightarrow> 0 \<le> d \<Longrightarrow> stays d s"
  using numeric_units by (fastforce intro!: no_brackets)+

section \<open>Reading one condition\<close>

lemmas cond_regexes = time_range_re_def time_paren_range_re_def time_op_re_def time_funcs_re_def
  header_exists_re_def param_exists_re_def header_contains_re_def param_contains_re_def
  param_compare_re_def eq_re_def

definition src_text :: "jsstring \<Rightarrow> jsstring \<Rightarrow> jsstring" where
  "src_text f p = f @ [40, 34] @ p @ [34, 41]"

lemma parse_header_exists:
  assumes "plain p" "p \<noteq> []"
  shows \<open>tryParseRequestCondition (src_text (js ''header'') p @ js '' != ""'') =
    Inr (Some (ph SOURCE_HEADER p MATCH_EXISTS []))\<close>
  using assms(2) plain_notq [OF assms(1)]
  by (simp add: src_text_def tryParseRequestCondition_def tryParseTimeCondition_def cond_regexes rx notq_def
      del: rmatch.simps)

lemma parse_param_exists:
  assumes "plain p" "p \<noteq> []"
  shows \<open>tryParseRequestCondition (src_text (js ''param'') p @ js '' != nil'') =
    Inr (Some (ph SOURCE_PARAM p MATCH_EXISTS []))\<close>
  using assms(2) plain_notq [OF assms(1)]
  by (simp add: src_text_def tryParseRequestCondition_def tryParseTimeCondition_def cond_regexes rx notq_def
      del: rmatch.simps)

text \<open>Without a backslash the quoted pattern reads a run of ordinary units.\<close>

lemma quoted_star:
  "\<forall>u\<in>set s. \<not> B u \<Longrightarrow> rmatch (RStar (RAlt (RSet P) (RSeq (RSet B) (RSet Q)))) (pre, s, c) =
     rmatch (RStar (RSet P)) (pre, s, c)"
proof (induction s arbitrary: pre)
  case Nil
  show ?case by simp
next
  case (Cons u s)
  then have "rmatch (RAlt (RSet P) (RSeq (RSet B) (RSet Q))) (pre, u # s, c) =
      rmatch (RSet P) (pre, u # s, c)" by auto
  with Cons show ?case
    by (subst (1 2) rmatch_star_unfold) (auto simp del: rmatch.simps)
qed

lemma rmatch_quoted:
  assumes "list_all plain_unit v" "92 \<notin> set r"
  shows "rmatch (RSeq (quoted_re i) k) (pre, 34 # v @ 34 # r, c) =
    rmatch k (34 # rev v @ 34 # pre, r, c(i \<mapsto> 34 # v @ [34]))"
proof -
  have P: "list_all (\<lambda>u. u \<noteq> 34 \<and> u \<noteq> 92) v" and no: "\<forall>u\<in>set (v @ 34 # r). \<not> (=) 92 u"
    using assms by (auto simp: plain_unit_def list_all_iff)
  have q: "refuses (RSet ((=) 34)) (\<lambda>u. u \<noteq> 34 \<and> u \<noteq> 92)" by (rule refuses_set) auto
  have "rmatch (rseqs [RSet ((=) 34),
     RStar (RAlt (RSet (\<lambda>u. u \<noteq> 34 \<and> u \<noteq> 92)) (RSeq (RSet ((=) 92)) (RSet any_dot))),
     RSet ((=) 34)]) (pre, 34 # v @ 34 # r, c) = [(34 # rev v @ 34 # pre, r, c)]"
    using greedy_run [OF q, of "34 # pre" "v @ 34 # r" c] P
    by (simp add: rmatch_seq_set quoted_star [OF no] takeWhile_run del: rmatch.simps(5))
  then show ?thesis using with_group_append [of i pre "34 # v @ [34]" r c]
    by (simp add: quoted_re_def rmatch_group del: rmatch.simps(5,6) rseqs.simps)
qed

lemma plain_json_string: "plain v \<Longrightarrow> json_parse (34 # v @ [34]) = Some (JStr v)"
proof -
  assume v: "plain v"
  then have "\<forall>u\<in>set v. u < 55296" by (simp add: plain_def plain_unit_def list_all_iff)
  then have "\<forall>u\<in>set v. u < 65536" by fastforce
  then have "json_parse (json_quote v) = Some (JStr v)" by (rule json_parse_quote)
  then show ?thesis by (simp add: plain_quote [OF v])
qed

lemma parse_header_contains:
  assumes "plain p" "p \<noteq> []" "plain v"
  shows \<open>tryParseRequestCondition (js ''has('' @ src_text (js ''header'') p @ js '', '' @ json_quote v @ js '')'') =
    Inr (Some (ph SOURCE_HEADER p MATCH_CONTAINS v))\<close>
proof -
  have v: "list_all plain_unit v" using assms(3) by (simp add: plain_def)
  show ?thesis
  using assms(2) plain_notq [OF assms(1)] v plain_json_string [OF assms(3)]
  by (simp add: src_text_def tryParseRequestCondition_def tryParseTimeCondition_def cond_regexes rx notq_def
      plain_quote [OF assms(3)] try_header_contains_def rmatch_quoted json_parse_str_def del: rmatch.simps)
qed

lemma any_dot_plain: "plain v \<Longrightarrow> list_all any_dot v"
  by (fastforce simp: plain_def plain_unit_def list_all_iff any_dot_def)

lemma any_dot_numeric: "NUMERIC_LITERAL v \<Longrightarrow> list_all any_dot v"
  using numeric_units by (fastforce simp: list_all_iff any_dot_def)

definition literal_text :: "jsstring \<Rightarrow> bool" where
  "literal_text l \<longleftrightarrow> l \<noteq> [] \<and> list_all any_dot l"

lemmas parse_conds = src_text_def tryParseRequestCondition_def tryParseTimeCondition_def
  cond_regexes rx notq_def try_header_contains_def try_param_contains_def try_compare_def

lemma parse_header_eq:
  assumes "plain p" "p \<noteq> []" "literal_text l" and v: "parseExprLiteral l = JStr v"
  shows "tryParseRequestCondition (src_text (js ''header'') p @ js '' == '' @ l) =
    Inr (Some (ph SOURCE_HEADER p MATCH_EQ v))"
  using assms(2,3) plain_notq [OF assms(1)] v
  by (simp add: parse_conds try_eq_def literal_text_def SOURCE_HEADER_def del: rmatch.simps)

lemma parse_param_eq:
  assumes "plain p" "p \<noteq> []" "literal_text l" and v: "parseExprLiteral l = JStr v"
  shows "tryParseRequestCondition (src_text (js ''param'') p @ js '' == '' @ l) =
    Inr (Some (ph SOURCE_PARAM p MATCH_EQ v))"
  using assms(2,3) plain_notq [OF assms(1)] v
  by (simp add: parse_conds try_eq_def literal_text_def SOURCE_PARAM_def del: rmatch.simps)

lemma quoted_not_numeric: "\<not> NUMERIC_LITERAL (34 # s)"
  using numeric_run [of "34 # s"] by (auto simp: numc_def is_digit_def)

lemma trimmed_quoted: "trimmed (34 # s @ [34])"
  by (simp add: trimmed_def)

lemma buildExprLiteral_eq:
  assumes "plain v"
  shows "literal_text (buildExprLiteral MATCH_EQ v)
    \<and> parseExprLiteral (buildExprLiteral MATCH_EQ v) = JStr v"
proof -
  have t: "trim v = v" and d: "list_all any_dot v"
    using assms any_dot_plain by (auto simp: plain_def)
  consider "v = js ''true'' \<or> v = js ''false''" | "v \<noteq> js ''true''" "v \<noteq> js ''false''" "NUMERIC_LITERAL v"
    | "v \<noteq> js ''true''" "v \<noteq> js ''false''" "\<not> NUMERIC_LITERAL v" by blast
  then show ?thesis
  proof cases
    case 1
    then show ?thesis using t d
      by (auto simp: buildExprLiteral_def parseExprLiteral_def literal_text_def match_defs)
  next
    case 2
    then show ?thesis using t d numeric_run [of v]
      by (simp add: buildExprLiteral_def parseExprLiteral_def literal_text_def match_defs)
  next
    case 3
    then show ?thesis using t d plain_json_string [OF assms] trim_id [OF trimmed_quoted [of v]]
      by (simp add: buildExprLiteral_def parseExprLiteral_def literal_text_def match_defs
          plain_quote [OF assms] quoted_not_numeric any_dot_def)
  qed
qed

text \<open>Conditions on the time: the back references of the range patterns compare the function and
  the time zone of the two halves.\<close>

lemma time_func_group:
  assumes "f \<in> set TIME_FUNCS"
  shows \<open>rmatch (RSeq (RGroup i time_funcs_re) (RSeq (rlit ''("'') k)) (pre, f @ 40 # 34 # s, c) =
    rmatch k (34 # 40 # rev f @ pre, s, c(i \<mapsto> f))\<close>
proof -
  consider "f = js ''hour''" | "f = js ''minute''" | "f = js ''weekday''" | "f = js ''month''"
    | "f = js ''day''" using assms by (auto simp: TIME_FUNCS_def simp del: js.simps)
  then show ?thesis by cases (simp_all add: time_funcs_re_def rx del: rmatch.simps)
qed

lemma time_func_no_bracket: "f \<in> set TIME_FUNCS \<Longrightarrow> \<not> startsWith (f @ s) [40]"
  by (auto simp: TIME_FUNCS_def startsWith_def)

lemma numeric_numc: "NUMERIC_LITERAL n \<Longrightarrow> list_all numc n" "NUMERIC_LITERAL n \<Longrightarrow> n \<noteq> []"
  using numeric_run by auto

lemma not_numc [simp]: "\<not> numc 32" "\<not> numc 41"
  by (simp_all add: numc_def is_digit_def)

lemmas parse_times = src_text_def tryParseRequestCondition_def tryParseTimeCondition_def
  time_range_re_def time_paren_range_re_def time_op_re_def time_func_group
  time_func_no_bracket rx notq_def numeric_numc

lemma parse_time_op:
  assumes "f \<in> set TIME_FUNCS" "plain z" "z \<noteq> []" "NUMERIC_LITERAL n" "md \<in> {MATCH_EQ, MATCH_GTE, MATCH_LT}"
  shows "tryParseRequestCondition (src_text f z @ js '' '' @ time_op md @ js '' '' @ n) =
    Inr (Some (Time \<lparr>timeFunc = f, timezone = z, t_mode = md, t_value = n, rangeStart = [], rangeEnd = []\<rparr>))"
proof -
  consider "md = MATCH_EQ" | "md = MATCH_GTE" | "md = MATCH_LT" using assms(5) by blast
  then show ?thesis
    by cases (use assms(1,3,4) plain_notq [OF assms(2)] in
      \<open>simp_all add: parse_times time_op_def match_defs del: rmatch.simps\<close>)
qed

lemma parse_time_range:
  assumes "f \<in> set TIME_FUNCS" "plain z" "z \<noteq> []" "NUMERIC_LITERAL a" "NUMERIC_LITERAL b"
  shows "tryParseRequestCondition (src_text f z @ js '' >= '' @ a @ js '' || '' @ src_text f z @ js '' < '' @ b) =
    Inr (Some (Time \<lparr>timeFunc = f, timezone = z, t_mode = MATCH_RANGE, t_value = [], rangeStart = a, rangeEnd = b\<rparr>))"
  using assms(1,3-5) plain_notq [OF assms(2)]
  by (simp add: parse_times time_range_of_def del: rmatch.simps)

lemma parse_time_paren_range:
  assumes "f \<in> set TIME_FUNCS" "plain z" "z \<noteq> []" "NUMERIC_LITERAL a" "NUMERIC_LITERAL b"
  shows "tryParseRequestCondition (wrap (src_text f z @ js '' >= '' @ a @ js '' || '' @ src_text f z @ js '' < '' @ b)) =
    Inr (Some (Time \<lparr>timeFunc = f, timezone = z, t_mode = MATCH_RANGE, t_value = [], rangeStart = a, rangeEnd = b\<rparr>))"
proof -
  have "rmatch (RSeq (RGroup i time_funcs_re) k) (pre, 40 # s, c) = []" for i k pre s c
    by (simp add: time_funcs_re_def rx del: rmatch.simps)
  then show ?thesis
    using assms(1,3-5) plain_notq [OF assms(2)]
    by (simp add: parse_times time_range_of_def wrap_def del: rmatch.simps)
qed

section \<open>Conditions that print and parse back\<close>

text \<open>The conditions the editor can write and read back: plain paths and values, and for a
  request parameter only the existence and equality tests.\<close>

fun canonical :: "RequestCondition \<Rightarrow> bool" where
  "canonical (PH c) \<longleftrightarrow> plain (ph_path c) \<and> ph_path c \<noteq> [] \<and> plain (ph_value c) \<and>
     (ph_mode c = MATCH_EXISTS \<and> ph_value c = [] \<and> ph_source c \<in> {SOURCE_HEADER, SOURCE_PARAM} \<or>
      ph_mode c = MATCH_EQ \<and> ph_source c \<in> {SOURCE_HEADER, SOURCE_PARAM} \<or>
      ph_mode c = MATCH_CONTAINS \<and> ph_source c = SOURCE_HEADER)"
| "canonical (Time t) \<longleftrightarrow> timeFunc t \<in> set TIME_FUNCS \<and> plain (timezone t) \<and> timezone t \<noteq> [] \<and>
     (t_mode t \<in> {MATCH_EQ, MATCH_GTE, MATCH_LT} \<and> NUMERIC_LITERAL (t_value t)
        \<and> rangeStart t = [] \<and> rangeEnd t = [] \<or>
      t_mode t = MATCH_RANGE \<and> t_value t = []
        \<and> NUMERIC_LITERAL (rangeStart t) \<and> NUMERIC_LITERAL (rangeEnd t))"

text \<open>A text that the splitters and the condition parser carry.\<close>

definition neutral :: "jsstring \<Rightarrow> bool" where
  "neutral e \<longleftrightarrow> stays 0 e \<and> depth_after 0 e = 0 \<and> 38 \<notin> set e"

definition carries :: "jsstring \<Rightarrow> RequestCondition \<Rightarrow> bool" where
  "carries e c \<longleftrightarrow> tryParseRequestCondition e = Inr (Some c) \<and> e \<noteq> [] \<and> trimmed e \<and> neutral e \<and>
     (124 \<in> set e \<longrightarrow> tryParseRequestCondition (wrap e) = Inr (Some c))"

lemma neutral_append: "neutral s \<Longrightarrow> neutral t \<Longrightarrow> neutral (s @ t)"
  by (simp add: neutral_def)

lemma neutral_units: "list_all (\<lambda>u. u \<notin> {40, 41, 38}) s \<Longrightarrow> neutral s"
  using no_brackets [of s 0] by (auto simp: neutral_def list_all_iff)

lemma plain_avoids: "plain s \<Longrightarrow> list_all (\<lambda>u. u \<notin> {34, 92, 40, 41, 38, 124, 8232, 8233}) s"
  by (simp add: plain_def plain_unit_def list_all_iff)

lemma neutral_plain: "plain s \<Longrightarrow> neutral s"
  using plain_avoids by (auto intro!: neutral_units simp: list_all_iff)

lemma neutral_numeric: "NUMERIC_LITERAL s \<Longrightarrow> neutral s"
  using numeric_units [of s 38] by (auto simp: neutral_def numeric_no_brackets)

lemma neutral_js: "list_all (\<lambda>u. u \<notin> {40, 41, 38}) (js s) \<Longrightarrow> neutral (js s)"
  by (rule neutral_units)

lemma neutral_quote: "neutral [34]"
  by (rule neutral_units) simp

lemma neutral_wrap: "neutral s \<Longrightarrow> neutral (wrap s)"
  using balanced_wrap [of s] by (auto simp: neutral_def balanced_def) (simp add: wrap_def)

lemma src_text_wrap: "src_text f p = f @ wrap ([34] @ p @ [34])"
  by (simp add: src_text_def wrap_def)

lemma neutral_src:
  "plain p \<Longrightarrow> list_all (\<lambda>u. u \<notin> {40, 41, 38}) f \<Longrightarrow> neutral (src_text f p)"
  unfolding src_text_wrap
  by (intro neutral_append neutral_wrap neutral_plain neutral_units) simp_all

lemma literal_cases: "plain v \<Longrightarrow> buildExprLiteral m v = v \<or> buildExprLiteral m v = [34] @ v @ [34]"
proof -
  assume v: "plain v"
  then have "trim v = v" by (simp add: plain_def)
  then show ?thesis by (auto simp: buildExprLiteral_def Let_def plain_quote [OF v] simp del: js.simps)
qed

lemma neutral_literal:
  assumes "plain v" shows "neutral (buildExprLiteral m v)"
  using literal_cases [OF assms, of m] neutral_plain [OF assms] neutral_quote
  by (auto simp only: intro!: neutral_append)

lemma plain_no_bar: "plain v \<Longrightarrow> 124 \<notin> set v"
proof
  assume "plain v" "124 \<in> set v"
  then have "plain_unit 124" by (simp add: plain_def list_all_iff)
  then show False by (simp add: plain_unit_def)
qed

lemma literal_no_bar:
  assumes "plain v" shows "124 \<notin> set (buildExprLiteral m v)"
  using literal_cases [OF assms, of m] plain_no_bar [OF assms] by (elim disjE) simp_all

lemma source_distinct [simp]:
  "SOURCE_HEADER \<noteq> SOURCE_TIME" "SOURCE_PARAM \<noteq> SOURCE_TIME" "SOURCE_PARAM \<noteq> SOURCE_HEADER"
  "SOURCE_TIME \<noteq> SOURCE_HEADER" "SOURCE_TIME \<noteq> SOURCE_PARAM" "SOURCE_HEADER \<noteq> SOURCE_PARAM"
  by (simp_all add: match_defs)

lemma mode_options [simp]:
  "mo_value ` set (getRequestRuleMatchOptions SOURCE_TIME) = {MATCH_EQ, MATCH_GTE, MATCH_LT, MATCH_RANGE}"
  "mo_value ` set (getRequestRuleMatchOptions SOURCE_HEADER) = {MATCH_EQ, MATCH_CONTAINS, MATCH_EXISTS}"
  "mo_value ` set (getRequestRuleMatchOptions SOURCE_PARAM) =
     {MATCH_EQ, MATCH_CONTAINS, MATCH_EXISTS, MATCH_GT, MATCH_GTE, MATCH_LT, MATCH_LTE}"
  by (simp_all add: getRequestRuleMatchOptions_def Let_def)

lemma pick_mode_offered:
  "m \<in> mo_value ` set (getRequestRuleMatchOptions s) \<Longrightarrow> pick_mode s (Some m) d = m"
  by (simp add: pick_mode_def)

text \<open>The conditions \<open>normalizeCondition\<close> produces, and that it leaves them alone.\<close>

definition normal_condition :: "RequestCondition \<Rightarrow> bool" where
  "normal_condition c =
     (case c of
        PH p \<Rightarrow> ph_source p \<in> {SOURCE_HEADER, SOURCE_PARAM}
          \<and> ph_mode p \<in> mo_value ` set (getRequestRuleMatchOptions (ph_source p))
      | Time t \<Rightarrow> timeFunc t \<in> set TIME_FUNCS \<and> timezone t \<noteq> []
          \<and> t_mode t \<in> mo_value ` set (getRequestRuleMatchOptions SOURCE_TIME))"

lemma normalize_fixed: "normal_condition c \<Longrightarrow> normalizeCondition (partial_of c) = c"
  by (cases c) (auto simp: normal_condition_def normalizeCondition_def partial_of_def isTimeFunc_def
      or_empty_def Let_def pick_mode_offered simp del: js.simps mode_options)

lemma pick_mode_in:
  "d \<in> mo_value ` set (getRequestRuleMatchOptions s) \<Longrightarrow>
   pick_mode s m d \<in> mo_value ` set (getRequestRuleMatchOptions s)"
  by (auto simp: pick_mode_def split: option.splits)

lemma normalize_normal: "normal_condition (normalizeCondition p)"
proof -
  have "js ''hour'' \<in> set TIME_FUNCS" by (simp add: TIME_FUNCS_def)
  moreover have "pick_mode SOURCE_TIME m MATCH_GTE \<in> mo_value ` set (getRequestRuleMatchOptions SOURCE_TIME)"
    "pick_mode SOURCE_HEADER m MATCH_EQ \<in> mo_value ` set (getRequestRuleMatchOptions SOURCE_HEADER)"
    "pick_mode SOURCE_PARAM m MATCH_EQ \<in> mo_value ` set (getRequestRuleMatchOptions SOURCE_PARAM)" for m
    by (rule pick_mode_in, simp)+
  ultimately show ?thesis
    by (simp add: normal_condition_def normalizeCondition_def Let_def isTimeFunc_def
        del: mode_options js.simps split: option.splits)
qed

lemma canonical_normal: "canonical c \<Longrightarrow> normal_condition c"
  by (cases c) (auto simp: normal_condition_def)

text \<open>The text of each kind of canonical condition.\<close>

lemma build_ph:
  assumes "plain p" "p \<noteq> []" "c = ph src p md v" "canonical c"
  shows "buildRequestConditionExpr c =
    (let hdr = (src = SOURCE_HEADER); s = src_text (if hdr then js ''header'' else js ''param'') p
     in if md = MATCH_EXISTS then s @ (if hdr then [32, 33, 61, 32, 34, 34] else js '' != nil'')
        else if md = MATCH_CONTAINS then js ''has('' @ s @ js '', '' @ buildExprLiteral md v @ js '')''
        else s @ js '' == '' @ buildExprLiteral md v)"
proof -
  have n: "normalizeCondition (partial_of c) = c"
    using assms(4) by (simp add: normalize_fixed canonical_normal)
  have t: "trim p = p" using assms(1) by (simp add: plain_def)
  show ?thesis
    using n assms(2-4) t plain_quote [OF assms(1)]
    by (auto simp: buildRequestConditionExpr_def src_text_def ph_def Let_def match_defs)
qed

lemma build_time:
  assumes "canonical (Time t)"
  shows "buildRequestConditionExpr (Time t) =
    (let s = src_text (timeFunc t) (timezone t)
     in if t_mode t = MATCH_RANGE
        then s @ js '' >= '' @ rangeStart t @ js '' || '' @ s @ js '' < '' @ rangeEnd t
        else s @ js '' '' @ time_op (t_mode t) @ js '' '' @ t_value t)"
proof -
  have n: "normalizeCondition (partial_of (Time t)) = Time t"
    using assms by (intro normalize_fixed canonical_normal)
  have z: "json_quote (timezone t) = [34] @ timezone t @ [34]" using assms by (simp add: plain_quote)
  show ?thesis
    using assms n z by (auto simp: buildRequestConditionExpr_def buildTimeConditionExpr_def src_text_def Let_def match_defs)
qed

lemma carriesI:
  "tryParseRequestCondition e = Inr (Some c) \<Longrightarrow> e \<noteq> [] \<Longrightarrow> trimmed e \<Longrightarrow> neutral e \<Longrightarrow> 124 \<notin> set e \<Longrightarrow> carries e c"
  by (simp add: carries_def)

lemma trimmed_ends: "s \<noteq> [] \<Longrightarrow> \<not> is_ws (hd s) \<Longrightarrow> \<not> is_ws (last s) \<Longrightarrow> trimmed s"
  by (simp add: trimmed_def)

lemma literal_last: "literal_text l \<Longrightarrow> trimmed l \<Longrightarrow> \<not> is_ws (last l)"
  by (auto simp: literal_text_def trimmed_def)

lemma literal_trimmed: assumes "plain v" shows "trimmed (buildExprLiteral m v)"
  using literal_cases [OF assms, of m] assms by (elim disjE) (simp_all add: plain_def trimmed_quoted)

text \<open>A function of a quoted argument and a remainder that is itself carried.\<close>

definition fn_name :: "jsstring \<Rightarrow> bool" where
  "fn_name f \<longleftrightarrow> f \<noteq> [] \<and> list_all (\<lambda>u. 97 \<le> u \<and> u \<le> 122) f"

lemma fn_names: "fn_name (js ''header'')" "fn_name (js ''param'')" "f \<in> set TIME_FUNCS \<Longrightarrow> fn_name f"
  by (auto simp: fn_name_def TIME_FUNCS_def)

lemma fn_name_units:
  assumes "fn_name f"
  shows "list_all (\<lambda>u. u \<notin> {40, 41, 38}) f" "124 \<notin> set f" "f \<noteq> []" "\<not> is_ws (hd f)"
proof -
  have u: "97 \<le> u \<and> u \<le> 122" if "u \<in> set f" for u
    using assms that by (simp add: fn_name_def list_all_iff)
  show "list_all (\<lambda>u. u \<notin> {40, 41, 38}) f" "124 \<notin> set f" using u by (fastforce simp: list_all_iff)+
  show "f \<noteq> []" using assms by (simp add: fn_name_def)
  then show "\<not> is_ws (hd f)" using u [of "hd f"] by simp
qed

lemma carries_src:
  assumes "tryParseRequestCondition (src_text f p @ r) = Inr (Some c)" "plain p" "fn_name f"
    and r: "neutral r" "124 \<notin> set r" "r \<noteq> []" "\<not> is_ws (last r)"
  shows "carries (src_text f p @ r) c"
proof (rule carriesI [OF assms(1)])
  have "hd (src_text f p @ r) = hd f" using fn_name_units [OF assms(3)] by (simp add: src_text_def)
  then show "trimmed (src_text f p @ r)"
    using r(3,4) fn_name_units [OF assms(3)] by (intro trimmed_ends) simp_all
  show "neutral (src_text f p @ r)" using assms(2,3) r(1) by (intro neutral_append neutral_src fn_name_units)
  show "124 \<notin> set (src_text f p @ r)"
    using fn_name_units [OF assms(3)] plain_no_bar [OF assms(2)] r(2) by (simp add: src_text_def)
qed (simp add: src_text_def)

lemma carries_exists:
  assumes "plain p" "p \<noteq> []" "src \<in> {SOURCE_HEADER, SOURCE_PARAM}" "c = ph src p MATCH_EXISTS []"
  shows "carries (buildRequestConditionExpr c) c"
proof -
  have can: "canonical c" using assms by (simp add: ph_def plain_def)
  have n: \<open>neutral (js '' != ""'')\<close> "neutral (js '' != nil'')" by (rule neutral_units, simp)+
  consider "src = SOURCE_HEADER" | "src = SOURCE_PARAM" using assms(3) by blast
  then show ?thesis
  proof cases
    case 1
    then show ?thesis
      using build_ph [OF assms(1,2,4) can] assms(4) n
        carries_src [OF parse_header_exists [OF assms(1,2)] assms(1) fn_names(1)] by simp
  next
    case 2
    then show ?thesis
      using build_ph [OF assms(1,2,4) can] assms(4) n
        carries_src [OF parse_param_exists [OF assms(1,2)] assms(1) fn_names(2)] by simp
  qed
qed

lemma carries_eq:
  assumes "plain p" "p \<noteq> []" "src \<in> {SOURCE_HEADER, SOURCE_PARAM}" "c = ph src p MATCH_EQ v" "plain v"
  shows "carries (buildRequestConditionExpr c) c"
proof -
  have can: "canonical c" using assms by (simp add: ph_def)
  let ?l = "buildExprLiteral MATCH_EQ v"
  have l: "literal_text ?l" "parseExprLiteral ?l = JStr v" using buildExprLiteral_eq [OF assms(5)] by auto
  then have r: "js '' == '' @ ?l \<noteq> []" "\<not> is_ws (last (js '' == '' @ ?l))" "124 \<notin> set (js '' == '' @ ?l)"
    using literal_last literal_trimmed [OF assms(5)] literal_no_bar [OF assms(5), of MATCH_EQ]
    by (auto simp: literal_text_def)
  have n: "neutral (js '' == '' @ ?l)"
    using neutral_literal [OF assms(5)] by (intro neutral_append neutral_js) simp_all
  have m: "MATCH_EQ \<noteq> MATCH_EXISTS" "MATCH_EQ \<noteq> MATCH_CONTAINS" by (simp_all add: match_defs)
  consider "src = SOURCE_HEADER" | "src = SOURCE_PARAM" using assms(3) by blast
  then show ?thesis
  proof cases
    case 1
    then show ?thesis
      using build_ph [OF assms(1,2,4) can] assms(4) m
        carries_src [OF parse_header_eq [OF assms(1,2) l] assms(1) fn_names(1) n r(3,1,2)] by simp
  next
    case 2
    then show ?thesis
      using build_ph [OF assms(1,2,4) can] assms(4) m
        carries_src [OF parse_param_eq [OF assms(1,2) l] assms(1) fn_names(2) n r(3,1,2)] by simp
  qed
qed

lemma carries_contains:
  assumes "plain p" "p \<noteq> []" "c = ph SOURCE_HEADER p MATCH_CONTAINS v" "plain v"
  shows "carries (buildRequestConditionExpr c) c"
proof -
  have can: "canonical c" using assms by (simp add: ph_def)
  let ?e = "js ''has('' @ src_text (js ''header'') p @ js '', '' @ json_quote v @ js '')''"
  have "buildRequestConditionExpr c = ?e"
    using build_ph [OF assms(1-3) can] assms(4)
    by (simp add: match_defs buildExprLiteral_def plain_def)
  moreover have "?e = js ''has'' @ wrap (src_text (js ''header'') p @ js '', '' @ [34] @ v @ [34])"
    by (simp add: plain_quote [OF assms(4)] wrap_def)
  moreover have "carries ?e c"
  proof (rule carriesI)
    show "tryParseRequestCondition ?e = Inr (Some c)"
      using parse_header_contains [OF assms(1,2,4)] assms(3) by (simp only:)
    show "neutral ?e" unfolding calculation(2) using assms
      by (intro neutral_append neutral_wrap neutral_src neutral_js neutral_quote)
        (simp_all add: neutral_plain)
  qed (use assms plain_no_bar in \<open>simp_all add: trimmed_def src_text_def plain_quote\<close>)
  ultimately show ?thesis by simp
qed

lemma numeric_ends:
  assumes "NUMERIC_LITERAL n"
  shows "n \<noteq> []" "\<not> is_ws (last n)" "124 \<notin> set n"
proof -
  show "n \<noteq> []" using numeric_numc(2) [OF assms] .
  then have "43 \<le> last n \<and> last n < 102" using numeric_units [OF assms] by simp
  then show "\<not> is_ws (last n)" by simp
  show "124 \<notin> set n" using numeric_units [OF assms, of 124] by auto
qed

lemma carries_time_op:
  assumes "canonical (Time t)" "t_mode t \<noteq> MATCH_RANGE"
  shows "carries (buildRequestConditionExpr (Time t)) (Time t)"
proof -
  have md: "t_mode t \<in> {MATCH_EQ, MATCH_GTE, MATCH_LT}" and n: "NUMERIC_LITERAL (t_value t)"
    and f: "timeFunc t \<in> set TIME_FUNCS" and z: "plain (timezone t)" "timezone t \<noteq> []"
    and c: "\<lparr>timeFunc = timeFunc t, timezone = timezone t, t_mode = t_mode t, t_value = t_value t,
      rangeStart = [], rangeEnd = []\<rparr> = t" using assms by auto
  let ?r = "js '' '' @ time_op (t_mode t) @ js '' '' @ t_value t"
  have op: "neutral (time_op (t_mode t))" "124 \<notin> set (time_op (t_mode t))"
    by (simp_all add: time_op_def neutral_units)
  have r: "neutral ?r" using op(1) neutral_numeric [OF n] by (intro neutral_append neutral_js) simp_all
  have "carries (src_text (timeFunc t) (timezone t) @ ?r) (Time t)"
    using parse_time_op [OF f z n md] c numeric_ends [OF n] op(2)
    by (intro carries_src z fn_names(3) [OF f] r) simp_all
  then show ?thesis using build_time [OF assms(1)] assms(2) by (simp del: js.simps)
qed

lemma carries_time_range:
  assumes "canonical (Time t)" "t_mode t = MATCH_RANGE"
  shows "carries (buildRequestConditionExpr (Time t)) (Time t)"
proof -
  have n: "NUMERIC_LITERAL (rangeStart t)" "NUMERIC_LITERAL (rangeEnd t)"
    and f: "timeFunc t \<in> set TIME_FUNCS" and z: "plain (timezone t)" "timezone t \<noteq> []"
    and c: "\<lparr>timeFunc = timeFunc t, timezone = timezone t, t_mode = MATCH_RANGE, t_value = [],
      rangeStart = rangeStart t, rangeEnd = rangeEnd t\<rparr> = t"
    using assms by (auto simp: match_defs)
  let ?s = "src_text (timeFunc t) (timezone t)"
  let ?e = "?s @ js '' >= '' @ rangeStart t @ js '' || '' @ ?s @ js '' < '' @ rangeEnd t"
  note fn = fn_name_units [OF fn_names(3) [OF f]]
  have "neutral ?e"
    using neutral_src [OF z(1) fn(1)] n [THEN neutral_numeric] by (intro neutral_append neutral_js) simp_all
  moreover have "trimmed ?e"
    using fn numeric_ends [OF n(2)] by (intro trimmed_ends) (simp_all add: src_text_def)
  ultimately have "carries ?e (Time t)"
    using parse_time_range [OF f z n] parse_time_paren_range [OF f z n] c
    by (simp add: carries_def)
  then show ?thesis using build_time [OF assms(1)] assms(2) by (simp add: Let_def del: js.simps)
qed

lemma carries_canonical: "canonical c \<Longrightarrow> carries (buildRequestConditionExpr c) c"
proof (cases c)
  case (PH p)
  moreover have "PH p = ph (ph_source p) (ph_path p) (ph_mode p) (ph_value p)" by (simp add: ph_def)
  moreover assume "canonical c"
  ultimately show ?thesis
    using carries_exists carries_eq carries_contains by (metis canonical.simps(1))
next
  case (Time t)
  moreover assume "canonical c"
  ultimately show ?thesis using carries_time_op carries_time_range by blast
qed

section \<open>Reading a factor\<close>

text \<open>The last \<open> ? \<close> before a number decides how a factor is read, so the greedy condition
  group cannot take more or less than the condition.\<close>

lemma factor_split_unique:
  assumes "list_all numc n" "list_all numc n'" "w @ js '' ? '' @ n = w' @ js '' ? '' @ n'"
  shows "w = w' \<and> n = n'"
proof -
  have "takeWhile numc (rev (w @ js '' ? '' @ n)) = takeWhile numc (rev (w' @ js '' ? '' @ n'))"
    by (simp only: assms(3))
  then have "rev n = rev n'"
    using takeWhile_run(1) [of numc "rev n" 32] takeWhile_run(1) [of numc "rev n'" 32] assms(1,2) by simp
  with assms(3) show ?thesis by simp
qed

lemma factor_tail:
  assumes "st \<in> set (rmatch (RSeq (rlit '' ? '') (RSeq (num_re 2) (RSeq (rlit '' : 1)'') REnd))) (pre, r, c))"
  shows "\<exists>n. r = js '' ? '' @ n @ js '' : 1)'' \<and> list_all numc n \<and> snd (snd st) = c(2 \<mapsto> n)"
proof -
  have "startsWith r (js '' ? '')" using assms by (simp add: rx del: rmatch.simps js.simps split: if_splits)
  then obtain t where r: "r = js '' ? '' @ t" unfolding startsWith_def by (metis append_take_drop_id)
  have n: "dropWhile numc t = js '' : 1)''" "snd (snd st) = c(2 \<mapsto> takeWhile numc t)"
    using assms unfolding r by (auto simp: rx startsWith_def simp del: rmatch.simps split: if_splits)
  have "t = takeWhile numc t @ js '' : 1)''" by (metis n(1) takeWhile_dropWhile_id)
  moreover have "list_all numc (takeWhile numc t)" by (auto simp: list_all_iff dest: set_takeWhileD)
  ultimately show ?thesis using r n(2) by metis
qed

lemma first_caps:
  "xs \<noteq> [] \<Longrightarrow> (\<And>st. st \<in> set xs \<Longrightarrow> snd (snd st) = c) \<Longrightarrow> map_option (\<lambda>(_, _, c). c) (first xs) = Some c"
  by (cases xs) (auto simp: case_prod_unfold)

lemma factor_match:
  assumes "list_all numc n" "n \<noteq> []" "w \<noteq> []"
  shows "\<exists>m. re_match factor_re (wrap (w @ js '' ? '' @ n @ js '' : 1'')) = Some m \<and> group m 1 = w \<and> group m 2 = n"
proof -
  let ?k = "RSeq (rlit '' ? '') (RSeq (num_re 2) (RSeq (rlit '' : 1)'') REnd))"
  let ?g = "RGroup 1 (rplus (RSet any_dotall))"
  let ?s = "w @ js '' ? '' @ n @ js '' : 1)''"
  let ?ms = "concat (map (rmatch ?k) (rmatch ?g ([40], ?s, no_caps)))"
  have start: "re_match factor_re (wrap (w @ js '' ? '' @ n @ js '' : 1'')) = map_option (\<lambda>(_, _, c). c) (first ?ms)"
    by (simp add: factor_re_def rx wrap_def del: rmatch.simps) (simp del: rmatch.simps(1,2,4-))
  have "snd (snd st) = no_caps(1 \<mapsto> w, 2 \<mapsto> n)" if m: "st \<in> set ?ms" for st
  proof -
    obtain v r where v: "?s = v @ r" "st \<in> set (rmatch ?k (rev v @ [40], r, no_caps(1 \<mapsto> v)))"
    proof -
      from m obtain st1 where "st1 \<in> set (rmatch ?g ([40], ?s, no_caps))" "st \<in> set (rmatch ?k st1)"
        by (auto simp del: rmatch.simps)
      then show ?thesis using that unfolding set_group_plus by blast
    qed
    from factor_tail [OF v(2)] obtain n' where n': "r = js '' ? '' @ n' @ js '' : 1)''" "list_all numc n'"
      "snd (snd st) = no_caps(1 \<mapsto> v, 2 \<mapsto> n')" by blast
    have "w @ js '' ? '' @ n = v @ js '' ? '' @ n'" using v(1) n'(1) by simp
    with n' factor_split_unique assms(1) show ?thesis by blast
  qed
  moreover have "?ms \<noteq> []"
  proof -
    have "(rev w @ [40], js '' ? '' @ n @ js '' : 1)'', no_caps(1 \<mapsto> w)) \<in> set (rmatch ?g ([40], ?s, no_caps))"
      using assms(3) unfolding set_group_plus by (auto simp: any_dotall_def list_all_iff)
    moreover have "rmatch ?k (rev w @ [40], js '' ? '' @ n @ js '' : 1)'', no_caps(1 \<mapsto> w)) \<noteq> []"
      using assms by (simp add: rx del: rmatch.simps)
    ultimately show ?thesis by (auto simp: concat_eq_Nil_conv simp del: rmatch.simps)
  qed
  ultimately have "map_option (\<lambda>(_, _, c). c) (first ?ms) = Some (no_caps(1 \<mapsto> w, 2 \<mapsto> n))"
    by (rule first_caps [rotated])
  then show ?thesis unfolding start by (intro exI conjI) (assumption, simp_all add: group_def)
qed

section \<open>Rule groups\<close>

definition canonical_group :: "RequestRuleGroup \<Rightarrow> bool" where
  "canonical_group g \<longleftrightarrow> NUMERIC_LITERAL (multiplier g) \<and> conditions g \<noteq> [] \<and> list_all canonical (conditions g)"

text \<open>A text without ampersands that ends at depth zero hides the conjunction.\<close>

lemma no_amp_step:
  "38 \<notin> set (u # s) \<Longrightarrow> r = [] \<or> startsWith r (js '' && '') \<Longrightarrow> \<not> startsWith (u # s @ r) (js '' && '')"
  by (cases s; cases r) (auto simp: startsWith_def)

lemma split_no_amp:
  "38 \<notin> set f \<Longrightarrow> r = [] \<or> startsWith r (js '' && '') \<Longrightarrow>
   split_top (js '' && '') d cur (f @ r) = split_top (js '' && '') (depth_after d f) (rev f @ cur) r"
proof (induction f arbitrary: d cur)
  case (Cons u f)
  then show ?case using no_amp_step [of u f r] by (simp add: Let_def del: js.simps)
qed simp

lemma opaque_neutral: "neutral f \<Longrightarrow> conj.opaque f"
  unfolding conj.opaque_def using split_no_amp by (metis neutral_def)

definition shown :: "RequestCondition \<Rightarrow> jsstring" where
  "shown c = (let e = buildRequestConditionExpr c
     in if includes_str e (js '' || '') then js ''('' @ e @ js '')'' else e)"

lemma shown_carries:
  assumes "canonical c"
  shows "tryParseRequestCondition (shown c) = Inr (Some c) \<and> shown c \<noteq> [] \<and> trimmed (shown c) \<and> neutral (shown c)"
proof (cases "includes_str (buildRequestConditionExpr c) (js '' || '')")
  case True
  then have "124 \<in> set (buildRequestConditionExpr c)"
    using index_of_set [of "js '' || ''"] unfolding includes_str_def by fastforce
  moreover have "shown c = wrap (buildRequestConditionExpr c)"
    using True by (simp add: shown_def wrap_def)
  ultimately show ?thesis
    using carries_canonical [OF assms] neutral_wrap by (simp add: carries_def)
next
  case False
  then have "shown c = buildRequestConditionExpr c" by (simp add: shown_def Let_def del: js.simps)
  with carries_canonical [OF assms] show ?thesis by (simp add: carries_def)
qed

lemma try_conditions_shown:
  "list_all canonical cs \<Longrightarrow> try_conditions (map shown cs) = Inr (Some cs)"
  by (induction cs) (simp_all add: shown_carries)

text \<open>The conjunction of the printed conditions; a single condition is printed without brackets
  even when it is a range.\<close>

definition combined :: "RequestCondition list \<Rightarrow> jsstring" where
  "combined cs = (if length cs = 1 then buildRequestConditionExpr (hd cs)
     else join (js '' && '') (map shown cs))"

lemma try_combined:
  assumes "cs \<noteq> []" "list_all canonical cs"
  shows "try_conditions (splitTopLevelAnd (combined cs)) = Inr (Some cs)"
proof (cases "length cs = 1")
  case True
  then obtain c where c: "cs = [c]" by (metis One_nat_def length_0_conv length_Suc_conv)
  then have "carries (buildRequestConditionExpr c) c" using assms carries_canonical by simp
  then show ?thesis
    using c splitTopLevelAnd_join [of "[buildRequestConditionExpr c]"] opaque_neutral
    by (simp add: combined_def carries_def del: js.simps)
next
  case False
  have "splitTopLevelAnd (combined cs) = map shown cs"
  proof -
    have "\<forall>f\<in>set (map shown cs). conj.opaque f \<and> f \<noteq> [] \<and> trimmed f"
      using assms shown_carries opaque_neutral by (simp add: list_all_iff)
    then show ?thesis using False assms(1) splitTopLevelAnd_join [of "map shown cs"]
      by (simp add: combined_def del: js.simps)
  qed
  then show ?thesis using try_conditions_shown assms(2) by simp
qed

lemma build_group:
  assumes "canonical_group g"
  shows "buildRuleGroupFactor g = wrap (combined (conditions g) @ js '' ? '' @ multiplier g @ js '' : 1'')"
proof -
  have "filter (\<lambda>e. e \<noteq> []) (map buildRequestConditionExpr (conditions g)) = map buildRequestConditionExpr (conditions g)"
    using assms carries_canonical by (auto simp: canonical_group_def carries_def list_all_iff filter_id_conv)
  moreover have "hd (map buildRequestConditionExpr (conditions g)) = buildRequestConditionExpr (hd (conditions g))"
    using assms by (simp add: canonical_group_def hd_map)
  moreover have "(\<lambda>e. if includes_str e (js '' || '') then js ''('' @ e @ js '')'' else e)
      \<circ> buildRequestConditionExpr = shown"
    by (rule ext) (simp add: shown_def Let_def)
  ultimately show ?thesis using assms
    by (simp add: buildRuleGroupFactor_def canonical_group_def combined_def Let_def wrap_def del: js.simps)
      (simp add: wrap_def)
qed

lemma balanced_join: "balanced sep \<Longrightarrow> \<forall>w\<in>set ws. balanced w \<Longrightarrow> balanced (join sep ws)"
  by (induction sep ws rule: join.induct) (auto intro!: balanced_append simp: balanced_def [of "[]"])

lemma combined_balanced:
  assumes "cs \<noteq> []" "list_all canonical cs"
  shows "balanced (combined cs)" "combined cs \<noteq> []"
proof -
  have sh: "\<forall>c\<in>set cs. balanced (shown c) \<and> shown c \<noteq> []"
    "\<forall>c\<in>set cs. balanced (buildRequestConditionExpr c) \<and> buildRequestConditionExpr c \<noteq> []"
    using assms(2) shown_carries carries_canonical
    by (auto simp: list_all_iff neutral_def balanced_def carries_def)
  have "balanced (js '' && '')" by (rule no_brackets_balanced) simp
  then have "balanced (join (js '' && '') (map shown cs))" using sh(1) by (intro balanced_join) auto
  then show "balanced (combined cs)" using sh(2) assms(1) unfolding combined_def by auto
  have "join (js '' && '') (map shown cs) \<noteq> []"
    using join_eq_Nil [of "js '' && ''" "map shown cs"] assms(1) sh(1) by (auto simp: hd_map)
  then show "combined cs \<noteq> []" using sh(2) assms(1) by (auto simp: combined_def simp del: js.simps)
qed

lemma group_factor:
  assumes "canonical_group g"
  shows "\<exists>c. buildRuleGroupFactor g = wrap c \<and> balanced c"
    and "tryParseRuleGroupFactor (buildRuleGroupFactor g) = Inr (Some g)"
proof -
  have g: "NUMERIC_LITERAL (multiplier g)" "conditions g \<noteq> []" "list_all canonical (conditions g)"
    using assms by (auto simp: canonical_group_def)
  have "balanced (js '' ? '')" "balanced (js '' : 1'')" "balanced (multiplier g)"
    using numeric_no_brackets [OF g(1)] by (auto simp: balanced_def depth_step_def)
  then show "\<exists>c. buildRuleGroupFactor g = wrap c \<and> balanced c"
    using build_group [OF assms] combined_balanced [OF g(2,3)] by (auto simp only: intro!: balanced_append)
  obtain m where m: "re_match factor_re (buildRuleGroupFactor g) = Some m"
      "group m 1 = combined (conditions g)" "group m 2 = multiplier g"
    using factor_match [OF numeric_numc [OF g(1)] combined_balanced(2) [OF g(2,3)]] build_group [OF assms] by auto
  then show "tryParseRuleGroupFactor (buildRuleGroupFactor g) = Inr (Some g)"
    using try_combined [OF g(2,3)] g(2) by (simp add: tryParseRuleGroupFactor_def)
qed

lemma try_factors_groups:
  "list_all canonical_group gs \<Longrightarrow> try_factors (map buildRuleGroupFactor gs) = Inr (Some gs)"
  by (induction gs) (simp_all add: group_factor(2))

lemma rules_read_back:
  assumes "list_all canonical_group gs"
  shows "tryParseRequestRuleExpr (buildRequestRuleExpr gs) = Inr (Some gs)"
proof (cases "gs = []")
  case True
  then show ?thesis by (simp add: tryParseRequestRuleExpr_def buildRequestRuleExpr_def)
next
  case False
  let ?fs = "map buildRuleGroupFactor gs"
  have w: "\<forall>f\<in>set ?fs. \<exists>c. f = wrap c \<and> balanced c" using assms group_factor(1) by (auto simp: list_all_iff)
  then have wrapped: "\<forall>f\<in>set ?fs. \<exists>c. f = wrap c" by blast
  have "filter (\<lambda>f. f \<noteq> []) ?fs = ?fs" using w by (auto simp: filter_id_conv)
  then have b: "buildRequestRuleExpr gs = join (js '' * '') ?fs" by (simp add: buildRequestRuleExpr_def)
  have t: "trimmed (join (js '' * '') ?fs)" "join (js '' * '') ?fs \<noteq> []"
    using trimmed_join_wrapped [OF _ wrapped] join_wrapped_nonempty [OF _ wrapped] False by simp_all
  have "\<forall>f\<in>set ?fs. mul.opaque f \<and> f \<noteq> [] \<and> trimmed f"
    using w mul.opaque_wrap by (metis trimmed_wrap wrap_nonempty(1))
  then have "splitTopLevelMultiply (join (js '' * '') ?fs) = ?fs"
    using False by (intro splitTopLevelMultiply_join) simp_all
  then show ?thesis
    using t try_factors_groups [OF assms] unfolding b tryParseRequestRuleExpr_def
    by (simp del: js.simps join.simps)
qed

section \<open>Properties\<close>

text \<open>C1: Round trip of request rules: for every list of rule groups whose conditions are canonical,
  parsing the printed rule expression gives exactly the groups back.\<close>

theorem request_rules_round_trip:
  assumes "list_all canonical_group gs"
  shows "tryParseRequestRuleExpr (buildRequestRuleExpr gs) = Inr (Some gs)"
  using assms by (rule rules_read_back)

definition example_groups :: "RequestRuleGroup list" where
  "example_groups =
    [\<lparr>conditions = [ph SOURCE_HEADER (js ''x-mode'') MATCH_CONTAINS (js ''fast''),
       Time \<lparr>timeFunc = js ''hour'', timezone = js ''Asia/Shanghai'', t_mode = MATCH_RANGE, t_value = [],
         rangeStart = js ''21'', rangeEnd = js ''6''\<rparr>], multiplier = js ''0.5''\<rparr>,
     \<lparr>conditions = [ph SOURCE_PARAM (js ''stream'') MATCH_EQ (js ''true'')], multiplier = js ''2''\<rparr>]"

lemma numeric_examples:
  "NUMERIC_LITERAL (js ''21'')" "NUMERIC_LITERAL (js ''6'')" "NUMERIC_LITERAL (js ''0.5'')"
  "NUMERIC_LITERAL (js ''2'')"
  by (simp_all add: NUMERIC_LITERAL_def numeric_literal_re_def regex_eval is_digit_def js_eval
      del: rmatch.simps(5,6))

lemma example_groups_canonical: "list_all canonical_group example_groups"
  using numeric_examples
  by (simp add: example_groups_def canonical_group_def ph_def plain_def plain_unit_def trimmed_def
      TIME_FUNCS_def match_defs)

theorem request_rules_round_trip_witness:
  "tryParseRequestRuleExpr (buildRequestRuleExpr example_groups) = Inr (Some example_groups)"
  by (rule request_rules_round_trip [OF example_groups_canonical])

text \<open>Normal form of a condition: whatever partial condition the editor holds,
  \<open>normalizeCondition\<close> returns one whose source, time function and match mode are offered by the
  editor, and normalising its result changes nothing.\<close>

theorem normalize_condition_normal_form:
  "normal_condition (normalizeCondition p)
   \<and> normalizeCondition (partial_of (normalizeCondition p)) = normalizeCondition p"
  using normalize_normal normalize_fixed by blast

section \<open>Parameter comparisons are not read back\<close>

lemma unread_compare:
  assumes "plain p" "p \<noteq> []" "op \<in> {'' > '', '' >= '', '' < '', '' <= ''}" "list_all numc n"
  shows "tryParseRequestCondition (src_text (js ''param'') p @ js op @ n) = Inr None"
proof -
  consider "op = '' > ''" | "op = '' >= ''" | "op = '' < ''" | "op = '' <= ''" using assms(3) by blast
  then show ?thesis
    by cases (use assms(2,4) plain_notq [OF assms(1)] in
      \<open>simp_all add: parse_conds try_eq_def del: rmatch.simps\<close>)
qed

lemma build_compare:
  assumes "plain p" "p \<noteq> []" "md \<in> {MATCH_GT, MATCH_GTE, MATCH_LT, MATCH_LTE}" "NUMERIC_LITERAL v"
  shows "buildRequestConditionExpr (ph SOURCE_PARAM p md v) =
    join (js '' && '') [src_text (js ''param'') p @ js '' != nil'',
      src_text (js ''param'') p @ js '' '' @ compare_op md @ js '' '' @ v]"
proof -
  have "normal_condition (ph SOURCE_PARAM p md v)"
    using assms(3) by (auto simp: normal_condition_def ph_def)
  then have n: "normalizeCondition (partial_of (ph SOURCE_PARAM p md v)) = ph SOURCE_PARAM p md v"
    by (rule normalize_fixed)
  have "trim p = p" using assms(1) by (simp add: plain_def)
  moreover have "md \<noteq> MATCH_EXISTS" "md \<noteq> MATCH_CONTAINS" using assms(3) by (auto simp: match_defs)
  ultimately show ?thesis
    using n assms(2-4) plain_quote [OF assms(1)]
    by (auto simp: buildRequestConditionExpr_def src_text_def ph_def Let_def)
qed

lemma neutral_compare:
  assumes "plain p" "md \<in> {MATCH_GT, MATCH_GTE, MATCH_LT, MATCH_LTE}" "NUMERIC_LITERAL v"
  shows "neutral (src_text (js ''param'') p @ js '' != nil'')"
    "neutral (src_text (js ''param'') p @ js '' '' @ compare_op md @ js '' '' @ v)"
proof -
  have op: "neutral (compare_op md)" by (simp add: compare_op_def neutral_units)
  show "neutral (src_text (js ''param'') p @ js '' != nil'')"
    using assms by (intro neutral_append neutral_src neutral_js) simp_all
  show "neutral (src_text (js ''param'') p @ js '' '' @ compare_op md @ js '' '' @ v)"
    using assms op neutral_numeric by (intro neutral_append neutral_src neutral_js) simp_all
qed

lemma compare_unread:
  assumes "plain p" "p \<noteq> []" "md \<in> {MATCH_GT, MATCH_GTE, MATCH_LT, MATCH_LTE}" "NUMERIC_LITERAL v"
  shows "try_conditions (splitTopLevelAnd (buildRequestConditionExpr (ph SOURCE_PARAM p md v))) = Inr None"
proof -
  let ?a = "src_text (js ''param'') p @ js '' != nil''"
  let ?b = "src_text (js ''param'') p @ js '' '' @ compare_op md @ js '' '' @ v"
  have tr: "trimmed ?a" "trimmed ?b"
    using numeric_ends [OF assms(4)] by (simp_all add: trimmed_def src_text_def)
  have nz: "?a \<noteq> []" "?b \<noteq> []" by (simp_all add: src_text_def)
  have "splitTopLevelAnd (join (js '' && '') [?a, ?b]) = [?a, ?b]"
    using tr nz neutral_compare [OF assms(1,3,4), THEN opaque_neutral] by (intro splitTopLevelAnd_join) simp_all
  then have split: "splitTopLevelAnd (buildRequestConditionExpr (ph SOURCE_PARAM p md v)) = [?a, ?b]"
    by (simp only: build_compare [OF assms])
  have "\<exists>op \<in> {'' > '', '' >= '', '' < '', '' <= ''}. js '' '' @ compare_op md @ js '' '' = js op"
    using assms(3) by (auto simp: compare_op_def match_defs)
  then obtain op where op: "op \<in> {'' > '', '' >= '', '' < '', '' <= ''}" "?b = src_text (js ''param'') p @ js op @ v"
    by (metis append.assoc)
  have "tryParseRequestCondition ?b = Inr None"
    unfolding op(2) using unread_compare [OF assms(1,2) op(1) numeric_numc(1) [OF assms(4)]] .
  with split tr parse_param_exists [OF assms(1,2)] show ?thesis by simp
qed

lemma param_comparison_unread:
  assumes "plain p" "p \<noteq> []" "md \<in> {MATCH_GT, MATCH_GTE, MATCH_LT, MATCH_LTE}"
    and "NUMERIC_LITERAL v" "NUMERIC_LITERAL m"
  shows "tryParseRequestRuleExpr (buildRequestRuleExpr
      [\<lparr>conditions = [ph SOURCE_PARAM p md v], multiplier = m\<rparr>]) = Inr None"
proof -
  let ?g = "\<lparr>conditions = [ph SOURCE_PARAM p md v], multiplier = m\<rparr>"
  let ?e = "buildRequestConditionExpr (ph SOURCE_PARAM p md v)"
  have e: "?e \<noteq> []" unfolding build_compare [OF assms(1-4)] by (simp add: src_text_def)
  then have b: "buildRuleGroupFactor ?g = wrap (?e @ js '' ? '' @ m @ js '' : 1'')"
    using assms(5) by (simp add: buildRuleGroupFactor_def Let_def wrap_def)
  have bal: "balanced (?e @ js '' ? '' @ m @ js '' : 1'')"
  proof -
    have "balanced ?e" unfolding build_compare [OF assms(1-4)]
      using neutral_compare [OF assms(1,3,4)] no_brackets_balanced [of "js '' && ''"]
      by (intro balanced_join) (auto simp: neutral_def balanced_def)
    then show ?thesis using numeric_no_brackets [OF assms(5)]
      by (intro balanced_append) (auto simp: balanced_def depth_step_def)
  qed
  obtain w where w: "re_match factor_re (buildRuleGroupFactor ?g) = Some w" "group w 1 = ?e"
    using factor_match [OF numeric_numc [OF assms(5)] e] b by auto
  then have "tryParseRuleGroupFactor (buildRuleGroupFactor ?g) = Inr None"
    using compare_unread [OF assms(1-4)] by (simp add: tryParseRuleGroupFactor_def)
  then show ?thesis
    using try_rule_of_wrapped [OF bal] b by (simp add: buildRequestRuleExpr_def)
qed



section \<open>A malformed escape is an exception\<close>

definition bad_escape :: jsstring where
  \<open>bad_escape = js ''has(header("a"), "'' @ [92, 113] @ js ''")''\<close>

lemma json_parse_string:
  "json_parse (34 # s) =
     (case parse_chars s of
        None \<Rightarrow> None
      | Some (v, r) \<Rightarrow> if skip_json_ws r = [] then Some (JStr v) else None)"
  by (simp add: json_parse_def json_parse_fuel_def skip_json_ws_def split: option.splits)

lemma bad_escape_throws: "tryParseRequestCondition bad_escape = Inl SyntaxError"
proof -
  let ?lit = "[34, 92, 113, 34]"
  have "json_parse ?lit = None"
    by (simp add: json_parse_string unescape_def)
  moreover have "tryParseTimeCondition bad_escape = None" "re_match header_exists_re bad_escape = None"
    "re_match param_exists_re bad_escape = None"
    by (simp_all add: bad_escape_def tryParseTimeCondition_def cond_regexes regex_eval js_eval
        del: rmatch.simps(5,6))
  moreover have "\<exists>m. re_match header_contains_re bad_escape = Some m \<and> group m 2 = ?lit"
    by (simp add: bad_escape_def header_contains_re_def quoted_re_def regex_eval rmatch_star_unfold
        notq_def any_dot_def js_eval del: rmatch.simps(5,6))
  ultimately show ?thesis
    by (auto simp: tryParseRequestCondition_def try_header_contains_def json_parse_str_def)
qed

text \<open>A malformed escape in the text of a \<open>has(header(..), ..)\<close> rule is not answered with null:
  \<open>JSON.parse\<close> throws inside \<open>tryParseRequestCondition\<close>, nothing catches it, and the exception
  leaves \<open>tryParseRequestRuleExpr\<close>.\<close>

theorem malformed_escape_throws:
  "tryParseRequestRuleExpr (wrap (bad_escape @ js '' ? '' @ js ''2'' @ js '' : 1'')) = Inl SyntaxError"
proof -
  have "neutral bad_escape"
    by (simp add: bad_escape_def neutral_def depth_step_def)
  moreover have b: "trimmed bad_escape" "bad_escape \<noteq> []" by (simp_all add: bad_escape_def trimmed_def)
  ultimately have "splitTopLevelAnd bad_escape = [bad_escape]"
    using splitTopLevelAnd_join [of "[bad_escape]"] opaque_neutral by simp
  moreover obtain m where "re_match factor_re (wrap (bad_escape @ js '' ? '' @ js ''2'' @ js '' : 1'')) = Some m"
      "group m 1 = bad_escape"
    using factor_match [OF numeric_numc [OF numeric_examples(4)] b(2)] by blast
  ultimately have "tryParseRuleGroupFactor (wrap (bad_escape @ js '' ? '' @ js ''2'' @ js '' : 1'')) = Inl SyntaxError"
    using bad_escape_throws b(1) by (simp add: tryParseRuleGroupFactor_def)
  moreover have "balanced (bad_escape @ js '' ? '' @ js ''2'' @ js '' : 1'')"
    by (simp add: balanced_def bad_escape_def depth_step_def)
  ultimately show ?thesis using try_rule_of_wrapped by simp
qed

end
