(* ===== verification/Video_Types.thy ===== *)
theory Video_Types
  imports JS_Number
begin

text \<open>
  The data of video creation (\<open>features/media-generation/video-options.ts\<close>): options,
  references, model metadata, reference limits and capabilities.  An optional field of the
  source is an \<open>option\<close> whose \<open>None\<close> is the absent (\<open>undefined\<close>) value; a \<open>number\<close> is a
  \<open>jsnum\<close>, so that a limit read from server metadata keeps the comparisons of JavaScript.
\<close>

section \<open>Options and references\<close>

datatype CreationVideoReferenceMode =
    ModeText | ModeImage | ModeVideo | ModeMultimodal | ModeFrames | ModeImageAudio

record CreationVideoOptions =
  resolution :: jsstring
  duration :: jsstring
  aspectRatio :: "jsstring option"

record CreationVideoReferenceObject =
  url :: jsstring
  previewUrl :: "jsstring option"
  sizeBytes :: "jsnum option"
  durationSeconds :: "jsnum option"

datatype CreationVideoReferenceValue = RefURL jsstring | RefObj CreationVideoReferenceObject

record CreationVideoReferences =
  referenceMode :: CreationVideoReferenceMode
  imageUrls :: "CreationVideoReferenceValue list"
  startImageUrl :: jsstring
  endImageUrl :: jsstring
  videoUrls :: "CreationVideoReferenceValue list"
  audioUrls :: "CreationVideoReferenceValue list"
  audioUrl :: CreationVideoReferenceValue

text \<open>\<open>Partial<CreationVideoReferences>\<close>; an absent argument has every field absent.\<close>

record PartialReferences =
  p_referenceMode :: "CreationVideoReferenceMode option"
  p_imageUrls :: "CreationVideoReferenceValue list option"
  p_startImageUrl :: "jsstring option"
  p_endImageUrl :: "jsstring option"
  p_videoUrls :: "CreationVideoReferenceValue list option"
  p_audioUrls :: "CreationVideoReferenceValue list option"
  p_audioUrl :: "CreationVideoReferenceValue option"

definition to_partial :: "CreationVideoReferences \<Rightarrow> PartialReferences" where
  "to_partial r = \<lparr>p_referenceMode = Some (referenceMode r), p_imageUrls = Some (imageUrls r),
     p_startImageUrl = Some (startImageUrl r), p_endImageUrl = Some (endImageUrl r),
     p_videoUrls = Some (videoUrls r), p_audioUrls = Some (audioUrls r),
     p_audioUrl = Some (audioUrl r)\<rparr>"

section \<open>Models\<close>

datatype num_or_string = NumV jsnum | StrV jsstring

record CreationModelMetadataLike =
  provider :: "jsstring option"
  md_id :: "jsstring option"
  upstream_model_id :: "jsstring option"
  md_type :: "jsstring option"
  category :: "jsstring option"
  model_type :: "jsstring option"
  md_resolutions :: "jsstring list option"
  md_ratios :: "jsstring list option"
  aspect_ratios :: "jsstring list option"
  md_durations :: "num_or_string list option"
  max_prompt_length :: "jsnum option"
  max_images :: "jsnum option"
  max_videos :: "jsnum option"
  max_audios :: "jsnum option"
  max_media_files :: "jsnum option"
  max_image_size_mb :: "jsnum option"
  max_video_size_mb :: "jsnum option"
  max_audio_size_mb :: "jsnum option"
  min_reference_video_duration_seconds :: "jsnum option"
  max_reference_video_duration_seconds :: "jsnum option"
  concurrency_options :: "jsnum list option"

text \<open>The fields of \<open>IntegrationParameters\<close> and of an endpoint that creation and playground read.\<close>

record ImageContract =
  ic_qualities :: "jsstring list"
  ic_output_formats :: "jsstring list"
  ic_backgrounds :: "jsstring list"
  ic_max_outputs :: jsnum
  ic_min_pixels :: jsnum
  ic_max_pixels :: jsnum
  ic_max_edge :: jsnum
  ic_size_multiple :: jsnum
  ic_max_aspect_ratio :: jsnum

record IntegrationParameters =
  ip_image_options :: "ImageContract option"
  ip_omit_ratio :: bool
  ip_durations :: "jsnum list option"
  ip_resolutions :: "jsstring list option"
  ip_ratios :: "jsstring list option"
  ip_duration_field :: "jsstring option"
  ip_ratio_field :: "jsstring option"
  ip_resolution_field :: "jsstring option"
  ip_request_resolution :: "jsstring option"
  ip_image_field :: "jsstring option"
  ip_video_field :: "jsstring option"
  ip_audio_field :: "jsstring option"
  ip_min_images :: "jsnum option"
  ip_max_images :: jsnum
  ip_max_videos :: jsnum
  ip_max_audios :: jsnum
  ip_audio_needs_image :: bool
  ip_audio_requires_image :: bool
  ip_max_image_size_mb :: "jsnum option"
  ip_max_video_size_mb :: "jsnum option"
  ip_max_audio_size_mb :: "jsnum option"
  ip_allow_frames :: bool

record MappedEndpoint =
  ep_kind :: jsstring
  ep_path :: jsstring
  ep_parameters :: "IntegrationParameters option"

record CreationModelLike =
  cm_id :: "jsstring option"
  cm_metadata :: "CreationModelMetadataLike option"
  mapped_endpoints :: "MappedEndpoint list option"

datatype CreationModelInput = ModelString jsstring | ModelObject CreationModelLike | ModelUndefined

section \<open>Limits and capabilities\<close>

record CreationVideoReferenceLimits =
  maxImages :: jsnum
  maxVideos :: jsnum
  maxAudios :: jsnum
  maxMediaFiles :: "jsnum option"
  maxImageSizeBytes :: jsnum
  maxVideoSizeBytes :: jsnum
  maxAudioSizeBytes :: jsnum
  maxImageSizeMB :: jsnum
  maxVideoSizeMB :: jsnum
  maxAudioSizeMB :: jsnum
  minReferenceVideoDurationSeconds :: "jsnum option"
  maxReferenceVideoDurationSeconds :: "jsnum option"
  maxReferenceVideoTotalDurationSeconds :: "jsnum option"
  minReferenceAudioDurationSeconds :: "jsnum option"
  maxReferenceAudioDurationSeconds :: "jsnum option"
  maxReferenceAudioTotalDurationSeconds :: "jsnum option"

datatype capability_kind =
    KSora2 | KVideo2 | KVideos | KSanbao | KMiniMaxH3 | KXJZ | KMapped

datatype duration_control = ControlMenu | ControlSelect

record CreationVideoCapability =
  kind :: capability_kind
  durations :: "jsstring list"
  resolutions :: "jsstring list"
  aspectRatios :: "jsstring list"
  referenceModes :: "CreationVideoReferenceMode list"
  showResolution :: bool
  includeResolutionInRequest :: bool
  durationControl :: duration_control
  referenceLimits :: CreationVideoReferenceLimits
  uploadTipProfile :: "jsstring option"
  maxPromptLength :: "jsnum option"
  concurrencyOptions :: "jsnum list option"

record ResolutionOption =
  ro_value :: jsstring
  ro_label :: jsstring
  ro_size :: jsstring
  estimateMultiplier :: jsnum

record DurationOption =
  do_value :: jsstring
  do_label :: jsstring
  do_seconds :: jsstring
  do_estimateSeconds :: jsnum

text \<open>The specification of an XJZ or mapped video model (\<open>xjz-video-models.ts\<close>).\<close>

record XJZVideoModelSpec =
  x_durations :: "jsstring list"
  x_resolutions :: "jsstring list"
  x_ratios :: "jsstring list"
  x_referenceModes :: "CreationVideoReferenceMode list"
  x_maxImages :: jsnum
  x_minImages :: "jsnum option"
  x_maxVideos :: jsnum
  x_maxAudios :: jsnum
  imageField :: "jsstring option"
  videoField :: "jsstring option"
  audioField :: "jsstring option"
  ratioField :: "jsstring option"
  resolutionField :: "jsstring option"
  audioRequiresImage :: bool
  requestResolution :: "jsstring option"
  selectableResolution :: bool
  audioNeedsVisualReference :: bool
  allowFrames :: bool

end
