(* ===== verification/XJZ_Models.thy ===== *)
theory XJZ_Models
  imports Video_Types
begin

text \<open>
  The table of XJZ video models of \<open>features/media-generation/xjz-video-models.ts\<close>, entry by
  entry and in the order of the source, the aliases, and the lookup.  \<open>xjz\<close> builds a
  specification from its mandatory fields and its three media fields; the remaining optional
  fields are absent (or \<open>false\<close>) unless updated.  Chinese characters are written as their code
  units.
\<close>

definition seconds :: "nat \<Rightarrow> nat \<Rightarrow> jsstring list" where
  "seconds mn mx = map (\<lambda>i. show_nat (mn + i)) [0..<mx - mn + 1]"

definition RATIOS_WIDE :: "jsstring list" where
  "RATIOS_WIDE = [js ''16:9'', js ''9:16'', js ''1:1'', js ''4:3'', js ''3:4'', js ''21:9'']"

definition RATIOS_STANDARD :: "jsstring list" where
  "RATIOS_STANDARD = [js ''16:9'', js ''9:16'', js ''1:1'']"

definition DURATIONS_4_TO_15 :: "jsstring list" where "DURATIONS_4_TO_15 = seconds 4 15"
definition DURATIONS_5_TO_15 :: "jsstring list" where "DURATIONS_5_TO_15 = seconds 5 15"
definition DURATIONS_4_TO_30 :: "jsstring list" where "DURATIONS_4_TO_30 = seconds 4 30"

definition xjz :: "jsstring list \<Rightarrow> jsstring list \<Rightarrow> jsstring list \<Rightarrow> CreationVideoReferenceMode list \<Rightarrow>
    nat \<Rightarrow> nat \<Rightarrow> nat \<Rightarrow> jsstring option \<Rightarrow> jsstring option \<Rightarrow> jsstring option \<Rightarrow> XJZVideoModelSpec" where
  "xjz ds rs ratios modes mi mv ma img vid aud =
     \<lparr>x_durations = ds, x_resolutions = rs, x_ratios = ratios, x_referenceModes = modes,
      x_maxImages = num mi, x_minImages = None, x_maxVideos = num mv, x_maxAudios = num ma,
      imageField = img, videoField = vid, audioField = aud, ratioField = None,
      resolutionField = None, audioRequiresImage = False, requestResolution = None,
      selectableResolution = False, audioNeedsVisualReference = False, allowFrames = False\<rparr>"

definition XJZ_VIDEO_MODELS_1 :: "(jsstring \<times> XJZVideoModelSpec) list" where
  "XJZ_VIDEO_MODELS_1 =
   [([29305, 20215] @ js ''dola2.5-900-720P-'' @ [22266, 23450] @ js ''30s'',
      xjz ([js ''30'']) [js ''720p'']
        RATIOS_WIDE
        [ModeImage]
        9 0 0 (Some (js ''images'')) None None
        \<lparr>x_minImages := Some (num 1), requestResolution := Some (js ''720p'')\<rparr>),
    ([29305, 20215] @ js ''dola-sd2.0-900-720p'',
      xjz ([js ''5'', js ''10'', js ''15'']) [js ''720p'']
        RATIOS_WIDE
        [ModeImage]
        1 0 0 (Some (js ''images'')) None None
        \<lparr>x_minImages := Some (num 1), requestResolution := Some (js ''720p'')\<rparr>),
    (js ''TTP-grok'',
      xjz (seconds 6 15) [js ''720p'', js ''480p'']
        RATIOS_STANDARD
        [ModeText, ModeImage]
        7 0 0 (Some (js ''images'')) None None
        \<lparr>selectableResolution := True\<rparr>),
    (js ''gz'' @ [31283, 23450] @ js ''sd2.0-903-720P'',
      xjz (DURATIONS_5_TO_15) [js ''720p'']
        RATIOS_WIDE
        [ModeText, ModeImage, ModeImageAudio]
        9 0 3 (Some (js ''images'')) None (Some (js ''reference_audios''))
        \<lparr>requestResolution := Some (js ''720p'')\<rparr>),
    (js ''Xminimex-h3-2K-933'',
      xjz (DURATIONS_5_TO_15) [js ''2k'']
        RATIOS_WIDE
        [ModeText, ModeImage, ModeVideo, ModeMultimodal]
        9 3 3 (Some (js ''images'')) (Some (js ''reference_videos'')) (Some (js ''reference_audios''))
        \<lparr>requestResolution := Some (js ''2k'')\<rparr>),
    ([29305, 20215] @ js ''sd2.0-720p-933-'' @ [36807, 33080],
      xjz (DURATIONS_5_TO_15) [js ''720p'']
        RATIOS_WIDE
        [ModeText, ModeImage, ModeVideo, ModeMultimodal]
        9 3 3 (Some (js ''images'')) (Some (js ''reference_videos'')) (Some (js ''reference_audios''))
        \<lparr>requestResolution := Some (js ''720p'')\<rparr>),
    ([29305, 20215, 31283] @ js ''sd-2.5-30s-720P'' @ [21487] @ js ''10'' @ [22270],
      xjz ([js ''30'']) [js ''720p'']
        RATIOS_WIDE
        [ModeText, ModeImage]
        10 0 0 (Some (js ''reference_images'')) None None
        \<lparr>requestResolution := Some (js ''720p'')\<rparr>),
    ([29305, 20215, 31283] @ js ''sd2.0-933-720p'',
      xjz (DURATIONS_5_TO_15) [js ''720p'']
        RATIOS_WIDE
        [ModeText, ModeImage, ModeVideo, ModeMultimodal]
        9 3 3 (Some (js ''reference_images'')) (Some (js ''reference_videos'')) (Some (js ''reference_audios''))
        \<lparr>requestResolution := Some (js ''720P'')\<rparr>),
    (js ''gz'' @ [31283, 23450] @ js ''sd2.5-720'' @ [20840, 21442, 36807, 33080],
      xjz (DURATIONS_4_TO_30) [js ''720p'']
        RATIOS_WIDE
        [ModeText, ModeImage, ModeVideo, ModeMultimodal]
        30 10 10 (Some (js ''reference_images'')) (Some (js ''reference_videos'')) (Some (js ''reference_audios''))
        \<lparr>requestResolution := Some (js ''720P'')\<rparr>)]"

definition XJZ_VIDEO_MODELS_2 :: "(jsstring \<times> XJZVideoModelSpec) list" where
  "XJZ_VIDEO_MODELS_2 =
   [(js ''gz'' @ [31283, 23450] @ js ''sd2.5-480'' @ [20840, 21442, 36807, 33080],
      xjz (DURATIONS_4_TO_30) [js ''480p'']
        RATIOS_WIDE
        [ModeText, ModeImage, ModeVideo, ModeMultimodal]
        30 10 10 (Some (js ''reference_images'')) (Some (js ''reference_videos'')) (Some (js ''reference_audios''))
        \<lparr>requestResolution := Some (js ''480P'')\<rparr>),
    (js ''gz'' @ [31283, 23450] @ js ''sd2.5-1080'' @ [20840, 21442, 36807, 33080],
      xjz (DURATIONS_4_TO_30) [js ''1080p'']
        RATIOS_WIDE
        [ModeText, ModeImage, ModeVideo, ModeMultimodal]
        30 10 10 (Some (js ''reference_images'')) (Some (js ''reference_videos'')) (Some (js ''reference_audios''))
        \<lparr>requestResolution := Some (js ''1080p'')\<rparr>),
    ([29305, 20215] @ js ''sd2.0-933-'' @ [36807, 33080],
      xjz (DURATIONS_4_TO_15) [js ''720p'']
        [js ''16:9'', js ''9:16'', js ''1:1'', js ''4:3'']
        [ModeText, ModeImage, ModeVideo, ModeMultimodal]
        9 3 3 (Some (js ''image_urls'')) (Some (js ''video_urls'')) (Some (js ''audio_urls''))
        \<lparr>requestResolution := Some (js ''720p''), audioNeedsVisualReference := True\<rparr>),
    (js ''MiniMaxH3'',
      xjz (DURATIONS_4_TO_15) [js ''2k'']
        RATIOS_STANDARD
        [ModeText, ModeImage, ModeFrames, ModeImageAudio]
        9 0 3 (Some (js ''image_urls'')) None (Some (js ''audio_reference''))
        \<lparr>requestResolution := Some (js ''2K''), audioNeedsVisualReference := True, allowFrames := True\<rparr>),
    (js ''minimax-h3-2K-933'',
      xjz (seconds 4 15) [js ''2k'']
        [js ''16:9'', js ''9:16'', js ''1:1'', js ''4:3'', js ''3:4'', js ''21:9'']
        [ModeText, ModeImage, ModeVideo, ModeMultimodal]
        9 3 3 (Some (js ''reference_images'')) (Some (js ''reference_videos'')) (Some (js ''reference_audios''))
        \<lparr>requestResolution := Some (js ''2k'')\<rparr>),
    (js ''sd2.5-'' @ [20840, 21442, 36807, 30495, 20154] @ js ''-30-10-10'',
      xjz (seconds 5 30) [js ''480p'', js ''720p'', js ''1080p'']
        [js ''16:9'', js ''9:16'', js ''1:1'', js ''4:3'', js ''3:4'', js ''21:9'']
        [ModeText, ModeImage, ModeVideo, ModeMultimodal]
        30 10 10 (Some (js ''reference_images'')) (Some (js ''reference_videos'')) (Some (js ''reference_audios''))
        \<lparr>selectableResolution := True\<rparr>),
    (js ''sd2.0-'' @ [20840, 21442, 36807, 30495, 20154] @ js ''-720p'',
      xjz (seconds 5 15) [js ''720p'']
        [js ''16:9'', js ''9:16'', js ''1:1'', js ''4:3'', js ''3:4'', js ''21:9'']
        [ModeText, ModeImage, ModeVideo, ModeMultimodal]
        9 3 3 (Some (js ''reference_images'')) (Some (js ''reference_videos'')) (Some (js ''reference_audios''))
        \<lparr>requestResolution := Some (js ''720p'')\<rparr>),
    (js ''grok-1.5-700'',
      xjz (seconds 3 15) [js ''720p'']
        [js ''16:9'', js ''9:16'', js ''1:1'', js ''4:3'', js ''3:4'', js ''21:9'']
        [ModeText, ModeImage]
        7 0 0 (Some (js ''reference_images'')) None None
        \<lparr>requestResolution := Some (js ''720p'')\<rparr>),
    (js ''dola-sd-2.5'',
      xjz (seconds 5 30) [js ''480p'', js ''720p'', js ''1080p'']
        [js ''16:9'', js ''9:16'', js ''1:1'', js ''4:3'', js ''3:4'', js ''21:9'']
        [ModeText, ModeImage, ModeVideo, ModeMultimodal]
        30 10 10 (Some (js ''reference_images'')) (Some (js ''reference_videos'')) (Some (js ''reference_audios''))
        \<lparr>selectableResolution := True\<rparr>)]"

definition XJZ_VIDEO_MODELS_3 :: "(jsstring \<times> XJZVideoModelSpec) list" where
  "XJZ_VIDEO_MODELS_3 =
   [(js ''dola-sd-2.0-900'',
      xjz (seconds 4 15) [js ''720p'']
        [js ''16:9'', js ''9:16'', js ''1:1'', js ''4:3'', js ''3:4'', js ''21:9'']
        [ModeText, ModeImage]
        9 0 0 (Some (js ''reference_images'')) None None
        \<lparr>requestResolution := Some (js ''720p'')\<rparr>),
    (js ''dola-sd-2.0'',
      xjz (seconds 4 15) [js ''720p'']
        [js ''16:9'', js ''9:16'', js ''1:1'', js ''4:3'', js ''3:4'', js ''21:9'']
        [ModeText, ModeImage, ModeImageAudio]
        9 0 3 (Some (js ''reference_images'')) None (Some (js ''reference_audios''))
        \<lparr>requestResolution := Some (js ''720p'')\<rparr>),
    (js ''sd-2.0-933-720-fast-'' @ [21407, 29983, 30495, 20154],
      xjz (seconds 4 15) [js ''720p'']
        [js ''16:9'', js ''9:16'', js ''1:1'', js ''4:3'', js ''3:4'', js ''21:9'']
        [ModeText, ModeImage, ModeVideo, ModeMultimodal]
        9 3 3 (Some (js ''reference_images'')) (Some (js ''reference_videos'')) (Some (js ''reference_audios''))
        \<lparr>requestResolution := Some (js ''720p'')\<rparr>),
    (js ''gz-sd2.5-1080p'',
      xjz (seconds 4 30) [js ''1080p'']
        [js ''16:9'', js ''9:16'', js ''1:1'', js ''4:3'', js ''3:4'', js ''21:9'']
        [ModeText, ModeImage, ModeVideo, ModeMultimodal]
        30 10 10 (Some (js ''images'')) (Some (js ''reference_videos'')) (Some (js ''reference_audios''))
        \<lparr>requestResolution := Some (js ''1080P'')\<rparr>),
    (js ''gz-sd2.5-720p'',
      xjz (seconds 4 30) [js ''720p'']
        [js ''16:9'', js ''9:16'', js ''1:1'', js ''4:3'', js ''3:4'', js ''21:9'']
        [ModeText, ModeImage, ModeVideo, ModeMultimodal]
        30 10 10 (Some (js ''images'')) (Some (js ''reference_videos'')) (Some (js ''reference_audios''))
        \<lparr>requestResolution := Some (js ''720P'')\<rparr>),
    (js ''gz-sd2.5-480p'',
      xjz (seconds 4 30) [js ''480p'']
        [js ''16:9'', js ''9:16'', js ''1:1'', js ''4:3'', js ''3:4'', js ''21:9'']
        [ModeText, ModeImage, ModeVideo, ModeMultimodal]
        30 10 0 (Some (js ''images'')) (Some (js ''reference_videos'')) None
        \<lparr>requestResolution := Some (js ''480P'')\<rparr>),
    (js ''gz-sd4k'',
      xjz (seconds 4 15) [js ''4k'']
        [js ''16:9'', js ''9:16'', js ''1:1'', js ''4:3'', js ''3:4'', js ''2:3'', js ''3:2'', js ''21:9'']
        [ModeText, ModeImage, ModeVideo, ModeMultimodal]
        9 3 3 (Some (js ''images'')) (Some (js ''reference_videos'')) (Some (js ''reference_audios''))
        \<lparr>requestResolution := Some (js ''4K''), audioRequiresImage := True\<rparr>),
    (js ''gz-sd1080p'',
      xjz (seconds 4 15) [js ''1080p'']
        [js ''16:9'', js ''9:16'', js ''1:1'', js ''4:3'', js ''3:4'', js ''2:3'', js ''3:2'', js ''21:9'']
        [ModeText, ModeImage, ModeVideo, ModeMultimodal]
        9 3 3 (Some (js ''images'')) (Some (js ''reference_videos'')) (Some (js ''reference_audios''))
        \<lparr>requestResolution := Some (js ''1080P''), audioRequiresImage := True\<rparr>),
    (js ''gz-sd720p'',
      xjz (seconds 4 15) [js ''720p'']
        [js ''16:9'', js ''9:16'', js ''1:1'', js ''4:3'', js ''3:4'', js ''2:3'', js ''3:2'', js ''21:9'']
        [ModeText, ModeImage, ModeVideo, ModeMultimodal]
        9 3 3 (Some (js ''images'')) (Some (js ''reference_videos'')) (Some (js ''reference_audios''))
        \<lparr>requestResolution := Some (js ''720p''), audioRequiresImage := True\<rparr>)]"

definition XJZ_VIDEO_MODELS_4 :: "(jsstring \<times> XJZVideoModelSpec) list" where
  "XJZ_VIDEO_MODELS_4 =
   [(js ''gz-sd480p'',
      xjz (seconds 4 15) [js ''480p'']
        [js ''16:9'', js ''9:16'', js ''1:1'', js ''4:3'', js ''3:4'', js ''2:3'', js ''3:2'', js ''21:9'']
        [ModeText, ModeImage, ModeVideo, ModeMultimodal]
        9 3 3 (Some (js ''images'')) (Some (js ''reference_videos'')) (Some (js ''reference_audios''))
        \<lparr>requestResolution := Some (js ''480p''), audioRequiresImage := True\<rparr>),
    (js ''sd2.5-720p-ch1'',
      xjz ([js ''30'']) [js ''720p'']
        [js ''16:9'', js ''9:16'', js ''1:1'', js ''4:3'', js ''3:4'', js ''2:3'', js ''3:2'', js ''21:9'']
        [ModeText, ModeImage]
        9 0 0 (Some (js ''images'')) None None
        \<lparr>requestResolution := Some (js ''720p'')\<rparr>),
    (js ''viraldance900'',
      xjz (seconds 4 15) [js ''720p'']
        [js ''16:9'', js ''9:16'', js ''1:1'', js ''4:3'']
        [ModeText, ModeImage]
        9 0 0 (Some (js ''image_urls'')) None None
        \<lparr>ratioField := Some (js ''aspect_ratio''), resolutionField := Some (js ''size''), requestResolution := Some (js ''720p'')\<rparr>),
    (js ''viraldance933'',
      xjz (seconds 4 15) [js ''720p'']
        [js ''16:9'', js ''9:16'', js ''1:1'', js ''4:3'']
        [ModeText, ModeImage, ModeVideo, ModeMultimodal]
        9 3 3 (Some (js ''image_urls'')) (Some (js ''video_urls'')) (Some (js ''audio_urls''))
        \<lparr>requestResolution := Some (js ''720p''), audioNeedsVisualReference := True\<rparr>),
    (js ''viraldance933-fast'',
      xjz (seconds 4 15) [js ''720p'']
        [js ''16:9'', js ''9:16'', js ''1:1'', js ''4:3'']
        [ModeText, ModeImage, ModeVideo, ModeMultimodal]
        9 3 3 (Some (js ''image_urls'')) (Some (js ''video_urls'')) (Some (js ''audio_urls''))
        \<lparr>requestResolution := Some (js ''720p''), audioNeedsVisualReference := True\<rparr>),
    (js ''viraldance933x-fast'',
      xjz (seconds 4 14) [js ''720p'']
        [js ''16:9'', js ''9:16'', js ''1:1'']
        [ModeText, ModeImage, ModeVideo, ModeMultimodal]
        1 1 1 (Some (js ''image_url'')) (Some (js ''video_url'')) (Some (js ''audio_url''))
        \<lparr>ratioField := Some (js ''aspect_ratio''), requestResolution := Some (js ''720p'')\<rparr>),
    (js ''viraldance2.5-15-stable'',
      xjz (seconds 4 15) [js ''720p'']
        [js ''16:9'', js ''9:16'', js ''1:1'', js ''4:3'']
        [ModeText, ModeImage, ModeImageAudio]
        30 0 3 (Some (js ''image_urls'')) None (Some (js ''audio_urls''))
        \<lparr>requestResolution := Some (js ''720p'')\<rparr>),
    (js ''viraldance2.5-480p-15-stable'',
      xjz (seconds 4 15) [js ''480p'']
        [js ''16:9'', js ''9:16'', js ''1:1'', js ''4:3'']
        [ModeText, ModeImage, ModeImageAudio]
        30 0 3 (Some (js ''image_urls'')) None (Some (js ''audio_urls''))
        \<lparr>requestResolution := Some (js ''480p'')\<rparr>),
    (js ''viraldance2.5x-30'',
      xjz (seconds 4 30) [js ''720p'']
        [js ''16:9'', js ''9:16'', js ''1:1'', js ''4:3'']
        [ModeText, ModeImage, ModeImageAudio]
        30 0 3 (Some (js ''image_urls'')) None (Some (js ''audio_urls''))
        \<lparr>requestResolution := Some (js ''720p'')\<rparr>)]"

definition XJZ_VIDEO_MODELS_5 :: "(jsstring \<times> XJZVideoModelSpec) list" where
  "XJZ_VIDEO_MODELS_5 =
   [(js ''viraldance2.5x-480p-30'',
      xjz (seconds 4 30) [js ''480p'']
        [js ''16:9'', js ''9:16'', js ''1:1'', js ''4:3'']
        [ModeText, ModeImage, ModeImageAudio]
        30 0 3 (Some (js ''image_urls'')) None (Some (js ''audio_urls''))
        \<lparr>requestResolution := Some (js ''480p'')\<rparr>),
    (js ''quanneng2.0'',
      xjz ([js ''15'']) [js ''720p'']
        [js ''16:9'', js ''9:16'', js ''1:1'', js ''4:3'', js ''3:4'', js ''2:3'', js ''3:2'', js ''21:9'']
        [ModeText, ModeImage, ModeVideo, ModeMultimodal]
        9 3 3 (Some (js ''images'')) (Some (js ''reference_videos'')) (Some (js ''reference_audios''))
        \<lparr>requestResolution := Some (js ''720P'')\<rparr>)]"

definition XJZ_VIDEO_MODELS :: "(jsstring \<times> XJZVideoModelSpec) list" where
  "XJZ_VIDEO_MODELS = XJZ_VIDEO_MODELS_1 @ XJZ_VIDEO_MODELS_2 @ XJZ_VIDEO_MODELS_3 @ XJZ_VIDEO_MODELS_4 @ XJZ_VIDEO_MODELS_5"

definition XJZ_VIDEO_ALIASES :: "(jsstring \<times> jsstring) list" where
  "XJZ_VIDEO_ALIASES =
   [(js ''sd2.5-'' @ [20840, 21442, 36807, 30495, 20154] @ js ''-30-10-10-B'', js ''sd2.5-'' @ [20840, 21442, 36807, 30495, 20154] @ js ''-30-10-10''),
    (js ''sd2.0-'' @ [20840, 21442, 36807, 30495, 20154] @ js ''-720p-B'', js ''sd2.0-'' @ [20840, 21442, 36807, 30495, 20154] @ js ''-720p''),
    (js ''grok-1.5-700-B'', js ''grok-1.5-700''),
    (js ''dola-sd-2.5-B'', js ''dola-sd-2.5''),
    (js ''dola-sd-2.0-900-B'', js ''dola-sd-2.0-900''),
    (js ''dola-sd-2.0-B'', js ''dola-sd-2.0''),
    (js ''sd-2.0-933-720-fast-'' @ [21407, 29983, 30495, 20154] @ js ''-B'', js ''sd-2.0-933-720-fast-'' @ [21407, 29983, 30495, 20154]),
    (js ''gz'' @ [31283, 23450] @ js ''sd2.0-903-720P-C'', js ''gz'' @ [31283, 23450] @ js ''sd2.0-903-720P''),
    ([29305, 20215] @ js ''sd2.0-720p-933-'' @ [36807, 33080] @ js ''-C'', [29305, 20215] @ js ''sd2.0-720p-933-'' @ [36807, 33080]),
    ([29305, 20215] @ js ''sd2.0-933-'' @ [36807, 33080] @ js ''-D'', [29305, 20215] @ js ''sd2.0-933-'' @ [36807, 33080])]"

definition getXJZVideoModelSpec :: "jsstring \<Rightarrow> XJZVideoModelSpec option" where
  "getXJZVideoModelSpec modelId =
     (case map_of XJZ_VIDEO_MODELS modelId of
        Some s \<Rightarrow> Some s
      | None \<Rightarrow>
          (case map_of XJZ_VIDEO_ALIASES modelId of
             Some target \<Rightarrow> map_of XJZ_VIDEO_MODELS target
           | None \<Rightarrow> None))"

lemmas xjz_table_defs = XJZ_VIDEO_MODELS_def XJZ_VIDEO_MODELS_1_def XJZ_VIDEO_MODELS_2_def XJZ_VIDEO_MODELS_3_def XJZ_VIDEO_MODELS_4_def XJZ_VIDEO_MODELS_5_def xjz_def
  RATIOS_WIDE_def RATIOS_STANDARD_def DURATIONS_4_TO_15_def DURATIONS_5_TO_15_def
  DURATIONS_4_TO_30_def

end
