(* ===== verification/Video_Capability.thy ===== *)
theory Video_Capability
  imports XJZ_Models JS_Regex
begin

text \<open>
  Which video features a model has (\<open>features/media-generation/video-options.ts\<close>): the static
  table of capabilities, the identifiers a model answers to, the capability of a Sanbao, XJZ or
  mapped model, and the choice between them.  A lookup in a table object is a lookup of its own
  keys; the members every JavaScript object inherits (for a lower-case identifier:
  \<open>constructor\<close> and \<open>__proto__\<close>) are not model identifiers.
\<close>

section \<open>Reference limits\<close>

definition MB :: "nat \<Rightarrow> jsnum" where
  "MB n = num (n * 1024 * 1024)"

definition CREATION_VIDEO_IMAGE_REFERENCE_MAX_COUNT :: nat where
  "CREATION_VIDEO_IMAGE_REFERENCE_MAX_COUNT = 4"
definition CREATION_VIDEO_IMAGE_REFERENCE_MAX_BYTES :: jsnum where
  "CREATION_VIDEO_IMAGE_REFERENCE_MAX_BYTES = MB 20"
definition CREATION_VIDEO_VIDEO_REFERENCE_MAX_COUNT :: nat where
  "CREATION_VIDEO_VIDEO_REFERENCE_MAX_COUNT = 3"
definition CREATION_VIDEO_VIDEO_REFERENCE_MAX_BYTES :: jsnum where
  "CREATION_VIDEO_VIDEO_REFERENCE_MAX_BYTES = MB 200"
definition CREATION_VIDEO_AUDIO_REFERENCE_MAX_BYTES :: jsnum where
  "CREATION_VIDEO_AUDIO_REFERENCE_MAX_BYTES = MB 15"

definition VIDEO2_REFERENCE_LIMITS :: CreationVideoReferenceLimits where
  "VIDEO2_REFERENCE_LIMITS =
     \<lparr>maxImages = num CREATION_VIDEO_IMAGE_REFERENCE_MAX_COUNT,
      maxVideos = num CREATION_VIDEO_VIDEO_REFERENCE_MAX_COUNT, maxAudios = num 1,
      maxMediaFiles = None,
      maxImageSizeBytes = CREATION_VIDEO_IMAGE_REFERENCE_MAX_BYTES,
      maxVideoSizeBytes = CREATION_VIDEO_VIDEO_REFERENCE_MAX_BYTES,
      maxAudioSizeBytes = CREATION_VIDEO_AUDIO_REFERENCE_MAX_BYTES,
      maxImageSizeMB = num 20, maxVideoSizeMB = num 200, maxAudioSizeMB = num 15,
      minReferenceVideoDurationSeconds = None, maxReferenceVideoDurationSeconds = None,
      maxReferenceVideoTotalDurationSeconds = None, minReferenceAudioDurationSeconds = None,
      maxReferenceAudioDurationSeconds = None, maxReferenceAudioTotalDurationSeconds = None\<rparr>"

definition VIDEO25_REFERENCE_LIMITS :: CreationVideoReferenceLimits where
  "VIDEO25_REFERENCE_LIMITS = VIDEO2_REFERENCE_LIMITS
     \<lparr>maxImages := num 30, maxVideos := num 10, maxAudios := num 10, maxMediaFiles := Some (num 50),
      minReferenceVideoDurationSeconds := Some (num 3),
      maxReferenceVideoDurationSeconds := Some (num 10),
      maxReferenceVideoTotalDurationSeconds := Some (num 30),
      minReferenceAudioDurationSeconds := Some (num 3),
      maxReferenceAudioDurationSeconds := Some (num 30),
      maxReferenceAudioTotalDurationSeconds := Some (num 30)\<rparr>"

definition VIDEOS_API_REFERENCE_LIMITS :: CreationVideoReferenceLimits where
  "VIDEOS_API_REFERENCE_LIMITS = VIDEO2_REFERENCE_LIMITS
     \<lparr>maxImages := num 9, maxVideos := num 3, maxAudios := num 3, maxMediaFiles := Some (num 15),
      maxAudioSizeBytes := MB 50, maxAudioSizeMB := num 50\<rparr>"

definition SEEDANCE_25_REFERENCE_LIMITS :: CreationVideoReferenceLimits where
  "SEEDANCE_25_REFERENCE_LIMITS = VIDEO2_REFERENCE_LIMITS
     \<lparr>maxImages := num 30, maxVideos := num 0, maxAudios := num 10, maxMediaFiles := Some (num 50),
      maxImageSizeBytes := MB 5, maxImageSizeMB := num 5,
      minReferenceVideoDurationSeconds := Some (num 2),
      maxReferenceVideoDurationSeconds := Some (num 30),
      maxReferenceVideoTotalDurationSeconds := Some (num 30),
      minReferenceAudioDurationSeconds := Some (num 2),
      maxReferenceAudioDurationSeconds := Some (num 30),
      maxReferenceAudioTotalDurationSeconds := Some (num 30)\<rparr>"

definition MINIMAX_H3_REFERENCE_LIMITS :: CreationVideoReferenceLimits where
  "MINIMAX_H3_REFERENCE_LIMITS = VIDEO2_REFERENCE_LIMITS
     \<lparr>maxImages := num 5, maxVideos := num 0, maxAudios := num 1,
      minReferenceAudioDurationSeconds := Some (num 2),
      maxReferenceAudioDurationSeconds := Some (num 15)\<rparr>"

definition SORA2_REFERENCE_LIMITS :: CreationVideoReferenceLimits where
  "SORA2_REFERENCE_LIMITS = VIDEO2_REFERENCE_LIMITS
     \<lparr>maxImages := num 1, maxVideos := num 0, maxAudios := num 0\<rparr>"

section \<open>Static capabilities\<close>

definition resolution_option :: "string \<Rightarrow> string \<Rightarrow> string \<Rightarrow> rat \<Rightarrow> ResolutionOption" where
  "resolution_option v l s m = \<lparr>ro_value = js v, ro_label = js l, ro_size = js s,
     estimateMultiplier = round64 m\<rparr>"

definition CREATION_RESOLUTION_OPTIONS :: "ResolutionOption list" where
  "CREATION_RESOLUTION_OPTIONS =
     [resolution_option ''1080p'' ''1080'' ''1920x1080'' 1,
      resolution_option ''2k'' ''2K'' ''2560x1440'' (135 / 100),
      resolution_option ''4k'' ''4K'' ''3840x2160'' (175 / 100)]"

definition VIDEO2_720P_CREATION_RESOLUTION_OPTIONS :: "ResolutionOption list" where
  "VIDEO2_720P_CREATION_RESOLUTION_OPTIONS = [resolution_option ''720p'' ''720p'' ''720x1280'' 1]"

definition VIDEO2_480P_CREATION_RESOLUTION_OPTIONS :: "ResolutionOption list" where
  "VIDEO2_480P_CREATION_RESOLUTION_OPTIONS = [resolution_option ''480p'' ''480p'' ''496x864'' 1]"

definition VIDEOS_API_CREATION_RESOLUTION_OPTIONS :: "ResolutionOption list" where
  "VIDEOS_API_CREATION_RESOLUTION_OPTIONS =
     [resolution_option ''720p'' ''720p'' ''1280x720'' 1,
      resolution_option ''480p'' ''480p'' ''864x496'' 1]"

definition duration_option :: "string \<Rightarrow> nat \<Rightarrow> DurationOption" where
  "duration_option v e = \<lparr>do_value = js v, do_label = js v @ js ''s'', do_seconds = js v,
     do_estimateSeconds = num e\<rparr>"

definition CREATION_DURATION_OPTIONS :: "DurationOption list" where
  "CREATION_DURATION_OPTIONS =
     [duration_option ''5'' 90, duration_option ''10'' 150, duration_option ''15'' 210]"

definition SORA2_CREATION_DURATION_OPTIONS :: "DurationOption list" where
  "SORA2_CREATION_DURATION_OPTIONS =
     [duration_option ''4'' 75, duration_option ''8'' 135, duration_option ''12'' 195]"

definition SORA2_CREATION_RESOLUTION_OPTIONS :: "ResolutionOption list" where
  "SORA2_CREATION_RESOLUTION_OPTIONS = [resolution_option ''720p'' ''720p'' ''720x1280'' 1]"

definition VIDEO2_DURATIONS :: "jsstring list" where
  "VIDEO2_DURATIONS = map (\<lambda>i. show_nat (i + 4)) [0..<12]"
definition VIDEO25_DURATIONS :: "jsstring list" where
  "VIDEO25_DURATIONS = map (\<lambda>i. show_nat (i + 4)) [0..<27]"
definition SEEDANCE_25_DURATIONS :: "jsstring list" where
  "SEEDANCE_25_DURATIONS = map (\<lambda>i. show_nat (i + 4)) [0..<26]"
definition MINIMAX_H3_DURATIONS :: "jsstring list" where
  "MINIMAX_H3_DURATIONS = map (\<lambda>i. show_nat (i + 5)) [0..<11]"

definition SORA2_VIDEO_CAPABILITY :: CreationVideoCapability where
  "SORA2_VIDEO_CAPABILITY =
     \<lparr>kind = KSora2, durations = [js ''4'', js ''8'', js ''12''], resolutions = [js ''720p''],
      aspectRatios = [js ''9:16'', js ''16:9''], referenceModes = [ModeImage],
      showResolution = False, includeResolutionInRequest = False, durationControl = ControlSelect,
      referenceLimits = SORA2_REFERENCE_LIMITS, uploadTipProfile = None, maxPromptLength = None,
      concurrencyOptions = None\<rparr>"

definition VIDEO2_720P_CAPABILITY :: CreationVideoCapability where
  "VIDEO2_720P_CAPABILITY =
     \<lparr>kind = KVideo2, durations = VIDEO2_DURATIONS, resolutions = [js ''720p''],
      aspectRatios = [js ''9:16'', js ''16:9'', js ''1:1''],
      referenceModes = [ModeImage, ModeVideo, ModeMultimodal],
      showResolution = True, includeResolutionInRequest = True, durationControl = ControlMenu,
      referenceLimits = VIDEO2_REFERENCE_LIMITS, uploadTipProfile = None, maxPromptLength = None,
      concurrencyOptions = None\<rparr>"

definition VIDEO2_480P_CAPABILITY :: CreationVideoCapability where
  "VIDEO2_480P_CAPABILITY = VIDEO2_720P_CAPABILITY\<lparr>resolutions := [js ''480p'']\<rparr>"

definition VIDEO25_720P_CAPABILITY :: CreationVideoCapability where
  "VIDEO25_720P_CAPABILITY = VIDEO2_720P_CAPABILITY
     \<lparr>durations := VIDEO25_DURATIONS,
      referenceModes := [ModeText, ModeImage, ModeFrames, ModeVideo, ModeMultimodal],
      referenceLimits := VIDEO25_REFERENCE_LIMITS, uploadTipProfile := Some (js ''video-2.5''),
      maxPromptLength := Some (num 5000)\<rparr>"

definition VIDEO25_480P_CAPABILITY :: CreationVideoCapability where
  "VIDEO25_480P_CAPABILITY = VIDEO25_720P_CAPABILITY
     \<lparr>resolutions := [js ''480p''], showResolution := False\<rparr>"

definition VIDEOS_API_CAPABILITY :: CreationVideoCapability where
  "VIDEOS_API_CAPABILITY =
     \<lparr>kind = KVideos, durations = VIDEO2_DURATIONS, resolutions = [js ''720p'', js ''480p''],
      aspectRatios = [js ''16:9'', js ''9:16'', js ''1:1''],
      referenceModes = [ModeImage, ModeVideo, ModeMultimodal],
      showResolution = True, includeResolutionInRequest = True, durationControl = ControlMenu,
      referenceLimits = VIDEOS_API_REFERENCE_LIMITS, uploadTipProfile = None,
      maxPromptLength = None, concurrencyOptions = None\<rparr>"

definition VIDEOS_4_API_CAPABILITY :: CreationVideoCapability where
  "VIDEOS_4_API_CAPABILITY = VIDEOS_API_CAPABILITY\<lparr>referenceLimits := VIDEO2_REFERENCE_LIMITS\<rparr>"

definition SD2_1080P_API_CAPABILITY :: CreationVideoCapability where
  "SD2_1080P_API_CAPABILITY = VIDEOS_API_CAPABILITY
     \<lparr>resolutions := [js ''1080p''], showResolution := False, includeResolutionInRequest := False\<rparr>"

definition SD2_4K_API_CAPABILITY :: CreationVideoCapability where
  "SD2_4K_API_CAPABILITY = VIDEOS_API_CAPABILITY
     \<lparr>resolutions := [js ''4k''], showResolution := False, includeResolutionInRequest := False\<rparr>"

definition SD2_720P_API_CAPABILITY :: CreationVideoCapability where
  "SD2_720P_API_CAPABILITY = VIDEOS_API_CAPABILITY\<lparr>resolutions := [js ''720p'', js ''480p'']\<rparr>"

definition SEEDANCE_2_API_CAPABILITY :: CreationVideoCapability where
  "SEEDANCE_2_API_CAPABILITY = VIDEOS_API_CAPABILITY
     \<lparr>resolutions := [js ''720p''],
      aspectRatios := [js ''16:9'', js ''9:16'', js ''1:1'', js ''4:3'', js ''3:4''],
      referenceModes := [ModeText, ModeImage, ModeFrames, ModeMultimodal],
      showResolution := False, includeResolutionInRequest := True\<rparr>"

definition SEEDANCE_25_API_CAPABILITY :: CreationVideoCapability where
  "SEEDANCE_25_API_CAPABILITY = SEEDANCE_2_API_CAPABILITY
     \<lparr>durations := SEEDANCE_25_DURATIONS, resolutions := [js ''720p'', js ''480p''],
      aspectRatios := [js ''16:9'', js ''9:16'', js ''1:1''],
      referenceModes := [ModeText, ModeImage, ModeImageAudio],
      referenceLimits := SEEDANCE_25_REFERENCE_LIMITS,
      uploadTipProfile := Some (js ''seedance-2.5''), showResolution := True\<rparr>"

definition MINIMAX_H3_CAPABILITY :: CreationVideoCapability where
  "MINIMAX_H3_CAPABILITY =
     \<lparr>kind = KMiniMaxH3, durations = MINIMAX_H3_DURATIONS, resolutions = [js ''2k''],
      aspectRatios = [js ''16:9'', js ''9:16'', js ''1:1'', js ''4:3'', js ''3:4'', js ''21:9''],
      referenceModes = [ModeText, ModeImage, ModeFrames, ModeImageAudio],
      showResolution = False, includeResolutionInRequest = False, durationControl = ControlMenu,
      referenceLimits = MINIMAX_H3_REFERENCE_LIMITS, uploadTipProfile = None,
      maxPromptLength = Some (num 2000), concurrencyOptions = None\<rparr>"

text \<open>\<open>sd2_full\<close> is the identifier \<open>sd2\<close> followed by the two characters for ``full blood''.\<close>

definition sd2_full :: jsstring where
  "sd2_full = js ''sd2'' @ [28385, 34880]"

definition VIDEO_MODEL_ID_ALIASES :: "(jsstring \<times> jsstring) list" where
  "VIDEO_MODEL_ID_ALIASES =
     [(js ''sd2-mini'', js ''videos-mini''), (js ''sd2-fast'', js ''videos-fast''),
      (sd2_full, js ''videos-standard'')]"

definition VIDEO_CAPABILITIES :: "(jsstring \<times> CreationVideoCapability) list" where
  "VIDEO_CAPABILITIES =
     [(js ''sora2'', SORA2_VIDEO_CAPABILITY), (js ''sora-2'', SORA2_VIDEO_CAPABILITY),
      (js ''sora-2-pro'', SORA2_VIDEO_CAPABILITY),
      (js ''video-2.0'', VIDEO2_720P_CAPABILITY), (js ''video-2.0-fast'', VIDEO2_720P_CAPABILITY),
      (js ''video-2.0-mini'', VIDEO2_720P_CAPABILITY),
      (js ''video-2.0-480p'', VIDEO2_480P_CAPABILITY),
      (js ''video-2.0-fast-480p'', VIDEO2_480P_CAPABILITY),
      (js ''video-2.0-mini-480p'', VIDEO2_480P_CAPABILITY),
      (js ''video-2.5'', VIDEO25_720P_CAPABILITY), (js ''video-2.5-480p'', VIDEO25_480P_CAPABILITY),
      (js ''videos-standard'', VIDEOS_API_CAPABILITY), (js ''videos-fast'', VIDEOS_API_CAPABILITY),
      (js ''videos-mini'', VIDEOS_API_CAPABILITY),
      (js ''videos-4'', VIDEOS_4_API_CAPABILITY), (js ''videos-4-fast'', VIDEOS_4_API_CAPABILITY),
      (js ''videos-4-mini'', VIDEOS_4_API_CAPABILITY),
      (js ''sd2-mini'', VIDEOS_API_CAPABILITY), (js ''sd2-fast'', VIDEOS_API_CAPABILITY),
      (sd2_full, VIDEOS_API_CAPABILITY),
      (js ''sd2-1080p'', SD2_1080P_API_CAPABILITY), (js ''sd2-4k'', SD2_4K_API_CAPABILITY),
      (js ''sd2-720p'', SD2_720P_API_CAPABILITY),
      (js ''sd-2.0-933'', SEEDANCE_2_API_CAPABILITY), (js ''sd-2-c8'', SEEDANCE_2_API_CAPABILITY),
      (js ''seedance-2.0'', SEEDANCE_2_API_CAPABILITY),
      (js ''seedance-2.5'', SEEDANCE_25_API_CAPABILITY),
      (js ''minimax-h3'', MINIMAX_H3_CAPABILITY)]"

section \<open>Identifiers of a model\<close>

definition getModelId :: "CreationModelInput \<Rightarrow> jsstring" where
  "getModelId model =
     (case model of
        ModelString s \<Rightarrow> s
      | ModelObject m \<Rightarrow> (case cm_id m of None \<Rightarrow> [] | Some s \<Rightarrow> s)
      | ModelUndefined \<Rightarrow> [])"

definition getModelMetadata :: "CreationModelInput \<Rightarrow> CreationModelMetadataLike option" where
  "getModelMetadata model = (case model of ModelObject m \<Rightarrow> cm_metadata m | _ \<Rightarrow> None)"

definition normalizeModelId :: "CreationModelInput \<Rightarrow> jsstring" where
  "normalizeModelId model = toLowerCase (trim (getModelId model))"

definition open_bracket :: "unit16 \<Rightarrow> bool" where
  "open_bracket u \<longleftrightarrow> u = 40 \<or> u = 65288"

definition close_bracket :: "unit16 \<Rightarrow> bool" where
  "close_bracket u \<longleftrightarrow> u = 41 \<or> u = 65289"

definition not_bracket :: "unit16 \<Rightarrow> bool" where
  "not_bracket u \<longleftrightarrow> \<not> open_bracket u \<and> \<not> close_bracket u"

definition marker_prefix_re :: re where
  "marker_prefix_re = RSeq RBegin (rseqs [RStar (RSet is_ws), RSet open_bracket,
     RStar (RSet not_bracket), RSet close_bracket, RStar (RSet is_ws)])"

definition marker_suffix_re :: re where
  "marker_suffix_re = rseqs [RStar (RSet is_ws), RSet open_bracket, RStar (RSet not_bracket),
     RSet close_bracket, RStar (RSet is_ws), REnd]"

text \<open>\<open>s.replace(re, '')\<close> for a pattern without the flag \<open>g\<close>.\<close>

definition re_remove :: "re \<Rightarrow> jsstring \<Rightarrow> jsstring" where
  "re_remove r s =
     (case exec_from r [] s of None \<Rightarrow> s | Some (pre, _, rest, _) \<Rightarrow> rev pre @ rest)"

definition set_add :: "'a \<Rightarrow> 'a list \<Rightarrow> 'a list" where
  "set_add x xs = (if x \<in> set xs then xs else xs @ [x])"

definition variant_step :: "jsstring list \<Rightarrow> jsstring \<Rightarrow> jsstring list" where
  "variant_step variants candidate =
     (let withoutPrefix = trim (re_remove marker_prefix_re candidate);
          withoutSuffix = trim (re_remove marker_suffix_re candidate);
          v1 = (if withoutPrefix = [] then variants else set_add withoutPrefix variants)
      in if withoutSuffix = [] then v1 else set_add withoutSuffix v1)"

definition variant_pass :: "jsstring list \<Rightarrow> jsstring list" where
  "variant_pass variants = foldl variant_step variants variants"

definition getNormalizedModelIdVariants :: "jsstring option \<Rightarrow> jsstring list" where
  "getNormalizedModelIdVariants value =
     (let normalized = (case value of None \<Rightarrow> [] | Some s \<Rightarrow> toLowerCase (trim s))
      in if normalized = [] then []
         else filter (\<lambda>v. v \<noteq> []) (variant_pass (variant_pass [normalized])))"

definition getCreationModelIdCandidates :: "CreationModelInput \<Rightarrow> jsstring list" where
  "getCreationModelIdCandidates model =
     (let c0 = getNormalizedModelIdVariants (Some (normalizeModelId model));
          md = getModelMetadata model;
          c1 = c0 @ getNormalizedModelIdVariants (Option.bind md upstream_model_id)
            @ getNormalizedModelIdVariants (Option.bind md md_id);
          c2 = c1 @ concat (map (\<lambda>c. case map_of VIDEO_MODEL_ID_ALIASES c of
              None \<Rightarrow> [] | Some mapped \<Rightarrow> if mapped = [] then [] else [mapped]) c1)
      in js_set (filter (\<lambda>c. c \<noteq> []) c2))"

section \<open>Model families\<close>

definition hasStaticVideoCapabilityKind :: "CreationModelInput \<Rightarrow> capability_kind \<Rightarrow> bool" where
  "hasStaticVideoCapabilityKind model k \<longleftrightarrow>
     list_ex (\<lambda>c. map_option kind (map_of VIDEO_CAPABILITIES c) = Some k)
       (getCreationModelIdCandidates model)"

definition isVideosApiModel :: "CreationModelInput \<Rightarrow> bool" where
  "isVideosApiModel model \<longleftrightarrow> hasStaticVideoCapabilityKind model KVideos"

definition isMiniMaxH3Model :: "CreationModelInput \<Rightarrow> bool" where
  "isMiniMaxH3Model model \<longleftrightarrow> hasStaticVideoCapabilityKind model KMiniMaxH3"

definition sd2_channel_re :: re where
  "sd2_channel_re = RSeq RBegin (rseqs [rlit ''sd-2-c'', rplus (RSet is_digit), REnd])"

definition isSeedance2Model :: "CreationModelInput \<Rightarrow> bool" where
  "isSeedance2Model model \<longleftrightarrow>
     list_ex (\<lambda>c. c = js ''seedance-2.0'' \<or> c = js ''seedance-2.5'' \<or> startsWith c (js ''sd-2.0-'')
         \<or> re_test sd2_channel_re c)
       (getCreationModelIdCandidates model)"

definition isSeedance25Model :: "CreationModelInput \<Rightarrow> bool" where
  "isSeedance25Model model \<longleftrightarrow> js ''seedance-2.5'' \<in> set (getCreationModelIdCandidates model)"

definition isVideo25Model :: "CreationModelInput \<Rightarrow> bool" where
  "isVideo25Model model \<longleftrightarrow>
     list_ex (\<lambda>c. c \<in> {js ''video-2.5'', js ''video-2.5-480p''}) (getCreationModelIdCandidates model)"

section \<open>Sanbao models\<close>

definition isSanbaoMetadata :: "CreationModelMetadataLike option \<Rightarrow> bool" where
  "isSanbaoMetadata md \<longleftrightarrow>
     map_option (\<lambda>p. toLowerCase (trim p)) (Option.bind md provider) = Some (js ''sanbao'')"

definition getSanbaoMediaType :: "CreationModelMetadataLike option \<Rightarrow> jsstring option" where
  "getSanbaoMediaType md =
     find (\<lambda>s. s \<noteq> [])
       (map (\<lambda>v. case v of None \<Rightarrow> [] | Some s \<Rightarrow> toLowerCase (trim s))
         [Option.bind md md_type, Option.bind md category, Option.bind md model_type])"

definition value_String :: "num_or_string \<Rightarrow> jsstring" where
  "value_String v = (case v of NumV n \<Rightarrow> js_String n | StrV s \<Rightarrow> s)"

definition value_Number :: "num_or_string \<Rightarrow> jsnum" where
  "value_Number v = (case v of NumV n \<Rightarrow> n | StrV s \<Rightarrow> js_Number s)"

definition or_list :: "'a list option \<Rightarrow> 'a list" where
  "or_list xs = (case xs of None \<Rightarrow> [] | Some l \<Rightarrow> l)"

text \<open>The set \<open>seen\<close> holds the strings already returned.\<close>

fun clean_strings :: "jsstring list \<Rightarrow> num_or_string list \<Rightarrow> jsstring list" where
  "clean_strings seen [] = []"
| "clean_strings seen (v # vs) =
     (let n = trim (value_String v)
      in if n = [] \<or> n \<in> set seen then clean_strings seen vs else n # clean_strings (n # seen) vs)"

definition cleanStringOptions :: "num_or_string list option \<Rightarrow> jsstring list" where
  "cleanStringOptions values = clean_strings [] (or_list values)"

fun clean_integers :: "jsstring list \<Rightarrow> num_or_string list \<Rightarrow> jsstring list" where
  "clean_integers seen [] = []"
| "clean_integers seen (v # vs) =
     (let p = value_Number v
      in if \<not> js_isInteger p \<or> \<not> js_less (Fin 0) p then clean_integers seen vs
         else (let n = js_String p
           in if n \<in> set seen then clean_integers seen vs else n # clean_integers (n # seen) vs))"

definition cleanPositiveIntegers :: "num_or_string list option \<Rightarrow> jsstring list" where
  "cleanPositiveIntegers values = clean_integers [] (or_list values)"

definition or_num :: "jsnum option \<Rightarrow> nat \<Rightarrow> jsnum" where
  "or_num v d = (case v of None \<Rightarrow> num d | Some n \<Rightarrow> n)"

definition mb_bytes :: "jsnum \<Rightarrow> jsnum" where
  "mb_bytes n = js_mul (js_mul n (num 1024)) (num 1024)"

definition buildSanbaoReferenceLimits :: "CreationModelMetadataLike \<Rightarrow> CreationVideoReferenceLimits" where
  "buildSanbaoReferenceLimits md =
     (let mi = or_num (max_image_size_mb md) 20; mv = or_num (max_video_size_mb md) 200;
          ma = or_num (max_audio_size_mb md) 15
      in \<lparr>maxImages = or_num (max_images md) 0, maxVideos = or_num (max_videos md) 0,
          maxAudios = or_num (max_audios md) 0, maxMediaFiles = max_media_files md,
          maxImageSizeBytes = mb_bytes mi, maxVideoSizeBytes = mb_bytes mv,
          maxAudioSizeBytes = mb_bytes ma,
          maxImageSizeMB = mi, maxVideoSizeMB = mv, maxAudioSizeMB = ma,
          minReferenceVideoDurationSeconds = min_reference_video_duration_seconds md,
          maxReferenceVideoDurationSeconds = max_reference_video_duration_seconds md,
          maxReferenceVideoTotalDurationSeconds = None, minReferenceAudioDurationSeconds = None,
          maxReferenceAudioDurationSeconds = None, maxReferenceAudioTotalDurationSeconds = None\<rparr>)"

definition positive :: "jsnum \<Rightarrow> bool" where
  "positive n \<longleftrightarrow> js_less (Fin 0) n"

definition getSanbaoVideoCapability :: "CreationModelInput \<Rightarrow> CreationVideoCapability option" where
  "getSanbaoVideoCapability model =
     (if isVideosApiModel model \<or> isMiniMaxH3Model model then None
      else (case getModelMetadata model of
        None \<Rightarrow> None
      | Some md \<Rightarrow>
          if \<not> isSanbaoMetadata (Some md) then None
          else if \<not> (case getSanbaoMediaType (Some md) of
              None \<Rightarrow> False | Some t \<Rightarrow> includes_str t (js ''video'')) then None
          else
            (let limits = buildSanbaoReferenceLimits md;
                 modes = (if positive (maxImages limits) then [ModeImage] else [])
                   @ (if positive (maxVideos limits) then [ModeVideo] else [])
                   @ (if positive (maxImages limits)
                        \<and> (positive (maxVideos limits) \<or> positive (maxAudios limits))
                      then [ModeMultimodal] else []);
                 ds = cleanPositiveIntegers (md_durations md);
                 rs = cleanStringOptions (map_option (map StrV) (md_resolutions md));
                 ratios = cleanStringOptions (map_option (map StrV)
                   (if or_list (md_ratios md) \<noteq> [] then md_ratios md else aspect_ratios md))
             in Some \<lparr>kind = KSanbao,
                  durations = (if ds \<noteq> [] then ds else VIDEO2_DURATIONS),
                  resolutions = (if rs \<noteq> [] then rs else [js ''720p'']),
                  aspectRatios = (if ratios \<noteq> [] then ratios
                    else [js ''9:16'', js ''16:9'', js ''1:1'']),
                  referenceModes = (if modes \<noteq> [] then modes else [ModeImage]),
                  showResolution = True, includeResolutionInRequest = True,
                  durationControl = ControlSelect, referenceLimits = limits,
                  uploadTipProfile = None, maxPromptLength = None,
                  concurrencyOptions = concurrency_options md\<rparr>)))"

section \<open>XJZ and mapped models\<close>

definition video_endpoint :: "CreationModelInput \<Rightarrow> MappedEndpoint option" where
  "video_endpoint model =
     (case model of
        ModelObject m \<Rightarrow> Option.bind (mapped_endpoints m) (find (\<lambda>e. ep_kind e = js ''video''))
      | _ \<Rightarrow> None)"

definition video_parameters :: "CreationModelInput \<Rightarrow> IntegrationParameters option" where
  "video_parameters model = Option.bind (video_endpoint model) ep_parameters"

definition truthy_opt :: "jsnum option \<Rightarrow> bool" where
  "truthy_opt v = (case v of None \<Rightarrow> False | Some n \<Rightarrow> js_truthy_num n)"

definition mapped_spec :: "IntegrationParameters \<Rightarrow> XJZVideoModelSpec" where
  "mapped_spec p =
     \<lparr>x_durations = map js_String (or_list (ip_durations p)),
      x_resolutions = map toLowerCase (case ip_resolutions p of None \<Rightarrow> [js ''720p''] | Some rs \<Rightarrow> rs),
      x_ratios = (if ip_omit_ratio p then []
                  else case ip_ratios p of None \<Rightarrow> [js ''16:9''] | Some rs \<Rightarrow> rs),
      x_referenceModes = (if truthy_opt (ip_min_images p) then [] else [ModeText])
        @ (if js_truthy_num (ip_max_images p) then [ModeImage] else [])
        @ (if js_truthy_num (ip_max_videos p) then [ModeVideo, ModeMultimodal]
           else if js_truthy_num (ip_max_audios p) then [ModeImageAudio] else [])
        @ (if ip_allow_frames p then [ModeFrames] else []),
      x_maxImages = ip_max_images p, x_minImages = ip_min_images p,
      x_maxVideos = ip_max_videos p, x_maxAudios = ip_max_audios p,
      imageField = ip_image_field p, videoField = ip_video_field p, audioField = ip_audio_field p,
      ratioField = ip_ratio_field p, resolutionField = ip_resolution_field p,
      audioRequiresImage = ip_audio_requires_image p,
      requestResolution = ip_request_resolution p,
      selectableResolution = (length (or_list (ip_resolutions p)) > 1),
      audioNeedsVisualReference = ip_audio_needs_image p, allowFrames = ip_allow_frames p\<rparr>"

definition getVideoModelSpec :: "CreationModelInput \<Rightarrow> XJZVideoModelSpec option" where
  "getVideoModelSpec model =
     (case video_parameters model of
        None \<Rightarrow> getXJZVideoModelSpec (getModelId model)
      | Some p \<Rightarrow>
          if or_list (ip_durations p) = [] then getXJZVideoModelSpec (getModelId model)
          else Some (mapped_spec p))"

definition size_mb :: "bool \<Rightarrow> jsnum option \<Rightarrow> jsnum \<Rightarrow> jsnum" where
  "size_mb isXJZ v d = (case v of Some n \<Rightarrow> n | None \<Rightarrow> if isXJZ then num 10 else d)"

definition getXJZVideoCapability :: "CreationModelInput \<Rightarrow> CreationVideoCapability option" where
  "getXJZVideoCapability model =
     (case getVideoModelSpec model of
        None \<Rightarrow> None
      | Some spec \<Rightarrow>
          (let isXJZ = (getXJZVideoModelSpec (getModelId model) \<noteq> None);
               p = video_parameters model;
               imageSizeMB = size_mb isXJZ (Option.bind p ip_max_image_size_mb) (maxImageSizeMB VIDEO2_REFERENCE_LIMITS);
               videoSizeMB = size_mb isXJZ (Option.bind p ip_max_video_size_mb) (maxVideoSizeMB VIDEO2_REFERENCE_LIMITS);
               audioSizeMB = size_mb isXJZ (Option.bind p ip_max_audio_size_mb) (maxAudioSizeMB VIDEO2_REFERENCE_LIMITS)
           in Some \<lparr>kind = (if isXJZ then KXJZ else KMapped), durations = x_durations spec,
                resolutions = x_resolutions spec, aspectRatios = x_ratios spec,
                referenceModes = x_referenceModes spec,
                showResolution = selectableResolution spec, includeResolutionInRequest = True,
                durationControl = ControlSelect,
                referenceLimits =
                  \<lparr>maxImages = x_maxImages spec, maxVideos = x_maxVideos spec,
                   maxAudios = x_maxAudios spec, maxMediaFiles = None,
                   maxImageSizeBytes = mb_bytes imageSizeMB,
                   maxVideoSizeBytes = mb_bytes videoSizeMB,
                   maxAudioSizeBytes = mb_bytes audioSizeMB,
                   maxImageSizeMB = imageSizeMB, maxVideoSizeMB = videoSizeMB,
                   maxAudioSizeMB = audioSizeMB,
                   minReferenceVideoDurationSeconds = None, maxReferenceVideoDurationSeconds = None,
                   maxReferenceVideoTotalDurationSeconds = None,
                   minReferenceAudioDurationSeconds = None, maxReferenceAudioDurationSeconds = None,
                   maxReferenceAudioTotalDurationSeconds = None\<rparr>,
                uploadTipProfile = None, maxPromptLength = None, concurrencyOptions = None\<rparr>))"

section \<open>The capability of a model\<close>

definition static_capability :: "jsstring list \<Rightarrow> CreationVideoCapability option" where
  "static_capability cs = first (List.map_filter (map_of VIDEO_CAPABILITIES) cs)"

definition getCreationVideoCapabilities :: "CreationModelInput \<Rightarrow> CreationVideoCapability option" where
  "getCreationVideoCapabilities model =
     (let sanbao = getSanbaoVideoCapability model;
          isSanbao = (map_option toLowerCase (Option.bind (getModelMetadata model) provider)
            = Some (js ''sanbao''))
      in if isSanbao \<and> sanbao \<noteq> None then sanbao
         else (case getXJZVideoCapability model of
           Some c \<Rightarrow> Some c
         | None \<Rightarrow>
             (case sanbao of
                Some c \<Rightarrow> Some c
              | None \<Rightarrow>
                  (case static_capability (getCreationModelIdCandidates model) of
                     Some c \<Rightarrow> Some c
                   | None \<Rightarrow>
                       if isSeedance2Model model then Some SEEDANCE_2_API_CAPABILITY else None))))"

definition isVideo2Model :: "CreationModelInput \<Rightarrow> bool" where
  "isVideo2Model model \<longleftrightarrow> map_option kind (getCreationVideoCapabilities model) = Some KVideo2"

definition getCreationPromptMaxLength :: "CreationModelInput \<Rightarrow> jsnum" where
  "getCreationPromptMaxLength model =
     (case Option.bind (getCreationVideoCapabilities model) maxPromptLength of
        Some l \<Rightarrow> if js_truthy_num l then l else
          (case Option.bind (getModelMetadata model) max_prompt_length of
             Some n \<Rightarrow> if js_isInteger n \<and> js_less (Fin 0) n then n else num 5000
           | None \<Rightarrow> num 5000)
      | None \<Rightarrow>
          (case Option.bind (getModelMetadata model) max_prompt_length of
             Some n \<Rightarrow> if js_isInteger n \<and> js_less (Fin 0) n then n else num 5000
           | None \<Rightarrow> num 5000))"

end
