(* ===== verification/Video_Options.thy ===== *)
theory Video_Options
  imports Video_Capability
begin

text \<open>
  The selectable resolutions and durations of a model, the normalisation of the selected
  options and the check of the duration (\<open>features/media-generation/video-options.ts\<close>).
  Reading a field of the missing first option of an empty list raises a TypeError, so the
  functions that do so return a sum.
\<close>

section \<open>Operations\<close>

datatype js_error = TypeError | MissingCapability

definition getResolutionOption :: "jsstring \<Rightarrow> ResolutionOption" where
  "getResolutionOption value =
     (case find (\<lambda>o'. ro_value o' = value)
         (CREATION_RESOLUTION_OPTIONS @ VIDEO2_720P_CREATION_RESOLUTION_OPTIONS
           @ VIDEO2_480P_CREATION_RESOLUTION_OPTIONS) of
        Some known \<Rightarrow> known
      | None \<Rightarrow> \<lparr>ro_value = value, ro_label = value, ro_size = value, estimateMultiplier = Fin 1\<rparr>)"

definition getDurationOption :: "jsstring \<Rightarrow> DurationOption" where
  "getDurationOption value =
     (let seconds = js_Number value
      in \<lparr>do_value = value, do_label = value @ js ''s'', do_seconds = value,
          do_estimateSeconds = (if js_isFinite seconds
            then js_add (num 60) (js_mul seconds (num 15)) else num 120)\<rparr>)"

definition getCreationResolutionOptions :: "CreationModelInput \<Rightarrow> ResolutionOption list" where
  "getCreationResolutionOptions model =
     (case getCreationVideoCapabilities model of
        None \<Rightarrow> CREATION_RESOLUTION_OPTIONS
      | Some c \<Rightarrow>
          (case kind c of
             KXJZ \<Rightarrow> map getResolutionOption (resolutions c)
           | KMapped \<Rightarrow> map getResolutionOption (resolutions c)
           | KSanbao \<Rightarrow> if resolutions c \<noteq> [] then map getResolutionOption (resolutions c)
               else CREATION_RESOLUTION_OPTIONS
           | KVideos \<Rightarrow> map (\<lambda>v. case find (\<lambda>o'. ro_value o' = v) VIDEOS_API_CREATION_RESOLUTION_OPTIONS of
               Some o' \<Rightarrow> o' | None \<Rightarrow> getResolutionOption v) (resolutions c)
           | KVideo2 \<Rightarrow> if js ''480p'' \<in> set (resolutions c)
               then VIDEO2_480P_CREATION_RESOLUTION_OPTIONS
               else VIDEO2_720P_CREATION_RESOLUTION_OPTIONS
           | KMiniMaxH3 \<Rightarrow> map getResolutionOption (resolutions c)
           | KSora2 \<Rightarrow> SORA2_CREATION_RESOLUTION_OPTIONS))"

definition getCreationDurationOptions :: "CreationModelInput \<Rightarrow> DurationOption list" where
  "getCreationDurationOptions model =
     (case getCreationVideoCapabilities model of
        None \<Rightarrow> CREATION_DURATION_OPTIONS
      | Some c \<Rightarrow>
          (case kind c of
             KSanbao \<Rightarrow> if durations c \<noteq> [] then map getDurationOption (durations c)
               else CREATION_DURATION_OPTIONS
           | KSora2 \<Rightarrow> SORA2_CREATION_DURATION_OPTIONS
           | _ \<Rightarrow> map getDurationOption (durations c)))"

text \<open>\<open>xs.find(p) ?? xs[0]\<close>, of which a field is read.\<close>

definition find_or_first :: "('a \<Rightarrow> bool) \<Rightarrow> 'a list \<Rightarrow> js_error + 'a" where
  "find_or_first P xs =
     (case find P xs of
        Some x \<Rightarrow> Inr x
      | None \<Rightarrow> (case xs of [] \<Rightarrow> Inl TypeError | x # _ \<Rightarrow> Inr x))"

definition pick_ratio :: "CreationVideoCapability \<Rightarrow> jsstring option \<Rightarrow> jsstring option" where
  "pick_ratio c r =
     (case r of
        Some a \<Rightarrow> if a \<in> set (aspectRatios c) then Some a else first (aspectRatios c)
      | None \<Rightarrow> first (aspectRatios c))"

definition normalizeCreationVideoOptions ::
    "CreationVideoOptions \<Rightarrow> CreationModelInput \<Rightarrow> js_error + CreationVideoOptions" where
  "normalizeCreationVideoOptions options model =
     (case find_or_first (\<lambda>o'. ro_value o' = resolution options) (getCreationResolutionOptions model) of
        Inl e \<Rightarrow> Inl e
      | Inr r \<Rightarrow>
          (case find_or_first (\<lambda>o'. do_value o' = duration options) (getCreationDurationOptions model) of
             Inl e \<Rightarrow> Inl e
           | Inr d \<Rightarrow>
               Inr \<lparr>resolution = ro_value r, duration = do_value d,
                    aspectRatio = (case getCreationVideoCapabilities model of
                      None \<Rightarrow> None | Some c \<Rightarrow> pick_ratio c (aspectRatio options))\<rparr>))"

definition getCreationVideoOptionsError ::
    "CreationVideoOptions \<Rightarrow> CreationModelInput \<Rightarrow> jsstring option" where
  "getCreationVideoOptionsError options model =
     (case getCreationVideoCapabilities model of
        None \<Rightarrow> None
      | Some c \<Rightarrow>
          (let d = js_Number (duration options)
           in if js_isInteger d \<and> js_String d \<in> set (durations c) then None
              else if kind c \<in> {KSanbao, KMiniMaxH3, KXJZ, KMapped}
              then Some (js ''This model does not support the selected duration.'')
              else if isSeedance25Model model
              then Some (js ''Seedance 2.5 duration must be between 4 and 29 seconds.'')
              else if isVideo25Model model
              then Some (js ''Video 2.5 duration must be between 4 and 30 seconds.'')
              else Some (js ''Duration must be between 4 and 15 seconds.'')))"

definition getCreationVideoReferenceLimits :: "CreationModelInput \<Rightarrow> CreationVideoReferenceLimits" where
  "getCreationVideoReferenceLimits model =
     (case getCreationVideoCapabilities model of
        Some c \<Rightarrow> referenceLimits c
      | None \<Rightarrow> VIDEO2_REFERENCE_LIMITS)"

definition DEFAULT_CREATION_VIDEO_OPTIONS :: CreationVideoOptions where
  "DEFAULT_CREATION_VIDEO_OPTIONS = \<lparr>resolution = js ''720p'', duration = js ''5'', aspectRatio = None\<rparr>"

end
