(* ===== verification/Video_Options_Props.thy ===== *)
theory Video_Options_Props
  imports Video_Options
begin

text \<open>
  The capabilities a plain model identifier can have are well formed (every duration is a
  decimal integer, no list of options is empty), so normalising the selected options always
  succeeds for them, gives options the model offers and passes the duration check.
\<close>

section \<open>Choosing an option\<close>

lemma find_or_first_in: "find_or_first P xs = Inr x \<Longrightarrow> x \<in> set xs"
  by (auto simp: find_or_first_def find_Some_iff split: option.splits list.splits)

lemma find_or_first_error: "find_or_first P xs = Inl e \<longleftrightarrow> xs = [] \<and> e = TypeError"
  by (cases xs) (auto simp: find_or_first_def split: option.splits)

lemma find_or_first_again:
  assumes "x \<in> set xs" "find_or_first (\<lambda>y. key y = key x) xs = Inr z"
  shows "key z = key x"
proof -
  have "find (\<lambda>y. key y = key x) xs \<noteq> None" using assms(1) by (auto simp: find_None_iff)
  then obtain y where y: "find (\<lambda>y. key y = key x) xs = Some y" by blast
  then have "key y = key x" by (auto simp: find_Some_iff)
  with y assms(2) show ?thesis by (simp add: find_or_first_def)
qed

lemma first_in: "first xs = Some x \<Longrightarrow> x \<in> set xs"
  by (cases xs) (auto simp: first_def)

lemma pick_ratio_in: "pick_ratio c r = Some a \<Longrightarrow> a \<in> set (aspectRatios c)"
  by (auto simp: pick_ratio_def first_in split: option.splits if_splits)

lemma pick_ratio_again: "pick_ratio c (pick_ratio c r) = pick_ratio c r"
proof (cases "pick_ratio c r")
  case None
  then have "first (aspectRatios c) = None" by (auto simp: pick_ratio_def split: option.splits if_splits)
  with None show ?thesis by (simp add: pick_ratio_def)
next
  case (Some a)
  then show ?thesis using pick_ratio_in [OF Some] by (simp add: pick_ratio_def [of c "Some a"])
qed

section \<open>Well-formed capabilities\<close>

definition decimal :: "jsstring \<Rightarrow> bool" where
  "decimal s \<longleftrightarrow> (\<exists>n \<le> 9007199254740992. s = show_nat n)"

definition good_capability :: "CreationVideoCapability \<Rightarrow> bool" where
  "good_capability c \<longleftrightarrow> durations c \<noteq> [] \<and> list_all decimal (durations c) \<and> resolutions c \<noteq> [] \<and>
     (kind c = KSora2 \<longrightarrow> durations c = [js ''4'', js ''8'', js ''12''])"

definition good_spec :: "XJZVideoModelSpec \<Rightarrow> bool" where
  "good_spec s \<longleftrightarrow> x_durations s \<noteq> [] \<and> list_all decimal (x_durations s) \<and> x_resolutions s \<noteq> []"

lemma decimal_show: "n \<le> 9007199254740992 \<Longrightarrow> decimal (show_nat n)"
  by (auto simp: decimal_def)

lemma decimal_literals:
  "decimal (js ''4'')" "decimal (js ''5'')" "decimal (js ''8'')" "decimal (js ''10'')" "decimal (js ''12'')"
  "decimal (js ''15'')" "decimal (js ''30'')"
  using decimal_show [of 4] decimal_show [of 5] decimal_show [of 8] decimal_show [of 10]
    decimal_show [of 12] decimal_show [of 15] decimal_show [of 30]
  by (simp_all add: js_eval)

lemma seconds_decimal: "mx \<le> 1000 \<Longrightarrow> mn \<le> mx \<Longrightarrow> list_all decimal (seconds mn mx) \<and> seconds mn mx \<noteq> []"
  by (auto simp: seconds_def list_all_iff intro!: decimal_show)

lemma range_decimal: "k + n \<le> 1000 \<Longrightarrow> list_all decimal (map (\<lambda>i. show_nat (i + k)) [0..<n])"
  by (auto simp: list_all_iff intro!: decimal_show)

lemma xjz_table_good: "list_all (\<lambda>(k, s). good_spec s) XJZ_VIDEO_MODELS"
  by (simp add: xjz_table_defs good_spec_def seconds_decimal decimal_literals [simplified])

lemmas capability_defs = SORA2_VIDEO_CAPABILITY_def VIDEO2_720P_CAPABILITY_def
  VIDEO2_480P_CAPABILITY_def VIDEO25_720P_CAPABILITY_def VIDEO25_480P_CAPABILITY_def
  VIDEOS_API_CAPABILITY_def VIDEOS_4_API_CAPABILITY_def SD2_1080P_API_CAPABILITY_def
  SD2_4K_API_CAPABILITY_def SD2_720P_API_CAPABILITY_def SEEDANCE_2_API_CAPABILITY_def
  SEEDANCE_25_API_CAPABILITY_def MINIMAX_H3_CAPABILITY_def

lemma static_durations:
  "list_all decimal VIDEO2_DURATIONS" "VIDEO2_DURATIONS \<noteq> []"
  "list_all decimal VIDEO25_DURATIONS" "VIDEO25_DURATIONS \<noteq> []"
  "list_all decimal SEEDANCE_25_DURATIONS" "SEEDANCE_25_DURATIONS \<noteq> []"
  "list_all decimal MINIMAX_H3_DURATIONS" "MINIMAX_H3_DURATIONS \<noteq> []"
  unfolding VIDEO2_DURATIONS_def VIDEO25_DURATIONS_def SEEDANCE_25_DURATIONS_def MINIMAX_H3_DURATIONS_def
  by (rule range_decimal, simp | simp)+

lemma seedance_good: "good_capability SEEDANCE_2_API_CAPABILITY"
  by (simp add: good_capability_def capability_defs static_durations)

lemma static_table_good: "list_all (\<lambda>(k, c). good_capability c) VIDEO_CAPABILITIES"
  by (simp add: VIDEO_CAPABILITIES_def good_capability_def capability_defs static_durations
      decimal_literals [simplified])

lemma map_of_all: "list_all (\<lambda>(k, v). P v) xs \<Longrightarrow> map_of xs k = Some v \<Longrightarrow> P v"
  by (auto simp: list_all_iff dest: map_of_SomeD)

lemma static_good: "static_capability cs = Some c \<Longrightarrow> good_capability c"
  using map_of_all [OF static_table_good]
  by (auto simp: static_capability_def map_filter_def dest!: first_in)

lemma xjz_spec_good: "getXJZVideoModelSpec i = Some s \<Longrightarrow> good_spec s"
  using map_of_all [OF xjz_table_good] by (auto simp: getXJZVideoModelSpec_def split: option.splits)

text \<open>A plain identifier has no metadata and no mapped endpoint.\<close>

lemma string_model:
  "getModelMetadata (ModelString s) = None" "video_parameters (ModelString s) = None"
  "getModelId (ModelString s) = s"
  by (simp_all add: getModelMetadata_def video_parameters_def video_endpoint_def getModelId_def)

lemma string_capability_good:
  assumes "getCreationVideoCapabilities (ModelString s) = Some c"
  shows "good_capability c"
proof (cases "getXJZVideoModelSpec s")
  case None
  then show ?thesis using assms static_good seedance_good
    by (auto simp: getCreationVideoCapabilities_def getXJZVideoCapability_def getVideoModelSpec_def
        getSanbaoVideoCapability_def string_model Let_def split: option.splits if_splits)
next
  case (Some spec)
  then have "good_spec spec" by (rule xjz_spec_good)
  with Some assms show ?thesis
    by (auto simp: getCreationVideoCapabilities_def getXJZVideoCapability_def getVideoModelSpec_def
        getSanbaoVideoCapability_def string_model Let_def good_capability_def good_spec_def)
qed

section \<open>Offered options\<close>

text \<open>The options a model offers.\<close>

definition offered :: "CreationModelInput \<Rightarrow> CreationVideoOptions \<Rightarrow> bool" where
  "offered model r \<longleftrightarrow> resolution r \<in> ro_value ` set (getCreationResolutionOptions model)
     \<and> duration r \<in> do_value ` set (getCreationDurationOptions model)
     \<and> aspectRatio r = (case getCreationVideoCapabilities model of
         None \<Rightarrow> None | Some c \<Rightarrow> pick_ratio c (aspectRatio r))"

lemma normalize_offered:
  "normalizeCreationVideoOptions o' model = Inr r \<Longrightarrow> offered model r"
  by (auto simp: normalizeCreationVideoOptions_def offered_def pick_ratio_again
      split: sum.splits option.splits dest!: find_or_first_in)

lemma offered_fixed:
  assumes "offered model r"
  shows "normalizeCreationVideoOptions r model = Inr r"
proof -
  obtain ro where ro: "ro \<in> set (getCreationResolutionOptions model)" "resolution r = ro_value ro"
    using assms by (auto simp: offered_def)
  obtain d where d: "d \<in> set (getCreationDurationOptions model)" "duration r = do_value d"
    using assms by (auto simp: offered_def)
  obtain x where x: "find_or_first (\<lambda>o'. ro_value o' = resolution r) (getCreationResolutionOptions model) = Inr x"
    using ro(1) find_or_first_error by (metis empty_iff empty_set sum.exhaust)
  obtain y where y: "find_or_first (\<lambda>o'. do_value o' = duration r) (getCreationDurationOptions model) = Inr y"
    using d(1) find_or_first_error by (metis empty_iff empty_set sum.exhaust)
  have "ro_value x = resolution r" "do_value y = duration r"
    using find_or_first_again [OF ro(1), of ro_value x] find_or_first_again [OF d(1), of do_value y] x y ro d by auto
  then show ?thesis using x y assms by (simp add: normalizeCreationVideoOptions_def offered_def)
qed

lemma good_options_nonempty:
  assumes "\<And>c. getCreationVideoCapabilities model = Some c \<Longrightarrow> good_capability c"
  shows "getCreationResolutionOptions model \<noteq> []" "getCreationDurationOptions model \<noteq> []"
  using assms
  by (auto simp: getCreationResolutionOptions_def getCreationDurationOptions_def good_capability_def
      CREATION_RESOLUTION_OPTIONS_def CREATION_DURATION_OPTIONS_def SORA2_CREATION_DURATION_OPTIONS_def
      SORA2_CREATION_RESOLUTION_OPTIONS_def VIDEO2_480P_CREATION_RESOLUTION_OPTIONS_def
      VIDEO2_720P_CREATION_RESOLUTION_OPTIONS_def split: option.splits capability_kind.splits)

lemma good_offered_durations:
  assumes "getCreationVideoCapabilities model = Some c" "good_capability c"
  shows "do_value ` set (getCreationDurationOptions model) \<subseteq> set (durations c)"
  using assms by (cases "kind c")
    (auto simp: getCreationDurationOptions_def good_capability_def SORA2_CREATION_DURATION_OPTIONS_def
      duration_option_def getDurationOption_def Let_def)

lemma decimal_number: "decimal s \<Longrightarrow> js_isInteger (js_Number s) \<and> js_String (js_Number s) = s"
  unfolding decimal_def using js_Number_show_nat js_String_nat js_isInteger_nat by metis

lemma offered_no_error:
  assumes "\<And>c. getCreationVideoCapabilities model = Some c \<Longrightarrow> good_capability c" "offered model r"
  shows "getCreationVideoOptionsError r model = None"
proof (cases "getCreationVideoCapabilities model")
  case (Some c)
  with assms have "duration r \<in> set (durations c)" using good_offered_durations by (auto simp: offered_def)
  moreover from this Some assms(1) have "decimal (duration r)" by (auto simp: good_capability_def list_all_iff)
  ultimately show ?thesis using Some decimal_number by (simp add: getCreationVideoOptionsError_def)
qed (simp add: getCreationVideoOptionsError_def)

definition chosen :: "jsstring \<Rightarrow> CreationVideoOptions \<Rightarrow> CreationVideoOptions" where
  "chosen s o' = projr (normalizeCreationVideoOptions o' (ModelString s))"

lemma string_total: "normalizeCreationVideoOptions o' (ModelString s) = Inr (chosen s o')"
proof -
  have "normalizeCreationVideoOptions o' (ModelString s) \<noteq> Inl e" for e
    using good_options_nonempty [of "ModelString s"] string_capability_good
    by (auto simp: normalizeCreationVideoOptions_def find_or_first_error split: sum.splits)
  then show ?thesis unfolding chosen_def by (metis sum.collapse(2) sum.exhaust_sel)
qed

interpretation string_options: normaliser "chosen s" "offered (ModelString s)" for s
proof unfold_locales
  fix x s
  show "offered (ModelString s) (chosen s x)" using normalize_offered [OF string_total] .
  show "offered (ModelString s) x \<Longrightarrow> chosen s x = x"
    using offered_fixed [of "ModelString s" x] string_total [of x s] by simp
qed

section \<open>Properties\<close>

text \<open>C35: Normalised options are offered: when \<open>normalizeCreationVideoOptions\<close> returns, the resolution
  and duration are among those the model offers, the aspect ratio is one of the capability's
  ratios (or its first), and normalising the result again returns it unchanged.\<close>

theorem normalized_options_offered:
  assumes "normalizeCreationVideoOptions o' model = Inr r"
  shows "resolution r \<in> ro_value ` set (getCreationResolutionOptions model)
    \<and> duration r \<in> do_value ` set (getCreationDurationOptions model)
    \<and> (\<forall>c a. getCreationVideoCapabilities model = Some c \<longrightarrow> aspectRatio r = Some a \<longrightarrow> a \<in> set (aspectRatios c))
    \<and> normalizeCreationVideoOptions r model = Inr r"
proof -
  have "offered model r" by (rule normalize_offered [OF assms])
  moreover from this have "a \<in> set (aspectRatios c)"
    if "getCreationVideoCapabilities model = Some c" "aspectRatio r = Some a" for c a
    using that pick_ratio_in [of c "aspectRatio r" a] by (simp add: offered_def)
  ultimately show ?thesis using offered_fixed by (auto simp: offered_def)
qed

theorem normalized_options_offered_witness:
  "\<exists>r. resolution r \<in> ro_value ` set (getCreationResolutionOptions (ModelString (js ''sora-2'')))
    \<and> normalizeCreationVideoOptions r (ModelString (js ''sora-2'')) = Inr r"
  using normalized_options_offered [OF string_total [of DEFAULT_CREATION_VIDEO_OPTIONS "js ''sora-2''"]] by blast

text \<open>For every plain model identifier the options are always normalised (nothing is thrown), the
  result passes the duration check, and it is a fixed point of the normalisation.\<close>

theorem string_model_options_valid:
  "\<exists>r. normalizeCreationVideoOptions o' (ModelString s) = Inr r
     \<and> getCreationVideoOptionsError r (ModelString s) = None
     \<and> normalizeCreationVideoOptions r (ModelString s) = Inr r"
proof -
  have "offered (ModelString s) (chosen s o')" by (rule string_options.norm_wf)
  moreover from this have "getCreationVideoOptionsError (chosen s o') (ModelString s) = None"
    using offered_no_error string_capability_good by blast
  ultimately show ?thesis using string_total offered_fixed by blast
qed

section \<open>The table of XJZ models\<close>

text \<open>A medium the specification allows has a request field and a mode in which it can be used;
  frames are a mode exactly when they are allowed; a model whose resolution cannot be selected
  says which resolution to request.\<close>

definition consistent_spec :: "XJZVideoModelSpec \<Rightarrow> bool" where
  "consistent_spec s \<longleftrightarrow>
     (positive (x_maxImages s) \<longrightarrow> imageField s \<noteq> None \<and> ModeImage \<in> set (x_referenceModes s)) \<and>
     (positive (x_maxVideos s) \<longrightarrow> videoField s \<noteq> None \<and> ModeVideo \<in> set (x_referenceModes s)
        \<and> ModeMultimodal \<in> set (x_referenceModes s)) \<and>
     (positive (x_maxAudios s) \<longrightarrow> audioField s \<noteq> None
        \<and> (ModeMultimodal \<in> set (x_referenceModes s) \<or> ModeImageAudio \<in> set (x_referenceModes s))) \<and>
     (ModeFrames \<in> set (x_referenceModes s) \<longleftrightarrow> allowFrames s) \<and>
     (selectableResolution s \<longleftrightarrow> requestResolution s = None)"

text \<open>Every entry of the XJZ table is consistent: each medium it allows has a request field and a
  mode that admits it, frame mode is offered exactly when frames are allowed, and the request
  resolution is fixed exactly when it cannot be selected; every alias names an entry.\<close>

theorem xjz_table_consistent:
  "list_all (\<lambda>(k, s). consistent_spec s) XJZ_VIDEO_MODELS
   \<and> list_all (\<lambda>(a, t). map_of XJZ_VIDEO_MODELS t \<noteq> None) XJZ_VIDEO_ALIASES"
  by (simp add: xjz_table_defs XJZ_VIDEO_ALIASES_def consistent_spec_def positive_def)

end
