(* ===== verification/Video_References.thy ===== *)
theory Video_References
  imports Video_Options
begin

text \<open>
  Reference media of a video request (\<open>features/media-generation/video-options.ts\<close>): reading
  reference values, normalising the references for a model, and keeping only the references a
  prompt mentions.
\<close>

section \<open>Reference values\<close>

definition getCreationReferenceURL :: "CreationVideoReferenceValue option \<Rightarrow> jsstring" where
  "getCreationReferenceURL value =
     (case value of None \<Rightarrow> [] | Some (RefURL s) \<Rightarrow> trim s | Some (RefObj r) \<Rightarrow> trim (url r))"

definition getCreationReferencePreviewURL :: "CreationVideoReferenceValue option \<Rightarrow> jsstring" where
  "getCreationReferencePreviewURL value =
     (case value of
        None \<Rightarrow> []
      | Some (RefURL s) \<Rightarrow> trim s
      | Some (RefObj r) \<Rightarrow>
          (case previewUrl r of
             Some p \<Rightarrow> if trim p \<noteq> [] then trim p else trim (url r)
           | None \<Rightarrow> trim (url r)))"

definition positive_or_zero :: "jsnum option \<Rightarrow> jsnum" where
  "positive_or_zero v =
     (case v of None \<Rightarrow> Fin 0 | Some n \<Rightarrow> if js_isFinite n \<and> js_less (Fin 0) n then n else Fin 0)"

definition getCreationReferenceSizeBytes :: "CreationVideoReferenceValue option \<Rightarrow> jsnum" where
  "getCreationReferenceSizeBytes value =
     (case value of Some (RefObj r) \<Rightarrow> positive_or_zero (sizeBytes r) | _ \<Rightarrow> Fin 0)"

definition getCreationReferenceDurationSeconds :: "CreationVideoReferenceValue option \<Rightarrow> jsnum" where
  "getCreationReferenceDurationSeconds value =
     (case value of Some (RefObj r) \<Rightarrow> positive_or_zero (durationSeconds r) | _ \<Rightarrow> Fin 0)"

abbreviation ref_url :: "CreationVideoReferenceValue \<Rightarrow> jsstring" where
  "ref_url v \<equiv> getCreationReferenceURL (Some v)"

definition cleanReferenceValues ::
    "CreationVideoReferenceValue list option \<Rightarrow> CreationVideoReferenceValue list" where
  "cleanReferenceValues values = filter (\<lambda>v. ref_url v \<noteq> []) (or_list values)"

definition mergeReferenceValues ::
    "CreationVideoReferenceValue list option \<Rightarrow> CreationVideoReferenceValue option
      \<Rightarrow> CreationVideoReferenceValue list" where
  "mergeReferenceValues values fallback =
     (let items = cleanReferenceValues values; fallbackURL = getCreationReferenceURL fallback
      in case fallback of
           Some f \<Rightarrow> if fallbackURL \<noteq> [] \<and> \<not> list_ex (\<lambda>v. ref_url v = fallbackURL) items
             then items @ [f] else items
         | None \<Rightarrow> items)"

definition normalizeReferenceString :: "jsstring option \<Rightarrow> jsstring" where
  "normalizeReferenceString value = (case value of None \<Rightarrow> [] | Some s \<Rightarrow> trim s)"

section \<open>Normalisation\<close>

definition emptyCreationVideoReferences :: CreationVideoReferences where
  "emptyCreationVideoReferences =
     \<lparr>referenceMode = ModeText, imageUrls = [], startImageUrl = [], endImageUrl = [],
      videoUrls = [], audioUrls = [], audioUrl = RefURL []\<rparr>"

definition EMPTY_CREATION_VIDEO_REFERENCES :: CreationVideoReferences where
  "EMPTY_CREATION_VIDEO_REFERENCES = emptyCreationVideoReferences"

definition normalizeReferenceMode ::
    "CreationVideoReferenceMode option \<Rightarrow> CreationVideoCapability \<Rightarrow> CreationModelInput
      \<Rightarrow> CreationVideoReferenceMode" where
  "normalizeReferenceMode value c model =
     (if value \<noteq> None \<and> the value \<in> set (referenceModes c) then the value
      else if isSeedance25Model model \<and> value = Some ModeMultimodal
          \<and> ModeImageAudio \<in> set (referenceModes c) then ModeImageAudio
      else case first (referenceModes c) of Some m \<Rightarrow> m | None \<Rightarrow> ModeText)"

text \<open>\<open>xs.slice(0, n)\<close>: the end is truncated to an integer, a negative end counts from the back.\<close>

definition slice_to :: "jsnum \<Rightarrow> 'a list \<Rightarrow> 'a list" where
  "slice_to n xs =
     (case n of
        NaN \<Rightarrow> [] | PInf \<Rightarrow> xs | NInf \<Rightarrow> []
      | Fin x \<Rightarrow> (let k = (if 0 \<le> x then \<lfloor>x\<rfloor> else \<lceil>x\<rceil>)
          in if 0 \<le> k then take (nat k) xs else take (length xs - nat (- k)) xs))"

definition js_or :: "jsnum \<Rightarrow> jsnum \<Rightarrow> jsnum" where
  "js_or a b = (if js_truthy_num a then a else b)"

definition head_or_empty :: "CreationVideoReferenceValue list \<Rightarrow> CreationVideoReferenceValue" where
  "head_or_empty xs = (case first xs of Some v \<Rightarrow> v | None \<Rightarrow> RefURL [])"

text \<open>\<open>getCreationReferenceURL(xs[0]) ? xs[0] : ''\<close>\<close>

definition head_with_url :: "CreationVideoReferenceValue list \<Rightarrow> CreationVideoReferenceValue" where
  "head_with_url xs =
     (case first xs of Some v \<Rightarrow> if ref_url v \<noteq> [] then v else RefURL [] | None \<Rightarrow> RefURL [])"

definition normalizeCreationVideoReferences ::
    "PartialReferences \<Rightarrow> CreationModelInput \<Rightarrow> CreationVideoReferences" where
  "normalizeCreationVideoReferences refs model =
     (case getCreationVideoCapabilities model of
        None \<Rightarrow> emptyCreationVideoReferences
      | Some c \<Rightarrow>
          (let mode = normalizeReferenceMode (p_referenceMode refs) c model;
               limits = referenceLimits c;
               supportsMultiMedia = (mode = ModeMultimodal \<and>
                 (positive (maxAudios limits)
                  \<or> (kind c = KXJZ \<or> kind c = KMapped) \<and> positive (maxVideos limits)));
               supportsImageAudio = (mode = ModeImageAudio \<and> positive (maxAudios limits));
               images = (if mode = ModeImage \<or> supportsMultiMedia \<or> supportsImageAudio
                 then cleanReferenceValues (p_imageUrls refs) else []);
               videos = (if mode = ModeVideo \<or> supportsMultiMedia
                 then cleanReferenceValues (p_videoUrls refs) else []);
               audios = (if (supportsMultiMedia \<or> supportsImageAudio) \<and> positive (maxAudios limits)
                 then mergeReferenceValues (p_audioUrls refs) (p_audioUrl refs) else [])
           in if mode = ModeFrames then
                emptyCreationVideoReferences\<lparr>referenceMode := mode,
                  startImageUrl := normalizeReferenceString (p_startImageUrl refs),
                  endImageUrl := normalizeReferenceString (p_endImageUrl refs)\<rparr>
              else if mode = ModeImage then
                emptyCreationVideoReferences\<lparr>referenceMode := mode, imageUrls := images\<rparr>
              else if kind c = KVideos then
                (let la = slice_to (maxAudios limits) audios
                 in \<lparr>referenceMode = mode, imageUrls = slice_to (maxImages limits) images,
                     startImageUrl = [], endImageUrl = [],
                     videoUrls = slice_to (maxVideos limits) videos,
                     audioUrls = la, audioUrl = head_with_url la\<rparr>)
              else if kind c = KMiniMaxH3 then
                (let la = slice_to (maxAudios limits) audios
                 in \<lparr>referenceMode = mode, imageUrls = images, startImageUrl = [], endImageUrl = [],
                     videoUrls = [], audioUrls = la, audioUrl = head_with_url la\<rparr>)
              else
                \<lparr>referenceMode = mode, imageUrls = images,
                 startImageUrl = (if mode = ModeMultimodal
                   then normalizeReferenceString (p_startImageUrl refs) else []),
                 endImageUrl = (if mode = ModeMultimodal
                   then normalizeReferenceString (p_endImageUrl refs) else []),
                 videoUrls = videos,
                 audioUrls = slice_to (js_or (maxAudios limits) (num 1)) audios,
                 audioUrl = head_or_empty audios\<rparr>))"

section \<open>Mentions in the prompt\<close>

datatype media_kind = MediaImage | MediaVideo | MediaAudio

definition isReferenceMentionBoundary :: "unit16 \<Rightarrow> bool" where
  "isReferenceMentionBoundary u \<longleftrightarrow>
     \<not> (97 \<le> u \<and> u \<le> 122 \<or> 65 \<le> u \<and> u \<le> 90 \<or> 48 \<le> u \<and> u \<le> 57 \<or> u = 95 \<or> u = 45)"

text \<open>The loop over the occurrences of one mention: \<open>s\<close> is the prompt from the next position
  on; after an occurrence that is not followed by a boundary the search goes on behind it.\<close>

function mention_loop :: "jsstring \<Rightarrow> jsstring \<Rightarrow> bool" where
  "mention_loop mention s =
     (case index_of mention s of
        None \<Rightarrow> False
      | Some i \<Rightarrow>
          (let rest = drop (i + length mention) s
           in if rest = [] \<or> isReferenceMentionBoundary (hd rest) then True
              else if mention = [] then False else mention_loop mention rest))"
  by pat_completeness auto
termination
  by (relation "measure (length \<circ> snd)") (auto simp: neq_Nil_conv)

declare mention_loop.simps [simp del]

text \<open>The lower-casing of the user's locale is a parameter.\<close>

definition hasPromptMention :: "(jsstring \<Rightarrow> jsstring) \<Rightarrow> jsstring \<Rightarrow> jsstring list \<Rightarrow> bool" where
  "hasPromptMention lower prompt aliases \<longleftrightarrow>
     (let normalizedPrompt = lower prompt
      in list_ex (\<lambda>alias. mention_loop (js ''@'' @ lower alias) normalizedPrompt) aliases)"

definition numbered :: "nat \<Rightarrow> jsstring list \<Rightarrow> jsstring list" where
  "numbered n ws = map (\<lambda>w. w @ show_nat n) ws"

definition getReferenceMentionAliases :: "media_kind \<Rightarrow> nat option \<Rightarrow> jsstring list" where
  "getReferenceMentionAliases k index =
     (case k of
        MediaAudio \<Rightarrow>
          (case index of
             None \<Rightarrow> [[21442, 32771, 38899, 39057], [38899, 39057], js ''reference audio'', js ''audio'']
           | Some n \<Rightarrow> numbered n [[21442, 32771, 38899, 39057], [38899, 39057],
               js ''reference audio '', js ''reference audio'', js ''audio'', js ''audio-''])
      | MediaVideo \<Rightarrow> numbered (case index of Some n \<Rightarrow> n | None \<Rightarrow> 1)
          [[21442, 32771, 35270, 39057], [35270, 39057], js ''reference video '',
           js ''reference video'', js ''video'', js ''video-'']
      | MediaImage \<Rightarrow> numbered (case index of Some n \<Rightarrow> n | None \<Rightarrow> 1)
          [[21442, 32771, 22270, 29255], [21442, 32771, 22270], [22270, 29255],
           js ''reference image '', js ''reference image'', js ''image'', js ''image-''])"

text \<open>\<open>xs.filter((_, index) => ...)\<close> with the position counted from one.\<close>

definition mentioned ::
    "(jsstring \<Rightarrow> jsstring) \<Rightarrow> jsstring \<Rightarrow> media_kind \<Rightarrow> 'a list \<Rightarrow> 'a list" where
  "mentioned lower prompt k xs =
     map snd (filter (\<lambda>(i, _). hasPromptMention lower prompt (getReferenceMentionAliases k (Some (i + 1))))
       (enumerate 0 xs))"

definition filterCreationVideoReferencesByPromptMentions ::
    "(jsstring \<Rightarrow> jsstring) \<Rightarrow> jsstring \<Rightarrow> CreationVideoReferences \<Rightarrow> CreationModelInput
      \<Rightarrow> CreationVideoReferences" where
  "filterCreationVideoReferencesByPromptMentions lower prompt refs model =
     (let normalized = normalizeCreationVideoReferences (to_partial refs) model;
          mi = mentioned lower prompt MediaImage (imageUrls normalized);
          mv = mentioned lower prompt MediaVideo (videoUrls normalized);
          ma = (if hasPromptMention lower prompt (getReferenceMentionAliases MediaAudio None)
                then audioUrls normalized
                else mentioned lower prompt MediaAudio (audioUrls normalized))
      in if mi = [] \<and> mv = [] \<and> ma = [] then normalized
         else normalizeCreationVideoReferences
           (to_partial (normalized\<lparr>imageUrls := mi, startImageUrl := [], endImageUrl := [],
              videoUrls := mv, audioUrls := ma, audioUrl := head_or_empty ma\<rparr>)) model)"

end
