(* ===== verification/Video_References_Props.thy ===== *)
theory Video_References_Props
  imports Video_Options_Props Video_References
begin

text \<open>
  Normalising references is idempotent for models whose limits are natural numbers, keeps only
  given references with a URL, and the mention filter keeps exactly the references the prompt
  mentions.
\<close>

section \<open>Lists of references\<close>

definition nat_limits :: "CreationVideoCapability \<Rightarrow> bool" where
  "nat_limits c \<longleftrightarrow> (\<exists>i v a. maxImages (referenceLimits c) = num i \<and> maxVideos (referenceLimits c) = num v
     \<and> maxAudios (referenceLimits c) = num a)"

lemma slice_to_num [simp]: "slice_to (num n) xs = take n xs"
  by (simp add: slice_to_def)

lemma slice_to_Nil [simp]: "slice_to n [] = []"
  by (cases n) (auto simp: slice_to_def Let_def)

lemma positive_num [simp]: "positive (num n) \<longleftrightarrow> 0 < n"
  by (simp add: positive_def)

lemma js_or_num: "js_or (num n) (num 1) = num (if n = 0 then 1 else n)"
  by (simp add: js_or_def)

lemma clean_urls: "v \<in> set (cleanReferenceValues vs) \<Longrightarrow> ref_url v \<noteq> []"
  by (auto simp: cleanReferenceValues_def)

lemma clean_id: "\<forall>v\<in>set xs. ref_url v \<noteq> [] \<Longrightarrow> cleanReferenceValues (Some xs) = xs"
  by (simp add: cleanReferenceValues_def or_list_def filter_id_conv)

lemma merge_urls: "v \<in> set (mergeReferenceValues vs f) \<Longrightarrow> ref_url v \<noteq> []"
  by (auto simp: mergeReferenceValues_def Let_def clean_urls split: option.splits if_splits)

lemma merge_id:
  assumes "\<forall>v\<in>set xs. ref_url v \<noteq> []" "xs \<noteq> [] \<longrightarrow> f = hd xs" "xs = [] \<longrightarrow> f = RefURL []"
  shows "mergeReferenceValues (Some xs) (Some f) = xs"
  using assms by (cases xs) (auto simp: mergeReferenceValues_def Let_def clean_id getCreationReferenceURL_def)

lemma head_with_url_eq:
  "\<forall>v\<in>set xs. ref_url v \<noteq> [] \<Longrightarrow> head_with_url xs = head_or_empty xs"
  by (cases xs) (auto simp: head_with_url_def head_or_empty_def first_def)

lemma head_or_empty_cases:
  "xs \<noteq> [] \<longrightarrow> head_or_empty xs = hd xs" "xs = [] \<longrightarrow> head_or_empty xs = RefURL []"
  by (cases xs; simp add: head_or_empty_def first_def)+

lemma head_take: "0 < n \<Longrightarrow> head_or_empty (take n xs) = head_or_empty xs"
  by (cases xs; cases n) (auto simp: head_or_empty_def first_def)

lemma mode_again:
  "normalizeReferenceMode (Some (normalizeReferenceMode v c model)) c model = normalizeReferenceMode v c model"
  by (cases "referenceModes c") (auto simp: normalizeReferenceMode_def first_def split: option.splits)

lemma normalize_string_again [simp]:
  "normalizeReferenceString (Some (normalizeReferenceString s)) = normalizeReferenceString s"
  by (simp add: normalizeReferenceString_def split: option.splits)

lemma normalize_string_empty [simp]: "normalizeReferenceString (Some []) = []"
  by (simp add: normalizeReferenceString_def)

section \<open>Normalising twice\<close>

definition multi :: "CreationVideoCapability \<Rightarrow> CreationVideoReferenceMode \<Rightarrow> bool" where
  "multi c mode \<longleftrightarrow> mode = ModeMultimodal \<and> (positive (maxAudios (referenceLimits c))
     \<or> (kind c = KXJZ \<or> kind c = KMapped) \<and> positive (maxVideos (referenceLimits c)))"

definition kept_images where
  "kept_images c mode vs = (if mode = ModeImage \<or> multi c mode
     \<or> mode = ModeImageAudio \<and> positive (maxAudios (referenceLimits c)) then cleanReferenceValues vs else [])"

definition kept_videos where
  "kept_videos c mode vs = (if mode = ModeVideo \<or> multi c mode then cleanReferenceValues vs else [])"

definition kept_audios where
  "kept_audios c mode vs f = (if (multi c mode \<or> mode = ModeImageAudio) \<and> positive (maxAudios (referenceLimits c))
     then mergeReferenceValues vs f else [])"

definition assemble where
  "assemble c mode images videos audios s e =
     (if mode = ModeFrames then
        emptyCreationVideoReferences\<lparr>referenceMode := mode, startImageUrl := s, endImageUrl := e\<rparr>
      else if mode = ModeImage then emptyCreationVideoReferences\<lparr>referenceMode := mode, imageUrls := images\<rparr>
      else if kind c = KVideos then
        (let la = slice_to (maxAudios (referenceLimits c)) audios
         in \<lparr>referenceMode = mode, imageUrls = slice_to (maxImages (referenceLimits c)) images,
             startImageUrl = [], endImageUrl = [],
             videoUrls = slice_to (maxVideos (referenceLimits c)) videos,
             audioUrls = la, audioUrl = head_with_url la\<rparr>)
      else if kind c = KMiniMaxH3 then
        (let la = slice_to (maxAudios (referenceLimits c)) audios
         in \<lparr>referenceMode = mode, imageUrls = images, startImageUrl = [], endImageUrl = [],
             videoUrls = [], audioUrls = la, audioUrl = head_with_url la\<rparr>)
      else \<lparr>referenceMode = mode, imageUrls = images,
             startImageUrl = (if mode = ModeMultimodal then s else []),
             endImageUrl = (if mode = ModeMultimodal then e else []),
             videoUrls = videos,
             audioUrls = slice_to (js_or (maxAudios (referenceLimits c)) (num 1)) audios,
             audioUrl = head_or_empty audios\<rparr>)"

lemma normalize_eq:
  assumes "getCreationVideoCapabilities model = Some c"
  shows "normalizeCreationVideoReferences p model =
    (let mode = normalizeReferenceMode (p_referenceMode p) c model
     in assemble c mode (kept_images c mode (p_imageUrls p)) (kept_videos c mode (p_videoUrls p))
          (kept_audios c mode (p_audioUrls p) (p_audioUrl p))
          (normalizeReferenceString (p_startImageUrl p)) (normalizeReferenceString (p_endImageUrl p)))"
  using assms by (simp add: normalizeCreationVideoReferences_def assemble_def kept_images_def
      kept_videos_def kept_audios_def multi_def Let_def)

lemma assemble_mode [simp]: "referenceMode (assemble c mode i v a s e) = mode"
  by (simp add: assemble_def Let_def)

lemma kept_urls:
  "x \<in> set (kept_images c mode vs) \<Longrightarrow> ref_url x \<noteq> []"
  "x \<in> set (kept_videos c mode vs) \<Longrightarrow> ref_url x \<noteq> []"
  "x \<in> set (kept_audios c mode vs f) \<Longrightarrow> ref_url x \<noteq> []"
  by (auto simp: kept_images_def kept_videos_def kept_audios_def clean_urls merge_urls split: if_splits)

lemma kept_take:
  "kept_images c mode (Some (take n (kept_images c mode vs))) = take n (kept_images c mode vs)"
  "kept_videos c mode (Some (take n (kept_videos c mode vs))) = take n (kept_videos c mode vs)"
  by (auto simp: kept_images_def kept_videos_def clean_urls intro!: clean_id dest!: in_set_takeD)

lemma kept_again:
  "kept_images c mode (Some (kept_images c mode vs)) = kept_images c mode vs"
  "kept_videos c mode (Some (kept_videos c mode vs)) = kept_videos c mode vs"
  by (auto simp: kept_images_def kept_videos_def clean_urls intro!: clean_id)

lemma kept_audios_take:
  assumes "0 < n" "as = kept_audios c mode vs f"
  shows "kept_audios c mode (Some (take n as)) (Some (head_or_empty as)) = take n as"
proof (cases "(multi c mode \<or> mode = ModeImageAudio) \<and> positive (maxAudios (referenceLimits c))")
  case True
  have "mergeReferenceValues (Some (take n as)) (Some (head_or_empty (take n as))) = take n as"
    using kept_urls(3) assms(2) head_or_empty_cases [of "take n as"]
    by (intro merge_id) (auto dest!: in_set_takeD)
  with True head_take [OF assms(1), of as] show ?thesis by (simp add: kept_audios_def)
next
  case False
  then have "kept_audios c mode x y = []" for x y by (auto simp: kept_audios_def)
  with assms show ?thesis by simp
qed

lemma kept_audios_zero:
  "maxAudios (referenceLimits c) = num 0 \<Longrightarrow> kept_audios c mode vs f = []"
  using positive_num [of 0] by (simp add: kept_audios_def del: positive_num)

lemma audios_again:
  assumes "nat_limits c" "as = kept_audios c mode vs f"
    and "n = (if kind c = KVideos \<or> kind c = KMiniMaxH3 then maxAudios (referenceLimits c)
      else js_or (maxAudios (referenceLimits c)) (num 1))"
  shows "slice_to n (kept_audios c mode (Some (slice_to n as)) (Some (head_or_empty as))) = slice_to n as
    \<and> head_or_empty (kept_audios c mode (Some (slice_to n as)) (Some (head_or_empty as))) = head_or_empty as
    \<and> head_with_url (slice_to n as) = head_or_empty as"
proof -
  obtain a where a: "maxAudios (referenceLimits c) = num a" using assms(1) by (auto simp: nat_limits_def)
  show ?thesis
  proof (cases "a = 0")
    case True
    then have "kept_audios c mode x y = []" for x y using kept_audios_zero a by metis
    then show ?thesis using assms(2) by (simp add: head_with_url_def head_or_empty_def first_def)
  next
    case False
    then have n: "n = num a" using a assms(3) js_or_num [of a] by auto
    have url: "\<forall>v\<in>set (take a as). ref_url v \<noteq> []" using kept_urls(3) assms(2) by (auto dest: in_set_takeD)
    show ?thesis unfolding n slice_to_num
      using False kept_audios_take [OF _ assms(2), of a] head_take [of a as] head_with_url_eq [OF url] by simp
  qed
qed

definition again where
  "again c mode X = assemble c mode (kept_images c mode (Some (imageUrls X)))
     (kept_videos c mode (Some (videoUrls X))) (kept_audios c mode (Some (audioUrls X)) (Some (audioUrl X)))
     (normalizeReferenceString (Some (startImageUrl X))) (normalizeReferenceString (Some (endImageUrl X)))"

lemma assemble_again:
  assumes "nat_limits c"
  shows "again c mode (assemble c mode (kept_images c mode is) (kept_videos c mode vs) (kept_audios c mode as f)
      (normalizeReferenceString s) (normalizeReferenceString e))
    = assemble c mode (kept_images c mode is) (kept_videos c mode vs) (kept_audios c mode as f)
      (normalizeReferenceString s) (normalizeReferenceString e)"
proof -
  obtain i v where iv: "maxImages (referenceLimits c) = num i" "maxVideos (referenceLimits c) = num v"
    using assms by (auto simp: nat_limits_def)
  note au = audios_again [OF assms refl refl, of mode as f]
  consider "mode = ModeFrames" | "mode = ModeImage" | "mode \<noteq> ModeFrames" "mode \<noteq> ModeImage" "kind c = KVideos"
    | "mode \<noteq> ModeFrames" "mode \<noteq> ModeImage" "kind c = KMiniMaxH3"
    | "mode \<noteq> ModeFrames" "mode \<noteq> ModeImage" "kind c \<noteq> KVideos" "kind c \<noteq> KMiniMaxH3" by blast
  then show ?thesis
    by cases (use au iv in \<open>simp_all add: again_def assemble_def Let_def kept_take kept_again
      emptyCreationVideoReferences_def\<close>)
qed

lemma normalize_references_idem:
  assumes "\<And>c. getCreationVideoCapabilities model = Some c \<Longrightarrow> nat_limits c"
  shows "normalizeCreationVideoReferences (to_partial (normalizeCreationVideoReferences p model)) model
    = normalizeCreationVideoReferences p model"
proof (cases "getCreationVideoCapabilities model")
  case None
  then show ?thesis by (simp add: normalizeCreationVideoReferences_def)
next
  case (Some c)
  let ?mode = "normalizeReferenceMode (p_referenceMode p) c model"
  have "normalizeCreationVideoReferences (to_partial X) model = again c ?mode X"
    if "referenceMode X = ?mode" for X
    using that by (simp add: normalize_eq [OF Some] again_def to_partial_def mode_again Let_def)
  then show ?thesis using assemble_again [OF assms [OF Some]] by (simp add: normalize_eq [OF Some] Let_def)
qed

section \<open>Mentions\<close>

text \<open>Two occurrences of a mention do not overlap: its first unit occurs nowhere else in it.\<close>

lemma mention_apart:
  assumes "startsWith (drop i s) (a # w)" "startsWith (drop j s) (a # w)" "a \<notin> set w" "i < j"
  shows "i + length (a # w) \<le> j"
proof (rule ccontr)
  assume "\<not> ?thesis"
  then have k: "j - i - 1 < length w" using assms(4) by auto
  have j: "drop j s \<noteq> []" using assms(2) by (auto simp: startsWith_def)
  then have "j < length s" by simp
  have "(a # w) ! (j - i) = s ! j"
  proof -
    have "drop i s = (a # w) @ drop (length (a # w)) (drop i s)" using startsWith_split [OF assms(1)] .
    then have "drop i s ! (j - i) = (a # w) ! (j - i)"
      using k assms(4) by (metis Suc_diff_Suc Suc_less_eq diff_Suc_1 length_Cons nth_append)
    then show ?thesis using assms(4) \<open>j < length s\<close> by simp
  qed
  moreover have "s ! j = a"
    using startsWith_split [OF assms(2)] \<open>j < length s\<close> by (metis append_Cons hd_drop_conv_nth list.sel(1))
  moreover have "(a # w) ! (j - i) \<in> set w" using k assms(4) by (cases "j - i") auto
  ultimately show False using assms(3) by simp
qed

definition occurs :: "jsstring \<Rightarrow> jsstring \<Rightarrow> bool" where
  "occurs m s \<longleftrightarrow> (\<exists>pre post. s = pre @ m @ post \<and> (post = [] \<or> isReferenceMentionBoundary (hd post)))"

lemma occurs_drop: "occurs m (drop k s) \<Longrightarrow> occurs m s"
  unfolding occurs_def by (metis append_take_drop_id append.assoc)

lemma mention_loop_sound: "mention_loop m s \<Longrightarrow> occurs m s"
proof (induction m s rule: mention_loop.induct)
  case (1 m s)
  obtain i where i: "index_of m s = Some i" using 1(2) by (subst (asm) mention_loop.simps) (auto split: option.splits)
  let ?rest = "drop (i + length m) s"
  show ?case
  proof (cases "?rest = [] \<or> isReferenceMentionBoundary (hd ?rest)")
    case True
    have "s = take i s @ m @ ?rest"
      using startsWith_split [OF index_of_Some [OF i]] by (metis append_take_drop_id drop_drop add.commute)
    with True show ?thesis unfolding occurs_def by blast
  next
    case False
    then have "mention_loop m ?rest" "m \<noteq> []"
      using 1(2) i by (subst (asm) mention_loop.simps; auto split: if_splits)+
    then show ?thesis using 1(1) [OF i refl False] occurs_drop by blast
  qed
qed

lemma mention_loop_complete:
  "occurs m s \<Longrightarrow> m = a # w \<Longrightarrow> a \<notin> set w \<Longrightarrow> mention_loop m s"
proof (induction m s rule: mention_loop.induct)
  case (1 m s)
  obtain pre post where s: "s = pre @ m @ post" "post = [] \<or> isReferenceMentionBoundary (hd post)"
    using 1(2) unfolding occurs_def by blast
  have occ: "startsWith (drop (length pre) s) m" using s by (simp add: startsWith_def)
  then obtain i where i: "i \<le> length pre" "index_of m s = Some i" using index_of_least [OF occ] s by auto
  let ?rest = "drop (i + length m) s"
  show ?case
  proof (cases "?rest = [] \<or> isReferenceMentionBoundary (hd ?rest)")
    case True
    with i show ?thesis by (subst mention_loop.simps) simp
  next
    case False
    then have "i \<noteq> length pre" using s by auto
    with i(1) have "i < length pre" by simp
    then have le: "i + length m \<le> length pre"
      using mention_apart [of i s a w "length pre"] index_of_Some [OF i(2)] occ 1(3,4) by auto
    then have "?rest = drop (i + length m) pre @ m @ post" by (simp add: s(1))
    then have "occurs m ?rest" using s(2) unfolding occurs_def by blast
    then have "mention_loop m ?rest" using 1(1) [OF i(2) refl False] 1(3,4) by auto
    with i(2) False 1(3) show ?thesis by (subst mention_loop.simps) simp
  qed
qed

section \<open>Where references come from\<close>

lemma slice_to_subset: "set (slice_to n xs) \<subseteq> set xs"
  by (auto simp: slice_to_def Let_def split: jsnum.splits if_splits dest: in_set_takeD)

lemma clean_subset: "set (cleanReferenceValues vs) \<subseteq> set (or_list vs)"
  by (auto simp: cleanReferenceValues_def)

lemma merge_subset: "x \<in> set (mergeReferenceValues vs f) \<Longrightarrow> x \<in> set (or_list vs) \<or> f = Some x"
  using clean_subset [of vs]
  by (cases f) (auto simp: mergeReferenceValues_def Let_def split: if_splits)

lemma assemble_subset:
  "set (imageUrls (assemble c mode i v a s e)) \<subseteq> set i"
  "set (videoUrls (assemble c mode i v a s e)) \<subseteq> set v"
  "set (audioUrls (assemble c mode i v a s e)) \<subseteq> set a"
  using slice_to_subset by (auto simp: assemble_def emptyCreationVideoReferences_def Let_def; fast)+

lemma kept_subset:
  "set (kept_images c mode vs) \<subseteq> set (or_list vs)"
  "set (kept_videos c mode vs) \<subseteq> set (or_list vs)"
  "x \<in> set (kept_audios c mode vs f) \<Longrightarrow> x \<in> set (or_list vs) \<or> f = Some x"
  using clean_subset [of vs] merge_subset [of x vs f]
  by (auto simp: kept_images_def kept_videos_def kept_audios_def split: if_splits)

lemma normalize_shape:
  obtains "normalizeCreationVideoReferences p model = emptyCreationVideoReferences"
  | c mode s e where "normalizeCreationVideoReferences p model =
      assemble c mode (kept_images c mode (p_imageUrls p)) (kept_videos c mode (p_videoUrls p))
        (kept_audios c mode (p_audioUrls p) (p_audioUrl p)) s e"
proof (cases "getCreationVideoCapabilities model")
  case None
  then show ?thesis using that(1) by (simp add: normalizeCreationVideoReferences_def)
next
  case (Some c)
  then show ?thesis using that(2) normalize_eq [OF Some, of p] unfolding Let_def by blast
qed

lemma normalize_subset:
  "x \<in> set (imageUrls (normalizeCreationVideoReferences p model)) \<Longrightarrow>
     ref_url x \<noteq> [] \<and> x \<in> set (or_list (p_imageUrls p))"
  "x \<in> set (videoUrls (normalizeCreationVideoReferences p model)) \<Longrightarrow>
     ref_url x \<noteq> [] \<and> x \<in> set (or_list (p_videoUrls p))"
  "x \<in> set (audioUrls (normalizeCreationVideoReferences p model)) \<Longrightarrow>
     ref_url x \<noteq> [] \<and> (x \<in> set (or_list (p_audioUrls p)) \<or> p_audioUrl p = Some x)"
proof -
  have e: "imageUrls emptyCreationVideoReferences = []" "videoUrls emptyCreationVideoReferences = []"
    "audioUrls emptyCreationVideoReferences = []" by (simp_all add: emptyCreationVideoReferences_def)
  show "x \<in> set (imageUrls (normalizeCreationVideoReferences p model)) \<Longrightarrow>
     ref_url x \<noteq> [] \<and> x \<in> set (or_list (p_imageUrls p))"
    by (rule normalize_shape [of p model]) (use e assemble_subset(1) kept_urls(1) kept_subset(1) in \<open>auto, blast+\<close>)
  show "x \<in> set (videoUrls (normalizeCreationVideoReferences p model)) \<Longrightarrow>
     ref_url x \<noteq> [] \<and> x \<in> set (or_list (p_videoUrls p))"
    by (rule normalize_shape [of p model]) (use e assemble_subset(2) kept_urls(2) kept_subset(2) in \<open>auto, blast+\<close>)
  show "x \<in> set (audioUrls (normalizeCreationVideoReferences p model)) \<Longrightarrow>
     ref_url x \<noteq> [] \<and> (x \<in> set (or_list (p_audioUrls p)) \<or> p_audioUrl p = Some x)"
    by (rule normalize_shape [of p model]) (use e assemble_subset(3) kept_urls(3) kept_subset(3) in \<open>auto, blast+\<close>)
qed

text \<open>The limits of the models a plain identifier names are natural numbers.\<close>

definition natural :: "jsnum \<Rightarrow> bool" where
  "natural n = (case n of Fin x \<Rightarrow> 0 \<le> x \<and> of_int \<lfloor>x\<rfloor> = x | _ \<Rightarrow> False)"

lemma natural_num: "natural n \<Longrightarrow> \<exists>k. n = num k"
proof -
  assume "natural n"
  then obtain x where x: "n = Fin x" "0 \<le> x" "of_int \<lfloor>x\<rfloor> = x" by (auto simp: natural_def split: jsnum.splits)
  then have "x = of_nat (nat \<lfloor>x\<rfloor>)" by (metis of_nat_nat zero_le_floor)
  with x(1) show ?thesis by blast
qed

lemma nat_limitsI:
  "natural (maxImages (referenceLimits c)) \<Longrightarrow> natural (maxVideos (referenceLimits c)) \<Longrightarrow>
   natural (maxAudios (referenceLimits c)) \<Longrightarrow> nat_limits c"
  unfolding nat_limits_def using natural_num by metis

lemmas limit_defs = VIDEO2_REFERENCE_LIMITS_def VIDEO25_REFERENCE_LIMITS_def
  VIDEOS_API_REFERENCE_LIMITS_def SEEDANCE_25_REFERENCE_LIMITS_def MINIMAX_H3_REFERENCE_LIMITS_def
  SORA2_REFERENCE_LIMITS_def CREATION_VIDEO_IMAGE_REFERENCE_MAX_COUNT_def
  CREATION_VIDEO_VIDEO_REFERENCE_MAX_COUNT_def

lemma capability_limits:
  "nat_limits SORA2_VIDEO_CAPABILITY" "nat_limits VIDEO2_720P_CAPABILITY" "nat_limits VIDEO2_480P_CAPABILITY"
  "nat_limits VIDEO25_720P_CAPABILITY" "nat_limits VIDEO25_480P_CAPABILITY" "nat_limits VIDEOS_API_CAPABILITY"
  "nat_limits VIDEOS_4_API_CAPABILITY" "nat_limits SD2_1080P_API_CAPABILITY" "nat_limits SD2_4K_API_CAPABILITY"
  "nat_limits SD2_720P_API_CAPABILITY" "nat_limits SEEDANCE_2_API_CAPABILITY"
  "nat_limits SEEDANCE_25_API_CAPABILITY" "nat_limits MINIMAX_H3_CAPABILITY"
  by (rule nat_limitsI; simp add: capability_defs limit_defs natural_def)+

lemma static_nat_limits: "list_all (\<lambda>(k, c). nat_limits c) VIDEO_CAPABILITIES"
  by (simp add: VIDEO_CAPABILITIES_def capability_limits)

lemma xjz_natural: "list_all (\<lambda>(k, s). natural (x_maxImages s) \<and> natural (x_maxVideos s) \<and> natural (x_maxAudios s))
    XJZ_VIDEO_MODELS"
  by (simp add: xjz_table_defs natural_def)

lemma string_nat_limits:
  assumes "getCreationVideoCapabilities (ModelString s) = Some c"
  shows "nat_limits c"
proof (cases "getXJZVideoModelSpec s")
  case None
  have "static_capability cs = Some c \<Longrightarrow> nat_limits c" for cs c
    using map_of_all [OF static_nat_limits] by (auto simp: static_capability_def map_filter_def dest!: first_in)
  with None assms show ?thesis using capability_limits(11)
    by (auto simp: getCreationVideoCapabilities_def getXJZVideoCapability_def getVideoModelSpec_def
        getSanbaoVideoCapability_def string_model Let_def split: option.splits if_splits)
next
  case (Some spec)
  then have "natural (x_maxImages spec) \<and> natural (x_maxVideos spec) \<and> natural (x_maxAudios spec)"
    using map_of_all [OF xjz_natural] by (auto simp: getXJZVideoModelSpec_def split: option.splits)
  with Some assms show ?thesis
    by (auto simp: getCreationVideoCapabilities_def getXJZVideoCapability_def getVideoModelSpec_def
        getSanbaoVideoCapability_def string_model Let_def intro!: nat_limitsI)
qed

section \<open>Properties\<close>

text \<open>Normalising references is idempotent for every model whose image, video and audio limits are
  natural numbers: the normalised references are a fixed point, whatever partial references
  were given.\<close>

theorem normalize_references_idempotent:
  assumes "\<forall>c. getCreationVideoCapabilities model = Some c \<longrightarrow> nat_limits c"
  shows "normalizeCreationVideoReferences (to_partial (normalizeCreationVideoReferences p model)) model
    = normalizeCreationVideoReferences p model"
  using normalize_references_idem assms by blast

definition example_references :: CreationVideoReferences where
  "example_references = emptyCreationVideoReferences\<lparr>referenceMode := ModeMultimodal,
     imageUrls := [RefURL (js '' https://a.b/c.png ''), RefURL (js '' '')],
     audioUrl := RefURL (js ''https://a.b/c.mp3'')\<rparr>"

theorem normalize_references_idempotent_witness:
  "normalizeCreationVideoReferences (to_partial (normalizeCreationVideoReferences
       (to_partial example_references) (ModelString (js ''video-2.5'')))) (ModelString (js ''video-2.5''))
   = normalizeCreationVideoReferences (to_partial example_references) (ModelString (js ''video-2.5''))"
  using normalize_references_idempotent [of "ModelString (js ''video-2.5'')"] string_nat_limits by blast

text \<open>Normalisation never invents a reference: every image, video and audio it keeps has a URL and
  was given (an audio as a list entry or as the single audio).\<close>

theorem normalize_references_from_input:
  "list_all (\<lambda>x. ref_url x \<noteq> [] \<and> x \<in> set (or_list (p_imageUrls p)))
     (imageUrls (normalizeCreationVideoReferences p model))
   \<and> list_all (\<lambda>x. ref_url x \<noteq> [] \<and> x \<in> set (or_list (p_videoUrls p)))
     (videoUrls (normalizeCreationVideoReferences p model))
   \<and> list_all (\<lambda>x. ref_url x \<noteq> [] \<and> (x \<in> set (or_list (p_audioUrls p)) \<or> p_audioUrl p = Some x))
     (audioUrls (normalizeCreationVideoReferences p model))"
  using normalize_subset by (auto simp: list_all_iff)

text \<open>C34: A prompt mentions a reference exactly when, after lower-casing, one of its aliases occurs in
  the prompt behind an @ and is followed by the end or by a unit that cannot continue the
  alias; the search that jumps over failed occurrences misses none.\<close>

theorem prompt_mention_exact:
  assumes "\<forall>alias\<in>set aliases. 64 \<notin> set (lower alias)"
  shows "hasPromptMention lower prompt aliases \<longleftrightarrow>
    (\<exists>alias\<in>set aliases. occurs (64 # lower alias) (lower prompt))"
proof -
  have "mention_loop (64 # lower a) (lower prompt) \<longleftrightarrow> occurs (64 # lower a) (lower prompt)"
    if "a \<in> set aliases" for a
    using that assms mention_loop_sound mention_loop_complete by blast
  then show ?thesis by (auto simp: hasPromptMention_def list_ex_iff)
qed

lemma at_not_digit: "64 \<notin> set (show_nat n)"
  using show_nat_digits [of n] by (auto simp: is_digit_def)

lemma aliases_no_at: "\<forall>a\<in>set (getReferenceMentionAliases k i). 64 \<notin> set (toLowerCase a)"
  by (cases k) (auto simp: getReferenceMentionAliases_def numbered_def toLowerCase_def lower_unit_def
      at_not_digit split: option.splits)

theorem prompt_mention_exact_witness:
  "hasPromptMention toLowerCase (js ''Use @Image1, please'') (getReferenceMentionAliases MediaImage (Some 1)) \<longleftrightarrow>
    (\<exists>alias\<in>set (getReferenceMentionAliases MediaImage (Some 1)).
      occurs (64 # toLowerCase alias) (toLowerCase (js ''Use @Image1, please'')))"
  by (rule prompt_mention_exact [OF aliases_no_at])

lemma mentioned_subset: "set (mentioned lower prompt k xs) \<subseteq> set xs"
  by (auto simp: mentioned_def enumerate_eq_zip dest: set_zip_rightD)

lemma filter_shape:
  fixes model refs
  obtains "filterCreationVideoReferencesByPromptMentions lower prompt refs model
      = normalizeCreationVideoReferences (to_partial refs) model"
  | mi mv ma where "filterCreationVideoReferencesByPromptMentions lower prompt refs model =
      normalizeCreationVideoReferences (to_partial ((normalizeCreationVideoReferences (to_partial refs) model)
        \<lparr>imageUrls := mi, startImageUrl := [], endImageUrl := [], videoUrls := mv, audioUrls := ma,
         audioUrl := head_or_empty ma\<rparr>)) model"
    "set mi \<subseteq> set (imageUrls (normalizeCreationVideoReferences (to_partial refs) model))"
    "set mv \<subseteq> set (videoUrls (normalizeCreationVideoReferences (to_partial refs) model))"
    "set ma \<subseteq> set (audioUrls (normalizeCreationVideoReferences (to_partial refs) model))"
proof -
  let ?N = "normalizeCreationVideoReferences (to_partial refs) model"
  let ?i = "mentioned lower prompt MediaImage (imageUrls ?N)" and ?v = "mentioned lower prompt MediaVideo (videoUrls ?N)"
    and ?a = "if hasPromptMention lower prompt (getReferenceMentionAliases MediaAudio None) then audioUrls ?N
      else mentioned lower prompt MediaAudio (audioUrls ?N)"
  let ?F = "filterCreationVideoReferencesByPromptMentions lower prompt refs model"
  let ?G = "normalizeCreationVideoReferences (to_partial (?N\<lparr>imageUrls := ?i, startImageUrl := [],
    endImageUrl := [], videoUrls := ?v, audioUrls := ?a, audioUrl := head_or_empty ?a\<rparr>)) model"
  have a: "set ?a \<subseteq> set (audioUrls ?N)" by (simp add: mentioned_subset)
  have "?F = (if ?i = [] \<and> ?v = [] \<and> ?a = [] then ?N else ?G)"
    by (simp only: filterCreationVideoReferencesByPromptMentions_def Let_def)
  then have "?F = ?N \<or> ?F = ?G" by metis
  then show thesis
  proof
    assume "?F = ?G"
    then show thesis by (rule that(2) [OF _ mentioned_subset mentioned_subset a])
  qed (rule that(1))
qed

text \<open>Filtering references by mentions only removes references: what it keeps is among the
  normalised references of the same kind.\<close>

theorem mention_filter_subset:
  "set (imageUrls (filterCreationVideoReferencesByPromptMentions lower prompt refs model))
     \<subseteq> set (imageUrls (normalizeCreationVideoReferences (to_partial refs) model))
   \<and> set (videoUrls (filterCreationVideoReferencesByPromptMentions lower prompt refs model))
     \<subseteq> set (videoUrls (normalizeCreationVideoReferences (to_partial refs) model))
   \<and> set (audioUrls (filterCreationVideoReferencesByPromptMentions lower prompt refs model))
     \<subseteq> set (audioUrls (normalizeCreationVideoReferences (to_partial refs) model))"
proof (rule filter_shape [of lower prompt refs model])
  fix mi mv ma
  let ?N = "normalizeCreationVideoReferences (to_partial refs) model"
  let ?p = "to_partial (?N\<lparr>imageUrls := mi, startImageUrl := [], endImageUrl := [], videoUrls := mv,
    audioUrls := ma, audioUrl := head_or_empty ma\<rparr>)"
  assume F: "filterCreationVideoReferencesByPromptMentions lower prompt refs model = normalizeCreationVideoReferences ?p model"
    and sub: "set mi \<subseteq> set (imageUrls ?N)" "set mv \<subseteq> set (videoUrls ?N)" "set ma \<subseteq> set (audioUrls ?N)"
  have f: "or_list (p_imageUrls ?p) = mi" "or_list (p_videoUrls ?p) = mv" "or_list (p_audioUrls ?p) = ma"
    "p_audioUrl ?p = Some (head_or_empty ma)" by (simp_all add: to_partial_def or_list_def)
  have "ref_url (head_or_empty ma) \<noteq> [] \<Longrightarrow> head_or_empty ma \<in> set ma"
    by (cases ma) (auto simp: head_or_empty_def first_def getCreationReferenceURL_def)
  then show ?thesis unfolding F using sub normalize_subset(1) [of _ ?p model, unfolded f]
      normalize_subset(2) [of _ ?p model, unfolded f] normalize_subset(3) [of _ ?p model, unfolded f]
    by blast
qed simp

end
