(* ===== verification/Video_Request.thy ===== *)
theory Video_Request
  imports Video_References
begin

text \<open>
  Checking the references of a video request and building the request body
  (\<open>features/media-generation/video-options.ts\<close>).  \<open>new URL(s)\<close> is code of the platform: the
  parameter \<open>parseURL\<close> gives the protocol and the path of a text that is a URL and \<open>None\<close> where
  the constructor throws.
\<close>

section \<open>URLs and formats\<close>

record parsed_url =
  protocol :: jsstring
  pathname :: jsstring

type_synonym url_parser = "jsstring \<Rightarrow> parsed_url option"

definition isHTTPURL :: "url_parser \<Rightarrow> jsstring \<Rightarrow> bool" where
  "isHTTPURL parseURL value =
     (case parseURL value of
        Some u \<Rightarrow> protocol u = js ''http:'' \<or> protocol u = js ''https:''
      | None \<Rightarrow> False)"

definition data_url_re :: re where
  "data_url_re = RSeq RBegin (rseqs
     [any_case 100, any_case 97, any_case 116, any_case 97, rlit '':'',
      RGroup 1 (rplus (RSet (\<lambda>u. u \<noteq> 59 \<and> u \<noteq> 44))),
      ropt (RSeq (rlit '';'') (RStar (RSet (\<lambda>u. u \<noteq> 44)))), rlit '',''])"

definition getDataURLMime :: "jsstring \<Rightarrow> jsstring option" where
  "getDataURLMime value = map_option (\<lambda>m. toLowerCase (group m 1)) (re_match data_url_re value)"

definition isReferenceImage :: "url_parser \<Rightarrow> jsstring \<Rightarrow> bool" where
  "isReferenceImage parseURL value \<longleftrightarrow> isHTTPURL parseURL value
     \<or> (case getDataURLMime value of Some t \<Rightarrow> startsWith t (js ''image/'') | None \<Rightarrow> False)"

definition isReferenceVideo :: "url_parser \<Rightarrow> jsstring \<Rightarrow> bool" where
  "isReferenceVideo parseURL value = isHTTPURL parseURL value"

definition isReferenceAudio :: "url_parser \<Rightarrow> jsstring \<Rightarrow> bool" where
  "isReferenceAudio parseURL value = isHTTPURL parseURL value"

definition getURLFileExtension :: "url_parser \<Rightarrow> jsstring \<Rightarrow> jsstring" where
  "getURLFileExtension parseURL value =
     (case parseURL value of
        None \<Rightarrow> []
      | Some u \<Rightarrow>
          (let filename = last (split_unit 47 (pathname u))
           in toLowerCase (if 46 \<in> set filename then last (split_unit 46 filename) else [])))"

definition hasAllowedURLFileExtension :: "url_parser \<Rightarrow> jsstring \<Rightarrow> jsstring list \<Rightarrow> bool" where
  "hasAllowedURLFileExtension parseURL value extensions =
     (let e = getURLFileExtension parseURL value in e \<noteq> [] \<and> e \<in> set extensions)"

definition hasAllowedReferenceFormat ::
    "url_parser \<Rightarrow> jsstring \<Rightarrow> jsstring list \<Rightarrow> jsstring list \<Rightarrow> bool" where
  "hasAllowedReferenceFormat parseURL value extensions mimeTypes =
     (case getDataURLMime value of
        Some mime \<Rightarrow> if mime \<noteq> [] then mime \<in> set mimeTypes
          else hasAllowedURLFileExtension parseURL value extensions
      | None \<Rightarrow> hasAllowedURLFileExtension parseURL value extensions)"

definition VIDEO_REFERENCE_IMAGE_EXTENSIONS :: "jsstring list" where
  "VIDEO_REFERENCE_IMAGE_EXTENSIONS = map js [''avif'', ''gif'', ''jpeg'', ''jpg'', ''png'', ''webp'']"
definition VIDEO_REFERENCE_VIDEO_EXTENSIONS :: "jsstring list" where
  "VIDEO_REFERENCE_VIDEO_EXTENSIONS = map js [''mp4'']"
definition VIDEO_REFERENCE_AUDIO_EXTENSIONS :: "jsstring list" where
  "VIDEO_REFERENCE_AUDIO_EXTENSIONS = map js [''mp3'', ''wav'']"
definition MINIMAX_H3_REFERENCE_AUDIO_EXTENSIONS :: "jsstring list" where
  "MINIMAX_H3_REFERENCE_AUDIO_EXTENSIONS = map js [''mp3'', ''wav'', ''m4a'', ''aac'', ''ogg'', ''webm'']"
definition VIDEO_REFERENCE_IMAGE_MIME_TYPES :: "jsstring list" where
  "VIDEO_REFERENCE_IMAGE_MIME_TYPES =
     map js [''image/avif'', ''image/gif'', ''image/jpeg'', ''image/png'', ''image/webp'']"
definition SEEDANCE_25_REFERENCE_IMAGE_EXTENSIONS :: "jsstring list" where
  "SEEDANCE_25_REFERENCE_IMAGE_EXTENSIONS = map js [''jpeg'', ''jpg'', ''png'', ''webp'']"
definition SEEDANCE_25_REFERENCE_IMAGE_MIME_TYPES :: "jsstring list" where
  "SEEDANCE_25_REFERENCE_IMAGE_MIME_TYPES = map js [''image/jpeg'', ''image/png'', ''image/webp'']"
definition VIDEO_REFERENCE_VIDEO_MIME_TYPES :: "jsstring list" where
  "VIDEO_REFERENCE_VIDEO_MIME_TYPES = map js [''video/mp4'']"
definition VIDEO_REFERENCE_AUDIO_MIME_TYPES :: "jsstring list" where
  "VIDEO_REFERENCE_AUDIO_MIME_TYPES =
     map js [''audio/mpeg'', ''audio/mp3'', ''audio/wav'', ''audio/wave'', ''audio/x-wav'']"
definition MINIMAX_H3_REFERENCE_AUDIO_MIME_TYPES :: "jsstring list" where
  "MINIMAX_H3_REFERENCE_AUDIO_MIME_TYPES = VIDEO_REFERENCE_AUDIO_MIME_TYPES @
     map js [''audio/mp4'', ''audio/x-m4a'', ''audio/aac'', ''audio/x-aac'', ''audio/ogg'',
       ''application/ogg'', ''audio/webm'']"

section \<open>Reference errors\<close>

text \<open>The checks of \<open>getCreationVideoReferenceError\<close> in the order of the source, in groups: each
  group is a function from the normalised references to the first message, and the next group
  is asked only when it has none.\<close>

definition or_else :: "'a option \<Rightarrow> 'a option \<Rightarrow> 'a option" where
  "or_else a b = (case a of None \<Rightarrow> b | Some _ \<Rightarrow> a)"

definition check :: "bool \<Rightarrow> string \<Rightarrow> jsstring option" where
  "check bad msg = (if bad then Some (js msg) else None)"

definition image_count :: "CreationVideoReferences \<Rightarrow> nat" where
  "image_count n = length (imageUrls n) + (if startImageUrl n \<noteq> [] then 1 else 0)
     + (if endImageUrl n \<noteq> [] then 1 else 0)"

definition xjz_kind :: "CreationVideoCapability \<Rightarrow> bool" where
  "xjz_kind c \<longleftrightarrow> kind c = KXJZ \<or> kind c = KMapped"

definition exceeds :: "nat \<Rightarrow> jsnum \<Rightarrow> bool" where
  "exceeds k limit \<longleftrightarrow> js_less limit (num k)"

definition spec_error ::
    "XJZVideoModelSpec option \<Rightarrow> CreationVideoReferences \<Rightarrow> jsstring option" where
  "spec_error sp n =
     (case sp of
        None \<Rightarrow> None
      | Some s \<Rightarrow>
          or_else (check (truthy_opt (x_minImages s) \<and> js_less (num (image_count n)) (the (x_minImages s)))
            ''Image reference mode requires at least one image reference.'')
          (or_else (check (audioNeedsVisualReference s \<and> audioUrls n \<noteq> []
              \<and> image_count n + length (videoUrls n) = 0)
            ''Audio reference requires at least one image reference.'')
          (check (audioRequiresImage s \<and> audioUrls n \<noteq> [] \<and> image_count n = 0)
            ''Audio reference requires at least one image reference.'')))"

definition minimax_error ::
    "CreationVideoCapability \<Rightarrow> CreationVideoReferences \<Rightarrow> jsstring option" where
  "minimax_error c n =
     (if kind c \<noteq> KMiniMaxH3 then None
      else
        or_else (check (referenceMode n = ModeImage \<and> imageUrls n = [])
          ''Image reference mode requires at least one image reference.'')
        (or_else (check (referenceMode n = ModeFrames \<and> (startImageUrl n = [] \<or> endImageUrl n = []))
          ''Start/end frame mode requires both a start frame and an end frame.'')
        (or_else (check (referenceMode n = ModeImageAudio \<and> audioUrls n \<noteq> [] \<and> imageUrls n = [])
          ''Audio reference requires at least one image reference.'')
        (check (referenceMode n = ModeImageAudio \<and> (imageUrls n = [] \<or> audioUrls n = []))
          ''Image and audio mode requires at least one image and one audio reference.''))))"

definition image_limit_msg :: "CreationModelInput \<Rightarrow> CreationVideoCapability \<Rightarrow> string" where
  "image_limit_msg model c =
     (if xjz_kind c then ''Videos API accepts too many reference assets.''
      else if kind c = KSanbao then ''Sanbao accepts too many reference images.''
      else if kind c = KVideos then
        (if isSeedance25Model model then ''Seedance 2.5 accepts at most 30 image references.''
         else if isSeedance2Model model then ''Seedance accepts at most 9 image references.''
         else ''Videos API accepts at most 9 image references.'')
      else if kind c = KMiniMaxH3 then ''MiniMax H3 accepts at most 5 image references.''
      else if isVideo25Model model then ''Video 2.5 accepts at most 30 image references.''
      else ''Video2 accepts at most 4 image references.'')"

definition video_limit_msg :: "CreationModelInput \<Rightarrow> CreationVideoCapability \<Rightarrow> string" where
  "video_limit_msg model c =
     (if xjz_kind c then ''Videos API accepts too many reference assets.''
      else if kind c = KSanbao then ''Sanbao accepts too many reference videos.''
      else if kind c = KVideos then
        (if isSeedance25Model model then ''Seedance 2.5 accepts at most 10 reference videos.''
         else if isSeedance2Model model then ''Seedance accepts at most 3 reference videos.''
         else ''Videos API accepts at most 3 reference videos.'')
      else if isVideo25Model model then ''Video 2.5 accepts at most 10 reference videos.''
      else ''Video2 accepts at most 3 video references.'')"

definition audio_limit_msg :: "CreationModelInput \<Rightarrow> CreationVideoCapability \<Rightarrow> string" where
  "audio_limit_msg model c =
     (if xjz_kind c then ''Videos API accepts too many reference assets.''
      else if kind c = KVideos then
        (if isSeedance25Model model then ''Seedance 2.5 accepts at most 10 reference audios.''
         else if isSeedance2Model model then ''Seedance accepts at most 3 reference audios.''
         else ''Videos API accepts at most 3 reference audios.'')
      else if kind c = KSanbao then ''Sanbao accepts too many reference audios.''
      else if isVideo25Model model then ''Video 2.5 accepts at most 10 reference audios.''
      else ''Video2 accepts at most 1 audio reference.'')"

definition media_limit_msg :: "CreationModelInput \<Rightarrow> CreationVideoCapability \<Rightarrow> string" where
  "media_limit_msg model c =
     (if kind c = KVideos then
        (if isSeedance25Model model then ''Seedance 2.5 accepts too many reference assets.''
         else if isSeedance2Model model then ''Seedance accepts too many reference assets.''
         else ''Videos API accepts too many reference assets.'')
      else if isVideo25Model model then ''Video 2.5 accepts too many reference assets.''
      else ''Sanbao accepts too many reference assets.'')"

definition limit_error ::
    "CreationModelInput \<Rightarrow> CreationVideoCapability \<Rightarrow> CreationVideoReferences \<Rightarrow> jsstring option" where
  "limit_error model c n =
     (let limits = referenceLimits c;
          mediaCount = image_count n + length (videoUrls n) + length (audioUrls n)
      in or_else (check (kind c = KSora2 \<and> image_count n > 1) ''Sora2 accepts at most 1 reference image.'')
        (or_else (check (exceeds (image_count n) (maxImages limits)) (image_limit_msg model c))
        (or_else (check (exceeds (length (videoUrls n)) (maxVideos limits)) (video_limit_msg model c))
        (or_else (check (exceeds (length (audioUrls n)) (maxAudios limits)) (audio_limit_msg model c))
        (check (truthy_opt (maxMediaFiles limits) \<and> exceeds mediaCount (the (maxMediaFiles limits)))
          (media_limit_msg model c))))))"

definition bad_duration :: "jsnum option \<Rightarrow> jsnum option \<Rightarrow> CreationVideoReferenceValue \<Rightarrow> bool" where
  "bad_duration mn mx v =
     (let d = getCreationReferenceDurationSeconds (Some v);
          lo = (case mn of None \<Rightarrow> Fin 0 | Some x \<Rightarrow> x); hi = (case mx of None \<Rightarrow> PInf | Some x \<Rightarrow> x)
      in js_less (Fin 0) d \<and> (js_less d lo \<or> js_less hi d))"

definition total_duration :: "CreationVideoReferenceValue list \<Rightarrow> jsnum" where
  "total_duration vs = foldl (\<lambda>t v. js_add t (getCreationReferenceDurationSeconds (Some v))) (Fin 0) vs"

definition over_total :: "jsnum option \<Rightarrow> CreationVideoReferenceValue list \<Rightarrow> bool" where
  "over_total mx vs \<longleftrightarrow> truthy_opt mx \<and> js_less (the mx) (total_duration vs)"

definition duration_error ::
    "CreationModelInput \<Rightarrow> CreationVideoCapability \<Rightarrow> CreationVideoReferences \<Rightarrow> jsstring option" where
  "duration_error model c n =
     (let limits = referenceLimits c; v25 = isVideo25Model model;
          timed = (isSeedance25Model model \<or> v25)
      in or_else (check (timed \<and> list_ex (bad_duration (minReferenceVideoDurationSeconds limits)
              (maxReferenceVideoDurationSeconds limits)) (videoUrls n))
            (if v25 then ''Video 2.5 reference videos must be between 3 and 10 seconds each.''
             else ''Seedance 2.5 reference videos must be between 2 and 30 seconds each.''))
        (or_else (check (timed \<and> list_ex (bad_duration (minReferenceAudioDurationSeconds limits)
              (maxReferenceAudioDurationSeconds limits)) (audioUrls n))
            (if v25 then ''Video 2.5 reference audios must be between 3 and 30 seconds each.''
             else ''Seedance 2.5 reference audios must be between 2 and 30 seconds each.''))
        (or_else (check (over_total (maxReferenceVideoTotalDurationSeconds limits) (videoUrls n))
            (if v25 then ''Video 2.5 reference videos must not exceed 30 seconds in total.''
             else ''Seedance 2.5 reference videos must not exceed 30 seconds in total.''))
        (check (over_total (maxReferenceAudioTotalDurationSeconds limits) (audioUrls n))
            (if v25 then ''Video 2.5 reference audios must not exceed 30 seconds in total.''
             else ''Seedance 2.5 reference audios must not exceed 30 seconds in total.'')))))"

definition image_texts :: "CreationVideoReferences \<Rightarrow> jsstring list" where
  "image_texts n = filter (\<lambda>s. s \<noteq> []) (map ref_url (imageUrls n) @ [startImageUrl n, endImageUrl n])"

definition texts :: "CreationVideoReferenceValue list \<Rightarrow> jsstring list" where
  "texts vs = filter (\<lambda>s. s \<noteq> []) (map ref_url vs)"

definition format_error ::
    "url_parser \<Rightarrow> CreationModelInput \<Rightarrow> CreationVideoCapability \<Rightarrow> CreationVideoReferences
      \<Rightarrow> jsstring option" where
  "format_error parseURL model c n =
     (let images = image_texts n; videos = texts (videoUrls n); audios = texts (audioUrls n);
          h3 = (kind c = KMiniMaxH3)
      in or_else (check (list_ex (\<lambda>u. \<not> isReferenceImage parseURL u) images)
            ''Reference images must be images or HTTP URLs.'')
        (or_else (check (isSeedance2Model model \<and> list_ex (\<lambda>u. \<not> isHTTPURL parseURL u) images)
            ''Reference URL must use HTTP or HTTPS.'')
        (or_else (check (isSeedance25Model model \<and> list_ex (\<lambda>u. \<not> hasAllowedReferenceFormat parseURL u
              SEEDANCE_25_REFERENCE_IMAGE_EXTENSIONS SEEDANCE_25_REFERENCE_IMAGE_MIME_TYPES) images)
            ''Seedance 2.5 reference image format must be JPG, PNG, or WebP.'')
        (or_else (check ((kind c = KVideo2 \<or> kind c = KSanbao) \<and> list_ex (\<lambda>u.
              \<not> hasAllowedReferenceFormat parseURL u VIDEO_REFERENCE_IMAGE_EXTENSIONS
                VIDEO_REFERENCE_IMAGE_MIME_TYPES) images)
            ''Reference image format must be PNG, JPEG, WebP, GIF, or AVIF.'')
        (or_else (check (list_ex (\<lambda>u. \<not> isReferenceVideo parseURL u) videos
              \<or> list_ex (\<lambda>u. \<not> isReferenceAudio parseURL u) audios)
            ''Reference URL must use HTTP or HTTPS.'')
        (or_else (check (list_ex (\<lambda>u. \<not> hasAllowedReferenceFormat parseURL u
              VIDEO_REFERENCE_VIDEO_EXTENSIONS VIDEO_REFERENCE_VIDEO_MIME_TYPES) videos)
            ''Reference video format must be MP4.'')
        (check (list_ex (\<lambda>u. \<not> hasAllowedReferenceFormat parseURL u
              (if h3 then MINIMAX_H3_REFERENCE_AUDIO_EXTENSIONS else VIDEO_REFERENCE_AUDIO_EXTENSIONS)
              (if h3 then MINIMAX_H3_REFERENCE_AUDIO_MIME_TYPES else VIDEO_REFERENCE_AUDIO_MIME_TYPES)) audios)
            (if h3 then ''Reference audio format must be MP3, WAV, M4A, AAC, OGG, or WebM.''
             else ''Reference audio format must be MP3 or WAV.''))))))))"

definition getCreationVideoReferenceError ::
    "url_parser \<Rightarrow> CreationModelInput \<Rightarrow> CreationVideoReferences \<Rightarrow> jsstring option" where
  "getCreationVideoReferenceError parseURL model refs =
     (case getCreationVideoCapabilities model of
        None \<Rightarrow> None
      | Some c \<Rightarrow>
          (let n = normalizeCreationVideoReferences (to_partial refs) model;
               spec = (if xjz_kind c then getVideoModelSpec model else None)
           in or_else (spec_error spec n) (or_else (minimax_error c n) (or_else (limit_error model c n)
                (or_else (duration_error model c n) (format_error parseURL model c n))))))"

section \<open>The request body\<close>

record LegacyCreationVideoRequestOptions =
  l_seconds :: jsstring
  l_size :: jsstring
  l_aspect_ratio :: "jsstring option"
  l_input_reference :: "jsstring option"
  l_estimateSeconds :: jsnum

record Video2CreationVideoRequestOptions =
  v_duration :: jsnum
  v_aspect_ratio :: "jsstring option"
  v_resolution :: jsstring
  v_async :: bool
  v_estimateSeconds :: jsnum
  v_image_url :: "jsstring option"
  v_image_urls :: "jsstring list option"
  v_video_url :: "jsstring option"
  v_video_reference :: "jsstring list option"
  v_start_image_url :: "jsstring option"
  v_end_image_url :: "jsstring option"
  v_audio_url :: "jsstring option"
  v_audio_reference :: "jsstring list option"

record MiniMaxH3CreationVideoRequestOptions =
  h_duration :: jsnum
  h_aspect_ratio :: "jsstring option"
  h_estimateSeconds :: jsnum
  h_image_url :: "jsstring option"
  h_image_urls :: "jsstring list option"
  h_start_image_url :: "jsstring option"
  h_end_image_url :: "jsstring option"
  h_audio_url :: "jsstring option"

record SanbaoCreationVideoRequestOptions =
  s_duration :: jsnum
  s_ratio :: "jsstring option"
  s_resolution :: jsstring
  s_concurrency :: jsnum
  s_reference_all :: bool
  s_estimateSeconds :: jsnum
  s_images :: "jsstring list option"
  s_videos :: "jsstring list option"
  s_audios :: "jsstring list option"

record VideosApiCreationVideoRequestOptions =
  a_duration :: jsnum
  a_ratio :: "jsstring option"
  a_resolution :: "jsstring option"
  a_estimateSeconds :: jsnum
  referenceImages :: "jsstring list option"
  referenceVideos :: "jsstring list option"
  referenceAudios :: "jsstring list option"
  a_start_image_url :: "jsstring option"
  a_end_image_url :: "jsstring option"

text \<open>An XJZ request has computed keys: a map from keys to values.\<close>

datatype request_value = NumVal jsnum | StrVal jsstring | StrsVal "jsstring list" | UndefVal

type_synonym XJZCreationVideoRequestOptions = "jsstring \<Rightarrow> request_value option"

datatype CreationVideoRequestOptions =
    LegacyRequest LegacyCreationVideoRequestOptions
  | Video2Request Video2CreationVideoRequestOptions
  | MiniMaxRequest MiniMaxH3CreationVideoRequestOptions
  | SanbaoRequest SanbaoCreationVideoRequestOptions
  | VideosRequest VideosApiCreationVideoRequestOptions
  | XJZRequest XJZCreationVideoRequestOptions

definition nonempty :: "'a list \<Rightarrow> 'a list option" where
  "nonempty xs = (if xs = [] then None else Some xs)"

definition SORA2_VIDEO_SIZES :: "jsstring \<Rightarrow> jsstring" where
  "SORA2_VIDEO_SIZES r = js (if r = js ''16:9'' then ''1280x720'' else ''720x1280'')"

definition legacy_request :: "DurationOption \<Rightarrow> ResolutionOption \<Rightarrow> CreationVideoRequestOptions" where
  "legacy_request d r = LegacyRequest
     \<lparr>l_seconds = do_seconds d, l_size = ro_size r, l_aspect_ratio = None, l_input_reference = None,
      l_estimateSeconds = js_ceil (js_mul (do_estimateSeconds d) (estimateMultiplier r))\<rparr>"

definition sora2_request ::
    "DurationOption \<Rightarrow> CreationVideoOptions \<Rightarrow> CreationVideoReferences \<Rightarrow> CreationVideoRequestOptions" where
  "sora2_request d o' n =
     (let ratio = (if aspectRatio o' = Some (js ''16:9'') then js ''16:9'' else js ''9:16'')
      in LegacyRequest \<lparr>l_seconds = do_seconds d, l_size = SORA2_VIDEO_SIZES ratio,
           l_aspect_ratio = Some ratio,
           l_input_reference = nonempty (getCreationReferenceURL (first (imageUrls n))),
           l_estimateSeconds = do_estimateSeconds d\<rparr>)"

definition or_ratio :: "CreationVideoOptions \<Rightarrow> CreationVideoCapability \<Rightarrow> jsstring option" where
  "or_ratio o' c = (case aspectRatio o' of Some r \<Rightarrow> Some r | None \<Rightarrow> first (aspectRatios c))"

definition sanbao_request ::
    "CreationVideoCapability \<Rightarrow> DurationOption \<Rightarrow> CreationVideoOptions \<Rightarrow> CreationVideoReferences
      \<Rightarrow> CreationVideoRequestOptions" where
  "sanbao_request c d o' n =
     (let images = texts (imageUrls n); videos = texts (videoUrls n);
          audio = first (texts (audioUrls n))
      in SanbaoRequest \<lparr>s_duration = js_Number (duration o'), s_ratio = or_ratio o' c,
           s_resolution = resolution o',
           s_concurrency = (case Option.bind (concurrencyOptions c) first of Some k \<Rightarrow> k | None \<Rightarrow> num 1),
           s_reference_all = (images \<noteq> [] \<or> videos \<noteq> [] \<or> audio \<noteq> None),
           s_estimateSeconds = do_estimateSeconds d,
           s_images = nonempty images, s_videos = nonempty videos,
           s_audios = map_option (\<lambda>a. [a]) audio\<rparr>)"

text \<open>\<open>request[field] = ...\<close> when the field exists and there are values; a field named like a
  single URL takes the first value.\<close>

definition put_media ::
    "jsstring option \<Rightarrow> string \<Rightarrow> jsstring list \<Rightarrow> XJZCreationVideoRequestOptions
      \<Rightarrow> XJZCreationVideoRequestOptions" where
  "put_media field single urls r =
     (case field of
        None \<Rightarrow> r
      | Some f \<Rightarrow>
          if f = [] \<or> urls = [] then r
          else r(f \<mapsto> (if f = js single then StrVal (hd urls) else StrsVal urls)))"

definition put_images ::
    "XJZVideoModelSpec \<Rightarrow> jsstring list \<Rightarrow> XJZCreationVideoRequestOptions \<Rightarrow> XJZCreationVideoRequestOptions" where
  "put_images spec urls r =
     (if imageField spec = Some (js ''image_urls'') \<and> allowFrames spec \<and> urls \<noteq> [] then
        (if length urls = 1 then r(js ''image_url'' \<mapsto> StrVal (hd urls))
         else r(js ''image_urls'' \<mapsto> StrsVal urls))
      else put_media (imageField spec) ''image_url'' urls r)"

definition put_audios ::
    "XJZVideoModelSpec \<Rightarrow> jsstring list \<Rightarrow> XJZCreationVideoRequestOptions \<Rightarrow> XJZCreationVideoRequestOptions" where
  "put_audios spec urls r =
     (if audioField spec = Some (js ''audio_reference'') \<and> allowFrames spec \<and> length urls = 1
      then r(js ''audio_url'' \<mapsto> StrVal (hd urls))
      else put_media (audioField spec) ''audio_url'' urls r)"

definition put_text ::
    "string \<Rightarrow> jsstring \<Rightarrow> XJZCreationVideoRequestOptions \<Rightarrow> XJZCreationVideoRequestOptions" where
  "put_text key s r = (if s = [] then r else r(js key \<mapsto> StrVal s))"

definition opt_value :: "jsstring option \<Rightarrow> request_value" where
  "opt_value v = (case v of Some s \<Rightarrow> StrVal s | None \<Rightarrow> UndefVal)"

definition or_string :: "jsstring option \<Rightarrow> jsstring \<Rightarrow> jsstring" where
  "or_string v d = (case v of Some s \<Rightarrow> s | None \<Rightarrow> d)"

definition xjz_request ::
    "XJZVideoModelSpec \<Rightarrow> CreationVideoCapability \<Rightarrow> DurationOption \<Rightarrow> CreationVideoOptions
      \<Rightarrow> CreationVideoReferences \<Rightarrow> CreationVideoRequestOptions" where
  "xjz_request spec c d o' n =
     (let r0 = Map.empty
            (js ''duration'' \<mapsto> NumVal (js_Number (duration o')),
             or_string (ratioField spec) (js ''ratio'') \<mapsto> opt_value (or_ratio o' c),
             or_string (resolutionField spec) (js ''resolution'') \<mapsto>
               StrVal (if selectableResolution spec then resolution o'
                       else or_string (requestResolution spec) (resolution o')),
             js ''estimateSeconds'' \<mapsto> NumVal (do_estimateSeconds d));
          r1 = put_images spec (texts (imageUrls n)) r0;
          r2 = put_media (videoField spec) ''video_url'' (texts (videoUrls n)) r1;
          r3 = put_audios spec (texts (audioUrls n)) r2
      in XJZRequest (if referenceMode n = ModeFrames
           then put_text ''end_image_url'' (endImageUrl n) (put_text ''start_image_url'' (startImageUrl n) r3)
           else r3))"

definition videos_request ::
    "CreationModelInput \<Rightarrow> CreationVideoCapability \<Rightarrow> DurationOption \<Rightarrow> CreationVideoOptions
      \<Rightarrow> CreationVideoReferences \<Rightarrow> CreationVideoRequestOptions" where
  "videos_request model c d o' n =
     (let images = texts (imageUrls n); videos = texts (videoUrls n); audios = texts (audioUrls n);
          r = \<lparr>a_duration = js_Number (duration o'), a_ratio = or_ratio o' c,
               a_resolution = (if includeResolutionInRequest c
                 then Some (js (if resolution o' = js ''480p'' then ''480p'' else ''720p'')) else None),
               a_estimateSeconds = do_estimateSeconds d,
               referenceImages = None, referenceVideos = None, referenceAudios = None,
               a_start_image_url = None, a_end_image_url = None\<rparr>
      in VideosRequest
        (if isSeedance25Model model then
           r\<lparr>referenceImages := nonempty images, referenceAudios := nonempty audios\<rparr>
         else if isSeedance2Model model then
           (if referenceMode n = ModeImage then
              r\<lparr>a_start_image_url := first images, referenceImages := nonempty (tl images)\<rparr>
            else if referenceMode n = ModeFrames then
              r\<lparr>a_start_image_url := nonempty (startImageUrl n), a_end_image_url := nonempty (endImageUrl n)\<rparr>
            else r\<lparr>referenceImages := nonempty images, referenceVideos := nonempty videos,
                   referenceAudios := nonempty audios\<rparr>)
         else r\<lparr>referenceImages := nonempty images, referenceVideos := nonempty videos,
                referenceAudios := nonempty audios\<rparr>))"

text \<open>One URL goes to the singular field, several to the plural one.\<close>

definition single :: "'a list \<Rightarrow> 'a option" where
  "single xs = (if length xs = 1 then Some (hd xs) else None)"

definition several :: "'a list \<Rightarrow> 'a list option" where
  "several xs = (if length xs > 1 then Some xs else None)"

definition minimax_request ::
    "CreationVideoCapability \<Rightarrow> DurationOption \<Rightarrow> CreationVideoOptions \<Rightarrow> CreationVideoReferences
      \<Rightarrow> CreationVideoRequestOptions" where
  "minimax_request c d o' n =
     (let images = texts (imageUrls n); audios = texts (audioUrls n);
          r = \<lparr>h_duration = js_Number (duration o'), h_aspect_ratio = or_ratio o' c,
               h_estimateSeconds = do_estimateSeconds d, h_image_url = None, h_image_urls = None,
               h_start_image_url = None, h_end_image_url = None, h_audio_url = None\<rparr>
      in MiniMaxRequest
        (if referenceMode n = ModeFrames then
           r\<lparr>h_start_image_url := nonempty (startImageUrl n), h_end_image_url := nonempty (endImageUrl n)\<rparr>
         else r\<lparr>h_image_url := single images, h_image_urls := several images,
                h_audio_url := (if referenceMode n = ModeImageAudio then first audios else None)\<rparr>))"

definition video2_request ::
    "CreationVideoCapability \<Rightarrow> DurationOption \<Rightarrow> CreationVideoOptions \<Rightarrow> CreationVideoReferences
      \<Rightarrow> CreationVideoRequestOptions" where
  "video2_request c d o' n =
     (let images = texts (imageUrls n); videos = texts (videoUrls n); audios = texts (audioUrls n)
      in Video2Request \<lparr>v_duration = js_Number (duration o'), v_aspect_ratio = or_ratio o' c,
           v_resolution = js (if resolution o' = js ''480p'' then ''480p'' else ''720p''),
           v_async = True, v_estimateSeconds = do_estimateSeconds d,
           v_image_url = single images, v_image_urls = several images,
           v_video_url = single videos, v_video_reference = several videos,
           v_start_image_url = nonempty (startImageUrl n), v_end_image_url = nonempty (endImageUrl n),
           v_audio_url = single audios, v_audio_reference = several audios\<rparr>)"

definition getCreationVideoRequestOptions ::
    "CreationVideoOptions \<Rightarrow> CreationModelInput \<Rightarrow> CreationVideoReferences
      \<Rightarrow> js_error + CreationVideoRequestOptions" where
  "getCreationVideoRequestOptions options model refs =
     (case normalizeCreationVideoOptions options model of
        Inl e \<Rightarrow> Inl e
      | Inr o' \<Rightarrow>
          (case find_or_first (\<lambda>x. do_value x = duration o') (getCreationDurationOptions model) of
             Inl e \<Rightarrow> Inl e
           | Inr d \<Rightarrow>
               (case getCreationVideoCapabilities model of
                  None \<Rightarrow>
                    (case find_or_first (\<lambda>x. ro_value x = resolution o') (getCreationResolutionOptions model) of
                       Inl e \<Rightarrow> Inl e
                     | Inr r \<Rightarrow> Inr (legacy_request d r))
                | Some c \<Rightarrow>
                    (let n = normalizeCreationVideoReferences (to_partial refs) model
                     in case kind c of
                          KSora2 \<Rightarrow> Inr (sora2_request d o' n)
                        | KSanbao \<Rightarrow> Inr (sanbao_request c d o' n)
                        | KXJZ \<Rightarrow> (case getVideoModelSpec model of
                            None \<Rightarrow> Inl MissingCapability | Some spec \<Rightarrow> Inr (xjz_request spec c d o' n))
                        | KMapped \<Rightarrow> (case getVideoModelSpec model of
                            None \<Rightarrow> Inl MissingCapability | Some spec \<Rightarrow> Inr (xjz_request spec c d o' n))
                        | KVideos \<Rightarrow> Inr (videos_request model c d o' n)
                        | KMiniMaxH3 \<Rightarrow> Inr (minimax_request c d o' n)
                        | KVideo2 \<Rightarrow> Inr (video2_request c d o' n)))))"

end
