(* ===== verification/Video_Identity.thy ===== *)
theory Video_Identity
  imports Video_Options_Props
begin

text \<open>
  The identifiers a model answers to: an identifier without brackets answers only to itself, and
  a channel marker in brackets before a known identifier does not hide its capability.
\<close>

section \<open>Markers\<close>

lemma exec_from_none:
  "(\<And>p t. \<exists>w. s = w @ t \<Longrightarrow> rmatch r (p, t, no_caps) = []) \<Longrightarrow> exec_from r pre s = None"
proof (induction s arbitrary: pre)
  case Nil
  then show ?case by (subst exec_from.simps) simp
next
  case (Cons u s)
  have "exec_from r (u # pre) s = None" using Cons.prems by (intro Cons.IH) (metis append_Cons)
  with Cons.prems [of "u # s" pre] show ?case by (subst exec_from.simps) simp
qed

lemma no_open_no_match:
  "\<forall>u\<in>set s. \<not> open_bracket u \<Longrightarrow>
   rmatch (RSeq (RStar (RSet is_ws)) (RSeq (RSet open_bracket) k)) (pre, s, c) = []"
proof -
  assume nb: "\<forall>u\<in>set s. \<not> open_bracket u"
  have "rmatch (RSeq (RSet open_bracket) k) st = []" if "st \<in> set (rmatch (RStar (RSet is_ws)) (pre, s, c))" for st
  proof -
    obtain w r where "s = w @ r" "st = (rev w @ pre, r, c)" using \<open>st \<in> _\<close> unfolding set_class_star by auto
    with nb show ?thesis by (cases r) auto
  qed
  then show ?thesis
    unfolding rmatch.simps(3) [of "RStar (RSet is_ws)"] concat_eq_Nil_conv by (auto simp del: rmatch.simps)
qed

lemma bracket_free_unchanged:
  assumes "list_all not_bracket s"
  shows "re_remove marker_prefix_re s = s" "re_remove marker_suffix_re s = s"
proof -
  have sub: "\<forall>u\<in>set t. \<not> open_bracket u" if "\<exists>w. s = w @ t" for t
    using assms that by (auto simp: list_all_iff not_bracket_def)
  have "exec_from marker_prefix_re [] s = None" "exec_from marker_suffix_re [] s = None"
    unfolding marker_prefix_re_def marker_suffix_re_def rseqs.simps
    using no_open_no_match sub
    by (intro exec_from_none; simp only: rmatch.simps(3) [of RBegin]; simp del: rmatch.simps(3,5) add: rmatch.simps(8))+
  then show "re_remove marker_prefix_re s = s" "re_remove marker_suffix_re s = s" by (simp_all add: re_remove_def)
qed

text \<open>A marker before a text without brackets.\<close>

lemma not_ws_open: "open_bracket u \<Longrightarrow> \<not> is_ws u"
  by (auto simp: open_bracket_def is_ws_def)

lemma ws_skip: "w = [] \<or> \<not> is_ws (hd w) \<Longrightarrow> rmatch (RStar (RSet is_ws)) (pre, w, c) = [(pre, w, c)]"
  by (cases w) (auto simp: rmatch_class_star simp del: rmatch.simps(5))

lemma marker_read:
  assumes "list_all not_bracket m"
  shows "rmatch (RSeq (RStar (RSet is_ws)) (RSeq (RSet open_bracket) (RSeq (RStar (RSet not_bracket))
      (RSeq (RSet close_bracket) k)))) (pre, 40 # m @ 41 # w, c) = rmatch k (41 # rev m @ 40 # pre, w, c)"
proof -
  have o: "open_bracket 40" "close_bracket 41" "\<not> not_bracket 41"
    by (simp_all add: open_bracket_def close_bracket_def not_bracket_def)
  have r: "refuses (RSeq (RSet close_bracket) k) not_bracket"
    by (intro refuses_seq refuses_set) (auto simp: not_bracket_def)
  have "rmatch (RStar (RSet is_ws)) (pre, 40 # m @ 41 # w, c) = [(pre, 40 # m @ 41 # w, c)]"
    by (rule ws_skip) (simp add: is_ws_def)
  moreover have "concat (map (rmatch (RSeq (RSet close_bracket) k))
      (rmatch (RStar (RSet not_bracket)) (40 # pre, m @ 41 # w, c))) = rmatch k (41 # rev m @ 40 # pre, w, c)"
    using greedy_run [OF r, of "40 # pre" "m @ 41 # w" c] assms o
    by (simp add: takeWhile_run del: rmatch.simps(5))
  ultimately show ?thesis using o by (simp del: rmatch.simps(5))
qed

lemma marker_prefix_removed:
  assumes "list_all not_bracket m" "w = [] \<or> \<not> is_ws (hd w)"
  shows "re_remove marker_prefix_re (40 # m @ 41 # w) = w"
  using marker_read [OF assms(1), of "RStar (RSet is_ws)" "[]" w no_caps] ws_skip [OF assms(2)]
  by (simp add: re_remove_def marker_prefix_re_def exec_begin del: rmatch.simps)

lemma marker_suffix_kept:
  assumes "list_all not_bracket m" "list_all not_bracket w" "w \<noteq> []" "\<not> is_ws (hd w)"
  shows "re_remove marker_suffix_re (40 # m @ 41 # w) = 40 # m @ 41 # w"
proof -
  have "rmatch (RSeq (RStar (RSet is_ws)) REnd) (41 # rev m @ [40], w, no_caps) = []"
    using ws_skip [of w] assms(3,4) by (simp del: rmatch.simps(5))
  then have here: "rmatch marker_suffix_re ([], 40 # m @ 41 # w, no_caps) = []"
    using marker_read [OF assms(1), of "RSeq (RStar (RSet is_ws)) REnd" "[]" w no_caps]
    by (simp add: marker_suffix_re_def del: rmatch.simps)
  have "rmatch marker_suffix_re (p, t, no_caps) = []" if "\<exists>v. m @ 41 # w = v @ t" for p t
  proof -
    have "set t \<subseteq> set (m @ 41 # w)" using that by (metis set_append Un_upper2)
    then have "\<forall>u\<in>set t. \<not> open_bracket u"
      using assms(1,2) by (auto simp: list_all_iff not_bracket_def open_bracket_def)
    then show ?thesis unfolding marker_suffix_re_def rseqs.simps by (rule no_open_no_match)
  qed
  then have "exec_from marker_suffix_re [40] (m @ 41 # w) = None" by (rule exec_from_none)
  with here have "exec_from marker_suffix_re [] (40 # m @ 41 # w) = None"
    by (subst exec_from.simps) simp
  then show ?thesis by (simp add: re_remove_def)
qed

section \<open>Variants and candidates\<close>

text \<open>A clean identifier: what lower-casing, trimming and removing markers leave unchanged.\<close>

definition clean_id_text :: "jsstring \<Rightarrow> bool" where
  "clean_id_text w \<longleftrightarrow> w \<noteq> [] \<and> trimmed w \<and> toLowerCase w = w \<and> list_all not_bracket w"

lemma clean_trim: "clean_id_text w \<Longrightarrow> trim w = w"
  by (simp add: clean_id_text_def)

lemma variants_clean: "clean_id_text w \<Longrightarrow> getNormalizedModelIdVariants (Some w) = [w]"
  using bracket_free_unchanged [of w]
  by (simp add: getNormalizedModelIdVariants_def clean_id_text_def variant_pass_def variant_step_def
      set_add_def Let_def)

lemma lower_not_bracket: "not_bracket u \<Longrightarrow> not_bracket (lower_unit u)"
  by (auto simp: not_bracket_def open_bracket_def close_bracket_def lower_unit_def)

lemma lower_brackets: "lower_unit 40 = 40" "lower_unit 41 = 41"
  by (simp_all add: lower_unit_def)

lemma lower_idem: "lower_unit (lower_unit u) = lower_unit u"
  by (auto simp: lower_unit_def)

lemma marked_trimmed: "clean_id_text w \<Longrightarrow> trimmed (40 # m @ 41 # w)"
  by (auto simp: clean_id_text_def trimmed_def)

lemma marked_normalized:
  assumes "clean_id_text w"
  shows "toLowerCase (trim (40 # m @ 41 # w)) = 40 # toLowerCase m @ 41 # w"
  using assms trim_id [OF marked_trimmed [OF assms]]
  by (simp add: toLowerCase_def lower_brackets clean_id_text_def)

lemma variants_marked:
  assumes "clean_id_text w" "list_all not_bracket m"
  shows "getNormalizedModelIdVariants (Some (40 # m @ 41 # w)) = [40 # toLowerCase m @ 41 # w, w]"
proof -
  let ?m = "toLowerCase m" and ?x = "40 # toLowerCase m @ 41 # w"
  have m: "list_all not_bracket ?m" using assms(2) lower_not_bracket by (auto simp: toLowerCase_def list_all_iff)
  have w: "w \<noteq> []" "\<not> is_ws (hd w)" "list_all not_bracket w" "trim w = w" "trim ?x = ?x"
    using assms(1) marked_trimmed [OF assms(1)] by (auto simp: clean_id_text_def trimmed_def)
  have "variant_step vs ?x = set_add ?x (set_add w vs)" for vs
    using marker_prefix_removed [OF m, of w] marker_suffix_kept [OF m, of w] w
    by (simp add: variant_step_def Let_def)
  moreover have "variant_step vs w = set_add w (set_add w vs)" for vs
    using bracket_free_unchanged [OF w(3)] w by (simp add: variant_step_def Let_def)
  moreover have "length w < length ?x" by simp
  then have "?x \<noteq> w" by (metis less_irrefl)
  ultimately have "variant_pass (variant_pass [?x]) = [?x, w]"
    by (simp add: variant_pass_def set_add_def)
  then show ?thesis using marked_normalized [OF assms(1), of m] w(1)
    by (simp add: getNormalizedModelIdVariants_def)
qed

lemma js_set_snoc: "js_set (xs @ [x]) = (if x \<in> set xs then js_set xs else js_set xs @ [x])"
  by (simp add: js_set_def)

lemma js_set_prefix: "distinct xs \<Longrightarrow> \<exists>r. js_set (xs @ ys) = xs @ r"
proof (induction ys rule: rev_induct)
  case (snoc y ys)
  then obtain r where "js_set (xs @ ys) = xs @ r" by blast
  then show ?case using js_set_snoc [of "xs @ ys" y] by auto
qed simp

lemma candidates_start:
  assumes "getNormalizedModelIdVariants (Some (normalizeModelId (ModelString s))) = c0" "distinct c0"
    "\<forall>c\<in>set c0. c \<noteq> []"
  shows "\<exists>r. getCreationModelIdCandidates (ModelString s) = c0 @ r"
proof -
  have "filter (\<lambda>c. c \<noteq> []) c0 = c0" using assms(3) by (simp add: filter_id_conv)
  then show ?thesis using js_set_prefix [OF assms(2)] assms(1)
    by (simp add: getCreationModelIdCandidates_def string_model Let_def)
qed

section \<open>Capabilities of known identifiers\<close>

lemma static_keys_clean: "list_all (\<lambda>(k, c). clean_id_text k) VIDEO_CAPABILITIES"
  by (simp add: VIDEO_CAPABILITIES_def clean_id_text_def sd2_full_def trimmed_def toLowerCase_def
      lower_unit_def not_bracket_def open_bracket_def close_bracket_def is_ws_def)

lemma xjz_not_static:
  "list_all (\<lambda>x. x \<notin> set (map fst VIDEO_CAPABILITIES)) (map fst XJZ_VIDEO_MODELS_1)"
  "list_all (\<lambda>x. x \<notin> set (map fst VIDEO_CAPABILITIES)) (map fst XJZ_VIDEO_MODELS_2)"
  "list_all (\<lambda>x. x \<notin> set (map fst VIDEO_CAPABILITIES)) (map fst XJZ_VIDEO_MODELS_3)"
  "list_all (\<lambda>x. x \<notin> set (map fst VIDEO_CAPABILITIES)) (map fst XJZ_VIDEO_MODELS_4)"
  "list_all (\<lambda>x. x \<notin> set (map fst VIDEO_CAPABILITIES)) (map fst XJZ_VIDEO_MODELS_5)"
  "list_all (\<lambda>x. x \<notin> set (map fst VIDEO_CAPABILITIES)) (map fst XJZ_VIDEO_ALIASES)"
  by (simp_all add: VIDEO_CAPABILITIES_def XJZ_VIDEO_MODELS_1_def XJZ_VIDEO_MODELS_2_def
      XJZ_VIDEO_MODELS_3_def XJZ_VIDEO_MODELS_4_def XJZ_VIDEO_MODELS_5_def XJZ_VIDEO_ALIASES_def sd2_full_def)

lemma static_not_xjz: "map_of VIDEO_CAPABILITIES k = Some c \<Longrightarrow> getXJZVideoModelSpec k = None"
proof -
  assume "map_of VIDEO_CAPABILITIES k = Some c"
  then have "k \<in> set (map fst VIDEO_CAPABILITIES)" by (force dest: map_of_SomeD)
  then have "k \<notin> set (map fst XJZ_VIDEO_MODELS)" "k \<notin> set (map fst XJZ_VIDEO_ALIASES)"
    using xjz_not_static unfolding list_all_iff XJZ_VIDEO_MODELS_def map_append set_append by blast+
  then have "map_of XJZ_VIDEO_MODELS k = None" "map_of XJZ_VIDEO_ALIASES k = None"
    by (simp_all only: map_of_eq_None_iff set_map not_False_eq_True)
  then show ?thesis by (simp add: getXJZVideoModelSpec_def)
qed

lemma no_marked_keys:
  "list_all (\<lambda>k. k \<noteq> [] \<and> hd k \<noteq> 40) (map fst VIDEO_CAPABILITIES)"
  "list_all (\<lambda>k. k \<noteq> [] \<and> hd k \<noteq> 40) (map fst XJZ_VIDEO_MODELS)"
  "list_all (\<lambda>k. k \<noteq> [] \<and> hd k \<noteq> 40) (map fst XJZ_VIDEO_ALIASES)"
  by (simp_all add: VIDEO_CAPABILITIES_def xjz_table_defs XJZ_VIDEO_ALIASES_def sd2_full_def)

lemma marked_not_key:
  "list_all (\<lambda>k. k \<noteq> [] \<and> hd k \<noteq> 40) (map fst t) \<Longrightarrow> map_of t (40 # x) = None"
  by (force simp: list_all_iff map_of_eq_None_iff)

lemma string_static:
  assumes "getXJZVideoModelSpec s = None" "static_capability (getCreationModelIdCandidates (ModelString s)) = Some c"
  shows "getCreationVideoCapabilities (ModelString s) = Some c"
  using assms by (simp add: getCreationVideoCapabilities_def getXJZVideoCapability_def
      getVideoModelSpec_def getSanbaoVideoCapability_def string_model Let_def)

lemma static_skip: "map_of VIDEO_CAPABILITIES x = None \<Longrightarrow> static_capability (x # xs) = static_capability xs"
  by (simp add: static_capability_def map_filter_def)

lemma static_hit: "map_of VIDEO_CAPABILITIES x = Some c \<Longrightarrow> static_capability (x # xs) = Some c"
  by (simp add: static_capability_def map_filter_def first_def)

lemma static_key:
  assumes "map_of VIDEO_CAPABILITIES w = Some c"
  shows "clean_id_text w" "getXJZVideoModelSpec w = None"
  using map_of_SomeD [OF assms] static_keys_clean static_not_xjz [OF assms] by (auto simp: list_all_iff)

lemma known_capability:
  assumes "map_of VIDEO_CAPABILITIES w = Some c"
  shows "getCreationVideoCapabilities (ModelString w) = Some c"
proof -
  have w: "clean_id_text w" by (rule static_key(1) [OF assms])
  have "normalizeModelId (ModelString w) = w"
    using w clean_trim by (simp add: normalizeModelId_def string_model clean_id_text_def)
  then have "\<exists>r. getCreationModelIdCandidates (ModelString w) = [w] @ r"
    using variants_clean [OF w] w by (intro candidates_start) (auto simp: clean_id_text_def)
  then show ?thesis using static_hit [OF assms] static_key(2) [OF assms] string_static by fastforce
qed

section \<open>Properties\<close>

text \<open>A channel marker does not hide a model: an identifier of the static table has the
  capability of the table, and so has the identifier behind any bracketed marker without inner
  brackets, however the marker is written.\<close>

theorem marked_model_capability:
  assumes "map_of VIDEO_CAPABILITIES w = Some c" "list_all not_bracket m"
  shows "getCreationVideoCapabilities (ModelString w) = Some c
    \<and> getCreationVideoCapabilities (ModelString (js ''('' @ m @ js '')'' @ w)) = Some c"
proof -
  let ?s = "40 # m @ 41 # w" and ?x = "40 # toLowerCase m @ 41 # w"
  have w: "clean_id_text w" by (rule static_key(1) [OF assms(1)])
  have lm: "list_all not_bracket (toLowerCase m)"
    using assms(2) lower_not_bracket by (auto simp: toLowerCase_def list_all_iff)
  have n: "normalizeModelId (ModelString ?s) = ?x"
    using marked_normalized [OF w] by (simp add: normalizeModelId_def string_model)
  have "toLowerCase (toLowerCase m) = toLowerCase m" by (simp add: toLowerCase_def lower_idem)
  then have "getNormalizedModelIdVariants (Some (normalizeModelId (ModelString ?s))) = [?x, w]"
    using variants_marked [OF w lm] n by simp
  moreover have "length w < length ?x" by simp
  then have "?x \<noteq> w" by (metis less_irrefl)
  ultimately obtain r where "getCreationModelIdCandidates (ModelString ?s) = [?x, w] @ r"
    using candidates_start [of ?s "[?x, w]"] w by (auto simp: clean_id_text_def)
  then have "static_capability (getCreationModelIdCandidates (ModelString ?s)) = Some c"
    using marked_not_key [OF no_marked_keys(1)] static_skip static_hit [OF assms(1)] by simp
  moreover have "getXJZVideoModelSpec ?s = None"
    using marked_not_key [OF no_marked_keys(2)] marked_not_key [OF no_marked_keys(3)]
    by (simp add: getXJZVideoModelSpec_def)
  ultimately show ?thesis using string_static known_capability [OF assms(1)] by simp
qed

theorem marked_model_capability_witness:
  "getCreationVideoCapabilities (ModelString (js ''sora-2'')) = Some SORA2_VIDEO_CAPABILITY
   \<and> getCreationVideoCapabilities (ModelString (js ''('' @ js ''Line 3'' @ js '')'' @ js ''sora-2''))
     = Some SORA2_VIDEO_CAPABILITY"
  by (rule marked_model_capability)
    (simp_all add: VIDEO_CAPABILITIES_def not_bracket_def open_bracket_def close_bracket_def)

end
