(* ===== verification/Video_Request_Props.thy ===== *)
theory Video_Request_Props
  imports Video_References_Props Video_Request Video_Identity
begin

text \<open>
  What an accepted set of references guarantees: the counts stay within the limits of the model,
  and every reference that reaches the request body has passed the URL check.
\<close>

section \<open>Chains of checks\<close>

lemma or_else_None [simp]: "or_else a b = None \<longleftrightarrow> a = None \<and> b = None"
  by (simp add: or_else_def split: option.splits)

lemma check_None [simp]: "check b m = None \<longleftrightarrow> \<not> b"
  by (simp add: check_def)

section \<open>The references of a request\<close>

definition opt_set :: "'a list option \<Rightarrow> 'a set" where
  "opt_set xs = set (or_list xs)"

definition base_keys :: "XJZVideoModelSpec option \<Rightarrow> jsstring set" where
  "base_keys sp = {js ''duration'', js ''estimateSeconds''} \<union>
     (case sp of None \<Rightarrow> {} | Some s \<Rightarrow> {or_string (ratioField s) (js ''ratio''),
        or_string (resolutionField s) (js ''resolution'')})"

definition value_texts :: "request_value option \<Rightarrow> jsstring set" where
  "value_texts v = (case v of Some (StrVal s) \<Rightarrow> {s} | Some (StrsVal l) \<Rightarrow> set l | _ \<Rightarrow> {})"

text \<open>The reference texts a request carries; for a request with computed keys, the texts under
  every key but those of the options.\<close>

definition request_media :: "XJZVideoModelSpec option \<Rightarrow> CreationVideoRequestOptions \<Rightarrow> jsstring set" where
  "request_media sp r =
     (case r of
        LegacyRequest l \<Rightarrow> set_option (l_input_reference l)
      | Video2Request v \<Rightarrow> set_option (v_image_url v) \<union> opt_set (v_image_urls v) \<union> set_option (v_video_url v)
          \<union> opt_set (v_video_reference v) \<union> set_option (v_start_image_url v)
          \<union> set_option (v_end_image_url v) \<union> set_option (v_audio_url v) \<union> opt_set (v_audio_reference v)
      | MiniMaxRequest h \<Rightarrow> set_option (h_image_url h) \<union> opt_set (h_image_urls h)
          \<union> set_option (h_start_image_url h) \<union> set_option (h_end_image_url h) \<union> set_option (h_audio_url h)
      | SanbaoRequest s \<Rightarrow> opt_set (s_images s) \<union> opt_set (s_videos s) \<union> opt_set (s_audios s)
      | VideosRequest a \<Rightarrow> opt_set (referenceImages a) \<union> opt_set (referenceVideos a) \<union> opt_set (referenceAudios a)
          \<union> set_option (a_start_image_url a) \<union> set_option (a_end_image_url a)
      | XJZRequest m \<Rightarrow> (\<Union>k \<in> - base_keys sp. value_texts (m k)))"

definition reference_texts :: "CreationVideoReferences \<Rightarrow> jsstring set" where
  "reference_texts n = set (image_texts n) \<union> set (texts (videoUrls n)) \<union> set (texts (audioUrls n))"

lemma opt_set_simps [simp]: "opt_set None = {}" "opt_set (Some xs) = set xs"
  by (simp_all add: opt_set_def or_list_def)

lemma nonempty_texts: "opt_set (nonempty xs) = set xs" "set_option (nonempty s) = (if s = [] then {} else {s})"
  by (auto simp: nonempty_def)

lemma single_several: "set_option (single xs) \<subseteq> set xs" "opt_set (several xs) \<subseteq> set xs"
  by (cases xs; auto simp: single_def several_def)+

lemma first_subset: "set_option (first xs) \<subseteq> set xs"
  by (cases xs) (auto simp: first_def)

lemma image_texts_parts:
  "set (texts (imageUrls n)) \<subseteq> set (image_texts n)"
  "startImageUrl n \<noteq> [] \<Longrightarrow> startImageUrl n \<in> set (image_texts n)"
  "endImageUrl n \<noteq> [] \<Longrightarrow> endImageUrl n \<in> set (image_texts n)"
  by (auto simp: image_texts_def texts_def)

section \<open>Requests carry only normalised references\<close>

definition carries_only :: "jsstring set \<Rightarrow> jsstring set \<Rightarrow> XJZCreationVideoRequestOptions \<Rightarrow> bool" where
  "carries_only base A m \<longleftrightarrow> (\<forall>k. k \<notin> base \<longrightarrow> value_texts (m k) \<subseteq> A)"

lemma carries_put:
  "carries_only base A m \<Longrightarrow> value_texts (Some v) \<subseteq> A \<Longrightarrow> carries_only base A (m(k \<mapsto> v))"
  by (simp add: carries_only_def)

lemma carries_media:
  "carries_only base A m \<Longrightarrow> set urls \<subseteq> A \<Longrightarrow> carries_only base A (put_media f w urls m)"
  using hd_in_set [of urls]
  by (auto simp: put_media_def value_texts_def intro!: carries_put split: option.splits)

lemma carries_images:
  "carries_only base A m \<Longrightarrow> set urls \<subseteq> A \<Longrightarrow> carries_only base A (put_images spec urls m)"
  using hd_in_set [of urls]
  by (auto simp: put_images_def value_texts_def intro!: carries_put carries_media)

lemma carries_audios:
  "carries_only base A m \<Longrightarrow> set urls \<subseteq> A \<Longrightarrow> carries_only base A (put_audios spec urls m)"
  by (cases urls) (auto simp: put_audios_def value_texts_def intro!: carries_put carries_media)

lemma carries_text:
  "carries_only base A m \<Longrightarrow> (s \<noteq> [] \<Longrightarrow> s \<in> A) \<Longrightarrow> carries_only base A (put_text k s m)"
  by (auto simp: put_text_def value_texts_def intro!: carries_put)

lemma carries_frames:
  "carries_only base A m \<Longrightarrow> (s \<noteq> [] \<Longrightarrow> s \<in> A) \<Longrightarrow> (e \<noteq> [] \<Longrightarrow> e \<in> A) \<Longrightarrow>
   carries_only base A (if b then put_text k e (put_text j s m) else m)"
  by (auto intro!: carries_text)

lemma media_of_map: "request_media sp (XJZRequest m) \<subseteq> A \<longleftrightarrow> carries_only (base_keys sp) A m"
  by (auto simp: request_media_def carries_only_def)

lemma xjz_media: "request_media (Some spec) (xjz_request spec c d o' n) \<subseteq> reference_texts n"
proof -
  let ?A = "reference_texts n" and ?B = "base_keys (Some spec)"
  have "carries_only ?B ?A (Map.empty
            (js ''duration'' \<mapsto> NumVal (js_Number (duration o')),
             or_string (ratioField spec) (js ''ratio'') \<mapsto> opt_value (or_ratio o' c),
             or_string (resolutionField spec) (js ''resolution'') \<mapsto>
               StrVal (if selectableResolution spec then resolution o'
                       else or_string (requestResolution spec) (resolution o')),
             js ''estimateSeconds'' \<mapsto> NumVal (do_estimateSeconds d)))" (is "carries_only _ _ ?m")
    by (auto simp: carries_only_def base_keys_def value_texts_def)
  then have "carries_only ?B ?A (put_audios spec (texts (audioUrls n)) (put_media (videoField spec) ''video_url''
      (texts (videoUrls n)) (put_images spec (texts (imageUrls n)) ?m)))"
    using image_texts_parts by (intro carries_audios carries_media carries_images) (auto simp: reference_texts_def)
  moreover have "startImageUrl n \<noteq> [] \<Longrightarrow> startImageUrl n \<in> ?A" "endImageUrl n \<noteq> [] \<Longrightarrow> endImageUrl n \<in> ?A"
    using image_texts_parts by (auto simp: reference_texts_def)
  ultimately show ?thesis
    unfolding xjz_request_def Let_def media_of_map
    by (rule carries_frames)
qed

lemma request_kinds_media:
  "request_media sp (legacy_request d r) \<subseteq> A"
  "request_media sp (sora2_request d o' n) \<subseteq> reference_texts n"
  "request_media sp (sanbao_request c d o' n) \<subseteq> reference_texts n"
  "request_media sp (videos_request model c d o' n) \<subseteq> reference_texts n"
  "request_media sp (minimax_request c d o' n) \<subseteq> reference_texts n"
  "request_media sp (video2_request c d o' n) \<subseteq> reference_texts n"
proof -
  note parts = image_texts_parts [of n]
  have f: "set_option (first xs) \<subseteq> set xs" "set (tl xs) \<subseteq> set xs" for xs :: "jsstring list"
    by (cases xs; auto simp: first_def)+
  show "request_media sp (legacy_request d r) \<subseteq> A" by (simp add: request_media_def legacy_request_def)
  show "request_media sp (sora2_request d o' n) \<subseteq> reference_texts n"
    by (cases "imageUrls n") (auto simp: request_media_def sora2_request_def Let_def nonempty_def first_def
        reference_texts_def image_texts_def getCreationReferenceURL_def)
  show "request_media sp (sanbao_request c d o' n) \<subseteq> reference_texts n"
    using parts f(1) [of "texts (audioUrls n)"]
    by (cases "first (texts (audioUrls n))")
      (auto simp: request_media_def sanbao_request_def Let_def nonempty_texts reference_texts_def)
  show "request_media sp (videos_request model c d o' n) \<subseteq> reference_texts n"
    using parts f [of "texts (imageUrls n)"]
    by (auto simp: request_media_def videos_request_def Let_def nonempty_texts reference_texts_def split: if_splits)
  show "request_media sp (minimax_request c d o' n) \<subseteq> reference_texts n"
    using parts single_several [of "texts (imageUrls n)"] f(1) [of "texts (audioUrls n)"]
    by (auto simp: request_media_def minimax_request_def Let_def nonempty_texts reference_texts_def split: if_splits)
  show "request_media sp (video2_request c d o' n) \<subseteq> reference_texts n"
    using parts single_several [of "texts (imageUrls n)"] single_several [of "texts (videoUrls n)"]
      single_several [of "texts (audioUrls n)"]
    by (auto simp: request_media_def video2_request_def Let_def nonempty_texts reference_texts_def split: if_splits)
qed

lemma request_media_normalized:
  assumes "getCreationVideoRequestOptions options model refs = Inr r"
    and "getCreationVideoCapabilities model = Some c"
  shows "request_media (getVideoModelSpec model) r
    \<subseteq> reference_texts (normalizeCreationVideoReferences (to_partial refs) model)"
  using assms
  by (auto simp: getCreationVideoRequestOptions_def Let_def
      split: sum.splits option.splits capability_kind.splits
      dest!: request_kinds_media(2-) [THEN subsetD] xjz_media [THEN subsetD])

lemma request_media_none:
  assumes "getCreationVideoRequestOptions options model refs = Inr r"
    and "getCreationVideoCapabilities model = None"
  shows "request_media sp r = {}"
  using assms request_kinds_media(1) [of sp _ _ "{}"]
  by (auto simp: getCreationVideoRequestOptions_def split: sum.splits option.splits)

section \<open>Models with a plain identifier\<close>

lemma variants_none: "getNormalizedModelIdVariants None = []"
  by (simp add: getNormalizedModelIdVariants_def)

lemma candidates_clean:
  "clean_id_text w \<Longrightarrow> map_of VIDEO_MODEL_ID_ALIASES w = None \<Longrightarrow> getCreationModelIdCandidates (ModelString w) = [w]"
  by (simp add: getCreationModelIdCandidates_def normalizeModelId_def string_model Let_def
      variants_clean clean_trim variants_none) (simp add: clean_id_text_def variants_clean clean_trim js_set_def)

lemma plain_families:
  assumes "getCreationModelIdCandidates model = [w]" "take 2 w \<noteq> js ''se''" "take 3 w \<noteq> js ''sd-''"
    "take 7 w \<noteq> js ''video-2''"
  shows "\<not> isSeedance2Model model" "\<not> isSeedance25Model model" "\<not> isVideo25Model model"
proof -
  have "rmatch (rlit ''sd-2-c'') ([], w, no_caps) = []"
    using assms(3) startsWith_take [of w "js ''sd-2-c''" 3] by (auto simp: rmatch_lit)
  then have "\<not> re_test sd2_channel_re w"
    by (simp add: re_test_def sd2_channel_re_def exec_begin del: rmatch.simps(5,6))
  then show "\<not> isSeedance2Model model" "\<not> isSeedance25Model model" "\<not> isVideo25Model model"
    using assms startsWith_take [of w "js ''sd-2.0-''" 3]
    by (auto simp: isSeedance2Model_def isSeedance25Model_def isVideo25Model_def)
qed

text \<open>A request for one of them.\<close>

definition sora2_model :: CreationModelInput where
  "sora2_model = ModelString (js ''sora-2'')"

definition sample_references :: CreationVideoReferences where
  "sample_references = emptyCreationVideoReferences
     \<lparr>referenceMode := ModeImage, imageUrls := [RefURL (js ''https://a/b.png'')]\<rparr>"

definition sample_parser :: url_parser where
  "sample_parser s = (if startsWith s (js ''https://'')
     then Some \<lparr>protocol = js ''https:'', pathname = js ''/b.png''\<rparr> else None)"

definition sample_options :: CreationVideoOptions where
  "sample_options = \<lparr>resolution = js ''720p'', duration = js ''8'', aspectRatio = Some (js ''16:9'')\<rparr>"

definition sample_request :: CreationVideoRequestOptions where
  "sample_request = LegacyRequest \<lparr>l_seconds = js ''8'', l_size = js ''1280x720'',
     l_aspect_ratio = Some (js ''16:9''), l_input_reference = Some (js ''https://a/b.png''),
     l_estimateSeconds = num 135\<rparr>"

lemma sora2_candidates: "getCreationModelIdCandidates sora2_model = [js ''sora-2'']"
  unfolding sora2_model_def
  by (rule candidates_clean) (rule static_key(1), simp_all add: VIDEO_CAPABILITIES_def VIDEO_MODEL_ID_ALIASES_def sd2_full_def)

lemma sora2_capability: "getCreationVideoCapabilities sora2_model = Some SORA2_VIDEO_CAPABILITY"
  unfolding sora2_model_def by (rule known_capability) (simp add: VIDEO_CAPABILITIES_def)

lemma sora2_families:
  "\<not> isSeedance2Model sora2_model" "\<not> isSeedance25Model sora2_model" "\<not> isVideo25Model sora2_model"
  using plain_families [OF sora2_candidates] by simp_all

lemma sora2_no_spec: "getVideoModelSpec sora2_model = None"
  using static_key(2) [of "js ''sora-2''"]
  by (simp add: getVideoModelSpec_def sora2_model_def string_model VIDEO_CAPABILITIES_def)

lemma sample_normalized:
  "normalizeCreationVideoReferences (to_partial sample_references) sora2_model = sample_references"
  unfolding normalizeCreationVideoReferences_def sora2_capability
  by (simp add: normalizeReferenceMode_def SORA2_VIDEO_CAPABILITY_def to_partial_def sample_references_def
    cleanReferenceValues_def getCreationReferenceURL_def or_list_def js_eval emptyCreationVideoReferences_def)

lemma sample_accepted: "getCreationVideoReferenceError sample_parser sora2_model sample_references = None"
  unfolding getCreationVideoReferenceError_def sora2_capability option.case Let_def sample_normalized or_else_None
    limit_error_def duration_error_def format_error_def check_None
  using sora2_families
  by (simp add: SORA2_VIDEO_CAPABILITY_def SORA2_REFERENCE_LIMITS_def VIDEO2_REFERENCE_LIMITS_def spec_error_def minimax_error_def xjz_kind_def sample_references_def
    image_count_def exceeds_def truthy_opt_def over_total_def texts_def image_texts_def emptyCreationVideoReferences_def
    isReferenceImage_def isHTTPURL_def sample_parser_def getCreationReferenceURL_def startsWith_def js_eval)

lemma sample_built: "getCreationVideoRequestOptions sample_options sora2_model sample_references = Inr sample_request"
  unfolding getCreationVideoRequestOptions_def normalizeCreationVideoOptions_def sora2_capability option.case Let_def sample_normalized
    getCreationResolutionOptions_def getCreationDurationOptions_def
  by (simp add: SORA2_VIDEO_CAPABILITY_def find_or_first_def sample_options_def SORA2_CREATION_RESOLUTION_OPTIONS_def
     SORA2_CREATION_DURATION_OPTIONS_def pick_ratio_def sora2_request_def sample_request_def sample_references_def SORA2_VIDEO_SIZES_def
     getCreationReferenceURL_def nonempty_def duration_option_def resolution_option_def js_eval)

section \<open>Properties\<close>

text \<open>C16: Safety of a video request: when the references of a request raise no error, every reference
  text that reaches the request body, in whatever field of whatever request format, is an
  HTTP(S) URL or the data URL of an image.\<close>

theorem accepted_request_references_safe:
  assumes "getCreationVideoReferenceError parseURL model refs = None"
    and "getCreationVideoRequestOptions options model refs = Inr r"
  shows "\<forall>u\<in>request_media (getVideoModelSpec model) r. isReferenceImage parseURL u"
proof (cases "getCreationVideoCapabilities model")
  case None
  then show ?thesis using request_media_none [OF assms(2)] by simp
next
  case (Some c)
  let ?n = "normalizeCreationVideoReferences (to_partial refs) model"
  have "format_error parseURL model c ?n = None"
    using assms(1) Some by (simp add: getCreationVideoReferenceError_def Let_def)
  then have "\<forall>u\<in>reference_texts ?n. isReferenceImage parseURL u"
    by (auto simp: format_error_def Let_def reference_texts_def list_ex_iff isReferenceVideo_def
        isReferenceAudio_def isReferenceImage_def)
  then show ?thesis using request_media_normalized [OF assms(2) Some] by blast
qed

lemma sample_media: "request_media (getVideoModelSpec sora2_model) sample_request = {js ''https://a/b.png''}"
  by (simp add: request_media_def sample_request_def)

theorem accepted_request_references_safe_witness:
  "getCreationVideoReferenceError sample_parser sora2_model sample_references = None
   \<and> getCreationVideoRequestOptions sample_options sora2_model sample_references = Inr sample_request
   \<and> isReferenceImage sample_parser (js ''https://a/b.png'')"
  using accepted_request_references_safe [OF sample_accepted sample_built]
    sample_accepted sample_built unfolding sample_media by blast

text \<open>C17: When the references raise no error, the images (frames included), videos and audios stay
  within the limits of the model's capability, and so does their total where it has one.\<close>

theorem accepted_references_within_limits:
  assumes "getCreationVideoReferenceError parseURL model refs = None"
    and "getCreationVideoCapabilities model = Some c"
    and "n = normalizeCreationVideoReferences (to_partial refs) model"
  shows "\<not> exceeds (image_count n) (maxImages (referenceLimits c))
    \<and> \<not> exceeds (length (videoUrls n)) (maxVideos (referenceLimits c))
    \<and> \<not> exceeds (length (audioUrls n)) (maxAudios (referenceLimits c))
    \<and> (\<forall>m. maxMediaFiles (referenceLimits c) = Some m \<longrightarrow> js_truthy_num m \<longrightarrow>
          \<not> exceeds (image_count n + length (videoUrls n) + length (audioUrls n)) m)"
  using assms by (auto simp: getCreationVideoReferenceError_def Let_def limit_error_def truthy_opt_def)


theorem accepted_references_within_limits_witness:
  "\<not> exceeds (image_count sample_references) (maxImages (referenceLimits SORA2_VIDEO_CAPABILITY))
    \<and> \<not> exceeds (length (videoUrls sample_references)) (maxVideos (referenceLimits SORA2_VIDEO_CAPABILITY))
    \<and> \<not> exceeds (length (audioUrls sample_references)) (maxAudios (referenceLimits SORA2_VIDEO_CAPABILITY))"
  using accepted_references_within_limits
    [OF sample_accepted sora2_capability sample_normalized [symmetric]] by blast

text \<open>The models of the \<open>videos-4\<close> family take four images.\<close>

definition videos4_model :: CreationModelInput where
  "videos4_model = ModelString (js ''videos-4'')"

lemma videos4_candidates: "getCreationModelIdCandidates videos4_model = [js ''videos-4'']"
  unfolding videos4_model_def
  by (rule candidates_clean) (rule static_key(1), simp_all add: VIDEO_CAPABILITIES_def VIDEO_MODEL_ID_ALIASES_def sd2_full_def)

lemma videos4_capability: "getCreationVideoCapabilities videos4_model = Some VIDEOS_4_API_CAPABILITY"
  unfolding videos4_model_def by (rule known_capability) (simp add: VIDEO_CAPABILITIES_def)

lemma videos4_families:
  "\<not> isSeedance2Model videos4_model" "\<not> isSeedance25Model videos4_model" "\<not> isVideo25Model videos4_model"
  using plain_families [OF videos4_candidates] by simp_all

lemma videos4_image_mode:
  "referenceMode refs = ModeImage \<Longrightarrow>
   normalizeCreationVideoReferences (to_partial refs) videos4_model =
     emptyCreationVideoReferences\<lparr>referenceMode := ModeImage,
       imageUrls := filter (\<lambda>v. ref_url v \<noteq> []) (imageUrls refs)\<rparr>"
  unfolding normalizeCreationVideoReferences_def videos4_capability
  by (simp add: normalizeReferenceMode_def VIDEOS_4_API_CAPABILITY_def VIDEOS_API_CAPABILITY_def to_partial_def
      cleanReferenceValues_def or_list_def Let_def)

text \<open>The model \<open>videos-4\<close> takes at most four images, and a fifth is refused, but the message
  names the limit of the other models of the family: nine.\<close>

theorem videos4_limit_message:
  assumes "referenceMode refs = ModeImage"
    and "length (filter (\<lambda>v. ref_url v \<noteq> []) (imageUrls refs)) > 4"
  shows "maxImages (getCreationVideoReferenceLimits videos4_model) = num 4
    \<and> getCreationVideoReferenceError parseURL videos4_model refs
      = Some (js ''Videos API accepts at most 9 image references.'')"
proof -
  let ?n = "normalizeCreationVideoReferences (to_partial refs) videos4_model"
  have k: "kind VIDEOS_4_API_CAPABILITY = KVideos" "maxImages (referenceLimits VIDEOS_4_API_CAPABILITY) = num 4"
    by (simp_all add: VIDEOS_4_API_CAPABILITY_def VIDEOS_API_CAPABILITY_def VIDEO2_REFERENCE_LIMITS_def
        CREATION_VIDEO_IMAGE_REFERENCE_MAX_COUNT_def)
  have "exceeds (image_count ?n) (num 4)"
    using assms(2) unfolding videos4_image_mode [OF assms(1)]
    by (simp add: exceeds_def image_count_def emptyCreationVideoReferences_def)
  then have "limit_error videos4_model VIDEOS_4_API_CAPABILITY ?n
      = Some (js ''Videos API accepts at most 9 image references.'')"
    using k videos4_families
    by (simp add: limit_error_def image_limit_msg_def xjz_kind_def or_else_def check_def Let_def del: js.simps)
  then show ?thesis
    using k videos4_capability
    by (simp add: getCreationVideoReferenceError_def getCreationVideoReferenceLimits_def Let_def xjz_kind_def
        spec_error_def minimax_error_def or_else_def del: js.simps)
qed

theorem videos4_limit_message_witness:
  "getCreationVideoReferenceError sample_parser videos4_model
     (emptyCreationVideoReferences\<lparr>referenceMode := ModeImage,
        imageUrls := replicate 5 (RefURL (js ''https://a/b.png''))\<rparr>)
   = Some (js ''Videos API accepts at most 9 image references.'')"
proof -
  have "ref_url (RefURL (js ''https://a/b.png'')) \<noteq> []" by (simp add: getCreationReferenceURL_def js_eval)
  then show ?thesis
    by (intro videos4_limit_message [THEN conjunct2]) (simp_all add: filter_replicate del: js.simps)
qed

end
