(* ===== verification/Image_Options.thy ===== *)
theory Image_Options
  imports Video_Request
begin

text \<open>
  Options, references and request bodies of image creation
  (\<open>features/media-generation/image-options.ts\<close>).  The file has its own copies of helpers of
  \<open>video-options.ts\<close>; those with the same text (\<open>getModelId\<close>, \<open>getModelMetadata\<close>,
  \<open>normalizeModelId\<close>, \<open>getSanbaoMediaType\<close>, \<open>cleanReferenceValues\<close>, \<open>isHTTPURL\<close>,
  \<open>isReferenceImage\<close>, \<open>getDataURLMime\<close>, \<open>getURLFileExtension\<close>) are the definitions made there;
  \<open>hasAllowedReferenceFormat\<close> differs and is defined here.
\<close>

section \<open>Data\<close>

record CreationImageReferences =
  ref_images :: "CreationVideoReferenceValue list"

record CreationImageOptions =
  img_aspectRatio :: jsstring
  img_outputResolution :: jsstring

text \<open>\<open>Partial<CreationImageOptions>\<close>\<close>

record PartialImageOptions =
  pi_aspectRatio :: "jsstring option"
  pi_outputResolution :: "jsstring option"

record CreationImageReferenceLimits =
  il_maxImages :: jsnum
  il_maxImageSizeBytes :: jsnum
  il_maxImageSizeMB :: jsnum

record AsyncImageCapability =
  as_aspectRatios :: "jsstring list"
  as_resolutions :: "jsstring list"
  as_defaultResolution :: jsstring
  as_maxImages :: jsnum

definition CREATION_IMAGE_REFERENCE_MAX_COUNT :: nat where
  "CREATION_IMAGE_REFERENCE_MAX_COUNT = 6"

definition CREATION_IMAGE_REFERENCE_MAX_BYTES :: jsnum where
  "CREATION_IMAGE_REFERENCE_MAX_BYTES = MB 20"

definition CREATION_IMAGE_ASPECT_RATIO_OPTIONS :: "jsstring list" where
  "CREATION_IMAGE_ASPECT_RATIO_OPTIONS =
     map js [''1:1'', ''16:9'', ''9:16'', ''4:3'', ''3:4'', ''3:2'', ''2:3'']"

definition EMPTY_CREATION_IMAGE_REFERENCES :: CreationImageReferences where
  "EMPTY_CREATION_IMAGE_REFERENCES = \<lparr>ref_images = []\<rparr>"

definition DEFAULT_CREATION_IMAGE_OPTIONS :: CreationImageOptions where
  "DEFAULT_CREATION_IMAGE_OPTIONS = \<lparr>img_aspectRatio = js ''1:1'', img_outputResolution = js ''1K''\<rparr>"

definition GPT_IMAGE_ASPECT_RATIOS :: "jsstring list" where
  "GPT_IMAGE_ASPECT_RATIOS = map js [''3:1'', ''21:9'', ''2:1'', ''16:9'', ''3:2'', ''4:3'', ''5:4'', ''1:1'',
     ''4:5'', ''3:4'', ''2:3'', ''9:16'', ''1:2'', ''1:3'']"

definition NANO_BANANA_ASPECT_RATIOS :: "jsstring list" where
  "NANO_BANANA_ASPECT_RATIOS = map js [''21:9'', ''16:9'', ''3:2'', ''4:3'', ''5:4'', ''1:1'', ''4:5'', ''3:4'',
     ''2:3'', ''9:16'']"

definition async_capability :: "jsstring list \<Rightarrow> string list \<Rightarrow> string \<Rightarrow> nat \<Rightarrow> AsyncImageCapability" where
  "async_capability ratios rs d n = \<lparr>as_aspectRatios = ratios, as_resolutions = map js rs,
     as_defaultResolution = js d, as_maxImages = num n\<rparr>"

definition ASYNC_IMAGE_CAPABILITIES :: "(jsstring \<times> AsyncImageCapability) list" where
  "ASYNC_IMAGE_CAPABILITIES =
     [(js ''gpt-image-2'', async_capability GPT_IMAGE_ASPECT_RATIOS [''1K'', ''2K'', ''4K''] ''2K'' 17),
      (js ''gpt-image-2.5'', async_capability GPT_IMAGE_ASPECT_RATIOS [''1K'', ''2K'', ''4K''] ''2K'' 17),
      (js ''nano-banana-pro'', async_capability NANO_BANANA_ASPECT_RATIOS [''1K'', ''2K'', ''4K''] ''1K'' 10),
      (js ''nano-banana2'', async_capability NANO_BANANA_ASPECT_RATIOS [''1K'', ''2K'', ''4K''] ''1K'' 14),
      (js ''seedream-5-0'', async_capability (map js [''16:9'', ''4:3'', ''1:1'', ''3:4'', ''9:16''])
         [''2K'', ''3K''] ''2K'' 14)]"

definition IMAGE_REFERENCE_EXTENSIONS :: "jsstring list" where
  "IMAGE_REFERENCE_EXTENSIONS = map js [''jpeg'', ''jpg'', ''png'', ''webp'']"
definition IMAGE_REFERENCE_MIME_TYPES :: "jsstring list" where
  "IMAGE_REFERENCE_MIME_TYPES = map js [''image/jpeg'', ''image/png'', ''image/webp'']"
definition LEGACY_IMAGE_REFERENCE_EXTENSIONS :: "jsstring list" where
  "LEGACY_IMAGE_REFERENCE_EXTENSIONS = map js [''avif'', ''gif''] @ IMAGE_REFERENCE_EXTENSIONS"
definition LEGACY_IMAGE_REFERENCE_MIME_TYPES :: "jsstring list" where
  "LEGACY_IMAGE_REFERENCE_MIME_TYPES = map js [''image/avif'', ''image/gif''] @ IMAGE_REFERENCE_MIME_TYPES"

section \<open>Models\<close>

definition provider_is :: "CreationModelInput \<Rightarrow> string \<Rightarrow> bool" where
  "provider_is model p \<longleftrightarrow>
     map_option (\<lambda>s. toLowerCase (trim s)) (Option.bind (getModelMetadata model) provider) = Some (js p)"

definition getAsyncImageCapability :: "CreationModelInput \<Rightarrow> AsyncImageCapability option" where
  "getAsyncImageCapability model =
     (case map_of ASYNC_IMAGE_CAPABILITIES (normalizeModelId model) of
        None \<Rightarrow> None
      | Some c \<Rightarrow> if provider_is model ''linksky'' then Some c else None)"

definition model_endpoints :: "CreationModelInput \<Rightarrow> MappedEndpoint list" where
  "model_endpoints model = (case model of ModelObject m \<Rightarrow> or_list (mapped_endpoints m) | _ \<Rightarrow> [])"

definition getMappedImageParameters :: "CreationModelInput \<Rightarrow> IntegrationParameters option" where
  "getMappedImageParameters model =
     (if map_option toLowerCase (Option.bind (getModelMetadata model) provider) = Some (js ''sanbao'')
         \<or> getAsyncImageCapability model \<noteq> None then None
      else
        (let eps = model_endpoints model;
             generation = Option.bind (find (\<lambda>e. ep_kind e = js ''image'') eps) ep_parameters;
             edit = Option.bind (find (\<lambda>e. ep_path e = js ''/v1/images/edits'') eps) ep_parameters
         in case (generation, edit) of
              (Some g, Some e) \<Rightarrow>
                if ip_image_field e = Some (js ''image[]'')
                then Some (g\<lparr>ip_image_field := ip_image_field e, ip_max_images := ip_max_images e,
                  ip_min_images := Some (Fin 0)\<rparr>)
                else generation
            | _ \<Rightarrow> generation))"

definition usesAsyncCreationImageModel :: "CreationModelInput \<Rightarrow> bool" where
  "usesAsyncCreationImageModel model \<longleftrightarrow>
     map_option ep_path (find (\<lambda>e. ep_kind e = js ''image'') (model_endpoints model))
       = Some (js ''/v1/images/async-generations'')
     \<or> getAsyncImageCapability model \<noteq> None"

definition isSanbaoImageModel :: "CreationModelInput \<Rightarrow> bool" where
  "isSanbaoImageModel model \<longleftrightarrow> provider_is model ''sanbao''
     \<and> (case getSanbaoMediaType (getModelMetadata model) of
          None \<Rightarrow> False | Some t \<Rightarrow> includes_str t (js ''image''))"

definition cleanAspectRatioOptions :: "jsstring list option \<Rightarrow> jsstring list" where
  "cleanAspectRatioOptions values = clean_strings [] (map StrV (or_list values))"

definition truthy_text :: "jsstring option \<Rightarrow> bool" where
  "truthy_text v = (case v of None \<Rightarrow> False | Some s \<Rightarrow> s \<noteq> [])"

definition supportsCreationImageReferences :: "CreationModelInput \<Rightarrow> bool" where
  "supportsCreationImageReferences model \<longleftrightarrow>
     truthy_text (Option.bind (getMappedImageParameters model) ip_image_field)
     \<or> usesAsyncCreationImageModel model \<or> normalizeModelId model = js ''gpt-image2''
     \<or> isSanbaoImageModel model"

definition image_limits :: "jsnum \<Rightarrow> jsnum \<Rightarrow> jsnum \<Rightarrow> CreationImageReferenceLimits" where
  "image_limits n bytes mb = \<lparr>il_maxImages = n, il_maxImageSizeBytes = bytes, il_maxImageSizeMB = mb\<rparr>"

definition getCreationImageReferenceLimits :: "CreationModelInput \<Rightarrow> CreationImageReferenceLimits" where
  "getCreationImageReferenceLimits model =
     (case getMappedImageParameters model of
        Some p \<Rightarrow>
          (let mb = or_num (ip_max_image_size_mb p) 20 in image_limits (ip_max_images p) (mb_bytes mb) mb)
      | None \<Rightarrow>
          if isSanbaoImageModel model then
            (let md = getModelMetadata model; mb = or_num (Option.bind md max_image_size_mb) 20
             in image_limits (or_num (Option.bind md max_images) CREATION_IMAGE_REFERENCE_MAX_COUNT) (mb_bytes mb) mb)
          else (case getAsyncImageCapability model of
            Some c \<Rightarrow> image_limits (as_maxImages c) CREATION_IMAGE_REFERENCE_MAX_BYTES (num 20)
          | None \<Rightarrow> image_limits (num CREATION_IMAGE_REFERENCE_MAX_COUNT) CREATION_IMAGE_REFERENCE_MAX_BYTES (num 20)))"

definition sanbao_ratios :: "CreationModelInput \<Rightarrow> jsstring list" where
  "sanbao_ratios model =
     (let md = getModelMetadata model; a = Option.bind md aspect_ratios
      in cleanAspectRatioOptions (if or_list a \<noteq> [] then a else Option.bind md md_ratios))"

definition getCreationImageAspectRatioOptions :: "CreationModelInput \<Rightarrow> jsstring list" where
  "getCreationImageAspectRatioOptions model =
     (let mapped = or_list (Option.bind (getMappedImageParameters model) ip_ratios)
      in if mapped \<noteq> [] then mapped
         else if isSanbaoImageModel model \<and> sanbao_ratios model \<noteq> [] then sanbao_ratios model
         else (case getAsyncImageCapability model of
           Some c \<Rightarrow> as_aspectRatios c
         | None \<Rightarrow> CREATION_IMAGE_ASPECT_RATIO_OPTIONS))"

definition getCreationImageResolutionOptions :: "CreationModelInput \<Rightarrow> jsstring list" where
  "getCreationImageResolutionOptions model =
     (case Option.bind (getMappedImageParameters model) ip_resolutions of
        Some rs \<Rightarrow> rs
      | None \<Rightarrow> (case getAsyncImageCapability model of Some c \<Rightarrow> as_resolutions c | None \<Rightarrow> []))"

section \<open>Normalisation\<close>

definition image_creation :: "CreationModelInput \<Rightarrow> bool" where
  "image_creation model \<longleftrightarrow> supportsCreationImageReferences model \<or> getMappedImageParameters model \<noteq> None"

definition normalizeCreationImageReferences ::
    "CreationVideoReferenceValue list option \<Rightarrow> CreationModelInput \<Rightarrow> CreationImageReferences" where
  "normalizeCreationImageReferences imgs model =
     (if \<not> image_creation model then EMPTY_CREATION_IMAGE_REFERENCES
      else \<lparr>ref_images = cleanReferenceValues imgs\<rparr>)"

definition normalizeCreationImageOptions ::
    "PartialImageOptions \<Rightarrow> CreationModelInput \<Rightarrow> CreationImageOptions" where
  "normalizeCreationImageOptions options model =
     (if \<not> image_creation model then DEFAULT_CREATION_IMAGE_OPTIONS
      else
        (let ratios = getCreationImageAspectRatioOptions model;
             one = img_aspectRatio DEFAULT_CREATION_IMAGE_OPTIONS;
             defaultRatio = (if one \<in> set ratios then one
               else (case first ratios of Some r \<Rightarrow> r | None \<Rightarrow> one));
             ratio = (case pi_aspectRatio options of
               Some r \<Rightarrow> if r \<in> set ratios then r else defaultRatio | None \<Rightarrow> defaultRatio);
             rs = getCreationImageResolutionOptions model;
             defaultRes = (case getAsyncImageCapability model of
               Some c \<Rightarrow> as_defaultResolution c
             | None \<Rightarrow> (case Option.bind (Option.bind (getMappedImageParameters model) ip_resolutions) first of
                 Some r \<Rightarrow> r | None \<Rightarrow> img_outputResolution DEFAULT_CREATION_IMAGE_OPTIONS));
             res = (case pi_outputResolution options of Some r \<Rightarrow> r | None \<Rightarrow> [])
         in \<lparr>img_aspectRatio = ratio,
             img_outputResolution = (if res \<in> set rs then res else defaultRes)\<rparr>))"

section \<open>Errors\<close>

definition image_hasAllowedReferenceFormat ::
    "url_parser \<Rightarrow> jsstring \<Rightarrow> jsstring list \<Rightarrow> jsstring list \<Rightarrow> bool" where
  "image_hasAllowedReferenceFormat parseURL value extensions mimeTypes =
     (let other = (isHTTPURL parseURL value \<or>
        (let e = getURLFileExtension parseURL value in e \<noteq> [] \<and> e \<in> set extensions))
      in case getDataURLMime value of
           Some mime \<Rightarrow> if mime \<noteq> [] then mime \<in> set mimeTypes else other
         | None \<Rightarrow> other)"

definition getCreationImageReferenceError ::
    "url_parser \<Rightarrow> CreationModelInput \<Rightarrow> CreationImageReferences \<Rightarrow> jsstring option" where
  "getCreationImageReferenceError parseURL model refs =
     (if \<not> supportsCreationImageReferences model then None
      else
        (let imgs = ref_images (normalizeCreationImageReferences (Some (ref_images refs)) model);
             limit = il_maxImages (getCreationImageReferenceLimits model);
             urls = texts imgs;
             strict = (usesAsyncCreationImageModel model
               \<or> Option.bind (getMappedImageParameters model) ip_image_field = Some (js ''image[]''))
         in if exceeds (length imgs) limit then
              Some (if isSanbaoImageModel model then js ''Sanbao accepts too many reference images.''
                else if \<not> usesAsyncCreationImageModel model \<and> getMappedImageParameters model = None
                then js ''Gpt-image2 accepts at most 6 reference images.''
                else js ''This image model accepts at most '' @ js_String limit @ js '' reference images.'')
            else if list_ex (\<lambda>u. \<not> isReferenceImage parseURL u) urls
            then Some (js ''Reference images must be images or HTTP URLs.'')
            else if list_ex (\<lambda>u. \<not> image_hasAllowedReferenceFormat parseURL u
                (if strict then IMAGE_REFERENCE_EXTENSIONS else LEGACY_IMAGE_REFERENCE_EXTENSIONS)
                (if strict then IMAGE_REFERENCE_MIME_TYPES else LEGACY_IMAGE_REFERENCE_MIME_TYPES)) urls
            then Some (if strict then js ''Reference image format must be PNG, JPEG, or WebP.''
              else js ''Reference image format must be PNG, JPEG, WebP, GIF, or AVIF.'')
            else None))"

section \<open>Request bodies\<close>

datatype image_request_value =
    ImgStr jsstring
  | ImgStrs "jsstring list"
  | ImgNum jsnum
  | ImgMessages jsstring "jsstring list"   \<comment> \<open>one user message: the prompt and the image parts\<close>

type_synonym CreationImageRequestOptions = "jsstring \<Rightarrow> image_request_value option"

definition put_urls :: "string \<Rightarrow> jsstring list \<Rightarrow> CreationImageRequestOptions \<Rightarrow> CreationImageRequestOptions" where
  "put_urls k urls r = (if urls = [] then r else r(js k \<mapsto> ImgStrs urls))"

definition put_field ::
    "jsstring option \<Rightarrow> image_request_value \<Rightarrow> CreationImageRequestOptions \<Rightarrow> CreationImageRequestOptions" where
  "put_field f v r = (case f of Some k \<Rightarrow> if k \<noteq> [] then r(k \<mapsto> v) else r | None \<Rightarrow> r)"

definition mapped_image_request ::
    "IntegrationParameters \<Rightarrow> CreationImageOptions \<Rightarrow> jsstring list \<Rightarrow> CreationImageRequestOptions" where
  "mapped_image_request p o' urls =
     (let r1 = put_field (ip_ratio_field p) (ImgStr (img_aspectRatio o')) Map.empty;
          r2 = put_field (ip_resolution_field p)
            (ImgStr (or_string (ip_request_resolution p) (img_outputResolution o'))) r1
      in if urls = [] then r2
         else put_field (ip_image_field p)
           (if endsWith (or_string (ip_image_field p) []) (js ''_url'') then ImgStr (hd urls) else ImgStrs urls) r2)"

definition getCreationImageRequestOptions ::
    "jsstring \<Rightarrow> CreationModelInput \<Rightarrow> CreationImageReferences \<Rightarrow> PartialImageOptions
      \<Rightarrow> CreationImageRequestOptions" where
  "getCreationImageRequestOptions prompt model refs options =
     (if \<not> image_creation model then Map.empty
      else
        (let o' = normalizeCreationImageOptions options model;
             urls = texts (ref_images (normalizeCreationImageReferences (Some (ref_images refs)) model))
         in case getMappedImageParameters model of
              Some p \<Rightarrow> mapped_image_request p o' urls
            | None \<Rightarrow>
                if isSanbaoImageModel model then
                  (put_urls ''images'' urls (Map.empty(js ''aspect_ratio'' \<mapsto> ImgStr (img_aspectRatio o'))))
                    (js ''quality'' \<mapsto> ImgStr (js ''high''), js ''concurrency'' \<mapsto> ImgNum (num 1))
                else if usesAsyncCreationImageModel model then
                  put_urls ''image_urls'' urls (Map.empty
                    (js ''output_resolution'' \<mapsto> ImgStr (img_outputResolution o'),
                     js ''aspect_ratio'' \<mapsto> ImgStr (img_aspectRatio o')))
                else
                  (let r = Map.empty(js ''output_resolution'' \<mapsto> ImgStr (js ''1K''),
                         js ''aspect_ratio'' \<mapsto> ImgStr (img_aspectRatio o'))
                   in if urls = [] then r else r(js ''messages'' \<mapsto> ImgMessages prompt urls))))"

end
