(* ===== verification/Image_Options_Props.thy ===== *)
theory Image_Options_Props
  imports Image_Options Video_Request_Props
begin

text \<open>
  Properties of image creation: normalised options are offered by the model and stable, and what an
  accepted request carries has passed the checks.
\<close>

section \<open>Options\<close>

definition to_partial_image :: "CreationImageOptions \<Rightarrow> PartialImageOptions" where
  "to_partial_image o' = \<lparr>pi_aspectRatio = Some (img_aspectRatio o'),
     pi_outputResolution = Some (img_outputResolution o')\<rparr>"

lemma ratios_nonempty: "getCreationImageAspectRatioOptions model \<noteq> []"
proof -
  have "as_aspectRatios c \<noteq> []" if "getAsyncImageCapability model = Some c" for c
  proof -
    have "list_all (\<lambda>(k, c). as_aspectRatios c \<noteq> []) ASYNC_IMAGE_CAPABILITIES"
      by (simp add: ASYNC_IMAGE_CAPABILITIES_def async_capability_def GPT_IMAGE_ASPECT_RATIOS_def
          NANO_BANANA_ASPECT_RATIOS_def)
    then show ?thesis using that by (auto simp: getAsyncImageCapability_def list_all_iff split: option.splits if_splits
          dest!: map_of_SomeD)
  qed
  then show ?thesis
    by (auto simp: getCreationImageAspectRatioOptions_def CREATION_IMAGE_ASPECT_RATIO_OPTIONS_def Let_def
        split: option.splits)
qed

lemma async_default: "getAsyncImageCapability model = Some c \<Longrightarrow> as_defaultResolution c \<in> set (as_resolutions c)"
proof -
  assume a: "getAsyncImageCapability model = Some c"
  have "list_all (\<lambda>(k, c). as_defaultResolution c \<in> set (as_resolutions c)) ASYNC_IMAGE_CAPABILITIES"
    by (simp add: ASYNC_IMAGE_CAPABILITIES_def async_capability_def)
  then show ?thesis using a by (auto simp: getAsyncImageCapability_def list_all_iff split: option.splits if_splits
        dest!: map_of_SomeD)
qed

lemma async_not_mapped: "getAsyncImageCapability model = Some c \<Longrightarrow> getMappedImageParameters model = None"
  by (simp add: getMappedImageParameters_def)

definition default_resolution :: "CreationModelInput \<Rightarrow> jsstring" where
  "default_resolution model = (case getAsyncImageCapability model of
     Some c \<Rightarrow> as_defaultResolution c
   | None \<Rightarrow> (case Option.bind (Option.bind (getMappedImageParameters model) ip_resolutions) first of
       Some r \<Rightarrow> r | None \<Rightarrow> img_outputResolution DEFAULT_CREATION_IMAGE_OPTIONS))"

lemma default_resolution_offered:
  "getCreationImageResolutionOptions model = [] \<or> default_resolution model \<in> set (getCreationImageResolutionOptions model)"
  using async_default [of model] async_not_mapped [of model]
  by (cases "getAsyncImageCapability model"; cases "Option.bind (getMappedImageParameters model) ip_resolutions")
    (auto simp: getCreationImageResolutionOptions_def default_resolution_def first_def split: list.splits)

lemma first_member: "xs \<noteq> [] \<Longrightarrow> first xs = Some (hd xs)"
  by (cases xs) (auto simp: first_def)

definition offered_image :: "CreationModelInput \<Rightarrow> CreationImageOptions \<Rightarrow> bool" where
  "offered_image model o' \<longleftrightarrow>
     (if image_creation model
      then img_aspectRatio o' \<in> set (getCreationImageAspectRatioOptions model)
        \<and> (img_outputResolution o' \<in> set (getCreationImageResolutionOptions model)
           \<or> img_outputResolution o' = default_resolution model)
      else o' = DEFAULT_CREATION_IMAGE_OPTIONS)"

lemma normalize_image_offered: "offered_image model (normalizeCreationImageOptions p model)"
  using ratios_nonempty [of model] first_member [of "getCreationImageAspectRatioOptions model"]
  by (auto simp: offered_image_def normalizeCreationImageOptions_def default_resolution_def Let_def
      split: option.splits)

interpretation image_options: normaliser "\<lambda>o'. normalizeCreationImageOptions (to_partial_image o') model"
    "offered_image model" for model
proof unfold_locales
  fix o' model
  show "offered_image model (normalizeCreationImageOptions (to_partial_image o') model)"
    by (rule normalize_image_offered)
  assume "offered_image model o'"
  then show "normalizeCreationImageOptions (to_partial_image o') model = o'"
    by (auto simp: offered_image_def normalizeCreationImageOptions_def to_partial_image_def default_resolution_def Let_def
        split: if_splits)
qed

section \<open>Requests\<close>

text \<open>The reference texts of a request body: lists and messages hold only references, and so does the
  image field of a mapped endpoint, if no option is written under the same name.\<close>

definition image_value_texts :: "image_request_value option \<Rightarrow> jsstring set" where
  "image_value_texts v = (case v of Some (ImgStrs l) \<Rightarrow> set l | Some (ImgMessages p l) \<Rightarrow> set l | _ \<Rightarrow> {})"

definition image_media :: "IntegrationParameters option \<Rightarrow> CreationImageRequestOptions \<Rightarrow> jsstring set" where
  "image_media sp r = (\<Union>k. image_value_texts (r k)) \<union>
     (case sp of
        Some p \<Rightarrow>
          if ip_image_field p = None \<or> ip_image_field p \<in> {ip_ratio_field p, ip_resolution_field p} then {}
          else (case r (the (ip_image_field p)) of Some (ImgStr s) \<Rightarrow> {s} | _ \<Rightarrow> {})
      | None \<Rightarrow> {})"

lemma mapped_media:
  "image_media (Some p) (mapped_image_request p o' urls) \<subseteq> set urls"
  using hd_in_set [of urls]
  by (fastforce simp: image_media_def mapped_image_request_def put_field_def image_value_texts_def or_string_def Let_def
      split: option.splits if_splits image_request_value.splits)

lemma plain_media:
  "image_media None ((put_urls k urls (Map.empty(a \<mapsto> ImgStr x)))(b \<mapsto> ImgStr y, c \<mapsto> ImgNum z)) \<subseteq> set urls"
  "image_media None (put_urls k urls (Map.empty(a \<mapsto> ImgStr x, b \<mapsto> ImgStr y))) \<subseteq> set urls"
  "image_media None (Map.empty(a \<mapsto> ImgStr x, b \<mapsto> ImgStr y)) = {}"
  "image_media None (Map.empty(a \<mapsto> ImgStr x, b \<mapsto> ImgStr y, c \<mapsto> ImgMessages pr urls)) \<subseteq> set urls"
  by (auto simp: image_media_def image_value_texts_def put_urls_def split: if_splits)

lemma request_media:
  "image_media (getMappedImageParameters model) (getCreationImageRequestOptions prompt model refs options)
   \<subseteq> set (texts (ref_images (normalizeCreationImageReferences (Some (ref_images refs)) model)))"
proof (cases "image_creation model")
  case False
  then show ?thesis
    by (auto simp: getCreationImageRequestOptions_def image_media_def image_value_texts_def split: option.splits)
next
  case True
  then show ?thesis
    using mapped_media plain_media
    by (cases "getMappedImageParameters model")
      (auto simp: getCreationImageRequestOptions_def Let_def simp del: js.simps split: if_splits)
qed


lemma unsupported_no_media:
  assumes "\<not> supportsCreationImageReferences model"
  shows "image_media (getMappedImageParameters model) (getCreationImageRequestOptions prompt model refs options) = {}"
proof (cases "getMappedImageParameters model")
  case None
  then show ?thesis using assms
    by (auto simp: getCreationImageRequestOptions_def image_creation_def image_media_def image_value_texts_def)
next
  case (Some p)
  then have "ip_image_field p = None \<or> ip_image_field p = Some []"
    using assms by (auto simp: supportsCreationImageReferences_def truthy_text_def split: option.splits)
  then show ?thesis using Some
    by (auto simp: getCreationImageRequestOptions_def image_creation_def mapped_image_request_def put_field_def
        image_media_def image_value_texts_def Let_def split: option.splits if_splits)
qed

section \<open>Properties\<close>

text \<open>Image options: the normalised aspect ratio is one the model offers, and so is the resolution
  when the model offers any; normalising the result again changes nothing.\<close>

theorem image_options_normal_form:
  assumes "image_creation model"
  shows "img_aspectRatio (normalizeCreationImageOptions p model) \<in> set (getCreationImageAspectRatioOptions model)
    \<and> (getCreationImageResolutionOptions model = []
       \<or> img_outputResolution (normalizeCreationImageOptions p model) \<in> set (getCreationImageResolutionOptions model))
    \<and> normalizeCreationImageOptions (to_partial_image (normalizeCreationImageOptions p model)) model
      = normalizeCreationImageOptions p model"
  using normalize_image_offered [of model p] default_resolution_offered [of model] assms
    image_options.norm_id [OF normalize_image_offered]
  by (auto simp: offered_image_def)

definition gpt_image2 :: CreationModelInput where
  "gpt_image2 = ModelString (js '' GPT-image2'')"

lemma gpt_image2_supported: "supportsCreationImageReferences gpt_image2"
  by (simp add: supportsCreationImageReferences_def gpt_image2_def normalizeModelId_def getModelId_def js_eval)

lemma gpt_image2_plain:
  "getMappedImageParameters gpt_image2 = None" "getAsyncImageCapability gpt_image2 = None"
  "\<not> isSanbaoImageModel gpt_image2"
  by (simp_all add: getMappedImageParameters_def getAsyncImageCapability_def isSanbaoImageModel_def provider_is_def
      gpt_image2_def model_endpoints_def getModelMetadata_def Let_def split: option.splits)

theorem image_options_normal_form_witness:
  "img_aspectRatio (normalizeCreationImageOptions
      \<lparr>pi_aspectRatio = Some (js ''5:4''), pi_outputResolution = None\<rparr> gpt_image2)
   \<in> set (getCreationImageAspectRatioOptions gpt_image2)"
  using image_options_normal_form [of gpt_image2] gpt_image2_supported by (simp add: image_creation_def)

text \<open>C39: An accepted image request: when the references raise no error, every reference text of the
  request body is an HTTP(S) URL or the data URL of an image, and their number is within the
  limit of a model that supports references.\<close>

theorem accepted_image_request_safe:
  assumes "getCreationImageReferenceError parseURL model refs = None"
  shows "(\<forall>u\<in>image_media (getMappedImageParameters model) (getCreationImageRequestOptions prompt model refs options).
        isReferenceImage parseURL u)
    \<and> (supportsCreationImageReferences model \<longrightarrow>
        \<not> exceeds (length (ref_images (normalizeCreationImageReferences (Some (ref_images refs)) model)))
          (il_maxImages (getCreationImageReferenceLimits model)))"
proof (cases "supportsCreationImageReferences model")
  case False
  then show ?thesis using unsupported_no_media by simp
next
  case True
  then have "\<forall>u\<in>set (texts (ref_images (normalizeCreationImageReferences (Some (ref_images refs)) model))).
      isReferenceImage parseURL u"
    using assms by (auto simp: getCreationImageReferenceError_def Let_def list_ex_iff split: if_splits)
  moreover have "\<not> exceeds (length (ref_images (normalizeCreationImageReferences (Some (ref_images refs)) model)))
          (il_maxImages (getCreationImageReferenceLimits model))"
    using assms True by (auto simp: getCreationImageReferenceError_def Let_def split: if_splits)
  ultimately show ?thesis using request_media by blast
qed

lemma gpt_image2_accepts:
  "getCreationImageReferenceError sample_parser gpt_image2 \<lparr>ref_images = [RefURL (js ''https://a/b.png'')]\<rparr> = None"
proof -
  have n: "ref_images (normalizeCreationImageReferences (Some [RefURL (js ''https://a/b.png'')]) gpt_image2)
      = [RefURL (js ''https://a/b.png'')]"
    using gpt_image2_supported
    by (simp add: normalizeCreationImageReferences_def image_creation_def cleanReferenceValues_def or_list_def
        getCreationReferenceURL_def js_eval)
  have "texts [RefURL (js ''https://a/b.png'')] = [js ''https://a/b.png'']"
    by (simp add: texts_def getCreationReferenceURL_def js_eval)
  moreover have h: "isHTTPURL sample_parser (js ''https://a/b.png'')"
    by (simp add: isHTTPURL_def sample_parser_def startsWith_def)
  moreover have "getDataURLMime (js ''https://a/b.png'') = None"
    by (simp add: getDataURLMime_def data_url_re_def re_match_begin any_case_def)
  moreover have "il_maxImages (getCreationImageReferenceLimits gpt_image2) = num 6"
    by (simp add: getCreationImageReferenceLimits_def gpt_image2_plain image_limits_def
        CREATION_IMAGE_REFERENCE_MAX_COUNT_def)
  ultimately show ?thesis
    using n gpt_image2_supported
    by (simp add: getCreationImageReferenceError_def isReferenceImage_def image_hasAllowedReferenceFormat_def
        exceeds_def Let_def del: js.simps)
qed

theorem accepted_image_request_safe_witness:
  "getCreationImageReferenceError sample_parser gpt_image2 \<lparr>ref_images = [RefURL (js ''https://a/b.png'')]\<rparr> = None
   \<and> \<not> exceeds (length (ref_images (normalizeCreationImageReferences
          (Some [RefURL (js ''https://a/b.png'')]) gpt_image2)))
        (il_maxImages (getCreationImageReferenceLimits gpt_image2))"
  using accepted_image_request_safe [OF gpt_image2_accepts] gpt_image2_accepts gpt_image2_supported by simp

end
