(* ===== verification/JSON_Text.thy ===== *)
theory JSON_Text
  imports JS_JSON
begin

text \<open>
  \<open>JSON.stringify(v, null, gap)\<close> on parsed values and what \<open>JSON.parse\<close> makes of its text.  The
  members of an object are written in the order of \<open>Object.keys\<close>; a number that is not finite is
  written as \<open>null\<close>.  For values whose strings are code units, whose numbers read back and whose
  objects have distinct keys in that order, parsing the text gives the value again, whatever the
  indentation.
\<close>

section \<open>Writing\<close>

definition json_newline :: "jsstring \<Rightarrow> jsstring \<Rightarrow> jsstring" where
  "json_newline gap ind = (if gap = [] then [] else 10 # ind)"

definition json_bracket :: "unit16 \<Rightarrow> unit16 \<Rightarrow> jsstring \<Rightarrow> jsstring \<Rightarrow> jsstring list \<Rightarrow> jsstring" where
  "json_bracket a b gap ind xs =
     (if xs = [] then [a, b]
      else a # json_newline gap (ind @ gap) @ join (44 # json_newline gap (ind @ gap)) xs
        @ json_newline gap ind @ [b])"

definition json_member :: "jsstring \<Rightarrow> jsstring \<times> jsstring \<Rightarrow> jsstring" where
  "json_member gap m = json_quote (fst m) @ 58 # (if gap = [] then [] else [32]) @ snd m"

fun json_text :: "jsstring \<Rightarrow> jsstring \<Rightarrow> json \<Rightarrow> jsstring"
  and elem_texts :: "jsstring \<Rightarrow> jsstring \<Rightarrow> json list \<Rightarrow> jsstring list"
  and member_texts :: "jsstring \<Rightarrow> jsstring \<Rightarrow> (jsstring \<times> json) list \<Rightarrow> (jsstring \<times> jsstring) list" where
  "json_text gap ind JNull = js ''null''"
| "json_text gap ind (JBool b) = js (if b then ''true'' else ''false'')"
| "json_text gap ind (JNum n) = (if js_isFinite n then js_String n else js ''null'')"
| "json_text gap ind (JStr s) = json_quote s"
| "json_text gap ind (JArr vs) = json_bracket 91 93 gap ind (elem_texts gap (ind @ gap) vs)"
| "json_text gap ind (JObj ps) =
     json_bracket 123 125 gap ind (map (json_member gap) (obj_entries (member_texts gap (ind @ gap) ps)))"
| "elem_texts gap ind [] = []"
| "elem_texts gap ind (v # vs) = json_text gap ind v # elem_texts gap ind vs"
| "member_texts gap ind [] = []"
| "member_texts gap ind ((k, v) # ps) = (k, json_text gap ind v) # member_texts gap ind ps"

definition json_stringify :: "json \<Rightarrow> jsstring" where
  "json_stringify v = json_text [] [] v"

text \<open>\<open>JSON.stringify(v, null, 2)\<close>.\<close>

definition json_pretty :: "json \<Rightarrow> jsstring" where
  "json_pretty v = json_text [32, 32] [] v"

lemma elem_texts_map: "elem_texts gap ind vs = map (json_text gap ind) vs"
  by (induction vs) simp_all

lemma member_texts_map: "member_texts gap ind ps = map (\<lambda>(k, v). (k, json_text gap ind v)) ps"
  by (induction ps) auto

lemma insort_key_map: "insort_key f (g x) (map g xs) = map g (insort_key (f \<circ> g) x xs)"
  by (induction xs) auto

lemma sort_key_map: "sort_key f (map g xs) = map g (sort_key (f \<circ> g) xs)"
  by (induction xs) (simp_all add: insort_key_map del: comp_apply)

lemma obj_entries_map: "obj_entries (map (\<lambda>(k, v). (k, f v)) ps) = map (\<lambda>(k, v). (k, f v)) (obj_entries ps)"
proof -
  have "(read_nat \<circ> fst) \<circ> (\<lambda>(k, v). (k, f v)) = read_nat \<circ> fst" "(is_index_key \<circ> fst) \<circ> (\<lambda>(k, v). (k, f v)) = is_index_key \<circ> fst"
    "(\<lambda>p. \<not> is_index_key (fst p)) \<circ> (\<lambda>(k, v). (k, f v)) = (\<lambda>p. \<not> is_index_key (fst p))"
    by (auto simp: fun_eq_iff)
  then show ?thesis by (simp add: obj_entries_def filter_map sort_key_map)
qed

section \<open>A pattern does not read past a unit it has no use for\<close>

primrec stops_at :: "unit16 \<Rightarrow> re \<Rightarrow> bool" where
  "stops_at u (RSet Q) \<longleftrightarrow> \<not> Q u"
| "stops_at u REps \<longleftrightarrow> True"
| "stops_at u (RSeq a b) \<longleftrightarrow> stops_at u a \<and> stops_at u b"
| "stops_at u (RAlt a b) \<longleftrightarrow> stops_at u a \<and> stops_at u b"
| "stops_at u (RStar a) \<longleftrightarrow> stops_at u a"
| "stops_at u (RGroup i a) \<longleftrightarrow> stops_at u a"
| "stops_at u (RBack i) \<longleftrightarrow> False"
| "stops_at u RBegin \<longleftrightarrow> True"
| "stops_at u REnd \<longleftrightarrow> False"
| "stops_at u RWordB \<longleftrightarrow> False"

definition followed :: "jsstring \<Rightarrow> rstate \<Rightarrow> rstate" where
  "followed t st = (fst st, rest_of st @ t, snd (snd st))"

lemma followed_simps [simp]: "followed t (p, s, c) = (p, s @ t, c)" "fst (followed t st) = fst st" "rest_of (followed t st) = rest_of st @ t"
  by (simp_all add: followed_def)

lemma star_followed:
  assumes "\<And>st. rmatch r (followed t st) = map (followed t) (rmatch r st)"
  shows "rmatch (RStar r) (followed t st) = map (followed t) (rmatch (RStar r) st)"
proof (induction "length (rest_of st)" arbitrary: st rule: less_induct)
  case less
  have "(if length (rest_of st' @ t) < length (rest_of st @ t) then rmatch (RStar r) (followed t st') else [])
      = map (followed t) (if length (rest_of st') < length (rest_of st) then rmatch (RStar r) st' else [])" for st'
    using less [of st'] by simp
  then show ?case
    by (subst (1 2) rmatch_star_unfold) (simp add: assms map_concat comp_def del: rmatch.simps)
qed

lemma rmatch_followed: "stops_at u r \<Longrightarrow> rmatch r (followed (u # t) st) = map (followed (u # t)) (rmatch r st)"
proof (induction r arbitrary: st)
  case (RSet Q)
  then show ?case by (cases st) (auto split: list.splits)
next
  case (RSeq a b)
  then show ?case by (simp add: map_concat comp_def)
next
  case (RStar a)
  then show ?case by (intro star_followed) simp
next
  case (RGroup i a)
  then show ?case by (simp add: case_prod_beta followed_def)
qed auto

section \<open>Numbers\<close>

definition number_unit :: "unit16 \<Rightarrow> bool" where
  "number_unit u \<longleftrightarrow> is_digit u \<or> u \<in> {46, 101, 69, 43, 45}"

definition ends_value :: "jsstring \<Rightarrow> bool" where
  "ends_value r \<longleftrightarrow> r = [] \<or> \<not> number_unit (hd r)"

lemma number_stops: "\<not> number_unit u \<Longrightarrow> stops_at u json_number_re"
  by (auto simp: json_number_re_def number_unit_def ropt_def rplus_def rlit_def is_digit_def)

lemma parse_number_followed:
  assumes "parse_number s = Some (v, [])" "ends_value r"
  shows "parse_number (s @ r) = Some (v, r)"
proof (cases r)
  case Nil
  with assms show ?thesis by simp
next
  case (Cons u t)
  then have "stops_at u json_number_re" using assms(2) by (intro number_stops) (simp add: ends_value_def)
  then have "rmatch json_number_re ([], s @ u # t, no_caps) = map (followed (u # t)) (rmatch json_number_re ([], s, no_caps))"
    using rmatch_followed [of u json_number_re t "([], s, no_caps)"] by simp
  then show ?thesis using assms(1) Cons by (auto simp: parse_number_def split: list.splits)
qed

text \<open>A number whose text reads back as it is.\<close>

definition json_num :: "jsnum \<Rightarrow> bool" where
  "json_num n \<longleftrightarrow> js_isFinite n \<and> parse_number (js_String n) = Some (JNum n, [])"

lemma parse_number_starts:
  assumes "parse_number s = Some (v, r)"
  shows "\<exists>u t. s = u # t \<and> number_unit u"
proof -
  have "reads_only number_unit json_number_re"
    by (auto simp: json_number_re_def number_unit_def ropt_def rplus_def rlit_def is_digit_def)
  moreover obtain p c where "(p, r, c) \<in> set (rmatch json_number_re ([], s, no_caps))"
    using assms by (fastforce simp: parse_number_def split: list.splits)
  ultimately have "advance number_unit ([], s, no_caps) (p, r, c)" by (rule reads_only_advance)
  then obtain w where w: "s = w @ r" "list_all number_unit w" by (auto simp: advance_def)
  have "length r < length s" by (rule parse_number_less [OF assms])
  then show ?thesis using w by (cases w) auto
qed

section \<open>Reading what was written\<close>

text \<open>The values that are written and read without loss.\<close>

fun wf_json :: "json \<Rightarrow> bool" and wf_elems :: "json list \<Rightarrow> bool" and wf_members :: "(jsstring \<times> json) list \<Rightarrow> bool" where
  "wf_json JNull \<longleftrightarrow> True"
| "wf_json (JBool b) \<longleftrightarrow> True"
| "wf_json (JNum n) \<longleftrightarrow> json_num n"
| "wf_json (JStr s) \<longleftrightarrow> list_all (\<lambda>u. u < 65536) s"
| "wf_json (JArr vs) \<longleftrightarrow> wf_elems vs"
| "wf_json (JObj ps) \<longleftrightarrow> distinct (map fst ps) \<and> obj_entries ps = ps \<and> wf_members ps"
| "wf_elems [] \<longleftrightarrow> True"
| "wf_elems (v # vs) \<longleftrightarrow> wf_json v \<and> wf_elems vs"
| "wf_members [] \<longleftrightarrow> True"
| "wf_members ((k, v) # ps) \<longleftrightarrow> list_all (\<lambda>u. u < 65536) k \<and> wf_json v \<and> wf_members ps"

definition blank :: "jsstring \<Rightarrow> bool" where
  "blank w \<longleftrightarrow> list_all (\<lambda>u. u \<in> {32, 9, 10, 13}) w"

lemma blank_simps [simp]: "blank []" "blank (u # w) \<longleftrightarrow> u \<in> {32, 9, 10, 13} \<and> blank w" "blank (v @ w) \<longleftrightarrow> blank v \<and> blank w"
  by (auto simp: blank_def)

lemma skip_blank: "blank w \<Longrightarrow> skip_json_ws (w @ s) = skip_json_ws s"
  by (induction w) (auto simp: skip_json_ws_def)

lemma skip_unit [simp]: "u \<notin> {32, 9, 10, 13} \<Longrightarrow> skip_json_ws (u # s) = u # s"
  by (simp add: skip_json_ws_def)

definition value_at :: "jsstring \<Rightarrow> json \<Rightarrow> jsstring \<Rightarrow> bool" where
  "value_at s v r \<longleftrightarrow> (\<exists>N. \<forall>n\<ge>N. parse_value n s = Some (v, r))"

definition elems_at :: "json list \<Rightarrow> jsstring \<Rightarrow> json list \<Rightarrow> jsstring \<Rightarrow> bool" where
  "elems_at acc s vs r \<longleftrightarrow> (\<exists>N. \<forall>n\<ge>N. parse_elems n acc s = Some (JArr (acc @ vs), r))"

definition members_at :: "(jsstring \<times> json) list \<Rightarrow> jsstring \<Rightarrow> (jsstring \<times> json) list \<Rightarrow> jsstring \<Rightarrow> bool" where
  "members_at acc s ps r \<longleftrightarrow> (\<exists>N. \<forall>n\<ge>N. parse_members n acc s = Some (JObj (acc @ ps), r))"

lemma value_atI: "(\<And>n. N \<le> n \<Longrightarrow> parse_value (Suc n) s = Some (v, r)) \<Longrightarrow> value_at s v r"
  unfolding value_at_def by (rule exI [of _ "Suc N"]) (metis Suc_le_D Suc_le_mono)

lemma elems_atI: "(\<And>n. N \<le> n \<Longrightarrow> parse_elems (Suc n) acc s = Some (JArr (acc @ vs), r)) \<Longrightarrow> elems_at acc s vs r"
  unfolding elems_at_def by (rule exI [of _ "Suc N"]) (metis Suc_le_D Suc_le_mono)

lemma members_atI: "(\<And>n. N \<le> n \<Longrightarrow> parse_members (Suc n) acc s = Some (JObj (acc @ ps), r)) \<Longrightarrow> members_at acc s ps r"
  unfolding members_at_def by (rule exI [of _ "Suc N"]) (metis Suc_le_D Suc_le_mono)

lemma value_at_blank: "blank w \<Longrightarrow> value_at s v r \<Longrightarrow> value_at (w @ s) v r"
proof -
  assume w: "blank w" and "value_at s v r"
  then obtain N where N: "\<forall>n\<ge>N. parse_value n s = Some (v, r)" by (auto simp: value_at_def)
  have "parse_value (Suc n) (w @ s) = parse_value (Suc n) s" for n using skip_blank [OF w] by simp
  then show ?thesis using N by (intro value_atI [of N]) (simp del: parse_value.simps)
qed

lemma parse_word_number: "u \<notin> {110, 116, 102} \<Longrightarrow> parse_word (u # s) = parse_number (u # s)"
  by (auto simp: parse_word_def startsWith_def)

lemma number_at:
  assumes "json_num n" "ends_value r"
  shows "value_at (js_String n @ r) (JNum n) r"
proof -
  have p: "parse_number (js_String n @ r) = Some (JNum n, r)"
    using assms by (intro parse_number_followed) (auto simp: json_num_def)
  then obtain u t where u: "js_String n @ r = u # t" "number_unit u" using parse_number_starts by blast
  then have "u \<notin> {32, 9, 10, 13, 34, 91, 123, 110, 116, 102}" by (auto simp: number_unit_def is_digit_def)
  then show ?thesis using p parse_word_number [of u t] unfolding u(1) by (intro value_atI [of 0]) simp
qed

lemma word_at_value:
  "value_at (js ''null'' @ r) JNull r" "value_at (js ''true'' @ r) (JBool True) r" "value_at (js ''false'' @ r) (JBool False) r"
  by (rule value_atI [of 0]; simp add: parse_word_def startsWith_def)+

lemma string_at: "list_all (\<lambda>u. u < 65536) s \<Longrightarrow> value_at (json_quote s @ r) (JStr s) r"
  using parse_chars_quote [of s r] by (intro value_atI [of 0]) (simp add: json_quote_def list_all_iff)

text \<open>The first unit of a text closes no bracket.\<close>

lemma value_start:
  assumes "value_at s v r"
  shows "\<exists>u t. skip_json_ws s = u # t \<and> u \<notin> {93, 125}"
proof -
  obtain n where "parse_value n s = Some (v, r)" using assms unfolding value_at_def by blast
  then obtain m where m: "parse_value (Suc m) s = Some (v, r)" by (cases n) auto
  then obtain u t where u: "skip_json_ws s = u # t" by (auto split: list.splits)
  have "parse_word (w # t) = None" if w: "w \<in> {93, 125}" for w
  proof (rule ccontr)
    assume "parse_word (w # t) \<noteq> None"
    moreover have "parse_word (w # t) = parse_number (w # t)" using w by (intro parse_word_number) auto
    ultimately obtain x y where "parse_number (w # t) = Some (x, y)" by auto
    then show False using parse_number_starts w by (fastforce simp: number_unit_def is_digit_def)
  qed
  then have "u \<notin> {93, 125}" using m u by auto
  then show ?thesis using u by blast
qed

lemma elems_read:
  assumes "vs \<noteq> []" "blank w" "blank e"
    "\<And>v r. v \<in> set vs \<Longrightarrow> ends_value r \<Longrightarrow> value_at (f v @ r) v r"
    "\<not> number_unit (hd (e @ [93]))"
  shows "elems_at acc (w @ join (44 # w) (map f vs) @ e @ 93 # r) vs r"
  using assms(1,4)
proof (induction vs arbitrary: acc)
  case (Cons v vs)
  let ?r = "if vs = [] then e @ 93 # r else 44 # w @ join (44 # w) (map f vs) @ e @ 93 # r"
  have t: "join (44 # w) (map f (v # vs)) @ e @ 93 # r = f v @ ?r" by (cases vs) simp_all
  have "ends_value ?r" using assms(5) by (cases e) (auto simp: ends_value_def number_unit_def is_digit_def)
  then have "value_at (w @ f v @ ?r) v ?r" using Cons.prems(2) [of v ?r] by (intro value_at_blank [OF assms(2)]) simp
  then obtain N where N: "\<forall>n\<ge>N. parse_value n (w @ f v @ ?r) = Some (v, ?r)" unfolding value_at_def by blast
  show ?case
  proof (cases "vs = []")
    case True
    have "skip_json_ws ?r = 93 # r" using True skip_blank [OF assms(3)] by simp
    then show ?thesis using N True unfolding t by (intro elems_atI [of N]) simp
  next
    case False
    obtain M where M: "\<forall>n\<ge>M. parse_elems n (acc @ [v]) (w @ join (44 # w) (map f vs) @ e @ 93 # r) = Some (JArr (acc @ v # vs), r)"
      using Cons.IH [of "acc @ [v]", OF False] Cons.prems(2) by (auto simp: elems_at_def)
    show ?thesis using N M False unfolding t by (intro elems_atI [of "max N M"]) simp
  qed
qed simp

lemma obj_put_new: "k \<notin> fst ` set ps \<Longrightarrow> obj_put k v ps = ps @ [(k, v)]"
  by (induction ps) force+

lemma members_read:
  assumes "ps \<noteq> []" "blank w" "blank e" "blank g"
    "\<And>k v r. (k, v) \<in> set ps \<Longrightarrow> ends_value r \<Longrightarrow> value_at (f v @ r) v r"
    "\<And>k v. (k, v) \<in> set ps \<Longrightarrow> list_all (\<lambda>u. u < 65536) k"
    "\<not> number_unit (hd (e @ [125]))" "distinct (map fst (acc @ ps))"
  shows "members_at acc (w @ join (44 # w) (map (\<lambda>(k, v). json_quote k @ 58 # g @ f v) ps) @ e @ 125 # r) ps r"
  using assms(1,5,6,8)
proof (induction ps arbitrary: acc)
  case (Cons p ps)
  obtain k v where p: "p = (k, v)" by (cases p)
  let ?tail = "w @ join (44 # w) (map (\<lambda>(k, v). json_quote k @ 58 # g @ f v) ps) @ e @ 125 # r"
  let ?r = "if ps = [] then e @ 125 # r else 44 # ?tail"
  have t: "join (44 # w) (map (\<lambda>(k, v). json_quote k @ 58 # g @ f v) (p # ps)) @ e @ 125 # r = json_quote k @ 58 # g @ f v @ ?r"
    by (cases ps) (simp_all add: p)
  have "ends_value ?r" using assms(7) by (cases e) (auto simp: ends_value_def number_unit_def is_digit_def)
  then have "value_at (g @ f v @ ?r) v ?r" using Cons.prems(2) [of k v ?r] p by (intro value_at_blank [OF assms(4)]) simp
  then obtain N where N: "\<forall>n\<ge>N. parse_value n (g @ f v @ ?r) = Some (v, ?r)" unfolding value_at_def by blast
  have q: "skip_json_ws (w @ json_quote k @ x) = 34 # quote_units k @ 34 # x" "parse_chars (quote_units k @ 34 # x) = Some (k, x)" for x
    using skip_blank [OF assms(2), of "json_quote k @ x"] parse_chars_quote [of k x] Cons.prems(3) [of k v] p
    by (simp_all add: json_quote_def list_all_iff)
  have new: "obj_put k v acc = acc @ [(k, v)]" using Cons.prems(4) p by (intro obj_put_new) auto
  show ?case
  proof (cases "ps = []")
    case True
    have "skip_json_ws ?r = 125 # r" using True skip_blank [OF assms(3)] by simp
    then show ?thesis using N True q new p unfolding t by (intro members_atI [of N]) simp
  next
    case False
    have "members_at (acc @ [(k, v)]) ?tail ps r"
      by (rule Cons.IH [OF False]) (use Cons.prems(2-4) p in \<open>auto intro: Cons.prems(2,3)\<close>)
    then obtain M where M: "\<forall>n\<ge>M. parse_members n (acc @ [(k, v)]) ?tail = Some (JObj (acc @ (k, v) # ps), r)"
      by (auto simp: members_at_def)
    show ?thesis using N M False q new p unfolding t by (intro members_atI [of "max N M"]) simp
  qed
qed simp

section \<open>The round trip\<close>

lemma wf_elems_iff: "wf_elems vs \<longleftrightarrow> (\<forall>v\<in>set vs. wf_json v)"
  by (induction vs) simp_all

lemma wf_members_iff: "wf_members ps \<longleftrightarrow> (\<forall>(k, v)\<in>set ps. list_all (\<lambda>u. u < 65536) k \<and> wf_json v)"
  by (induction ps) auto

lemma newline_blank: "blank gap \<Longrightarrow> blank ind \<Longrightarrow> blank (json_newline gap ind)"
  by (simp add: json_newline_def)

lemma newline_ends: "blank w \<Longrightarrow> u \<in> {93, 125} \<Longrightarrow> \<not> number_unit (hd (w @ [u]))"
  by (cases w) (auto simp: number_unit_def is_digit_def)

lemma open_array: "elems_at [] s vs r \<Longrightarrow> skip_json_ws s = u # t \<Longrightarrow> u \<noteq> 93 \<Longrightarrow> value_at (91 # s) (JArr vs) r"
  unfolding elems_at_def by (elim exE) (rule value_atI, simp, blast)

lemma open_object: "members_at [] s ps r \<Longrightarrow> skip_json_ws s = u # t \<Longrightarrow> u \<noteq> 125 \<Longrightarrow> value_at (123 # s) (JObj ps) r"
  unfolding members_at_def by (elim exE) (rule value_atI, simp, blast)

lemma array_at:
  assumes "blank gap" "blank ind" "\<And>v r. v \<in> set vs \<Longrightarrow> ends_value r \<Longrightarrow> value_at (f v @ r) v r"
  shows "value_at (json_bracket 91 93 gap ind (map f vs) @ r) (JArr vs) r"
proof (cases vs)
  case Nil
  then show ?thesis by (intro value_atI [of 0]) (simp add: json_bracket_def)
next
  case (Cons v ws)
  let ?w = "json_newline gap (ind @ gap)" and ?e = "json_newline gap ind"
  have w: "blank ?w" "blank ?e" using assms(1,2) by (simp_all add: newline_blank)
  have e: "elems_at [] (?w @ join (44 # ?w) (map f vs) @ ?e @ 93 # r) vs r"
    using w assms(3) Cons newline_ends [OF w(2)] by (intro elems_read) auto
  let ?r = "(if ws = [] then [] else (44 # ?w) @ join (44 # ?w) (map f ws)) @ ?e @ 93 # r"
  have j: "join (44 # ?w) (map f vs) @ ?e @ 93 # r = f v @ ?r" using Cons by (cases ws) simp_all
  have "ends_value ?r" using w newline_ends [OF w(2), of 93] by (cases ?e) (auto simp: ends_value_def number_unit_def is_digit_def)
  then have "value_at (?w @ f v @ ?r) v ?r" using assms(3) [of v ?r] Cons by (intro value_at_blank [OF w(1)]) simp
  then obtain u t where "skip_json_ws (?w @ f v @ ?r) = u # t" "u \<noteq> 93" using value_start by blast
  then show ?thesis using open_array [OF e] Cons unfolding j by (simp add: json_bracket_def j [symmetric])
qed

lemma object_at:
  assumes "blank gap" "blank ind" "\<And>k v r. (k, v) \<in> set ps \<Longrightarrow> ends_value r \<Longrightarrow> value_at (f v @ r) v r"
    "\<And>k v. (k, v) \<in> set ps \<Longrightarrow> list_all (\<lambda>u. u < 65536) k" "distinct (map fst ps)"
  shows "value_at (json_bracket 123 125 gap ind (map (json_member gap) (map (\<lambda>(k, v). (k, f v)) ps)) @ r) (JObj ps) r"
proof (cases ps)
  case Nil
  then show ?thesis by (intro value_atI [of 0]) (simp add: json_bracket_def)
next
  case (Cons p qs)
  let ?w = "json_newline gap (ind @ gap)" and ?e = "json_newline gap ind" and ?g = "if gap = [] then [] else [32]"
  let ?m = "\<lambda>(k, v). json_quote k @ 58 # ?g @ f v"
  have w: "blank ?w" "blank ?e" "blank ?g" using assms(1,2) by (simp_all add: newline_blank)
  have m: "map (json_member gap) (map (\<lambda>(k, v). (k, f v)) ps) = map ?m ps" by (simp add: json_member_def comp_def case_prod_beta)
  have e: "members_at [] (?w @ join (44 # ?w) (map ?m ps) @ ?e @ 125 # r) ps r"
    using w assms(3-5) Cons newline_ends [OF w(2)] by (intro members_read) auto
  obtain k v where p: "p = (k, v)" by (cases p)
  have "\<exists>t. skip_json_ws (?w @ join (44 # ?w) (map ?m ps) @ ?e @ 125 # r) = 34 # t"
    unfolding skip_blank [OF w(1)] by (cases qs) (simp_all add: Cons p json_quote_def)
  then show ?thesis using open_object [OF e] Cons unfolding m by (auto simp: json_bracket_def)
qed

lemma json_text_at:
  "wf_json v \<Longrightarrow> blank gap \<Longrightarrow> blank ind \<Longrightarrow> ends_value r \<Longrightarrow> value_at (json_text gap ind v @ r) v r"
proof (induction v arbitrary: ind r)
  case (JBool b)
  then show ?case using word_at_value(2,3) by (cases b) simp_all
next
  case (JNum n)
  then show ?case using number_at [of n r] by (simp add: json_num_def)
next
  case (JArr vs)
  have "value_at (json_bracket 91 93 gap ind (map (json_text gap (ind @ gap)) vs) @ r) (JArr vs) r"
    by (rule array_at) (use JArr in \<open>auto simp: wf_elems_iff\<close>)
  then show ?case by (simp add: elem_texts_map)
next
  case (JObj ps)
  have o: "obj_entries (member_texts gap (ind @ gap) ps) = map (\<lambda>(k, v). (k, json_text gap (ind @ gap) v)) ps"
    using JObj.prems(1) by (simp add: member_texts_map obj_entries_map)
  have "value_at (json_bracket 123 125 gap ind (map (json_member gap) (map (\<lambda>(k, v). (k, json_text gap (ind @ gap) v)) ps)) @ r) (JObj ps) r"
    by (rule object_at) (use JObj in \<open>fastforce simp: wf_members_iff\<close>)+
  then show ?case by (simp add: o)
qed (use word_at_value string_at in simp_all)

lemma value_at_parse: "value_at s v [] \<Longrightarrow> json_parse s = Some v"
proof -
  assume "value_at s v []"
  then obtain N where "\<forall>n\<ge>N. parse_value n s = Some (v, [])" by (auto simp: value_at_def)
  then have "json_parse_fuel (max N (2 * length s + 2)) s = Some v" by (simp add: json_parse_fuel_def skip_json_ws_def)
  then show ?thesis using json_parse_enough [of s "max N (2 * length s + 2)"] by simp
qed

lemma json_text_reads_back: "wf_json v \<Longrightarrow> blank gap \<Longrightarrow> json_parse (json_text gap [] v) = Some v"
  using json_text_at [of v gap "[]" "[]"] by (intro value_at_parse) (simp add: ends_value_def)

lemma json_stringify_reads_back: "wf_json v \<Longrightarrow> json_parse (json_stringify v) = Some v"
  by (simp add: json_stringify_def json_text_reads_back)

lemma json_pretty_reads_back: "wf_json v \<Longrightarrow> json_parse (json_pretty v) = Some v"
  by (simp add: json_pretty_def json_text_reads_back)

section \<open>White space and whole numbers\<close>

lemma trimmed_ends_iff: "s \<noteq> [] \<Longrightarrow> \<not> is_ws (hd s) \<Longrightarrow> \<not> is_ws (last s) \<Longrightarrow> trimmed s"
  by (simp add: trimmed_def)

lemma number_units: "parse_number s = Some (v, []) \<Longrightarrow> list_all number_unit s"
proof -
  assume a: "parse_number s = Some (v, [])"
  have "reads_only number_unit json_number_re"
    by (auto simp: json_number_re_def number_unit_def ropt_def rplus_def rlit_def is_digit_def)
  moreover obtain p c where "(p, [], c) \<in> set (rmatch json_number_re ([], s, no_caps))"
    using a by (fastforce simp: parse_number_def split: list.splits)
  ultimately have "advance number_unit ([], s, no_caps) (p, [], c)" by (rule reads_only_advance)
  then show ?thesis by (simp add: advance_def)
qed

lemma bracket_ends: "\<exists>t. json_bracket a b gap ind xs = a # t @ [b]"
  by (auto simp: json_bracket_def intro: exI [of _ "[]"]) 

lemma json_text_trimmed:
  assumes "wf_json v"
  shows "trimmed (json_text gap ind v) \<and> json_text gap ind v \<noteq> []"
proof (cases v)
  case (JNum n)
  then have n: "json_num n" using assms by simp
  then have "list_all number_unit (js_String n)" by (intro number_units) (simp add: json_num_def)
  then have "\<forall>u\<in>set (js_String n). \<not> is_ws u" by (auto simp: list_all_iff number_unit_def is_digit_def is_ws_def)
  moreover have "js_String n \<noteq> []" using n parse_number_starts by (fastforce simp: json_num_def)
  ultimately show ?thesis using JNum n by (auto simp: json_num_def intro: trimmed_no_ws)
next
  case (JArr vs)
  then show ?thesis using bracket_ends [of 91 93 gap ind "elem_texts gap (ind @ gap) vs"] by (auto intro!: trimmed_ends_iff simp: is_ws_def)
next
  case (JObj ps)
  then show ?thesis
    using bracket_ends [of 123 125 gap ind "map (json_member gap) (obj_entries (member_texts gap (ind @ gap) ps))"]
    by (auto intro!: trimmed_ends_iff simp: is_ws_def)
qed (auto intro!: trimmed_ends_iff simp: is_ws_def json_quote_def)

lemma show_nat_head: "0 < n \<Longrightarrow> hd (show_nat n) \<noteq> 48"
proof (induction n rule: show_nat.induct)
  case (1 n)
  then show ?case by (subst show_nat.simps) (auto simp: hd_append)
qed

lemma digits_number:
  assumes "u \<noteq> 48" "is_digit u" "list_all is_digit w"
  shows "\<exists>c. first (rmatch json_number_re ([], u # w, no_caps)) = Some (rev w @ [u], [], c)"
proof -
  let ?tail = "RSeq (ropt (RSeq (rlit ''.'') (rplus (RSet is_digit))))
      (ropt (rseqs [RSet (\<lambda>u. u = 101 \<or> u = 69), ropt (RSet (\<lambda>u. u = 43 \<or> u = 45)), rplus (RSet is_digit)]))"
  obtain ys where ys: "rmatch (RStar (RSet is_digit)) ([u], w, no_caps) = (rev w @ [u], [], no_caps) # ys"
    using first_Some [OF first_class_star [of is_digit "[u]" w no_caps]] assms(3) by (auto simp: takeWhile_run simp del: rmatch.simps)
  have e: "rmatch ?tail (p, [], c) = [(p, [], c)]" for p c
    by (simp add: ropt_def rlit_def rplus_def)
  have "rmatch json_number_re ([], u # w, no_caps) = concat (map (rmatch ?tail) (rmatch (RStar (RSet is_digit)) ([u], w, no_caps)))"
    using assms(1,2) by (auto simp: json_number_re_def ropt_def rlit_def is_digit_def simp del: rmatch.simps(5))
  then show ?thesis unfolding ys list.map concat.simps e by simp
qed

lemma json_num_nat: "n \<le> 9007199254740992 \<Longrightarrow> json_num (num n)"
proof -
  assume n: "n \<le> 9007199254740992"
  have s: "js_String (num n) = show_nat n" "js_Number (show_nat n) = num n" by (rule js_String_nat [OF n], rule js_Number_show_nat [OF n])
  have "parse_number (show_nat n) = Some (JNum (num n), [])"
  proof (cases "n = 0")
    case True
    have "rmatch json_number_re ([], [48], no_caps) = [([48], [], no_caps)]"
      by (simp add: json_number_re_def ropt_def rlit_def rplus_def is_digit_def)
    then show ?thesis using True s(2) by (simp add: parse_number_def show_nat.simps)
  next
    case False
    obtain u w where u: "show_nat n = u # w" by (cases "show_nat n") simp_all
    then have "u \<noteq> 48" "is_digit u" "list_all is_digit w"
      using False show_nat_head [of n] show_nat_digits [of n] by (auto simp: list_all_iff)
    then obtain c where "first (rmatch json_number_re ([], u # w, no_caps)) = Some (rev w @ [u], [], c)"
      using digits_number by blast
    from first_Some [OF this] show ?thesis using s(2) u by (auto simp: parse_number_def)
  qed
  then show ?thesis using s(1) by (simp add: json_num_def)
qed

section \<open>Members\<close>

lemma member_JObj: "member k (JObj ps) = map_of ps (js k)"
  by (simp add: member_def obj_get_def)

lemma map_of_opt: "map_of (opt_member b k v @ ps) x = (if b \<and> x = js k then Some v else map_of ps x)"
  by (simp add: opt_member_def)

lemma map_of_opt_last: "map_of (opt_member b k v) x = (if b \<and> x = js k then Some v else None)"
  by (simp add: opt_member_def)

lemmas member_simps = member_JObj map_of_opt map_of_opt_last

lemma keys_opt: "fst ` set (opt_member b k v @ ps) \<subseteq> insert (js k) (fst ` set ps)"
  by (auto simp: opt_member_def)

text \<open>A literal key is no array index, so the members keep their order.\<close>

lemma not_index_key: "k \<noteq> [] \<Longrightarrow> \<not> is_digit (hd k) \<Longrightarrow> \<not> is_index_key k"
  by (cases k) (auto simp: is_index_key_def)

lemma no_index_entries: "\<forall>p\<in>set ps. \<not> is_index_key (fst p) \<Longrightarrow> obj_entries ps = ps"
  by (simp add: obj_entries_def filter_empty_conv filter_id_conv)

lemma wf_object:
  assumes "distinct (map fst ps)" "\<And>k v. (k, v) \<in> set ps \<Longrightarrow> k \<noteq> [] \<and> \<not> is_digit (hd k) \<and> list_all (\<lambda>u. u < 65536) k \<and> wf_json v"
  shows "wf_json (JObj ps)"
proof -
  have "\<not> is_index_key (fst p)" if "p \<in> set ps" for p
    using assms(2) [of "fst p" "snd p"] that by (intro not_index_key) auto
  then have "obj_entries ps = ps" by (intro no_index_entries) blast
  then show ?thesis using assms by (auto simp: wf_members_iff)
qed

end
