(* ===== verification/Web_Address.thy ===== *)
theory Web_Address
  imports JS_Regex
begin

text \<open>
  Web addresses as the sources recognise them: the patterns that start with \<open>https?://\<close> under the
  flag \<open>i\<close>, and what a text that matches one of them looks like.
\<close>

section \<open>Patterns\<close>

definition http_scheme :: re where
  "http_scheme = rseqs [any_case 104, any_case 116, any_case 116, any_case 112, ropt (any_case 115), rlit ''://'']"

definition http_prefix_re :: re where
  "http_prefix_re = RSeq RBegin http_scheme"

section \<open>What they match\<close>

definition web_address :: "jsstring \<Rightarrow> bool" where
  "web_address u \<longleftrightarrow> startsWith (toLowerCase u) (js ''http://'') \<or> startsWith (toLowerCase u) (js ''https://'')"

definition scheme_text :: "jsstring \<Rightarrow> bool" where
  "scheme_text w \<longleftrightarrow> toLowerCase w = js ''http://'' \<or> toLowerCase w = js ''https://''"

lemma web_address_append: "scheme_text w \<Longrightarrow> web_address (w @ s)"
proof -
  have "startsWith (toLowerCase (w @ s)) (toLowerCase w)" by (simp add: toLowerCase_def)
  then show "scheme_text w \<Longrightarrow> ?thesis" unfolding scheme_text_def web_address_def by metis
qed

lemma lower_ascii: "lower_unit v < 128 \<Longrightarrow> v < 128"
  by (simp add: lower_unit_def split: if_splits)

lemma ascii_ws: "v < 128 \<Longrightarrow> is_ws v \<Longrightarrow> lower_unit v \<le> 32"
  by (simp add: is_ws_def lower_unit_def) linarith

lemma scheme_no_blank:
  assumes "scheme_text w"
  shows "list_all (\<lambda>u. \<not> is_ws u) w"
  unfolding list_all_iff
proof
  fix v
  assume "v \<in> set w"
  then have "lower_unit v \<in> set (toLowerCase w)" by (simp add: toLowerCase_def)
  moreover have "set (js ''http://'') \<subseteq> {33..<128}" "set (js ''https://'') \<subseteq> {33..<128}" by simp_all
  moreover have "toLowerCase w = js ''http://'' \<or> toLowerCase w = js ''https://''" using assms by (simp only: scheme_text_def)
  ultimately have "lower_unit v \<in> {33..<128}" by (elim disjE) (simp_all only: subset_iff)
  then show "\<not> is_ws v" using ascii_ws [of v] lower_ascii [of v] by auto
qed

lemma rmatch_seq_nonempty: "rmatch (RSeq a b) st \<noteq> [] \<longleftrightarrow> (\<exists>st'\<in>set (rmatch a st). rmatch b st' \<noteq> [])"
  by (simp add: concat_eq_Nil_conv)

lemma rmatch_end_nonempty: "rmatch REnd st \<noteq> [] \<longleftrightarrow> rest_of st = []"
  by simp

lemma letter_step:
  assumes "u \<in> {97..122}" "st \<in> set (rmatch (RSeq (any_case u) r) (pre, s, c))"
  shows "\<exists>v s'. s = v # s' \<and> lower_unit v = u \<and> st \<in> set (rmatch r (v # pre, s', c))"
  using assms by (cases s) (auto simp: any_case_def lower_unit_def split: if_splits)

lemma literal_step:
  "st \<in> set (rmatch (rlit w) (pre, s, c)) \<Longrightarrow> s = js w @ rest_of st \<and> fst st = rev (js w) @ pre"
  by (auto simp: startsWith_def split: if_splits) (metis append_take_drop_id length_js)

lemma scheme_match:
  assumes "st \<in> set (rmatch http_scheme (pre, s, c))"
  obtains w where "s = w @ rest_of st" "fst st = rev w @ pre" "scheme_text w" "last w = 47" "w \<noteq> []"
proof -
  have le: "(104::nat) \<in> {97..122}" "(116::nat) \<in> {97..122}" "(112::nat) \<in> {97..122}" "(115::nat) \<in> {97..122}" by simp_all
  note st = assms [unfolded http_scheme_def rseqs.simps]
  obtain h s1 where h: "s = h # s1" "lower_unit h = 104" and st: "st \<in> set (rmatch (RSeq (any_case 116) (RSeq (any_case 116)
      (RSeq (any_case 112) (RSeq (ropt (any_case 115)) (rlit ''://''))))) (h # pre, s1, c))"
    using letter_step [OF le(1) st] by blast
  obtain t1 s2 where t1: "s1 = t1 # s2" "lower_unit t1 = 116" and st: "st \<in> set (rmatch (RSeq (any_case 116)
      (RSeq (any_case 112) (RSeq (ropt (any_case 115)) (rlit ''://'')))) (t1 # h # pre, s2, c))"
    using letter_step [OF le(2) st] by blast
  obtain t2 s3 where t2: "s2 = t2 # s3" "lower_unit t2 = 116" and st: "st \<in> set (rmatch
      (RSeq (any_case 112) (RSeq (ropt (any_case 115)) (rlit ''://''))) (t2 # t1 # h # pre, s3, c))"
    using letter_step [OF le(2) st] by blast
  obtain p s4 where p: "s3 = p # s4" "lower_unit p = 112"
      and st: "st \<in> set (rmatch (RSeq (ropt (any_case 115)) (rlit ''://'')) (p # t2 # t1 # h # pre, s4, c))"
    using letter_step [OF le(3) st] by blast
  note http = h t1 t2 p
  have "st \<in> set (rmatch (rlit ''://'') (p # t2 # t1 # h # pre, s4, c))
      \<or> st \<in> set (rmatch (RSeq (any_case 115) (rlit ''://'')) (p # t2 # t1 # h # pre, s4, c))"
    using st by (auto simp: ropt_def)
  then show thesis
  proof
    assume "st \<in> set (rmatch (rlit ''://'') (p # t2 # t1 # h # pre, s4, c))"
    from literal_step [OF this] http show thesis
      by (intro that [of "[h, t1, t2, p] @ js ''://''"]) (auto simp: scheme_text_def toLowerCase_def, simp_all add: lower_unit_def)
  next
    assume st: "st \<in> set (rmatch (RSeq (any_case 115) (rlit ''://'')) (p # t2 # t1 # h # pre, s4, c))"
    obtain v s5 where v: "s4 = v # s5" "lower_unit v = 115" and st: "st \<in> set (rmatch (rlit ''://'') (v # p # t2 # t1 # h # pre, s5, c))"
      using letter_step [OF le(4) st] by blast
    from literal_step [OF st] http v show thesis
      by (intro that [of "[h, t1, t2, p, v] @ js ''://''"]) (auto simp: scheme_text_def toLowerCase_def, simp_all add: lower_unit_def)
  qed
qed

lemma http_prefix_web: "re_test http_prefix_re t \<Longrightarrow> web_address t"
proof -
  assume "re_test http_prefix_re t"
  then obtain st where "st \<in> set (rmatch http_scheme ([], t, no_caps))"
    unfolding http_prefix_re_def re_test_begin by (meson hd_in_set)
  then show ?thesis by (rule scheme_match) (use web_address_append in simp)
qed

lemma http_prefix_Nil [simp]: "\<not> re_test http_prefix_re []"
  by (simp add: http_prefix_re_def http_scheme_def re_test_begin any_case_def)

end
