(* ===== verification/Creation_Session.thy ===== *)
theory Creation_Session
  imports Image_Options_Props JSON_Text Web_Address "HOL-Library.Monad_Syntax"
begin

text \<open>
  The history of the creation center (\<open>features/creation-center/session.ts\<close>): sanitising an item,
  inserting it, and saving the history to and loading it from the storage of the browser, a map from
  keys to texts.  An item is written by \<open>JSON.stringify\<close> and read by \<open>JSON.parse\<close>; the shape test
  of a stored value looks at the parsed value.  A creation time is the integer \<open>Date.now()\<close> returns.
\<close>

section \<open>Data\<close>

datatype CreationMode = ChatMode | ImageMode | VideoMode

record CreationAsset =
  asset_id :: jsstring
  asset_name :: jsstring
  asset_type :: jsstring
  asset_size :: jsnum
  asset_text :: "jsstring option"
  dataUrl :: "jsstring option"

datatype CreationResultStatus = Queued | Processing | Completed | Failed | Unknown

record CreationResult =
  res_mode :: CreationMode
  res_model :: jsstring
  res_id :: "jsstring option"
  res_taskId :: "jsstring option"
  res_createdAt :: "jsnum option"
  res_estimateSeconds :: "jsnum option"
  res_duration :: "jsstring option"
  res_resolution :: "jsstring option"
  res_status :: CreationResultStatus
  outputText :: "jsstring option"
  imageUrl :: "jsstring option"
  videoUrl :: "jsstring option"
  res_error :: "jsstring option"
  raw :: "json option"

record CreationHistoryItem =
  hid :: jsstring
  createdAt :: int
  hmode :: CreationMode
  hmodel :: jsstring
  hprompt :: jsstring
  assets :: "CreationAsset list option"
  hresult :: CreationResult
  imageOptions :: "CreationImageOptions option"
  imageReferences :: "CreationImageReferences option"
  videoOptions :: "CreationVideoOptions option"
  videoReferences :: "CreationVideoReferences option"

definition CREATION_HISTORY_LIMIT :: nat where
  "CREATION_HISTORY_LIMIT = 20"

definition getCreationHistoryStorageKey :: "jsnum option \<Rightarrow> jsstring" where
  "getCreationHistoryStorageKey userId =
     js ''creation-center-history:'' @ (case userId of None \<Rightarrow> js ''guest'' | Some n \<Rightarrow> js_String n)"

section \<open>Sanitising\<close>

definition isStorableReferenceURL :: "jsstring \<Rightarrow> bool" where
  "isStorableReferenceURL value = re_test http_prefix_re (trim value)"

definition getStorableReferenceURL :: "CreationVideoReferenceValue \<Rightarrow> jsstring" where
  "getStorableReferenceURL value = (case value of RefURL s \<Rightarrow> trim s | RefObj r \<Rightarrow> trim (url r))"

definition storable_urls :: "CreationVideoReferenceValue list \<Rightarrow> jsstring list" where
  "storable_urls vs = filter isStorableReferenceURL (map getStorableReferenceURL vs)"

definition storable_text :: "jsstring \<Rightarrow> jsstring" where
  "storable_text s = (if isStorableReferenceURL s then s else [])"

definition sanitizeImageReferences :: "CreationImageReferences \<Rightarrow> jsstring \<Rightarrow> CreationImageReferences" where
  "sanitizeImageReferences refs modelId =
     normalizeCreationImageReferences (Some (map RefURL (storable_urls (ref_images refs)))) (ModelString modelId)"

definition sanitize_video_references :: "CreationVideoReferences \<Rightarrow> CreationVideoReferences" where
  "sanitize_video_references refs =
     (let audios = storable_urls (audioUrls refs);
          audio = storable_text (getStorableReferenceURL (audioUrl refs))
      in refs\<lparr>imageUrls := map RefURL (storable_urls (imageUrls refs)),
           startImageUrl := storable_text (startImageUrl refs), endImageUrl := storable_text (endImageUrl refs),
           videoUrls := map RefURL (storable_urls (videoUrls refs)),
           audioUrls := map RefURL (if audios \<noteq> [] then audios else if audio \<noteq> [] then [audio] else []),
           audioUrl := RefURL audio\<rparr>)"

definition sanitizeCreationHistoryItem :: "CreationHistoryItem \<Rightarrow> CreationHistoryItem" where
  "sanitizeCreationHistoryItem item =
     (let item1 = (case imageReferences item of
            None \<Rightarrow> item
          | Some r \<Rightarrow> item
              \<lparr>imageOptions := map_option (\<lambda>o'. normalizeCreationImageOptions (to_partial_image o')
                 (ModelString (hmodel item))) (imageOptions item),
               imageReferences := Some (sanitizeImageReferences r (hmodel item))\<rparr>)
      in case videoReferences item of
           None \<Rightarrow> item1
         | Some r \<Rightarrow> item1\<lparr>videoReferences := Some (sanitize_video_references r)\<rparr>)"

section \<open>The history\<close>

text \<open>\<open>sort((left, right) => right.createdAt - left.createdAt)\<close>, which is stable, and the limit.\<close>

definition newest_first :: "CreationHistoryItem list \<Rightarrow> CreationHistoryItem list" where
  "newest_first items = sort_key (\<lambda>i. - createdAt i) items"

definition upsertCreationHistoryItem ::
    "CreationHistoryItem list \<Rightarrow> CreationHistoryItem \<Rightarrow> CreationHistoryItem list" where
  "upsertCreationHistoryItem items item =
     take CREATION_HISTORY_LIMIT (newest_first
       (sanitizeCreationHistoryItem item # filter (\<lambda>c. hid c \<noteq> hid item) items))"

section \<open>Items as JSON\<close>

text \<open>An object with optional members: a member that is \<open>undefined\<close> is not written.\<close>

definition obj_json :: "(string \<times> json option) list \<Rightarrow> json" where
  "obj_json ms = JObj (concat (map (\<lambda>(k, v). case v of None \<Rightarrow> [] | Some x \<Rightarrow> [(js k, x)]) ms))"

definition mode_text :: "CreationMode \<Rightarrow> jsstring" where
  "mode_text m = (case m of ChatMode \<Rightarrow> js ''chat'' | ImageMode \<Rightarrow> js ''image'' | VideoMode \<Rightarrow> js ''video'')"

definition status_text :: "CreationResultStatus \<Rightarrow> jsstring" where
  "status_text s =
     (case s of Queued \<Rightarrow> js ''queued'' | Processing \<Rightarrow> js ''processing'' | Completed \<Rightarrow> js ''completed''
      | Failed \<Rightarrow> js ''failed'' | Unknown \<Rightarrow> js ''unknown'')"

definition reference_mode_text :: "CreationVideoReferenceMode \<Rightarrow> jsstring" where
  "reference_mode_text m =
     (case m of ModeText \<Rightarrow> js ''text'' | ModeImage \<Rightarrow> js ''image'' | ModeVideo \<Rightarrow> js ''video''
      | ModeMultimodal \<Rightarrow> js ''multimodal'' | ModeFrames \<Rightarrow> js ''frames'' | ModeImageAudio \<Rightarrow> js ''image-audio'')"

definition asset_json :: "CreationAsset \<Rightarrow> json" where
  "asset_json a = obj_json
     [(''id'', Some (JStr (asset_id a))), (''name'', Some (JStr (asset_name a))), (''type'', Some (JStr (asset_type a))),
      (''size'', Some (JNum (asset_size a))), (''text'', map_option JStr (asset_text a)),
      (''dataUrl'', map_option JStr (dataUrl a))]"

definition result_json :: "CreationResult \<Rightarrow> json" where
  "result_json r = obj_json
     [(''mode'', Some (JStr (mode_text (res_mode r)))), (''model'', Some (JStr (res_model r))),
      (''id'', map_option JStr (res_id r)), (''taskId'', map_option JStr (res_taskId r)),
      (''createdAt'', map_option JNum (res_createdAt r)), (''estimateSeconds'', map_option JNum (res_estimateSeconds r)),
      (''duration'', map_option JStr (res_duration r)), (''resolution'', map_option JStr (res_resolution r)),
      (''status'', Some (JStr (status_text (res_status r)))), (''outputText'', map_option JStr (outputText r)),
      (''imageUrl'', map_option JStr (imageUrl r)), (''videoUrl'', map_option JStr (videoUrl r)),
      (''error'', map_option JStr (res_error r)), (''raw'', raw r)]"

definition reference_json :: "CreationVideoReferenceValue \<Rightarrow> json" where
  "reference_json v =
     (case v of
        RefURL s \<Rightarrow> JStr s
      | RefObj r \<Rightarrow> obj_json
          [(''url'', Some (JStr (url r))), (''previewUrl'', map_option JStr (previewUrl r)),
           (''sizeBytes'', map_option JNum (sizeBytes r)), (''durationSeconds'', map_option JNum (durationSeconds r))])"

definition image_options_json :: "CreationImageOptions \<Rightarrow> json" where
  "image_options_json o' = obj_json
     [(''aspectRatio'', Some (JStr (img_aspectRatio o'))), (''outputResolution'', Some (JStr (img_outputResolution o')))]"

definition image_references_json :: "CreationImageReferences \<Rightarrow> json" where
  "image_references_json r = obj_json [(''imageUrls'', Some (JArr (map reference_json (ref_images r))))]"

definition video_options_json :: "CreationVideoOptions \<Rightarrow> json" where
  "video_options_json o' = obj_json
     [(''resolution'', Some (JStr (resolution o'))), (''duration'', Some (JStr (duration o'))),
      (''aspectRatio'', map_option JStr (aspectRatio o'))]"

definition video_references_json :: "CreationVideoReferences \<Rightarrow> json" where
  "video_references_json r = obj_json
     [(''referenceMode'', Some (JStr (reference_mode_text (referenceMode r)))),
      (''imageUrls'', Some (JArr (map reference_json (imageUrls r)))),
      (''startImageUrl'', Some (JStr (startImageUrl r))), (''endImageUrl'', Some (JStr (endImageUrl r))),
      (''videoUrls'', Some (JArr (map reference_json (videoUrls r)))),
      (''audioUrls'', Some (JArr (map reference_json (audioUrls r)))), (''audioUrl'', Some (reference_json (audioUrl r)))]"

text \<open>The members are written in the order of the declared type; nothing that reads them depends on it.\<close>

definition item_json :: "CreationHistoryItem \<Rightarrow> json" where
  "item_json i = obj_json
     [(''id'', Some (JStr (hid i))), (''createdAt'', Some (JNum (Fin (of_int (createdAt i))))),
      (''mode'', Some (JStr (mode_text (hmode i)))), (''model'', Some (JStr (hmodel i))), (''prompt'', Some (JStr (hprompt i))),
      (''assets'', map_option (\<lambda>as. JArr (map asset_json as)) (assets i)), (''result'', Some (result_json (hresult i))),
      (''imageOptions'', map_option image_options_json (imageOptions i)),
      (''imageReferences'', map_option image_references_json (imageReferences i)),
      (''videoOptions'', map_option video_options_json (videoOptions i)),
      (''videoReferences'', map_option video_references_json (videoReferences i))]"

section \<open>Items of JSON\<close>

text \<open>The typed view of a parsed value; \<open>None\<close> when it is not a value of the declared type.\<close>

definition read_text :: "json \<Rightarrow> jsstring option" where
  "read_text v = (case v of JStr s \<Rightarrow> Some s | _ \<Rightarrow> None)"

definition read_num :: "json \<Rightarrow> jsnum option" where
  "read_num v = (case v of JNum n \<Rightarrow> Some n | _ \<Rightarrow> None)"

definition read_time :: "json \<Rightarrow> int option" where
  "read_time v = (case v of JNum (Fin q) \<Rightarrow> if of_int \<lfloor>q\<rfloor> = q then Some \<lfloor>q\<rfloor> else None | _ \<Rightarrow> None)"

definition read_list :: "(json \<Rightarrow> 'a option) \<Rightarrow> json \<Rightarrow> 'a list option" where
  "read_list f v = (case v of JArr vs \<Rightarrow> those (map f vs) | _ \<Rightarrow> None)"

text \<open>An optional member.\<close>

definition read_opt :: "(json \<Rightarrow> 'a option) \<Rightarrow> json option \<Rightarrow> 'a option option" where
  "read_opt f v = (case v of None \<Rightarrow> Some None | Some x \<Rightarrow> map_option Some (f x))"

definition read_mode :: "json option \<Rightarrow> CreationMode option" where
  "read_mode v =
     (case v of
        Some (JStr s) \<Rightarrow>
          if s = js ''chat'' then Some ChatMode else if s = js ''image'' then Some ImageMode
          else if s = js ''video'' then Some VideoMode else None
      | _ \<Rightarrow> None)"

definition read_status :: "json \<Rightarrow> CreationResultStatus option" where
  "read_status v = find (\<lambda>s. v = JStr (status_text s)) [Queued, Processing, Completed, Failed, Unknown]"

definition read_reference_mode :: "json \<Rightarrow> CreationVideoReferenceMode option" where
  "read_reference_mode v =
     find (\<lambda>m. v = JStr (reference_mode_text m)) [ModeText, ModeImage, ModeVideo, ModeMultimodal, ModeFrames, ModeImageAudio]"

definition asset_of_json :: "json \<Rightarrow> CreationAsset option" where
  "asset_of_json v = do {
     i \<leftarrow> Option.bind (member ''id'' v) read_text;
     n \<leftarrow> Option.bind (member ''name'' v) read_text;
     ty \<leftarrow> Option.bind (member ''type'' v) read_text;
     sz \<leftarrow> Option.bind (member ''size'' v) read_num;
     tx \<leftarrow> read_opt read_text (member ''text'' v);
     d \<leftarrow> read_opt read_text (member ''dataUrl'' v);
     Some \<lparr>asset_id = i, asset_name = n, asset_type = ty, asset_size = sz, asset_text = tx, dataUrl = d\<rparr>
   }"

definition result_of_json :: "json \<Rightarrow> CreationResult option" where
  "result_of_json v = do {
     md \<leftarrow> read_mode (member ''mode'' v);
     ml \<leftarrow> Option.bind (member ''model'' v) read_text;
     i \<leftarrow> read_opt read_text (member ''id'' v);
     ti \<leftarrow> read_opt read_text (member ''taskId'' v);
     c \<leftarrow> read_opt read_num (member ''createdAt'' v);
     e \<leftarrow> read_opt read_num (member ''estimateSeconds'' v);
     d \<leftarrow> read_opt read_text (member ''duration'' v);
     r \<leftarrow> read_opt read_text (member ''resolution'' v);
     st \<leftarrow> Option.bind (member ''status'' v) read_status;
     o' \<leftarrow> read_opt read_text (member ''outputText'' v);
     iu \<leftarrow> read_opt read_text (member ''imageUrl'' v);
     vu \<leftarrow> read_opt read_text (member ''videoUrl'' v);
     er \<leftarrow> read_opt read_text (member ''error'' v);
     Some \<lparr>res_mode = md, res_model = ml, res_id = i, res_taskId = ti, res_createdAt = c, res_estimateSeconds = e,
       res_duration = d, res_resolution = r, res_status = st, outputText = o', imageUrl = iu, videoUrl = vu,
       res_error = er, raw = member ''raw'' v\<rparr>
   }"

definition reference_of_json :: "json \<Rightarrow> CreationVideoReferenceValue option" where
  "reference_of_json v =
     (case v of
        JStr s \<Rightarrow> Some (RefURL s)
      | _ \<Rightarrow> do {
          u \<leftarrow> Option.bind (member ''url'' v) read_text;
          p \<leftarrow> read_opt read_text (member ''previewUrl'' v);
          b \<leftarrow> read_opt read_num (member ''sizeBytes'' v);
          d \<leftarrow> read_opt read_num (member ''durationSeconds'' v);
          Some (RefObj \<lparr>url = u, previewUrl = p, sizeBytes = b, durationSeconds = d\<rparr>)
        })"

definition image_options_of_json :: "json \<Rightarrow> CreationImageOptions option" where
  "image_options_of_json v = do {
     a \<leftarrow> Option.bind (member ''aspectRatio'' v) read_text;
     r \<leftarrow> Option.bind (member ''outputResolution'' v) read_text;
     Some \<lparr>img_aspectRatio = a, img_outputResolution = r\<rparr>
   }"

definition image_references_of_json :: "json \<Rightarrow> CreationImageReferences option" where
  "image_references_of_json v = do {
     vs \<leftarrow> Option.bind (member ''imageUrls'' v) (read_list reference_of_json);
     Some \<lparr>ref_images = vs\<rparr>
   }"

definition video_options_of_json :: "json \<Rightarrow> CreationVideoOptions option" where
  "video_options_of_json v = do {
     r \<leftarrow> Option.bind (member ''resolution'' v) read_text;
     d \<leftarrow> Option.bind (member ''duration'' v) read_text;
     a \<leftarrow> read_opt read_text (member ''aspectRatio'' v);
     Some \<lparr>resolution = r, duration = d, aspectRatio = a\<rparr>
   }"

definition video_references_of_json :: "json \<Rightarrow> CreationVideoReferences option" where
  "video_references_of_json v = do {
     m \<leftarrow> Option.bind (member ''referenceMode'' v) read_reference_mode;
     ims \<leftarrow> Option.bind (member ''imageUrls'' v) (read_list reference_of_json);
     s \<leftarrow> Option.bind (member ''startImageUrl'' v) read_text;
     e \<leftarrow> Option.bind (member ''endImageUrl'' v) read_text;
     vs \<leftarrow> Option.bind (member ''videoUrls'' v) (read_list reference_of_json);
     as \<leftarrow> Option.bind (member ''audioUrls'' v) (read_list reference_of_json);
     a \<leftarrow> Option.bind (member ''audioUrl'' v) reference_of_json;
     Some \<lparr>referenceMode = m, imageUrls = ims, startImageUrl = s, endImageUrl = e, videoUrls = vs, audioUrls = as, audioUrl = a\<rparr>
   }"

definition item_of_json :: "json \<Rightarrow> CreationHistoryItem option" where
  "item_of_json v = do {
     i \<leftarrow> Option.bind (member ''id'' v) read_text;
     c \<leftarrow> Option.bind (member ''createdAt'' v) read_time;
     md \<leftarrow> read_mode (member ''mode'' v);
     ml \<leftarrow> Option.bind (member ''model'' v) read_text;
     p \<leftarrow> Option.bind (member ''prompt'' v) read_text;
     as \<leftarrow> read_opt (read_list asset_of_json) (member ''assets'' v);
     r \<leftarrow> Option.bind (member ''result'' v) result_of_json;
     io \<leftarrow> read_opt image_options_of_json (member ''imageOptions'' v);
     ir \<leftarrow> read_opt image_references_of_json (member ''imageReferences'' v);
     vo \<leftarrow> read_opt video_options_of_json (member ''videoOptions'' v);
     vr \<leftarrow> read_opt video_references_of_json (member ''videoReferences'' v);
     Some \<lparr>hid = i, createdAt = c, hmode = md, hmodel = ml, hprompt = p, assets = as, hresult = r,
       imageOptions = io, imageReferences = ir, videoOptions = vo, videoReferences = vr\<rparr>
   }"

section \<open>Storage\<close>

definition has_text :: "string \<Rightarrow> (jsstring \<times> json) list \<Rightarrow> bool" where
  "has_text k ps = (case obj_get (js k) ps of Some (JStr _) \<Rightarrow> True | _ \<Rightarrow> False)"

definition isCreationHistoryItem :: "json \<Rightarrow> bool" where
  "isCreationHistoryItem value =
     (case value of
        JObj ps \<Rightarrow>
          has_text ''id'' ps \<and> (case obj_get (js ''createdAt'') ps of Some (JNum _) \<Rightarrow> True | _ \<Rightarrow> False)
          \<and> has_text ''model'' ps \<and> has_text ''prompt'' ps
          \<and> (case obj_get (js ''result'') ps of Some (JObj _) \<Rightarrow> True | Some (JArr _) \<Rightarrow> True | _ \<Rightarrow> False)
          \<and> read_mode (obj_get (js ''mode'') ps) \<noteq> None
      | _ \<Rightarrow> False)"

type_synonym storage = "jsstring \<Rightarrow> jsstring option"

datatype storage_error = QuotaExceeded

definition saved_items :: "CreationHistoryItem list \<Rightarrow> CreationHistoryItem list" where
  "saved_items items =
     take CREATION_HISTORY_LIMIT (newest_first
       (filter (\<lambda>i. isCreationHistoryItem (item_json i)) (map sanitizeCreationHistoryItem items)))"

text \<open>\<open>fits\<close> tells whether the storage takes a text under a key; \<open>setItem\<close> throws when it does not.\<close>

definition saveCreationHistory ::
    "(storage \<Rightarrow> jsstring \<Rightarrow> jsstring \<Rightarrow> bool) \<Rightarrow> jsstring \<Rightarrow> CreationHistoryItem list \<Rightarrow> storage \<Rightarrow> storage_error + storage" where
  "saveCreationHistory fits key items storage =
     (let stored = json_stringify (JArr (map item_json (saved_items items)))
      in if fits storage key stored then Inr (storage(key \<mapsto> stored)) else Inl QuotaExceeded)"

text \<open>The test of a stored value does not look at every member that the type declares.  \<open>None\<close> stands for
  what becomes of a value that passes it without being of that type.\<close>

definition loaded_items :: "json list \<Rightarrow> CreationHistoryItem list option" where
  "loaded_items parsed =
     map_option (\<lambda>items. take CREATION_HISTORY_LIMIT (newest_first (map sanitizeCreationHistoryItem items)))
       (those (map item_of_json (filter isCreationHistoryItem parsed)))"

definition loadCreationHistory :: "jsstring \<Rightarrow> storage \<Rightarrow> CreationHistoryItem list option \<times> storage" where
  "loadCreationHistory key storage =
     (case storage key of
        None \<Rightarrow> (Some [], storage)
      | Some stored \<Rightarrow>
          if stored = [] then (Some [], storage)
          else (case json_parse stored of
             None \<Rightarrow> (Some [], storage(key := None))
           | Some (JArr parsed) \<Rightarrow> (loaded_items parsed, storage)
           | Some _ \<Rightarrow> (Some [], storage)))"

text \<open>\<open>persistHistoryItem\<close> of the page: the state of the list and the storage.\<close>

definition persistHistoryItem ::
    "(storage \<Rightarrow> jsstring \<Rightarrow> jsstring \<Rightarrow> bool) \<Rightarrow> jsstring \<Rightarrow> CreationHistoryItem \<Rightarrow> CreationHistoryItem list \<times> storage
     \<Rightarrow> storage_error + CreationHistoryItem list \<times> storage" where
  "persistHistoryItem fits key item current =
     (let next = upsertCreationHistoryItem (fst current) item
      in case saveCreationHistory fits key next (snd current) of
           Inl e \<Rightarrow> Inl e
         | Inr storage \<Rightarrow> Inr (next, storage))"

section \<open>Prompts\<close>

definition asset_lines :: "nat \<Rightarrow> CreationAsset \<Rightarrow> jsstring list" where
  "asset_lines i a =
     [show_nat (i + 1) @ js ''. '' @ asset_name a
        @ (if asset_type a = [] then [] else js '' ('' @ asset_type a @ js '')'')]
     @ (case asset_text a of Some t \<Rightarrow> if t = [] then [] else [take 2000 t] | None \<Rightarrow> [])"

definition composeCreationPrompt :: "jsstring \<Rightarrow> CreationAsset list \<Rightarrow> jsstring" where
  "composeCreationPrompt prompt as =
     (let trimmedPrompt = trim prompt; cleanAssets = filter (\<lambda>a. trim (asset_name a) \<noteq> []) as
      in if cleanAssets = [] then trimmedPrompt
         else join [10] ([trimmedPrompt, [], [21442, 32771, 32032, 26448] @ js '' / Reference assets:'']
           @ concat (map (\<lambda>(i, a). asset_lines i a) (enumerate 0 cleanAssets))))"

end
