(* ===== verification/Creation_Item_JSON.thy ===== *)
theory Creation_Item_JSON
  imports Creation_Session
begin

text \<open>
  The items of the creation history as JSON values (\<open>features/creation-center/session.ts\<close>): the value of an
  item passes the shape test and is read back as the item, and for an item of 16-bit texts and numbers
  that JSON holds its text is parsed to that value.
\<close>

section \<open>Members\<close>

text \<open>The first of two optional values that is there.\<close>

definition first_of :: "'a option \<Rightarrow> 'a option \<Rightarrow> 'a option" where
  "first_of v w = (if v = None then w else v)"

lemma first_of_simps [simp]: "first_of v None = v" "first_of (Some x) w = Some x"
  by (simp_all add: first_of_def)

lemma member_obj_json [simp]:
  "member k (obj_json []) = None"
  "member k (obj_json ((l, v) # ms)) = (if k = l then first_of v (member k (obj_json ms)) else member k (obj_json ms))"
  by (auto simp: obj_json_def member_JObj first_of_def split: option.splits)

lemma those_read [simp]: "(\<And>x. f (g x) = Some x) \<Longrightarrow> those (map (f \<circ> g) xs) = Some xs"
  by (induction xs) auto

lemma read_list_JArr: "(\<And>x. f (g x) = Some x) \<Longrightarrow> read_list f (JArr (map g xs)) = Some xs"
  by (simp add: read_list_def)

lemma read_opt_map: "(\<And>x. f (g x) = Some x) \<Longrightarrow> read_opt f (map_option g v) = Some v"
  by (cases v) (auto simp: read_opt_def)

lemma read_values [simp]: "read_text (JStr s) = Some s" "read_num (JNum n) = Some n" "read_time (JNum (Fin (of_int c))) = Some c"
  by (simp_all add: read_text_def read_num_def read_time_def)

lemma read_mode_text [simp]: "read_mode (Some (JStr (mode_text m))) = Some m"
  by (cases m) (simp_all add: read_mode_def mode_text_def)

lemma read_status_text [simp]: "read_status (JStr (status_text s)) = Some s"
  by (cases s) (simp_all add: read_status_def status_text_def)

lemma read_reference_mode_text [simp]: "read_reference_mode (JStr (reference_mode_text m)) = Some m"
  by (cases m) (simp_all add: read_reference_mode_def reference_mode_text_def)

lemma asset_reads [simp]: "asset_of_json (asset_json a) = Some a"
  by (simp add: asset_of_json_def asset_json_def read_opt_map)

lemma result_reads [simp]: "result_of_json (result_json r) = Some r"
  by (simp add: result_of_json_def result_json_def read_opt_map)

lemma reference_reads [simp]: "reference_of_json (reference_json v) = Some v"
proof (cases v)
  case (RefObj r)
  obtain ps where "reference_json v = JObj ps" using RefObj by (simp add: reference_json_def obj_json_def)
  then show ?thesis using RefObj unfolding reference_of_json_def
    by (simp only: json.case) (simp add: reference_json_def read_opt_map flip: \<open>reference_json v = JObj ps\<close>)
qed (simp add: reference_of_json_def reference_json_def)

lemma image_options_read [simp]: "image_options_of_json (image_options_json x) = Some x"
  by (simp add: image_options_of_json_def image_options_json_def)

lemma image_references_read [simp]: "image_references_of_json (image_references_json x) = Some x"
  by (simp add: image_references_of_json_def image_references_json_def read_list_JArr)

lemma video_options_read [simp]: "video_options_of_json (video_options_json x) = Some x"
  by (simp add: video_options_of_json_def video_options_json_def read_opt_map)

lemma video_references_read [simp]: "video_references_of_json (video_references_json x) = Some x"
  by (simp add: video_references_of_json_def video_references_json_def read_list_JArr)

lemma item_reads [simp]: "item_of_json (item_json i) = Some i"
  by (simp add: item_of_json_def item_json_def read_opt_map read_list_JArr)

section \<open>The shape test\<close>

lemma member_get: "obj_json ms = JObj ps \<Longrightarrow> obj_get (js k) ps = member k (obj_json ms)"
  by (simp add: member_def)

lemma item_shape [simp]: "isCreationHistoryItem (item_json i)"
proof -
  obtain ps where ps: "item_json i = JObj ps" by (simp add: item_json_def obj_json_def)
  have g: "obj_get (js k) ps = member k (item_json i)" for k by (simp add: ps member_def)
  have r: "\<exists>qs. result_json (hresult i) = JObj qs" by (simp add: result_json_def obj_json_def)
  have m: "member ''id'' (item_json i) = Some (JStr (hid i))" "member ''createdAt'' (item_json i) = Some (JNum (Fin (of_int (createdAt i))))"
    "member ''model'' (item_json i) = Some (JStr (hmodel i))" "member ''prompt'' (item_json i) = Some (JStr (hprompt i))"
    "member ''result'' (item_json i) = Some (result_json (hresult i))" "member ''mode'' (item_json i) = Some (JStr (mode_text (hmode i)))"
    by (simp_all add: item_json_def)
  have "isCreationHistoryItem (JObj ps)" unfolding isCreationHistoryItem_def json.case has_text_def g m using r by auto
  then show ?thesis by (simp add: ps)
qed

lemma saved_items_all: "saved_items items = take CREATION_HISTORY_LIMIT (newest_first (map sanitizeCreationHistoryItem items))"
  by (simp add: saved_items_def)

section \<open>Items that JSON writes without loss\<close>

lemma char_unit [simp]: "of_char c < (65536 :: nat)"
proof -
  have "of_char c mod 256 = (of_char c :: nat)" using of_char_of [of "of_char c :: nat"] by simp
  then show ?thesis using mod_less_divisor [of 256 "of_char c :: nat"] by linarith
qed

lemma js_units: "list_all (\<lambda>u. u < 65536) (js k)"
  by (induction k) auto

definition plain_key :: "string \<Rightarrow> bool" where
  "plain_key k \<longleftrightarrow> k \<noteq> [] \<and> \<not> is_digit (of_char (hd k))"

lemma wf_obj_json:
  assumes "distinct (map fst ms)" "list_all (\<lambda>(k, v). plain_key k \<and> pred_option wf_json v) ms"
  shows "wf_json (obj_json ms)"
proof -
  let ?f = "\<lambda>(k, v :: json option). case v of None \<Rightarrow> [] | Some x \<Rightarrow> [(js k, x)]"
  have "fst ` set (concat (map ?f ns)) \<subseteq> js ` fst ` set ns" for ns :: "(string \<times> json option) list"
    by (force split: option.splits)
  then have "js k \<in> js ` fst ` set ns" if "js k \<in> fst ` set (concat (map ?f ns))" for k and ns :: "(string \<times> json option) list"
    using that by blast
  then have new: "js k \<notin> fst ` set (concat (map ?f ns))" if "k \<notin> fst ` set ns" for k and ns :: "(string \<times> json option) list"
    using that by (metis (no_types, lifting) imageE js_inject)
  have "distinct (map fst ns) \<Longrightarrow> distinct (map fst (concat (map ?f ns)))" for ns :: "(string \<times> json option) list"
  proof (induction ns)
    case (Cons p ns)
    then show ?case using new [of "fst p" ns] by (cases p; cases "snd p") auto
  qed simp
  then have "distinct (map fst (concat (map ?f ms)))" using assms(1) .
  moreover have "l \<noteq> [] \<and> \<not> is_digit (hd l) \<and> list_all (\<lambda>u. u < 65536) l \<and> wf_json x" if x: "(l, x) \<in> set (concat (map ?f ms))" for l x
  proof -
    obtain k where k: "(k, Some x) \<in> set ms" "l = js k" using x by (auto split: option.splits)
    then have "plain_key k" "wf_json x" using assms(2) by (auto simp: list_all_iff)
    then show ?thesis using k js_units by (cases k) (auto simp: plain_key_def)
  qed
  ultimately show ?thesis unfolding obj_json_def by (rule wf_object)
qed

abbreviation units :: "jsstring \<Rightarrow> bool" where
  "units \<equiv> list_all (\<lambda>u. u < 65536)"

definition storable_asset :: "CreationAsset \<Rightarrow> bool" where
  "storable_asset a \<longleftrightarrow> units (asset_id a) \<and> units (asset_name a) \<and> units (asset_type a) \<and> json_num (asset_size a)
     \<and> pred_option units (asset_text a) \<and> pred_option units (dataUrl a)"

definition storable_result :: "CreationResult \<Rightarrow> bool" where
  "storable_result r \<longleftrightarrow> units (res_model r) \<and> pred_option units (res_id r) \<and> pred_option units (res_taskId r)
     \<and> pred_option json_num (res_createdAt r) \<and> pred_option json_num (res_estimateSeconds r)
     \<and> pred_option units (res_duration r) \<and> pred_option units (res_resolution r) \<and> pred_option units (outputText r)
     \<and> pred_option units (imageUrl r) \<and> pred_option units (videoUrl r) \<and> pred_option units (res_error r)
     \<and> pred_option wf_json (raw r)"

definition storable_reference :: "CreationVideoReferenceValue \<Rightarrow> bool" where
  "storable_reference v =
     (case v of RefURL s \<Rightarrow> units s
      | RefObj r \<Rightarrow> units (url r) \<and> pred_option units (previewUrl r) \<and> pred_option json_num (sizeBytes r) \<and> pred_option json_num (durationSeconds r))"

definition storable_video_references :: "CreationVideoReferences \<Rightarrow> bool" where
  "storable_video_references r \<longleftrightarrow> list_all storable_reference (imageUrls r) \<and> units (startImageUrl r) \<and> units (endImageUrl r)
     \<and> list_all storable_reference (videoUrls r) \<and> list_all storable_reference (audioUrls r) \<and> storable_reference (audioUrl r)"

text \<open>Texts are sequences of 16-bit units, numbers are finite ones whose text reads back, and the creation
  time is a number of milliseconds that a double holds exactly.\<close>

definition storable_item :: "CreationHistoryItem \<Rightarrow> bool" where
  "storable_item i \<longleftrightarrow> units (hid i) \<and> 0 \<le> createdAt i \<and> createdAt i \<le> 9007199254740992 \<and> units (hmodel i) \<and> units (hprompt i)
     \<and> pred_option (list_all storable_asset) (assets i) \<and> storable_result (hresult i)
     \<and> pred_option (\<lambda>x. units (img_aspectRatio x) \<and> units (img_outputResolution x)) (imageOptions i)
     \<and> pred_option (\<lambda>x. list_all storable_reference (ref_images x)) (imageReferences i)
     \<and> pred_option (\<lambda>x. units (resolution x) \<and> units (duration x) \<and> pred_option units (aspectRatio x)) (videoOptions i)
     \<and> pred_option storable_video_references (videoReferences i)"

lemma plain_keys [simp]: "plain_key (c # k) \<longleftrightarrow> \<not> is_digit (of_char c)"
  by (simp add: plain_key_def)

lemma pred_option_map: "pred_option P (map_option f v) \<longleftrightarrow> pred_option (P \<circ> f) v"
  by (cases v) auto

lemma mode_units [simp]: "units (mode_text m)"
  by (cases m; simp only: mode_text_def CreationMode.case js_units)

lemma status_units [simp]: "units (status_text s)"
  by (cases s; simp only: status_text_def CreationResultStatus.case js_units)

lemma reference_mode_units [simp]: "units (reference_mode_text rm)"
  by (cases rm; simp only: reference_mode_text_def CreationVideoReferenceMode.case js_units)

lemma wf_asset: "storable_asset a \<Longrightarrow> wf_json (asset_json a)"
  unfolding asset_json_def storable_asset_def by (rule wf_obj_json) (simp_all add: pred_option_map comp_def is_digit_def)

lemma wf_result: "storable_result r \<Longrightarrow> wf_json (result_json r)"
  unfolding result_json_def storable_result_def by (rule wf_obj_json) (simp_all add: pred_option_map comp_def is_digit_def)

lemma wf_reference: "storable_reference v \<Longrightarrow> wf_json (reference_json v)"
proof (cases v)
  case (RefObj r)
  assume "storable_reference v"
  then show ?thesis unfolding RefObj reference_json_def storable_reference_def CreationVideoReferenceValue.case
    by (intro wf_obj_json) (simp_all add: pred_option_map comp_def is_digit_def)
qed (simp add: reference_json_def storable_reference_def)

lemma wf_list: "list_all P xs \<Longrightarrow> (\<And>x. P x \<Longrightarrow> wf_json (f x)) \<Longrightarrow> wf_json (JArr (map f xs))"
  by (simp add: wf_elems_iff list_all_iff)

lemma wf_references: "list_all storable_reference xs \<Longrightarrow> wf_json (JArr (map reference_json xs))"
  using wf_list wf_reference by blast

lemma wf_video_references: "storable_video_references r \<Longrightarrow> wf_json (video_references_json r)"
  unfolding video_references_json_def storable_video_references_def
  by (rule wf_obj_json) (simp_all add: is_digit_def wf_reference wf_references del: wf_json.simps(5))

lemma wf_image_options: "units (img_aspectRatio x) \<Longrightarrow> units (img_outputResolution x) \<Longrightarrow> wf_json (image_options_json x)"
  unfolding image_options_json_def by (rule wf_obj_json) (simp_all add: is_digit_def)

lemma wf_image_references: "list_all storable_reference (ref_images x) \<Longrightarrow> wf_json (image_references_json x)"
  unfolding image_references_json_def
  by (rule wf_obj_json) (simp_all add: is_digit_def wf_references del: wf_json.simps(5))

lemma wf_video_options:
  "units (resolution x) \<Longrightarrow> units (duration x) \<Longrightarrow> pred_option units (aspectRatio x) \<Longrightarrow> wf_json (video_options_json x)"
  unfolding video_options_json_def by (rule wf_obj_json) (simp_all add: is_digit_def pred_option_map comp_def)

lemma pred_optionI: "pred_option P v \<Longrightarrow> (\<And>x. P x \<Longrightarrow> Q (f x)) \<Longrightarrow> pred_option Q (map_option f v)"
  by (cases v) auto

lemma wf_item:
  assumes "storable_item i"
  shows "wf_json (item_json i)"
proof -
  have t: "json_num (Fin (of_int (createdAt i)))"
    using assms json_num_nat [of "nat (createdAt i)"] by (simp add: storable_item_def nat_le_iff)
  have p: "pred_option wf_json (map_option (\<lambda>as. JArr (map asset_json as)) (assets i))"
    "pred_option wf_json (map_option image_options_json (imageOptions i))"
    "pred_option wf_json (map_option image_references_json (imageReferences i))"
    "pred_option wf_json (map_option video_options_json (videoOptions i))"
    "pred_option wf_json (map_option video_references_json (videoReferences i))"
    using assms unfolding storable_item_def
    by (blast intro: pred_optionI wf_list wf_asset wf_image_options wf_image_references wf_video_options wf_video_references)+
  show ?thesis
    unfolding item_json_def using assms t p by (intro wf_obj_json) (simp_all add: storable_item_def is_digit_def wf_result)
qed

end
