(* ===== verification/Creation_Session_Props.thy ===== *)
theory Creation_Session_Props
  imports Creation_Item_JSON "HOL-Library.Multiset"
begin

text \<open>
  The history of the creation center as an abstract map from identifiers to items, of which the
  newest are kept: every insertion refines the update of the map.
\<close>

section \<open>Sanitising is idempotent\<close>

lemma sanitize_keeps [simp]:
  "hid (sanitizeCreationHistoryItem i) = hid i" "createdAt (sanitizeCreationHistoryItem i) = createdAt i"
  "hmodel (sanitizeCreationHistoryItem i) = hmodel i"
  by (simp_all add: sanitizeCreationHistoryItem_def Let_def split: option.splits)

lemma storable_urls_trimmed: "u \<in> set (storable_urls vs) \<Longrightarrow> trim u = u \<and> isStorableReferenceURL u"
  by (auto simp: storable_urls_def getStorableReferenceURL_def split: CreationVideoReferenceValue.splits)

lemma storable_urls_again: "storable_urls (map RefURL (storable_urls vs)) = storable_urls vs"
proof -
  have "filter isStorableReferenceURL (map trim us) = us"
    if "\<forall>u\<in>set us. trim u = u \<and> isStorableReferenceURL u" for us
    using that by (induction us) auto
  then show ?thesis using storable_urls_trimmed
    by (subst storable_urls_def) (simp add: getStorableReferenceURL_def comp_def)
qed

lemma storable_text_again [simp]: "storable_text (storable_text s) = storable_text s"
  by (simp add: storable_text_def)

lemma not_storable_Nil [simp]: "\<not> isStorableReferenceURL []"
  by (simp add: isStorableReferenceURL_def)

lemma storable_single: "storable_urls [v] = (if isStorableReferenceURL (getStorableReferenceURL v)
    then [getStorableReferenceURL v] else [])"
  by (simp add: storable_urls_def)

lemma getStorable_trim: "trim (getStorableReferenceURL v) = getStorableReferenceURL v"
  by (simp add: getStorableReferenceURL_def split: CreationVideoReferenceValue.splits)

lemma storable_audio:
  "getStorableReferenceURL (RefURL (storable_text (getStorableReferenceURL v))) = storable_text (getStorableReferenceURL v)"
  using getStorable_trim [of v] by (simp add: storable_text_def getStorableReferenceURL_def)

lemma sanitize_video_again: "sanitize_video_references (sanitize_video_references r) = sanitize_video_references r"
proof -
  let ?a = "storable_text (getStorableReferenceURL (audioUrl r))"
  have "storable_urls [RefURL ?a] = [?a]" if "?a \<noteq> []"
    using that storable_audio [of "audioUrl r"] by (simp add: storable_single) (simp add: storable_text_def split: if_splits)
  then show ?thesis
    by (auto simp: sanitize_video_references_def storable_urls_again storable_audio Let_def) (simp_all add: storable_urls_def)
qed

lemma clean_references_again: "cleanReferenceValues (Some (cleanReferenceValues v)) = cleanReferenceValues v"
  by (simp add: cleanReferenceValues_def or_list_def)

lemma sanitize_image_again:
  "sanitizeImageReferences (sanitizeImageReferences r m) m = sanitizeImageReferences r m"
proof -
  have "cleanReferenceValues (Some (map RefURL (storable_urls vs))) = map RefURL (storable_urls vs)" for vs
  proof -
    have "[] \<notin> set (storable_urls vs)" using storable_urls_trimmed not_storable_Nil by blast
    then have "\<forall>v\<in>set (map RefURL (storable_urls vs)). ref_url v \<noteq> []"
      using storable_urls_trimmed [of _ vs] by (auto simp: getCreationReferenceURL_def)
    then show ?thesis by (simp add: cleanReferenceValues_def or_list_def filter_id_conv)
  qed
  then show ?thesis
    by (simp add: sanitizeImageReferences_def normalizeCreationImageReferences_def storable_urls_again
        EMPTY_CREATION_IMAGE_REFERENCES_def)
qed

lemma sanitize_again: "sanitizeCreationHistoryItem (sanitizeCreationHistoryItem i) = sanitizeCreationHistoryItem i"
  using image_options.norm_idem
  by (cases "imageReferences i"; cases "videoReferences i")
    (simp_all add: sanitizeCreationHistoryItem_def sanitize_image_again sanitize_video_again option.map_comp comp_def)

interpretation history_items: normaliser sanitizeCreationHistoryItem "\<lambda>i. sanitizeCreationHistoryItem i = i"
  by unfold_locales (simp_all add: sanitize_again)

section \<open>Ordering\<close>

abbreviation age :: "CreationHistoryItem \<Rightarrow> int" where
  "age i \<equiv> - createdAt i"

lemma newest_mset [simp]: "mset (newest_first xs) = mset xs"
  by (simp add: newest_first_def)

lemma newest_set [simp]: "set (newest_first xs) = set xs"
  by (simp add: newest_first_def)

lemma newest_length [simp]: "length (newest_first xs) = length xs"
  by (simp add: newest_first_def)

lemma newest_sorted [simp]: "sorted (map age (newest_first xs))"
  by (simp add: newest_first_def)

lemma newest_id: "sorted (map age xs) \<Longrightarrow> newest_first xs = xs"
  by (simp add: newest_first_def sorted_sort_id sort_key_id_if_sorted)

lemma distinct_newest: "distinct (map f (newest_first xs)) \<longleftrightarrow> distinct (map f xs)"
  by (metis mset_eq_imp_distinct_iff mset_map newest_mset)

section \<open>The abstract history\<close>

definition history_map :: "CreationHistoryItem list \<Rightarrow> jsstring \<Rightarrow> CreationHistoryItem option" where
  "history_map items = map_of (map (\<lambda>i. (hid i, i)) items)"

text \<open>The \<open>n\<close> newest entries of a finite map.\<close>

definition newest_of ::
    "nat \<Rightarrow> (jsstring \<Rightarrow> CreationHistoryItem option) \<Rightarrow> (jsstring \<Rightarrow> CreationHistoryItem option) \<Rightarrow> bool" where
  "newest_of n m m' \<longleftrightarrow> m' \<subseteq>\<^sub>m m \<and> card (dom m') = min n (card (dom m))
     \<and> (\<forall>x\<in>ran m'. \<forall>y\<in>ran m. y \<in> ran m' \<or> createdAt y \<le> createdAt x)"

definition wf_history :: "CreationHistoryItem list \<Rightarrow> bool" where
  "wf_history items \<longleftrightarrow> sorted (map age items) \<and> distinct (map hid items)
     \<and> length items \<le> CREATION_HISTORY_LIMIT \<and> list_all (\<lambda>i. sanitizeCreationHistoryItem i = i) items"

lemma history_map_pairs: "map fst (map (\<lambda>i. (hid i, i)) xs) = map hid xs"
  by simp

lemma history_map_set:
  "distinct (map hid xs) \<Longrightarrow> distinct (map hid ys) \<Longrightarrow> set xs = set ys \<Longrightarrow> history_map xs = history_map ys"
  unfolding history_map_def by (subst map_of_inject_set) (simp_all add: comp_def)

lemma ran_history: "distinct (map hid xs) \<Longrightarrow> ran (history_map xs) = set xs"
  by (simp add: history_map_def ran_distinct comp_def image_image)

lemma dom_history: "dom (history_map xs) = hid ` set xs"
  by (simp add: history_map_def dom_map_of_conv_image_fst image_image)

lemma card_dom_history: "distinct (map hid xs) \<Longrightarrow> card (dom (history_map xs)) = length xs"
  unfolding dom_history by (metis distinct_card length_map list.set_map)

lemma history_take: "distinct (map hid xs) \<Longrightarrow> history_map (take n xs) \<subseteq>\<^sub>m history_map xs"
proof -
  assume d: "distinct (map hid xs)"
  then have "distinct (map hid (take n xs))" by (simp add: take_map [symmetric])
  then have "x \<in> set (take n xs) \<Longrightarrow> history_map (take n xs) (hid x) = Some x \<and> history_map xs (hid x) = Some x" for x
    using d by (auto simp: history_map_def comp_def dest: in_set_takeD intro!: map_of_is_SomeI)
  then show ?thesis by (auto simp: map_le_def dom_history)
qed

lemma take_newest_of:
  assumes "distinct (map hid xs)"
  shows "newest_of n (history_map xs) (history_map (take n (newest_first xs)))"
proof -
  let ?ys = "newest_first xs"
  have d: "distinct (map hid ?ys)" using assms by (simp add: distinct_newest)
  then have dt: "distinct (map hid (take n ?ys))" by (simp add: take_map [symmetric])
  have m: "history_map xs = history_map ?ys" using assms d by (intro history_map_set) auto
  have "sorted (map age (take n ?ys @ drop n ?ys))" by simp
  then have "createdAt y \<le> createdAt x" if "x \<in> set (take n ?ys)" "y \<in> set (drop n ?ys)" for x y
    using that unfolding map_append sorted_append by force
  moreover have "set ?ys = set (take n ?ys) \<union> set (drop n ?ys)" by (metis append_take_drop_id set_append)
  ultimately have "\<forall>x\<in>set (take n ?ys). \<forall>y\<in>set ?ys. y \<in> set (take n ?ys) \<or> createdAt y \<le> createdAt x" by blast
  then show ?thesis
    using history_take [OF d, of n] card_dom_history [OF d] card_dom_history [OF dt] ran_history [OF d] ran_history [OF dt]
    unfolding newest_of_def m by (simp add: min.commute)
qed

lemma upsert_list:
  "wf_history items \<Longrightarrow> distinct (map hid (sanitizeCreationHistoryItem item # filter (\<lambda>c. hid c \<noteq> hid item) items))"
  by (auto simp: wf_history_def distinct_map_filter)

lemma upsert_map:
  "wf_history items \<Longrightarrow>
   history_map (sanitizeCreationHistoryItem item # filter (\<lambda>c. hid c \<noteq> hid item) items)
     = (history_map items)(hid item \<mapsto> sanitizeCreationHistoryItem item)"
proof -
  have "map_of (map (\<lambda>i. (hid i, i)) (filter (\<lambda>c. hid c \<noteq> k) xs)) j = (if j = k then None else map_of (map (\<lambda>i. (hid i, i)) xs) j)" for k j and xs :: "CreationHistoryItem list"
    by (induction xs) auto
  then show ?thesis by (auto simp: history_map_def)
qed

lemma upsert_wf: "wf_history items \<Longrightarrow> wf_history (upsertCreationHistoryItem items item)"
proof -
  assume w: "wf_history items"
  let ?l = "sanitizeCreationHistoryItem item # filter (\<lambda>c. hid c \<noteq> hid item) items"
  have "distinct (map hid (newest_first ?l))" using upsert_list [OF w] by (simp only: distinct_newest)
  then have "distinct (map hid (take n (newest_first ?l)))" for n by (simp add: take_map [symmetric])
  moreover have "sorted (map age (take n (newest_first ?l)))" for n
    by (metis newest_sorted sorted_wrt_take take_map)
  moreover have "list_all (\<lambda>i. sanitizeCreationHistoryItem i = i) (newest_first ?l)"
    using w by (auto simp: wf_history_def list_all_iff sanitize_again)
  then have "list_all (\<lambda>i. sanitizeCreationHistoryItem i = i) (take n (newest_first ?l))" for n
    unfolding list_all_iff using in_set_takeD by fast
  ultimately show ?thesis by (simp add: wf_history_def upsertCreationHistoryItem_def)
qed

section \<open>What is stored\<close>

text \<open>The texts of all references of an item.\<close>

definition video_reference_urls :: "CreationVideoReferences \<Rightarrow> jsstring set" where
  "video_reference_urls r =
     ref_url ` (set (imageUrls r) \<union> set (videoUrls r) \<union> set (audioUrls r) \<union> {audioUrl r})
     \<union> {startImageUrl r, endImageUrl r}"

definition item_urls :: "CreationHistoryItem \<Rightarrow> jsstring set" where
  "item_urls i =
     (case imageReferences i of None \<Rightarrow> {} | Some r \<Rightarrow> ref_url ` set (ref_images r))
     \<union> (case videoReferences i of None \<Rightarrow> {} | Some r \<Rightarrow> video_reference_urls r)"

definition web_url :: "jsstring \<Rightarrow> bool" where
  "web_url u \<longleftrightarrow> web_address (trim u)"

lemma storable_web_url: "isStorableReferenceURL u \<Longrightarrow> web_url u"
  using http_prefix_web by (simp add: isStorableReferenceURL_def web_url_def)

lemma storable_kept:
  "v \<in> set (storable_urls vs) \<Longrightarrow> isStorableReferenceURL (ref_url (RefURL v))"
  using storable_urls_trimmed by (auto simp: getCreationReferenceURL_def)

lemma storable_text_cases: "storable_text t = [] \<or> isStorableReferenceURL (storable_text t)"
  by (simp add: storable_text_def)

lemma storable_text_url: "ref_url (RefURL (storable_text t)) = [] \<or> isStorableReferenceURL (ref_url (RefURL (storable_text t)))"
  by (simp add: storable_text_def getCreationReferenceURL_def isStorableReferenceURL_def)

lemma sanitized_image_urls:
  "v \<in> set (ref_images (sanitizeImageReferences r m)) \<Longrightarrow> isStorableReferenceURL (ref_url v)"
  using storable_kept
  by (auto simp: sanitizeImageReferences_def normalizeCreationImageReferences_def cleanReferenceValues_def or_list_def
      EMPTY_CREATION_IMAGE_REFERENCES_def split: if_splits)

lemma sanitized_video_urls:
  "u \<in> video_reference_urls (sanitize_video_references r) \<Longrightarrow> u = [] \<or> isStorableReferenceURL u"
  using storable_kept storable_text_cases storable_text_url [of "getStorableReferenceURL (audioUrl r)"]
  by (auto simp: video_reference_urls_def sanitize_video_references_def Let_def split: if_splits)

lemma sanitized_urls: "u \<in> item_urls (sanitizeCreationHistoryItem i) \<Longrightarrow> u = [] \<or> isStorableReferenceURL u"
  by (auto simp: item_urls_def sanitizeCreationHistoryItem_def Let_def split: option.splits
      dest: sanitized_image_urls sanitized_video_urls)

text \<open>A model that is given by its identifier has no metadata and no mapped endpoints.\<close>

lemma string_model_plain:
  "getMappedImageParameters (ModelString m) = None" "getAsyncImageCapability (ModelString m) = None"
  "\<not> isSanbaoImageModel (ModelString m)" "\<not> usesAsyncCreationImageModel (ModelString m)"
  by (simp_all add: getMappedImageParameters_def getAsyncImageCapability_def isSanbaoImageModel_def provider_is_def
      usesAsyncCreationImageModel_def model_endpoints_def getModelMetadata_def Let_def split: option.splits)

section \<open>Properties\<close>

text \<open>C19: Inserting into the history refines the update of an abstract map from identifiers to items:
  the result has a newest-first list of at most twenty sanitised items with distinct identifiers,
  and as a map it is the updated map cut down to its newest entries.\<close>

theorem upsert_refines_map:
  assumes "wf_history items"
  shows "wf_history (upsertCreationHistoryItem items item)
    \<and> newest_of CREATION_HISTORY_LIMIT ((history_map items)(hid item \<mapsto> sanitizeCreationHistoryItem item))
        (history_map (upsertCreationHistoryItem items item))"
  using upsert_wf [OF assms] take_newest_of [OF upsert_list [OF assms]] upsert_map [OF assms]
  unfolding upsertCreationHistoryItem_def by metis

definition sample_result :: CreationResult where
  "sample_result = \<lparr>res_mode = ImageMode, res_model = js ''gpt-image2'', res_id = None, res_taskId = None,
     res_createdAt = None, res_estimateSeconds = None, res_duration = None, res_resolution = None,
     res_status = Completed, outputText = None, imageUrl = None, videoUrl = None, res_error = None, raw = None\<rparr>"

definition sample_item :: "jsstring \<Rightarrow> jsstring \<Rightarrow> jsstring list \<Rightarrow> CreationHistoryItem" where
  "sample_item i m urls = \<lparr>hid = i, createdAt = 7, hmode = ImageMode, hmodel = m, hprompt = [], assets = None,
     hresult = sample_result, imageOptions = Some \<lparr>img_aspectRatio = js ''16:9'', img_outputResolution = js ''4K''\<rparr>,
     imageReferences = Some \<lparr>ref_images = map RefURL urls\<rparr>, videoOptions = None, videoReferences = None\<rparr>"

theorem upsert_refines_map_witness:
  "newest_of CREATION_HISTORY_LIMIT
     ([js ''x'' \<mapsto> sanitizeCreationHistoryItem (sample_item (js ''x'') (js ''gpt-image2'') [js ''http://a''])])
     (history_map (upsertCreationHistoryItem [] (sample_item (js ''x'') (js ''gpt-image2'') [js ''http://a''])))"
  using upsert_refines_map [of "[]" "sample_item (js ''x'') (js ''gpt-image2'') [js ''http://a'']"]
  by (simp add: wf_history_def history_map_def sample_item_def)

text \<open>The page persists one item after another.\<close>

fun persist_all ::
    "(storage \<Rightarrow> jsstring \<Rightarrow> jsstring \<Rightarrow> bool) \<Rightarrow> jsstring \<Rightarrow> CreationHistoryItem list \<Rightarrow> CreationHistoryItem list \<times> storage
     \<Rightarrow> storage_error + CreationHistoryItem list \<times> storage" where
  "persist_all fits key [] current = Inr current"
| "persist_all fits key (item # rest) current =
     (case persistHistoryItem fits key item current of Inl e \<Rightarrow> Inl e | Inr current' \<Rightarrow> persist_all fits key rest current')"

lemma foldl_upsert_wf: "wf_history items \<Longrightarrow> wf_history (foldl upsertCreationHistoryItem items inserted)"
  by (induction inserted arbitrary: items) (simp_all add: upsert_wf)

lemma saved_wf: "wf_history h \<Longrightarrow> saved_items h = h"
proof -
  assume w: "wf_history h"
  then have "map sanitizeCreationHistoryItem h = h" by (simp add: wf_history_def list_all_iff map_idI)
  then show ?thesis using w by (simp add: saved_items_all newest_id wf_history_def)
qed

lemma loaded_wf: "wf_history h \<Longrightarrow> loaded_items (map item_json h) = Some h"
proof -
  assume w: "wf_history h"
  then have "map sanitizeCreationHistoryItem h = h" by (simp add: wf_history_def list_all_iff map_idI)
  moreover have "filter isCreationHistoryItem (map item_json h) = map item_json h" by (simp add: filter_id_conv)
  ultimately show ?thesis using w by (simp add: loaded_items_def newest_id wf_history_def)
qed

lemma load_saved:
  assumes "wf_history h" "list_all storable_item h" "saveCreationHistory fits key h storage = Inr storage'"
  shows "loadCreationHistory key storage' = (Some h, storage')"
proof -
  let ?v = "JArr (map item_json h)"
  have "wf_json ?v" using assms(2) by (simp add: wf_elems_iff list_all_iff wf_item)
  then have p: "json_parse (json_stringify ?v) = Some ?v" by (rule json_stringify_reads_back)
  moreover have "storage' = storage(key \<mapsto> json_stringify ?v)"
    using assms(3) saved_wf [OF assms(1)] by (auto simp: saveCreationHistory_def Let_def split: if_splits)
  moreover have "json_stringify ?v \<noteq> []" by (simp add: json_stringify_def json_bracket_def)
  ultimately show ?thesis using loaded_wf [OF assms(1)] by (simp add: loadCreationHistory_def)
qed

lemma persist_all_saves:
  "persist_all fits key inserted (items, storage) = Inr (h, storage') \<Longrightarrow>
   h = foldl upsertCreationHistoryItem items inserted \<and> (\<forall>k. k \<noteq> key \<longrightarrow> storage' k = storage k)
   \<and> (inserted = [] \<and> storage' = storage \<or> (\<exists>st. saveCreationHistory fits key h st = Inr storage'))"
proof (induction inserted arbitrary: items storage)
  case (Cons item rest)
  let ?next = "upsertCreationHistoryItem items item"
  obtain st where st: "saveCreationHistory fits key ?next storage = Inr st" "persist_all fits key rest (?next, st) = Inr (h, storage')"
    using Cons.prems by (auto simp: persistHistoryItem_def Let_def split: sum.splits)
  have "k \<noteq> key \<Longrightarrow> st k = storage k" for k
    using st(1) by (auto simp: saveCreationHistory_def Let_def split: if_splits)
  moreover note Cons.IH [OF st(2)]
  ultimately show ?case using st by (cases rest) auto
qed simp

text \<open>C20: Nothing but web addresses is stored: every reference of a saved item is empty or starts with
  \<open>http://\<close> or \<open>https://\<close> in any letter case, so no data URL of an uploaded file gets into the storage.\<close>

theorem saved_references_are_web_urls:
  assumes "i \<in> set (saved_items items)" "u \<in> item_urls i"
  shows "u = [] \<or> web_url u"
proof -
  obtain i' where "i = sanitizeCreationHistoryItem i'"
    using assms(1) unfolding saved_items_all by (auto dest!: in_set_takeD)
  then show ?thesis using assms(2) sanitized_urls storable_web_url by blast
qed

lemma sample_saved:
  "saved_items [sample_item (js ''x'') (js ''gpt-image2'') [js ''http://a'', js ''data:,'']]
   = [(sample_item (js ''x'') (js ''gpt-image2'') [js ''http://a''])
       \<lparr>imageOptions := Some \<lparr>img_aspectRatio = js ''16:9'', img_outputResolution = js ''1K''\<rparr>\<rparr>]"
proof -
  let ?m = "ModelString (js ''gpt-image2'')"
  have c: "image_creation ?m"
    by (simp add: image_creation_def supportsCreationImageReferences_def normalizeModelId_def getModelId_def js_eval)
  have n: "getMappedImageParameters ?m = None" "getAsyncImageCapability ?m = None" "\<not> isSanbaoImageModel ?m"
    by (rule string_model_plain)+
  have "storable_urls [RefURL (js ''http://a''), RefURL (js ''data:,'')] = [js ''http://a'']"
    by (simp add: storable_urls_def getStorableReferenceURL_def isStorableReferenceURL_def http_prefix_re_def
        http_scheme_def re_test_begin any_case_def ropt_def js_eval)
  moreover have "cleanReferenceValues (Some [RefURL (js ''http://a'')]) = [RefURL (js ''http://a'')]"
    by (simp add: cleanReferenceValues_def or_list_def getCreationReferenceURL_def js_eval)
  ultimately show ?thesis using c n
    by (simp add: saved_items_all newest_first_def CREATION_HISTORY_LIMIT_def sanitizeCreationHistoryItem_def sample_item_def
        sanitizeImageReferences_def normalizeCreationImageReferences_def normalizeCreationImageOptions_def
        to_partial_image_def getCreationImageAspectRatioOptions_def getCreationImageResolutionOptions_def or_list_def
        CREATION_IMAGE_ASPECT_RATIO_OPTIONS_def DEFAULT_CREATION_IMAGE_OPTIONS_def Let_def)
qed

theorem saved_references_are_web_urls_witness:
  "js ''http://a'' = [] \<or> web_url (js ''http://a'')"
  by (rule saved_references_are_web_urls
      [of _ "[sample_item (js ''x'') (js ''gpt-image2'') [js ''http://a'', js ''data:,'']]", unfolded sample_saved, OF list.set_intros(1)])
    (simp add: item_urls_def sample_item_def getCreationReferenceURL_def js_eval)

text \<open>C38: A history survives storage.  When the page starts with no stored history and persists items one
  after another, the storage taking every text, the list it shows is the items inserted in turn, which
  is newest-first, bounded and free of duplicates; and loading what is then stored, through the text
  that \<open>JSON.stringify\<close> wrote, \<open>JSON.parse\<close> and the shape test, gives exactly that list and changes
  nothing, provided that the texts of its items are 16-bit units and the numbers ones that JSON
  writes without loss.  No other key of the storage is touched.\<close>

theorem history_survives_storage:
  assumes "storage key = None" "persist_all fits key inserted ([], storage) = Inr (h, storage')" "list_all storable_item h"
  shows "h = foldl upsertCreationHistoryItem [] inserted \<and> wf_history h
    \<and> loadCreationHistory key storage' = (Some h, storage') \<and> (\<forall>k. k \<noteq> key \<longrightarrow> storage' k = storage k)"
proof -
  note run = persist_all_saves [OF assms(2)]
  have w: "wf_history h" using run foldl_upsert_wf [of "[]" inserted] by (simp add: wf_history_def)
  have "loadCreationHistory key storage' = (Some h, storage')" if "inserted = []" "storage' = storage"
    using that run assms(1) by (simp add: loadCreationHistory_def)
  then show ?thesis using run w load_saved [OF w assms(3)] by blast
qed

definition stored_sample :: CreationHistoryItem where
  "stored_sample = (sample_item (js ''x'') (js ''gpt-image2'') [js ''http://a''])
     \<lparr>imageOptions := Some \<lparr>img_aspectRatio = js ''16:9'', img_outputResolution = js ''1K''\<rparr>\<rparr>"

lemma stored_sample_storable: "storable_item stored_sample"
  using json_num_nat [of 7]
  by (simp add: stored_sample_def sample_item_def sample_result_def storable_item_def storable_result_def storable_reference_def)

theorem history_survives_storage_witness:
  "\<exists>storage. persist_all (\<lambda>_ _ _. True) (js ''k'') [sample_item (js ''x'') (js ''gpt-image2'') [js ''http://a'', js ''data:,'']] ([], Map.empty)
       = Inr ([stored_sample], storage)
     \<and> loadCreationHistory (js ''k'') storage = (Some [stored_sample], storage)"
proof -
  let ?i = "sample_item (js ''x'') (js ''gpt-image2'') [js ''http://a'', js ''data:,'']" and ?fits = "\<lambda>_ _ _. True"
  have "upsertCreationHistoryItem [] ?i = [stored_sample]"
    using sample_saved by (simp add: upsertCreationHistoryItem_def saved_items_all stored_sample_def del: js.simps)
  then obtain storage where "persist_all ?fits (js ''k'') [?i] ([], Map.empty) = Inr ([stored_sample], storage)"
    by (simp add: persistHistoryItem_def saveCreationHistory_def Let_def del: js.simps)
  then show ?thesis
    using history_survives_storage [of Map.empty "js ''k''" ?fits "[?i]" "[stored_sample]" storage] stored_sample_storable
    by (auto simp del: js.simps persist_all.simps)
qed

text \<open>C40: Storing loses the references and options of image models that are recognised by their
  metadata: the item holds the identifier of the model only, so for every identifier other than
  \<open>gpt-image2\<close> the references become empty and the options the default ones.\<close>

theorem stored_image_references_lost:
  assumes "toLowerCase (trim (hmodel item)) \<noteq> js ''gpt-image2''" "imageReferences item = Some r"
  shows "imageReferences (sanitizeCreationHistoryItem item) = Some \<lparr>ref_images = []\<rparr>
    \<and> imageOptions (sanitizeCreationHistoryItem item)
      = map_option (\<lambda>_. DEFAULT_CREATION_IMAGE_OPTIONS) (imageOptions item)"
proof -
  have "\<not> image_creation (ModelString (hmodel item))"
    using assms(1) string_model_plain
    by (simp add: image_creation_def supportsCreationImageReferences_def truthy_text_def normalizeModelId_def getModelId_def
        del: js.simps)
  then show ?thesis using assms(2)
    by (cases "videoReferences item"; cases "imageOptions item")
      (simp_all add: sanitizeCreationHistoryItem_def sanitizeImageReferences_def normalizeCreationImageReferences_def
        normalizeCreationImageOptions_def EMPTY_CREATION_IMAGE_REFERENCES_def)
qed

theorem stored_image_references_lost_witness:
  "imageReferences (sanitizeCreationHistoryItem (sample_item (js ''x'') (js ''nano-banana2'') [js ''http://a'']))
   = Some \<lparr>ref_images = []\<rparr>"
  using stored_image_references_lost [of "sample_item (js ''x'') (js ''nano-banana2'') [js ''http://a'']"]
  by (simp add: sample_item_def js_eval)

end
