(* ===== verification/Media_Results.thy ===== *)
theory Media_Results
  imports JS_JSON Web_Address
begin

text \<open>
  The results of image and video tasks (\<open>features/media-generation/result-parsers.ts\<close>): the status,
  the addresses and the error message that are read from the JSON value a provider answers with.
  A property that is absent reads as \<open>None\<close>; the alternatives \<open>a || b || \<dots>\<close> over strings that are
  never empty are \<open>first_some\<close>.
\<close>

section \<open>Reading records\<close>

fun first_some :: "'a option list \<Rightarrow> 'a option" where
  "first_some [] = None"
| "first_some (None # xs) = first_some xs"
| "first_some (Some x # xs) = Some x"

type_synonym json_record = "(jsstring \<times> json) list"

definition asRecord :: "json option \<Rightarrow> json_record" where
  "asRecord value = (case value of Some (JObj ps) \<Rightarrow> ps | _ \<Rightarrow> [])"

definition read_record :: "json_record \<Rightarrow> string \<Rightarrow> json_record" where
  "read_record data k = asRecord (obj_get (js k) data)"

definition getString :: "json_record \<Rightarrow> string \<Rightarrow> jsstring option" where
  "getString data k =
     (case obj_get (js k) data of Some (JStr s) \<Rightarrow> if trim s \<noteq> [] then Some s else None | _ \<Rightarrow> None)"

section \<open>Status\<close>

datatype MediaTaskStatus = Queued | Processing | Completed | Failed | Unknown

definition normalizeMediaTaskStatus :: "jsstring option \<Rightarrow> MediaTaskStatus" where
  "normalizeMediaTaskStatus status =
     (case status of
        None \<Rightarrow> Unknown
      | Some s \<Rightarrow>
          (let n = toLowerCase (trim s)
           in if startsWith n (js ''failed:'') then Failed
              else if n \<in> set (map js [''queued'', ''pending'', ''submitted'']) then Queued
              else if n \<in> set (map js [''processing'', ''running'', ''in_progress'']) then Processing
              else if n \<in> set (map js [''completed'', ''succeeded'', ''success'']) then Completed
              else if n \<in> set (map js [''failed'', ''cancelled'', ''canceled'']) then Failed
              else Unknown))"

section \<open>Addresses\<close>

definition http_url_re :: re where
  "http_url_re = RSeq RBegin (RSeq http_scheme (RSeq (rplus (RSet (\<lambda>u. \<not> is_ws u))) REnd))"

fun firstHTTPURL :: "json_record \<Rightarrow> string list \<Rightarrow> jsstring option" where
  "firstHTTPURL data [] = None"
| "firstHTTPURL data (k # ks) =
     (case getString data k of
        Some v \<Rightarrow> if re_test http_url_re v then Some v else firstHTTPURL data ks
      | None \<Rightarrow> firstHTTPURL data ks)"

fun first_image_url :: "json list \<Rightarrow> jsstring option" where
  "first_image_url [] = None"
| "first_image_url (v # vs) =
     (case v of
        JStr s \<Rightarrow> if trim s \<noteq> [] then Some s else first_image_url vs
      | _ \<Rightarrow>
          (let image = asRecord (Some v)
           in case first_some [getString image ''url'', getString image ''image_url'',
                getString image ''download_url''] of
                Some u \<Rightarrow> Some u
              | None \<Rightarrow> first_image_url vs))"

definition getFirstImageArrayURL :: "json option \<Rightarrow> jsstring option" where
  "getFirstImageArrayURL value = (case value of Some (JArr vs) \<Rightarrow> first_image_url vs | _ \<Rightarrow> None)"

definition getImageURL :: "json_record \<Rightarrow> jsstring option" where
  "getImageURL data = first_some
     [getString data ''result_url'', getString data ''image_url'', getString data ''url'',
      getString data ''output_url'', getFirstImageArrayURL (obj_get (js ''images'') data),
      getFirstImageArrayURL (obj_get (js ''data'') data)]"

section \<open>Results\<close>

record ParsedImageGenerationResult =
  pi_id :: "jsstring option"
  pi_taskId :: "jsstring option"
  pi_status :: MediaTaskStatus
  pi_imageUrl :: "jsstring option"
  pi_revisedPrompt :: "jsstring option"

record ParsedVideoGenerationResult =
  pv_id :: "jsstring option"
  pv_taskId :: "jsstring option"
  pv_status :: MediaTaskStatus
  pv_upstreamStatus :: "jsstring option"
  pv_videoUrl :: "jsstring option"

text \<open>The envelope of an answer: the record under \<open>data\<close> when it has a key, else the answer
  itself.  An array under \<open>data\<close> is no record, so the test for it in the image parser is covered.\<close>

definition envelope :: "json \<Rightarrow> json_record" where
  "envelope raw =
     (let data = asRecord (Some raw); e = read_record data ''data'' in if e \<noteq> [] then e else data)"

definition task_status :: "json \<Rightarrow> jsstring option" where
  "task_status raw =
     first_some [getString (envelope raw) ''status'', getString (asRecord (Some raw)) ''status'']"

definition task_id :: "json \<Rightarrow> jsstring option" where
  "task_id raw =
     (let source = envelope raw; data = asRecord (Some raw)
      in first_some [getString source ''task_id'', getString data ''task_id'',
           getString source ''id'', getString data ''id''])"

definition result_id :: "json \<Rightarrow> jsstring option" where
  "result_id raw = first_some [getString (envelope raw) ''id'', getString (asRecord (Some raw)) ''id'']"

definition first_image :: "json_record \<Rightarrow> json_record" where
  "first_image data =
     (case obj_get (js ''data'') data of Some (JArr vs) \<Rightarrow> asRecord (first vs) | _ \<Rightarrow> [])"

definition parseImageGenerationResult :: "json \<Rightarrow> ParsedImageGenerationResult" where
  "parseImageGenerationResult raw =
     (let data = asRecord (Some raw); source = envelope raw; firstImage = first_image data;
          sourceData = read_record source ''data''; nestedData = read_record sourceData ''data''
      in \<lparr>pi_id = result_id raw, pi_taskId = task_id raw,
          pi_status = normalizeMediaTaskStatus (task_status raw),
          pi_imageUrl = first_some [getString firstImage ''url'', getImageURL source,
            getImageURL sourceData, getImageURL nestedData,
            map_option (\<lambda>b. js ''data:image/png;base64,'' @ b) (getString firstImage ''b64_json'')],
          pi_revisedPrompt = getString firstImage ''revised_prompt''\<rparr>)"

definition parseVideoGenerationResult :: "json \<Rightarrow> ParsedVideoGenerationResult" where
  "parseVideoGenerationResult raw =
     (let source = envelope raw; metadata = read_record source ''metadata''; status = task_status raw
      in \<lparr>pv_id = result_id raw, pv_taskId = task_id raw, pv_status = normalizeMediaTaskStatus status,
          pv_upstreamStatus = status,
          pv_videoUrl = first_some
            [firstHTTPURL source [''url'', ''object'', ''result_url'', ''output_url'', ''video_url'', ''content_url''],
             firstHTTPURL metadata [''url'', ''result_url'', ''output_url'', ''video_url'', ''content_url'']]\<rparr>)"

section \<open>Errors\<close>

definition failed_re :: re where
  "failed_re = RSeq RBegin (rseqs [any_case 102, any_case 97, any_case 105, any_case 108, any_case 101,
     any_case 100, rlit '':'', RStar (RSet is_ws), RGroup 1 (rplus (RSet any_dot)), REnd])"

definition truthy_string :: "jsstring option \<Rightarrow> jsstring option" where
  "truthy_string v = (case v of Some s \<Rightarrow> if s \<noteq> [] then Some s else None | None \<Rightarrow> None)"

definition failed_reason :: "jsstring option \<Rightarrow> jsstring option" where
  "failed_reason status =
     truthy_string (Option.bind status (\<lambda>s. map_option (\<lambda>m. trim (group m 1)) (re_match failed_re s)))"

definition extractMediaErrorMessage :: "json \<Rightarrow> jsstring option" where
  "extractMediaErrorMessage raw =
     (let data = asRecord (Some raw); e = read_record data ''data'';
          status = first_some [getString e ''status'', getString data ''status'']
      in first_some [getString (read_record data ''error'') ''message'',
           getString (read_record e ''error'') ''message'', getString data ''error'', getString e ''error'',
           failed_reason status,
           (if obj_get (js ''success'') data = Some (JBool False) \<or> normalizeMediaTaskStatus status = Failed
            then first_some [getString data ''message'', getString e ''message'',
              Some (js ''Media generation failed'')]
            else None)])"

section \<open>Lemmas\<close>

lemma first_some_Cons: "first_some (x # xs) = (case x of None \<Rightarrow> first_some xs | Some y \<Rightarrow> Some y)"
  by (cases x) auto

lemma first_some_in: "first_some xs = Some y \<Longrightarrow> Some y \<in> set xs"
  by (induction xs rule: first_some.induct) auto

lemma first_some_None: "first_some xs = None \<longleftrightarrow> set xs \<subseteq> {None}"
  by (induction xs rule: first_some.induct) auto

lemma getString_Nil [simp]: "getString [] k = None"
  by (simp add: getString_def obj_get_def)

lemma getString_text: "getString data k = Some s \<Longrightarrow> trim s \<noteq> [] \<and> (js k, JStr s) \<in> set data"
  by (auto simp: getString_def obj_get_def split: option.splits json.splits if_splits dest: map_of_SomeD)

text \<open>Both readings of the status agree, whether or not the answer has an envelope.\<close>

lemma task_status_data:
  "task_status raw = first_some [getString (read_record (asRecord (Some raw)) ''data'') ''status'',
     getString (asRecord (Some raw)) ''status'']"
  by (auto simp: task_status_def envelope_def Let_def first_some_Cons split: option.splits)

lemma no_error_not_failed:
  assumes "extractMediaErrorMessage raw = None"
  shows "normalizeMediaTaskStatus (task_status raw) \<noteq> Failed"
  using assms unfolding extractMediaErrorMessage_def task_status_data Let_def
  by (simp add: first_some_None split: if_splits)

lemma http_url_web:
  assumes "re_test http_url_re t"
  shows "web_address t \<and> list_all (\<lambda>u. \<not> is_ws u) t"
proof -
  obtain st st' where st: "st \<in> set (rmatch http_scheme ([], t, no_caps))"
      and st': "st' \<in> set (rmatch (rplus (RSet (\<lambda>u. \<not> is_ws u))) st)" "rest_of st' = []"
    using assms unfolding http_url_re_def re_test_begin rmatch_seq_nonempty rmatch_end_nonempty by blast
  from st obtain w where w: "t = w @ rest_of st" "scheme_text w" by (rule scheme_match)
  have "reads_only (\<lambda>u. \<not> is_ws u) (rplus (RSet (\<lambda>u. \<not> is_ws u)))" by (simp add: rplus_def)
  from reads_only_advance [OF this st'(1)] st'(2) have "list_all (\<lambda>u. \<not> is_ws u) (rest_of st)"
    by (auto simp: advance_def)
  moreover have "list_all (\<lambda>u. \<not> is_ws u) w"
    using scheme_no_blank [OF w(2)] .
  ultimately show ?thesis using w web_address_append by simp
qed

lemma firstHTTPURL_ok: "firstHTTPURL data ks = Some u \<Longrightarrow> re_test http_url_re u \<and> (\<exists>k\<in>set ks. getString data k = Some u)"
  by (induction ks) (auto split: option.splits if_splits)

end
