(* ===== verification/Creation_Request.thy ===== *)
theory Creation_Request
  imports Media_Results Video_Request Image_Options
begin

text \<open>
  Submitting a video of the creation center (\<open>features/creation-center/video-request.ts\<close>) and reading
  the address of a video from the text a chat model answers with.  A request body is a map from
  keys to JSON values; a field of the request options that is absent or \<open>undefined\<close> is not in it.
\<close>

section \<open>Request bodies as JSON\<close>

type_synonym body = "jsstring \<Rightarrow> json option"

definition put_opt :: "string \<Rightarrow> ('a \<Rightarrow> json) \<Rightarrow> 'a option \<Rightarrow> body \<Rightarrow> body" where
  "put_opt k f v b = (case v of Some x \<Rightarrow> b(js k \<mapsto> f x) | None \<Rightarrow> b)"

abbreviation put_str :: "string \<Rightarrow> jsstring option \<Rightarrow> body \<Rightarrow> body" where
  "put_str k \<equiv> put_opt k JStr"

abbreviation put_strs :: "string \<Rightarrow> jsstring list option \<Rightarrow> body \<Rightarrow> body" where
  "put_strs k \<equiv> put_opt k (\<lambda>l. JArr (map JStr l))"

abbreviation put_url_objects :: "string \<Rightarrow> jsstring list option \<Rightarrow> body \<Rightarrow> body" where
  "put_url_objects k \<equiv> put_opt k (\<lambda>l. JArr (map (\<lambda>u. JObj [(js ''url'', JStr u)]) l))"

fun request_json :: "request_value \<Rightarrow> json option" where
  "request_json (NumVal n) = Some (JNum n)"
| "request_json (StrVal s) = Some (JStr s)"
| "request_json (StrsVal l) = Some (JArr (map JStr l))"
| "request_json UndefVal = None"

text \<open>The fields of the request options of every provider, without \<open>estimateSeconds\<close>, which is taken
  out before the request is sent.\<close>

fun request_fields :: "CreationVideoRequestOptions \<Rightarrow> body" where
  "request_fields (LegacyRequest r) =
     put_str ''input_reference'' (l_input_reference r) (put_str ''aspect_ratio'' (l_aspect_ratio r)
     (Map.empty(js ''seconds'' \<mapsto> JStr (l_seconds r), js ''size'' \<mapsto> JStr (l_size r))))"
| "request_fields (Video2Request r) =
     put_url_objects ''audio_reference'' (v_audio_reference r) (put_str ''audio_url'' (v_audio_url r)
     (put_str ''end_image_url'' (v_end_image_url r) (put_str ''start_image_url'' (v_start_image_url r)
     (put_url_objects ''video_reference'' (v_video_reference r) (put_str ''video_url'' (v_video_url r)
     (put_strs ''image_urls'' (v_image_urls r) (put_str ''image_url'' (v_image_url r)
     (put_str ''aspect_ratio'' (v_aspect_ratio r)
     (Map.empty(js ''duration'' \<mapsto> JNum (v_duration r), js ''resolution'' \<mapsto> JStr (v_resolution r),
        js ''async'' \<mapsto> JBool (v_async r)))))))))))"
| "request_fields (MiniMaxRequest r) =
     put_str ''audio_url'' (h_audio_url r) (put_str ''end_image_url'' (h_end_image_url r)
     (put_str ''start_image_url'' (h_start_image_url r) (put_strs ''image_urls'' (h_image_urls r)
     (put_str ''image_url'' (h_image_url r) (put_str ''aspect_ratio'' (h_aspect_ratio r)
     (Map.empty(js ''duration'' \<mapsto> JNum (h_duration r))))))))"
| "request_fields (SanbaoRequest r) =
     put_opt ''reference'' JStr (if s_reference_all r then Some (js ''all'') else None)
     (put_strs ''audios'' (s_audios r) (put_strs ''videos'' (s_videos r) (put_strs ''images'' (s_images r)
     (put_str ''ratio'' (s_ratio r)
     (Map.empty(js ''duration'' \<mapsto> JNum (s_duration r), js ''resolution'' \<mapsto> JStr (s_resolution r),
        js ''concurrency'' \<mapsto> JNum (s_concurrency r)))))))"
| "request_fields (VideosRequest r) =
     put_str ''end_image_url'' (a_end_image_url r) (put_str ''start_image_url'' (a_start_image_url r)
     (put_strs ''referenceAudios'' (referenceAudios r) (put_strs ''referenceVideos'' (referenceVideos r)
     (put_strs ''referenceImages'' (referenceImages r) (put_str ''resolution'' (a_resolution r)
     (put_str ''ratio'' (a_ratio r) (Map.empty(js ''duration'' \<mapsto> JNum (a_duration r)))))))))"
| "request_fields (XJZRequest m) =
     (\<lambda>k. Option.bind (m k) request_json)(js ''estimateSeconds'' := None)"

section \<open>Submitting\<close>

record CreationModel = CreationModelLike +
  supported_endpoint_types :: "jsstring list"

datatype transport = AsyncVideo | PromptTransport

record CreationVideoSubmitRequest =
  endpoint :: jsstring
  sr_payload :: body
  transport :: transport

definition getCreationVideoEndpoint :: "CreationModelInput \<Rightarrow> jsstring" where
  "getCreationVideoEndpoint model =
     (let path = map_option ep_path (find (\<lambda>e. ep_kind e = js ''video'') (model_endpoints model))
      in if path = Some (js ''/v1/videos'') then js ''/api/creation/videos''
         else if path = Some (js ''/v1/video/generations'') then js ''/api/creation/video/generations''
         else if path = Some (js ''/v1/video/async-generations'') then js ''/api/creation/video/async-generations''
         else if getXJZVideoModelSpec (getModelId model) \<noteq> None then js ''/api/creation/videos''
         else js ''/api/creation/video/async-generations'')"

definition user_message :: "json \<Rightarrow> json" where
  "user_message c = JArr [JObj [(js ''role'', JStr (js ''user'')), (js ''content'', c)]]"

definition base_payload :: "jsstring \<Rightarrow> jsstring \<Rightarrow> body" where
  "base_payload model prompt = Map.empty(js ''model'' \<mapsto> JStr model, js ''prompt'' \<mapsto> JStr prompt)"

definition buildCreationVideoSubmitRequest ::
    "CreationModel \<Rightarrow> jsstring \<Rightarrow> json option \<Rightarrow> CreationVideoOptions option \<Rightarrow> CreationVideoReferences option
      \<Rightarrow> js_error + CreationVideoSubmitRequest" where
  "buildCreationVideoSubmitRequest model prompt content videoOptions videoReferences =
     (let input = ModelObject (CreationModelLike.truncate model); mid = or_string (cm_id model) [];
          capability = getCreationVideoCapabilities input;
          base = base_payload mid prompt
      in case capability of
           None \<Rightarrow>
             if js ''openai-video'' \<notin> set (supported_endpoint_types model) then
               Inr \<lparr>endpoint = js ''/pg/chat/completions'',
                 sr_payload = Map.empty(js ''model'' \<mapsto> JStr mid,
                   js ''messages'' \<mapsto> user_message (case content of Some c \<Rightarrow> c | None \<Rightarrow> JStr prompt),
                   js ''stream'' \<mapsto> JBool False),
                 transport = PromptTransport\<rparr>
             else Inr \<lparr>endpoint = getCreationVideoEndpoint input, sr_payload = base, transport = AsyncVideo\<rparr>
         | Some c \<Rightarrow>
             (case getCreationVideoRequestOptions
                (case videoOptions of Some o' \<Rightarrow> o' | None \<Rightarrow> DEFAULT_CREATION_VIDEO_OPTIONS) input
                (case videoReferences of Some r \<Rightarrow> r | None \<Rightarrow> EMPTY_CREATION_VIDEO_REFERENCES) of
                Inl e \<Rightarrow> Inl e
              | Inr r \<Rightarrow> Inr \<lparr>endpoint = getCreationVideoEndpoint input, sr_payload = base ++ request_fields r,
                  transport = AsyncVideo\<rparr>))"

section \<open>The address in an answer\<close>

definition VIDEO_URL_KEYS :: "string list" where
  "VIDEO_URL_KEYS = [''video_url'', ''result_url'', ''output_url'', ''content_url'', ''url'']"

text \<open>The search goes at most five levels down; the first argument counts the levels left.  An
  empty address is no address.\<close>

primrec find_video :: "nat \<Rightarrow> json \<Rightarrow> jsstring option" where
  "find_video 0 value = None"
| "find_video (Suc n) value =
     (case value of
        JStr s \<Rightarrow> if re_test http_prefix_re (trim s) then Some (trim s) else None
      | JArr vs \<Rightarrow> first_some (map (find_video n) vs)
      | JObj ps \<Rightarrow>
          first_some (map (\<lambda>k. Option.bind (obj_get (js k) ps) (find_video n)) VIDEO_URL_KEYS
            @ map (\<lambda>p. find_video n (snd p)) (obj_entries ps))
      | _ \<Rightarrow> None)"

definition findVideoURL :: "json \<Rightarrow> jsstring option" where
  "findVideoURL value = find_video 6 value"

text \<open>All matches of a pattern with the flag \<open>g\<close>.  The patterns used never match the empty text.\<close>

function match_all :: "re \<Rightarrow> jsstring \<Rightarrow> jsstring \<Rightarrow> jsstring list" where
  "match_all r pre s =
     (case exec_from r pre s of
        None \<Rightarrow> []
      | Some (pre0, pre1, s', c) \<Rightarrow>
          rev (take (length pre1 - length pre0) pre1)
            # (if length s' < length s then match_all r pre1 s' else []))"
  by pat_completeness auto
termination by (relation "measure (\<lambda>(r, pre, s). length s)") auto

declare match_all.simps [simp del]

definition text_url_unit :: "unit16 \<Rightarrow> bool" where
  "text_url_unit u \<longleftrightarrow> \<not> is_ws u \<and> u \<notin> {60, 62, 34, 39, 96}"

definition text_url_re :: re where
  "text_url_re = RSeq http_scheme (rplus (RSet text_url_unit))"

definition video_file_re :: re where
  "video_file_re = rseqs [rlit ''.'',
     ralts [rseqs [any_case 109, rlit ''4'', any_case 118], rseqs [any_case 109, any_case 111, any_case 118],
       rseqs [any_case 109, any_case 112, rlit ''4''],
       rseqs [any_case 119, any_case 101, any_case 98, any_case 109]],
     RAlt (RSet (\<lambda>u. u = 63 \<or> u = 35)) REnd]"

definition closing_unit :: "unit16 \<Rightarrow> bool" where
  "closing_unit u \<longleftrightarrow> u \<in> {41, 44, 46, 59, 93, 125}"

definition strip_closing :: "jsstring \<Rightarrow> jsstring" where
  "strip_closing u = rev (dropWhile closing_unit (rev u))"

definition text_urls :: "jsstring \<Rightarrow> jsstring list" where
  "text_urls t = filter (\<lambda>u. u \<noteq> []) (map strip_closing (match_all text_url_re [] t))"

definition extractPromptVideoURL :: "jsstring option \<Rightarrow> jsstring option" where
  "extractPromptVideoURL answer =
     (case answer of
        None \<Rightarrow> None
      | Some s \<Rightarrow>
          (let t = trim s; urls = text_urls t
           in if t = [] then None
              else case Option.bind (json_parse t) findVideoURL of
                Some u \<Rightarrow> Some u
              | None \<Rightarrow> (case find (re_test video_file_re) urls of Some u \<Rightarrow> Some u | None \<Rightarrow> first urls)))"

section \<open>Properties\<close>

lemma find_video_web: "find_video n v = Some u \<Longrightarrow> web_address u"
proof (induction n arbitrary: v)
  case (Suc n)
  show ?case
  proof (cases v)
    case (JObj ps)
    from Suc.prems [unfolded JObj find_video.simps json.case] have
      "Some u \<in> set (map (\<lambda>k. Option.bind (obj_get (js k) ps) (find_video n)) VIDEO_URL_KEYS
        @ map (\<lambda>p. find_video n (snd p)) (obj_entries ps))" by (rule first_some_in)
    then consider k where "Option.bind (obj_get (js k) ps) (find_video n) = Some u" | p where "find_video n (snd p) = Some u"
      by (auto dest: sym)
    then show ?thesis using Suc.IH by cases (auto simp: bind_eq_Some_conv)
  qed (use Suc in \<open>auto dest!: first_some_in dest: http_prefix_web sym split: if_splits\<close>)
qed simp

lemma exec_from_match:
  "exec_from r pre s = Some (pre0, st) \<Longrightarrow> \<exists>s0. st \<in> set (rmatch r (pre0, s0, no_caps))"
proof (induction s arbitrary: pre)
  case Nil
  then show ?case by (subst (asm) exec_from.simps) (auto split: list.splits intro!: exI [of _ "[]"])
next
  case (Cons u s)
  from Cons.prems consider "st \<in> set (rmatch r (pre0, u # s, no_caps))" | "exec_from r (u # pre) s = Some (pre0, st)"
    by (subst (asm) exec_from.simps) (auto split: list.splits)
  then show ?case using Cons.IH by cases blast+
qed

lemma text_url_match:
  "(pre1, s', c) \<in> set (rmatch text_url_re (pre0, s0, no_caps)) \<Longrightarrow>
   \<exists>w x. pre1 = rev (w @ x) @ pre0 \<and> scheme_text w \<and> last w = 47 \<and> w \<noteq> []"
proof -
  assume "(pre1, s', c) \<in> set (rmatch text_url_re (pre0, s0, no_caps))"
  then obtain st where st: "st \<in> set (rmatch http_scheme (pre0, s0, no_caps))"
      and st': "(pre1, s', c) \<in> set (rmatch (rplus (RSet text_url_unit)) st)"
    by (auto simp: text_url_re_def)
  from st obtain w where "fst st = rev w @ pre0" "scheme_text w" "last w = 47" "w \<noteq> []" by (rule scheme_match)
  then show ?thesis using rmatch_consumes [OF st'] by (metis append_assoc fst_conv rev_append)
qed

lemma match_all_urls:
  "u \<in> set (match_all text_url_re pre s) \<Longrightarrow> \<exists>w x. u = w @ x \<and> scheme_text w \<and> last w = 47 \<and> w \<noteq> []"
proof (induction text_url_re pre s rule: match_all.induct)
  case (1 pre s)
  from 1(2) have "exec_from text_url_re pre s \<noteq> None" by (subst (asm) match_all.simps) (auto dest: sym)
  then obtain pre0 pre1 s' c where e: "exec_from text_url_re pre s = Some (pre0, pre1, s', c)" by auto
  from exec_from_match [OF e] text_url_match obtain w x
    where "pre1 = rev (w @ x) @ pre0" "scheme_text w" "last w = 47" "w \<noteq> []" by blast
  note w = this
  from 1(2) e consider "u = rev (take (length pre1 - length pre0) pre1)"
      | "length s' < length s" "u \<in> set (match_all text_url_re pre1 s')"
    by (subst (asm) match_all.simps) (auto split: if_splits)
  then show ?case
  proof cases
    case 1
    then show ?thesis using w by auto
  next
    case 2
    then show ?thesis using 1(1) [OF e] by blast
  qed
qed

lemma strip_closing_keeps: "w \<noteq> [] \<Longrightarrow> \<not> closing_unit (last w) \<Longrightarrow> \<exists>y. strip_closing (w @ x) = w @ y"
  by (cases w rule: rev_cases) (auto simp: strip_closing_def dropWhile_append dropWhile_append3)

lemma text_urls_web: "u \<in> set (text_urls t) \<Longrightarrow> web_address u"
proof -
  assume "u \<in> set (text_urls t)"
  then obtain w x where "u = strip_closing (w @ x)" "scheme_text w" "last w = 47" "w \<noteq> []"
    using match_all_urls unfolding text_urls_def by fastforce
  then show ?thesis using strip_closing_keeps [of w x] web_address_append by (auto simp: closing_unit_def)
qed

text \<open>What \<open>extractPromptVideoURL\<close> takes for the address of a video, from a JSON answer or from
  free text, starts with \<open>http://\<close> or \<open>https://\<close> in any letter case.\<close>

theorem prompt_video_url_is_web_address:
  assumes "extractPromptVideoURL answer = Some u"
  shows "web_address u"
proof -
  have f: "web_address u" if "first (text_urls t) = Some u" for t
    using that text_urls_web [of u t] by (cases "text_urls t") (auto simp: first_def)
  have g: "web_address u" if "find P (text_urls t) = Some u" for P t
    using that text_urls_web [of u t] by (auto simp: find_Some_iff)
  show ?thesis
    using assms f g find_video_web
    by (auto simp: extractPromptVideoURL_def findVideoURL_def bind_eq_Some_conv Let_def split: option.splits if_splits)
qed

lemma quoted_address:
  "extractPromptVideoURL (Some (json_quote (js ''https://v/a.mp4''))) = Some (js ''https://v/a.mp4'')"
proof -
  let ?u = "js ''https://v/a.mp4''"
  have "json_parse (json_quote ?u) = Some (JStr ?u)" by (rule json_parse_quote) simp
  note j = this
  have "re_test http_prefix_re ?u"
    by (simp add: http_prefix_re_def http_scheme_def re_test_begin any_case_def ropt_def startsWith_def)
  moreover have "trim ?u = ?u" by (simp add: trim_def is_ws_def)
  moreover have "find_video (Suc n) (JStr ?u) = Some ?u" if "re_test http_prefix_re ?u" "trim ?u = ?u" for n
    unfolding find_video.simps json.case that(2) using that(1) by (rule if_P)
  ultimately have "find_video 6 (JStr ?u) = Some ?u" unfolding eval_nat_numeral by blast
  moreover have "trim (34 # s @ [34]) = 34 # s @ [34]" for s by (simp add: trim_def is_ws_def)
  then have "trim (json_quote ?u) = json_quote ?u" "json_quote ?u \<noteq> []"
    by (simp_all only: json_quote_def js.simps append.simps) simp_all
  ultimately show ?thesis using j by (simp add: extractPromptVideoURL_def findVideoURL_def Let_def del: js.simps find_video.simps)
qed

theorem prompt_video_url_is_web_address_witness:
  "extractPromptVideoURL (Some (json_quote (js ''https://v/a.mp4''))) = Some (js ''https://v/a.mp4'')
   \<and> web_address (js ''https://v/a.mp4'')"
  using prompt_video_url_is_web_address [OF quoted_address] quoted_address by simp

end
