(* ===== verification/Playground_Integration.thy ===== *)
theory Playground_Integration
  imports Creation_Request
begin

text \<open>
  What the playground knows of a model (\<open>features/playground/lib/model-integration.ts\<close>): the groups
  it belongs to, the endpoint it is reached by, the choices of an option and the references of a
  media request.  A thrown \<open>Error\<close> is the key of its message and the values interpolated in it.
  \<open>new URL(s)\<close> is the parameter \<open>parseURL\<close>, as in the video theories, with the credentials.
\<close>

section \<open>Data\<close>

record PricingEndpoint =
  pe_path :: "jsstring option"

text \<open>The fields of \<open>PricingModel\<close> the playground reads.\<close>

record PricingModel =
  enable_groups :: "jsstring list option"
  pm_supported_endpoint_types :: "jsstring list option"
  pm_mapped_endpoints :: "MappedEndpoint list option"

record PlaygroundModelInfo =
  info_model :: PricingModel
  info_endpoints :: "jsstring \<Rightarrow> PricingEndpoint option"

record ModelOption =
  mo_value :: jsstring
  modelInfo :: "PlaygroundModelInfo option"

datatype thrown = Thrown jsstring "jsstring list"

abbreviation throw :: "string \<Rightarrow> thrown + 'a" where
  "throw k \<equiv> Inl (Thrown (js k) [])"

section \<open>Groups\<close>

definition in_group :: "jsstring \<Rightarrow> ModelOption \<Rightarrow> bool" where
  "in_group gr m =
     (case Option.bind (modelInfo m) (\<lambda>i. enable_groups (info_model i)) of
        None \<Rightarrow> True | Some groups \<Rightarrow> gr \<in> set groups)"

definition getPlaygroundGroupModels :: "ModelOption list \<Rightarrow> jsstring \<Rightarrow> ModelOption list" where
  "getPlaygroundGroupModels models gr =
     (if gr = js ''auto'' then models else filter (in_group gr) models)"

definition has_models :: "ModelOption list option \<Rightarrow> jsstring \<Rightarrow> bool" where
  "has_models models gr =
     (case models of None \<Rightarrow> True | Some ms \<Rightarrow> getPlaygroundGroupModels ms gr \<noteq> [])"

definition group_candidates :: "jsstring list \<Rightarrow> jsstring option \<Rightarrow> jsstring list" where
  "group_candidates groups userGroup =
     filter (\<lambda>g. g \<noteq> [] \<and> g \<in> set groups) ((case userGroup of Some g \<Rightarrow> [g] | None \<Rightarrow> []) @ groups)"

definition resolvePlaygroundGroup ::
    "jsstring list \<Rightarrow> ModelOption list option \<Rightarrow> jsstring \<Rightarrow> jsstring option \<Rightarrow> jsstring" where
  "resolvePlaygroundGroup groups models currentGroup userGroup =
     (if currentGroup \<in> set groups \<and> has_models models currentGroup then currentGroup
      else
        (let candidates = group_candidates groups userGroup
         in case find (has_models models) candidates of
              Some g \<Rightarrow> g
            | None \<Rightarrow> if currentGroup \<in> set groups then currentGroup
                else (case first candidates of Some g \<Rightarrow> g | None \<Rightarrow> currentGroup)))"

section \<open>Endpoints\<close>

definition endpoint_of_type :: "PlaygroundModelInfo \<Rightarrow> jsstring \<Rightarrow> MappedEndpoint list" where
  "endpoint_of_type info t =
     (case Option.bind (info_endpoints info t) pe_path of
        None \<Rightarrow> []
      | Some p \<Rightarrow>
          if p = [] then []
          else [\<lparr>ep_kind = js (if includes_str p (js ''/images/'') then ''image''
                   else if includes_str p (js ''/video'') then ''video'' else ''text''),
                 ep_path = p, ep_parameters = None\<rparr>])"

definition getPlaygroundIntegrations :: "PlaygroundModelInfo option \<Rightarrow> MappedEndpoint list" where
  "getPlaygroundIntegrations info =
     (case info of
        None \<Rightarrow> []
      | Some i \<Rightarrow>
          (let mapped = or_list (pm_mapped_endpoints (info_model i))
           in if mapped \<noteq> [] then mapped
              else concat (map (endpoint_of_type i) (or_list (pm_supported_endpoint_types (info_model i))))))"

definition by_path :: "jsstring option \<Rightarrow> MappedEndpoint list \<Rightarrow> MappedEndpoint option" where
  "by_path p eps = find (\<lambda>e. Some (ep_path e) = p) eps"

definition has_mapped :: "PlaygroundModelInfo option \<Rightarrow> bool" where
  "has_mapped info \<longleftrightarrow> (case info of Some i \<Rightarrow> or_list (pm_mapped_endpoints (info_model i)) \<noteq> [] | None \<Rightarrow> False)"

definition is_media :: "MappedEndpoint \<Rightarrow> bool" where
  "is_media e \<longleftrightarrow> ep_kind e = js ''image'' \<or> ep_kind e = js ''video''"

definition with_edit :: "MappedEndpoint \<Rightarrow> IntegrationParameters \<Rightarrow> IntegrationParameters \<Rightarrow> MappedEndpoint" where
  "with_edit g gp ep = g\<lparr>ep_parameters := Some (gp\<lparr>ip_image_field := Some (js ''image[]''),
     ip_max_images := ip_max_images ep, ip_min_images := Some (Fin 0)\<rparr>)\<rparr>"

definition getPlaygroundIntegration ::
    "PlaygroundModelInfo option \<Rightarrow> jsstring option \<Rightarrow> MappedEndpoint option" where
  "getPlaygroundIntegration info preferredPath =
     (let eps = getPlaygroundIntegrations info;
          preferred = by_path preferredPath eps;
          generation = (case preferred of Some e \<Rightarrow> Some e | None \<Rightarrow> by_path (Some (js ''/v1/images/generations'')) eps);
          edit = Option.bind (by_path (Some (js ''/v1/images/edits'')) eps) ep_parameters;
          plain = (case preferred of
            Some e \<Rightarrow> Some e
          | None \<Rightarrow>
              if \<not> has_mapped info then first eps
              else (case find is_media eps of Some e \<Rightarrow> Some e | None \<Rightarrow> first eps))
      in case (generation, Option.bind generation ep_parameters, edit) of
           (Some g, Some gp, Some ep) \<Rightarrow>
             if ep_path g = js ''/v1/images/generations'' \<and> ip_image_field ep = Some (js ''image[]'')
             then Some (with_edit g gp ep) else plain
         | _ \<Rightarrow> plain)"

section \<open>References\<close>

record PlaygroundReferenceSelection =
  sel_quality :: "jsstring option"
  sel_count :: "jsnum option"
  sel_size :: "jsstring option"
  sel_outputFormat :: "jsstring option"
  sel_background :: "jsstring option"
  sel_outputCompression :: "jsnum option"
  sel_aspectRatio :: "jsstring option"
  sel_resolution :: "jsstring option"
  sel_images :: "jsstring option"
  sel_videos :: "jsstring option"
  sel_audios :: "jsstring option"

record parsed_auth_url = parsed_url +
  username :: jsstring
  password :: jsstring

type_synonym auth_url_parser = "jsstring \<Rightarrow> parsed_auth_url option"

text \<open>\<open>value.split(/\s+/).filter(Boolean)\<close>: the maximal runs without white space.\<close>

function words :: "jsstring \<Rightarrow> jsstring list" where
  "words s =
     (let t = dropWhile is_ws s
      in if t = [] then [] else takeWhile (\<lambda>u. \<not> is_ws u) t # words (dropWhile (\<lambda>u. \<not> is_ws u) t))"
  by pat_completeness auto
termination
proof (relation "measure length")
  fix s t assume t: "t = dropWhile is_ws s" "t \<noteq> []"
  then obtain u r where c: "t = u # r" "\<not> is_ws u" by (metis hd_dropWhile list.exhaust_sel)
  have "length t \<le> length s" unfolding t(1) by (rule length_dropWhile_le)
  moreover have "length (dropWhile (\<lambda>u. \<not> is_ws u) r) \<le> length r" by (rule length_dropWhile_le)
  ultimately show "(dropWhile (\<lambda>u. \<not> is_ws u) t, s) \<in> measure length" using c by simp
qed simp

declare words.simps [simp del]

definition good_reference :: "auth_url_parser \<Rightarrow> jsstring \<Rightarrow> bool" where
  "good_reference parseURL u =
     (case parseURL u of
        None \<Rightarrow> False
      | Some p \<Rightarrow> protocol p \<in> {js ''http:'', js ''https:''} \<and> username p = [] \<and> password p = [])"

definition parsePlaygroundReferenceURLs :: "auth_url_parser \<Rightarrow> jsstring option \<Rightarrow> thrown + jsstring list" where
  "parsePlaygroundReferenceURLs parseURL value =
     (let urls = words (or_string value [])
      in if list_all (good_reference parseURL) urls then Inr urls
         else throw ''Reference URLs must use HTTP or HTTPS'')"

definition put_references ::
    "jsstring list \<Rightarrow> jsstring option \<Rightarrow> jsnum \<Rightarrow> string \<Rightarrow> body \<Rightarrow> thrown + body" where
  "put_references urls field limit what b =
     (if urls = [] then Inr b
      else (case field of
        Some f \<Rightarrow>
          if f = [] \<or> exceeds (length urls) limit
          then Inl (Thrown (js ''Too many references for this model: {{kind}} (maximum {{count}})'')
            [js what, js_String limit])
          else Inr (b(f \<mapsto> (if endsWith f (js ''_url'') then JStr (hd urls) else JArr (map JStr urls))))
      | None \<Rightarrow> Inl (Thrown (js ''Too many references for this model: {{kind}} (maximum {{count}})'')
            [js what, js_String limit])))"

definition buildPlaygroundReferences ::
    "auth_url_parser \<Rightarrow> IntegrationParameters \<Rightarrow> PlaygroundReferenceSelection \<Rightarrow> thrown + body" where
  "buildPlaygroundReferences parseURL p sel =
     bind_sum (parsePlaygroundReferenceURLs parseURL (sel_images sel)) (\<lambda>images.
     bind_sum (parsePlaygroundReferenceURLs parseURL (sel_videos sel)) (\<lambda>videos.
     bind_sum (parsePlaygroundReferenceURLs parseURL (sel_audios sel)) (\<lambda>audios.
       if ip_audio_requires_image p \<and> audios \<noteq> [] \<and> images = []
       then throw ''Audio reference requires at least one image reference.''
       else if js_less (num (length images)) (or_num (ip_min_images p) 0)
       then throw ''This model requires a reference image''
       else if ip_audio_needs_image p \<and> audios \<noteq> [] \<and> images = [] \<and> videos = []
       then throw ''Audio references require an image or video reference''
       else
         bind_sum (put_references images (ip_image_field p) (ip_max_images p) ''Reference images'' Map.empty) (\<lambda>b1.
         bind_sum (put_references videos (ip_video_field p) (ip_max_videos p) ''Reference videos'' b1)
           (put_references audios (ip_audio_field p) (ip_max_audios p) ''Reference audio'')))))"

definition resolveIntegrationChoice :: "jsstring option \<Rightarrow> jsstring list option \<Rightarrow> jsstring option" where
  "resolveIntegrationChoice value choices =
     (let cs = or_list choices
      in case find (\<lambda>c. Some (toLowerCase c) = map_option toLowerCase value) cs of
           Some c \<Rightarrow> Some c | None \<Rightarrow> first cs)"

end
