(* ===== verification/Playground_Messages.thy ===== *)
theory Playground_Messages
  imports JS_JSON
begin

text \<open>
  The messages of the playground (\<open>features/playground/lib/message-utils.ts\<close>,
  \<open>payload-builder.ts\<close>): creation, versions, the separation of \<open><think>\<close> passages from the visible
  text, streaming updates, finalisation and the repair of messages read from storage.
  Identifiers come from the package \<open>nanoid\<close> and are arguments of the functions that draw them,
  in the order in which the source draws them.
\<close>

section \<open>Data\<close>

datatype MessageRole = USER | ASSISTANT | SYSTEM

datatype MessageStatus = LOADING | STREAMING | COMPLETE | ERROR

record MessageVersion =
  ver_id :: jsstring
  content :: jsstring

datatype media_type = ImageMedia | VideoMedia

record MessageMedia =
  media_type :: media_type
  media_url :: jsstring
  title :: "jsstring option"
  taskId :: "jsstring option"
  media_status :: "jsstring option"

record Reasoning =
  reasoning_text :: jsstring
  reasoning_duration :: jsnum

text \<open>The field \<open>from\<close> is \<open>sender\<close>.  \<open>errorCode\<close> may be absent, \<open>null\<close> or what the server sent.\<close>

record Message =
  key :: jsstring
  sender :: MessageRole
  versions :: "MessageVersion list"
  media :: "MessageMedia option"
  sources :: "(jsstring \<times> jsstring) list option"
  reasoning :: "Reasoning option"
  isReasoningStreaming :: "bool option"
  isReasoningComplete :: "bool option"
  isContentComplete :: "bool option"
  status :: "MessageStatus option"
  errorCode :: "json option"

datatype ContentPart = TextPart jsstring | ImagePart jsstring

datatype MessageContent = TextContent jsstring | PartsContent "ContentPart list"

record ChatCompletionMessage =
  role :: MessageRole
  api_content :: jsstring

definition API_REQUEST_ERROR :: jsstring where
  "API_REQUEST_ERROR = js ''Request error occurred''"
definition PARSE_ERROR :: jsstring where
  "PARSE_ERROR = js ''Error parsing response data''"
definition STREAM_START_ERROR :: jsstring where
  "STREAM_START_ERROR = js ''Error establishing connection''"
definition CONNECTION_CLOSED :: jsstring where
  "CONNECTION_CLOSED = js ''Connection closed''"
definition INTERRUPTED :: jsstring where
  "INTERRUPTED = js ''Generation was interrupted''"

section \<open>Versions and messages\<close>

definition createMessageVersion :: "jsstring \<Rightarrow> jsstring \<Rightarrow> MessageVersion" where
  "createMessageVersion i text = \<lparr>ver_id = i, content = text\<rparr>"

definition getCurrentVersion :: "Message \<Rightarrow> MessageVersion" where
  "getCurrentVersion message =
     (case versions message of v # _ \<Rightarrow> v | [] \<Rightarrow> \<lparr>ver_id = js ''default'', content = []\<rparr>)"

definition updateCurrentVersionContent :: "Message \<Rightarrow> jsstring \<Rightarrow> Message" where
  "updateCurrentVersionContent message text =
     message\<lparr>versions := [(getCurrentVersion message)\<lparr>content := text\<rparr>]\<rparr>"

definition bare_message :: "jsstring \<Rightarrow> MessageRole \<Rightarrow> MessageVersion \<Rightarrow> Message" where
  "bare_message k r v = \<lparr>key = k, sender = r, versions = [v], media = None, sources = None,
     reasoning = None, isReasoningStreaming = None, isReasoningComplete = None,
     isContentComplete = None, status = None, errorCode = None\<rparr>"

definition createUserMessage :: "jsstring \<Rightarrow> jsstring \<Rightarrow> jsstring \<Rightarrow> Message" where
  "createUserMessage k i text = bare_message k USER (createMessageVersion i text)"

definition createLoadingAssistantMessage :: "jsstring \<Rightarrow> jsstring \<Rightarrow> Message" where
  "createLoadingAssistantMessage k i =
     (bare_message k ASSISTANT (createMessageVersion i []))
       \<lparr>isReasoningComplete := Some False, isContentComplete := Some False,
        isReasoningStreaming := Some False, status := Some LOADING\<rparr>"

definition buildMessageContent :: "jsstring \<Rightarrow> jsstring list \<Rightarrow> MessageContent" where
  "buildMessageContent text imageUrls =
     (let validImages = filter (\<lambda>u. trim u \<noteq> []) imageUrls
      in if validImages = [] then TextContent text
         else PartsContent (TextPart text # map (\<lambda>u. ImagePart (trim u)) validImages))"

definition getTextContent :: "MessageContent \<Rightarrow> jsstring" where
  "getTextContent c =
     (case c of
        TextContent s \<Rightarrow> s
      | PartsContent ps \<Rightarrow>
          (case find (\<lambda>p. case p of TextPart _ \<Rightarrow> True | ImagePart _ \<Rightarrow> False) ps of
             Some (TextPart s) \<Rightarrow> s
           | _ \<Rightarrow> []))"

definition formatMessageForAPI :: "Message \<Rightarrow> ChatCompletionMessage" where
  "formatMessageForAPI message =
     \<lparr>role = sender message, api_content = content (getCurrentVersion message)\<rparr>"

definition isValidMessage :: "Message \<Rightarrow> bool" where
  "isValidMessage message =
     (case versions message of
        [] \<Rightarrow> False
      | v # _ \<Rightarrow> \<not> (sender message = ASSISTANT \<and> trim (content v) = []))"

section \<open>Reasoning passages\<close>

definition think_open :: jsstring where
  "think_open = js ''<think>''"
definition think_close :: jsstring where
  "think_close = js ''</think>''"

record ThinkParts =
  visibleContent :: jsstring
  reasoning_part :: jsstring
  hasUnclosedTag :: bool

text \<open>The loop of \<open>parseThinkTags\<close>: the argument is the content from \<open>currentPos\<close> on, the result
  the visible parts, the reasoning parts and whether a tag stays open.\<close>

function think_loop :: "jsstring \<Rightarrow> jsstring list \<times> jsstring list \<times> bool" where
  "think_loop s =
     (case index_of think_open s of
        None \<Rightarrow> (if s = [] then [] else [s], [], False)
      | Some i \<Rightarrow>
          (let before = (if i > 0 then [take i s] else []); rest = drop (i + 7) s
           in case index_of think_close rest of
                None \<Rightarrow> (before, [rest], True)
              | Some j \<Rightarrow>
                  (let (vs, rs, u) = think_loop (drop (j + 8) rest)
                   in (before @ vs, take j rest # rs, u))))"
  by pat_completeness auto

termination
proof (relation "measure length")
  fix s i before rest j
  assume "index_of think_open s = Some i"
  then have "i + 7 \<le> length s" by (auto dest: index_of_bound simp: think_open_def)
  moreover assume "rest = drop (i + 7) s"
  ultimately show "(drop (j + 8) rest, s) \<in> measure length" by simp
qed simp

declare think_loop.simps [simp del]

definition parseThinkTags :: "jsstring \<Rightarrow> ThinkParts" where
  "parseThinkTags text =
     (if \<not> includes_str text think_open
      then \<lparr>visibleContent = text, reasoning_part = [], hasUnclosedTag = False\<rparr>
      else (let (vs, rs, u) = think_loop text
            in \<lparr>visibleContent = trim (concat vs), reasoning_part = trim (join [10, 10] rs),
                hasUnclosedTag = u\<rparr>))"

section \<open>Updates of the last answer\<close>

definition updateLastAssistantMessage :: "Message list \<Rightarrow> (Message \<Rightarrow> Message) \<Rightarrow> Message list" where
  "updateLastAssistantMessage messages updater =
     (if messages = [] then messages
      else if sender (last messages) \<noteq> ASSISTANT then messages
      else butlast messages @ [updater (last messages)])"

definition updateAssistantMessageWithError ::
    "Message list \<Rightarrow> jsstring \<Rightarrow> json option \<Rightarrow> Message list" where
  "updateAssistantMessageWithError messages errorMessage code =
     updateLastAssistantMessage messages (\<lambda>message.
       (updateCurrentVersionContent message (API_REQUEST_ERROR @ js '': '' @ errorMessage))
         \<lparr>status := Some ERROR, isReasoningStreaming := Some False,
          errorCode := Some (if json_truthy code then the code else JNull)\<rparr>)"

definition processStreamingContent :: "Message \<Rightarrow> jsstring option \<Rightarrow> Message" where
  "processStreamingContent message contentChunk =
     (let fullContent = content (getCurrentVersion message)
            @ (case contentChunk of Some c \<Rightarrow> c | None \<Rightarrow> []);
          p = parseThinkTags fullContent;
          finalReasoning = (if reasoning_part p \<noteq> []
            then Some \<lparr>reasoning_text = reasoning_part p, reasoning_duration = Fin 0\<rparr>
            else reasoning message)
      in (updateCurrentVersionContent message fullContent)
           \<lparr>reasoning := finalReasoning, isReasoningStreaming := Some (hasUnclosedTag p)\<rparr>)"

definition or_text :: "jsstring option \<Rightarrow> jsstring \<Rightarrow> jsstring" where
  "or_text a b = (case a of Some s \<Rightarrow> if s \<noteq> [] then s else b | None \<Rightarrow> b)"

definition finalizeMessage :: "Message \<Rightarrow> jsstring option \<Rightarrow> Message" where
  "finalizeMessage message apiReasoningContent =
     (let p = parseThinkTags (content (getCurrentVersion message));
          finalReasoning = or_text apiReasoningContent
            (or_text (map_option reasoning_text (reasoning message)) (reasoning_part p))
      in (updateCurrentVersionContent message (visibleContent p))
           \<lparr>reasoning := (if finalReasoning \<noteq> []
              then Some \<lparr>reasoning_text = finalReasoning,
                reasoning_duration = (case reasoning message of
                  Some r \<Rightarrow> if js_truthy_num (reasoning_duration r) then reasoning_duration r else Fin 0
                | None \<Rightarrow> Fin 0)\<rparr>
              else None),
            isReasoningStreaming := Some False\<rparr>)"

definition pending :: "Message \<Rightarrow> bool" where
  "pending m \<longleftrightarrow> sender m = ASSISTANT \<and> (status m = Some LOADING \<or> status m = Some STREAMING)"

text \<open>The loop from the last index down to the first.\<close>

fun last_pending :: "Message list \<Rightarrow> nat \<Rightarrow> nat option" where
  "last_pending messages 0 = None"
| "last_pending messages (Suc i) =
     (if pending (messages ! i) then Some i else last_pending messages i)"

definition sanitized :: "Message \<Rightarrow> Message" where
  "sanitized m =
     (let f = finalizeMessage m None;
          hasContent = (trim (content (getCurrentVersion f)) \<noteq> []);
          hasReasoning = (case reasoning f of Some r \<Rightarrow> trim (reasoning_text r) \<noteq> [] | None \<Rightarrow> False)
      in if hasContent \<or> hasReasoning
         then f\<lparr>status := Some COMPLETE, isReasoningStreaming := Some False\<rparr>
         else (updateCurrentVersionContent f (API_REQUEST_ERROR @ js '': '' @ INTERRUPTED))
           \<lparr>status := Some ERROR, isReasoningStreaming := Some False\<rparr>)"

definition sanitizeMessagesOnLoad :: "Message list \<Rightarrow> Message list" where
  "sanitizeMessagesOnLoad messages =
     (case last_pending messages (length messages) of
        None \<Rightarrow> messages
      | Some i \<Rightarrow> messages[i := sanitized (messages ! i)])"

end
