(* ===== verification/Playground_Media.thy ===== *)
theory Playground_Media
  imports Playground_Integration Playground_Messages
begin

text \<open>
  Routing of media models in the playground (\<open>features/playground/lib/media-routing.ts\<close>): the mode of a
  model, the endpoint of a request, the choices of its options and the body of the request.
\<close>

section \<open>Modes\<close>

datatype PlaygroundMediaMode = MChat | MImage | MVideo

datatype PlaygroundModeSelection = ModeAuto | ModeIs PlaygroundMediaMode

datatype PlaygroundImageEndpoint = ImgAuto | ImgSync | ImgAsync

datatype PlaygroundVideoEndpoint = VidAuto | VidStandard | VidAsync

definition VIDEO_MODEL_NAMES :: "jsstring list" where
  "VIDEO_MODEL_NAMES = map js [''video-2.0'', ''video-2.0-fast'', ''video-2.0-mini'', ''video-2.0-480p'',
     ''video-2.0-fast-480p'', ''video-2.0-mini-480p'', ''sora2'', ''videos-standard'', ''videos-fast'',
     ''videos-mini'', ''sd2-mini'', ''sd2-fast'']
     @ [js ''sd2'' @ [28385, 34880]] @ map js [''sd-2.0-933'', ''ko3'', ''kling-v3'']"

definition IMAGE_MODEL_NAMES :: "jsstring list" where
  "IMAGE_MODEL_NAMES = map js [''gpt-image2'', ''seedream-5-0'']"

definition media_normalizeModelName :: "jsstring \<Rightarrow> jsstring" where
  "media_normalizeModelName model = trim (re_remove marker_prefix_re (toLowerCase (trim model)))"

definition video_name :: "jsstring \<Rightarrow> bool" where
  "video_name n \<longleftrightarrow> n \<in> set VIDEO_MODEL_NAMES
     \<or> list_ex (\<lambda>p. startsWith n (js p)) [''video-'', ''videos-'', ''sd2-'', ''sd-2.0-'', ''sd-2.5'']
     \<or> includes_str n (js ''sd2.5'') \<or> startsWith n (js ''sora'') \<or> startsWith n (js ''veo'')
     \<or> includes_str n (js ''kling'') \<or> includes_str n (js ''grok-imagine-video'')
     \<or> startsWith n (js ''omni-video-'')"

definition image_name :: "jsstring \<Rightarrow> bool" where
  "image_name n \<longleftrightarrow> n \<in> set IMAGE_MODEL_NAMES
     \<or> list_ex (\<lambda>p. includes_str n (js p)) [''gpt-image'', ''nano-banana'', ''imagen'']"

definition kind_mode :: "jsstring \<Rightarrow> PlaygroundMediaMode option" where
  "kind_mode k = (if k = js ''image'' then Some MImage else if k = js ''video'' then Some MVideo else None)"

definition getPlaygroundModelMode :: "jsstring \<Rightarrow> PlaygroundModelInfo option \<Rightarrow> PlaygroundMediaMode" where
  "getPlaygroundModelMode model info =
     (case Option.bind (map_option ep_kind (getPlaygroundIntegration info None)) kind_mode of
        Some m \<Rightarrow> m
      | None \<Rightarrow>
          if getXJZVideoModelSpec model \<noteq> None then MVideo
          else
            (let n = media_normalizeModelName model
             in if n = [] then MChat else if video_name n then MVideo
                else if image_name n then MImage else MChat))"

definition resolvePlaygroundMode ::
    "jsstring \<Rightarrow> PlaygroundModeSelection \<Rightarrow> PlaygroundModelInfo option \<Rightarrow> PlaygroundMediaMode" where
  "resolvePlaygroundMode model mode info =
     (case mode of ModeAuto \<Rightarrow> getPlaygroundModelMode model info | ModeIs m \<Rightarrow> m)"

section \<open>Choices\<close>

record PlaygroundVideoSelection =
  vs_aspectRatio :: jsstring
  vs_duration :: "jsstring option"
  vs_resolution :: "jsstring option"

record PlaygroundVideoChoices =
  vc_aspectRatios :: "jsstring list"
  vc_durations :: "jsstring list"
  vc_resolutions :: "jsstring list"
  manualDuration :: bool

definition FALLBACK_VIDEO_RATIOS :: "jsstring list" where
  "FALLBACK_VIDEO_RATIOS = map js [''16:9'', ''9:16'', ''1:1'', ''4:3'', ''3:4'', ''2:3'', ''3:2'', ''21:9'']"

definition SD25_VIDEO_RATIOS :: "jsstring list" where
  "SD25_VIDEO_RATIOS = map js [''16:9'', ''9:16'', ''1:1'', ''4:3'', ''3:4'']"

definition SD25_VIDEO_DURATIONS :: "jsstring list" where
  "SD25_VIDEO_DURATIONS = map (\<lambda>i. show_nat (i + 4)) [0..<27]"

definition FALLBACK_VIDEO_SIZES :: "(jsstring \<times> jsstring) list" where
  "FALLBACK_VIDEO_SIZES = map (\<lambda>(r, s). (js r, js s))
     [(''16:9'', ''1920x1080''), (''9:16'', ''1080x1920''), (''1:1'', ''1080x1080''), (''4:3'', ''1440x1080''),
      (''3:4'', ''1080x1440''), (''2:3'', ''1080x1620''), (''3:2'', ''1620x1080''), (''21:9'', ''2520x1080'')]"

definition or_fallback :: "jsstring list \<Rightarrow> jsstring list" where
  "or_fallback rs = (if rs \<noteq> [] then rs else FALLBACK_VIDEO_RATIOS)"

definition integration_parameters :: "PlaygroundModelInfo option \<Rightarrow> IntegrationParameters option" where
  "integration_parameters info = Option.bind (getPlaygroundIntegration info None) ep_parameters"

definition getPlaygroundVideoChoices ::
    "jsstring \<Rightarrow> PlaygroundModelInfo option \<Rightarrow> PlaygroundVideoChoices" where
  "getPlaygroundVideoChoices model info =
     (let durations_of = map do_value (getCreationDurationOptions (ModelString model));
          n = toLowerCase model
      in case integration_parameters info of
           Some p \<Rightarrow> \<lparr>vc_aspectRatios = or_fallback (or_list (ip_ratios p)),
             vc_durations = map js_String (or_list (ip_durations p)), vc_resolutions = or_list (ip_resolutions p),
             manualDuration = (or_list (ip_durations p) = [])\<rparr>
         | None \<Rightarrow>
             (case getCreationVideoCapabilities (ModelString model) of
                Some c \<Rightarrow> \<lparr>vc_aspectRatios = or_fallback (aspectRatios c), vc_durations = durations_of,
                  vc_resolutions = map ro_value (getCreationResolutionOptions (ModelString model)),
                  manualDuration = False\<rparr>
              | None \<Rightarrow>
                  if includes_str n (js ''sd2.5'') \<or> n = js ''sd-2.5'' then
                    \<lparr>vc_aspectRatios = SD25_VIDEO_RATIOS, vc_durations = SD25_VIDEO_DURATIONS,
                     vc_resolutions = [], manualDuration = False\<rparr>
                  else if startsWith n (js ''omni-video-1'') then
                    \<lparr>vc_aspectRatios = FALLBACK_VIDEO_RATIOS, vc_durations = map js [''3'', ''5'', ''8''],
                     vc_resolutions = [], manualDuration = False\<rparr>
                  else \<lparr>vc_aspectRatios = FALLBACK_VIDEO_RATIOS, vc_durations = durations_of,
                     vc_resolutions = [], manualDuration = False\<rparr>))"

definition or_text :: "jsstring option \<Rightarrow> jsstring \<Rightarrow> jsstring" where
  "or_text v d = (case v of Some s \<Rightarrow> if s \<noteq> [] then s else d | None \<Rightarrow> d)"

definition resolve_duration :: "PlaygroundVideoChoices \<Rightarrow> jsstring option \<Rightarrow> jsstring option" where
  "resolve_duration c d =
     (let preferred = or_text d (duration DEFAULT_CREATION_VIDEO_OPTIONS)
      in if manualDuration c then Some (or_text (Some preferred) (js ''5''))
         else if preferred \<in> set (vc_durations c) then Some preferred
         else first (vc_durations c))"

definition resolve_ratio :: "PlaygroundVideoChoices \<Rightarrow> jsstring \<Rightarrow> jsstring" where
  "resolve_ratio c r = (if r \<in> set (vc_aspectRatios c) then r else or_string (first (vc_aspectRatios c)) [])"

definition resolve_resolution ::
    "jsstring \<Rightarrow> PlaygroundModelInfo option \<Rightarrow> PlaygroundVideoChoices \<Rightarrow> jsstring option \<Rightarrow> jsstring option" where
  "resolve_resolution model info c r =
     (if integration_parameters info \<noteq> None \<or> truthy_text r \<and> vc_resolutions c \<noteq> []
      then resolveIntegrationChoice r (Some (vc_resolutions c))
      else (case getXJZVideoModelSpec model of
        Some spec \<Rightarrow>
          if selectableResolution spec then
            (case r of
               Some x \<Rightarrow> if x \<in> set (x_resolutions spec) then Some x else first (x_resolutions spec)
             | None \<Rightarrow> first (x_resolutions spec))
          else None
      | None \<Rightarrow> None))"

definition resolvePlaygroundVideoSelection ::
    "jsstring \<Rightarrow> PlaygroundVideoSelection \<Rightarrow> PlaygroundModelInfo option \<Rightarrow> PlaygroundVideoSelection" where
  "resolvePlaygroundVideoSelection model sel info =
     (let c = getPlaygroundVideoChoices model info
      in \<lparr>vs_aspectRatio = resolve_ratio c (vs_aspectRatio sel), vs_duration = resolve_duration c (vs_duration sel),
          vs_resolution = resolve_resolution model info c (vs_resolution sel)\<rparr>)"

section \<open>Endpoints\<close>

definition IMAGE_GENERATIONS :: jsstring where
  "IMAGE_GENERATIONS = js ''/api/creation/images/generations''"
definition IMAGE_ASYNC_GENERATIONS :: jsstring where
  "IMAGE_ASYNC_GENERATIONS = js ''/api/creation/images/async-generations''"
definition VIDEO_ASYNC_GENERATIONS :: jsstring where
  "VIDEO_ASYNC_GENERATIONS = js ''/api/creation/video/async-generations''"
definition VIDEO_GENERATIONS :: jsstring where
  "VIDEO_GENERATIONS = js ''/api/creation/videos''"

definition getPlaygroundImageEndpointChoices ::
    "PlaygroundModelInfo option \<Rightarrow> PlaygroundImageEndpoint list" where
  "getPlaygroundImageEndpointChoices info =
     (let es = map (\<lambda>e. if endsWith (ep_path e) (js ''/async-generations'') then ImgAsync else ImgSync)
        (filter (\<lambda>e. ep_kind e = js ''image'' \<and> (endsWith (ep_path e) (js ''/images/async-generations'')
           \<or> endsWith (ep_path e) (js ''/images/generations''))) (getPlaygroundIntegrations info))
      in if es = [] then [ImgAuto, ImgSync, ImgAsync] else ImgAuto # js_set es)"

definition resolvePlaygroundImageEndpoint ::
    "PlaygroundImageEndpoint \<Rightarrow> PlaygroundModelInfo option \<Rightarrow> PlaygroundImageEndpoint" where
  "resolvePlaygroundImageEndpoint s info =
     (if s \<in> set (getPlaygroundImageEndpointChoices info) then s else ImgAuto)"

definition published_endpoint ::
    "PlaygroundMediaMode \<Rightarrow> PlaygroundImageEndpoint \<Rightarrow> PlaygroundVideoEndpoint \<Rightarrow> MappedEndpoint option
      \<Rightarrow> jsstring option" where
  "published_endpoint m ie ve e =
     (case e of
        None \<Rightarrow> None
      | Some e \<Rightarrow>
          (let is_async = includes_str (ep_path e) (js ''async-generations'')
           in if kind_mode (ep_kind e) \<noteq> Some m then None
              else if m = MImage \<and> ie = ImgAuto
              then Some (if is_async then IMAGE_ASYNC_GENERATIONS else IMAGE_GENERATIONS)
              else if m = MVideo \<and> ve = VidAuto
              then Some (if is_async then VIDEO_ASYNC_GENERATIONS else VIDEO_GENERATIONS)
              else None))"

definition getPlaygroundMediaEndpoint ::
    "jsstring \<Rightarrow> PlaygroundModeSelection \<Rightarrow> PlaygroundImageEndpoint \<Rightarrow> PlaygroundVideoEndpoint
      \<Rightarrow> PlaygroundModelInfo option \<Rightarrow> jsstring option" where
  "getPlaygroundMediaEndpoint model mode imageEndpoint videoEndpoint info =
     (let m = resolvePlaygroundMode model mode info; ie = resolvePlaygroundImageEndpoint imageEndpoint info
      in case published_endpoint m ie videoEndpoint (getPlaygroundIntegration info None) of
           Some e \<Rightarrow> Some e
         | None \<Rightarrow>
             (case m of
                MImage \<Rightarrow> Some (if (if ie = ImgAuto then usesAsyncCreationImageModel (ModelString model) else ie = ImgAsync)
                  then IMAGE_ASYNC_GENERATIONS else IMAGE_GENERATIONS)
              | MVideo \<Rightarrow> Some (if getXJZVideoModelSpec model \<noteq> None \<or> videoEndpoint = VidStandard
                  then VIDEO_GENERATIONS else VIDEO_ASYNC_GENERATIONS)
              | MChat \<Rightarrow> None))"

end
