(* ===== verification/Playground_Results.thy ===== *)
theory Playground_Results
  imports Playground_Media
begin

text \<open>
  Reading the answer to a media request (\<open>parsePlaygroundMediaResult\<close> of
  \<open>features/playground/lib/media-routing.ts\<close>) and the address of the video proxy, with
  \<open>encodeURIComponent\<close> of the standard library: it throws on a surrogate that is not part of a pair.
\<close>

section \<open>Percent encoding\<close>

definition unreserved :: "unit16 \<Rightarrow> bool" where
  "unreserved u \<longleftrightarrow> 65 \<le> u \<and> u \<le> 90 \<or> 97 \<le> u \<and> u \<le> 122 \<or> is_digit u
     \<or> u \<in> {45, 95, 46, 33, 126, 42, 39, 40, 41}"

definition upper_hex :: "nat \<Rightarrow> unit16" where
  "upper_hex n = (if n < 10 then 48 + n else 55 + n)"

definition utf8 :: "nat \<Rightarrow> nat list" where
  "utf8 c =
     (if c < 128 then [c]
      else if c < 2048 then [192 + c div 64, 128 + c mod 64]
      else if c < 65536 then [224 + c div 4096, 128 + c div 64 mod 64, 128 + c mod 64]
      else [240 + c div 262144, 128 + c div 4096 mod 64, 128 + c div 64 mod 64, 128 + c mod 64])"

definition percent :: "nat \<Rightarrow> jsstring" where
  "percent c = concat (map (\<lambda>b. [37, upper_hex (b div 16), upper_hex (b mod 16)]) (utf8 c))"

fun encodeURIComponent :: "jsstring \<Rightarrow> jsstring option" where
  "encodeURIComponent [] = Some []"
| "encodeURIComponent (u # s) =
     (if unreserved u then map_option ((#) u) (encodeURIComponent s)
      else if is_low u then None
      else if is_high u then
        (case s of
           [] \<Rightarrow> None
         | v # s' \<Rightarrow> if is_low v
             then map_option ((@) (percent ((u - 55296) * 1024 + (v - 56320) + 65536))) (encodeURIComponent s')
             else None)
      else map_option ((@) (percent u)) (encodeURIComponent s))"

section \<open>Results\<close>

record PlaygroundMediaResult =
  pr_mode :: PlaygroundMediaMode
  pr_content :: jsstring
  pr_taskId :: "jsstring option"
  pr_status :: "MediaTaskStatus option"
  pr_mediaUrl :: "jsstring option"

definition buildPlaygroundVideoProxyUrl :: "jsstring \<Rightarrow> jsstring option" where
  "buildPlaygroundVideoProxyUrl t =
     map_option (\<lambda>e. js ''/v1/videos/'' @ e @ js ''/content'') (encodeURIComponent t)"

definition normalizePreviewUrl :: "jsstring option \<Rightarrow> jsstring option" where
  "normalizePreviewUrl u =
     (let t = trim (or_string u [])
      in if t \<noteq> [] \<and> list_ex (\<lambda>p. startsWith t (js p)) [''http://'', ''https://'', ''data:'', ''/''] then Some t else None)"

definition isVideoApiContentUrl :: "jsstring \<Rightarrow> bool" where
  "isVideoApiContentUrl u \<longleftrightarrow>
     includes_str u (js ''/v1/videos/'') \<or> includes_str u (js ''/v1/video/async-generations/'')"

text \<open>A line that is pushed when the value is there.\<close>

definition line :: "jsstring \<Rightarrow> jsstring option \<Rightarrow> jsstring list" where
  "line p v = (case v of Some s \<Rightarrow> [p @ s] | None \<Rightarrow> [])"

definition model_line :: "jsstring \<Rightarrow> jsstring" where
  "model_line m = [27169, 22411, 65306] @ m"

definition parseImageResult :: "json \<Rightarrow> jsstring \<Rightarrow> thrown + PlaygroundMediaResult" where
  "parseImageResult raw m =
     (let r = parseImageGenerationResult raw; completed = (pi_imageUrl r \<noteq> None);
          lines = [(if completed then [22270, 29255, 29983, 25104, 23436, 25104, 12290]
              else [22270, 29255, 20219, 21153, 24050, 25552, 20132, 12290]), model_line m]
            @ line [32467, 26524, 32, 73, 68, 65306] (pi_id r)
            @ line [20248, 21270, 25552, 31034, 35789, 65306] (pi_revisedPrompt r)
            @ [if completed then [22270, 29255, 39044, 35272, 24050, 29983, 25104, 12290]
              else [25509, 21475, 24050, 36820, 22238, 32467, 26524, 65292, 20294, 26242, 26410, 35299, 26512, 21040,
                22270, 29255, 22320, 22336, 12290]]
      in if pi_status r = Failed then throw ''Media generation failed''
         else Inr \<lparr>pr_mode = MImage, pr_content = join [10] lines, pr_taskId = pi_taskId r,
           pr_status = Some (pi_status r), pr_mediaUrl = pi_imageUrl r\<rparr>)"

text \<open>The address shown for a video: the provider's own address, else the proxy of this gateway.\<close>

definition video_url :: "ParsedVideoGenerationResult \<Rightarrow> thrown + jsstring option" where
  "video_url r =
     (let u = normalizePreviewUrl (pv_videoUrl r)
      in if (case u of Some s \<Rightarrow> \<not> isVideoApiContentUrl s | None \<Rightarrow> False) then Inr u
         else (case pv_taskId r of
           None \<Rightarrow> Inr u
         | Some t \<Rightarrow> (case buildPlaygroundVideoProxyUrl t of
             Some p \<Rightarrow> Inr (Some p) | None \<Rightarrow> throw ''URI malformed'')))"

definition parseVideoResult :: "json \<Rightarrow> jsstring \<Rightarrow> thrown + PlaygroundMediaResult" where
  "parseVideoResult raw m =
     (let r = parseVideoGenerationResult raw
      in if pv_status r = Failed then throw ''Media generation failed''
         else bind_sum (video_url r) (\<lambda>u.
           let completed = (pv_status r = Completed \<and> u \<noteq> None);
               lines = [(if completed then [35270, 39057, 29983, 25104, 23436, 25104, 12290]
                   else [35270, 39057, 20219, 21153, 24050, 25552, 20132, 12290]), model_line m]
                 @ line [20219, 21153, 32, 73, 68, 65306] (pv_taskId r)
                 @ line [24403, 21069, 29366, 24577, 65306] (pv_upstreamStatus r)
                 @ [if completed then [35270, 39057, 39044, 35272, 24050, 29983, 25104, 12290]
                   else [29983, 25104, 23436, 25104, 21518, 65292, 21487, 22312, 20219, 21153, 26085, 24535, 20013,
                     26597, 30475, 32467, 26524, 12290]]
           in Inr \<lparr>pr_mode = MVideo, pr_content = join [10] lines, pr_taskId = pv_taskId r,
                pr_status = Some (pv_status r), pr_mediaUrl = (if completed then u else None)\<rparr>))"

definition parsePlaygroundMediaResult ::
    "json \<Rightarrow> jsstring \<Rightarrow> PlaygroundModeSelection \<Rightarrow> thrown + PlaygroundMediaResult" where
  "parsePlaygroundMediaResult raw m mode =
     (case extractMediaErrorMessage raw of
        Some e \<Rightarrow> Inl (Thrown e [])
      | None \<Rightarrow>
          (case resolvePlaygroundMode m mode None of
             MImage \<Rightarrow> parseImageResult raw m
           | MVideo \<Rightarrow> parseVideoResult raw m
           | MChat \<Rightarrow> throw ''Current model does not support media generation''))"

section \<open>Properties\<close>

lemma percent_units: "c < 1114112 \<Longrightarrow> u \<in> set (percent c) \<Longrightarrow> u = 37 \<or> is_digit u \<or> 65 \<le> u \<and> u \<le> 70"
proof -
  assume c: "c < 1114112"
  have hex: "is_digit (upper_hex n) \<or> 65 \<le> upper_hex n \<and> upper_hex n \<le> 70" if "n < 16" for n
    using that by (auto simp: upper_hex_def is_digit_def)
  have "b < 256" if "b \<in> set (utf8 c)" for b
    using that c by (auto simp: utf8_def split: if_splits)
  then have "b div 16 < 16" if "b \<in> set (utf8 c)" for b using that by (simp add: less_mult_imp_div_less)
  moreover assume "u \<in> set (percent c)"
  then have "u = 37 \<or> (\<exists>b\<in>set (utf8 c). u = upper_hex (b div 16) \<or> u = upper_hex (b mod 16))"
    by (auto simp: percent_def split: if_splits)
  ultimately show ?thesis using hex [of "b div 16" for b] hex [of "b mod 16" for b] by fastforce
qed

lemma encoded_units:
  assumes "\<forall>u\<in>set t. u < 65536" "encodeURIComponent t = Some e"
  shows "list_all (\<lambda>u. unreserved u \<or> u = 37) e"
proof -
  have hex: "unreserved u \<or> u = 37" if "c < 1114112" "u \<in> set (percent c)" for c u
    using percent_units [OF that] by (auto simp: unreserved_def)
  have pair: "(u - 55296) * 1024 + (v - 56320) + 65536 < 1114112" if "is_high u" "is_low v" for u v
  proof -
    have "u - 55296 \<le> 1023" "v - 56320 \<le> 1023" using that by (auto simp: is_high_def is_low_def)
    then show ?thesis by linarith
  qed
  show ?thesis using assms
  proof (induction t arbitrary: e rule: encodeURIComponent.induct)
    case (2 u s)
    show ?case
    proof (cases "unreserved u")
      case True
      then show ?thesis using 2 by (auto simp: list_all_iff)
    next
      case n: False
      show ?thesis
      proof (cases "is_high u")
        case True
        then obtain v s' e' where "s = v # s'" "is_low v" "encodeURIComponent s' = Some e'"
          "e = percent ((u - 55296) * 1024 + (v - 56320) + 65536) @ e'"
          using 2(5) n by (auto split: if_splits list.splits)
        moreover from this have "list_all (\<lambda>u. unreserved u \<or> u = 37) e'"
          using 2(2) [OF n _ True, of v s' e'] 2(4,5) n True by (auto split: if_splits)
        ultimately show ?thesis using hex [OF pair [OF True]] by (auto simp: list_all_iff)
      next
        case False
        then obtain e' where "encodeURIComponent s = Some e'" "e = percent u @ e'" "\<not> is_low u"
          using 2(5) n by (auto split: if_splits)
        then show ?thesis using 2 n False hex [of u] by (auto simp: list_all_iff)
      qed
    qed
  qed simp
qed

lemma first_some_nonempty: "\<forall>x\<in>set xs. x \<noteq> Some [] \<Longrightarrow> first_some xs \<noteq> Some []"
  using first_some_in [of xs "[]"] by auto

lemma getString_nonempty: "getString d k \<noteq> Some []"
  using getString_text [of d k "[]"] by (auto simp: trim_def)

lemma error_message_nonempty: "extractMediaErrorMessage raw \<noteq> Some []"
  unfolding extractMediaErrorMessage_def Let_def
  by (intro first_some_nonempty)
    (auto simp: getString_nonempty getString_nonempty [symmetric] failed_reason_def truthy_string_def intro!: first_some_nonempty split: option.splits)

lemma no_failed_result:
  "parsePlaygroundMediaResult raw m mode = Inr r \<Longrightarrow> pr_status r \<noteq> Some Failed"
  using no_error_not_failed [of raw]
  by (auto simp: parsePlaygroundMediaResult_def parseImageResult_def parseVideoResult_def bind_sum_def Let_def
      split: option.splits PlaygroundMediaMode.splits if_splits sum.splits)

text \<open>C22: A failed task is always reported as an error with a message: when the status of an answer
  means failure, \<open>parsePlaygroundMediaResult\<close> throws a non-empty message, and the status of a result
  it returns is never \<open>failed\<close>.\<close>

theorem failed_task_throws:
  assumes "normalizeMediaTaskStatus (task_status raw) = Failed"
  shows "\<exists>msg. msg \<noteq> [] \<and> parsePlaygroundMediaResult raw m mode = Inl (Thrown msg [])
    \<and> extractMediaErrorMessage raw = Some msg"
proof -
  obtain msg where e: "extractMediaErrorMessage raw = Some msg" using no_error_not_failed assms by blast
  then have "msg \<noteq> []" using error_message_nonempty by metis
  then show ?thesis using e by (simp add: parsePlaygroundMediaResult_def)
qed

theorem failed_task_throws_witness:
  "(let raw = JObj [(js ''status'', JStr (js ''Cancelled''))]
    in \<exists>msg. msg \<noteq> [] \<and> parsePlaygroundMediaResult raw [] ModeAuto = Inl (Thrown msg []))"
proof -
  have "normalizeMediaTaskStatus (task_status (JObj [(js ''status'', JStr (js ''Cancelled''))])) = Failed"
    by (simp add: task_status_def envelope_def read_record_def asRecord_def getString_def obj_get_def
        normalizeMediaTaskStatus_def js_eval)
  from failed_task_throws [OF this] show ?thesis unfolding Let_def by blast
qed

end
