(* ===== verification/Media_Polling.thy ===== *)
theory Media_Polling
  imports Playground_Results
begin

text \<open>
  Waiting for a media task (\<open>features/playground/lib/media-task-polling.ts\<close>).  The world around the
  loop is a record: what the \<open>n\<close>-th fetch answers, whether the signal has been aborted, what the
  progress callback throws, and the time that passes beyond the requested waits.  Times are in
  milliseconds.  The loop has no bound of its own but the clock, so it is a partial function whose
  value \<open>None\<close> means that it runs forever.
\<close>

section \<open>Data\<close>

text \<open>An error as the retry rule reads it: \<open>error.response?.status\<close>, \<open>error.isAxiosError\<close> and its message.\<close>

record fetch_error =
  fe_status :: "nat option"
  isAxiosError :: bool
  fe_message :: thrown

datatype poll_outcome = Returned PlaygroundMediaResult | Rejected fetch_error | Aborted

record poll_env =
  lag :: "nat \<Rightarrow> int"
  wait_aborted :: "nat \<Rightarrow> bool"
  fetched :: "nat \<Rightarrow> fetch_error + PlaygroundMediaResult"
  progress_error :: "nat \<Rightarrow> fetch_error option"
  aborted_in_catch :: "nat \<Rightarrow> bool"

section \<open>The loop\<close>

definition poll_delay :: "nat \<Rightarrow> nat" where
  "poll_delay failures = min 30000 (5000 * 2 ^ failures)"

definition task_finished :: "PlaygroundMediaResult \<Rightarrow> bool" where
  "task_finished r \<longleftrightarrow> truthy_text (pr_mediaUrl r) \<or> pr_status r = Some Completed \<or> pr_status r = Some Failed"

definition retryable :: "fetch_error \<Rightarrow> bool" where
  "retryable e =
     (case fe_status e of
        None \<Rightarrow> isAxiosError e
      | Some s \<Rightarrow> if s = 0 then isAxiosError e else s \<in> {408, 409, 425, 429} \<or> 500 \<le> s)"

datatype poll_next = Stop poll_outcome | Again PlaygroundMediaResult nat

definition poll_catch :: "poll_env \<Rightarrow> nat \<Rightarrow> PlaygroundMediaResult \<Rightarrow> nat \<Rightarrow> fetch_error \<Rightarrow> poll_next" where
  "poll_catch env n latest failures e =
     (if aborted_in_catch env n then Stop Aborted
      else if retryable e then Again latest (min (failures + 1) 3)
      else Stop (Rejected e))"

definition poll_step ::
    "poll_env \<Rightarrow> jsstring option \<Rightarrow> nat \<Rightarrow> PlaygroundMediaResult \<Rightarrow> nat \<Rightarrow> poll_next" where
  "poll_step env t n latest failures =
     (if wait_aborted env n then Stop Aborted
      else (case fetched env n of
        Inl e \<Rightarrow> poll_catch env n latest failures e
      | Inr r \<Rightarrow>
          (let latest' = r\<lparr>pr_taskId := t\<rparr>
           in case progress_error env n of
                Some e \<Rightarrow> poll_catch env n latest' 0 e
              | None \<Rightarrow> if task_finished latest' then Stop (Returned latest') else Again latest' 0)))"

text \<open>The state of the loop: the number of the iteration, the time since the start, the last result
  and the number of failures in a row.  The waits are recorded.\<close>

partial_function (option) poll_loop ::
    "poll_env \<Rightarrow> int \<Rightarrow> jsstring option \<Rightarrow> nat \<Rightarrow> int \<Rightarrow> PlaygroundMediaResult \<Rightarrow> nat \<Rightarrow> nat list
      \<Rightarrow> (poll_outcome \<times> nat list) option" where
  "poll_loop env timeout t n elapsed latest failures waits =
     (if elapsed < timeout then
        (let w = poll_delay failures; waits' = waits @ [w]
         in case poll_step env t n latest failures of
              Stop out \<Rightarrow> Some (out, waits')
            | Again latest' failures' \<Rightarrow>
                poll_loop env timeout t (Suc n) (elapsed + int w + lag env (Suc n)) latest' failures' waits')
      else Some (Returned latest, waits))"

definition DEFAULT_POLL_TIMEOUT :: int where
  "DEFAULT_POLL_TIMEOUT = 30 * 60000"

definition pollPlaygroundTask ::
    "poll_env \<Rightarrow> int option \<Rightarrow> PlaygroundMediaResult \<Rightarrow> (poll_outcome \<times> nat list) option" where
  "pollPlaygroundTask env timeoutMs initial =
     (if \<not> truthy_text (pr_taskId initial) \<or> truthy_text (pr_mediaUrl initial) then Some (Returned initial, [])
      else poll_loop env (case timeoutMs of Some m \<Rightarrow> m | None \<Rightarrow> DEFAULT_POLL_TIMEOUT) (pr_taskId initial)
        0 (lag env 0) initial 0 [])"

section \<open>The loop ends\<close>

lemma poll_step_failures: "poll_step env t n latest f = Again r f' \<Longrightarrow> f' \<le> 3"
  by (auto simp: poll_step_def poll_catch_def Let_def split: if_splits sum.splits option.splits)

lemma poll_delay_cases: "f \<le> 3 \<Longrightarrow> poll_delay f \<in> {5000, 10000, 20000, 30000}"
proof -
  assume "f \<le> 3"
  then have "f = 0 \<or> f = 1 \<or> f = 2 \<or> f = 3" by auto
  then show ?thesis by (auto simp: poll_delay_def)
qed

lemma poll_delay_least: "f \<le> 3 \<Longrightarrow> 5000 \<le> poll_delay f"
  using poll_delay_cases [of f] by auto

text \<open>The iterations left are bounded by the time left, as every wait takes at least five seconds.\<close>

lemma poll_loop_ends:
  assumes "\<forall>n. 0 \<le> lag env n" "f \<le> 3" "timeout - elapsed \<le> 5000 * int k"
  shows "\<exists>out ws. poll_loop env timeout t n elapsed latest f waits = Some (out, waits @ ws)
    \<and> length ws \<le> k \<and> set ws \<subseteq> {5000, 10000, 20000, 30000}"
  using assms(2,3)
proof (induction k arbitrary: n elapsed latest f waits)
  case 0
  then show ?case by (subst poll_loop.simps) simp
next
  case (Suc k)
  show ?case
  proof (cases "elapsed < timeout")
    case False
    then show ?thesis by (subst poll_loop.simps) simp
  next
    case True
    show ?thesis
    proof (cases "poll_step env t n latest f")
      case (Stop out)
      then show ?thesis using True poll_delay_cases [OF Suc.prems(1)]
        by (subst poll_loop.simps) (auto simp: Let_def)
    next
      case (Again r f')
      let ?e = "elapsed + int (poll_delay f) + lag env (Suc n)"
      have "timeout - ?e \<le> 5000 * int k"
        using Suc.prems poll_delay_least [OF Suc.prems(1)] spec [OF assms(1), of "Suc n"] by simp
      from Suc.IH [OF poll_step_failures [OF Again] this] obtain out ws where
        "poll_loop env timeout t (Suc n) ?e r f' (waits @ [poll_delay f]) = Some (out, (waits @ [poll_delay f]) @ ws)"
        "length ws \<le> k" "set ws \<subseteq> {5000, 10000, 20000, 30000}" by blast
      then show ?thesis using True Again poll_delay_cases [OF Suc.prems(1)]
        by (subst poll_loop.simps) (auto simp: Let_def intro!: exI [of _ "poll_delay f # ws"])
    qed
  qed
qed

section \<open>What it returns\<close>

definition from_fetch :: "poll_env \<Rightarrow> PlaygroundMediaResult \<Rightarrow> PlaygroundMediaResult \<Rightarrow> bool" where
  "from_fetch env initial r \<longleftrightarrow> r = initial \<or> (\<exists>n r'. fetched env n = Inr r' \<and> r = r'\<lparr>pr_taskId := pr_taskId initial\<rparr>)"

lemma poll_step_from:
  assumes "from_fetch env initial latest"
  shows "poll_step env (pr_taskId initial) n latest f = Again r f' \<Longrightarrow> from_fetch env initial r"
    and "poll_step env (pr_taskId initial) n latest f = Stop (Returned r) \<Longrightarrow> from_fetch env initial r \<and> task_finished r"
    and "poll_step env (pr_taskId initial) n latest f = Stop (Rejected e) \<Longrightarrow> \<not> retryable e
      \<and> (fetched env n = Inl e \<or> progress_error env n = Some e)"
  using assms
  by (auto simp: poll_step_def poll_catch_def from_fetch_def Let_def split: if_splits sum.splits option.splits)

definition outcome_ok :: "poll_env \<Rightarrow> PlaygroundMediaResult \<Rightarrow> poll_outcome \<Rightarrow> bool" where
  "outcome_ok env initial out =
     (case out of
        Returned r \<Rightarrow> from_fetch env initial r
      | Rejected e \<Rightarrow> \<not> retryable e \<and> (\<exists>n. fetched env n = Inl e \<or> progress_error env n = Some e)
      | Aborted \<Rightarrow> \<exists>n. wait_aborted env n \<or> aborted_in_catch env n)"

lemma poll_step_abort:
  "poll_step env t n latest f = Stop Aborted \<Longrightarrow> wait_aborted env n \<or> aborted_in_catch env n"
  by (auto simp: poll_step_def poll_catch_def Let_def split: if_splits sum.splits option.splits)

lemma poll_loop_outcome:
  assumes "poll_loop env timeout t n elapsed latest f waits = Some p"
  shows "t = pr_taskId initial \<longrightarrow> from_fetch env initial latest \<longrightarrow> outcome_ok env initial (fst p)"
proof (rule poll_loop.raw_induct [OF _ assms])
  fix loop env timeout t n elapsed latest f waits p
  assume IH: "\<And>env timeout t n elapsed latest f waits p. loop env timeout t n elapsed latest f waits = Some p \<Longrightarrow>
      t = pr_taskId initial \<longrightarrow> from_fetch env initial latest \<longrightarrow> outcome_ok env initial (fst p)"
    and body: "(if elapsed < timeout then
        (let w = poll_delay f; waits' = waits @ [w]
         in case poll_step env t n latest f of
              Stop out \<Rightarrow> Some (out, waits')
            | Again latest' failures' \<Rightarrow>
                loop env timeout t (Suc n) (elapsed + int w + lag env (Suc n)) latest' failures' waits')
      else Some (Returned latest, waits)) = Some p"
  show "t = pr_taskId initial \<longrightarrow> from_fetch env initial latest \<longrightarrow> outcome_ok env initial (fst p)"
  proof (intro impI)
    assume t: "t = pr_taskId initial" and l: "from_fetch env initial latest"
    note step = poll_step_from [OF l, of n f, folded t] poll_step_abort [of env t n latest f]
    show "outcome_ok env initial (fst p)"
    proof (cases "elapsed < timeout")
      case False
      then show ?thesis using body l by (auto simp: outcome_ok_def)
    next
      case True
      show ?thesis
      proof (cases "poll_step env t n latest f")
        case (Stop out)
        then have "outcome_ok env initial out" using step by (cases out) (auto simp: outcome_ok_def)
        then show ?thesis using body True Stop by (auto simp: Let_def)
      next
        case (Again r f')
        with body True have
          "loop env timeout t (Suc n) (elapsed + int (poll_delay f) + lag env (Suc n)) r f' (waits @ [poll_delay f]) = Some p"
          by (simp add: Let_def)
        from IH [OF this] t step(1) [OF Again] show ?thesis by blast
      qed
    qed
  qed
qed

lemma poll_outcome_ok: "pollPlaygroundTask env timeoutMs initial = Some (out, waits) \<Longrightarrow> outcome_ok env initial out"
  using poll_loop_outcome [of env _ "pr_taskId initial" _ _ initial]
  by (fastforce simp: pollPlaygroundTask_def outcome_ok_def from_fetch_def split: if_splits)

lemma poll_ends_core:
  assumes "\<forall>n. 0 \<le> lag env n"
  shows "\<exists>out waits. pollPlaygroundTask env timeoutMs initial = Some (out, waits)
    \<and> int (length waits) \<le> max 0 ((case timeoutMs of Some m \<Rightarrow> m | None \<Rightarrow> 1800000) + 4999) div 5000
    \<and> set waits \<subseteq> {5000, 10000, 20000, 30000}"
proof (cases "\<not> truthy_text (pr_taskId initial) \<or> truthy_text (pr_mediaUrl initial)")
  case True
  then show ?thesis by (auto simp: pollPlaygroundTask_def)
next
  case False
  let ?m = "case timeoutMs of Some m \<Rightarrow> m | None \<Rightarrow> DEFAULT_POLL_TIMEOUT"
  let ?k = "nat ((?m + 4999) div 5000)"
  have "?m - lag env 0 \<le> 5000 * int ?k" using spec [OF assms, of 0] by (simp add: algebra_simps) linarith
  from poll_loop_ends [OF assms _ this, of 0 "pr_taskId initial" 0 initial "[]"] obtain out ws where
    w: "poll_loop env ?m (pr_taskId initial) 0 (lag env 0) initial 0 [] = Some (out, ws)"
    "length ws \<le> ?k" "set ws \<subseteq> {5000, 10000, 20000, 30000}" by auto
  have "max 0 ((m + 4999) div 5000) = max 0 (m + 4999) div 5000" for m :: int
    by (cases "0 \<le> m + 4999") (simp_all add: pos_imp_zdiv_nonneg_iff max_def)
  then have "int (length ws) \<le> max 0 (?m + 4999) div 5000" using w(2) by (simp add: nat_le_iff flip: of_nat_le_iff)
  moreover have "?m = (case timeoutMs of Some m \<Rightarrow> m | None \<Rightarrow> 1800000)" by (cases timeoutMs) (simp_all add: DEFAULT_POLL_TIMEOUT_def)
  ultimately show ?thesis using False w by (simp add: pollPlaygroundTask_def)
qed

section \<open>Properties\<close>

text \<open>C21: Polling ends: when the clock does not run backwards and every fetch settles, the loop stops,
  has waited at most once per five seconds of the timeout (360 times by default), and every wait is
  5, 10, 20 or 30 seconds.\<close>

theorem polling_ends:
  assumes "\<forall>n. 0 \<le> lag env n"
  shows "\<exists>out waits. pollPlaygroundTask env timeoutMs initial = Some (out, waits)
    \<and> int (length waits) \<le> max 0 ((case timeoutMs of Some m \<Rightarrow> m | None \<Rightarrow> 1800000) + 4999) div 5000
    \<and> set waits \<subseteq> {5000, 10000, 20000, 30000}"
  using poll_ends_core [OF assms] .

text \<open>What polling answers: a returned result is the initial one or one that was fetched, with the
  identifier of the task; an error ends it only when the retry rule does not cover it, and it is one
  that a fetch or the callback raised; otherwise the signal was aborted.\<close>

theorem polling_outcome:
  assumes "pollPlaygroundTask env timeoutMs initial = Some (out, waits)"
  shows "case out of
      Returned r \<Rightarrow> pr_taskId r = pr_taskId initial
        \<and> (r = initial \<or> (\<exists>n r'. fetched env n = Inr r' \<and> r = r'\<lparr>pr_taskId := pr_taskId initial\<rparr>))
    | Rejected e \<Rightarrow> \<not> retryable e \<and> (\<exists>n. fetched env n = Inl e \<or> progress_error env n = Some e)
    | Aborted \<Rightarrow> \<exists>n. wait_aborted env n \<or> aborted_in_catch env n"
proof -
  from poll_outcome_ok [OF assms] show ?thesis by (auto simp: outcome_ok_def from_fetch_def split: poll_outcome.splits)
qed

definition sample_env :: poll_env where
  "sample_env = \<lparr>lag = (\<lambda>_. 1), wait_aborted = (\<lambda>_. False),
     fetched = (\<lambda>n. Inl \<lparr>fe_status = Some (if n = 0 then 503 else 404), isAxiosError = True, fe_message = Thrown [] []\<rparr>),
     progress_error = (\<lambda>_. None), aborted_in_catch = (\<lambda>_. False)\<rparr>"

definition sample_task :: PlaygroundMediaResult where
  "sample_task = \<lparr>pr_mode = MVideo, pr_content = [], pr_taskId = Some (js ''t''), pr_status = Some Queued, pr_mediaUrl = None\<rparr>"

theorem polling_ends_witness:
  "\<exists>out waits. pollPlaygroundTask sample_env None sample_task = Some (out, waits) \<and> length waits \<le> 360"
proof -
  have "\<forall>n. 0 \<le> lag sample_env n" by (simp add: sample_env_def)
  from polling_ends [OF this, of None sample_task] show ?thesis by auto
qed

lemma sample_rejected:
  "pollPlaygroundTask sample_env None sample_task
   = Some (Rejected \<lparr>fe_status = Some 404, isAxiosError = True, fe_message = Thrown [] []\<rparr>, [5000, 10000])"
  by (simp add: pollPlaygroundTask_def sample_env_def sample_task_def truthy_text_def DEFAULT_POLL_TIMEOUT_def)
    (subst poll_loop.simps, simp add: poll_step_def poll_catch_def retryable_def poll_delay_def,
     subst poll_loop.simps, simp add: poll_step_def poll_catch_def retryable_def poll_delay_def)

theorem polling_outcome_witness:
  "pollPlaygroundTask sample_env None sample_task
     = Some (Rejected \<lparr>fe_status = Some 404, isAxiosError = True, fe_message = Thrown [] []\<rparr>, [5000, 10000])
   \<and> \<not> retryable \<lparr>fe_status = Some 404, isAxiosError = True, fe_message = Thrown [] []\<rparr>"
  using polling_outcome [OF sample_rejected] sample_rejected by simp

end
