(* ===== verification/Playground_Request.thy ===== *)
theory Playground_Request
  imports Playground_Media
begin

text \<open>
  The body of a media request of the playground (\<open>buildPlaygroundMediaRequest\<close> of
  \<open>features/playground/lib/media-routing.ts\<close>).  Spreading an object is adding its entries in order;
  \<open>extraBody\<close> is the object the user typed.
\<close>

section \<open>Prompt and numbers\<close>

definition user_prompt :: "Message \<Rightarrow> jsstring option" where
  "user_prompt m =
     (if sender m \<noteq> USER then None
      else (case first (versions m) of
        Some v \<Rightarrow> if trim (content v) \<noteq> [] then Some (trim (content v)) else None
      | None \<Rightarrow> None))"

definition getLatestUserPrompt :: "Message list \<Rightarrow> jsstring" where
  "getLatestUserPrompt ms = or_string (first_some (map user_prompt (rev ms))) []"

section \<open>Image options\<close>

definition spread_json :: "json_record \<Rightarrow> body \<Rightarrow> body" where
  "spread_json ps b = foldl (\<lambda>b (k, v). b(k \<mapsto> v)) b ps"

definition requested_count :: "PlaygroundReferenceSelection \<Rightarrow> json_record \<Rightarrow> json" where
  "requested_count sel extra =
     (case sel_count sel of
        Some n \<Rightarrow> JNum n
      | None \<Rightarrow> (case obj_get (js ''n'') extra of
          None \<Rightarrow> JNum (num 1) | Some JNull \<Rightarrow> JNum (num 1) | Some v \<Rightarrow> v))"

definition valid_count :: "ImageContract \<Rightarrow> json \<Rightarrow> bool" where
  "valid_count c v =
     (case v of
        JNum n \<Rightarrow> js_isInteger n \<and> \<not> js_less n (num 1) \<and> \<not> js_less (ic_max_outputs c) n
      | _ \<Rightarrow> False)"

definition put_choice :: "string \<Rightarrow> jsstring option \<Rightarrow> jsstring list \<Rightarrow> body \<Rightarrow> thrown + body" where
  "put_choice k v choices b =
     (case v of
        None \<Rightarrow> Inr b
      | Some s \<Rightarrow> if s = [] then Inr b
          else if s \<notin> set choices then throw ''Unsupported image option''
          else Inr (b(js k \<mapsto> JStr s)))"

definition size_re :: re where
  "size_re = RSeq RBegin (rseqs [RGroup 1 (rplus (RSet is_digit)), rlit ''x'', RGroup 2 (rplus (RSet is_digit)), REnd])"

definition valid_dimensions :: "ImageContract \<Rightarrow> jsnum \<Rightarrow> jsnum \<Rightarrow> bool" where
  "valid_dimensions c w h \<longleftrightarrow>
     js_isSafeInteger w \<and> js_isSafeInteger h
     \<and> js_less (num 0) w \<and> js_less (num 0) h
     \<and> \<not> js_less (ic_max_edge c) w \<and> \<not> js_less (ic_max_edge c) h
     \<and> \<not> js_truthy_num (js_mod w (ic_size_multiple c)) \<and> \<not> js_truthy_num (js_mod h (ic_size_multiple c))
     \<and> \<not> js_less (js_mul (ic_max_aspect_ratio c) (js_min w h)) (js_max w h)
     \<and> \<not> js_less (js_mul w h) (ic_min_pixels c) \<and> \<not> js_less (ic_max_pixels c) (js_mul w h)"

definition valid_size :: "ImageContract \<Rightarrow> jsstring \<Rightarrow> bool" where
  "valid_size c s \<longleftrightarrow> s = js ''auto''
     \<or> (case re_match size_re s of
          Some m \<Rightarrow> valid_dimensions c (js_Number (group m 1)) (js_Number (group m 2))
        | None \<Rightarrow> False)"

definition put_size :: "ImageContract \<Rightarrow> jsstring option \<Rightarrow> body \<Rightarrow> thrown + body" where
  "put_size c v b =
     (let s = trim (or_string v [])
      in if s = [] then Inr b
         else if valid_size c s then Inr (b(js ''size'' \<mapsto> JStr s))
         else throw ''Image size does not meet the model requirements'')"

definition format_text :: "body \<Rightarrow> jsstring" where
  "format_text b = (case b (js ''output_format'') of
     None \<Rightarrow> js ''png'' | Some JNull \<Rightarrow> js ''png'' | Some v \<Rightarrow> json_String v)"

definition put_compression :: "jsnum option \<Rightarrow> body \<Rightarrow> thrown + body" where
  "put_compression v b =
     (case v of
        None \<Rightarrow> Inr b
      | Some n \<Rightarrow>
          if format_text b \<notin> {js ''jpeg'', js ''webp''} then Inr b
          else if \<not> js_isInteger n \<or> js_less n (num 0) \<or> js_less (num 100) n
          then throw ''Image compression must be between 0 and 100''
          else Inr (b(js ''output_compression'' \<mapsto> JNum n)))"

definition check_transparent :: "body \<Rightarrow> thrown + body" where
  "check_transparent b =
     (if b (js ''background'') = Some (JStr (js ''transparent'')) \<and> b (js ''output_format'') = Some (JStr (js ''jpeg''))
      then throw ''Transparent backgrounds require PNG or WebP'' else Inr b)"

definition put_image_options ::
    "ImageContract \<Rightarrow> PlaygroundReferenceSelection \<Rightarrow> json_record \<Rightarrow> body \<Rightarrow> thrown + body" where
  "put_image_options c sel extra b =
     (let n = requested_count sel extra
      in if \<not> valid_count c n
         then Inl (Thrown (js ''Image count must be between 1 and {{count}}'') [js_String (ic_max_outputs c)])
         else bind_sum (put_choice ''quality'' (sel_quality sel) (ic_qualities c) (b(js ''n'' \<mapsto> n))) (\<lambda>b1.
           bind_sum (put_choice ''output_format'' (sel_outputFormat sel) (ic_output_formats c) b1) (\<lambda>b2.
           bind_sum (put_choice ''background'' (sel_background sel) (ic_backgrounds c) b2) (\<lambda>b3.
           bind_sum (put_size c (sel_size sel) b3) (\<lambda>b4.
           bind_sum (put_compression (sel_outputCompression sel) b4) check_transparent)))))"

section \<open>Requests with a published contract\<close>

text \<open>\<open>s.replace(p, r)\<close> for texts: the first occurrence.\<close>

definition replace_first :: "jsstring \<Rightarrow> jsstring \<Rightarrow> jsstring \<Rightarrow> jsstring" where
  "replace_first s p r =
     (case index_of p s of Some i \<Rightarrow> take i s @ r @ drop (i + length p) s | None \<Rightarrow> s)"

text \<open>The references in \<open>extraBody\<close>, one per line, when the field holds a list of strings.\<close>

definition all_strings :: "json list \<Rightarrow> bool" where
  "all_strings vs = list_all (\<lambda>v. case v of JStr _ \<Rightarrow> True | _ \<Rightarrow> False) vs"

definition readExtraReferences :: "json_record \<Rightarrow> jsstring option \<Rightarrow> jsstring option" where
  "readExtraReferences extra field =
     (if truthy_text field then
        (case obj_get (the field) extra of
           Some (JArr vs) \<Rightarrow> if all_strings vs then Some (join [10] (map json_String vs)) else None
         | _ \<Rightarrow> None)
      else None)"

definition or_extra :: "json_record \<Rightarrow> jsstring option \<Rightarrow> jsstring option \<Rightarrow> jsstring option" where
  "or_extra extra v field = (if truthy_text v then v else readExtraReferences extra field)"

definition request_contract :: "bool \<Rightarrow> IntegrationParameters \<Rightarrow> IntegrationParameters" where
  "request_contract image_async p =
     (if image_async then p\<lparr>ip_resolution_field := Some (js ''output_resolution''),
        ip_image_field := Some (js ''image_urls'')\<rparr> else p)"

definition put_selection ::
    "PlaygroundMediaMode \<Rightarrow> IntegrationParameters \<Rightarrow> IntegrationParameters \<Rightarrow> jsstring option
      \<Rightarrow> jsstring option \<Rightarrow> jsstring option \<Rightarrow> body \<Rightarrow> body" where
  "put_selection m p contract dur ratio res b =
     (let b1 = (if truthy_text (ip_duration_field p) \<and> m = MVideo
            then b(the (ip_duration_field p) \<mapsto> JNum (case dur of Some d \<Rightarrow> js_Number d | None \<Rightarrow> NaN)) else b);
          rf = or_text (ip_ratio_field p) (if m = MVideo then js ''ratio'' else []);
          b2 = (if (m = MVideo \<or> \<not> ip_omit_ratio p) \<and> rf \<noteq> [] \<and> truthy_text ratio
            then b1(rf \<mapsto> JStr (the ratio)) else b1)
      in if truthy_text (ip_resolution_field p) \<and> truthy_text res
         then b2(or_string (ip_resolution_field contract) (the (ip_resolution_field p))
           \<mapsto> JStr (or_string (ip_request_resolution p) (the res)))
         else b2)"

definition contract_request ::
    "auth_url_parser \<Rightarrow> jsstring \<Rightarrow> jsstring \<Rightarrow> PlaygroundMediaMode \<Rightarrow> bool \<Rightarrow> IntegrationParameters \<Rightarrow> json_record
      \<Rightarrow> PlaygroundVideoSelection \<Rightarrow> PlaygroundModelInfo option \<Rightarrow> PlaygroundReferenceSelection \<Rightarrow> thrown + body" where
  "contract_request parseURL model prompt m image_async p extra videoSelection info sel =
     (let contract = request_contract image_async p;
          v = resolvePlaygroundVideoSelection model videoSelection info;
          ratio = (if m = MVideo then Some (vs_aspectRatio v) else resolveIntegrationChoice (sel_aspectRatio sel) (ip_ratios p));
          res = (if m = MVideo then vs_resolution v else resolveIntegrationChoice (sel_resolution sel) (ip_resolutions p));
          b0 = spread_json extra Map.empty;
          b1 = (if m = MImage then b0(js ''n'' \<mapsto> JNum (num 1)) else b0)
      in bind_sum (case ip_image_options p of
             Some c \<Rightarrow> if m = MImage then put_image_options c sel extra b1 else Inr b1
           | None \<Rightarrow> Inr b1) (\<lambda>b2.
         bind_sum (buildPlaygroundReferences parseURL contract
           (sel\<lparr>sel_images := or_extra extra (sel_images sel) (ip_image_field contract),
                sel_videos := or_extra extra (sel_videos sel) (ip_video_field contract),
                sel_audios := or_extra extra (sel_audios sel) (ip_audio_field contract)\<rparr>)) (\<lambda>refs.
         Inr ((put_selection m p contract (vs_duration v) ratio res b2 ++ refs)
           (js ''model'' \<mapsto> JStr model, js ''prompt'' \<mapsto> JStr prompt)))))"

section \<open>Requests without a contract\<close>

fun image_json :: "image_request_value \<Rightarrow> json" where
  "image_json (ImgStr s) = JStr s"
| "image_json (ImgStrs l) = JArr (map JStr l)"
| "image_json (ImgNum n) = JNum n"
| "image_json (ImgMessages p urls) = user_message (JArr
     (JObj [(js ''type'', JStr (js ''text'')), (js ''text'', JStr p)]
      # map (\<lambda>u. JObj [(js ''type'', JStr (js ''image_url'')), (js ''image_url'', JObj [(js ''url'', JStr u)])]) urls))"

definition image_fields :: "CreationImageRequestOptions \<Rightarrow> body" where
  "image_fields r = (\<lambda>k. map_option image_json (r k))"

text \<open>The duration of the selection may be missing; no option has the empty value, so the empty text
  selects the first option, as \<open>undefined\<close> does.\<close>

definition fallback_video_request ::
    "jsstring \<Rightarrow> PlaygroundVideoSelection \<Rightarrow> PlaygroundModelInfo option \<Rightarrow> js_error + body" where
  "fallback_video_request model videoSelection info =
     (let v = resolvePlaygroundVideoSelection model videoSelection info
      in bind_sum (getCreationVideoRequestOptions
           \<lparr>resolution = or_string (vs_resolution v) (resolution DEFAULT_CREATION_VIDEO_OPTIONS),
            duration = or_string (vs_duration v) [], aspectRatio = Some (vs_aspectRatio v)\<rparr>
           (ModelString model) EMPTY_CREATION_VIDEO_REFERENCES) (\<lambda>r.
         Inr (if getCreationVideoCapabilities (ModelString model) \<noteq> None then request_fields r
           else (request_fields r)(js ''seconds'' := map_option JStr (vs_duration v),
             js ''aspect_ratio'' \<mapsto> JStr (vs_aspectRatio v),
             js ''size'' := map_option JStr (map_of FALLBACK_VIDEO_SIZES (vs_aspectRatio v))))))"

datatype request_error = Message thrown | Runtime js_error

definition buildPlaygroundMediaRequest ::
    "auth_url_parser \<Rightarrow> jsstring \<Rightarrow> Message list \<Rightarrow> PlaygroundModeSelection \<Rightarrow> PlaygroundImageEndpoint \<Rightarrow> json_record
      \<Rightarrow> PlaygroundVideoSelection \<Rightarrow> PlaygroundModelInfo option \<Rightarrow> PlaygroundReferenceSelection
      \<Rightarrow> request_error + body option" where
  "buildPlaygroundMediaRequest parseURL model messages mode imageEndpoint extra videoSelection info sel =
     (let m = resolvePlaygroundMode model mode info;
          prompt = getLatestUserPrompt messages;
          e = or_string (getPlaygroundMediaEndpoint model mode imageEndpoint VidAuto info) [];
          is_async = (m = MImage \<and> e = IMAGE_ASYNC_GENERATIONS);
          integration = getPlaygroundIntegration info
            (if m = MImage then Some (replace_first e (js ''/api/creation/'') (js ''/v1/'')) else None);
          params = (case integration of
            Some i \<Rightarrow> if kind_mode (ep_kind i) = Some m then ep_parameters i else None | None \<Rightarrow> None);
          finish = (\<lambda>b. (spread_json extra b)(js ''model'' \<mapsto> JStr model, js ''prompt'' \<mapsto> JStr prompt))
      in if m = MChat then Inr None
         else case params of
           Some p \<Rightarrow> map_sum Message Some
             (contract_request parseURL model prompt m is_async p extra videoSelection info sel)
         | None \<Rightarrow>
             if m = MImage then
               Inr (Some (finish (if is_async
                 then image_fields (getCreationImageRequestOptions prompt (ModelString model)
                   EMPTY_CREATION_IMAGE_REFERENCES \<lparr>pi_aspectRatio = None, pi_outputResolution = None\<rparr>)
                 else Map.empty(js ''n'' \<mapsto> JNum (num 1)))))
             else map_sum Runtime (\<lambda>b. Some (finish b)) (fallback_video_request model videoSelection info))"

end
