(* ===== verification/Playground_Request_Props.thy ===== *)
theory Playground_Request_Props
  imports Playground_Request
begin

text \<open>
  Properties of the media requests of the playground: what extra parameters cannot change, the
  references and the number of images a request can carry, and the endpoint it is sent to.
\<close>

section \<open>References\<close>

definition json_texts :: "json \<Rightarrow> jsstring list" where
  "json_texts v = (case v of JStr s \<Rightarrow> [s] | JArr vs \<Rightarrow> map json_String vs | _ \<Rightarrow> [])"

definition web_reference :: "auth_url_parser \<Rightarrow> jsstring \<Rightarrow> bool" where
  "web_reference parseURL u \<longleftrightarrow> (\<exists>p. parseURL u = Some p \<and> (protocol p = js ''http:'' \<or> protocol p = js ''https:'')
     \<and> username p = [] \<and> password p = [])"

lemma good_reference_web: "good_reference parseURL u \<Longrightarrow> web_reference parseURL u"
  by (auto simp: good_reference_def web_reference_def split: option.splits)

definition good_value :: "auth_url_parser \<Rightarrow> json \<Rightarrow> bool" where
  "good_value parseURL v \<longleftrightarrow> json_texts v \<noteq> [] \<and> list_all (web_reference parseURL) (json_texts v)"

definition good_body :: "auth_url_parser \<Rightarrow> body \<Rightarrow> bool" where
  "good_body parseURL b \<longleftrightarrow> (\<forall>v\<in>ran b. good_value parseURL v)"

lemma parse_references: "parsePlaygroundReferenceURLs parseURL value = Inr urls \<Longrightarrow> list_all (web_reference parseURL) urls"
  by (auto simp: parsePlaygroundReferenceURLs_def Let_def list_all_iff intro: good_reference_web split: if_splits)

lemma map_String_JStr [simp]: "map (json_String \<circ> JStr) us = us"
  by (simp add: comp_def)

lemma good_upd: "good_body parseURL b \<Longrightarrow> good_value parseURL v \<Longrightarrow> good_body parseURL (b(k \<mapsto> v))"
  by (auto simp: good_body_def ran_def)

lemma good_texts:
  "urls \<noteq> [] \<Longrightarrow> list_all (web_reference parseURL) urls \<Longrightarrow>
   good_value parseURL (if one then JStr (hd urls) else JArr (map JStr urls))"
  by (cases urls) (auto simp: good_value_def json_texts_def)

lemma put_references_good:
  assumes "put_references urls field limit what b = Inr b'" "list_all (web_reference parseURL) urls" "good_body parseURL b"
  shows "good_body parseURL b'"
  using assms
  using good_upd [OF assms(3) good_texts [OF _ assms(2)]]
  by (auto simp: put_references_def simp del: js.simps split: if_splits option.splits) metis+

lemma put_references_limit:
  "put_references urls field limit what b = Inr b' \<Longrightarrow> urls = [] \<or> \<not> exceeds (length urls) limit"
  by (auto simp: put_references_def split: if_splits option.splits)

lemma good_empty: "good_body parseURL Map.empty"
  by (simp add: good_body_def)

section \<open>The number of images\<close>

definition count_ok :: "ImageContract \<Rightarrow> body \<Rightarrow> bool" where
  "count_ok c b \<longleftrightarrow> (\<exists>n. b (js ''n'') = Some (JNum n) \<and> valid_count c (JNum n))"

lemma valid_count_number: "valid_count c v \<Longrightarrow> \<exists>n. v = JNum n"
  by (cases v) (auto simp: valid_count_def)

lemma count_upd: "count_ok c b \<Longrightarrow> k \<noteq> js ''n'' \<Longrightarrow> count_ok c (b(k \<mapsto> v))"
  by (simp add: count_ok_def del: js.simps)

lemma put_choice_count: "put_choice k v cs b = Inr b' \<Longrightarrow> js k \<noteq> js ''n'' \<Longrightarrow> count_ok c b \<Longrightarrow> count_ok c b'"
  by (auto simp: put_choice_def count_upd simp del: js.simps split: option.splits if_splits)

lemma put_size_count: "put_size ic v b = Inr b' \<Longrightarrow> count_ok c b \<Longrightarrow> count_ok c b'"
  using count_upd [of c b "js ''size''"] by (auto simp: put_size_def Let_def split: if_splits)

lemma put_compression_count: "put_compression v b = Inr b' \<Longrightarrow> count_ok c b \<Longrightarrow> count_ok c b'"
  using count_upd [of c b "js ''output_compression''"]
  by (auto simp: put_compression_def split: option.splits if_splits)

lemma check_transparent_same: "check_transparent b = Inr b' \<Longrightarrow> b' = b"
  by (simp add: check_transparent_def split: if_splits)

lemma image_options_count:
  assumes "put_image_options c sel extra b = Inr b'"
  shows "count_ok c b'"
proof -
  let ?n = "requested_count sel extra"
  obtain n where n: "?n = JNum n" "valid_count c ?n"
    using assms valid_count_number by (fastforce simp: put_image_options_def Let_def split: if_splits)
  then have "count_ok c (b(js ''n'' \<mapsto> ?n))" by (simp add: count_ok_def)
  then show ?thesis
    using assms n(2)
    by (auto simp: put_image_options_def Let_def bind_sum_Inr dest!: check_transparent_same
        elim!: put_choice_count put_size_count put_compression_count)
qed

text \<open>The names a contract writes under.\<close>

definition field_names :: "IntegrationParameters \<Rightarrow> jsstring set" where
  "field_names p = {f. Some f \<in> {ip_ratio_field p, ip_resolution_field p, ip_image_field p, ip_video_field p, ip_audio_field p}}
     \<union> {js ''output_resolution'', js ''image_urls''}"

lemma put_selection_count:
  assumes "count_ok c b" "js ''n'' \<notin> field_names p"
  shows "count_ok c (put_selection MImage p (request_contract a p) d r s b)"
proof -
  have "or_text (ip_ratio_field p) [] \<noteq> js ''n''"
    using assms(2) by (auto simp: or_text_def field_names_def simp del: js.simps split: option.splits if_splits)
  moreover have "or_string (ip_resolution_field (request_contract a p)) (the (ip_resolution_field p)) \<noteq> js ''n''"
    if "truthy_text (ip_resolution_field p)"
    using assms(2) that
    by (auto simp: or_string_def field_names_def request_contract_def truthy_text_def split: option.splits)
  ultimately show ?thesis
    using assms(1) by (auto simp: put_selection_def Let_def count_upd simp del: js.simps)
qed

lemma put_references_dom:
  "put_references urls field limit what b = Inr b' \<Longrightarrow> dom b' \<subseteq> dom b \<union> set_option field"
  by (auto simp: put_references_def split: if_splits option.splits)

lemma references_dom:
  assumes "buildPlaygroundReferences parseURL p sel = Inr b"
  shows "dom b \<subseteq> set_option (ip_image_field p) \<union> set_option (ip_video_field p) \<union> set_option (ip_audio_field p)"
  using assms by (fastforce simp: buildPlaygroundReferences_def bind_sum_Inr split: if_splits dest!: put_references_dom)

section \<open>Properties\<close>

text \<open>C24: A media request carries the chosen model and the latest prompt: neither the extra parameters
  nor the fields of a contract can override them.\<close>

theorem media_request_keeps_model:
  assumes "buildPlaygroundMediaRequest parseURL model messages mode ie extra v info sel = Inr (Some b)"
  shows "b (js ''model'') = Some (JStr model) \<and> b (js ''prompt'') = Some (JStr (getLatestUserPrompt messages))"
  using assms
  by (auto simp: buildPlaygroundMediaRequest_def contract_request_def fallback_video_request_def map_sum_def bind_sum_Inr Let_def
      split: if_splits option.splits sum.splits)

definition no_selection :: PlaygroundReferenceSelection where
  "no_selection = \<lparr>sel_quality = None, sel_count = None, sel_size = None, sel_outputFormat = None, sel_background = None,
     sel_outputCompression = None, sel_aspectRatio = None, sel_resolution = None, sel_images = None, sel_videos = None,
     sel_audios = None\<rparr>"

definition no_video :: PlaygroundVideoSelection where
  "no_video = \<lparr>vs_aspectRatio = [], vs_duration = None, vs_resolution = None\<rparr>"

lemma plain_image_request:
  "buildPlaygroundMediaRequest parseURL (js ''m'') [] (ModeIs MImage) ImgSync extra v None sel
   = Inr (Some ((spread_json extra (Map.empty(js ''n'' \<mapsto> JNum (num 1))))
       (js ''model'' \<mapsto> JStr (js ''m''), js ''prompt'' \<mapsto> JStr [])))"
  by (simp add: buildPlaygroundMediaRequest_def getPlaygroundMediaEndpoint_def resolvePlaygroundMode_def published_endpoint_def
      getPlaygroundIntegration_def getPlaygroundIntegrations_def by_path_def has_mapped_def first_def getLatestUserPrompt_def
      resolvePlaygroundImageEndpoint_def getPlaygroundImageEndpointChoices_def or_string_def IMAGE_GENERATIONS_def
      IMAGE_ASYNC_GENERATIONS_def Let_def)

theorem media_request_keeps_model_witness:
  "\<exists>b. buildPlaygroundMediaRequest (\<lambda>_. None) (js ''m'') [] (ModeIs MImage) ImgSync [(js ''model'', JNull)] no_video None
      no_selection = Inr (Some b) \<and> b (js ''model'') = Some (JStr (js ''m''))"
  using media_request_keeps_model [OF plain_image_request] plain_image_request by blast

text \<open>The references given to a request, by kind: the field they go to, their greatest number, and the
  references themselves, as they were typed or, when none were, as the list of strings that the
  extra parameters hold under the field.\<close>

definition given_references ::
    "IntegrationParameters \<Rightarrow> json_record \<Rightarrow> PlaygroundReferenceSelection \<Rightarrow> (jsstring option \<times> jsnum \<times> jsstring list) list" where
  "given_references p extra sel =
     [(ip_image_field p, ip_max_images p, words (or_string (or_extra extra (sel_images sel) (ip_image_field p)) [])),
      (ip_video_field p, ip_max_videos p, words (or_string (or_extra extra (sel_videos sel) (ip_video_field p)) [])),
      (ip_audio_field p, ip_max_audios p, words (or_string (or_extra extra (sel_audios sel) (ip_audio_field p)) []))]"

text \<open>The published parameters that a request is built from, and whether it is an asynchronous image request.\<close>

definition request_parameters ::
    "jsstring \<Rightarrow> PlaygroundModeSelection \<Rightarrow> PlaygroundImageEndpoint \<Rightarrow> PlaygroundModelInfo option \<Rightarrow> bool \<times> IntegrationParameters option" where
  "request_parameters model mode imageEndpoint info =
     (let m = resolvePlaygroundMode model mode info;
          e = or_string (getPlaygroundMediaEndpoint model mode imageEndpoint VidAuto info) [];
          integration = getPlaygroundIntegration info
            (if m = MImage then Some (replace_first e (js ''/api/creation/'') (js ''/v1/'')) else None)
      in (m = MImage \<and> e = IMAGE_ASYNC_GENERATIONS,
          case integration of Some i \<Rightarrow> if kind_mode (ep_kind i) = Some m then ep_parameters i else None | None \<Rightarrow> None))"

lemma request_of_contract:
  assumes "buildPlaygroundMediaRequest parseURL model messages mode ie extra v info sel = Inr (Some b)"
    and "request_parameters model mode ie info = (image_async, Some p)"
  shows "\<exists>m. contract_request parseURL model (getLatestUserPrompt messages) m image_async p extra v info sel = Inr b"
  using assms
  by (auto simp: buildPlaygroundMediaRequest_def request_parameters_def Let_def map_sum_def split: if_splits option.splits sum.splits)

lemma put_references_put:
  assumes "put_references urls field limit what b = Inr b'"
  shows "urls = [] \<and> b' = b \<or> urls \<noteq> [] \<and> \<not> exceeds (length urls) limit \<and> (\<exists>f. field = Some f \<and> f \<noteq> [] \<and> dom b' = insert f (dom b))"
  using assms by (auto simp: put_references_def split: if_splits option.splits)

lemma references_checked:
  assumes "buildPlaygroundReferences parseURL p sel = Inr b"
    and "(field, limit, t) \<in> {(ip_image_field p, ip_max_images p, sel_images sel), (ip_video_field p, ip_max_videos p, sel_videos sel),
      (ip_audio_field p, ip_max_audios p, sel_audios sel)}"
    and "words (or_string t []) \<noteq> []"
  shows "list_all (web_reference parseURL) (words (or_string t [])) \<and> \<not> exceeds (length (words (or_string t []))) limit
    \<and> (\<exists>f v. field = Some f \<and> f \<noteq> [] \<and> b f = Some v \<and> good_value parseURL v)"
proof -
  obtain ims vids auds b1 b2 where
      u: "parsePlaygroundReferenceURLs parseURL (sel_images sel) = Inr ims"
        "parsePlaygroundReferenceURLs parseURL (sel_videos sel) = Inr vids"
        "parsePlaygroundReferenceURLs parseURL (sel_audios sel) = Inr auds"
      and b: "put_references ims (ip_image_field p) (ip_max_images p) ''Reference images'' Map.empty = Inr b1"
        "put_references vids (ip_video_field p) (ip_max_videos p) ''Reference videos'' b1 = Inr b2"
        "put_references auds (ip_audio_field p) (ip_max_audios p) ''Reference audio'' b2 = Inr b"
    using assms(1) by (auto simp: buildPlaygroundReferences_def bind_sum_Inr split: if_splits)
  have good: "good_body parseURL b"
    using put_references_good [OF b(3) parse_references [OF u(3)]
      put_references_good [OF b(2) parse_references [OF u(2)] put_references_good [OF b(1) parse_references [OF u(1)] good_empty]]] .
  have w: "parsePlaygroundReferenceURLs parseURL x = Inr us \<Longrightarrow> words (or_string x []) = us" for x us
    by (auto simp: parsePlaygroundReferenceURLs_def Let_def split: if_splits)
  have "\<not> exceeds (length (words (or_string t []))) limit \<and> (\<exists>f. field = Some f \<and> f \<noteq> [] \<and> f \<in> dom b)"
    using assms(2,3) w [OF u(1)] w [OF u(2)] w [OF u(3)] b [THEN put_references_put] by auto
  moreover have "list_all (web_reference parseURL) (words (or_string t []))"
    using assms(2) w [OF u(1)] w [OF u(2)] w [OF u(3)] u [THEN parse_references] by auto
  ultimately show ?thesis using good by (auto simp: good_body_def ran_def)
qed


definition plain_parameters :: IntegrationParameters where
  "plain_parameters = \<lparr>ip_image_options = Some \<lparr>ic_qualities = [], ic_output_formats = [], ic_backgrounds = [],
       ic_max_outputs = num 4, ic_min_pixels = num 1, ic_max_pixels = num 9000000, ic_max_edge = num 3000,
       ic_size_multiple = num 16, ic_max_aspect_ratio = num 3\<rparr>,
     ip_omit_ratio = False, ip_durations = None, ip_resolutions = None, ip_ratios = None, ip_duration_field = None,
     ip_ratio_field = None, ip_resolution_field = None, ip_request_resolution = None,
     ip_image_field = Some (js ''image_urls''), ip_video_field = None, ip_audio_field = None, ip_min_images = None,
     ip_max_images = num 2, ip_max_videos = num 0, ip_max_audios = num 0, ip_audio_needs_image = False,
     ip_audio_requires_image = False, ip_max_image_size_mb = None, ip_max_video_size_mb = None,
     ip_max_audio_size_mb = None, ip_allow_frames = False\<rparr>"

definition open_parser :: auth_url_parser where
  "open_parser s = Some \<lparr>protocol = js ''https:'', pathname = [], username = [], password = []\<rparr>"

definition reference_info :: PlaygroundModelInfo where
  "reference_info = \<lparr>info_model = \<lparr>enable_groups = None, pm_supported_endpoint_types = None,
     pm_mapped_endpoints = Some [\<lparr>ep_kind = js ''image'', ep_path = js ''/v1/images/generations'',
       ep_parameters = Some (plain_parameters\<lparr>ip_image_options := None\<rparr>)\<rparr>]\<rparr>,
     info_endpoints = Map.empty\<rparr>"

lemma reference_integration:
  "getPlaygroundIntegration (Some reference_info) q =
     Some \<lparr>ep_kind = js ''image'', ep_path = js ''/v1/images/generations'', ep_parameters = Some (plain_parameters\<lparr>ip_image_options := None\<rparr>)\<rparr>"
  by (simp add: getPlaygroundIntegration_def getPlaygroundIntegrations_def reference_info_def by_path_def has_mapped_def is_media_def
      or_list_def Let_def split: option.splits)

lemma reference_parameters:
  "request_parameters (js ''m'') (ModeIs MImage) ImgAuto (Some reference_info) = (False, Some (plain_parameters\<lparr>ip_image_options := None\<rparr>))"
proof -
  have "or_string (getPlaygroundMediaEndpoint (js ''m'') (ModeIs MImage) ImgAuto VidAuto (Some reference_info)) [] = IMAGE_GENERATIONS"
    by (simp add: getPlaygroundMediaEndpoint_def reference_integration published_endpoint_def resolvePlaygroundMode_def
        resolvePlaygroundImageEndpoint_def getPlaygroundImageEndpointChoices_def kind_mode_def or_string_def js_eval Let_def)
  moreover have "IMAGE_GENERATIONS \<noteq> IMAGE_ASYNC_GENERATIONS" by (simp add: IMAGE_GENERATIONS_def IMAGE_ASYNC_GENERATIONS_def)
  ultimately show ?thesis
    by (simp add: request_parameters_def reference_integration resolvePlaygroundMode_def kind_mode_def Let_def)
qed

lemma words_one: "words (js '' https://a '') = [js ''https://a'']" "words [] = []"
  by (subst words.simps, simp add: is_ws_def Let_def, subst words.simps, simp add: is_ws_def) (subst words.simps, simp)

lemma reference_request:
  "\<exists>b. buildPlaygroundMediaRequest open_parser (js ''m'') [] (ModeIs MImage) ImgAuto [] no_video (Some reference_info)
     (no_selection\<lparr>sel_images := Some (js '' https://a '')\<rparr>) = Inr (Some b)"
proof -
  have "\<exists>b. contract_request open_parser (js ''m'') [] MImage False (plain_parameters\<lparr>ip_image_options := None\<rparr>) [] no_video
      (Some reference_info) (no_selection\<lparr>sel_images := Some (js '' https://a '')\<rparr>) = Inr b"
    using words_one
    by (simp add: contract_request_def buildPlaygroundReferences_def parsePlaygroundReferenceURLs_def put_references_def bind_sum_def
        plain_parameters_def no_selection_def good_reference_def open_parser_def or_string_def or_num_def exceeds_def or_extra_def
        readExtraReferences_def truthy_text_def request_contract_def obj_get_def Let_def)
  then show ?thesis using reference_parameters
    by (auto simp: buildPlaygroundMediaRequest_def request_parameters_def resolvePlaygroundMode_def getLatestUserPrompt_def or_string_def Let_def
        split: option.splits)
qed


text \<open>Only a list of strings is looked at: a single text that the extra parameters hold under a reference
  field is sent as it is, whatever it says.\<close>

lemma extra_text_unchecked:
  "\<exists>b. contract_request parseURL model prompt MImage False (plain_parameters\<lparr>ip_image_options := None\<rparr>) [(js ''image_urls'', JStr s)]
     no_video info no_selection = Inr b \<and> b (js ''image_urls'') = Some (JStr s)"
  using words_one(2)
  by (simp add: contract_request_def buildPlaygroundReferences_def parsePlaygroundReferenceURLs_def put_references_def bind_sum_def
      plain_parameters_def no_selection_def or_string_def or_num_def or_extra_def put_selection_def or_text_def
      readExtraReferences_def truthy_text_def request_contract_def obj_get_def spread_json_def Let_def)

text \<open>An image request under a contract asks for an integral number of images between one and the
  largest number the contract allows, wherever the number was given, unless the contract itself
  writes another option under the name \<open>n\<close>.\<close>

theorem image_count_within_contract:
  assumes "contract_request parseURL model prompt MImage a p extra v info sel = Inr b"
    and "ip_image_options p = Some c" "js ''n'' \<notin> field_names p"
  shows "\<exists>n. b (js ''n'') = Some (JNum n) \<and> js_isInteger n \<and> \<not> js_less n (num 1) \<and> \<not> js_less (ic_max_outputs c) n"
proof -
  obtain b2 refs where b2: "put_image_options c sel extra ((spread_json extra Map.empty)(js ''n'' \<mapsto> JNum (num 1))) = Inr b2"
      and refs: "\<exists>s. buildPlaygroundReferences parseURL (request_contract a p) s = Inr refs"
      and b: "\<exists>d r s. b = (put_selection MImage p (request_contract a p) d r s b2 ++ refs)
        (js ''model'' \<mapsto> JStr model, js ''prompt'' \<mapsto> JStr prompt)"
    using assms(1,2) by (simp add: contract_request_def bind_sum_Inr Let_def del: js.simps) blast
  have "js ''n'' \<notin> dom refs"
    using refs references_dom assms(3) by (fastforce simp: field_names_def request_contract_def split: if_splits)
  then have r: "refs (js ''n'') = None" by (simp add: domIff)
  from put_selection_count [OF image_options_count [OF b2] assms(3)]
  have "count_ok c (put_selection MImage p (request_contract a p) d x s b2)" for d x s .
  then have "count_ok c b" using b r by (auto simp: count_ok_def map_add_def)
  then show ?thesis by (auto simp: count_ok_def valid_count_def)
qed

lemma three_images:
  "\<exists>b. contract_request open_parser (js ''m'') [] MImage False plain_parameters [(js ''n'', JNum (num 3))] no_video None no_selection
     = Inr b"
  by (simp add: contract_request_def put_image_options_def requested_count_def valid_count_def bind_sum_def
      put_choice_def put_size_def put_compression_def check_transparent_def buildPlaygroundReferences_def
      parsePlaygroundReferenceURLs_def put_references_def plain_parameters_def no_selection_def obj_get_def or_string_def
      or_num_def or_extra_def readExtraReferences_def truthy_text_def request_contract_def words.simps
      spread_json_def trim_def Let_def)

theorem image_count_within_contract_witness:
  "\<exists>b n. contract_request open_parser (js ''m'') [] MImage False plain_parameters [(js ''n'', JNum (num 3))] no_video None
       no_selection = Inr b
     \<and> b (js ''n'') = Some (JNum n) \<and> js_isInteger n \<and> \<not> js_less n (num 1) \<and> \<not> js_less (num 4) n"
proof -
  obtain b where b: "contract_request open_parser (js ''m'') [] MImage False plain_parameters [(js ''n'', JNum (num 3))] no_video
      None no_selection = Inr b" using three_images by blast
  obtain c where c: "ip_image_options plain_parameters = Some c" "ic_max_outputs c = num 4" by (simp add: plain_parameters_def)
  have "js ''n'' \<notin> field_names plain_parameters" by (simp add: field_names_def plain_parameters_def)
  from image_count_within_contract [OF b c(1) this] b c(2) show ?thesis by auto
qed

text \<open>For a model without published endpoints the playground and the creation center send a video
  request to the same endpoint.\<close>

theorem video_endpoints_agree:
  "getPlaygroundMediaEndpoint model (ModeIs MVideo) ie VidAuto None = Some (getCreationVideoEndpoint (ModelString model))"
  by (simp add: getPlaygroundMediaEndpoint_def getCreationVideoEndpoint_def resolvePlaygroundMode_def published_endpoint_def
      getPlaygroundIntegration_def getPlaygroundIntegrations_def by_path_def has_mapped_def first_def
      model_endpoints_def getModelId_def VIDEO_GENERATIONS_def VIDEO_ASYNC_GENERATIONS_def Let_def del: js.simps)

text \<open>For a model whose only published endpoint is \<open>/v1/video/generations\<close> they do not: the
  creation center uses that route, the playground sends the request to the route of \<open>/v1/videos\<close>.\<close>

theorem video_generations_route_differs:
  assumes "e = \<lparr>ep_kind = js ''video'', ep_path = js ''/v1/video/generations'', ep_parameters = ps\<rparr>"
    and "pm_mapped_endpoints (info_model info) = Some [e]" "mapped_endpoints m = Some [e]"
  shows "getCreationVideoEndpoint (ModelObject m) = js ''/api/creation/video/generations''
    \<and> getPlaygroundMediaEndpoint model ModeAuto ie VidAuto (Some info) = Some (js ''/api/creation/videos'')"
  using assms
  by (simp add: getPlaygroundMediaEndpoint_def getCreationVideoEndpoint_def resolvePlaygroundMode_def published_endpoint_def
      getPlaygroundModelMode_def kind_mode_def is_media_def or_list_def js_eval
      getPlaygroundIntegration_def getPlaygroundIntegrations_def by_path_def has_mapped_def
      model_endpoints_def VIDEO_GENERATIONS_def)

theorem video_generations_route_differs_witness:
  "(let e = \<lparr>ep_kind = js ''video'', ep_path = js ''/v1/video/generations'', ep_parameters = None\<rparr>
    in getPlaygroundMediaEndpoint (js ''m'') ModeAuto ImgAuto VidAuto
      (Some \<lparr>info_model = \<lparr>enable_groups = None, pm_supported_endpoint_types = None, pm_mapped_endpoints = Some [e]\<rparr>,
        info_endpoints = Map.empty\<rparr>)) = Some (js ''/api/creation/videos'')"
  using video_generations_route_differs [OF refl, of _ None "\<lparr>cm_id = None, cm_metadata = None, mapped_endpoints = Some
      [\<lparr>ep_kind = js ''video'', ep_path = js ''/v1/video/generations'', ep_parameters = None\<rparr>]\<rparr>" "js ''m''" ImgAuto]
  by (simp add: Let_def)

end
