(* ===== verification/Playground_Payload.thy ===== *)
theory Playground_Payload
  imports Playground_Messages
begin

text \<open>
  The bodies of the playground's chat requests (\<open>lib/payload-builder.ts\<close>, \<open>lib/responses.ts\<close>, the
  payloads in \<open>hooks/use-chat-handler.ts\<close> and the extra parameters of \<open>lib/media-routing.ts\<close>).  A
  body is a map from keys to values; building it with a spread is updating the map in the order
  of the source.
\<close>

section \<open>Data\<close>

text \<open>The fields of the configuration that chat requests read.\<close>

record PlaygroundConfig =
  model :: jsstring
  cfg_group :: jsstring
  extraBody :: jsstring
  temperature :: jsnum
  top_p :: jsnum
  max_tokens :: jsnum
  frequency_penalty :: jsnum
  presence_penalty :: jsnum
  seed :: "jsnum option"
  cfg_stream :: bool

record ParameterEnabled =
  use_temperature :: bool
  use_top_p :: bool
  use_max_tokens :: bool
  use_frequency_penalty :: bool
  use_presence_penalty :: bool
  use_seed :: bool

datatype payload_value = PJson json | PMessages "ChatCompletionMessage list"

type_synonym payload = "jsstring \<Rightarrow> payload_value option"

definition DEFAULT_PARAMETER_ENABLED :: ParameterEnabled where
  "DEFAULT_PARAMETER_ENABLED = \<lparr>use_temperature = True, use_top_p = True, use_max_tokens = False,
     use_frequency_penalty = True, use_presence_penalty = True, use_seed = False\<rparr>"

section \<open>Operations\<close>

definition api_messages :: "Message list \<Rightarrow> ChatCompletionMessage list" where
  "api_messages ms = map formatMessageForAPI (filter isValidMessage ms)"

definition put_parameter :: "string \<Rightarrow> bool \<Rightarrow> jsnum option \<Rightarrow> payload \<Rightarrow> payload" where
  "put_parameter k on v p =
     (case v of Some n \<Rightarrow> if on then p(js k \<mapsto> PJson (JNum n)) else p | None \<Rightarrow> p)"

definition buildChatCompletionPayload ::
    "Message list \<Rightarrow> PlaygroundConfig \<Rightarrow> ParameterEnabled \<Rightarrow> payload" where
  "buildChatCompletionPayload ms c e =
     put_parameter ''seed'' (use_seed e) (seed c)
     (put_parameter ''presence_penalty'' (use_presence_penalty e) (Some (presence_penalty c))
     (put_parameter ''frequency_penalty'' (use_frequency_penalty e) (Some (frequency_penalty c))
     (put_parameter ''max_tokens'' (use_max_tokens e) (Some (max_tokens c))
     (put_parameter ''top_p'' (use_top_p e) (Some (top_p c))
     (put_parameter ''temperature'' (use_temperature e) (Some (temperature c))
     (Map.empty(js ''model'' \<mapsto> PJson (JStr (model c)), js ''group'' \<mapsto> PJson (JStr (cfg_group c)),
        js ''messages'' \<mapsto> PMessages (api_messages ms), js ''stream'' \<mapsto> PJson (JBool (cfg_stream c)))))))))"

text \<open>The error is the message of the thrown Error, before its translation.\<close>

definition parsePlaygroundExtraBody :: "jsstring \<Rightarrow> jsstring + (jsstring \<times> json) list" where
  "parsePlaygroundExtraBody value =
     (if trim value = [] then Inr []
      else (case json_parse value of
              None \<Rightarrow> Inl (js ''Extra parameters must be valid JSON'')
            | Some (JObj ps) \<Rightarrow> Inr ps
            | Some _ \<Rightarrow> Inl (js ''Extra parameters must be a JSON object'')))"

definition spread :: "(jsstring \<times> json) list \<Rightarrow> payload \<Rightarrow> payload" where
  "spread ps p = foldl (\<lambda>p (k, v). p(k \<mapsto> PJson v)) p ps"

text \<open>The payload of \<open>sendStreamingChat\<close> and \<open>sendNonStreamingChat\<close>.\<close>

definition chat_payload ::
    "bool \<Rightarrow> Message list \<Rightarrow> PlaygroundConfig \<Rightarrow> ParameterEnabled \<Rightarrow> jsstring + payload" where
  "chat_payload streaming ms c e =
     (let base = buildChatCompletionPayload ms c e
      in case parsePlaygroundExtraBody (extraBody c) of
           Inl err \<Rightarrow> Inl err
         | Inr extra \<Rightarrow> Inr ((spread extra base)(js ''model'' \<mapsto> PJson (JStr (model c)),
             js ''group'' \<mapsto> PJson (JStr (cfg_group c)), js ''messages'' := base (js ''messages''),
             js ''stream'' \<mapsto> PJson (JBool streaming))))"

definition buildPlaygroundResponsesPayload ::
    "jsstring \<Rightarrow> jsstring \<Rightarrow> Message list \<Rightarrow> (jsstring \<times> json) list \<Rightarrow> payload" where
  "buildPlaygroundResponsesPayload m g ms extra =
     (spread extra Map.empty)(js ''model'' \<mapsto> PJson (JStr m), js ''group'' \<mapsto> PJson (JStr g),
       js ''input'' \<mapsto> PMessages (api_messages ms), js ''stream'' \<mapsto> PJson (JBool False))"

section \<open>Properties\<close>

lemma spread_get:
  "spread ps p k = (case map_of (rev ps) k of Some v \<Rightarrow> Some (PJson v) | None \<Rightarrow> p k)"
  by (induction ps arbitrary: p) (auto simp: spread_def map_add_def split: option.splits)

lemma put_parameter_other: "k \<noteq> js n \<Longrightarrow> put_parameter n on v p k = p k"
  by (simp add: put_parameter_def split: option.splits)

lemma base_messages: "buildChatCompletionPayload ms c e (js ''messages'') = Some (PMessages (api_messages ms))"
  by (simp add: buildChatCompletionPayload_def put_parameter_other)

text \<open>Extra parameters cannot take over a request: whatever JSON object the user enters, the body has
  the model, the group and the stream flag of the configuration and the messages of the
  conversation; every other extra parameter wins over the sliders, and a parameter that is
  neither entered nor enabled is absent.\<close>

theorem extra_parameters_bounded:
  assumes "chat_payload streaming ms c e = Inr p" "parsePlaygroundExtraBody (extraBody c) = Inr extra"
  shows "p (js ''model'') = Some (PJson (JStr (model c))) \<and> p (js ''group'') = Some (PJson (JStr (cfg_group c)))
    \<and> p (js ''stream'') = Some (PJson (JBool streaming))
    \<and> p (js ''messages'') = Some (PMessages (api_messages ms))
    \<and> (\<forall>k v. k \<notin> {js ''model'', js ''group'', js ''stream'', js ''messages''} \<longrightarrow> map_of (rev extra) k = Some v
         \<longrightarrow> p k = Some (PJson v))
    \<and> (\<not> use_seed e \<and> map_of (rev extra) (js ''seed'') = None \<longrightarrow> p (js ''seed'') = None)"
  using assms
  by (auto simp: chat_payload_def Let_def base_messages spread_get buildChatCompletionPayload_def put_parameter_def
      split: option.splits)

definition sample_config :: PlaygroundConfig where
  "sample_config = \<lparr>model = js ''gpt-4o'', cfg_group = js ''default'', extraBody = [], temperature = Fin 1,
     top_p = Fin 1, max_tokens = num 4096, frequency_penalty = Fin 0, presence_penalty = Fin 0, seed = None,
     cfg_stream = True\<rparr>"

theorem extra_parameters_bounded_witness:
  "\<exists>p. chat_payload True [] sample_config DEFAULT_PARAMETER_ENABLED = Inr p
     \<and> p (js ''model'') = Some (PJson (JStr (js ''gpt-4o''))) \<and> p (js ''seed'') = None"
proof -
  have x: "parsePlaygroundExtraBody (extraBody sample_config) = Inr []"
    by (simp add: parsePlaygroundExtraBody_def sample_config_def)
  then obtain p where p: "chat_payload True [] sample_config DEFAULT_PARAMETER_ENABLED = Inr p"
    by (simp add: chat_payload_def Let_def)
  show ?thesis using extra_parameters_bounded [OF p x] p
    by (intro exI [of _ p]) (simp add: DEFAULT_PARAMETER_ENABLED_def sample_config_def)
qed

text \<open>The messages of a request are those of the conversation in order, without the answers that
  have no text: no assistant message of a body is blank, and every user message with a version
  is sent.\<close>

theorem api_messages_filtered:
  "filter (\<lambda>m. role m = ASSISTANT \<and> trim (api_content m) = []) (api_messages ms) = []
   \<and> filter (\<lambda>m. role m = USER) (api_messages ms)
     = map formatMessageForAPI (filter (\<lambda>m. sender m = USER \<and> versions m \<noteq> []) ms)"
proof (induction ms)
  case (Cons m ms)
  then show ?case
    by (cases "versions m") (auto simp: api_messages_def isValidMessage_def formatMessageForAPI_def getCurrentVersion_def)
qed (simp add: api_messages_def)

end
