(* ===== verification/Playground_Send.thy ===== *)
theory Playground_Send
  imports Media_Polling Playground_Request_Props Playground_Payload
begin

text \<open>
  Sending a media request of the playground: the transport of reference images
  (\<open>features/media-generation/image-transport.ts\<close>) and \<open>sendPlaygroundMediaGeneration\<close> of
  \<open>features/playground/api.ts\<close>, which builds the request, sends it, reads the answer and polls the task.
  The network is the record \<open>network\<close>: what a download, the request and every query answer.
\<close>

section \<open>Transport of reference images\<close>

record blob =
  blob_size :: nat
  blob_type :: jsstring

text \<open>The text fields of the form, and its files with their names.\<close>

record form_data =
  form_fields :: "jsstring \<Rightarrow> jsstring option"
  form_files :: "(blob \<times> jsstring) list"

datatype request_body = JsonBody body | FormBody form_data

definition form_text :: "json \<Rightarrow> jsstring option" where
  "form_text v = (if v = JNull then None else Some (json_String v))"

definition good_blob :: "blob \<Rightarrow> bool" where
  "good_blob b \<longleftrightarrow> blob_size b \<le> 50 * 1024 * 1024
     \<and> blob_type b \<in> {js ''image/png'', js ''image/jpeg'', js ''image/webp''}"

definition file_name :: "nat \<Rightarrow> blob \<Rightarrow> jsstring" where
  "file_name k b = js ''reference-'' @ show_nat (k + 1) @ js ''.'' @ split_unit 47 (blob_type b) ! 1"

text \<open>A download that fails, or answers without success, is \<open>Inl\<close>.\<close>

fun append_files ::
    "(jsstring \<Rightarrow> thrown + blob) \<Rightarrow> json list \<Rightarrow> (blob \<times> jsstring) list \<Rightarrow> thrown + (blob \<times> jsstring) list" where
  "append_files download [] files = Inr files"
| "append_files download (v # vs) files =
     (case v of
        JStr s \<Rightarrow> bind_sum (download s) (\<lambda>b.
          if good_blob b then append_files download vs (files @ [(b, file_name (length files) b)])
          else throw ''Request failed'')
      | _ \<Rightarrow> throw ''Request failed'')"

definition prepareImageTransport ::
    "(jsstring \<Rightarrow> thrown + blob) \<Rightarrow> jsstring \<Rightarrow> body \<Rightarrow> thrown + jsstring \<times> request_body" where
  "prepareImageTransport download e payload =
     (case payload (js ''image[]'') of
        Some (JArr refs) \<Rightarrow>
          if e \<noteq> js ''/api/creation/images/generations'' \<or> refs = [] then Inr (e, JsonBody payload)
          else if length refs > 20 then throw ''Request failed''
          else bind_sum (append_files download refs []) (\<lambda>files.
            Inr (js ''/api/creation/images/edits'', FormBody
              \<lparr>form_fields = (\<lambda>k. Option.bind ((payload(js ''image[]'' := None)) k) form_text), form_files = files\<rparr>))
      | _ \<Rightarrow> Inr (e, JsonBody payload))"

section \<open>Sending\<close>

record media_config =
  mc_model :: jsstring
  mc_mode :: PlaygroundModeSelection
  mc_imageEndpoint :: PlaygroundImageEndpoint
  mc_videoEndpoint :: PlaygroundVideoEndpoint
  mc_video :: PlaygroundVideoSelection
  mc_info :: "PlaygroundModelInfo option"
  mc_selection :: PlaygroundReferenceSelection
  mc_extraBody :: jsstring

record network =
  download :: "jsstring \<Rightarrow> thrown + blob"
  post :: "jsstring \<Rightarrow> request_body \<Rightarrow> fetch_error + json"
  query :: "nat \<Rightarrow> jsstring \<Rightarrow> fetch_error + json"
  net_lag :: "nat \<Rightarrow> int"
  net_wait_aborted :: "nat \<Rightarrow> bool"
  net_catch_aborted :: "nat \<Rightarrow> bool"

definition plain_error :: "thrown \<Rightarrow> fetch_error" where
  "plain_error t = \<lparr>fe_status = None, isAxiosError = False, fe_message = t\<rparr>"

definition runtime_error :: "request_error \<Rightarrow> fetch_error" where
  "runtime_error e = plain_error (case e of Message t \<Rightarrow> t | Runtime _ \<Rightarrow> Thrown (js ''TypeError'') [])"

definition read_answer :: "jsstring \<Rightarrow> PlaygroundMediaMode \<Rightarrow> json \<Rightarrow> fetch_error + PlaygroundMediaResult" where
  "read_answer m mode raw = map_sum plain_error id (parsePlaygroundMediaResult raw m (ModeIs mode))"

text \<open>\<open>fetch\<close> of the polling loop: the task is queried under the endpoint of the request.\<close>

definition fetch_task ::
    "network \<Rightarrow> jsstring \<Rightarrow> PlaygroundMediaMode \<Rightarrow> jsstring \<Rightarrow> jsstring option \<Rightarrow> nat
      \<Rightarrow> fetch_error + PlaygroundMediaResult" where
  "fetch_task net m mode e t n =
     (case encodeURIComponent (or_string t []) of
        None \<Rightarrow> Inl (plain_error (Thrown (js ''URI malformed'') []))
      | Some u \<Rightarrow> bind_sum (query net n (e @ js ''/'' @ u)) (read_answer m mode))"

text \<open>The callback of the chat handler only updates messages and does not throw.\<close>

definition task_env :: "network \<Rightarrow> jsstring \<Rightarrow> PlaygroundMediaMode \<Rightarrow> jsstring \<Rightarrow> jsstring option \<Rightarrow> poll_env" where
  "task_env net m mode e t = \<lparr>lag = net_lag net, wait_aborted = net_wait_aborted net, fetched = fetch_task net m mode e t,
     progress_error = (\<lambda>_. None), aborted_in_catch = net_catch_aborted net\<rparr>"

definition media_request ::
    "auth_url_parser \<Rightarrow> network \<Rightarrow> media_config \<Rightarrow> Message list \<Rightarrow> fetch_error + jsstring \<times> jsstring \<times> request_body" where
  "media_request parseURL net c messages =
     bind_sum (map_sum (\<lambda>t. plain_error (Thrown t [])) id (parsePlaygroundExtraBody (mc_extraBody c))) (\<lambda>extra.
     bind_sum (map_sum runtime_error id (buildPlaygroundMediaRequest parseURL (mc_model c) messages (mc_mode c)
       (mc_imageEndpoint c) (filter (\<lambda>(k, _). k \<noteq> js ''group'') extra) (mc_video c) (mc_info c) (mc_selection c))) (\<lambda>payload.
     case (getPlaygroundMediaEndpoint (mc_model c) (mc_mode c) (mc_imageEndpoint c) (mc_videoEndpoint c) (mc_info c), payload) of
       (Some e, Some b) \<Rightarrow> map_sum plain_error (\<lambda>(e', r). (e, e', r)) (prepareImageTransport (download net) e b)
     | _ \<Rightarrow> Inl (plain_error (Thrown (js ''Current model does not support media generation'') []))))"

definition sendPlaygroundMediaGeneration ::
    "auth_url_parser \<Rightarrow> network \<Rightarrow> media_config \<Rightarrow> Message list \<Rightarrow> poll_outcome option" where
  "sendPlaygroundMediaGeneration parseURL net c messages =
     (let mode = resolvePlaygroundMode (mc_model c) (mc_mode c) (mc_info c)
      in case bind_sum (media_request parseURL net c messages) (\<lambda>(e, e', r).
           bind_sum (bind_sum (post net e' r) (read_answer (mc_model c) mode)) (\<lambda>initial. Inr (e, initial))) of
           Inl err \<Rightarrow> Some (Rejected err)
         | Inr (e, initial) \<Rightarrow>
             if \<not> truthy_text (pr_taskId initial) \<or> truthy_text (pr_mediaUrl initial)
                \<or> mode = MImage \<and> e \<noteq> IMAGE_ASYNC_GENERATIONS
             then Some (Returned initial)
             else map_option fst (pollPlaygroundTask
               (task_env net (mc_model c) mode e (pr_taskId initial)) None initial))"

section \<open>Properties\<close>

lemma read_answer_ok: "read_answer m mode raw = Inr r \<Longrightarrow> pr_status r \<noteq> Some Failed"
  using no_failed_result by (auto simp: read_answer_def map_sum_def split: sum.splits)

lemma fetch_task_ok: "fetch_task net m mode e t n = Inr r \<Longrightarrow> pr_status r \<noteq> Some Failed"
  using read_answer_ok by (auto simp: fetch_task_def bind_sum_def split: option.splits sum.splits)

definition sample_config :: media_config where
  "sample_config = \<lparr>mc_model = js ''m'', mc_mode = ModeIs MImage, mc_imageEndpoint = ImgSync, mc_videoEndpoint = VidAuto,
     mc_video = no_video, mc_info = None, mc_selection = no_selection, mc_extraBody = []\<rparr>"

definition sample_network :: network where
  "sample_network = \<lparr>download = (\<lambda>_. throw ''offline''),
     post = (\<lambda>_ _. Inr (JObj [(js ''url'', JStr (js ''http://x''))])), query = (\<lambda>_ _. Inr JNull),
     net_lag = (\<lambda>_. 0), net_wait_aborted = (\<lambda>_. False), net_catch_aborted = (\<lambda>_. False)\<rparr>"

lemma sample_answer:
  "\<exists>r. read_answer m MImage (JObj [(js ''url'', JStr (js ''http://x''))]) = Inr r \<and> pr_mediaUrl r = Some (js ''http://x'')"
  by (simp add: read_answer_def parsePlaygroundMediaResult_def resolvePlaygroundMode_def parseImageResult_def
      parseImageGenerationResult_def extractMediaErrorMessage_def envelope_def read_record_def asRecord_def getString_def
      obj_get_def task_status_def task_id_def result_id_def first_image_def getImageURL_def failed_reason_def
      truthy_string_def normalizeMediaTaskStatus_def getFirstImageArrayURL_def trim_def is_ws_def Let_def)

lemma sample_request:
  "\<exists>b. media_request open_parser sample_network sample_config [] = Inr (IMAGE_GENERATIONS, IMAGE_GENERATIONS, JsonBody b)"
  by (simp add: media_request_def sample_config_def parsePlaygroundExtraBody_def trim_def bind_sum_def plain_image_request [simplified]
      spread_json_def prepareImageTransport_def getPlaygroundMediaEndpoint_def resolvePlaygroundMode_def published_endpoint_def
      getPlaygroundIntegration_def getPlaygroundIntegrations_def by_path_def has_mapped_def first_def
      resolvePlaygroundImageEndpoint_def getPlaygroundImageEndpointChoices_def Let_def)

text \<open>Media generation never returns a failed task as a result: the result handed to the message
  has a status other than \<open>failed\<close>, whatever the servers answered; failures are thrown.\<close>

theorem media_generation_not_failed:
  assumes "sendPlaygroundMediaGeneration parseURL net c messages = Some (Returned r)"
  shows "pr_status r \<noteq> Some Failed"
proof -
  let ?mode = "resolvePlaygroundMode (mc_model c) (mc_mode c) (mc_info c)"
  obtain e initial where i: "pr_status initial \<noteq> Some Failed"
      and d: "r = initial \<or> (\<exists>ws. pollPlaygroundTask (task_env net (mc_model c) ?mode e (pr_taskId initial)) None initial
        = Some (Returned r, ws))"
    using assms read_answer_ok
    by (auto simp: sendPlaygroundMediaGeneration_def bind_sum_def Let_def split: sum.splits prod.splits if_splits) blast+
  then show ?thesis
  proof (cases "r = initial")
    case False
    with d obtain ws where "pollPlaygroundTask (task_env net (mc_model c) ?mode e (pr_taskId initial)) None initial
        = Some (Returned r, ws)" by blast
    from poll_outcome_ok [OF this] have "from_fetch (task_env net (mc_model c) ?mode e (pr_taskId initial)) initial r"
      by (simp add: outcome_ok_def)
    then show ?thesis using i fetch_task_ok by (auto simp: from_fetch_def task_env_def)
  qed (use i in simp)
qed

theorem media_generation_not_failed_witness:
  "\<exists>r. sendPlaygroundMediaGeneration open_parser sample_network sample_config [] = Some (Returned r)
     \<and> pr_mediaUrl r = Some (js ''http://x'') \<and> pr_status r \<noteq> Some Failed"
proof -
  obtain b where b: "media_request open_parser sample_network sample_config [] = Inr (IMAGE_GENERATIONS, IMAGE_GENERATIONS, JsonBody b)"
    using sample_request by blast
  obtain r where r: "read_answer (js ''m'') MImage (JObj [(js ''url'', JStr (js ''http://x''))]) = Inr r"
    "pr_mediaUrl r = Some (js ''http://x'')" using sample_answer by blast
  have s: "sendPlaygroundMediaGeneration open_parser sample_network sample_config [] = Some (Returned r)"
    unfolding sendPlaygroundMediaGeneration_def Let_def b using r
    by (simp add: sample_config_def sample_network_def resolvePlaygroundMode_def bind_sum_def truthy_text_def)
  then show ?thesis using media_generation_not_failed [OF s] r(2) by blast
qed

text \<open>Media generation ends: with a clock that does not run backwards it returns a result, throws
  or reports the abort.\<close>

theorem media_generation_ends:
  assumes "\<forall>n. 0 \<le> net_lag net n"
  shows "\<exists>out. sendPlaygroundMediaGeneration parseURL net c messages = Some out"
proof -
  have "\<exists>out ws. pollPlaygroundTask (task_env net m mode e t) None initial = Some (out, ws)" for m mode e t initial
    using poll_ends_core [of "task_env net m mode e t"] assms by (simp add: task_env_def) blast
  then show ?thesis
    by (fastforce simp: sendPlaygroundMediaGeneration_def Let_def split: sum.splits prod.splits)
qed

theorem media_generation_ends_witness:
  "\<exists>out. sendPlaygroundMediaGeneration open_parser sample_network sample_config [] = Some out"
  by (rule media_generation_ends) (simp add: sample_network_def)

end
