(* ===== verification/Model_Mapping.thy ===== *)
theory Model_Mapping
  imports JS_JSON
begin

text \<open>
  The models of a channel and their redirection (\<open>features/channels/lib/model-mapping-validation.ts\<close>):
  the comma separated list of models, the JSON text of the mapping, and the checks that compare
  the two.  The functions are typed with strings, so the \<open>typeof\<close> guards of the source always
  pass; a JavaScript \<open>Set\<close> is the list of its elements in the order of insertion.
\<close>

section \<open>Lists of models\<close>

definition parseModelsString :: "jsstring \<Rightarrow> jsstring list" where
  "parseModelsString modelsStr = (if modelsStr = [] then [] else read_items 44 modelsStr)"

definition formatModelsArray :: "jsstring list \<Rightarrow> jsstring" where
  "formatModelsArray models = join [44] (js_set models)"

definition normalizeModelName :: "jsstring \<Rightarrow> jsstring" where
  "normalizeModelName model = trim model"

section \<open>The mapping\<close>

text \<open>\<open>JSON.parse\<close> and the guard that rejects every value but an object; \<open>Inl False\<close> is the
  caught SyntaxError, \<open>Inl True\<close> the guard.\<close>

definition parse_mapping :: "jsstring \<Rightarrow> bool + (jsstring \<times> json) list" where
  "parse_mapping s =
     (case json_parse s of
        None \<Rightarrow> Inl False
      | Some (JObj ps) \<Rightarrow> Inr ps
      | Some _ \<Rightarrow> Inl True)"

definition extractMappingSourceModels :: "jsstring \<Rightarrow> jsstring list" where
  "extractMappingSourceModels modelMapping =
     (let trimmed = trim modelMapping
      in if trimmed = [] then []
         else (case parse_mapping trimmed of
                 Inl _ \<Rightarrow> []
               | Inr ps \<Rightarrow> js_set (filter (\<lambda>k. k \<noteq> []) (map (trim \<circ> fst) (obj_entries ps)))))"

definition trimmed_string :: "json \<Rightarrow> jsstring option" where
  "trimmed_string v = (case v of JStr s \<Rightarrow> if trim s = [] then None else Some (trim s) | _ \<Rightarrow> None)"

definition extractRedirectModels :: "jsstring \<Rightarrow> jsstring list" where
  "extractRedirectModels modelMapping =
     (let trimmed = trim modelMapping
      in if trimmed = [] then []
         else (case parse_mapping trimmed of
                 Inl _ \<Rightarrow> []
               | Inr ps \<Rightarrow> js_set (List.map_filter (trimmed_string \<circ> snd) (obj_entries ps))))"

fun arrays_differ :: "jsstring list \<Rightarrow> jsstring list \<Rightarrow> bool" where
  "arrays_differ [] ys = False"
| "arrays_differ (x # xs) [] = True"
| "arrays_differ (x # xs) (y # ys) = (if x \<noteq> y then True else arrays_differ xs ys)"

definition hasModelConfigChanged ::
    "jsstring list \<Rightarrow> jsstring \<Rightarrow> jsstring list \<Rightarrow> jsstring \<Rightarrow> bool" where
  "hasModelConfigChanged currentModels currentModelMapping initialModels initialModelMapping =
     (if initialModels = [] \<and> initialModelMapping = [] then True
      else if length currentModels \<noteq> length initialModels then True
      else if arrays_differ currentModels initialModels then True
      else trim currentModelMapping \<noteq> trim initialModelMapping)"

definition findMissingModelsInMapping :: "jsstring \<Rightarrow> jsstring list \<Rightarrow> jsstring list" where
  "findMissingModelsInMapping modelMapping currentModels =
     (if trim modelMapping = [] then []
      else (case parse_mapping modelMapping of
              Inl _ \<Rightarrow> []
            | Inr ps \<Rightarrow>
                (let modelSet = set (map normalizeModelName currentModels)
                 in js_set (filter (\<lambda>k. k \<noteq> [] \<and> k \<notin> modelSet)
                      (map (normalizeModelName \<circ> fst) (obj_entries ps))))))"

record mapping_validation =
  valid :: bool
  error :: "jsstring option"

definition validateModelMappingJson :: "jsstring \<Rightarrow> mapping_validation" where
  "validateModelMappingJson modelMapping =
     (if trim modelMapping = [] then \<lparr>valid = True, error = None\<rparr>
      else (case parse_mapping modelMapping of
              Inl True \<Rightarrow> \<lparr>valid = False, error = Some (js ''Model mapping must be a valid JSON object'')\<rparr>
            | Inl False \<Rightarrow> \<lparr>valid = False, error = Some (js ''Model mapping must be valid JSON format'')\<rparr>
            | Inr _ \<Rightarrow> \<lparr>valid = True, error = None\<rparr>))"

definition findExposedTargetModels :: "jsstring \<Rightarrow> jsstring list \<Rightarrow> jsstring list" where
  "findExposedTargetModels modelMapping currentModels =
     (let redirectModels = extractRedirectModels modelMapping
      in if redirectModels = [] then []
         else filter (\<lambda>m. normalizeModelName m \<in> set (map normalizeModelName currentModels)) redirectModels)"

record model_categories =
  normalizedCurrentModels :: "jsstring list"
  normalizedRedirectModels :: "jsstring list"
  classificationSet :: "jsstring list"
  redirectOnlySet :: "jsstring list"

definition name_set :: "jsstring list \<Rightarrow> jsstring list" where
  "name_set ms = js_set (filter (\<lambda>m. m \<noteq> []) (map normalizeModelName ms))"

definition categorizeModelsWithRedirect :: "jsstring list \<Rightarrow> jsstring list \<Rightarrow> model_categories" where
  "categorizeModelsWithRedirect currentModels redirectModels =
     (let cur = name_set currentModels; red = name_set redirectModels
      in \<lparr>normalizedCurrentModels = cur, normalizedRedirectModels = red,
          classificationSet = js_set (cur @ red),
          redirectOnlySet = js_set (filter (\<lambda>m. m \<notin> set cur) red)\<rparr>)"

section \<open>Lemmas\<close>

text \<open>A model name that the list keeps as it is.\<close>

definition plain_name :: "jsstring \<Rightarrow> bool" where
  "plain_name m \<longleftrightarrow> m \<noteq> [] \<and> trimmed m \<and> 44 \<notin> set m"

interpretation models: item_codec 44 "\<lambda>m. m" Some plain_name
  by unfold_locales (auto simp: plain_name_def)

lemma parse_models_plain: "m \<in> set (parseModelsString s) \<Longrightarrow> plain_name m"
  using set_trim by (force simp: parseModelsString_def read_items_def plain_name_def
      dest: split_unit_no_sep split: if_splits)

lemma parse_read: "parseModelsString s = read_items 44 s"
  by (simp add: parseModelsString_def read_items_def)

lemma parse_format: "\<forall>m\<in>set ms. plain_name m \<Longrightarrow> parseModelsString (formatModelsArray ms) = js_set ms"
  using models.read_items_join [of "js_set ms"] by (simp add: parse_read formatModelsArray_def)

text \<open>The list of models in normal form: no repetition, no blanks around a name.\<close>

definition canonical_models :: "jsstring \<Rightarrow> bool" where
  "canonical_models s \<longleftrightarrow> (\<exists>ms. distinct ms \<and> (\<forall>m\<in>set ms. plain_name m) \<and> s = join [44] ms)"

interpretation models_text: normaliser "\<lambda>s. formatModelsArray (parseModelsString s)" canonical_models
proof unfold_locales
  fix s
  show "canonical_models (formatModelsArray (parseModelsString s))"
    unfolding canonical_models_def formatModelsArray_def
    using parse_models_plain by (intro exI [of _ "js_set (parseModelsString s)"]) auto
  assume "canonical_models s"
  then obtain ms where ms: "distinct ms" "\<forall>m\<in>set ms. plain_name m" "s = formatModelsArray ms"
    by (auto simp: canonical_models_def formatModelsArray_def)
  then show "formatModelsArray (parseModelsString s) = s"
    using parse_format [of ms] by (simp add: formatModelsArray_def)
qed

lemma trimmed_string_names: "trimmed_string v = Some s \<Longrightarrow> s \<noteq> [] \<and> trimmed s"
  by (auto simp: trimmed_string_def split: json.splits if_splits)

lemma redirect_names: "m \<in> set (extractRedirectModels mp) \<Longrightarrow> m \<noteq> [] \<and> trimmed m"
  by (auto simp: extractRedirectModels_def Let_def map_filter_def split: sum.splits if_splits
      dest: trimmed_string_names)

lemma name_set_set: "set (name_set ms) = trim ` set ms - {[]}"
  by (auto simp: name_set_def normalizeModelName_def)

lemma redirect_name_set: "set (name_set (extractRedirectModels mp)) = set (extractRedirectModels mp)"
  using redirect_names by (force simp: name_set_set image_iff)

lemma missing_set:
  "set (findMissingModelsInMapping mp ms) =
     (case parse_mapping mp of
        Inl _ \<Rightarrow> {}
      | Inr ps \<Rightarrow> if trim mp = [] then {} else trim ` fst ` set ps - {[]} - trim ` set ms)"
  by (auto simp: findMissingModelsInMapping_def normalizeModelName_def obj_entries_def Let_def split: sum.splits)

lemma missing_keys: "\<exists>K. \<forall>ms. set (findMissingModelsInMapping mp ms) = K - trim ` set ms"
proof (cases "parse_mapping mp")
  case (Inr ps)
  then show ?thesis unfolding missing_set
    by (intro exI [of _ "if trim mp = [] then {} else trim ` fst ` set ps - {[]}"]) simp
qed (simp add: missing_set exI [of _ "{}"])

lemma arrays_differ_iff: "length xs = length ys \<Longrightarrow> arrays_differ xs ys \<longleftrightarrow> xs \<noteq> ys"
  by (induction xs ys rule: arrays_differ.induct) auto


lemma no_break_space_not_json: "json_parse (160 # s) = None"
proof -
  have "rmatch json_number_re ([], 160 # s, no_caps) = []"
    by (simp add: json_number_re_def ropt_def rlit_def is_digit_def)
  then have "parse_word (160 # s) = None"
    by (simp add: parse_word_def parse_number_def startsWith_def)
  then show ?thesis by (simp add: json_parse_def json_parse_fuel_def skip_json_ws_def)
qed

lemma trim_no_break_space: "trim (160 # s) = trim s"
  by (simp add: trim_def is_ws_def)

section \<open>Properties\<close>

text \<open>Round trip of the list of models: the text that is written for a list of plain names
  reads back as the list without its repetitions, and rewriting any list of models once gives a
  text that rewriting does not change any more.\<close>

theorem models_text_round_trip:
  assumes "\<forall>m\<in>set ms. plain_name m"
  shows "parseModelsString (formatModelsArray ms) = js_set ms
    \<and> formatModelsArray (parseModelsString (formatModelsArray (parseModelsString s)))
      = formatModelsArray (parseModelsString s)"
  using parse_format [OF assms] models_text.norm_idem by blast

theorem models_text_round_trip_witness:
  "parseModelsString (formatModelsArray [js ''gpt-4o'', js ''o1'', js ''gpt-4o'']) = [js ''gpt-4o'', js ''o1'']"
proof -
  have "\<forall>m\<in>set [js ''gpt-4o'', js ''o1'', js ''gpt-4o'']. plain_name m"
    by (simp add: plain_name_def trimmed_def)
  then show ?thesis using models_text_round_trip by (auto simp: js_set_def)
qed

text \<open>Missing models: what \<open>findMissingModelsInMapping\<close> returns are exactly the non-empty
  trimmed keys of the mapping that are not among the models, each once; when they are added to
  the models nothing is missing any more.\<close>

theorem missing_models_complete:
  "distinct (findMissingModelsInMapping mp ms)
   \<and> set (findMissingModelsInMapping mp ms) =
       (case parse_mapping mp of
          Inl _ \<Rightarrow> {}
        | Inr ps \<Rightarrow> if trim mp = [] then {} else trim ` fst ` set ps - {[]} - trim ` set ms)
   \<and> findMissingModelsInMapping mp (ms @ findMissingModelsInMapping mp ms) = []"
proof -
  let ?miss = "findMissingModelsInMapping mp"
  have d: "distinct (?miss ms)"
    by (simp add: findMissingModelsInMapping_def Let_def split: sum.splits)
  have "trim m = m" if "m \<in> set (?miss ms)" for m
    using that unfolding missing_set by (auto split: sum.splits if_splits)
  then have "trim ` set (?miss ms) = set (?miss ms)" by simp
  moreover obtain K where K: "\<And>ms. set (?miss ms) = K - trim ` set ms" using missing_keys by blast
  ultimately have "set (?miss (ms @ ?miss ms)) = {}" unfolding K [of "ms @ ?miss ms"] set_append image_Un by auto
  then have "?miss (ms @ ?miss ms) = []" by simp
  with d missing_set show ?thesis by blast
qed

text \<open>The targets of a mapping fall into two disjoint classes: those that are also models of
  the channel (exposed) and those the redirection alone provides; together they are all targets,
  and the classification lists every model and every target.\<close>

theorem redirect_targets_partition:
  "set (findExposedTargetModels mp ms)
     \<union> set (redirectOnlySet (categorizeModelsWithRedirect ms (extractRedirectModels mp)))
     = set (extractRedirectModels mp)
   \<and> set (findExposedTargetModels mp ms)
     \<inter> set (redirectOnlySet (categorizeModelsWithRedirect ms (extractRedirectModels mp))) = {}
   \<and> set (classificationSet (categorizeModelsWithRedirect ms (extractRedirectModels mp)))
     = (trim ` set ms - {[]}) \<union> set (extractRedirectModels mp)"
proof -
  have e: "set (findExposedTargetModels mp ms) = set (extractRedirectModels mp) \<inter> set (name_set ms)"
  proof -
    have "m \<noteq> [] \<and> trim m = m" if "m \<in> set (extractRedirectModels mp)" for m
      using redirect_names [OF that] by simp
    then show ?thesis
      by (auto simp: findExposedTargetModels_def name_set_set normalizeModelName_def Let_def)
  qed
  have r: "set (redirectOnlySet (categorizeModelsWithRedirect ms (extractRedirectModels mp)))
      = set (extractRedirectModels mp) - set (name_set ms)"
    by (auto simp: categorizeModelsWithRedirect_def Let_def redirect_name_set)
  have "set (classificationSet (categorizeModelsWithRedirect ms (extractRedirectModels mp)))
      = set (name_set ms) \<union> set (extractRedirectModels mp)"
    by (simp add: categorizeModelsWithRedirect_def Let_def redirect_name_set)
  then show ?thesis unfolding e r name_set_set by blast
qed

text \<open>The configuration of an existing channel counts as unchanged exactly when the models are
  the same list and the mapping texts agree up to surrounding blanks.\<close>

theorem config_changed_iff:
  "hasModelConfigChanged ms mp ms0 mp0 \<longleftrightarrow>
     ms0 = [] \<and> mp0 = [] \<or> ms \<noteq> ms0 \<or> trim mp \<noteq> trim mp0"
  using arrays_differ_iff [of ms ms0] by (auto simp: hasModelConfigChanged_def)

text \<open>The functions disagree on blanks outside JSON: a no-break space before the mapping leaves
  the extraction of its keys and targets unchanged, but the validation rejects the text and the
  search for missing models finds nothing.\<close>

theorem leading_blank_divergence:
  assumes "trim s \<noteq> []"
  shows "extractMappingSourceModels (160 # s) = extractMappingSourceModels s
    \<and> extractRedirectModels (160 # s) = extractRedirectModels s
    \<and> findMissingModelsInMapping (160 # s) ms = []
    \<and> \<not> valid (validateModelMappingJson (160 # s))"
  using assms no_break_space_not_json [of s] trim_no_break_space [of s]
  by (simp add: extractMappingSourceModels_def extractRedirectModels_def findMissingModelsInMapping_def
      validateModelMappingJson_def parse_mapping_def)

theorem leading_blank_divergence_witness:
  "extractMappingSourceModels (160 # js ''{}'') = extractMappingSourceModels (js ''{}'')
   \<and> findMissingModelsInMapping (160 # js ''{}'') [] = []
   \<and> \<not> valid (validateModelMappingJson (160 # js ''{}''))"
  using leading_blank_divergence [of "js ''{}''" "[]"] by (simp add: js_eval)

end
