(* ===== verification/Playground_Chat.thy ===== *)
theory Playground_Chat
  imports Playground_Messages
begin

text \<open>
  The conversation of the playground: the stream handler (\<open>hooks/use-stream-request.ts\<close>), the chat
  handler (\<open>hooks/use-chat-handler.ts\<close>) and the user's operations (\<open>index.tsx\<close>), as one state and
  one function per event.  The package \<open>sse.js\<close>, the HTTP client and React are outside: the model
  has the events they deliver, in any order, and applies a state update at once.  Every request
  gets a number, so that several requests may be open at the same time, as the code allows.
\<close>

section \<open>State\<close>

record chat_state =
  messages :: "Message list"
  sseSource :: "nat option"            \<comment> \<open>\<open>sseSourceRef.current\<close>\<close>
  liveSources :: "nat list"            \<comment> \<open>sources that have not been closed\<close>
  isStreamComplete :: bool             \<comment> \<open>\<open>isStreamCompleteRef.current\<close>, shared by all sources\<close>
  mediaController :: "nat option"
  abortedMedia :: "nat list"
  mediaRequests :: "nat list"          \<comment> \<open>media requests without an answer\<close>
  isMediaGenerating :: bool
  chatRequests :: "nat list"           \<comment> \<open>chat requests without an answer\<close>
  isChatGenerating :: bool
  nextRequest :: nat

definition isGenerating :: "chat_state \<Rightarrow> bool" where
  "isGenerating s \<longleftrightarrow> sseSource s \<noteq> None \<or> isMediaGenerating s \<or> isChatGenerating s"

definition canStop :: "chat_state \<Rightarrow> bool" where
  "canStop s \<longleftrightarrow> sseSource s \<noteq> None \<or> isMediaGenerating s"

definition initial_state :: "Message list \<Rightarrow> chat_state" where
  "initial_state ms = \<lparr>messages = ms, sseSource = None, liveSources = [], isStreamComplete = False,
     mediaController = None, abortedMedia = [], mediaRequests = [], isMediaGenerating = False,
     chatRequests = [], isChatGenerating = False, nextRequest = 0\<rparr>"

section \<open>Handlers of the stream\<close>

datatype update_type = ReasoningUpdate | ContentUpdate

definition stream_update :: "update_type \<Rightarrow> jsstring \<Rightarrow> Message \<Rightarrow> Message" where
  "stream_update t chunk message =
     (if status message = Some ERROR then message
      else (case t of
        ReasoningUpdate \<Rightarrow>
          message\<lparr>reasoning := Some \<lparr>reasoning_text =
              or_text (map_option reasoning_text (reasoning message)) [] @ chunk, reasoning_duration = Fin 0\<rparr>,
            isReasoningStreaming := Some True, status := Some STREAMING\<rparr>
      | ContentUpdate \<Rightarrow>
          (processStreamingContent message (Some chunk))\<lparr>status := Some STREAMING\<rparr>))"

definition handleStreamUpdate :: "update_type \<Rightarrow> jsstring \<Rightarrow> Message list \<Rightarrow> Message list" where
  "handleStreamUpdate t chunk ms = updateLastAssistantMessage ms (stream_update t chunk)"

definition complete_message :: "Message \<Rightarrow> Message" where
  "complete_message message =
     (if status message = Some COMPLETE \<or> status message = Some ERROR then message
      else (finalizeMessage message None)\<lparr>status := Some COMPLETE\<rparr>)"

definition handleStreamComplete :: "Message list \<Rightarrow> Message list" where
  "handleStreamComplete ms = updateLastAssistantMessage ms complete_message"

definition handleStreamError :: "jsstring \<Rightarrow> json option \<Rightarrow> chat_state \<Rightarrow> chat_state" where
  "handleStreamError err code s =
     s\<lparr>messages := updateAssistantMessageWithError (messages s) err code\<rparr>"

text \<open>\<open>closeSource\<close> of a source clears the shared reference, whichever source it holds.\<close>

definition closeSource :: "nat \<Rightarrow> chat_state \<Rightarrow> chat_state" where
  "closeSource i s = s\<lparr>liveSources := filter (\<lambda>j. j \<noteq> i) (liveSources s), sseSource := None\<rparr>"

definition handleError :: "nat \<Rightarrow> jsstring \<Rightarrow> json option \<Rightarrow> chat_state \<Rightarrow> chat_state" where
  "handleError i err code s =
     (if isStreamComplete s then s else closeSource i (handleStreamError err code s))"

text \<open>Reading a property of a parsed value: \<open>Inl\<close> is the TypeError of reading from \<open>null\<close>, \<open>None\<close>
  is \<open>undefined\<close>.  None of the names the handlers read is a property of a primitive or an array.\<close>

definition read_prop :: "jsstring \<Rightarrow> json \<Rightarrow> unit + json option" where
  "read_prop k v = (case v of JNull \<Rightarrow> Inl () | JObj ps \<Rightarrow> Inr (obj_get k ps) | _ \<Rightarrow> Inr None)"

definition chain_prop :: "jsstring \<Rightarrow> json option \<Rightarrow> json option" where
  "chain_prop k v = (case v of Some (JObj ps) \<Rightarrow> obj_get k ps | _ \<Rightarrow> None)"

text \<open>\<open>v?.[0]\<close>\<close>

definition chain_first :: "json option \<Rightarrow> json option" where
  "chain_first v =
     (case v of
        Some (JArr (x # _)) \<Rightarrow> Some x
      | Some (JStr (u # _)) \<Rightarrow> Some (JStr [u])
      | Some (JObj ps) \<Rightarrow> obj_get (js ''0'') ps
      | _ \<Rightarrow> None)"

definition chunk_delta :: "json \<Rightarrow> unit + json option" where
  "chunk_delta chunk =
     (case read_prop (js ''choices'') chunk of
        Inl e \<Rightarrow> Inl e
      | Inr choices \<Rightarrow> Inr (chain_prop (js ''delta'') (chain_first choices)))"

definition update_from :: "update_type \<Rightarrow> json option \<Rightarrow> Message list \<Rightarrow> Message list" where
  "update_from t v ms = (if json_truthy v then handleStreamUpdate t (json_String (the v)) ms else ms)"

definition on_message :: "nat \<Rightarrow> jsstring \<Rightarrow> chat_state \<Rightarrow> chat_state" where
  "on_message i data s =
     (if data = js ''[DONE]'' then
        (let s1 = closeSource i (s\<lparr>isStreamComplete := True\<rparr>)
         in s1\<lparr>messages := handleStreamComplete (messages s1)\<rparr>)
      else (case json_parse data of
              None \<Rightarrow> handleError i PARSE_ERROR None s
            | Some chunk \<Rightarrow>
                (case chunk_delta chunk of
                   Inl _ \<Rightarrow> handleError i PARSE_ERROR None s
                 | Inr delta \<Rightarrow>
                     if \<not> json_truthy delta then s
                     else s\<lparr>messages := update_from ContentUpdate (chain_prop (js ''content'') delta)
                       (update_from ReasoningUpdate (chain_prop (js ''reasoning_content'') delta) (messages s))\<rparr>)))"

definition CLOSED :: nat where
  "CLOSED = 2"

text \<open>The message and the code of an error event; \<open>data\<close> is absent or the text the server sent.\<close>

definition error_details :: "jsstring option \<Rightarrow> jsstring \<times> json option" where
  "error_details data =
     (case data of
        None \<Rightarrow> (API_REQUEST_ERROR, None)
      | Some d \<Rightarrow>
          if d = [] then (API_REQUEST_ERROR, None)
          else (case json_parse d of
                  None \<Rightarrow> (d, None)
                | Some v \<Rightarrow>
                    (let e = chain_prop (js ''error'') (Some v);
                         msg = chain_prop (js ''message'') e; code = chain_prop (js ''code'') e
                     in if \<not> json_truthy e then (d, None)
                        else (if json_truthy msg then json_String (the msg) else d,
                              if json_truthy code then code else None))))"

definition on_error :: "nat \<Rightarrow> nat \<Rightarrow> jsstring option \<Rightarrow> chat_state \<Rightarrow> chat_state" where
  "on_error i readyState data s =
     (if readyState \<noteq> CLOSED
      then (case error_details data of (msg, code) \<Rightarrow> handleError i msg code s) else s)"

definition on_readystatechange :: "nat \<Rightarrow> nat option \<Rightarrow> nat option \<Rightarrow> chat_state \<Rightarrow> chat_state" where
  "on_readystatechange i readyState http s =
     (case (readyState, http) of
        (Some r, Some h) \<Rightarrow>
          if r \<ge> CLOSED \<and> h \<noteq> 200
          then handleError i (js ''HTTP '' @ show_nat h @ js '': '' @ CONNECTION_CLOSED) None s else s
      | _ \<Rightarrow> s)"

section \<open>Requests\<close>

text \<open>How a request begins: a stream that opens, a stream whose extra parameters are rejected or
  whose connection throws, a chat or responses request, a media request.  Which of them
  \<open>sendChat\<close> takes depends on the configuration and the model, which the state does not hold, so
  the start is an argument and every start is possible.\<close>

datatype request_start = StartStream | RejectStream jsstring | ThrowStream | StartChat | StartMedia

definition start_request :: "request_start \<Rightarrow> chat_state \<Rightarrow> chat_state" where
  "start_request r s =
     (let i = nextRequest s; s1 = s\<lparr>nextRequest := Suc i\<rparr>
      in case r of
           StartStream \<Rightarrow> s1\<lparr>sseSource := Some i, liveSources := i # liveSources s, isStreamComplete := False\<rparr>
         | RejectStream msg \<Rightarrow> handleStreamError msg None s
         | ThrowStream \<Rightarrow>
             handleStreamError STREAM_START_ERROR None (s1\<lparr>isStreamComplete := False, sseSource := None\<rparr>)
         | StartChat \<Rightarrow> s1\<lparr>chatRequests := i # chatRequests s, isChatGenerating := True\<rparr>
         | StartMedia \<Rightarrow> s1\<lparr>mediaRequests := i # mediaRequests s, isMediaGenerating := True,
             mediaController := Some i\<rparr>)"

record http_error =
  data_error_message :: "jsstring option"   \<comment> \<open>\<open>err.response.data.error.message\<close>\<close>
  data_message :: "jsstring option"         \<comment> \<open>\<open>err.response.data.message\<close>\<close>
  data_error_code :: "json option"          \<comment> \<open>\<open>err.response.data.error.code\<close>\<close>
  err_message :: "jsstring option"          \<comment> \<open>\<open>err.message\<close>\<close>

definition chat_error_text :: "http_error \<Rightarrow> jsstring" where
  "chat_error_text e = or_text (data_message e) (or_text (err_message e) API_REQUEST_ERROR)"

definition media_error_text :: "http_error \<Rightarrow> jsstring" where
  "media_error_text e = or_text (data_error_message e) (chat_error_text e)"

text \<open>The first choice of a chat response: its content and its reasoning.\<close>

record chat_choice =
  choice_content :: "jsstring option"
  choice_reasoning :: "jsstring option"

text \<open>A message without a version gets one without an identifier, written as the empty text.\<close>

definition with_answer :: "chat_choice \<Rightarrow> Message \<Rightarrow> Message" where
  "with_answer c message =
     (finalizeMessage (message\<lparr>versions :=
        [(case versions message of v # _ \<Rightarrow> v | [] \<Rightarrow> \<lparr>ver_id = [], content = []\<rparr>)
           \<lparr>content := or_text (choice_content c) []\<rparr>]\<rparr>) (choice_reasoning c))\<lparr>status := Some COMPLETE\<rparr>"

definition end_chat :: "nat \<Rightarrow> chat_state \<Rightarrow> chat_state" where
  "end_chat i s = s\<lparr>chatRequests := filter (\<lambda>j. j \<noteq> i) (chatRequests s), isChatGenerating := False\<rparr>"

definition chat_answered :: "nat \<Rightarrow> chat_choice option \<Rightarrow> chat_state \<Rightarrow> chat_state" where
  "chat_answered i choice s =
     end_chat i (case choice of
       None \<Rightarrow> s
     | Some c \<Rightarrow> s\<lparr>messages := updateLastAssistantMessage (messages s) (with_answer c)\<rparr>)"

definition chat_failed :: "nat \<Rightarrow> http_error \<Rightarrow> chat_state \<Rightarrow> chat_state" where
  "chat_failed i e s =
     end_chat i (handleStreamError (chat_error_text e) (data_error_code e) s)"

definition responses_answered :: "nat \<Rightarrow> jsstring \<Rightarrow> chat_state \<Rightarrow> chat_state" where
  "responses_answered i text s =
     end_chat i (s\<lparr>messages := updateLastAssistantMessage (messages s) (\<lambda>m.
       (finalizeMessage (updateCurrentVersionContent m text) None)\<lparr>status := Some COMPLETE\<rparr>)\<rparr>)"

definition responses_failed :: "nat \<Rightarrow> http_error \<Rightarrow> chat_state \<Rightarrow> chat_state" where
  "responses_failed i e s =
     end_chat i (handleStreamError (media_error_text e) (data_error_code e) s)"

definition end_media :: "nat \<Rightarrow> chat_state \<Rightarrow> chat_state" where
  "end_media i s = s\<lparr>mediaRequests := filter (\<lambda>j. j \<noteq> i) (mediaRequests s), mediaController := None,
     isMediaGenerating := False\<rparr>"

definition media_progress :: "jsstring \<Rightarrow> chat_state \<Rightarrow> chat_state" where
  "media_progress text s =
     s\<lparr>messages := updateLastAssistantMessage (messages s) (\<lambda>m.
       (updateCurrentVersionContent m text)\<lparr>status := Some STREAMING\<rparr>)\<rparr>"

definition media_answered :: "nat \<Rightarrow> jsstring \<Rightarrow> MessageMedia option \<Rightarrow> chat_state \<Rightarrow> chat_state" where
  "media_answered i text md s =
     end_media i (s\<lparr>messages := updateLastAssistantMessage (messages s) (\<lambda>m.
       (finalizeMessage (updateCurrentVersionContent m text) None)\<lparr>media := md, status := Some COMPLETE\<rparr>)\<rparr>)"

definition media_failed :: "nat \<Rightarrow> http_error \<Rightarrow> chat_state \<Rightarrow> chat_state" where
  "media_failed i e s =
     end_media i (if i \<in> set (abortedMedia s) then s
       else handleStreamError (media_error_text e) (data_error_code e) s)"

definition stop_message :: "Message \<Rightarrow> Message" where
  "stop_message m =
     (if status m = Some LOADING \<or> status m = Some STREAMING
      then (finalizeMessage m None)\<lparr>status := Some COMPLETE\<rparr> else m)"

definition stopStream :: "chat_state \<Rightarrow> chat_state" where
  "stopStream s = (case sseSource s of None \<Rightarrow> s | Some i \<Rightarrow> closeSource i s)"

definition stopGeneration :: "chat_state \<Rightarrow> chat_state" where
  "stopGeneration s =
     (let s1 = stopStream s;
          s2 = (case mediaController s1 of None \<Rightarrow> s1 | Some i \<Rightarrow> s1\<lparr>abortedMedia := i # abortedMedia s1\<rparr>)
      in s2\<lparr>messages := updateLastAssistantMessage (messages s2) stop_message\<rparr>)"

section \<open>Operations of the user\<close>

text \<open>The identifiers \<open>ids\<close> are those \<open>nanoid\<close> gives for the new messages.\<close>

definition handleSendMessage ::
    "jsstring \<times> jsstring \<times> jsstring \<times> jsstring \<Rightarrow> jsstring \<Rightarrow> request_start \<Rightarrow> chat_state \<Rightarrow> chat_state" where
  "handleSendMessage ids text r s =
     (case ids of (k1, i1, k2, i2) \<Rightarrow>
       start_request r (s\<lparr>messages := messages s @ [createUserMessage k1 i1 text, createLoadingAssistantMessage k2 i2]\<rparr>))"

definition handleRegenerateMessage ::
    "jsstring \<times> jsstring \<Rightarrow> jsstring \<Rightarrow> request_start \<Rightarrow> chat_state \<Rightarrow> chat_state" where
  "handleRegenerateMessage ids k r s =
     (case find_index (\<lambda>m. key m = k) (messages s) of
        None \<Rightarrow> s
      | Some i \<Rightarrow> start_request r (s\<lparr>messages := take i (messages s)
          @ [createLoadingAssistantMessage (fst ids) (snd ids)]\<rparr>))"

definition edited :: "jsstring \<Rightarrow> jsstring \<Rightarrow> Message list \<Rightarrow> Message list" where
  "edited k text ms = map (\<lambda>m. if key m = k
     then m\<lparr>versions := [(case versions m of v # _ \<Rightarrow> v | [] \<Rightarrow> \<lparr>ver_id = [], content = []\<rparr>)\<lparr>content := text\<rparr>]\<rparr>
     else m) ms"

definition applyEdit ::
    "jsstring \<times> jsstring \<Rightarrow> jsstring \<Rightarrow> jsstring \<Rightarrow> bool \<Rightarrow> request_start \<Rightarrow> chat_state \<Rightarrow> chat_state" where
  "applyEdit ids k text submit r s =
     (if k = [] then s
      else (case find_index (\<lambda>m. key m = k) (messages s) of
        None \<Rightarrow> s
      | Some i \<Rightarrow>
          (let updated = edited k text (messages s)
           in if \<not> submit \<or> sender (updated ! i) \<noteq> USER then s\<lparr>messages := updated\<rparr>
              else start_request r (s\<lparr>messages := take (i + 1) updated
                @ [createLoadingAssistantMessage (fst ids) (snd ids)]\<rparr>))))"

definition handleDeleteMessage :: "jsstring \<Rightarrow> chat_state \<Rightarrow> chat_state" where
  "handleDeleteMessage k s = s\<lparr>messages := filter (\<lambda>m. key m \<noteq> k) (messages s)\<rparr>"

end
