(* ===== verification/Playground_Messages_Props.thy ===== *)
theory Playground_Messages_Props
  imports Playground_Messages
begin

text \<open>
  Properties of the playground's messages: reading back marked reasoning, the equivalence of
  streamed and whole answers, and the repair of stored messages.
\<close>

section \<open>Reading reasoning passages\<close>

text \<open>A text runs up to a tag when the first occurrence of the tag behind it is the one that
  follows it: it holds no occurrence of its own, not even one that overlaps with the tag.\<close>

definition up_to :: "jsstring \<Rightarrow> jsstring \<Rightarrow> bool" where
  "up_to tag s \<longleftrightarrow> index_of tag (s @ tag) = Some (length s)"

fun think_text :: "jsstring \<Rightarrow> (jsstring \<times> jsstring) list \<Rightarrow> jsstring" where
  "think_text v [] = v"
| "think_text v ((r, w) # segs) = v @ think_open @ r @ think_close @ think_text w segs"

definition good_segments :: "jsstring \<Rightarrow> (jsstring \<times> jsstring) list \<Rightarrow> bool" where
  "good_segments v segs \<longleftrightarrow> up_to think_open v
     \<and> (\<forall>(r, w)\<in>set segs. up_to think_close r \<and> up_to think_open w)"

lemma tag_lengths [simp]: "length think_open = 7" "length think_close = 8"
  by (simp_all add: think_open_def think_close_def)

lemma startsWith_more: "startsWith x p \<Longrightarrow> startsWith (x @ y) p"
  by (metis append_assoc startsWith_append startsWith_split)

lemma up_to_free: "up_to tag s \<Longrightarrow> tag \<noteq> [] \<Longrightarrow> index_of tag s = None"
proof (rule ccontr)
  assume u: "up_to tag s" and t: "tag \<noteq> []" and "index_of tag s \<noteq> None"
  then obtain i where i: "index_of tag s = Some i" by auto
  have b: "i + length tag \<le> length s" by (rule index_of_bound [OF i])
  have "startsWith (drop i (s @ tag)) tag"
    using startsWith_more [OF index_of_Some [OF i], of tag] b by simp
  then have "length s \<le> i" by (rule index_of_before [OF u [unfolded up_to_def]]) (use b in simp)
  then show False using b t by (cases tag) auto
qed

lemma up_to_index: "up_to tag s \<Longrightarrow> index_of tag (s @ tag @ x) = Some (length s)"
  unfolding up_to_def by (rule index_of_follow)

lemma think_loop_step:
  assumes "up_to think_open v" "up_to think_close r"
  shows "think_loop (v @ think_open @ r @ think_close @ x) =
    (let (vs, rs, u) = think_loop x in ((if v = [] then [] else [v]) @ vs, r # rs, u))"
  using up_to_index [OF assms(1), of "r @ think_close @ x"] up_to_index [OF assms(2), of x]
  by (subst think_loop.simps) (auto simp: Let_def)

lemma think_loop_end:
  "up_to think_open v \<Longrightarrow> think_loop v = (if v = [] then [] else [v], [], False)"
  using up_to_free [of think_open v] by (subst think_loop.simps) (auto simp: think_open_def)

lemma think_loop_unclosed:
  "up_to think_open v \<Longrightarrow> index_of think_close r = None \<Longrightarrow>
   think_loop (v @ think_open @ r) = (if v = [] then [] else [v], [r], True)"
  using up_to_index [of think_open v r] by (subst think_loop.simps) (auto simp: Let_def)

lemma think_loop_text:
  "good_segments v segs \<Longrightarrow>
   think_loop (think_text v segs) = (filter (\<lambda>p. p \<noteq> []) (v # map snd segs), map fst segs, False)"
proof (induction v segs rule: think_text.induct)
  case (2 v r w segs)
  then have "good_segments w segs" "up_to think_open v" "up_to think_close r"
    by (auto simp: good_segments_def)
  with 2 show ?case by (simp add: think_loop_step)
qed (simp add: good_segments_def think_loop_end)

fun open_text :: "jsstring \<Rightarrow> (jsstring \<times> jsstring) list \<Rightarrow> jsstring \<Rightarrow> jsstring" where
  "open_text v [] t = v @ think_open @ t"
| "open_text v ((r, w) # segs) t = v @ think_open @ r @ think_close @ open_text w segs t"

lemma think_loop_open:
  "good_segments v segs \<Longrightarrow> index_of think_close t = None \<Longrightarrow>
   think_loop (open_text v segs t) =
     (filter (\<lambda>p. p \<noteq> []) (v # map snd segs), map fst segs @ [t], True)"
proof (induction v segs t rule: open_text.induct)
  case (2 v r w segs t)
  then have "good_segments w segs" "up_to think_open v" "up_to think_close r"
    by (auto simp: good_segments_def)
  with 2 show ?case by (simp add: think_loop_step)
qed (simp add: good_segments_def think_loop_unclosed)

lemma includes_open: "includes_str (v @ think_open @ x) think_open"
  using index_of_least [of "length v" "v @ think_open @ x" think_open]
  by (force simp: includes_str_def startsWith_def)

lemma concat_filter: "concat (filter (\<lambda>p. p \<noteq> []) ps) = concat ps"
  by (induction ps) auto

lemma includes_texts:
  "segs \<noteq> [] \<Longrightarrow> includes_str (think_text v segs) think_open" "includes_str (open_text v segs t) think_open"
  using includes_open by (cases segs; force)+

lemma parse_closed:
  "good_segments v segs \<Longrightarrow> segs \<noteq> [] \<Longrightarrow> parseThinkTags (think_text v segs) =
     \<lparr>visibleContent = trim (concat (v # map snd segs)),
      reasoning_part = trim (join [10, 10] (map fst segs)), hasUnclosedTag = False\<rparr>"
  using concat_filter [of "v # map snd segs"]
  by (simp add: parseThinkTags_def includes_texts think_loop_text del: filter.simps concat.simps)

lemma parse_open:
  "good_segments v segs \<Longrightarrow> index_of think_close t = None \<Longrightarrow> parseThinkTags (open_text v segs t) =
     \<lparr>visibleContent = trim (concat (v # map snd segs)),
      reasoning_part = trim (join [10, 10] (map fst segs @ [t])), hasUnclosedTag = True\<rparr>"
  using concat_filter [of "v # map snd segs"]
  by (simp add: parseThinkTags_def includes_texts think_loop_open del: filter.simps concat.simps)

section \<open>Streaming\<close>

definition stream :: "Message \<Rightarrow> jsstring list \<Rightarrow> Message" where
  "stream m chunks = foldl (\<lambda>m c. processStreamingContent m (Some c)) m chunks"

definition text_of :: "Message \<Rightarrow> jsstring" where
  "text_of m = content (getCurrentVersion m)"

lemma version_after [simp]:
  "getCurrentVersion (updateCurrentVersionContent m s) = (getCurrentVersion m)\<lparr>content := s\<rparr>"
  by (simp add: updateCurrentVersionContent_def getCurrentVersion_def split: list.splits)

lemma current_of_update [simp]:
  "getCurrentVersion (m\<lparr>reasoning := r\<rparr>) = getCurrentVersion m"
  "getCurrentVersion (m\<lparr>isReasoningStreaming := b\<rparr>) = getCurrentVersion m"
  "getCurrentVersion (m\<lparr>status := st\<rparr>) = getCurrentVersion m"
  by (simp_all add: getCurrentVersion_def)

lemma stream_snoc: "stream m (cs @ [c]) = processStreamingContent (stream m cs) (Some c)"
  by (simp add: stream_def)

text \<open>The reasoning that is shown after a streamed answer: that of the longest prefix that has one.\<close>

definition shown_reasoning :: "Reasoning option \<Rightarrow> jsstring \<Rightarrow> jsstring list \<Rightarrow> Reasoning option" where
  "shown_reasoning r0 s cs =
     foldl (\<lambda>r n. let p = reasoning_part (parseThinkTags (s @ concat (take n cs)))
        in if p = [] then r else Some \<lparr>reasoning_text = p, reasoning_duration = Fin 0\<rparr>)
       r0 [1..<Suc (length cs)]"

lemma shown_reasoning_snoc:
  "shown_reasoning r0 s (cs @ [c]) =
     (let p = reasoning_part (parseThinkTags (s @ concat (cs @ [c])))
      in if p = [] then shown_reasoning r0 s cs
         else Some \<lparr>reasoning_text = p, reasoning_duration = Fin 0\<rparr>)"
proof -
  have "foldl (\<lambda>r n. let p = reasoning_part (parseThinkTags (s @ concat (take n (cs @ [c]))))
        in if p = [] then r else Some \<lparr>reasoning_text = p, reasoning_duration = Fin 0\<rparr>)
       r0 [1..<Suc (length cs)] = shown_reasoning r0 s cs"
    unfolding shown_reasoning_def by (rule foldl_cong) (auto simp: Let_def)
  then show ?thesis by (simp add: shown_reasoning_def Let_def)
qed

lemma stream_state:
  "text_of (stream m cs) = text_of m @ concat cs
   \<and> reasoning (stream m cs) = shown_reasoning (reasoning m) (text_of m) cs
   \<and> (cs \<noteq> [] \<longrightarrow> stream m cs = (updateCurrentVersionContent m (text_of m @ concat cs))
       \<lparr>reasoning := shown_reasoning (reasoning m) (text_of m) cs,
        isReasoningStreaming := Some (hasUnclosedTag (parseThinkTags (text_of m @ concat cs)))\<rparr>)"
proof (induction cs rule: rev_induct)
  case Nil
  then show ?case by (simp add: stream_def shown_reasoning_def)
next
  case (snoc c cs)
  then show ?case
    unfolding stream_snoc shown_reasoning_snoc
    by (cases "cs = []")
      (auto simp: processStreamingContent_def Let_def text_of_def stream_def updateCurrentVersionContent_def
        getCurrentVersion_def shown_reasoning_def split: list.splits)
qed


lemma finalize_streamed:
  assumes "text_of m' = text_of m @ s" "reasoning m' = r"
    and "m' = (updateCurrentVersionContent m (text_of m @ s))\<lparr>reasoning := r, isReasoningStreaming := b\<rparr>"
    and "reasoning m = None"
    and "r = None \<or> r = Some \<lparr>reasoning_text = reasoning_part (parseThinkTags (text_of m @ s)), reasoning_duration = Fin 0\<rparr>"
  shows "finalizeMessage m' None = finalizeMessage (updateCurrentVersionContent m (text_of m @ s)) None"
  using assms
  by (auto simp: finalizeMessage_def Let_def or_text_def text_of_def updateCurrentVersionContent_def
      getCurrentVersion_def split: list.splits)

lemma shown_whole:
  "cs \<noteq> [] \<Longrightarrow> reasoning_part (parseThinkTags (s @ concat cs)) \<noteq> [] \<Longrightarrow>
   shown_reasoning r0 s cs =
     Some \<lparr>reasoning_text = reasoning_part (parseThinkTags (s @ concat cs)), reasoning_duration = Fin 0\<rparr>"
  by (cases cs rule: rev_cases) (simp_all add: shown_reasoning_snoc)

lemma shown_never:
  "(\<forall>n\<le>length cs. reasoning_part (parseThinkTags (s @ concat (take n cs))) = []) \<Longrightarrow>
   shown_reasoning r0 s cs = r0"
proof (induction cs rule: rev_induct)
  case (snoc c cs)
  have "reasoning_part (parseThinkTags (s @ concat (cs @ [c]))) = []"
    using snoc.prems [rule_format, of "length (cs @ [c])"] by simp
  moreover have "reasoning_part (parseThinkTags (s @ concat (take n cs))) = []" if "n \<le> length cs" for n
    using snoc.prems [rule_format, of n] that by simp
  ultimately show ?case using snoc.IH by (simp add: shown_reasoning_snoc)
qed (simp add: shown_reasoning_def)

lemma streamed_whole:
  assumes "reasoning m = None" "cs \<noteq> []"
    and "reasoning_part (parseThinkTags (text_of m @ concat cs)) \<noteq> []
      \<or> (\<forall>n\<le>length cs. reasoning_part (parseThinkTags (text_of m @ concat (take n cs))) = [])"
  shows "finalizeMessage (stream m cs) None =
    finalizeMessage (updateCurrentVersionContent m (text_of m @ concat cs)) None"
proof (rule finalize_streamed)
  show "text_of (stream m cs) = text_of m @ concat cs" using stream_state by blast
  show "reasoning (stream m cs) = shown_reasoning (reasoning m) (text_of m) cs" using stream_state by blast
  show "stream m cs = (updateCurrentVersionContent m (text_of m @ concat cs))
       \<lparr>reasoning := shown_reasoning (reasoning m) (text_of m) cs,
        isReasoningStreaming := Some (hasUnclosedTag (parseThinkTags (text_of m @ concat cs)))\<rparr>"
    using stream_state assms(2) by blast
  show "shown_reasoning (reasoning m) (text_of m) cs = None \<or> shown_reasoning (reasoning m) (text_of m) cs =
      Some \<lparr>reasoning_text = reasoning_part (parseThinkTags (text_of m @ concat cs)), reasoning_duration = Fin 0\<rparr>"
    using assms shown_whole [of cs "text_of m"] shown_never [of cs "text_of m"] by auto
qed (rule assms(1))

section \<open>Properties of reading and streaming\<close>

text \<open>C37: Reading marked text: when an answer alternates visible passages and complete \<open><think>\<close>
  passages, \<open>parseThinkTags\<close> returns the visible passages as one text, the reasoning passages
  joined by blank lines and no open tag; when a last tag is still open, its text is reasoning.\<close>

theorem think_tags_read_back:
  assumes "good_segments v segs" "segs \<noteq> []" "index_of think_close t = None"
  shows "parseThinkTags (think_text v segs) =
      \<lparr>visibleContent = trim (concat (v # map snd segs)),
       reasoning_part = trim (join [10, 10] (map fst segs)), hasUnclosedTag = False\<rparr>
    \<and> parseThinkTags (open_text v segs t) =
      \<lparr>visibleContent = trim (concat (v # map snd segs)),
       reasoning_part = trim (join [10, 10] (map fst segs @ [t])), hasUnclosedTag = True\<rparr>"
  using parse_closed [OF assms(1,2)] parse_open [OF assms(1,3)] by blast

theorem think_tags_read_back_witness:
  "parseThinkTags (think_text (js ''a'') [(js ''why'', js ''b''), (js ''x < 1'', [])]) =
     \<lparr>visibleContent = js ''ab'', reasoning_part = js ''why'' @ [10, 10] @ js ''x < 1'', hasUnclosedTag = False\<rparr>"
proof -
  have "good_segments (js ''a'') [(js ''why'', js ''b''), (js ''x < 1'', [])]"
    by (simp add: good_segments_def up_to_def think_open_def think_close_def startsWith_def)
  moreover have "index_of think_close [] = None" by (simp add: think_close_def)
  moreover have "trim (concat (js ''a'' # map snd [(js ''why'', js ''b''), (js ''x < 1'', [])])) = js ''ab''"
    "trim (join [10, 10] (map fst [(js ''why'', js ''b''), (js ''x < 1'', [])])) = js ''why'' @ [10, 10] @ js ''x < 1''"
    by (simp_all add: js_eval)
  ultimately show ?thesis using think_tags_read_back [of "js ''a''" "[(js ''why'', js ''b''), (js ''x < 1'', [])]" "[]"]
    by (simp del: js.simps)
qed

text \<open>A streamed answer ends as the whole answer would: for a fresh message that receives the
  chunks one by one, finalising gives the same message as when the whole text had arrived at
  once, provided the whole text has reasoning or no prefix of it ever showed any.\<close>

theorem streamed_equals_whole:
  assumes "reasoning m = None" "cs \<noteq> []"
    and "reasoning_part (parseThinkTags (text_of m @ concat cs)) \<noteq> []
      \<or> (\<forall>n\<le>length cs. reasoning_part (parseThinkTags (text_of m @ concat (take n cs))) = [])"
  shows "finalizeMessage (stream m cs) None =
    finalizeMessage (updateCurrentVersionContent m (text_of m @ concat cs)) None"
  using assms by (rule streamed_whole)

theorem streamed_equals_whole_witness:
  "finalizeMessage (stream (createLoadingAssistantMessage (js ''k'') (js ''i''))
      [js ''<think>wh'', js ''y</think>'', js ''Hi'']) None =
    finalizeMessage (updateCurrentVersionContent (createLoadingAssistantMessage (js ''k'') (js ''i''))
      (js ''<think>why</think>Hi'')) None"
proof -
  let ?m = "createLoadingAssistantMessage (js ''k'') (js ''i'')"
  have m: "text_of ?m = []" "reasoning ?m = None"
    by (simp_all add: createLoadingAssistantMessage_def bare_message_def createMessageVersion_def
        text_of_def getCurrentVersion_def)
  have t: "js ''<think>why</think>Hi'' = think_text [] [(js ''why'', js ''Hi'')]"
    by (simp add: think_open_def think_close_def)
  have "good_segments [] [(js ''why'', js ''Hi'')]"
    by (simp add: good_segments_def up_to_def think_open_def think_close_def startsWith_def)
  then have "reasoning_part (parseThinkTags (js ''<think>why</think>Hi'')) = js ''why''"
    unfolding t by (subst parse_closed) (simp_all add: js_eval)
  then show ?thesis
    using streamed_equals_whole [of ?m "[js ''<think>wh'', js ''y</think>'', js ''Hi'']"] m by simp
qed

lemma parse_partial_close: "parseThinkTags (js ''<think></think'') =
    \<lparr>visibleContent = [], reasoning_part = js ''</think'', hasUnclosedTag = True\<rparr>"
proof -
  have t: "js ''<think></think'' = open_text [] [] (js ''</think'')" by (simp add: think_open_def)
  have "good_segments [] []" "index_of think_close (js ''</think'') = None"
    by (simp_all add: good_segments_def up_to_def think_open_def think_close_def startsWith_def)
  then show ?thesis unfolding t by (subst parse_open) (simp_all add: js_eval)
qed

lemma parse_empty_passage: "parseThinkTags (js ''<think></think>Hi'') =
    \<lparr>visibleContent = js ''Hi'', reasoning_part = [], hasUnclosedTag = False\<rparr>"
proof -
  have t: "js ''<think></think>Hi'' = think_text [] [([], js ''Hi'')]" by (simp add: think_open_def think_close_def)
  have "good_segments [] [([], js ''Hi'')]"
    by (simp add: good_segments_def up_to_def think_open_def think_close_def startsWith_def)
  then show ?thesis unfolding t by (subst parse_closed) (simp_all add: js_eval)
qed

text \<open>The proviso is needed: when the closing tag of an empty passage arrives in two chunks, its
  first part is taken for reasoning and stays, although the whole answer has no reasoning.\<close>

theorem split_closing_tag_leaks:
  "reasoning (finalizeMessage (stream (createLoadingAssistantMessage k i)
      [js ''<think></think'', js ''>Hi'']) None)
     = Some \<lparr>reasoning_text = js ''</think'', reasoning_duration = Fin 0\<rparr>
   \<and> reasoning (finalizeMessage (updateCurrentVersionContent (createLoadingAssistantMessage k i)
      (js ''<think></think>Hi'')) None) = None"
proof -
  let ?m = "createLoadingAssistantMessage k i"
  have m: "text_of ?m = []" "reasoning ?m = None"
    by (simp_all add: createLoadingAssistantMessage_def bare_message_def createMessageVersion_def
        text_of_def getCurrentVersion_def)
  have "shown_reasoning None [] [js ''<think></think'', js ''>Hi'']
      = Some \<lparr>reasoning_text = js ''</think'', reasoning_duration = Fin 0\<rparr>"
    using parse_partial_close parse_empty_passage by (simp add: shown_reasoning_def)
  then have r: "reasoning (stream ?m [js ''<think></think'', js ''>Hi''])
      = Some \<lparr>reasoning_text = js ''</think'', reasoning_duration = Fin 0\<rparr>"
    using stream_state [of ?m "[js ''<think></think'', js ''>Hi'']"] m by simp
  then have "reasoning (finalizeMessage (stream ?m [js ''<think></think'', js ''>Hi'']) None)
      = Some \<lparr>reasoning_text = js ''</think'', reasoning_duration = Fin 0\<rparr>"
    by (simp add: finalizeMessage_def Let_def or_text_def)
  moreover have "reasoning (finalizeMessage (updateCurrentVersionContent ?m (js ''<think></think>Hi'')) None) = None"
    using parse_empty_passage m by (simp add: finalizeMessage_def Let_def or_text_def updateCurrentVersionContent_def
        getCurrentVersion_def)
  ultimately show ?thesis by blast
qed

section \<open>Stored messages\<close>

lemma last_pending_Some:
  "last_pending ms n = Some i \<Longrightarrow> i < n \<and> pending (ms ! i)"
  by (induction ms n rule: last_pending.induct) (auto split: if_splits)

lemma last_pending_None: "last_pending ms n = None \<longleftrightarrow> (\<forall>i<n. \<not> pending (ms ! i))"
  by (induction ms n rule: last_pending.induct) (auto simp: less_Suc_eq)

lemma finalize_keeps [simp]:
  "key (finalizeMessage m a) = key m" "sender (finalizeMessage m a) = sender m"
  "status (finalizeMessage m a) = status m"
  by (simp_all add: finalizeMessage_def updateCurrentVersionContent_def Let_def)

lemma sanitized_keeps [simp]:
  "key (sanitized m) = key m" "sender (sanitized m) = sender m" "\<not> pending (sanitized m)"
  "status (sanitized m) = Some COMPLETE \<or> status (sanitized m) = Some ERROR"
  by (simp_all add: sanitized_def updateCurrentVersionContent_def pending_def Let_def)

lemma count_update:
  "i < length ms \<Longrightarrow> P (ms ! i) \<Longrightarrow> \<not> P x \<Longrightarrow> length (filter P (ms[i := x])) = length (filter P ms) - 1"
proof (induction ms arbitrary: i)
  case (Cons m ms)
  show ?case
  proof (cases i)
    case (Suc j)
    with Cons.prems have "ms ! j \<in> set ms" "P (ms ! j)" by auto
    then have "filter P ms \<noteq> []" by (metis filter_empty_conv)
    with Cons Suc show ?thesis by (cases "filter P ms") auto
  qed (use Cons in simp)
qed simp

lemma map_update_same: "f x = f (ms ! i) \<Longrightarrow> i < length ms \<Longrightarrow> map f (ms[i := x]) = map f ms"
  by (metis list_update_id map_update)

text \<open>Loading stored messages repairs exactly one interrupted answer: the keys, the senders and
  the order stay, every message but the last interrupted one is unchanged, and the number of
  interrupted answers drops by one (so several of them need as many loads).\<close>

theorem sanitize_repairs_last:
  "map key (sanitizeMessagesOnLoad ms) = map key ms
   \<and> map sender (sanitizeMessagesOnLoad ms) = map sender ms
   \<and> length (filter pending (sanitizeMessagesOnLoad ms)) = length (filter pending ms) - 1
   \<and> (\<exists>i x. sanitizeMessagesOnLoad ms = ms[i := x])"
proof (cases "last_pending ms (length ms)")
  case None
  then have "filter pending ms = []" by (auto simp: last_pending_None filter_empty_conv in_set_conv_nth)
  with None show ?thesis by (auto simp: sanitizeMessagesOnLoad_def intro: list_update_id [symmetric])
next
  case (Some i)
  then have i: "i < length ms" "pending (ms ! i)" using last_pending_Some by auto
  then have "length (filter pending (ms[i := sanitized (ms ! i)])) = length (filter pending ms) - 1"
    by (intro count_update) auto
  moreover have "map key (ms[i := sanitized (ms ! i)]) = map key ms"
    "map sender (ms[i := sanitized (ms ! i)]) = map sender ms"
    using i by (auto intro: map_update_same)
  ultimately show ?thesis using Some by (auto simp: sanitizeMessagesOnLoad_def)
qed

end
