(* ===== verification/Playground_Chat_Props.thy ===== *)
theory Playground_Chat_Props
  imports Playground_Chat Playground_Messages_Props
begin

text \<open>
  The conversation as a state machine: events and the states they reach, with the invariant that
  an answer is in progress only at the end of the conversation and only while a request is
  open.  Two behaviours of the code break it, and both are shown: a chat response
  without choices, and an edit that is submitted while an answer is being generated.
\<close>

section \<open>Events\<close>

datatype chat_event =
    Send "jsstring \<times> jsstring \<times> jsstring \<times> jsstring" jsstring request_start
  | Regenerate "jsstring \<times> jsstring" jsstring request_start
  | Edit "jsstring \<times> jsstring" jsstring jsstring bool request_start
  | Delete jsstring
  | Stop
  | SseMessage nat jsstring
  | SseError nat nat "jsstring option"
  | SseReady nat "nat option" "nat option"
  | ChatAnswer nat "chat_choice option"
  | ChatFail nat http_error
  | ResponsesAnswer nat jsstring
  | ResponsesFail nat http_error
  | MediaProgress nat jsstring
  | MediaAnswer nat jsstring "MessageMedia option"
  | MediaFail nat http_error

text \<open>When an event can happen: the input and the message actions are disabled while an answer is
  generated (the buttons of an open edit are not), a closed source delivers nothing, every
  request is answered once, and an aborted request only fails.\<close>

fun enabled :: "chat_event \<Rightarrow> chat_state \<Rightarrow> bool" where
  "enabled (Send _ _ _) s = (\<not> isGenerating s)"
| "enabled (Regenerate _ _ _) s = (\<not> isGenerating s)"
| "enabled (Delete _) s = (\<not> isGenerating s)"
| "enabled (Edit _ _ _ _ _) s = True"
| "enabled Stop s = canStop s"
| "enabled (SseMessage i _) s = (i \<in> set (liveSources s))"
| "enabled (SseError i _ _) s = (i \<in> set (liveSources s))"
| "enabled (SseReady i _ _) s = (i \<in> set (liveSources s))"
| "enabled (ChatAnswer i _) s = (i \<in> set (chatRequests s))"
| "enabled (ChatFail i _) s = (i \<in> set (chatRequests s))"
| "enabled (ResponsesAnswer i _) s = (i \<in> set (chatRequests s))"
| "enabled (ResponsesFail i _) s = (i \<in> set (chatRequests s))"
| "enabled (MediaProgress i _) s = (i \<in> set (mediaRequests s) \<and> i \<notin> set (abortedMedia s))"
| "enabled (MediaAnswer i _ _) s = (i \<in> set (mediaRequests s) \<and> i \<notin> set (abortedMedia s))"
| "enabled (MediaFail i _) s = (i \<in> set (mediaRequests s))"

fun apply_event :: "chat_event \<Rightarrow> chat_state \<Rightarrow> chat_state" where
  "apply_event (Send ids text r) s = handleSendMessage ids text r s"
| "apply_event (Regenerate ids k r) s = handleRegenerateMessage ids k r s"
| "apply_event (Edit ids k text submit r) s = applyEdit ids k text submit r s"
| "apply_event (Delete k) s = handleDeleteMessage k s"
| "apply_event Stop s = stopGeneration s"
| "apply_event (SseMessage i data) s = on_message i data s"
| "apply_event (SseError i rs data) s = on_error i rs data s"
| "apply_event (SseReady i rs h) s = on_readystatechange i rs h s"
| "apply_event (ChatAnswer i c) s = chat_answered i c s"
| "apply_event (ChatFail i e) s = chat_failed i e s"
| "apply_event (ResponsesAnswer i text) s = responses_answered i text s"
| "apply_event (ResponsesFail i e) s = responses_failed i e s"
| "apply_event (MediaProgress i text) s = media_progress text s"
| "apply_event (MediaAnswer i text md) s = media_answered i text md s"
| "apply_event (MediaFail i e) s = media_failed i e s"

text \<open>The use the interface intends: no edit is submitted during a generation and a chat response
  has a choice.\<close>

fun intended :: "chat_event \<Rightarrow> chat_state \<Rightarrow> bool" where
  "intended (Edit _ _ _ submit _) s = (submit \<longrightarrow> \<not> isGenerating s)"
| "intended (ChatAnswer _ c) s = (c \<noteq> None)"
| "intended _ s = True"

inductive reachable :: "(chat_event \<Rightarrow> chat_state \<Rightarrow> bool) \<Rightarrow> Message list \<Rightarrow> chat_state \<Rightarrow> bool"
  for P :: "chat_event \<Rightarrow> chat_state \<Rightarrow> bool" and ms0 :: "Message list" where
  start: "reachable P ms0 (initial_state ms0)"
| step: "reachable P ms0 s \<Longrightarrow> enabled ev s \<Longrightarrow> P ev s \<Longrightarrow> reachable P ms0 (apply_event ev s)"

section \<open>The invariant\<close>

definition settled :: "Message list \<Rightarrow> bool" where
  "settled ms \<longleftrightarrow> list_all (\<lambda>m. \<not> pending m) ms"

definition no_stream :: "chat_state \<Rightarrow> bool" where
  "no_stream s \<longleftrightarrow> sseSource s = None \<and> liveSources s = []"

definition no_chat :: "chat_state \<Rightarrow> bool" where
  "no_chat s \<longleftrightarrow> chatRequests s = [] \<and> \<not> isChatGenerating s"

definition no_media :: "chat_state \<Rightarrow> bool" where
  "no_media s \<longleftrightarrow> mediaRequests s = [] \<and> \<not> isMediaGenerating s \<and> mediaController s = None"

text \<open>At most one request is open, and the flags tell which.\<close>

definition single_activity :: "chat_state \<Rightarrow> bool" where
  "single_activity s \<longleftrightarrow>
     no_stream s \<and> no_chat s \<and> no_media s
   \<or> no_chat s \<and> no_media s \<and> \<not> isStreamComplete s \<and> (\<exists>i. sseSource s = Some i \<and> liveSources s = [i])
   \<or> no_stream s \<and> no_media s \<and> isChatGenerating s \<and> (\<exists>i. chatRequests s = [i])
   \<or> no_stream s \<and> no_chat s \<and> isMediaGenerating s \<and>
       (\<exists>i. mediaRequests s = [i] \<and> mediaController s = Some i \<and> i < nextRequest s
          \<and> (i \<in> set (abortedMedia s) \<longrightarrow> settled (messages s)))"

definition chat_inv :: "chat_state \<Rightarrow> bool" where
  "chat_inv s \<longleftrightarrow> single_activity s \<and> settled (butlast (messages s))
     \<and> (isGenerating s \<or> settled (messages s))
     \<and> (\<forall>i\<in>set (abortedMedia s). i < nextRequest s)"

lemmas inv_defs = chat_inv_def single_activity_def no_stream_def no_chat_def no_media_def isGenerating_def

lemma settled_simps [simp]:
  "settled []" "settled (m # ms) \<longleftrightarrow> \<not> pending m \<and> settled ms" "settled (ms @ ns) \<longleftrightarrow> settled ms \<and> settled ns"
  by (simp_all add: settled_def)

lemma settled_sub: "settled ms \<Longrightarrow> set ns \<subseteq> set ms \<Longrightarrow> settled ns"
  by (auto simp: settled_def list_all_iff)

lemma settled_butlast: "settled ms \<Longrightarrow> settled (butlast ms)"
  by (rule settled_sub) (auto dest: in_set_butlastD)

lemma settled_last: "ms \<noteq> [] \<Longrightarrow> settled ms \<longleftrightarrow> settled (butlast ms) \<and> \<not> pending (last ms)"
  by (metis append_butlast_last_id settled_simps(1,2,3))

lemma update_front: "settled (butlast ms) \<Longrightarrow> settled (butlast (updateLastAssistantMessage ms f))"
  by (simp add: updateLastAssistantMessage_def butlast_append)

lemma update_settled:
  assumes "settled (butlast ms)" "\<And>m. sender m = ASSISTANT \<Longrightarrow> pending m \<or> \<not> pending m \<Longrightarrow> \<not> pending (f m)"
  shows "settled (updateLastAssistantMessage ms f)"
proof (cases "ms = [] \<or> sender (last ms) \<noteq> ASSISTANT")
  case True
  then show ?thesis using assms(1) settled_last [of ms]
    by (auto simp: updateLastAssistantMessage_def pending_def)
next
  case False
  then show ?thesis using assms by (simp add: updateLastAssistantMessage_def)
qed

lemma update_keeps_settled:
  assumes "settled ms" "\<And>m. \<not> pending m \<Longrightarrow> \<not> pending (f m)"
  shows "settled (updateLastAssistantMessage ms f)"
  using assms settled_last [of ms] by (auto simp: updateLastAssistantMessage_def)

text \<open>Each way of ending an answer leaves it settled.\<close>

lemma not_pending_endings [simp]:
  "\<not> pending (complete_message m)" "\<not> pending (stop_message m)" "\<not> pending (with_answer c m)"
  "\<not> pending (x\<lparr>status := Some COMPLETE\<rparr>)"
  by (auto simp: complete_message_def stop_message_def with_answer_def pending_def)

lemma error_settled: "settled (butlast ms) \<Longrightarrow> settled (updateAssistantMessageWithError ms e c)"
  unfolding updateAssistantMessageWithError_def by (rule update_settled) (simp_all add: pending_def)


section \<open>Preservation\<close>

lemma idle: "chat_inv s \<Longrightarrow> \<not> isGenerating s \<Longrightarrow> no_stream s \<and> no_chat s \<and> no_media s \<and> settled (messages s)"
  by (auto simp: inv_defs)

lemma inv_start_request:
  assumes "no_stream s" "no_chat s" "no_media s" "settled (butlast (messages s))"
    and "\<forall>i\<in>set (abortedMedia s). i < nextRequest s"
  shows "chat_inv (start_request r s)"
proof (cases r)
  case StartMedia
  then show ?thesis using assms by (auto simp: inv_defs start_request_def Let_def)
qed (use assms in \<open>auto simp: inv_defs start_request_def Let_def handleStreamError_def less_Suc_eq
      intro!: error_settled settled_butlast [OF error_settled]\<close>)

lemma inv_handleError:
  assumes "chat_inv s" "i \<in> set (liveSources s)"
  shows "chat_inv (handleError i e c s)"
proof -
  from assms have "liveSources s = [i]" "no_chat s" "no_media s" "\<not> isStreamComplete s"
    "settled (butlast (messages s))" "\<forall>i\<in>set (abortedMedia s). i < nextRequest s"
    by (auto simp: inv_defs)
  then show ?thesis
    by (auto simp: handleError_def closeSource_def handleStreamError_def inv_defs
        intro: error_settled settled_butlast [OF error_settled])
qed

lemma inv_streaming_messages:
  assumes "chat_inv s" "liveSources s \<noteq> []" "settled (butlast ms)"
  shows "chat_inv (s\<lparr>messages := ms\<rparr>)"
  using assms by (auto simp: inv_defs)

lemma update_from_front: "settled (butlast ms) \<Longrightarrow> settled (butlast (update_from t v ms))"
  by (simp add: update_from_def handleStreamUpdate_def update_front)

lemma inv_on_message:
  assumes "chat_inv s" "i \<in> set (liveSources s)"
  shows "chat_inv (on_message i data s)"
proof (cases "data = js ''[DONE]''")
  case True
  have "settled (updateLastAssistantMessage (messages s) complete_message)"
    using assms(1) by (intro update_settled) (auto simp: chat_inv_def)
  moreover have "liveSources s = [i]" "no_chat s" "no_media s" using assms by (auto simp: inv_defs)
  ultimately show ?thesis
    using True assms by (auto simp: on_message_def closeSource_def handleStreamComplete_def inv_defs Let_def
        intro: settled_butlast)
next
  case False
  have "liveSources s \<noteq> []" "settled (butlast (messages s))" using assms by (auto simp: chat_inv_def)
  then have "chat_inv (s\<lparr>messages := update_from ContentUpdate a (update_from ReasoningUpdate b (messages s))\<rparr>)" for a b
    using assms(1) by (intro inv_streaming_messages update_from_front)
  with False show ?thesis using inv_handleError [OF assms] assms(1)
    by (auto simp: on_message_def simp del: js.simps split: option.splits sum.splits)
qed

lemma inv_end_chat:
  assumes "chat_inv s" "i \<in> set (chatRequests s)" "settled ms"
  shows "chat_inv (end_chat i (s\<lparr>messages := ms\<rparr>))"
proof -
  from assms have "chatRequests s = [i]" "no_stream s" "no_media s" by (auto simp: inv_defs)
  with assms show ?thesis by (auto simp: end_chat_def inv_defs intro: settled_butlast)
qed

lemma inv_end_media:
  assumes "chat_inv s" "i \<in> set (mediaRequests s)" "settled ms"
  shows "chat_inv (end_media i (s\<lparr>messages := ms\<rparr>))"
proof -
  from assms have "mediaRequests s = [i]" "no_stream s" "no_chat s" by (auto simp: inv_defs)
  with assms show ?thesis by (auto simp: end_media_def inv_defs intro: settled_butlast)
qed

lemma front: "chat_inv s \<Longrightarrow> settled (butlast (messages s))"
  by (simp add: chat_inv_def)

lemma inv_chat_answers:
  assumes "chat_inv s" "i \<in> set (chatRequests s)"
  shows "c \<noteq> None \<Longrightarrow> chat_inv (chat_answered i c s)" "chat_inv (chat_failed i e s)"
    "chat_inv (responses_answered i text s)" "chat_inv (responses_failed i e s)"
  using inv_end_chat [OF assms update_settled [OF front [OF assms(1)]]]
    inv_end_chat [OF assms error_settled [OF front [OF assms(1)]]]
  by (auto simp: chat_answered_def chat_failed_def responses_answered_def responses_failed_def handleStreamError_def)

lemma inv_media_answers:
  assumes "chat_inv s" "i \<in> set (mediaRequests s)"
  shows "chat_inv (media_answered i text md s)" "chat_inv (media_failed i e s)"
    "i \<notin> set (abortedMedia s) \<Longrightarrow> chat_inv (media_progress text s)"
proof -
  show "chat_inv (media_answered i text md s)"
    unfolding media_answered_def by (rule inv_end_media [OF assms update_settled [OF front [OF assms(1)]]]) simp
  have "settled (messages s)" if "i \<in> set (abortedMedia s)" using that assms by (auto simp: inv_defs)
  then show "chat_inv (media_failed i e s)"
    using inv_end_media [OF assms error_settled [OF front [OF assms(1)]]] inv_end_media [OF assms, of "messages s"]
    by (auto simp: media_failed_def handleStreamError_def)
  show "chat_inv (media_progress text s)" if "i \<notin> set (abortedMedia s)"
    using that assms update_front [of "messages s"] by (auto simp: media_progress_def inv_defs)
qed

lemma inv_stop: "chat_inv s \<Longrightarrow> canStop s \<Longrightarrow> chat_inv (stopGeneration s)"
proof -
  assume a: "chat_inv s" "canStop s"
  have m: "settled (updateLastAssistantMessage (messages s) stop_message)"
    using front [OF a(1)] by (rule update_settled) simp
  have "no_chat s" using a by (auto simp: inv_defs canStop_def)
  with a m show ?thesis
    by (auto simp: stopGeneration_def stopStream_def closeSource_def inv_defs Let_def canStop_def
        intro: settled_butlast split: option.splits)
qed

lemma settled_take: "settled ms \<Longrightarrow> settled (take n ms)"
  by (rule settled_sub) (auto dest: in_set_takeD)

lemma settled_map: "(\<And>m. pending (f m) = pending m) \<Longrightarrow> settled (map f ms) = settled ms"
  by (induction ms) auto

lemma edited_pending: "settled (edited k text ms) = settled ms" "settled (butlast (edited k text ms)) = settled (butlast ms)"
  unfolding edited_def map_butlast [symmetric] by (rule settled_map; simp add: pending_def)+

lemma inv_edit:
  assumes "chat_inv s" "submit \<longrightarrow> \<not> isGenerating s"
  shows "chat_inv (applyEdit ids k text submit r s)"
proof (cases "find_index (\<lambda>m. key m = k) (messages s)")
  case (Some i)
  have "chat_inv (s\<lparr>messages := edited k text (messages s)\<rparr>)"
    using assms(1) by (auto simp: inv_defs edited_pending)
  moreover have "chat_inv (start_request r (s\<lparr>messages := take (i + 1) (edited k text (messages s))
      @ [createLoadingAssistantMessage a b]\<rparr>))" if "submit" for a b
    using idle [OF assms(1)] assms that edited_pending(1) [of k "text" "messages s"]
    by (intro inv_start_request) (auto simp: no_stream_def no_chat_def no_media_def chat_inv_def butlast_append
        intro: settled_take)
  ultimately show ?thesis using assms(1) Some by (auto simp: applyEdit_def Let_def)
qed (use assms(1) in \<open>simp add: applyEdit_def\<close>)

lemma inv_idle_operations:
  assumes "chat_inv s" "\<not> isGenerating s"
  shows "chat_inv (handleSendMessage ids text r s)" "chat_inv (handleRegenerateMessage ids' k r s)"
    "chat_inv (handleDeleteMessage k s)"
proof -
  note i = idle [OF assms]
  have ab: "\<forall>i\<in>set (abortedMedia s). i < nextRequest s" using assms(1) by (simp add: chat_inv_def)
  show "chat_inv (handleSendMessage ids text r s)"
    using i ab by (cases ids) (auto simp: handleSendMessage_def butlast_append no_stream_def no_chat_def no_media_def
        createUserMessage_def bare_message_def pending_def intro!: inv_start_request)
  show "chat_inv (handleRegenerateMessage ids' k r s)"
    using i ab assms(1) by (auto simp: handleRegenerateMessage_def butlast_append no_stream_def no_chat_def no_media_def
        intro!: inv_start_request settled_take split: option.splits)
  show "chat_inv (handleDeleteMessage k s)"
    using i ab by (auto simp: handleDeleteMessage_def inv_defs intro: settled_sub dest!: in_set_butlastD)
qed

lemma inv_step: "chat_inv s \<Longrightarrow> enabled ev s \<Longrightarrow> intended ev s \<Longrightarrow> chat_inv (apply_event ev s)"
  using inv_idle_operations inv_edit inv_stop inv_on_message inv_chat_answers inv_media_answers inv_handleError
  by (cases ev) (auto simp: on_error_def on_readystatechange_def split: option.splits prod.splits)

lemma inv_reachable: "reachable intended ms0 s \<Longrightarrow> settled ms0 \<Longrightarrow> chat_inv s"
proof (induction rule: reachable.induct)
  case start
  then show ?case by (simp add: inv_defs initial_state_def settled_butlast)
next
  case (step s ev)
  then show ?case using inv_step by blast
qed


section \<open>Ends of requests\<close>

fun terminal :: "chat_event \<Rightarrow> bool" where
  "terminal (SseMessage _ data) = (data = js ''[DONE]'')"
| "terminal (SseError _ r _) = (r \<noteq> CLOSED)"
| "terminal (SseReady _ r h) = (case (r, h) of (Some r', Some h') \<Rightarrow> r' \<ge> CLOSED \<and> h' \<noteq> 200 | _ \<Rightarrow> False)"
| "terminal (ChatAnswer _ c) = (c \<noteq> None)"
| "terminal (ChatFail _ _) = True"
| "terminal (ResponsesAnswer _ _) = True"
| "terminal (ResponsesFail _ _) = True"
| "terminal (MediaAnswer _ _ _) = True"
| "terminal (MediaFail _ _) = True"
| "terminal _ = False"

lemma handleError_ends:
  "chat_inv s \<Longrightarrow> i \<in> set (liveSources s) \<Longrightarrow> \<not> isGenerating (handleError i e c s)"
  by (auto simp: inv_defs handleError_def closeSource_def handleStreamError_def)

lemma requests_end:
  assumes "chat_inv s"
  shows "i \<in> set (liveSources s) \<Longrightarrow> \<not> isGenerating (on_message i (js ''[DONE]'') s)"
    "i \<in> set (chatRequests s) \<Longrightarrow> \<not> isGenerating (end_chat i (s\<lparr>messages := ms\<rparr>))"
    "i \<in> set (mediaRequests s) \<Longrightarrow> \<not> isGenerating (end_media i (s\<lparr>messages := ms\<rparr>))"
    "i \<in> set (mediaRequests s) \<Longrightarrow> \<not> isGenerating (end_media i s)"
  using assms by (auto simp: on_message_def closeSource_def end_chat_def end_media_def inv_defs Let_def)

lemma answers_end:
  assumes "chat_inv s"
  shows "i \<in> set (chatRequests s) \<Longrightarrow> c \<noteq> None \<Longrightarrow> \<not> isGenerating (chat_answered i c s)"
    "i \<in> set (chatRequests s) \<Longrightarrow> \<not> isGenerating (chat_failed i e s)"
    "i \<in> set (chatRequests s) \<Longrightarrow> \<not> isGenerating (responses_answered i t s)"
    "i \<in> set (chatRequests s) \<Longrightarrow> \<not> isGenerating (responses_failed i e s)"
    "i \<in> set (mediaRequests s) \<Longrightarrow> \<not> isGenerating (media_answered i t md s)"
    "i \<in> set (mediaRequests s) \<Longrightarrow> \<not> isGenerating (media_failed i e s)"
  using requests_end(2-) [OF assms]
  by (auto simp: chat_answered_def chat_failed_def responses_answered_def responses_failed_def media_answered_def
      media_failed_def handleStreamError_def)

lemma terminal_ends:
  assumes "chat_inv s" "enabled ev s" "terminal ev"
  shows "\<not> isGenerating (apply_event ev s)"
  using assms(2,3) requests_end(1) [OF assms(1)] answers_end [OF assms(1)] handleError_ends [OF assms(1)]
  by (cases ev) (auto simp: on_error_def on_readystatechange_def simp del: js.simps split: option.splits prod.splits)

lemma terminal_exists:
  assumes "chat_inv s" "isGenerating s"
  shows "\<exists>ev. enabled ev s \<and> terminal ev"
proof -
  consider i where "i \<in> set (liveSources s)" | i where "i \<in> set (chatRequests s)" | i where "i \<in> set (mediaRequests s)"
    using assms by (auto simp: inv_defs)
  then show ?thesis
  proof cases
    case (1 i)
    then have "enabled (SseMessage i (js ''[DONE]'')) s \<and> terminal (SseMessage i (js ''[DONE]''))" by simp
    then show ?thesis by blast
  next
    case (2 i)
    then have "enabled (ResponsesAnswer i []) s \<and> terminal (ResponsesAnswer i [])" by simp
    then show ?thesis by blast
  next
    case (3 i)
    then have "enabled (MediaFail i undefined) s \<and> terminal (MediaFail i undefined)" by simp
    then show ?thesis by blast
  qed
qed

lemma terminal_intended: "terminal ev \<Longrightarrow> intended ev s"
  by (cases ev) auto


section \<open>Streamed and whole answers\<close>

lemma process_status: "processStreamingContent (m\<lparr>status := x\<rparr>) c = (processStreamingContent m c)\<lparr>status := x\<rparr>"
  by (simp add: processStreamingContent_def updateCurrentVersionContent_def Let_def)

lemma finalize_status: "finalizeMessage (m\<lparr>status := x\<rparr>) a = (finalizeMessage m a)\<lparr>status := x\<rparr>"
  by (simp add: finalizeMessage_def updateCurrentVersionContent_def Let_def)

lemma sender_process [simp]: "sender (processStreamingContent m c) = sender m"
  by (simp add: processStreamingContent_def updateCurrentVersionContent_def Let_def)

definition content_chunk :: "jsstring \<Rightarrow> json" where
  "content_chunk c = JObj [(js ''choices'', JArr [JObj [(js ''delta'', JObj [(js ''content'', JStr c)])]])]"

lemma on_chunk:
  assumes "json_parse d = Some (content_chunk c)" "d \<noteq> js ''[DONE]''" "c \<noteq> []"
    and "messages s = us @ [m]" "sender m = ASSISTANT" "status m \<noteq> Some ERROR"
  shows "messages (on_message i d s) = us @ [(processStreamingContent m (Some c))\<lparr>status := Some STREAMING\<rparr>]"
  using assms by (simp add: on_message_def content_chunk_def chunk_delta_def read_prop_def chain_first_def
      chain_prop_def obj_get_def json_truthy_def update_from_def handleStreamUpdate_def
      updateLastAssistantMessage_def stream_update_def)

lemma on_chunks:
  assumes "list_all2 (\<lambda>d c. json_parse d = Some (content_chunk c) \<and> d \<noteq> js ''[DONE]'' \<and> c \<noteq> []) ds cs"
    and "messages s = us @ [m]" "sender m = ASSISTANT" "status m \<noteq> Some ERROR" "cs \<noteq> []"
  shows "messages (foldl (\<lambda>s d. on_message i d s) s ds) = us @ [(stream m cs)\<lparr>status := Some STREAMING\<rparr>]"
  using assms
proof (induction ds cs arbitrary: s m rule: list_all2_induct)
  case (Cons d ds c cs)
  let ?m = "(processStreamingContent m (Some c))\<lparr>status := Some STREAMING\<rparr>"
  have one: "messages (on_message i d s) = us @ [?m]" using Cons by (intro on_chunk) auto
  have st: "(stream (x\<lparr>status := Some STREAMING\<rparr>) ys)\<lparr>status := Some STREAMING\<rparr>
      = (stream x ys)\<lparr>status := Some STREAMING\<rparr>" for x ys
    by (induction ys arbitrary: x) (simp_all add: stream_def process_status)
  show ?case
  proof (cases "cs = []")
    case True
    then show ?thesis using Cons one by (simp add: stream_def)
  next
    case False
    then have "messages (foldl (\<lambda>s d. on_message i d s) (on_message i d s) ds) = us @ [(stream ?m cs)\<lparr>status := Some STREAMING\<rparr>]"
      using one Cons.prems(2) by (intro Cons.IH) simp_all
    then show ?thesis by (simp add: st) (simp add: stream_def)
  qed
qed simp

lemma done_message:
  "messages s = us @ [m\<lparr>status := Some STREAMING\<rparr>] \<Longrightarrow> sender m = ASSISTANT \<Longrightarrow>
   messages (on_message i (js ''[DONE]'') s) = us @ [(finalizeMessage m None)\<lparr>status := Some COMPLETE\<rparr>]"
  by (simp add: on_message_def closeSource_def handleStreamComplete_def updateLastAssistantMessage_def
      complete_message_def finalize_status Let_def)

lemma fresh_message:
  "sender (createLoadingAssistantMessage k i) = ASSISTANT" "status (createLoadingAssistantMessage k i) = Some LOADING"
  "reasoning (createLoadingAssistantMessage k i) = None" "text_of (createLoadingAssistantMessage k i) = []"
  by (simp_all add: createLoadingAssistantMessage_def bare_message_def createMessageVersion_def
      text_of_def getCurrentVersion_def)

lemma sender_stream: "sender (stream m cs) = sender m"
  by (induction cs arbitrary: m) (simp_all add: stream_def)

section \<open>Properties\<close>

text \<open>C3: Conversation invariant: in every state that intended use reaches from settled messages, only
  the last message can be an answer in progress, it is one only while a request is open, and at
  most one request is open, the one the flags announce.\<close>

theorem conversation_invariant:
  assumes "reachable intended ms0 s" "settled ms0"
  shows "settled (butlast (messages s)) \<and> (isGenerating s \<or> settled (messages s)) \<and> single_activity s"
  using inv_reachable [OF assms] by (simp add: chat_inv_def)

definition sample_state :: chat_state where
  "sample_state = apply_event (Send (js ''a'', js ''b'', js ''c'', js ''d'') (js ''Hello'') StartStream) (initial_state [])"

lemma sample_reachable: "reachable intended [] sample_state"
  unfolding sample_state_def by (intro reachable.step reachable.start) (simp_all add: isGenerating_def initial_state_def)

theorem conversation_invariant_witness:
  "settled (butlast (messages sample_state)) \<and> (isGenerating sample_state \<or> settled (messages sample_state))
   \<and> single_activity sample_state"
  using conversation_invariant [OF sample_reachable] by simp



text \<open>C15: A streamed answer equals the whole one, through the handlers: a conversation whose fresh
  answer receives the content in chunks, each the JSON of a non-empty content delta, and then the end
  of the stream has the same messages as when the response without streaming brings the whole content.
  The proviso: the whole content has reasoning in think tags, or no beginning of it that has arrived
  at some chunk had any; it excludes the closing tag of an empty passage that is split over chunks.\<close>

theorem stream_like_response:
  assumes "messages s = us @ [createLoadingAssistantMessage k v]" "cs \<noteq> []"
    and "list_all2 (\<lambda>d c. json_parse d = Some (content_chunk c) \<and> d \<noteq> js ''[DONE]'' \<and> c \<noteq> []) ds cs"
    and "reasoning_part (parseThinkTags (concat cs)) \<noteq> []
      \<or> (\<forall>n\<le>length cs. reasoning_part (parseThinkTags (concat (take n cs))) = [])"
  shows "messages (on_message i (js ''[DONE]'') (foldl (\<lambda>s d. on_message i d s) s ds)) =
    messages (chat_answered j (Some \<lparr>choice_content = Some (concat cs), choice_reasoning = None\<rparr>) s)"
proof -
  let ?m = "createLoadingAssistantMessage k v"
  have "messages (foldl (\<lambda>s d. on_message i d s) s ds) = us @ [(stream ?m cs)\<lparr>status := Some STREAMING\<rparr>]"
    using on_chunks [OF assms(3,1) _ _ assms(2)] fresh_message by simp
  then have "messages (on_message i (js ''[DONE]'') (foldl (\<lambda>s d. on_message i d s) s ds))
      = us @ [(finalizeMessage (stream ?m cs) None)\<lparr>status := Some COMPLETE\<rparr>]"
    by (rule done_message) (simp add: sender_stream fresh_message)
  moreover have "finalizeMessage (stream ?m cs) None = finalizeMessage (updateCurrentVersionContent ?m (concat cs)) None"
    using streamed_whole [of ?m cs] assms(2,4) fresh_message by simp
  moreover have "?m\<lparr>versions := [(case versions ?m of v # _ \<Rightarrow> v | [] \<Rightarrow> \<lparr>ver_id = [], content = []\<rparr>)
      \<lparr>content := or_text (Some (concat cs)) []\<rparr>]\<rparr> = updateCurrentVersionContent ?m (concat cs)"
    by (simp add: or_text_def updateCurrentVersionContent_def getCurrentVersion_def
        createLoadingAssistantMessage_def bare_message_def)
  ultimately show ?thesis
    using assms(1) fresh_message
    by (simp add: chat_answered_def end_chat_def updateLastAssistantMessage_def with_answer_def)
qed


definition sample_chunk :: jsstring where
  \<open>sample_chunk = js ''{"choices":[{"delta":{"content":"Hi"}}]}''\<close>

lemma sample_chunk_parsed: "json_parse sample_chunk = Some (content_chunk (js ''Hi''))"
  by (simp add: sample_chunk_def json_eval content_chunk_def)


theorem stream_like_response_witness:
  "messages (on_message 0 (js ''[DONE]'') (foldl (\<lambda>s d. on_message 0 d s) sample_state [sample_chunk, sample_chunk])) =
   messages (chat_answered 0 (Some \<lparr>choice_content = Some (js ''HiHi''), choice_reasoning = None\<rparr>) sample_state)"
proof -
  have m: "messages sample_state = [createUserMessage (js ''a'') (js ''b'') (js ''Hello'')]
      @ [createLoadingAssistantMessage (js ''c'') (js ''d'')]"
    by (simp add: sample_state_def handleSendMessage_def start_request_def initial_state_def Let_def)
  have "sample_chunk \<noteq> js ''[DONE]''" by (simp add: sample_chunk_def)
  then have ds: "list_all2 (\<lambda>d c. json_parse d = Some (content_chunk c) \<and> d \<noteq> js ''[DONE]'' \<and> c \<noteq> [])
      [sample_chunk, sample_chunk] [js ''Hi'', js ''Hi'']"
    using sample_chunk_parsed by (simp del: js.simps)
  have "\<forall>n\<le>length [js ''Hi'', js ''Hi'']. reasoning_part (parseThinkTags (concat (take n [js ''Hi'', js ''Hi'']))) = []"
    by (auto simp: numeral_2_eq_2 le_Suc_eq parseThinkTags_def includes_str_def think_open_def startsWith_def)
  then show ?thesis using stream_like_response [OF m _ ds] by simp
qed

fun network :: "chat_event \<Rightarrow> bool" where
  "network (Send _ _ _) = False"
| "network (Regenerate _ _ _) = False"
| "network (Edit _ _ _ _ _) = False"
| "network (Delete _) = False"
| "network _ = True"

definition same_front :: "Message list \<Rightarrow> Message list \<Rightarrow> bool" where
  "same_front ms ns \<longleftrightarrow> butlast ns = butlast ms \<and> map key ns = map key ms \<and> map sender ns = map sender ms"

lemma same_front_refl [simp]: "same_front ms ms"
  by (simp add: same_front_def)

lemma same_front_trans: "same_front a b \<Longrightarrow> same_front b c \<Longrightarrow> same_front a c"
  by (simp add: same_front_def)

lemma same_front_update:
  assumes "\<And>m. key (f m) = key m" "\<And>m. sender (f m) = sender m"
  shows "same_front ms (updateLastAssistantMessage ms f)"
proof (cases ms rule: rev_cases)
  case (snoc ys y)
  then show ?thesis using assms by (simp add: same_front_def updateLastAssistantMessage_def)
qed (simp add: updateLastAssistantMessage_def)

lemma keeps [simp]:
  "key (updateCurrentVersionContent m t) = key m" "sender (updateCurrentVersionContent m t) = sender m"
  "key (processStreamingContent m c) = key m"
  "key (stream_update u t m) = key m" "sender (stream_update u t m) = sender m"
  "key (complete_message m) = key m" "sender (complete_message m) = sender m"
  "key (stop_message m) = key m" "sender (stop_message m) = sender m"
  "key (with_answer a m) = key m" "sender (with_answer a m) = sender m"
  by (auto simp: updateCurrentVersionContent_def processStreamingContent_def stream_update_def complete_message_def
      stop_message_def with_answer_def Let_def split: update_type.splits)

lemma same_front_error: "same_front (messages s) (messages (handleStreamError e c s))"
  unfolding handleStreamError_def updateAssistantMessageWithError_def by (simp add: same_front_update)

lemma same_front_handleError: "same_front (messages s) (messages (handleError i e c s))"
  using same_front_error by (simp add: handleError_def closeSource_def)

lemma same_front_from: "same_front ms (update_from t v ms)"
  by (simp add: update_from_def handleStreamUpdate_def same_front_update)

lemma same_front_message: "same_front (messages s) (messages (on_message i d s))"
  using same_front_handleError same_front_trans [OF same_front_from same_front_from]
  by (auto simp: on_message_def closeSource_def handleStreamComplete_def same_front_update Let_def
      split: option.splits sum.splits)

lemma same_front_stop: "same_front (messages s) (messages (stopGeneration s))"
  by (auto simp: stopGeneration_def stopStream_def closeSource_def same_front_update Let_def split: option.splits)

text \<open>Events of the network touch only the last message, and neither its key nor its sender: the
  messages before it are the same, in the same order.\<close>

theorem network_touches_last_only:
  assumes "network ev"
  shows "butlast (messages (apply_event ev s)) = butlast (messages s)
    \<and> map key (messages (apply_event ev s)) = map key (messages s)
    \<and> map sender (messages (apply_event ev s)) = map sender (messages s)"
proof -
  have "same_front (messages s) (messages (apply_event ev s))"
    using assms same_front_message same_front_handleError same_front_stop same_front_error
    by (cases ev) (auto simp: on_error_def on_readystatechange_def chat_answered_def chat_failed_def
        responses_answered_def responses_failed_def media_answered_def media_failed_def media_progress_def
        end_chat_def end_media_def same_front_update split: option.splits prod.splits)
  then show ?thesis by (simp add: same_front_def)
qed

theorem network_touches_last_only_witness:
  "butlast (messages (apply_event (SseMessage 0 (js ''[DONE]'')) sample_state)) = butlast (messages sample_state)"
  using network_touches_last_only [of "SseMessage 0 (js ''[DONE]'')"] by simp


section \<open>What breaks the invariant\<close>

lemma any_step:
  "reachable (\<lambda>_ _. True) ms0 s \<Longrightarrow> enabled ev s \<Longrightarrow> reachable (\<lambda>_ _. True) ms0 (apply_event ev s)"
  by (rule reachable.step) auto

definition empty_choices_state :: "jsstring \<times> jsstring \<times> jsstring \<times> jsstring \<Rightarrow> jsstring \<Rightarrow> chat_state" where
  "empty_choices_state ids t =
     apply_event (ChatAnswer 0 None) (apply_event (Send ids t StartChat) (initial_state []))"

text \<open>A chat response without choices leaves the answer loading: after a message has been sent
  without streaming and answered with an empty list of choices, nothing is generated any more
  and the last message still waits.\<close>

theorem empty_choices_stuck:
  "reachable (\<lambda>_ _. True) [] (empty_choices_state ids t)
   \<and> \<not> isGenerating (empty_choices_state ids t)
   \<and> pending (last (messages (empty_choices_state ids t)))"
proof -
  obtain a b c d where ids: "ids = (a, b, c, d)" by (cases ids) auto
  have "reachable (\<lambda>_ _. True) [] (empty_choices_state ids t)"
    unfolding empty_choices_state_def
    by (intro any_step reachable.start)
      (simp_all add: ids isGenerating_def initial_state_def handleSendMessage_def start_request_def Let_def)
  then show ?thesis
    by (simp add: ids empty_choices_state_def handleSendMessage_def start_request_def initial_state_def chat_answered_def
        end_chat_def isGenerating_def pending_def fresh_message Let_def)
qed

definition overlap_state :: chat_state where
  "overlap_state =
     apply_event (SseMessage 0 (js ''[DONE]''))
       (apply_event (Edit (js ''e'', js ''f'') (js ''a'') (js ''Hi'') True StartStream) sample_state)"

lemma overlap_reachable: "reachable (\<lambda>_ _. True) [] overlap_state"
  unfolding overlap_state_def sample_state_def
  by (intro any_step reachable.start)
    (simp_all add: isGenerating_def initial_state_def handleSendMessage_def start_request_def applyEdit_def edited_def
      createUserMessage_def bare_message_def Let_def)

lemma overlap_shape:
  "sseSource overlap_state = None" "liveSources overlap_state = [1]"
  "\<not> isGenerating overlap_state" "\<not> canStop overlap_state"
  "\<exists>m. messages overlap_state = butlast (messages overlap_state) @ [m] \<and> sender m = ASSISTANT \<and> status m = Some COMPLETE"
  by (simp_all add: overlap_state_def sample_state_def isGenerating_def canStop_def initial_state_def handleSendMessage_def
      start_request_def applyEdit_def edited_def createUserMessage_def bare_message_def on_message_def closeSource_def
      handleStreamComplete_def updateLastAssistantMessage_def complete_message_def fresh_message Let_def)

text \<open>The buttons of an open edit are not disabled during a generation, and submitting the edit then
  starts a second stream beside the first: when the first one ends, the conversation counts as
  finished while the second source is still open, and its next chunk turns the finished answer
  into one in progress that no control can stop.\<close>

theorem edit_during_generation:
  "reachable (\<lambda>_ _. True) [] (apply_event (SseMessage 1 sample_chunk) overlap_state)
   \<and> \<not> isGenerating (apply_event (SseMessage 1 sample_chunk) overlap_state)
   \<and> \<not> canStop (apply_event (SseMessage 1 sample_chunk) overlap_state)
   \<and> pending (last (messages (apply_event (SseMessage 1 sample_chunk) overlap_state)))"
proof -
  have d: "sample_chunk \<noteq> js ''[DONE]''" by (simp add: sample_chunk_def)
  obtain m us where m: "messages overlap_state = us @ [m]" "sender m = ASSISTANT" "status m = Some COMPLETE"
    using overlap_shape(5) by blast
  then have "pending (last (messages (on_message 1 sample_chunk overlap_state)))"
    using on_chunk [OF sample_chunk_parsed d _ m(1,2)] by (simp add: pending_def)
  moreover have "sseSource (on_message 1 sample_chunk overlap_state) = None"
    "isMediaGenerating (on_message 1 sample_chunk overlap_state) = isMediaGenerating overlap_state"
    "isChatGenerating (on_message 1 sample_chunk overlap_state) = isChatGenerating overlap_state"
    using overlap_shape(1) d sample_chunk_parsed
    by (simp_all add: on_message_def content_chunk_def chunk_delta_def read_prop_def chain_first_def
      chain_prop_def obj_get_def json_truthy_def del: js.simps)
  moreover have "reachable (\<lambda>_ _. True) [] (apply_event (SseMessage 1 sample_chunk) overlap_state)"
    by (intro any_step overlap_reachable) (simp add: overlap_shape(2))
  ultimately show ?thesis using overlap_shape(3,4) by (simp add: isGenerating_def canStop_def)
qed

end
