(* ===== verification/Reference_Files.thy ===== *)
theory Reference_Files
  imports JS_Number "HOL-Library.Word"
begin

text \<open>
  The files a user adds as references (\<open>features/creation-center/video-reference-files.ts\<close>): the media
  type of a file and the reader of MP4 files that finds the codec and the average frame rate of
  the video track.  A buffer is its list of bytes.  Every access of a \<open>DataView\<close> can throw a
  \<open>RangeError\<close>, which is the left summand.  Offsets are natural numbers: no call passes a negative
  one.  They are exact, since the size of a file is below \<open>2 ^ 53\<close>; a larger box size is refused by
  \<open>Number.isSafeInteger\<close>, on the rounded number as on the exact one.
\<close>

section \<open>Media types\<close>

record ReferenceFileLike =
  file_name :: jsstring
  file_type :: jsstring

datatype ReferenceAudioProfile = AudioDefault | MiniMaxH3Audio

datatype ReferenceImageProfile = ImageDefault | Seedance25Image

type_synonym mime_table = "(jsstring \<times> jsstring) list"

definition IMAGE_MIME_BY_EXTENSION :: mime_table where
  "IMAGE_MIME_BY_EXTENSION =
     [(js ''avif'', js ''image/avif''), (js ''gif'', js ''image/gif''), (js ''jpeg'', js ''image/jpeg''),
      (js ''jpg'', js ''image/jpeg''), (js ''png'', js ''image/png''), (js ''webp'', js ''image/webp'')]"

definition SEEDANCE_25_IMAGE_MIME_BY_EXTENSION :: mime_table where
  "SEEDANCE_25_IMAGE_MIME_BY_EXTENSION =
     [(js ''jpeg'', js ''image/jpeg''), (js ''jpg'', js ''image/jpeg''), (js ''png'', js ''image/png''),
      (js ''webp'', js ''image/webp'')]"

definition VIDEO_MIME_BY_EXTENSION :: mime_table where
  "VIDEO_MIME_BY_EXTENSION = [(js ''mp4'', js ''video/mp4'')]"

definition AUDIO_MIME_BY_EXTENSION :: mime_table where
  "AUDIO_MIME_BY_EXTENSION = [(js ''mp3'', js ''audio/mpeg''), (js ''wav'', js ''audio/wav'')]"

definition MINIMAX_H3_AUDIO_MIME_BY_EXTENSION :: mime_table where
  "MINIMAX_H3_AUDIO_MIME_BY_EXTENSION = AUDIO_MIME_BY_EXTENSION @
     [(js ''m4a'', js ''audio/mp4''), (js ''aac'', js ''audio/aac''), (js ''ogg'', js ''audio/ogg''),
      (js ''webm'', js ''audio/webm'')]"

definition AUDIO_MIME_TYPES :: "jsstring list" where
  "AUDIO_MIME_TYPES = map js [''audio/mpeg'', ''audio/mp3'', ''audio/wav'', ''audio/wave'', ''audio/x-wav'']"

definition MINIMAX_H3_AUDIO_MIME_TYPES :: "jsstring list" where
  "MINIMAX_H3_AUDIO_MIME_TYPES = AUDIO_MIME_TYPES @
     map js [''audio/mp4'', ''audio/x-m4a'', ''audio/aac'', ''audio/x-aac'', ''audio/ogg'', ''application/ogg'',
       ''audio/webm'']"

text \<open>Reading a property of an object literal finds the members of \<open>Object.prototype\<close> too.  Those are
  functions and an object: true as a condition, but no media type.\<close>

definition inherited_members :: "jsstring list" where
  "inherited_members = map js [''constructor'', ''__defineGetter__'', ''__defineSetter__'', ''hasOwnProperty'',
     ''__lookupGetter__'', ''__lookupSetter__'', ''isPrototypeOf'', ''propertyIsEnumerable'', ''toString'',
     ''valueOf'', ''__proto__'', ''toLocaleString'']"

datatype mime_value = Mime jsstring | Inherited jsstring

definition read_member :: "mime_table \<Rightarrow> jsstring \<Rightarrow> mime_value option" where
  "read_member t k =
     (case map_of t k of
        Some m \<Rightarrow> Some (Mime m)
      | None \<Rightarrow> if k \<in> set inherited_members then Some (Inherited k) else None)"

definition getReferenceMime :: "ReferenceFileLike \<Rightarrow> mime_table \<Rightarrow> jsstring list \<Rightarrow> mime_value option" where
  "getReferenceMime file mimeByExtension mimeTypes =
     (let extension = toLowerCase (last (split_unit 46 (file_name file)));
          mime = (if extension = [] then None else read_member mimeByExtension extension)
      in case mime of
           Some m \<Rightarrow> Some m
         | None \<Rightarrow> if file_type file \<in> set mimeTypes then Some (Mime (file_type file)) else None)"

definition table_mimes :: "mime_table \<Rightarrow> jsstring list" where
  "table_mimes t = map snd t"

definition getReferenceImageMime :: "ReferenceFileLike \<Rightarrow> ReferenceImageProfile \<Rightarrow> mime_value option" where
  "getReferenceImageMime file profile =
     (let t = (if profile = Seedance25Image then SEEDANCE_25_IMAGE_MIME_BY_EXTENSION else IMAGE_MIME_BY_EXTENSION)
      in getReferenceMime file t (table_mimes t))"

definition getReferenceVideoMime :: "ReferenceFileLike \<Rightarrow> mime_value option" where
  "getReferenceVideoMime file =
     getReferenceMime file VIDEO_MIME_BY_EXTENSION (table_mimes VIDEO_MIME_BY_EXTENSION)"

definition getReferenceAudioMime :: "ReferenceFileLike \<Rightarrow> ReferenceAudioProfile \<Rightarrow> mime_value option" where
  "getReferenceAudioMime file profile =
     (if profile = MiniMaxH3Audio
      then getReferenceMime file MINIMAX_H3_AUDIO_MIME_BY_EXTENSION MINIMAX_H3_AUDIO_MIME_TYPES
      else getReferenceMime file AUDIO_MIME_BY_EXTENSION AUDIO_MIME_TYPES)"

definition truthy_mime :: "mime_value option \<Rightarrow> bool" where
  "truthy_mime m = (case m of None \<Rightarrow> False | Some (Mime s) \<Rightarrow> s \<noteq> [] | Some (Inherited _) \<Rightarrow> True)"

definition isReferenceImageFile :: "ReferenceFileLike \<Rightarrow> ReferenceImageProfile \<Rightarrow> bool" where
  "isReferenceImageFile file profile = truthy_mime (getReferenceImageMime file profile)"

definition isReferenceVideoFile :: "ReferenceFileLike \<Rightarrow> bool" where
  "isReferenceVideoFile file = truthy_mime (getReferenceVideoMime file)"

definition isReferenceAudioFile :: "ReferenceFileLike \<Rightarrow> ReferenceAudioProfile \<Rightarrow> bool" where
  "isReferenceAudioFile file profile = truthy_mime (getReferenceAudioMime file profile)"

section \<open>Reading bytes\<close>

type_synonym bytes = "8 word list"

datatype read_error = RangeError

definition getUint8 :: "bytes \<Rightarrow> nat \<Rightarrow> read_error + nat" where
  "getUint8 view offset = (if offset + 1 \<le> length view then Inr (unat (view ! offset)) else Inl RangeError)"

definition be32 :: "bytes \<Rightarrow> nat \<Rightarrow> nat" where
  "be32 bs i = ((unat (bs ! i) * 256 + unat (bs ! (i + 1))) * 256 + unat (bs ! (i + 2))) * 256
     + unat (bs ! (i + 3))"

definition getUint32 :: "bytes \<Rightarrow> nat \<Rightarrow> read_error + nat" where
  "getUint32 view offset = (if offset + 4 \<le> length view then Inr (be32 view offset) else Inl RangeError)"

definition readFourCC :: "bytes \<Rightarrow> nat \<Rightarrow> read_error + jsstring" where
  "readFourCC view offset =
     (if offset + 4 > length view then Inr []
      else bind_sum (getUint8 view offset) (\<lambda>a. bind_sum (getUint8 view (offset + 1)) (\<lambda>b.
           bind_sum (getUint8 view (offset + 2)) (\<lambda>c. bind_sum (getUint8 view (offset + 3)) (\<lambda>d.
             Inr [a, b, c, d])))))"

section \<open>Boxes\<close>

record Mp4Box =
  box_type :: jsstring
  box_start :: nat
  contentStart :: nat
  box_end :: nat

definition max_safe :: nat where
  "max_safe = 9007199254740991"

definition readMp4Box :: "bytes \<Rightarrow> nat \<Rightarrow> nat \<Rightarrow> read_error + Mp4Box option" where
  "readMp4Box view offset limit =
     (if offset + 8 > limit \<or> limit > length view then Inr None
      else bind_sum (getUint32 view offset) (\<lambda>size32.
           bind_sum (readFourCC view (offset + 4)) (\<lambda>type.
           bind_sum
             (if size32 = 1 then
                if offset + 16 > limit then Inr None
                else bind_sum (getUint32 view (offset + 8)) (\<lambda>high. bind_sum (getUint32 view (offset + 12)) (\<lambda>low.
                       Inr (Some (high * 2 ^ 32 + low, 16))))
              else if size32 = 0 then Inr (Some (limit - offset, 8))
              else Inr (Some (size32, 8)))
             (\<lambda>sized. Inr (case sized of
                None \<Rightarrow> None
              | Some (boxSize, headerSize) \<Rightarrow>
                  if type = [] \<or> boxSize > max_safe \<or> boxSize < headerSize \<or> offset + boxSize > limit then None
                  else Some \<lparr>box_type = type, box_start = offset, contentStart = offset + headerSize,
                    box_end = offset + boxSize\<rparr>)))))"

function children_from :: "bytes \<Rightarrow> nat \<Rightarrow> nat \<Rightarrow> read_error + Mp4Box list" where
  "children_from view limit offset =
     (if offset + 8 \<le> limit then
        (case readMp4Box view offset limit of
           Inl e \<Rightarrow> Inl e
         | Inr None \<Rightarrow> Inr []
         | Inr (Some child) \<Rightarrow>
             if box_end child \<le> offset then Inr [child]
             else map_sum id (Cons child) (children_from view limit (box_end child)))
      else Inr [])"
  by pat_completeness auto
termination
  by (relation "measure (\<lambda>(view, limit, offset). limit - offset)") auto

declare children_from.simps [simp del]

definition getMp4Children :: "bytes \<Rightarrow> Mp4Box \<Rightarrow> read_error + Mp4Box list" where
  "getMp4Children view parent = children_from view (box_end parent) (contentStart parent)"

definition getMp4Child :: "bytes \<Rightarrow> Mp4Box \<Rightarrow> string \<Rightarrow> read_error + Mp4Box option" where
  "getMp4Child view parent type = map_sum id (find (\<lambda>b. box_type b = js type)) (getMp4Children view parent)"

section \<open>The fields of a video track\<close>

definition getMp4TrackTimescale :: "bytes \<Rightarrow> Mp4Box \<Rightarrow> read_error + nat option" where
  "getMp4TrackTimescale view mdhd =
     (if contentStart mdhd + 4 > box_end mdhd then Inr None
      else bind_sum (getUint8 view (contentStart mdhd)) (\<lambda>version.
        let timescaleOffset = contentStart mdhd + (if version = 1 then 20 else 12)
        in if timescaleOffset + 4 > box_end mdhd then Inr None
           else bind_sum (getUint32 view timescaleOffset) (\<lambda>timescale.
             Inr (if timescale > 0 then Some timescale else None))))"

definition getMp4SampleEntryCodec :: "bytes \<Rightarrow> Mp4Box \<Rightarrow> read_error + jsstring option" where
  "getMp4SampleEntryCodec view stsd =
     (let entryCountOffset = contentStart stsd + 4; firstEntryOffset = contentStart stsd + 8
      in if entryCountOffset + 4 > box_end stsd \<or> firstEntryOffset + 8 > box_end stsd then Inr None
         else bind_sum (getUint32 view entryCountOffset) (\<lambda>entryCount.
           if entryCount < 1 then Inr None
           else map_sum id (map_option box_type) (readMp4Box view firstEntryOffset (box_end stsd))))"

text \<open>The loop over the \<open>n\<close> remaining entries: the sums are numbers, rounded as in the code.\<close>

fun frame_sums :: "bytes \<Rightarrow> nat \<Rightarrow> nat \<Rightarrow> nat \<Rightarrow> jsnum \<Rightarrow> jsnum \<Rightarrow> read_error + (jsnum \<times> jsnum) option" where
  "frame_sums view limit 0 offset sampleCount totalTicks = Inr (Some (sampleCount, totalTicks))"
| "frame_sums view limit (Suc n) offset sampleCount totalTicks =
     (if offset + 8 > limit then Inr None
      else bind_sum (getUint32 view offset) (\<lambda>count. bind_sum (getUint32 view (offset + 4)) (\<lambda>delta.
        frame_sums view limit n (offset + 8) (js_add sampleCount (num count))
          (js_add totalTicks (js_mul (num count) (num delta))))))"

definition getMp4AverageFrameRate :: "bytes \<Rightarrow> Mp4Box \<Rightarrow> nat \<Rightarrow> read_error + jsnum option" where
  "getMp4AverageFrameRate view stts timescale =
     (let entryCountOffset = contentStart stts + 4
      in if entryCountOffset + 4 > box_end stts then Inr None
         else bind_sum (getUint32 view entryCountOffset) (\<lambda>entryCount.
           map_sum id (\<lambda>totals. case totals of
               None \<Rightarrow> None
             | Some (sampleCount, totalTicks) \<Rightarrow>
                 if js_le sampleCount (Fin 0) \<or> js_le totalTicks (Fin 0) then None
                 else Some (js_div (js_mul sampleCount (num timescale)) totalTicks))
             (frame_sums view (box_end stts) entryCount (contentStart stts + 8) (Fin 0) (Fin 0))))"

record ReferenceMp4VideoMetadata =
  codec :: jsstring
  frameRate :: jsnum

definition child_of :: "bytes \<Rightarrow> Mp4Box option \<Rightarrow> string \<Rightarrow> read_error + Mp4Box option" where
  "child_of view parent type = (case parent of None \<Rightarrow> Inr None | Some b \<Rightarrow> getMp4Child view b type)"

definition track_values :: "bytes \<Rightarrow> Mp4Box \<Rightarrow> Mp4Box \<Rightarrow> Mp4Box \<Rightarrow> read_error + ReferenceMp4VideoMetadata option" where
  "track_values view mdhd stsd stts =
     bind_sum (getMp4TrackTimescale view mdhd) (\<lambda>timescale.
     bind_sum (getMp4SampleEntryCodec view stsd) (\<lambda>c.
     bind_sum (case timescale of None \<Rightarrow> Inr None | Some ts \<Rightarrow> getMp4AverageFrameRate view stts ts) (\<lambda>rate.
       Inr (case (c, rate) of
          (Some c', Some r) \<Rightarrow>
            if c' = [] \<or> \<not> js_truthy_num r \<or> \<not> js_isFinite r then None else Some \<lparr>codec = c', frameRate = r\<rparr>
        | _ \<Rightarrow> None))))"

definition media_values :: "bytes \<Rightarrow> Mp4Box \<Rightarrow> read_error + ReferenceMp4VideoMetadata option" where
  "media_values view mdia =
     bind_sum (getMp4Child view mdia ''mdhd'') (\<lambda>mdhd. bind_sum (getMp4Child view mdia ''minf'') (\<lambda>minf.
     bind_sum (child_of view minf ''stbl'') (\<lambda>stbl. bind_sum (child_of view stbl ''stsd'') (\<lambda>stsd.
     bind_sum (child_of view stbl ''stts'') (\<lambda>stts.
       case (mdhd, stsd, stts) of (Some h, Some d, Some s) \<Rightarrow> track_values view h d s | _ \<Rightarrow> Inr None)))))"

definition track_metadata :: "bytes \<Rightarrow> Mp4Box \<Rightarrow> read_error + ReferenceMp4VideoMetadata option" where
  "track_metadata view track =
     bind_sum (getMp4Child view track ''mdia'') (\<lambda>found.
       case found of None \<Rightarrow> Inr None | Some mdia \<Rightarrow>
     bind_sum (getMp4Child view mdia ''hdlr'') (\<lambda>found'.
       case found' of None \<Rightarrow> Inr None | Some hdlr \<Rightarrow>
     bind_sum (readFourCC view (contentStart hdlr + 8)) (\<lambda>handlerType.
       if handlerType \<noteq> js ''vide'' then Inr None else media_values view mdia)))"

fun first_track :: "bytes \<Rightarrow> Mp4Box list \<Rightarrow> read_error + ReferenceMp4VideoMetadata option" where
  "first_track view [] = Inr None"
| "first_track view (t # ts) =
     bind_sum (track_metadata view t) (\<lambda>m. case m of None \<Rightarrow> first_track view ts | Some _ \<Rightarrow> Inr m)"

definition parseReferenceMp4VideoMetadata :: "bytes \<Rightarrow> read_error + ReferenceMp4VideoMetadata option" where
  "parseReferenceMp4VideoMetadata view =
     bind_sum (readMp4Box view 0 (length view)) (\<lambda>box.
       case box of
         None \<Rightarrow> Inr None
       | Some moov \<Rightarrow>
           if box_type moov \<noteq> js ''moov'' then Inr None
           else bind_sum (getMp4Children view moov) (\<lambda>boxes.
             first_track view (filter (\<lambda>b. box_type b = js ''trak'') boxes)))"

section \<open>Finding the movie box in a file\<close>

text \<open>The header of the box at an offset of a file: its type, its size and the size of its header.\<close>

definition file_box :: "bytes \<Rightarrow> nat \<Rightarrow> read_error + (jsstring \<times> nat) option" where
  "file_box file offset =
     (let header = Prelude.slice offset (min (offset + 16) (length file)) file
      in bind_sum (getUint32 header 0) (\<lambda>size32.
         bind_sum (readFourCC header 4) (\<lambda>type.
         bind_sum
           (if size32 = 1 then
              if length header < 16 then Inr None
              else bind_sum (getUint32 header 8) (\<lambda>high. bind_sum (getUint32 header 12) (\<lambda>low.
                     Inr (Some (high * 2 ^ 32 + low, 16))))
            else if size32 = 0 then Inr (Some (length file - offset, 8))
            else Inr (Some (size32, 8)))
           (\<lambda>sized. Inr (case sized of
              None \<Rightarrow> None
            | Some (boxSize, headerSize) \<Rightarrow>
                if type = [] \<or> boxSize > max_safe \<or> boxSize < headerSize \<or> offset + boxSize > length file
                then None else Some (type, boxSize))))))"

function find_moov :: "bytes \<Rightarrow> nat \<Rightarrow> read_error + bytes option" where
  "find_moov file offset =
     (if offset + 8 \<le> length file then
        (case file_box file offset of
           Inl e \<Rightarrow> Inl e
         | Inr None \<Rightarrow> Inr None
         | Inr (Some (type, boxSize)) \<Rightarrow>
             if type = js ''moov'' then
               (if boxSize > 32 * 1024 * 1024 then Inr None else Inr (Some (Prelude.slice offset (offset + boxSize) file)))
             else if boxSize \<le> 0 then Inr None
             else find_moov file (offset + boxSize))
      else Inr None)"
  by pat_completeness auto
termination
  by (relation "measure (\<lambda>(file, offset). length file - offset)") auto

declare find_moov.simps [simp del]

definition findMp4MoovBox :: "bytes \<Rightarrow> read_error + bytes option" where
  "findMp4MoovBox file = find_moov file 0"

definition getReferenceMp4VideoMetadata :: "bytes \<Rightarrow> read_error + ReferenceMp4VideoMetadata option" where
  "getReferenceMp4VideoMetadata file =
     bind_sum (findMp4MoovBox file) (\<lambda>moovBuffer.
       case moovBuffer of None \<Rightarrow> Inr None | Some b \<Rightarrow> parseReferenceMp4VideoMetadata b)"

definition isSeedance25ReferenceVideoMetadata :: "ReferenceMp4VideoMetadata option \<Rightarrow> bool" where
  "isSeedance25ReferenceVideoMetadata metadata =
     (case metadata of
        None \<Rightarrow> False
      | Some m \<Rightarrow>
          if codec m \<notin> {js ''avc1'', js ''avc3''} then False
          else list_ex (\<lambda>r. js_le (js_abs (js_sub (frameRate m) (num r))) (round64 (1 / 10))) [24, 25, 30])"

end
