(* ===== verification/Reference_Files_Props.thy ===== *)
theory Reference_Files_Props
  imports Reference_Files
begin

text \<open>
  The reader of MP4 files accesses no byte out of range, whatever the file holds.
\<close>

section \<open>No access out of range\<close>

lemma getUint32_ok: "offset + 4 \<le> length v \<Longrightarrow> getUint32 v offset = Inr (be32 v offset)"
  by (simp add: getUint32_def)

lemma getUint8_ok: "offset + 1 \<le> length v \<Longrightarrow> getUint8 v offset = Inr (unat (v ! offset))"
  by (simp add: getUint8_def)

definition fourcc_at :: "bytes \<Rightarrow> nat \<Rightarrow> jsstring" where
  "fourcc_at v i = map (\<lambda>j. unat (v ! (i + j))) [0, 1, 2, 3]"

lemma readFourCC_eq: "readFourCC v i = Inr (if i + 4 > length v then [] else fourcc_at v i)"
  by (simp add: readFourCC_def getUint8_def fourcc_at_def)

text \<open>The header of a box: its size with the size of the header.\<close>

definition box_sizes :: "bytes \<Rightarrow> nat \<Rightarrow> nat \<Rightarrow> (nat \<times> nat) option" where
  "box_sizes v i limit =
     (if be32 v i = 1 then
        (if i + 16 > limit then None else Some (be32 v (i + 8) * 2 ^ 32 + be32 v (i + 12), 16))
      else if be32 v i = 0 then Some (limit - i, 8) else Some (be32 v i, 8))"

definition box_from :: "bytes \<Rightarrow> nat \<Rightarrow> nat \<Rightarrow> Mp4Box option" where
  "box_from v i limit =
     (case box_sizes v i limit of
        None \<Rightarrow> None
      | Some (s, h) \<Rightarrow>
          if s > max_safe \<or> s < h \<or> i + s > limit then None
          else Some \<lparr>box_type = fourcc_at v (i + 4), box_start = i, contentStart = i + h, box_end = i + s\<rparr>)"

lemma fourcc_at_nonempty [simp]: "fourcc_at v i \<noteq> []" "length (fourcc_at v i) = 4"
  by (simp_all add: fourcc_at_def)

lemma readMp4Box_eq:
  "readMp4Box v i limit = Inr (if i + 8 > limit \<or> limit > length v then None else box_from v i limit)"
  by (simp add: readMp4Box_def readFourCC_eq getUint32_def box_from_def box_sizes_def)

lemma box_from_bounds:
  "box_from v i limit = Some b \<Longrightarrow>
     box_start b = i \<and> i + 8 \<le> contentStart b \<and> contentStart b \<le> box_end b \<and> box_end b \<le> limit"
  by (auto simp: box_from_def box_sizes_def split: option.splits if_splits)

definition in_view :: "bytes \<Rightarrow> Mp4Box \<Rightarrow> bool" where
  "in_view v b \<longleftrightarrow> contentStart b \<le> box_end b \<and> box_end b \<le> length v"

lemma readMp4Box_in_view: "readMp4Box v i limit = Inr (Some b) \<Longrightarrow> in_view v b"
  using box_from_bounds [of v i limit b] by (auto simp: readMp4Box_eq in_view_def split: if_splits)

lemma children_from_ok:
  "\<exists>bs. children_from v limit i = Inr bs \<and> (\<forall>b\<in>set bs. in_view v b)"
proof (induction v limit i rule: children_from.induct)
  case (1 v limit i)
  show ?case
  proof (cases "i + 8 \<le> limit")
    case False
    then show ?thesis by (subst children_from.simps) simp
  next
    case True
    obtain r where r: "readMp4Box v i limit = Inr r" by (simp add: readMp4Box_eq)
    show ?thesis
    proof (cases r)
      case None
      then show ?thesis using True r by (subst children_from.simps) simp
    next
      case (Some b)
      have b: "in_view v b" using r Some by (simp add: readMp4Box_in_view)
      show ?thesis
      proof (cases "box_end b \<le> i")
        case True
        then show ?thesis using b r Some \<open>i + 8 \<le> limit\<close> by (subst children_from.simps) simp
      next
        case False
        obtain bs where "children_from v limit (box_end b) = Inr bs" "\<forall>b\<in>set bs. in_view v b"
          using 1 [OF True r Some False] by blast
        then show ?thesis using b False True r Some by (subst children_from.simps) auto
      qed
    qed
  qed
qed

lemma getMp4Children_ok: "\<exists>bs. getMp4Children v p = Inr bs \<and> (\<forall>b\<in>set bs. in_view v b)"
  by (simp add: getMp4Children_def children_from_ok)

lemma find_in_set: "find P xs = Some x \<Longrightarrow> x \<in> set xs"
  by (auto simp: find_Some_iff)

lemma getMp4Child_ok: "\<exists>r. getMp4Child v p t = Inr r \<and> (\<forall>b. r = Some b \<longrightarrow> in_view v b)"
  using getMp4Children_ok [of v p] by (fastforce simp: getMp4Child_def dest: find_in_set)

lemma child_of_ok: "\<exists>r. child_of v p t = Inr r \<and> (\<forall>b. r = Some b \<longrightarrow> in_view v b)"
  using getMp4Child_ok [of v _ t] by (cases p) (auto simp: child_of_def)

lemma timescale_returns: "in_view v b \<Longrightarrow> returns (getMp4TrackTimescale v b)"
  by (auto simp: getMp4TrackTimescale_def in_view_def getUint8_def getUint32_def Let_def returns_def)

lemma codec_returns: "in_view v b \<Longrightarrow> returns (getMp4SampleEntryCodec v b)"
  by (auto simp: getMp4SampleEntryCodec_def in_view_def getUint32_def readMp4Box_eq Let_def returns_def)

lemma frame_sums_returns: "limit \<le> length v \<Longrightarrow> returns (frame_sums v limit n i s t)"
  by (induction n arbitrary: i s t) (simp_all add: getUint32_def)

lemma rate_returns: "in_view v b \<Longrightarrow> returns (getMp4AverageFrameRate v b ts)"
  by (auto simp: getMp4AverageFrameRate_def in_view_def getUint32_def Let_def intro: frame_sums_returns)

lemma track_values_returns:
  "in_view v h \<Longrightarrow> in_view v d \<Longrightarrow> in_view v s \<Longrightarrow> returns (track_values v h d s)"
  unfolding track_values_def
  by (intro returns_bind timescale_returns codec_returns)
     (auto intro: rate_returns split: option.split)

lemma media_values_returns: "returns (media_values v m)"
proof -
  obtain mdhd where mdhd: "getMp4Child v m ''mdhd'' = Inr mdhd" "\<forall>b. mdhd = Some b \<longrightarrow> in_view v b"
    using getMp4Child_ok [of v m "''mdhd''"] by blast
  obtain minf where minf: "getMp4Child v m ''minf'' = Inr minf"
    using getMp4Child_ok [of v m "''minf''"] by blast
  obtain stbl where stbl: "child_of v minf ''stbl'' = Inr stbl"
    using child_of_ok [of v minf "''stbl''"] by blast
  obtain stsd where stsd: "child_of v stbl ''stsd'' = Inr stsd" "\<forall>b. stsd = Some b \<longrightarrow> in_view v b"
    using child_of_ok [of v stbl "''stsd''"] by blast
  obtain stts where stts: "child_of v stbl ''stts'' = Inr stts" "\<forall>b. stts = Some b \<longrightarrow> in_view v b"
    using child_of_ok [of v stbl "''stts''"] by blast
  show ?thesis
    using mdhd(2) stsd(2) stts(2)
    by (auto simp: media_values_def mdhd(1) minf stbl stsd(1) stts(1) intro: track_values_returns split: option.split)
qed

lemma track_metadata_returns: "returns (track_metadata v b)"
proof -
  obtain mdia where mdia: "getMp4Child v b ''mdia'' = Inr mdia"
    using getMp4Child_ok [of v b "''mdia''"] by blast
  have "\<exists>r. getMp4Child v m ''hdlr'' = Inr r" for m using getMp4Child_ok [of v m "''hdlr''"] by blast
  then show ?thesis
    unfolding track_metadata_def mdia bind_sum_simps
    by (cases mdia) (auto intro!: returns_bind media_values_returns simp: readFourCC_eq returns_def [of "getMp4Child _ _ _"]
        simp del: js.simps split: option.split)
qed

lemma first_track_returns: "returns (first_track v ts)"
proof (induction ts)
  case (Cons t ts)
  obtain m where "track_metadata v t = Inr m" using track_metadata_returns [of v t] by (auto simp: returns_def)
  then show ?case using Cons by (simp split: option.split)
qed simp

lemma parse_returns: "returns (parseReferenceMp4VideoMetadata v)"
proof -
  obtain r where r: "readMp4Box v 0 (length v) = Inr r" by (simp add: readMp4Box_eq)
  show ?thesis
  proof (cases r)
    case (Some moov)
    obtain bs where "getMp4Children v moov = Inr bs" using getMp4Children_ok by blast
    then show ?thesis using r Some
      by (simp add: parseReferenceMp4VideoMetadata_def first_track_returns del: js.simps)
  qed (simp add: parseReferenceMp4VideoMetadata_def r)
qed

lemma file_box_eq:
  assumes "i + 8 \<le> length f"
  shows "file_box f i = Inr (map_option (\<lambda>b. (box_type b, box_end b - i)) (box_from f i (length f)))"
proof -
  define h where "h = Prelude.slice i (min (i + 16) (length f)) f"
  have len: "length h = min 16 (length f - i)" by (auto simp: h_def Prelude.slice_def)
  have nth: "h ! j = f ! (i + j)" if "j < length h" for j
    using that by (simp add: h_def Prelude.slice_def)
  have be: "be32 h j = be32 f (i + j)" if "j + 4 \<le> length h" for j
    using that by (simp add: be32_def nth add.assoc)
  have cc: "fourcc_at h j = fourcc_at f (i + j)" if "j + 4 \<le> length h" for j
    using that by (simp add: fourcc_at_def nth add.assoc)
  have len8: "8 \<le> length h" and len16: "16 \<le> length h \<longleftrightarrow> i + 16 \<le> length f" using len assms by auto
  have sizes: "be32 h 0 = be32 f i" "fourcc_at h 4 = fourcc_at f (i + 4)" using be [of 0] cc [of 4] len8 by auto
  have far: "be32 h 8 = be32 f (i + 8)" "be32 h 12 = be32 f (i + 12)" if "i + 16 \<le> length f"
    using be [of 8] be [of 12] that len16 by auto
  show ?thesis
    unfolding file_box_def h_def [symmetric] Let_def
    using len8 len16 far
    by (auto simp: readFourCC_eq getUint32_def sizes box_from_def box_sizes_def)
qed

lemma find_moov_returns: "returns (find_moov f i)"
proof (induction f i rule: find_moov.induct)
  case (1 f i)
  show ?case
  proof (cases "i + 8 \<le> length f")
    case True
    show ?thesis
      using 1 [OF True] True
      by (subst find_moov.simps) (auto simp: file_box_eq simp del: js.simps split: option.split)
  qed (subst find_moov.simps; simp)
qed

text \<open>C27: The reader of reference videos never reads outside of a buffer: whatever bytes a file has,
  \<open>getReferenceMp4VideoMetadata\<close> ends with an answer and no access of a \<open>DataView\<close> throws.\<close>

theorem mp4_reads_in_range: "\<exists>metadata. getReferenceMp4VideoMetadata f = Inr metadata"
proof -
  obtain b where "findMp4MoovBox f = Inr b"
    using find_moov_returns [of f 0] by (auto simp: findMp4MoovBox_def returns_def)
  then show ?thesis
    using parse_returns by (cases b) (auto simp: getReferenceMp4VideoMetadata_def returns_def)
qed

end
