(* ===== verification/Reference_Files_Tree.thy ===== *)
theory Reference_Files_Tree
  imports Reference_Files_Props
begin

text \<open>
  An MP4 file as a tree of boxes, its encoding, and what the tree says of the video.  Reading the
  encoding gives what the tree says.
\<close>

section \<open>The encoding of boxes\<close>

text \<open>A tree of boxes: containers, the four boxes whose fields are read, and any other box.  The flag
  of a box says whether its size is written with 64 bits.\<close>

datatype mp4 =
    Leaf (large: bool) jsstring bytes
  | Node (large: bool) jsstring "mp4 list"
  | MediaHeader (large: bool) "8 word" bytes nat bytes
  | Handler (large: bool) bytes jsstring bytes
  | SampleEntries (large: bool) bytes nat "mp4 list"
  | TimeToSample (large: bool) bytes "(nat \<times> nat) list" bytes

definition u32 :: "nat \<Rightarrow> bytes" where
  "u32 n = map (\<lambda>k. word_of_nat (n div 2 ^ k)) [24, 16, 8, 0]"

definition fourcc :: "jsstring \<Rightarrow> bytes" where
  "fourcc t = map word_of_nat t"

definition framed :: "bool \<Rightarrow> jsstring \<Rightarrow> bytes \<Rightarrow> bytes" where
  "framed l t c =
     (let n = length c
      in (if l then u32 1 @ fourcc t @ u32 ((n + 16) div 2 ^ 32) @ u32 ((n + 16) mod 2 ^ 32)
          else u32 (n + 8) @ fourcc t) @ c)"

primrec mtype :: "mp4 \<Rightarrow> jsstring" where
  "mtype (Leaf l t c) = t"
| "mtype (Node l t bs) = t"
| "mtype (MediaHeader l v ts n r) = js ''mdhd''"
| "mtype (Handler l p t r) = js ''hdlr''"
| "mtype (SampleEntries l f n bs) = js ''stsd''"
| "mtype (TimeToSample l f es r) = js ''stts''"

definition entry_bytes :: "nat \<times> nat \<Rightarrow> bytes" where
  "entry_bytes e = u32 (fst e) @ u32 (snd e)"

primrec encode :: "mp4 \<Rightarrow> bytes" where
  "encode (Leaf l t c) = framed l t c"
| "encode (Node l t bs) = framed l t (concat (map encode bs))"
| "encode (MediaHeader l v ts n r) = framed l (js ''mdhd'') (v # ts @ u32 n @ r)"
| "encode (Handler l p t r) = framed l (js ''hdlr'') (p @ fourcc t @ r)"
| "encode (SampleEntries l f n bs) = framed l (js ''stsd'') (f @ u32 n @ concat (map encode bs))"
| "encode (TimeToSample l f es r) =
     framed l (js ''stts'') (f @ u32 (length es) @ concat (map entry_bytes es) @ r)"

primrec payload :: "mp4 \<Rightarrow> bytes" where
  "payload (Leaf l t c) = c"
| "payload (Node l t bs) = concat (map encode bs)"
| "payload (MediaHeader l v ts n r) = v # ts @ u32 n @ r"
| "payload (Handler l p t r) = p @ fourcc t @ r"
| "payload (SampleEntries l f n bs) = f @ u32 n @ concat (map encode bs)"
| "payload (TimeToSample l f es r) = f @ u32 (length es) @ concat (map entry_bytes es) @ r"

lemma encode_framed: "encode b = framed (large b) (mtype b) (payload b)"
  by (cases b) simp_all

text \<open>Well-formed boxes: four letters, sizes that fit, and the fields where the format has them.\<close>

definition good_type :: "jsstring \<Rightarrow> bool" where
  "good_type t \<longleftrightarrow> length t = 4 \<and> list_all (\<lambda>u. u < 256) t"

definition good_frame :: "mp4 \<Rightarrow> bool" where
  "good_frame b \<longleftrightarrow> good_type (mtype b)
     \<and> (if large b then length (payload b) + 16 \<le> max_safe else length (payload b) + 8 < 2 ^ 32)"

definition field_types :: "jsstring list" where
  "field_types = map js [''mdhd'', ''hdlr'', ''stsd'', ''stts'']"

definition container_types :: "jsstring list" where
  "container_types = map js [''moov'', ''trak'', ''mdia'', ''minf'', ''stbl'']"

primrec wf_box :: "mp4 \<Rightarrow> bool" where
  "wf_box (Leaf l t c) \<longleftrightarrow> good_frame (Leaf l t c) \<and> t \<notin> set field_types \<and> t \<notin> set container_types"
| "wf_box (Node l t bs) \<longleftrightarrow> good_frame (Node l t bs) \<and> t \<notin> set field_types \<and> list_all id (map wf_box bs)"
| "wf_box (MediaHeader l v ts n r) \<longleftrightarrow> good_frame (MediaHeader l v ts n r)
     \<and> length ts = (if v = 1 then 19 else 11) \<and> n < 2 ^ 32"
| "wf_box (Handler l p t r) \<longleftrightarrow> good_frame (Handler l p t r) \<and> length p = 8 \<and> good_type t"
| "wf_box (SampleEntries l f n bs) \<longleftrightarrow> good_frame (SampleEntries l f n bs) \<and> length f = 4 \<and> n < 2 ^ 32
     \<and> list_all id (map wf_box bs) \<and> (n = 0 \<or> bs \<noteq> [])"
| "wf_box (TimeToSample l f es r) \<longleftrightarrow> good_frame (TimeToSample l f es r) \<and> length f = 4
     \<and> length es < 2 ^ 32 \<and> list_all (\<lambda>(c, d). c < 2 ^ 32 \<and> d < 2 ^ 32) es"

lemma wf_good_frame: "wf_box b \<Longrightarrow> good_frame b"
  by (cases b) simp_all

section \<open>What a tree says\<close>

primrec boxes :: "mp4 \<Rightarrow> mp4 list" where
  "boxes (Leaf l t c) = []"
| "boxes (Node l t bs) = bs"
| "boxes (MediaHeader l v ts n r) = []"
| "boxes (Handler l p t r) = []"
| "boxes (SampleEntries l f n bs) = []"
| "boxes (TimeToSample l f es r) = []"

definition part :: "string \<Rightarrow> mp4 \<Rightarrow> mp4 option" where
  "part t b = find (\<lambda>c. mtype c = js t) (boxes b)"

definition total_samples :: "(nat \<times> nat) list \<Rightarrow> jsnum" where
  "total_samples es = foldl (\<lambda>s (c, d). js_add s (num c)) (Fin 0) es"

definition total_ticks :: "(nat \<times> nat) list \<Rightarrow> jsnum" where
  "total_ticks es = foldl (\<lambda>s (c, d). js_add s (js_mul (num c) (num d))) (Fin 0) es"

definition frame_rate :: "nat \<Rightarrow> (nat \<times> nat) list \<Rightarrow> jsnum option" where
  "frame_rate timescale es =
     (if js_le (total_samples es) (Fin 0) \<or> js_le (total_ticks es) (Fin 0) then None
      else Some (js_div (js_mul (total_samples es) (num timescale)) (total_ticks es)))"

definition usable :: "jsstring \<Rightarrow> jsnum \<Rightarrow> ReferenceMp4VideoMetadata option" where
  "usable c r = (if js_truthy_num r \<and> js_isFinite r then Some \<lparr>codec = c, frameRate = r\<rparr> else None)"

definition values_of :: "mp4 \<Rightarrow> mp4 \<Rightarrow> mp4 \<Rightarrow> ReferenceMp4VideoMetadata option" where
  "values_of h d s =
     (case (h, d, s) of
        (MediaHeader _ _ _ timescale _, SampleEntries _ _ n (entry # _), TimeToSample _ _ es _) \<Rightarrow>
          if timescale = 0 \<or> n = 0 then None
          else (case frame_rate timescale es of None \<Rightarrow> None | Some r \<Rightarrow> usable (mtype entry) r)
      | _ \<Rightarrow> None)"

definition media_says :: "mp4 \<Rightarrow> ReferenceMp4VideoMetadata option" where
  "media_says mdia =
     (case (part ''mdhd'' mdia, part ''minf'' mdia) of
        (Some mdhd, Some minf) \<Rightarrow>
          (case part ''stbl'' minf of None \<Rightarrow> None | Some stbl \<Rightarrow>
           (case (part ''stsd'' stbl, part ''stts'' stbl) of
              (Some stsd, Some stts) \<Rightarrow> values_of mdhd stsd stts
            | _ \<Rightarrow> None))
      | _ \<Rightarrow> None)"

definition track_says :: "mp4 \<Rightarrow> ReferenceMp4VideoMetadata option" where
  "track_says track =
     (case part ''mdia'' track of None \<Rightarrow> None | Some mdia \<Rightarrow>
      (case part ''hdlr'' mdia of
         Some (Handler _ _ handler _) \<Rightarrow> if handler = js ''vide'' then media_says mdia else None
       | _ \<Rightarrow> None))"

fun first_some_of :: "('a \<Rightarrow> 'b option) \<Rightarrow> 'a list \<Rightarrow> 'b option" where
  "first_some_of f [] = None"
| "first_some_of f (x # xs) = (case f x of None \<Rightarrow> first_some_of f xs | Some y \<Rightarrow> Some y)"

definition file_says :: "mp4 list \<Rightarrow> ReferenceMp4VideoMetadata option" where
  "file_says bs =
     (case find (\<lambda>b. mtype b = js ''moov'') bs of
        None \<Rightarrow> None
      | Some moov \<Rightarrow>
          if length (encode moov) > 32 * 1024 * 1024 then None
          else first_some_of track_says (filter (\<lambda>b. mtype b = js ''trak'') (boxes moov)))"

section \<open>Reading an encoded box\<close>

lemma length_u32 [simp]: "length (u32 n) = 4"
  by (simp add: u32_def)

lemma length_fourcc [simp]: "length (fourcc t) = length t"
  by (simp add: fourcc_def)

lemma be32_append [simp]: "be32 (pre @ v) (length pre + i) = be32 v i"
  by (simp add: be32_def nth_append)

lemma be32_prefix: "i + 4 \<le> length v \<Longrightarrow> be32 (v @ w) i = be32 v i"
  by (simp add: be32_def nth_append)

lemma be32_u32: "n < 2 ^ 32 \<Longrightarrow> be32 (u32 n @ w) 0 = n"
proof -
  assume "n < 2 ^ 32"
  then have "n div 2 ^ 24 < 256" by (simp add: less_mult_imp_div_less)
  then have "be32 (u32 n @ w) 0
      = ((n div 2 ^ 24 * 256 + n div 2 ^ 16 mod 256) * 256 + n div 2 ^ 8 mod 256) * 256 + n mod 256"
    by (simp add: be32_def u32_def unat_of_nat)
  moreover have "n div 2 ^ 24 * 256 + n div 2 ^ 16 mod 256 = n div 2 ^ 16"
    using div_mult_mod_eq [of "n div 2 ^ 16" 256] by (simp add: div_mult2_eq [symmetric])
  moreover have "n div 2 ^ 16 * 256 + n div 2 ^ 8 mod 256 = n div 2 ^ 8"
    using div_mult_mod_eq [of "n div 2 ^ 8" 256] by (simp add: div_mult2_eq [symmetric])
  moreover have "n div 2 ^ 8 * 256 + n mod 256 = n"
    using div_mult_mod_eq [of n 256] by simp
  ultimately show ?thesis by (simp only:)
qed

lemma fourcc_at_append [simp]: "fourcc_at (pre @ v) (length pre + i) = fourcc_at v i"
  by (simp add: fourcc_at_def nth_append)

lemma list4: "length t = 4 \<Longrightarrow> t = [t ! 0, t ! 1, t ! 2, t ! 3]"
  by (intro nth_equalityI) (auto simp: less_Suc_eq numeral_eq_Suc)

lemma fourcc_at_fourcc: "good_type t \<Longrightarrow> fourcc_at (fourcc t @ w) 0 = t"
proof -
  assume t: "good_type t"
  then have "length t = 4" by (simp add: good_type_def)
  then obtain a b c d where "t = [a, b, c, d]" using list4 by blast
  then show ?thesis using t by (simp add: good_type_def fourcc_at_def fourcc_def unat_of_nat)
qed

section \<open>Located boxes\<close>

definition header_size :: "mp4 \<Rightarrow> nat" where
  "header_size b = (if large b then 16 else 8)"

definition box_at :: "nat \<Rightarrow> mp4 \<Rightarrow> Mp4Box" where
  "box_at i b = \<lparr>box_type = mtype b, box_start = i, contentStart = i + header_size b,
     box_end = i + length (encode b)\<rparr>"

lemma length_encode: "good_frame b \<Longrightarrow> length (encode b) = header_size b + length (payload b)"
  by (simp add: encode_framed framed_def header_size_def good_frame_def good_type_def Let_def)

lemma be32_skip: "length pre = k \<Longrightarrow> be32 (pre @ v) (k + i) = be32 v i"
  using be32_append by blast

lemma be32_u32_at: "length pre = k \<Longrightarrow> n < 2 ^ 32 \<Longrightarrow> be32 (pre @ u32 n @ w) k = n"
  using be32_append [of pre "u32 n @ w" 0] be32_u32 [of n w] by simp

lemma fourcc_at_at: "length pre = k \<Longrightarrow> good_type t \<Longrightarrow> fourcc_at (pre @ fourcc t @ w) k = t"
  using fourcc_at_append [of pre "fourcc t @ w" 0] fourcc_at_fourcc [of t w] by simp

lemma box_from_small:
  assumes b: "good_frame b" "\<not> large b" and limit: "length (encode b) \<le> limit"
  shows "box_from (encode b @ post) 0 limit = Some (box_at 0 b)"
proof -
  have t: "good_type (mtype b)" and n: "length (payload b) + 8 < 2 ^ 32"
    using b by (simp_all add: good_frame_def)
  have v: "encode b @ post = u32 (length (payload b) + 8) @ fourcc (mtype b) @ payload b @ post"
    using b by (simp add: encode_framed framed_def Let_def)
  have l: "length (encode b) = length (payload b) + 8" using b by (simp add: length_encode header_size_def)
  have "be32 (encode b @ post) 0 = length (payload b) + 8" using n by (simp add: v be32_u32)
  moreover have "fourcc_at (encode b @ post) 4 = mtype b" unfolding v using t by (intro fourcc_at_at) simp_all
  ultimately show ?thesis
    using n limit l b by (simp add: box_from_def box_sizes_def box_at_def header_size_def max_safe_def)
qed

lemma box_from_large:
  assumes b: "good_frame b" "large b" and limit: "length (encode b) \<le> limit"
  shows "box_from (encode b @ post) 0 limit = Some (box_at 0 b)"
proof -
  define n where "n = length (payload b) + 16"
  have t: "good_type (mtype b)" and n: "n \<le> max_safe" using b by (simp_all add: good_frame_def n_def)
  have v: "encode b @ post = u32 1 @ fourcc (mtype b) @ u32 (n div 2 ^ 32) @ u32 (n mod 2 ^ 32) @ payload b @ post"
    using b by (simp add: encode_framed framed_def Let_def n_def)
  have l: "length (encode b) = n" using b by (simp add: length_encode header_size_def n_def)
  have len: "length (mtype b) = 4" using t by (simp add: good_type_def)
  have "be32 (encode b @ post) 0 = 1" by (simp add: v be32_u32)
  moreover have "be32 (encode b @ post) 8 = n div 2 ^ 32"
    using be32_u32_at [of "u32 1 @ fourcc (mtype b)" 8 "n div 2 ^ 32"] len n by (simp add: v max_safe_def)
  moreover have "be32 (encode b @ post) 12 = n mod 2 ^ 32"
    using be32_u32_at [of "u32 1 @ fourcc (mtype b) @ u32 (n div 2 ^ 32)" 12 "n mod 2 ^ 32"] len by (simp add: v)
  moreover have "fourcc_at (encode b @ post) 4 = mtype b" unfolding v using t by (intro fourcc_at_at) simp_all
  moreover have "n div 2 ^ 32 * 2 ^ 32 + n mod 2 ^ 32 = n" by simp
  moreover have "16 \<le> n" by (simp add: n_def)
  ultimately show ?thesis
    using n limit l b by (simp add: box_from_def box_sizes_def box_at_def header_size_def)
qed

lemma box_from_shift:
  assumes "i + 8 \<le> limit"
  shows "box_from (pre @ v) (length pre + i) (length pre + limit) =
    map_option (\<lambda>b. b\<lparr>box_start := length pre + box_start b, contentStart := length pre + contentStart b,
      box_end := length pre + box_end b\<rparr>) (box_from v i limit)"
  using be32_append [of pre v "i + 8"] be32_append [of pre v "i + 12"] fourcc_at_append [of pre v "i + 4"] assms
  by (simp add: box_from_def box_sizes_def add.assoc del: be32_append fourcc_at_append)
     (simp add: be32_append fourcc_at_append add.assoc)

lemma encode_size: "good_frame b \<Longrightarrow> 8 \<le> length (encode b)"
  by (simp add: length_encode header_size_def)

lemma readMp4Box_encoded:
  assumes b: "good_frame b" and v: "v = pre @ encode b @ post"
    and limit: "length pre + length (encode b) \<le> limit" "limit \<le> length v"
  shows "readMp4Box v (length pre) limit = Inr (Some (box_at (length pre) b))"
proof -
  obtain k where k: "limit = length pre + k" "length (encode b) \<le> k" using limit(1) le_Suc_ex by force
  have "box_from (encode b @ post) 0 k = Some (box_at 0 b)"
    using box_from_small [OF b _ k(2)] box_from_large [OF b _ k(2)] by blast
  then have "box_from v (length pre) limit = Some (box_at (length pre) b)"
    using box_from_shift [of 0 k pre "encode b @ post"] k encode_size [OF b] by (simp add: v box_at_def add.commute)
  then show ?thesis using limit encode_size [OF b] by (simp add: readMp4Box_eq)
qed

text \<open>A located box stands for a box of the tree when its encoding is there.\<close>

definition stands_for :: "bytes \<Rightarrow> Mp4Box \<Rightarrow> mp4 \<Rightarrow> bool" where
  "stands_for v x b \<longleftrightarrow> wf_box b \<and> (\<exists>pre post. v = pre @ encode b @ post \<and> x = box_at (length pre) b)"

definition content_at :: "bytes \<Rightarrow> Mp4Box \<Rightarrow> bytes \<Rightarrow> bool" where
  "content_at v x c \<longleftrightarrow> (\<exists>pre post. v = pre @ c @ post \<and> contentStart x = length pre
     \<and> box_end x = length pre + length c)"

lemma stands_for_type: "stands_for v x b \<Longrightarrow> box_type x = mtype b"
  by (auto simp: stands_for_def box_at_def)

lemma stands_for_content: "stands_for v x b \<Longrightarrow> content_at v x (payload b)"
proof -
  assume "stands_for v x b"
  then obtain pre post where b: "wf_box b" and v: "v = pre @ encode b @ post" and x: "x = box_at (length pre) b"
    by (auto simp: stands_for_def)
  have g: "good_frame b" using b by (rule wf_good_frame)
  have "drop (header_size b) (encode b) = payload b"
    using g by (simp add: encode_framed framed_def header_size_def good_frame_def good_type_def Let_def)
  then have e: "encode b = take (header_size b) (encode b) @ payload b" by (metis append_take_drop_id)
  have h: "length (take (header_size b) (encode b)) = header_size b" using g by (simp add: length_encode)
  have "v = (pre @ take (header_size b) (encode b)) @ payload b @ post" using v e by simp
  moreover have "contentStart x = length (pre @ take (header_size b) (encode b))"
    using h x by (simp add: box_at_def)
  moreover have "box_end x = length (pre @ take (header_size b) (encode b)) + length (payload b)"
    using h x g by (simp add: box_at_def length_encode)
  ultimately show ?thesis unfolding content_at_def by blast
qed

lemma children_encoded:
  "list_all wf_box bs \<Longrightarrow> v = pre @ concat (map encode bs) @ post \<Longrightarrow>
   limit = length pre + length (concat (map encode bs)) \<Longrightarrow>
   \<exists>xs. children_from v limit (length pre) = Inr xs \<and> list_all2 (stands_for v) xs bs"
proof (induction bs arbitrary: pre)
  case Nil
  then show ?case by (subst children_from.simps) simp
next
  case (Cons b bs)
  let ?x = "box_at (length pre) b"
  have b: "wf_box b" "good_frame b" using Cons.prems(1) by (simp_all add: wf_good_frame)
  have v: "v = pre @ encode b @ (concat (map encode bs) @ post)" using Cons.prems(2) by simp
  have r: "readMp4Box v (length pre) limit = Inr (Some ?x)"
    by (rule readMp4Box_encoded [OF b(2) v]) (use Cons.prems(2,3) in simp_all)
  have e: "8 \<le> length (encode b)" by (rule encode_size [OF b(2)])
  have "box_end ?x = length (pre @ encode b)" by (simp add: box_at_def)
  then obtain xs where xs: "children_from v limit (box_end ?x) = Inr xs" "list_all2 (stands_for v) xs bs"
    using Cons.IH [of "pre @ encode b"] Cons.prems by auto
  have x: "stands_for v ?x b" using b v by (auto simp: stands_for_def)
  have "children_from v limit (length pre) = Inr (?x # xs)"
    using r e xs(1) Cons.prems(3) by (subst children_from.simps) (auto simp: box_at_def)
  then show ?case using x xs(2) by auto
qed

lemma getMp4Children_content:
  assumes "content_at v x (concat (map encode bs))" "list_all wf_box bs"
  shows "\<exists>xs. getMp4Children v x = Inr xs \<and> list_all2 (stands_for v) xs bs"
  using assms children_encoded by (fastforce simp: content_at_def getMp4Children_def)

lemma find_related:
  "list_all2 R xs bs \<Longrightarrow> (\<And>x b. R x b \<Longrightarrow> P x = Q b) \<Longrightarrow> rel_option R (find P xs) (find Q bs)"
  by (induction rule: list_all2_induct) auto

lemma filter_related:
  "list_all2 R xs bs \<Longrightarrow> (\<And>x b. R x b \<Longrightarrow> P x = Q b) \<Longrightarrow> list_all2 R (filter P xs) (filter Q bs)"
  by (induction rule: list_all2_induct) auto

section \<open>Fields of a track\<close>

lemma container_is_node:
  "wf_box b \<Longrightarrow> mtype b = js t \<Longrightarrow> js t \<in> set container_types \<Longrightarrow> \<exists>l bs. b = Node l (js t) bs"
  by (cases b) (auto simp: container_types_def field_types_def simp del: js.simps)

lemma field_is:
  "wf_box b \<Longrightarrow> mtype b = js ''mdhd'' \<Longrightarrow> \<exists>l v ts n r. b = MediaHeader l v ts n r"
  "wf_box b \<Longrightarrow> mtype b = js ''hdlr'' \<Longrightarrow> \<exists>l p t r. b = Handler l p t r"
  "wf_box b \<Longrightarrow> mtype b = js ''stsd'' \<Longrightarrow> \<exists>l f n bs. b = SampleEntries l f n bs"
  "wf_box b \<Longrightarrow> mtype b = js ''stts'' \<Longrightarrow> \<exists>l f es r. b = TimeToSample l f es r"
  by (cases b; auto simp: field_types_def simp del: js.simps)+

lemma getMp4Child_node:
  assumes x: "stands_for v x (Node l t bs)"
  shows "\<exists>r. getMp4Child v x ty = Inr r \<and> rel_option (stands_for v) r (part ty (Node l t bs))"
proof -
  have "list_all wf_box bs" using x by (simp add: stands_for_def list_all_iff)
  then obtain xs where xs: "getMp4Children v x = Inr xs" "list_all2 (stands_for v) xs bs"
    using getMp4Children_content [of v x bs] stands_for_content [OF x] by auto
  have "rel_option (stands_for v) (find (\<lambda>b. box_type b = js ty) xs) (find (\<lambda>c. mtype c = js ty) bs)"
    by (rule find_related [OF xs(2)]) (auto dest: stands_for_type)
  then show ?thesis using xs(1) by (simp add: getMp4Child_def part_def)
qed

lemma timescale_encoded:
  assumes x: "stands_for v x (MediaHeader l ver ts n r)"
  shows "getMp4TrackTimescale v x = Inr (if n > 0 then Some n else None)"
proof -
  obtain pre post where v: "v = pre @ (ver # ts @ u32 n @ r) @ post" and x': "contentStart x = length pre"
      "box_end x = length pre + length (ver # ts @ u32 n @ r)"
    using stands_for_content [OF x] by (auto simp: content_at_def)
  have wf: "length ts = (if ver = 1 then 19 else 11)" "n < 2 ^ 32" using x by (auto simp: stands_for_def)
  have one: "unat ver = 1 \<longleftrightarrow> ver = 1" by (metis unat_1 unsigned_word_eqI)
  have "be32 v (length pre + (1 + length ts)) = n"
    using be32_append [of pre "(ver # ts @ u32 n @ r) @ post" "1 + length ts"]
      be32_u32_at [of "ver # ts" "1 + length ts" n "r @ post"] wf(2) by (simp add: v)
  moreover have "v ! length pre = ver" by (simp add: v)
  moreover have "length pre + 1 \<le> length v" by (simp add: v)
  moreover have "(if unat ver = 1 then 20 else 12) = 1 + length ts" using one wf(1) by simp
  ultimately show ?thesis
    using wf by (simp add: getMp4TrackTimescale_def x' getUint8_ok getUint32_def v Let_def)
qed

lemma handler_encoded:
  assumes x: "stands_for v x (Handler l p t r)"
  shows "readFourCC v (contentStart x + 8) = Inr t"
proof -
  obtain pre post where v: "v = pre @ (p @ fourcc t @ r) @ post" and x': "contentStart x = length pre"
    using stands_for_content [OF x] by (auto simp: content_at_def)
  have wf: "length p = 8" "good_type t" using x by (auto simp: stands_for_def)
  then have t: "length t = 4" by (simp add: good_type_def)
  have "fourcc_at v (length pre + 8) = t"
    using fourcc_at_at [of "pre @ p" "length pre + 8" t "r @ post"] wf by (simp add: v)
  then show ?thesis using wf(1) t by (simp add: readFourCC_eq x' v)
qed

lemma codec_encoded:
  assumes x: "stands_for v x (SampleEntries l f n bs)"
  shows "getMp4SampleEntryCodec v x = Inr (if n = 0 then None else Some (mtype (hd bs)))"
proof -
  let ?c = "f @ u32 n @ concat (map encode bs)"
  obtain pre post where v: "v = pre @ ?c @ post" and x': "contentStart x = length pre" "box_end x = length pre + length ?c"
    using stands_for_content [OF x] by (auto simp: content_at_def)
  have wf: "length f = 4" "n < 2 ^ 32" "list_all wf_box bs" "n = 0 \<or> bs \<noteq> []"
    using x by (auto simp: stands_for_def list_all_iff)
  have n: "be32 v (length pre + 4) = n"
    using be32_u32_at [of "pre @ f" "length pre + 4" n "concat (map encode bs) @ post"] wf by (simp add: v)
  show ?thesis
  proof (cases "n = 0")
    case True
    then show ?thesis using n wf by (simp add: getMp4SampleEntryCodec_def x' getUint32_def v)
  next
    case False
    then obtain e es where bs: "bs = e # es" using wf(4) by (cases bs) auto
    have e: "good_frame e" using wf(3) bs by (simp add: wf_good_frame)
    let ?pre = "pre @ f @ u32 n"
    have "readMp4Box v (length ?pre) (box_end x) = Inr (Some (box_at (length ?pre) e))"
      by (rule readMp4Box_encoded [OF e, of v ?pre "concat (map encode es) @ post"]) (simp_all add: v bs x')
    then have "readMp4Box v (length pre + 8) (length pre + length ?c) = Inr (Some (box_at (length ?pre) e))"
      using wf(1) x' by (simp add: add.commute)
    then show ?thesis
      using False n wf(1) encode_size [OF e] by (simp add: getMp4SampleEntryCodec_def x' getUint32_def v bs box_at_def)
  qed
qed

lemma frame_sums_encoded:
  "list_all (\<lambda>(c, d). c < 2 ^ 32 \<and> d < 2 ^ 32) es \<Longrightarrow> v = pre @ concat (map entry_bytes es) @ post \<Longrightarrow>
   length pre + 8 * length es \<le> limit \<Longrightarrow> limit \<le> length v \<Longrightarrow>
   frame_sums v limit (length es) (length pre) s t =
     Inr (Some (foldl (\<lambda>s (c, d). js_add s (num c)) s es, foldl (\<lambda>s (c, d). js_add s (js_mul (num c) (num d))) t es))"
proof (induction es arbitrary: pre s t)
  case (Cons e es)
  obtain c d where e: "e = (c, d)" "c < 2 ^ 32" "d < 2 ^ 32" using Cons.prems(1) by (cases e) auto
  have c: "be32 v (length pre) = c"
    using be32_u32_at [of pre "length pre" c] e Cons.prems(2) by (simp add: entry_bytes_def)
  have d: "be32 v (length pre + 4) = d"
    using be32_u32_at [of "pre @ u32 c" "length pre + 4" d] e Cons.prems(2) by (simp add: entry_bytes_def)
  have len: "length (pre @ entry_bytes e) = length pre + 8" by (simp add: entry_bytes_def)
  have "frame_sums v limit (length es) (length (pre @ entry_bytes e)) s' t' =
     Inr (Some (foldl (\<lambda>s (c, d). js_add s (num c)) s' es, foldl (\<lambda>s (c, d). js_add s (js_mul (num c) (num d))) t' es))" for s' t'
    by (rule Cons.IH) (use Cons.prems len in simp_all)
  then show ?case using Cons.prems(3,4) e c d unfolding len by (simp add: getUint32_def)
qed simp

lemma length_entries: "length (concat (map entry_bytes es)) = 8 * length es"
  by (induction es) (simp_all add: entry_bytes_def)

lemma rate_encoded:
  assumes x: "stands_for v x (TimeToSample l f es r)"
  shows "getMp4AverageFrameRate v x ts = Inr (frame_rate ts es)"
proof -
  let ?c = "f @ u32 (length es) @ concat (map entry_bytes es) @ r"
  obtain pre post where v: "v = pre @ ?c @ post" and x': "contentStart x = length pre" "box_end x = length pre + length ?c"
    using stands_for_content [OF x] by (auto simp: content_at_def)
  have wf: "length f = 4" "length es < 2 ^ 32" "list_all (\<lambda>(c, d). c < 2 ^ 32 \<and> d < 2 ^ 32) es"
    using x by (auto simp: stands_for_def)
  have n: "be32 v (length pre + 4) = length es"
    using be32_u32_at [of "pre @ f" "length pre + 4" "length es"] wf by (simp add: v)
  let ?pre = "pre @ f @ u32 (length es)"
  have "frame_sums v (box_end x) (length es) (length ?pre) (Fin 0) (Fin 0)
      = Inr (Some (total_samples es, total_ticks es))"
    unfolding total_samples_def total_ticks_def
    by (rule frame_sums_encoded [OF wf(3), of v ?pre "r @ post"]) (use wf(1) length_entries in \<open>simp_all add: v x'\<close>)
  then have "frame_sums v (box_end x) (length es) (length pre + 8) (Fin 0) (Fin 0)
      = Inr (Some (total_samples es, total_ticks es))" using wf(1) by (simp add: add.commute)
  then show ?thesis
    using n wf(1) by (simp add: getMp4AverageFrameRate_def frame_rate_def x' getUint32_def v)
qed

section \<open>Tracks\<close>

definition tells :: "bytes \<Rightarrow> (read_error + Mp4Box option) \<Rightarrow> mp4 option \<Rightarrow> bool" where
  "tells v r b \<longleftrightarrow> (\<exists>x. r = Inr x \<and> rel_option (stands_for v) x b)"

lemma tells_cases:
  assumes "tells v r b"
  obtains "r = Inr None" "b = None" | x c where "r = Inr (Some x)" "b = Some c" "stands_for v x c"
  using assms by (auto simp: tells_def option_rel_Some2 elim: option.rel_cases)

lemma tells_child: "stands_for v x (Node l t bs) \<Longrightarrow> tells v (getMp4Child v x ty) (part ty (Node l t bs))"
  using getMp4Child_node by (simp add: tells_def)

lemma part_type: "part ty b = Some c \<Longrightarrow> mtype c = js ty"
  by (auto simp: part_def find_Some_iff)

lemma part_container:
  assumes "stands_for v x c" "part ty b = Some c" "js ty \<in> set container_types"
  obtains l bs where "c = Node l (js ty) bs"
  using container_is_node [of c ty] part_type [OF assms(2)] assms(1,3) by (auto simp: stands_for_def)

lemma track_values_encoded:
  assumes "stands_for v h (MediaHeader lh ver ts n rh)" "stands_for v d (SampleEntries ld fd k bs)"
    "stands_for v s (TimeToSample ls fs es rs)"
  shows "track_values v h d s =
    Inr (values_of (MediaHeader lh ver ts n rh) (SampleEntries ld fd k bs) (TimeToSample ls fs es rs))"
proof -
  have k: "k = 0 \<or> bs \<noteq> []" "list_all wf_box bs" using assms(2) by (auto simp: stands_for_def list_all_iff)
  have "mtype b \<noteq> []" if "wf_box b" for b
    using wf_good_frame [OF that] by (auto simp: good_frame_def good_type_def)
  then have "mtype (hd bs) \<noteq> []" if "k \<noteq> 0" using k that by (cases bs) auto
  then show ?thesis
    using k(1)
    by (cases bs)
       (auto simp: track_values_def timescale_encoded [OF assms(1)] codec_encoded [OF assms(2)] rate_encoded [OF assms(3)]
         values_of_def usable_def split: option.split)
qed

lemma child_of_Some: "child_of v (Some x) t = getMp4Child v x t"
  by (simp add: child_of_def)

lemma sample_table_encoded:
  assumes x: "stands_for v x (Node l t bs)" and h: "stands_for v h mdhd" "mtype mdhd = js ''mdhd''"
  shows "bind_sum (getMp4Child v x ''stsd'') (\<lambda>stsd. bind_sum (getMp4Child v x ''stts'') (\<lambda>stts.
           case (Some h, stsd, stts) of (Some h, Some d, Some s) \<Rightarrow> track_values v h d s | _ \<Rightarrow> Inr None))
       = Inr (case (part ''stsd'' (Node l t bs), part ''stts'' (Node l t bs)) of
                (Some stsd, Some stts) \<Rightarrow> values_of mdhd stsd stts | _ \<Rightarrow> None)"
proof (cases rule: tells_cases [OF tells_child [OF x, of "''stsd''"]])
  case 1
  then show ?thesis using tells_child [OF x, of "''stts''"] by (auto simp: tells_def)
next
  case d: (2 d stsd)
  show ?thesis
  proof (cases rule: tells_cases [OF tells_child [OF x, of "''stts''"]])
    case 1
    then show ?thesis using d by simp
  next
    case s: (2 s stts)
    obtain lh ver ts n rh where "mdhd = MediaHeader lh ver ts n rh"
      using field_is(1) [of mdhd] h by (auto simp: stands_for_def)
    moreover obtain ld fd k ds where "stsd = SampleEntries ld fd k ds"
      using field_is(3) [of stsd] part_type [OF d(2)] d(3) by (auto simp: stands_for_def)
    moreover obtain ls fs es rs where "stts = TimeToSample ls fs es rs"
      using field_is(4) [of stts] part_type [OF s(2)] s(3) by (auto simp: stands_for_def)
    ultimately show ?thesis using d s h(1) by (simp add: track_values_encoded)
  qed
qed

lemma media_encoded:
  assumes m: "stands_for v m (Node l t bs)"
  shows "media_values v m = Inr (media_says (Node l t bs))"
proof (cases rule: tells_cases [OF tells_child [OF m, of "''mdhd''"]])
  case 1
  obtain r where minf: "getMp4Child v m ''minf'' = Inr r" using getMp4Child_ok by blast
  obtain r1 where stbl: "child_of v r ''stbl'' = Inr r1" using child_of_ok by blast
  obtain r2 where stsd: "child_of v r1 ''stsd'' = Inr r2" using child_of_ok by blast
  obtain r3 where "child_of v r1 ''stts'' = Inr r3" using child_of_ok by blast
  then show ?thesis using 1 minf stbl stsd by (simp add: media_values_def media_says_def)
next
  case h: (2 h mdhd)
  show ?thesis
  proof (cases rule: tells_cases [OF tells_child [OF m, of "''minf''"]])
    case 1
    then show ?thesis using h by (simp add: media_values_def media_says_def child_of_def)
  next
    case i: (2 i minf)
    obtain li ns where minf: "minf = Node li (js ''minf'') ns"
      by (rule part_container [OF i(3,2)]) (simp add: container_types_def)
    have x: "stands_for v i (Node li (js ''minf'') ns)" using i(3) minf by simp
    show ?thesis
    proof (cases rule: tells_cases [OF tells_child [OF x, of "''stbl''"]])
      case 1
      then show ?thesis using h i minf by (simp add: media_values_def media_says_def child_of_def)
    next
      case b: (2 b stbl)
      obtain lb bs' where stbl: "stbl = Node lb (js ''stbl'') bs'"
        by (rule part_container [OF b(3,2)]) (simp add: container_types_def)
      have "stands_for v b (Node lb (js ''stbl'') bs')" using b(3) stbl by simp
      note sample_table_encoded [OF this h(3) part_type [OF h(2)]]
      then show ?thesis using h(1,2) i(1,2) b(1,2) minf stbl by (simp add: media_values_def media_says_def child_of_Some)
    qed
  qed
qed

lemma track_encoded:
  assumes x: "stands_for v x (Node l t bs)"
  shows "track_metadata v x = Inr (track_says (Node l t bs))"
proof (cases rule: tells_cases [OF tells_child [OF x, of "''mdia''"]])
  case 1
  then show ?thesis by (simp add: track_metadata_def track_says_def)
next
  case m: (2 m mdia)
  obtain lm ms where mdia: "mdia = Node lm (js ''mdia'') ms"
    by (rule part_container [OF m(3,2)]) (simp add: container_types_def)
  have x: "stands_for v m (Node lm (js ''mdia'') ms)" using m(3) mdia by simp
  show ?thesis
  proof (cases rule: tells_cases [OF tells_child [OF x, of "''hdlr''"]])
    case 1
    then show ?thesis using m mdia by (simp add: track_metadata_def track_says_def)
  next
    case h: (2 h hdlr)
    obtain lh p ht r where hdlr: "hdlr = Handler lh p ht r"
      using field_is(2) [of hdlr] part_type [OF h(2)] h(3) by (auto simp: stands_for_def)
    have "readFourCC v (contentStart h + 8) = Inr ht" using h(3) hdlr handler_encoded by simp
    then show ?thesis
      using m(1,2) h(1,2) hdlr mdia
      by (simp add: track_metadata_def track_says_def media_encoded [OF x] del: js.simps)
  qed
qed

lemma first_track_encoded:
  "list_all2 (stands_for v) xs bs \<Longrightarrow> \<forall>b\<in>set bs. \<exists>l t cs. b = Node l t cs \<Longrightarrow>
   first_track v xs = Inr (first_some_of track_says bs)"
proof (induction rule: list_all2_induct)
  case (Cons x xs b bs)
  then obtain l t cs where "b = Node l t cs" by auto
  then have "track_metadata v x = Inr (track_says b)" using Cons by (simp add: track_encoded)
  then show ?case using Cons by (simp split: option.split)
qed simp

section \<open>Reading an encoded file\<close>

lemma box_from_encoded:
  assumes "good_frame b" "f = pre @ encode b @ post"
  shows "box_from f (length pre) (length f) = Some (box_at (length pre) b)"
  using readMp4Box_encoded [OF assms, of "length f"] assms(2) encode_size [OF assms(1)] by (simp add: readMp4Box_eq)

lemma find_moov_encoded:
  "list_all wf_box bs \<Longrightarrow> f = pre @ concat (map encode bs) \<Longrightarrow>
   find_moov f (length pre) = Inr (case find (\<lambda>b. mtype b = js ''moov'') bs of
     None \<Rightarrow> None | Some m \<Rightarrow> if length (encode m) > 32 * 1024 * 1024 then None else Some (encode m))"
proof (induction bs arbitrary: pre)
  case Nil
  then show ?case by (subst find_moov.simps) simp
next
  case (Cons b bs)
  have b: "good_frame b" using Cons.prems(1) by (simp add: wf_good_frame)
  have f: "f = pre @ encode b @ concat (map encode bs)" using Cons.prems(2) by simp
  have e: "8 \<le> length (encode b)" "encode b \<noteq> []" using encode_size [OF b] by auto
  have r: "file_box f (length pre) = Inr (Some (mtype b, length (encode b)))"
    using file_box_eq [of "length pre" f] box_from_encoded [OF b f] e f by (simp add: box_at_def)
  have slice: "Prelude.slice (length pre) (length pre + length (encode b)) f = encode b"
    by (simp add: f Prelude.slice_def)
  show ?case
  proof (cases "mtype b = js ''moov''")
    case True
    then show ?thesis using r slice e f by (subst find_moov.simps) (simp del: js.simps)
  next
    case False
    have "find_moov f (length pre + length (encode b)) = find_moov f (length (pre @ encode b))" by simp
    then show ?thesis
      using False r e f Cons.IH [of "pre @ encode b"] Cons.prems by (subst find_moov.simps) (simp del: js.simps)
  qed
qed

lemma parse_encoded:
  assumes m: "wf_box m" "mtype m = js ''moov''"
  shows "parseReferenceMp4VideoMetadata (encode m)
    = Inr (first_some_of track_says (filter (\<lambda>b. mtype b = js ''trak'') (boxes m)))"
proof -
  let ?v = "encode m" and ?x = "box_at 0 m"
  have "?v = [] @ encode m @ []" by simp
  then have r: "readMp4Box ?v 0 (length ?v) = Inr (Some ?x)"
    using readMp4Box_encoded [OF wf_good_frame [OF m(1)], of ?v "[]" "[]" "length ?v"] by simp
  have x: "stands_for ?v ?x m" using m(1) unfolding stands_for_def
    by (intro conjI exI [of _ "[]"]) simp_all
  obtain l bs where n: "m = Node l (js ''moov'') bs"
    using container_is_node [of m "''moov''"] m by (auto simp: container_types_def)
  have wf: "list_all wf_box bs" using m(1) n by (simp add: list_all_iff)
  obtain xs where xs: "getMp4Children ?v ?x = Inr xs" "list_all2 (stands_for ?v) xs bs"
    using getMp4Children_content [of ?v ?x bs] stands_for_content [OF x] wf n by auto
  have tracks: "list_all2 (stands_for ?v) (filter (\<lambda>b. box_type b = js ''trak'') xs) (filter (\<lambda>b. mtype b = js ''trak'') bs)"
    by (rule filter_related [OF xs(2)]) (auto dest: stands_for_type)
  have "\<forall>b\<in>set (filter (\<lambda>b. mtype b = js ''trak'') bs). \<exists>l t cs. b = Node l t cs"
    using wf container_is_node [of _ "''trak''"] by (fastforce simp: list_all_iff container_types_def simp del: js.simps)
  then have "first_track ?v (filter (\<lambda>b. box_type b = js ''trak'') xs)
      = Inr (first_some_of track_says (filter (\<lambda>b. mtype b = js ''trak'') bs))"
    using first_track_encoded [OF tracks] by simp
  then show ?thesis
    using r xs(1) m(2) n by (simp add: parseReferenceMp4VideoMetadata_def box_at_def del: js.simps)
qed

text \<open>C28: Reading a video refines reading the tree of its boxes: on the encoding of a well-formed list
  of boxes, with 32-bit or 64-bit sizes and any other boxes between them, \<open>getReferenceMp4VideoMetadata\<close>
  answers what the tree says: the codec of the first sample entry and the average frame rate of the
  first video track that has them, in the first movie box, if it has at most 32 MiB.\<close>

theorem mp4_reads_tree:
  assumes "list_all wf_box bs"
  shows "getReferenceMp4VideoMetadata (concat (map encode bs)) = Inr (file_says bs)"
proof -
  have f: "find_moov (concat (map encode bs)) 0 = Inr (case find (\<lambda>b. mtype b = js ''moov'') bs of
     None \<Rightarrow> None | Some m \<Rightarrow> if length (encode m) > 32 * 1024 * 1024 then None else Some (encode m))"
    using find_moov_encoded [OF assms, of "concat (map encode bs)" "[]"] by simp
  show ?thesis
  proof (cases "find (\<lambda>b. mtype b = js ''moov'') bs")
    case None
    then show ?thesis using f by (simp add: getReferenceMp4VideoMetadata_def findMp4MoovBox_def file_says_def)
  next
    case (Some m)
    then have "wf_box m" "mtype m = js ''moov''" using assms by (auto simp: find_Some_iff list_all_iff)
    then show ?thesis using Some f parse_encoded [of m]
      by (simp add: getReferenceMp4VideoMetadata_def findMp4MoovBox_def file_says_def del: js.simps)
  qed
qed

definition small_movie :: "mp4 list" where
  "small_movie =
     [Leaf False (js ''free'') [1, 2],
      Node False (js ''moov'')
        [Leaf True (js ''mvhd'') [],
         Node False (js ''trak'')
          [Node False (js ''mdia'')
             [MediaHeader False 0 (replicate 11 0) 600 [],
              Handler False (replicate 8 0) (js ''vide'') [],
              Node False (js ''minf'') [Node False (js ''stbl'')
                [SampleEntries False [0, 0, 0, 0] 1 [Leaf False (js ''avc1'') []],
                 TimeToSample False [0, 0, 0, 0] [(10, 24)] []]]]]]]"

lemma small_movie_wf: "list_all wf_box small_movie"
  by (simp add: small_movie_def good_frame_def good_type_def field_types_def container_types_def framed_def max_safe_def
      entry_bytes_def Let_def)

lemma small_movie_says: "file_says small_movie = Some \<lparr>codec = js ''avc1'', frameRate = num 25\<rparr>"
  by (simp add: small_movie_def file_says_def track_says_def media_says_def part_def values_of_def frame_rate_def
      total_samples_def total_ticks_def usable_def framed_def entry_bytes_def js_le_def round64_def small_int_def Let_def)

theorem mp4_reads_tree_witness:
  "getReferenceMp4VideoMetadata (concat (map encode small_movie))
     = Inr (Some \<lparr>codec = js ''avc1'', frameRate = num 25\<rparr>)"
  using mp4_reads_tree [OF small_movie_wf] small_movie_says by simp

section \<open>The frame rate\<close>

lemma sum_list_le_53: "n + m \<le> 9007199254740992 \<Longrightarrow> js_add (num n) (num m) = num (n + m)"
  using round64_nat [of "n + m"] by simp

lemma mul_53: "n * m \<le> 9007199254740992 \<Longrightarrow> js_mul (num n) (num m) = num (n * m)"
  using round64_nat [of "n * m"] by simp

lemma foldl_sum_53:
  "n + sum_list (map g es) \<le> 9007199254740992 \<Longrightarrow> (\<And>e. e \<in> set es \<Longrightarrow> h e = num (g e)) \<Longrightarrow>
   foldl (\<lambda>s e. js_add s (h e)) (num n) es = num (n + sum_list (map g es))"
proof (induction es arbitrary: n)
  case (Cons e es)
  then have "js_add (num n) (h e) = num (n + g e)" using sum_list_le_53 [of n "g e"] by simp
  then show ?case using Cons.IH [of "n + g e"] Cons.prems by (simp add: add.assoc)
qed simp

lemma frame_rate_exact:
  assumes "samples = sum_list (map fst es)" "ticks = sum_list (map (\<lambda>(c, d). c * d) es)"
    "samples * timescale \<le> 9007199254740992" "samples \<le> 9007199254740992" "ticks \<le> 9007199254740992"
    "0 < samples" "0 < ticks"
  shows "frame_rate timescale es = Some (round64 (of_nat (samples * timescale) / of_nat ticks))"
proof -
  have "total_samples es = num samples"
    using foldl_sum_53 [of 0 fst es "\<lambda>e. num (fst e)"] assms by (simp add: total_samples_def case_prod_unfold)
  moreover have prod: "fst e * snd e \<le> 9007199254740992" if "e \<in> set es" for e
  proof -
    have "fst e * snd e \<in> set (map (\<lambda>(c, d). c * d) es)" using that by force
    then have "fst e * snd e \<le> ticks" using assms(2) member_le_sum_list by blast
    then show ?thesis using assms(5) by simp
  qed
  have "total_ticks es = num ticks"
    using foldl_sum_53 [of 0 "\<lambda>e. fst e * snd e" es "\<lambda>e. js_mul (num (fst e)) (num (snd e))"] assms mul_53 [OF prod]
    by (simp add: total_ticks_def case_prod_unfold del: js_mul.simps)
  ultimately show ?thesis
    using assms(3-) mul_53 [of samples timescale] by (simp add: frame_rate_def js_le_def del: js_mul.simps)
qed

section \<open>Media types\<close>

lemma split_unit_snoc: "c \<notin> set w \<Longrightarrow> split_unit c (s @ c # w) = split_unit c s @ [w]"
proof (induction s)
  case (Cons u s)
  then show ?case by (cases "split_unit c s") auto
qed simp

text \<open>The table of media types is read with the members of \<open>Object.prototype\<close>: a file whose name ends
  in \<open>.constructor\<close> is accepted as an image, as a video and as an audio reference, whatever its type.\<close>

theorem inherited_extension_accepted:
  assumes "file_name file = s @ js ''.constructor''"
  shows "isReferenceImageFile file profile \<and> isReferenceVideoFile file \<and> isReferenceAudioFile file audio"
proof -
  have "last (split_unit 46 (file_name file)) = js ''constructor''"
    using assms split_unit_snoc [of 46 "js ''constructor''" s] by simp
  moreover have "toLowerCase (js ''constructor'') = js ''constructor''" by (simp add: js_eval)
  ultimately show ?thesis
    by (simp add: isReferenceImageFile_def isReferenceVideoFile_def isReferenceAudioFile_def getReferenceImageMime_def
        getReferenceVideoMime_def getReferenceAudioMime_def getReferenceMime_def read_member_def inherited_members_def
        truthy_mime_def IMAGE_MIME_BY_EXTENSION_def SEEDANCE_25_IMAGE_MIME_BY_EXTENSION_def VIDEO_MIME_BY_EXTENSION_def
        AUDIO_MIME_BY_EXTENSION_def MINIMAX_H3_AUDIO_MIME_BY_EXTENSION_def Let_def)
qed

end
