(* ===== verification/List_Splice.thy ===== *)
theory List_Splice
  imports Prelude "HOL-Library.Multiset"
begin

text \<open>
  Taking an element out of an array and putting one in (\<open>splice\<close>), as the reordering of models and
  of override rules does.
\<close>

text \<open>\<open>splice(i, 1)\<close> and \<open>splice(i, 0, x)\<close>.\<close>

definition splice_out :: "nat \<Rightarrow> 'a list \<Rightarrow> 'a list" where
  "splice_out i xs = take i xs @ drop (i + 1) xs"

definition splice_in :: "nat \<Rightarrow> 'a \<Rightarrow> 'a list \<Rightarrow> 'a list" where
  "splice_in i x xs = take i xs @ x # drop i xs"

lemma length_splice_out: "i < length xs \<Longrightarrow> length (splice_out i xs) = length xs - 1"
  by (simp add: splice_out_def)

lemma mset_splice_out: "i < length xs \<Longrightarrow> add_mset (xs ! i) (mset (splice_out i xs)) = mset xs"
  by (metis Suc_eq_plus1 add_mset_add_single id_take_nth_drop mset.simps(2) mset_append splice_out_def union_mset_add_mset_right)

lemma mset_splice_in: "mset (splice_in i x xs) = add_mset x (mset xs)"
  unfolding splice_in_def by (metis append_take_drop_id mset.simps(2) mset_append union_mset_add_mset_right)

lemma splice_in_nth: "i \<le> length xs \<Longrightarrow> splice_in i x xs ! i = x"
  by (simp add: splice_in_def nth_append)

lemma splice_out_in: "i \<le> length xs \<Longrightarrow> splice_out i (splice_in i x xs) = xs"
  by (simp add: splice_in_def splice_out_def)

end
