(* ===== verification/Creation_Center.thy ===== *)
theory Creation_Center
  imports Creation_Session_Props Creation_Request List_Splice
begin

text \<open>
  The smaller parts of the creation center: the countdown of a running task (\<open>session.ts\<close>), the order of models that an administrator sets (\<open>model-order.ts\<close>), the
  table of categories (\<open>category-rows.ts\<close>), the price of a model as text (\<open>cost.ts\<close>), the mention
  that is being typed (\<open>lib/prompt-mentions.ts\<close>) and the phase a waiting user sees
  (\<open>lib/preview-state.ts\<close>).  The money formats of \<open>lib/currency.ts\<close> and \<open>lib/format.ts\<close>, the translation
  and the collation of the browser are arguments.
\<close>

section \<open>Countdown\<close>

definition padStart :: "nat \<Rightarrow> unit16 \<Rightarrow> jsstring \<Rightarrow> jsstring" where
  "padStart n u s = replicate (n - length s) u @ s"

definition getCreationCountdownSeconds :: "jsnum option \<Rightarrow> jsnum option \<Rightarrow> jsnum \<Rightarrow> jsnum" where
  "getCreationCountdownSeconds created estimateSeconds now =
     (case (created, estimateSeconds) of
        (Some c, Some e) \<Rightarrow>
          if \<not> js_truthy_num c \<or> \<not> js_truthy_num e then Fin 0
          else js_max (Fin 0) (js_ceil (js_div (js_sub (js_add c (js_mul e (num 1000))) now) (num 1000)))
      | _ \<Rightarrow> Fin 0)"

definition getCreationTimedOut :: "jsnum option \<Rightarrow> jsnum option \<Rightarrow> jsnum \<Rightarrow> bool" where
  "getCreationTimedOut created estimateSeconds now \<longleftrightarrow>
     (\<exists>c. created = Some c \<and> js_truthy_num c) \<and> (\<exists>e. estimateSeconds = Some e \<and> js_truthy_num e)
     \<and> js_le (getCreationCountdownSeconds created estimateSeconds now) (Fin 0)"

definition formatCreationCountdown :: "jsnum \<Rightarrow> jsstring" where
  "formatCreationCountdown secs =
     (let safeSeconds = js_max (Fin 0) (js_floor secs);
          minutes = js_floor (js_div safeSeconds (num 60));
          rest = js_mod safeSeconds (num 60)
      in padStart 2 48 (js_String minutes) @ js '':'' @ padStart 2 48 (js_String rest))"

section \<open>The order of models\<close>

text \<open>Every model of the catalog has an identifier.\<close>

definition model_id :: "CreationModel \<Rightarrow> jsstring" where
  "model_id m = (case cm_id m of Some s \<Rightarrow> s | None \<Rightarrow> [])"

record CreationModelGroup =
  group_mode :: CreationMode
  group_models :: "CreationModel list"

definition CREATION_MODES :: "CreationMode list" where
  "CREATION_MODES = [ChatMode, ImageMode, VideoMode]"

type_synonym CreationModelsByMode = "CreationMode \<Rightarrow> CreationModel list"

definition getCreationModelsByMode :: "CreationModelGroup list \<Rightarrow> CreationModelsByMode" where
  "getCreationModelsByMode groups =
     foldl (\<lambda>m g. if group_mode g \<in> set CREATION_MODES then m(group_mode g := group_models g) else m) (\<lambda>_. []) groups"

definition moveCreationModel :: "CreationModel list \<Rightarrow> jsstring \<Rightarrow> int \<Rightarrow> CreationModel list" where
  "moveCreationModel models modelId targetIndex =
     (case find_index (\<lambda>m. model_id m = modelId) models of
        None \<Rightarrow> models
      | Some sourceIndex \<Rightarrow>
          if length models < 2 then models
          else
            (let nextIndex = nat (max 0 (min targetIndex (int (length models) - 1)))
             in if sourceIndex = nextIndex then models
                else splice_in nextIndex (models ! sourceIndex) (splice_out sourceIndex models)))"

definition serializeCreationModelOrder :: "CreationModelsByMode \<Rightarrow> (CreationMode \<times> jsstring list) list" where
  "serializeCreationModelOrder modelsByMode = map (\<lambda>mode. (mode, map model_id (modelsByMode mode))) CREATION_MODES"

section \<open>Categories\<close>

type_synonym CreationCategoryRow = "CreationModel \<times> CreationMode"

definition add_row :: "(jsstring \<times> CreationCategoryRow) list \<Rightarrow> CreationModel \<times> CreationMode \<Rightarrow> (jsstring \<times> CreationCategoryRow) list" where
  "add_row rows r =
     (let key = toLowerCase (model_id (fst r))
      in if key \<in> fst ` set rows then rows else rows @ [(key, r)])"

text \<open>\<open>localeCompare\<close> compares the collation keys of the browser's locale, the argument.\<close>

definition getCreationCategoryRows :: "(jsstring \<Rightarrow> 'k::linorder) \<Rightarrow> CreationModelGroup list \<Rightarrow> CreationCategoryRow list" where
  "getCreationCategoryRows collation groups =
     sort_key (\<lambda>r. collation (model_id (fst r)))
       (map snd (foldl add_row [] (concat (map (\<lambda>g. map (\<lambda>m. (m, group_mode g)) (group_models g)) groups))))"

definition getCreationModeLabel :: "CreationMode \<Rightarrow> (jsstring \<Rightarrow> jsstring) \<Rightarrow> jsstring" where
  "getCreationModeLabel mode t =
     (case mode of ChatMode \<Rightarrow> t (js ''Chat'') | ImageMode \<Rightarrow> t (js ''Image'') | VideoMode \<Rightarrow> t (js ''Video''))"

section \<open>Prices\<close>

datatype billing_mode = PerToken | PerRequest | Dynamic | TieredSeconds | TieredRequest

type_synonym price_table = "(jsstring \<times> jsnum) list"

record CreationModelCost =
  billing_mode :: billing_mode
  input_price_per_million :: "jsnum option"
  output_price_per_million :: "jsnum option"
  request_price :: "jsnum option"
  request_quota :: "jsnum option"
  video_resolution_prices :: "price_table option"
  video_resolution_quotas :: "price_table option"
  group_ratio :: "jsnum option"

record formats =
  formatQuota :: "jsnum \<Rightarrow> jsstring"
  formatCurrencyFromUSD :: "jsnum option \<Rightarrow> jsstring"
  translate :: "jsstring \<Rightarrow> jsstring"

text \<open>\<open>toFixed(d)\<close>: the closest decimal with \<open>d\<close> digits after the point, the larger one of two.\<close>

definition js_toFixed :: "nat \<Rightarrow> jsnum \<Rightarrow> jsstring" where
  "js_toFixed d n =
     (case n of
        Fin x \<Rightarrow>
          if \<bar>x\<bar> \<ge> 10 ^ 21 then js_String n
          else
            (let k = nat \<lfloor>\<bar>x\<bar> * 10 ^ d + 1 / 2\<rfloor>
             in (if x < 0 then js ''-'' else []) @ show_nat (k div 10 ^ d)
                @ (if d = 0 then [] else js ''.'' @ padStart d 48 (show_nat (k mod 10 ^ d))))
      | _ \<Rightarrow> js_String n)"

definition formatCostNumber :: "jsnum \<Rightarrow> jsstring" where
  "formatCostNumber value = js_String (js_Number (js_toFixed 6 value))"

text \<open>The spellings of a resolution.\<close>

definition normalizeVideoResolution :: "jsstring option \<Rightarrow> jsstring option" where
  "normalizeVideoResolution value =
     (case value of
        None \<Rightarrow> None
      | Some v \<Rightarrow>
          (let normalized = filter (\<lambda>u. \<not> is_ws u) (toLowerCase (trim v))
           in if normalized \<in> set (map js [''480'', ''480p'']) then Some (js ''480p'')
              else if normalized \<in> set (map js [''720'', ''720p'']) then Some (js ''720p'')
              else if normalized \<in> set (map js [''1080'', ''1080p'']) then Some (js ''1080p'')
              else if normalized \<in> set (map js [''1k'', ''1024'', ''1024p'']) then Some (js ''1k'')
              else if normalized \<in> set (map js [''2k'', ''1440'', ''1440p'', ''2048'', ''2048p'']) then Some (js ''2k'')
              else if normalized \<in> set (map js [''2160'', ''2160p'', ''4k'']) then Some (js ''4k'')
              else None))"

definition videoResolutionOrder :: "jsstring list" where
  "videoResolutionOrder = map js [''480p'', ''720p'', ''1080p'', ''1k'', ''2k'', ''4k'']"

definition price_of :: "price_table option \<Rightarrow> jsstring \<Rightarrow> jsnum option" where
  "price_of t k = (case t of None \<Rightarrow> None | Some ps \<Rightarrow> map_of ps k)"

definition price_keys :: "price_table option \<Rightarrow> jsstring list" where
  "price_keys t = (case t of None \<Rightarrow> [] | Some ps \<Rightarrow> map fst ps)"

type_synonym cost_entry = "jsstring \<times> jsnum option \<times> jsnum option"

fun cost_entries :: "CreationModelCost \<Rightarrow> jsstring set \<Rightarrow> jsstring list \<Rightarrow> cost_entry list" where
  "cost_entries cost seen [] = []"
| "cost_entries cost seen (r # rs) =
     (case normalizeVideoResolution (Some r) of
        None \<Rightarrow> cost_entries cost seen rs
      | Some n \<Rightarrow>
          if n \<in> seen then cost_entries cost seen rs
          else
            (let quota = price_of (video_resolution_quotas cost) n; price = price_of (video_resolution_prices cost) n
             in (if quota = None \<and> price = None then [] else [(n, quota, price)])
                @ cost_entries cost (insert n seen) rs))"

definition getVideoResolutionCostEntries :: "CreationModelCost \<Rightarrow> cost_entry list" where
  "getVideoResolutionCostEntries cost =
     cost_entries cost {} (videoResolutionOrder @ price_keys (video_resolution_quotas cost)
       @ price_keys (video_resolution_prices cost))"

definition getVideoResolutionCostUnit :: "formats \<Rightarrow> CreationModelCost \<Rightarrow> jsstring" where
  "getVideoResolutionCostUnit f cost =
     translate f (js (if billing_mode cost = TieredSeconds then ''seconds'' else ''times''))"

definition dot_separator :: jsstring where
  "dot_separator = [32, 183, 32]"

definition entry_text :: "formats \<Rightarrow> jsstring \<Rightarrow> cost_entry \<Rightarrow> jsstring" where
  "entry_text f unit e =
     (case e of (r, quota, price) \<Rightarrow>
        r @ js '' '' @ (case quota of Some q \<Rightarrow> formatQuota f q | None \<Rightarrow> formatCurrencyFromUSD f price) @ js ''/'' @ unit)"

definition formatVideoResolutionTierCost ::
    "formats \<Rightarrow> CreationModelCost \<Rightarrow> CreationMode option \<Rightarrow> jsstring option \<Rightarrow> jsstring" where
  "formatVideoResolutionTierCost f cost mode selectedResolution =
     (let unit = getVideoResolutionCostUnit f cost;
          chosen = (case normalizeVideoResolution selectedResolution of
            Some n \<Rightarrow>
              if mode = Some VideoMode then
                (case price_of (video_resolution_quotas cost) n of
                   Some q \<Rightarrow> Some (formatQuota f q @ js ''/'' @ unit @ dot_separator @ n)
                 | None \<Rightarrow>
                     (case price_of (video_resolution_prices cost) n of
                        Some p \<Rightarrow> Some (formatCurrencyFromUSD f (Some p) @ js ''/'' @ unit @ dot_separator @ n)
                      | None \<Rightarrow> None))
              else None
          | None \<Rightarrow> None);
          summary = join dot_separator (map (entry_text f unit) (getVideoResolutionCostEntries cost))
      in case chosen of
           Some s \<Rightarrow> s
         | None \<Rightarrow> if summary \<noteq> [] then summary else translate f (js ''Pricing pending''))"

definition group_suffix :: "formats \<Rightarrow> CreationModelCost \<Rightarrow> jsstring" where
  "group_suffix f cost =
     (case group_ratio cost of
        Some r \<Rightarrow>
          if js_truthy_num r \<and> r \<noteq> num 1
          then dot_separator @ translate f (js ''Group'') @ js '' x'' @ formatCostNumber r else []
      | None \<Rightarrow> [])"

definition formatCreationModelCost ::
    "formats \<Rightarrow> CreationModelCost option \<Rightarrow> CreationMode option \<Rightarrow> jsstring option \<Rightarrow> jsstring" where
  "formatCreationModelCost f cost mode selectedResolution =
     (case cost of
        None \<Rightarrow> translate f (js ''Pricing pending'')
      | Some c \<Rightarrow>
          (case billing_mode c of
             Dynamic \<Rightarrow> translate f (js ''Dynamic pricing'') @ group_suffix f c
           | PerRequest \<Rightarrow>
               (case request_quota c of Some q \<Rightarrow> formatQuota f q | None \<Rightarrow> formatCurrencyFromUSD f (request_price c))
               @ js ''/'' @ translate f (js ''times'')
           | PerToken \<Rightarrow>
               translate f (js ''Input'') @ js '' '' @ formatCurrencyFromUSD f (input_price_per_million c) @ js ''/1M''
               @ dot_separator @ translate f (js ''Output'') @ js '' ''
               @ formatCurrencyFromUSD f (output_price_per_million c) @ js ''/1M'' @ group_suffix f c
           | _ \<Rightarrow> formatVideoResolutionTierCost f c mode selectedResolution))"

section \<open>The mention being typed\<close>

record PromptMentionTrigger =
  mt_start :: nat
  mt_end :: nat
  mt_query :: jsstring

fun last_index :: "unit16 \<Rightarrow> jsstring \<Rightarrow> nat option" where
  "last_index u [] = None"
| "last_index u (v # s) =
     (case last_index u s of Some i \<Rightarrow> Some (Suc i) | None \<Rightarrow> if v = u then Some 0 else None)"

definition getPromptMentionTrigger :: "jsstring \<Rightarrow> nat option \<Rightarrow> PromptMentionTrigger option" where
  "getPromptMentionTrigger value caretPosition =
     (let e = (case caretPosition of Some c \<Rightarrow> c | None \<Rightarrow> length value);
          prefix = take e value
      in case last_index 64 prefix of
           None \<Rightarrow> None
         | Some start \<Rightarrow>
             (let query = drop (start + 1) prefix
              in if 64 \<in> set query \<or> list_ex is_ws query then None
                 else Some \<lparr>mt_start = start, mt_end = e, mt_query = query\<rparr>))"

section \<open>The waiting phase\<close>

datatype VideoGenerationWaitingPhase = PhaseSubmitting | PhaseQueued | PhaseProcessing

definition getVideoGenerationWaitingPhase ::
    "CreationMode \<Rightarrow> bool \<Rightarrow> CreationResult option \<Rightarrow> VideoGenerationWaitingPhase option" where
  "getVideoGenerationWaitingPhase mode submitting result =
     (if mode \<noteq> VideoMode then None
      else if submitting then Some PhaseSubmitting
      else
        (case result of
           None \<Rightarrow> None
         | Some r \<Rightarrow>
             if res_mode r \<noteq> VideoMode \<or> truthy_text (videoUrl r) then None
             else if res_status r = CreationResultStatus.Queued then Some PhaseQueued
             else if res_status r = CreationResultStatus.Processing then Some PhaseProcessing
             else if res_status r = CreationResultStatus.Unknown \<and> truthy_text (res_taskId r) then Some PhaseQueued
             else None))"

end
