(* ===== verification/Creation_Center_Props.thy ===== *)
theory Creation_Center_Props
  imports Creation_Center
begin

text \<open>
  Moving a model keeps all models and the order of the others; the table of categories has every
  model once; a trigger is the mention under the caret; prices under an unusual spelling of the
  resolution are lost.
\<close>

section \<open>Moving a model\<close>

definition clamp :: "int \<Rightarrow> nat \<Rightarrow> nat" where
  "clamp i n = nat (max 0 (min i (int n - 1)))"

lemma clamp_less: "0 < n \<Longrightarrow> clamp i n < n"
  by (auto simp: clamp_def)

text \<open>Moving a model: when the identifier is that of a model, the result has the same models, the
  first model with the identifier stands at the target index, kept within the list, and without
  it the other models are in the same order as before; an unknown identifier changes nothing.\<close>

theorem move_model_reorders:
  "case find_index (\<lambda>m. model_id m = modelId) models of
     None \<Rightarrow> moveCreationModel models modelId target = models
   | Some i \<Rightarrow>
       (let moved = moveCreationModel models modelId target; k = clamp target (length models)
        in mset moved = mset models \<and> moved ! k = models ! i \<and> splice_out k moved = splice_out i models)"
proof (cases "find_index (\<lambda>m. model_id m = modelId) models")
  case None
  then show ?thesis by (simp add: moveCreationModel_def)
next
  case (Some i)
  let ?k = "clamp target (length models)"
  have i: "i < length models" using find_index_Some [OF Some] by simp
  then have k: "?k < length models" by (intro clamp_less) auto
  show ?thesis
  proof (cases "length models < 2 \<or> i = ?k")
    case True
    then have "i = ?k" using i k by auto
    then show ?thesis using Some by (auto simp: moveCreationModel_def clamp_def Let_def)
  next
    case False
    then have moved: "moveCreationModel models modelId target = splice_in ?k (models ! i) (splice_out i models)"
      using Some by (simp add: moveCreationModel_def clamp_def Let_def)
    have "?k \<le> length (splice_out i models)" using k i by (simp add: length_splice_out)
    then show ?thesis
      using Some i by (simp add: moved mset_splice_in mset_splice_out splice_in_nth splice_out_in)
  qed
qed

section \<open>Categories\<close>

definition listed :: "CreationModelGroup list \<Rightarrow> (CreationModel \<times> CreationMode) list" where
  "listed groups = concat (map (\<lambda>g. map (\<lambda>m. (m, group_mode g)) (group_models g)) groups)"

definition row_key :: "CreationModel \<times> CreationMode \<Rightarrow> jsstring" where
  "row_key r = toLowerCase (model_id (fst r))"

definition keyed_rows :: "(jsstring \<times> CreationCategoryRow) list \<Rightarrow> bool" where
  "keyed_rows rows \<longleftrightarrow> distinct (map fst rows) \<and> (\<forall>(k, r)\<in>set rows. k = row_key r)"

lemma add_row_keyed: "keyed_rows rows \<Longrightarrow> keyed_rows (add_row rows r)"
  by (auto simp: keyed_rows_def add_row_def row_key_def Let_def)

lemma add_rows:
  "keyed_rows rows \<Longrightarrow> keyed_rows (foldl add_row rows rs)
     \<and> snd ` set (foldl add_row rows rs) \<subseteq> snd ` set rows \<union> set rs
     \<and> fst ` set (foldl add_row rows rs) = fst ` set rows \<union> row_key ` set rs"
proof (induction rs arbitrary: rows)
  case (Cons r rs)
  have "snd ` set (add_row rows r) \<subseteq> insert r (snd ` set rows)"
    "fst ` set (add_row rows r) = insert (row_key r) (fst ` set rows)"
    by (auto simp: add_row_def row_key_def Let_def)
  moreover note Cons.IH [OF add_row_keyed [OF Cons.prems, of r]]
  ultimately show ?case by (simp only: foldl.simps list.set image_insert) blast
qed simp

lemma map_row_keys: "keyed_rows rows \<Longrightarrow> map row_key (map snd rows) = map fst rows"
  by (auto simp: keyed_rows_def)

text \<open>The table of categories has one row for every identifier, up to case, and only rows of the
  catalog.\<close>

lemma category_rows_complete:
  "distinct (map row_key (getCreationCategoryRows collation groups))
   \<and> row_key ` set (getCreationCategoryRows collation groups) = row_key ` set (listed groups)
   \<and> set (getCreationCategoryRows collation groups) \<subseteq> set (listed groups)"
proof -
  let ?rows = "foldl add_row [] (listed groups)" and ?f = "\<lambda>r. collation (model_id (fst r))"
  have k: "keyed_rows ?rows" "snd ` set ?rows \<subseteq> set (listed groups)" "fst ` set ?rows = row_key ` set (listed groups)"
    using add_rows [of "[]" "listed groups"] by (auto simp: keyed_rows_def)
  have eq: "getCreationCategoryRows collation groups = sort_key ?f (map snd ?rows)"
    by (simp add: getCreationCategoryRows_def listed_def)
  have ms: "mset (map row_key (sort_key ?f (map snd ?rows))) = mset (map fst ?rows)"
    using map_row_keys [OF k(1)] by (metis mset_map mset_sort)
  have d: "distinct (map row_key (sort_key ?f (map snd ?rows)))"
    unfolding mset_eq_imp_distinct_iff [OF ms] using k(1) by (simp add: keyed_rows_def)
  have "row_key ` set (map snd ?rows) = fst ` set ?rows"
    using arg_cong [OF map_row_keys [OF k(1)], of set] by (simp add: image_image)
  then show ?thesis using d k(2,3) unfolding eq by (simp add: image_image)
qed

section \<open>Prices\<close>

lemma normalize_resolution_canonical:
  "normalizeVideoResolution v = Some n \<Longrightarrow> n \<in> set videoResolutionOrder"
  by (auto simp: normalizeVideoResolution_def videoResolutionOrder_def Let_def simp del: js.simps split: option.splits if_splits)

lemma cost_entries_sound:
  "(n, q, p) \<in> set (cost_entries cost seen rs) \<Longrightarrow>
     n \<in> set videoResolutionOrder \<and> n \<notin> seen \<and> q = price_of (video_resolution_quotas cost) n
     \<and> p = price_of (video_resolution_prices cost) n \<and> (q \<noteq> None \<or> p \<noteq> None)"
proof (induction rs arbitrary: seen)
  case (Cons r rs)
  show ?case
  proof (cases "normalizeVideoResolution (Some r)")
    case None
    then show ?thesis using Cons by simp
  next
    case (Some m)
    show ?thesis
    proof (cases "(n, q, p) \<in> set (cost_entries cost (insert m seen) rs)")
      case True
      then show ?thesis using Cons.IH by blast
    next
      case False
      then show ?thesis using Cons Some normalize_resolution_canonical [OF Some]
        by (auto simp: Let_def split: if_splits)
    qed
  qed
qed simp

text \<open>The entries of a price table are read under the canonical names only.  A table whose keys
  are other spellings, which the code collects and normalises, has no entries at all.\<close>

lemma noncanonical_prices_lost:
  assumes "set (price_keys (video_resolution_quotas cost)) \<inter> set videoResolutionOrder = {}"
    "set (price_keys (video_resolution_prices cost)) \<inter> set videoResolutionOrder = {}"
  shows "getVideoResolutionCostEntries cost = []"
proof (rule ccontr)
  assume "getVideoResolutionCostEntries cost \<noteq> []"
  then obtain n q p where "(n, q, p) \<in> set (getVideoResolutionCostEntries cost)"
    by (metis list.set_sel(1) prod.collapse)
  then have n: "n \<in> set videoResolutionOrder"
    "price_of (video_resolution_quotas cost) n \<noteq> None \<or> price_of (video_resolution_prices cost) n \<noteq> None"
    using cost_entries_sound unfolding getVideoResolutionCostEntries_def by blast+
  have "price_of t n = None" if "set (price_keys t) \<inter> set videoResolutionOrder = {}" for t
    using that n(1) by (cases t) (auto simp: price_of_def price_keys_def map_of_eq_None_iff disjoint_iff)
  then show False using n(2) assms by simp
qed

lemma minutes_1080_lost:
  "getVideoResolutionCostEntries
     \<lparr>billing_mode = TieredSeconds, input_price_per_million = None, output_price_per_million = None, request_price = None,
      request_quota = None, video_resolution_prices = Some [(js ''1080'', num 1)], video_resolution_quotas = None,
      group_ratio = None\<rparr> = []"
  by (rule noncanonical_prices_lost) (simp_all add: price_keys_def videoResolutionOrder_def)

section \<open>Mentions\<close>

lemma last_index_None: "last_index u s = None \<longleftrightarrow> u \<notin> set s"
  by (induction s) (auto split: option.splits)

lemma last_index_decomp: "u \<notin> set b \<Longrightarrow> last_index u (a @ u # b) = Some (length a)"
  by (induction a) (auto simp: last_index_None [THEN iffD2])

lemma last_index_Some: "last_index u s = Some i \<Longrightarrow> \<exists>a b. s = a @ u # b \<and> u \<notin> set b \<and> i = length a"
proof -
  assume i: "last_index u s = Some i"
  then have "u \<in> set s" using last_index_None [of u s] by auto
  then obtain a b where "s = a @ u # b" "u \<notin> set b" using split_list_last by metis
  then show ?thesis using i last_index_decomp by fastforce
qed

text \<open>The trigger is the text between the last \<open>@\<close> before the caret and the caret, when it has no
  white space.\<close>

lemma mention_trigger_exact:
  assumes "caret \<le> length value"
  shows "getPromptMentionTrigger value (Some caret) = Some t \<longleftrightarrow>
    (\<exists>a. take caret value = a @ 64 # mt_query t \<and> mt_start t = length a \<and> mt_end t = caret
       \<and> 64 \<notin> set (mt_query t) \<and> \<not> list_ex is_ws (mt_query t))"
proof (cases "last_index 64 (take caret value)")
  case None
  then have "64 \<notin> set (take caret value)" by (simp add: last_index_None)
  then show ?thesis using None by (auto simp: getPromptMentionTrigger_def)
next
  case (Some i)
  then obtain a b where p: "take caret value = a @ 64 # b" "64 \<notin> set b" "i = length a"
    using last_index_Some by blast
  have same: "a' = a \<and> q = b" if "a @ 64 # b = a' @ 64 # q" "64 \<notin> set q" for a' q
    using that p(2) last_index_decomp [of 64 q a'] last_index_decomp [of 64 b a]
    by (metis append_eq_append_conv list.inject option.inject)
  show ?thesis
  proof
    assume "getPromptMentionTrigger value (Some caret) = Some t"
    then show "\<exists>a. take caret value = a @ 64 # mt_query t \<and> mt_start t = length a \<and> mt_end t = caret
       \<and> 64 \<notin> set (mt_query t) \<and> \<not> list_ex is_ws (mt_query t)"
      using p Some by (auto simp: getPromptMentionTrigger_def Let_def split: if_splits)
  next
    assume "\<exists>a. take caret value = a @ 64 # mt_query t \<and> mt_start t = length a \<and> mt_end t = caret
       \<and> 64 \<notin> set (mt_query t) \<and> \<not> list_ex is_ws (mt_query t)"
    then have "mt_query t = b" "mt_start t = length a" "mt_end t = caret" "\<not> list_ex is_ws b"
      using p same by metis+
    then show "getPromptMentionTrigger value (Some caret) = Some t"
      using p Some by (cases t) (simp add: getPromptMentionTrigger_def Let_def)
  qed
qed

end
