(* ===== verification/Billing_Tiers.thy ===== *)
theory Billing_Tiers
  imports Billing_Props
begin

text \<open>
  Tiers of a billing expression: the reader of \<open>billing-expr.ts\<close> that shows the tiers of an expression
  (\<open>parseTiersFromExpr\<close>), and the visual editor of \<open>features/pricing/lib/tier-expr.ts\<close>, which writes an
  expression from a list of tiers and reads such an expression back.  A tier of the editor is an
  object whose costs are a map from the names of its fields.
\<close>

section \<open>All matches, splitting and replacing\<close>

text \<open>The groups of all matches of a pattern with the flag \<open>g\<close>; the patterns used never match the
  empty text.\<close>

function exec_all :: "re \<Rightarrow> jsstring \<Rightarrow> jsstring \<Rightarrow> caps list" where
  "exec_all r pre s =
     (case exec_from r pre s of
        None \<Rightarrow> []
      | Some (pre0, pre1, s', c) \<Rightarrow> c # (if length s' < length s then exec_all r pre1 s' else []))"
  by pat_completeness auto
termination by (relation "measure (\<lambda>(r, pre, s). length s)") auto

function re_split :: "re \<Rightarrow> jsstring \<Rightarrow> jsstring list" where
  "re_split r s =
     (case exec_from r [] s of
        None \<Rightarrow> [s]
      | Some (pre0, pre1, s', c) \<Rightarrow> rev pre0 # (if length s' < length s then re_split r s' else [s']))"
  by pat_completeness auto
termination by (relation "measure (\<lambda>(r, s). length s)") auto

function re_replace_all :: "re \<Rightarrow> jsstring \<Rightarrow> jsstring \<Rightarrow> jsstring" where
  "re_replace_all r w s =
     (case exec_from r [] s of
        None \<Rightarrow> s
      | Some (pre0, pre1, s', c) \<Rightarrow> rev pre0 @ w @ (if length s' < length s then re_replace_all r w s' else s'))"
  by pat_completeness auto
termination by (relation "measure (\<lambda>(r, w, s). length s)") auto

declare exec_all.simps [simp del] re_split.simps [simp del] re_replace_all.simps [simp del]

section \<open>Patterns\<close>

definition ws_re :: re where
  "ws_re = RStar (RSet is_ws)"

text \<open>\<open>[\d.eE+]\<close>, the units of a number in a condition.\<close>

definition condc :: "unit16 \<Rightarrow> bool" where
  "condc u \<longleftrightarrow> is_digit u \<or> u \<in> {46, 101, 69, 43}"

definition version_re :: re where
  "version_re = RSeq RBegin (rseqs
     [rlit ''v'', RGroup 1 (rplus (RSet is_digit)), rlit '':'', RGroup 2 (RStar (RSet any_dotall)), REnd])"

definition cond_var_re :: re where
  "cond_var_re = ralts [rlit ''p'', rlit ''c'', rlit ''len'']"

definition cond_op_re :: re where
  "cond_op_re = ralts [rlit ''<'', rlit ''<='', rlit ''>'', rlit ''>='']"

definition one_cond_re :: re where
  "one_cond_re = rseqs [cond_var_re, ws_re, cond_op_re, ws_re, rplus (RSet condc)]"

definition condGroup :: re where
  "condGroup = RGroup 1 (RSeq one_cond_re (RStar (rseqs [ws_re, rlit ''&&'', ws_re, one_cond_re])))"

definition tier_head_re :: re where
  "tier_head_re = ropt (rseqs [condGroup, ws_re, rlit ''?'', ws_re])"

definition label_re :: "nat \<Rightarrow> re" where
  "label_re i = RGroup i (RStar (RSet notq))"

definition tierRe :: re where
  \<open>tierRe = RSeq tier_head_re (rseqs
     [rlit ''tier("'', label_re 2, rlit ''",'', ws_re, RGroup 3 (rplus (RSet (\<lambda>u. u \<noteq> 41))), rlit '')''])\<close>

definition cond_match_re :: re where
  "cond_match_re = RSeq RBegin (rseqs
     [RGroup 1 cond_var_re, ws_re, RGroup 2 cond_op_re, ws_re, RGroup 3 (rplus (RSet condc)), REnd])"

definition and_re :: re where
  "and_re = rseqs [ws_re, rlit ''&&'', ws_re]"

definition rlits :: "jsstring list \<Rightarrow> re" where
  "rlits ws = ralts (map rlit_units ws)"

definition BILLING_VAR_REGEX :: re where
  "BILLING_VAR_REGEX = rseqs
     [RWordB, RGroup 1 (rlits (map bv_key BILLING_PRICING_VARS)), ws_re, rlit ''*'', ws_re, num_re 2]"

section \<open>Reading the tiers of an expression\<close>

definition BILLING_VAR_KEY_TO_FIELD :: "(jsstring \<times> jsstring) list" where
  "BILLING_VAR_KEY_TO_FIELD =
     map (\<lambda>v. (bv_key v, case bv_field v of Some f \<Rightarrow> f | None \<Rightarrow> [])) BILLING_PRICING_VARS"

record TierCondition =
  tc_var :: jsstring
  tc_op :: jsstring
  tc_value :: jsnum

record ParsedTier =
  tier_label :: jsstring
  tier_conditions :: "TierCondition list"
  tier_prices :: "(jsstring \<times> jsnum) list"

definition stripExprVersion :: "jsstring \<Rightarrow> jsnum \<times> jsstring" where
  "stripExprVersion exprStr =
     (if exprStr = [] then (num 1, [])
      else (case re_match version_re exprStr of
              Some m \<Rightarrow> (js_Number (group m 1), group m 2)
            | None \<Rightarrow> (num 1, exprStr)))"

definition or_zero :: "jsnum option \<Rightarrow> jsnum" where
  "or_zero v = (case v of Some x \<Rightarrow> if js_truthy_num x then x else Fin 0 | None \<Rightarrow> Fin 0)"

definition add_coeff :: "(jsstring \<times> jsnum) list \<Rightarrow> caps \<Rightarrow> (jsstring \<times> jsnum) list" where
  "add_coeff coeffs m =
     (if group m 1 \<in> fst ` set coeffs then coeffs else coeffs @ [(group m 1, js_Number (group m 2))])"

definition parseTierBody :: "jsstring \<Rightarrow> (jsstring \<times> jsnum) list" where
  "parseTierBody bodyStr =
     (let coeffs = foldl add_coeff [] (exec_all BILLING_VAR_REGEX [] bodyStr)
      in map (\<lambda>(varName, field). (field, or_zero (map_of coeffs varName))) BILLING_VAR_KEY_TO_FIELD)"

definition read_condition :: "jsstring \<Rightarrow> TierCondition list" where
  "read_condition cp =
     (case re_match cond_match_re (trim cp) of
        Some cm \<Rightarrow> [\<lparr>tc_var = group cm 1, tc_op = group cm 2, tc_value = js_Number (group cm 3)\<rparr>]
      | None \<Rightarrow> [])"

definition read_conditions :: "jsstring \<Rightarrow> TierCondition list" where
  "read_conditions condStr =
     (if condStr = [] then [] else concat (map read_condition (re_split and_re condStr)))"

definition parseTiersFromExpr :: "jsstring \<Rightarrow> ParsedTier list" where
  "parseTiersFromExpr exprStr =
     (if exprStr = [] then []
      else map (\<lambda>m. \<lparr>tier_label = group m 2, tier_conditions = read_conditions (group m 1),
             tier_prices = parseTierBody (group m 3)\<rparr>)
        (exec_all tierRe [] (snd (stripExprVersion exprStr))))"

text \<open>Labels are compared without blanks, with the signs for at most and at least as plain
  comparisons, also the full-width ones.\<close>

definition equals_sign :: "unit16 \<Rightarrow> bool" where
  "equals_sign u \<longleftrightarrow> u = 61 \<or> u = 65309"

definition below_re :: re where
  "below_re = ralts [RSeq (rlit ''<'') (ropt (RSet equals_sign)), RSet ((=) 8804),
     RSeq (RSet ((=) 65308)) (ropt (RSet equals_sign))]"

definition above_re :: re where
  "above_re = ralts [RSeq (rlit ''>'') (ropt (RSet equals_sign)), RSet ((=) 8805),
     RSeq (RSet ((=) 65310)) (ropt (RSet equals_sign))]"

definition normalizeTierLabel :: "jsstring option \<Rightarrow> jsstring" where
  "normalizeTierLabel label =
     (case label of
        None \<Rightarrow> []
      | Some l \<Rightarrow>
          toLowerCase (filter (\<lambda>u. \<not> is_ws u) (re_replace_all above_re (js ''>'') (re_replace_all below_re (js ''<'') l))))"

section \<open>The visual editor\<close>

datatype CacheMode = CACHE_MODE_TIMED | CACHE_MODE_GENERIC

datatype cond_value = CNum jsnum | CText jsstring

record TierConditionInput =
  ci_var :: jsstring
  ci_op :: jsstring
  ci_value :: cond_value

type_synonym costs = "jsstring \<Rightarrow> jsnum option"

record VisualTier =
  vt_label :: jsstring
  vt_conditions :: "TierConditionInput list"
  vt_cache_mode :: CacheMode
  vt_costs :: costs

record PartialTier =
  pt_label :: "jsstring option"
  pt_conditions :: "TierConditionInput list option"
  pt_cache_mode :: "CacheMode option"
  pt_costs :: costs

definition to_partial_tier :: "VisualTier \<Rightarrow> PartialTier" where
  "to_partial_tier t = \<lparr>pt_label = Some (vt_label t), pt_conditions = Some (vt_conditions t),
     pt_cache_mode = Some (vt_cache_mode t), pt_costs = vt_costs t\<rparr>"

definition cost_1h :: jsstring where
  "cost_1h = js ''cache_create_1h_unit_cost''"

definition getTierCacheMode :: "PartialTier \<Rightarrow> CacheMode" where
  "getTierCacheMode tier =
     (case pt_cache_mode tier of
        Some m \<Rightarrow> m
      | None \<Rightarrow>
          (case pt_costs tier cost_1h of
             Some x \<Rightarrow> if js_less (Fin 0) x then CACHE_MODE_TIMED else CACHE_MODE_GENERIC
           | None \<Rightarrow> CACHE_MODE_GENERIC))"

definition base_cost_fields :: "jsstring list" where
  "base_cost_fields = [js ''input_unit_cost'', js ''output_unit_cost'']"

definition extra_cost_fields :: "jsstring list" where
  "extra_cost_fields = map js [''cache_read_unit_cost'', ''cache_create_unit_cost'', ''cache_create_1h_unit_cost'',
     ''image_unit_cost'', ''image_output_unit_cost'', ''audio_input_unit_cost'', ''audio_output_unit_cost'']"

text \<open>The spread \<open>...tier\<close> comes after the defaults of the label, the conditions, the mode and the two
  base costs and before the other costs: the former are kept as they are when they are given.\<close>

definition normalizeVisualTier :: "PartialTier \<Rightarrow> VisualTier" where
  "normalizeVisualTier tier =
     \<lparr>vt_label = (case pt_label tier of Some l \<Rightarrow> l | None \<Rightarrow> []),
      vt_conditions = (case pt_conditions tier of Some cs \<Rightarrow> cs | None \<Rightarrow> []),
      vt_cache_mode = getTierCacheMode tier,
      vt_costs = (\<lambda>f. if f \<in> set extra_cost_fields then Some (or_zero (pt_costs tier f))
        else if f \<in> set base_cost_fields \<and> pt_costs tier f = None then Some (Fin 0) else pt_costs tier f)\<rparr>"

definition createDefaultVisualConfig :: "VisualTier list" where
  "createDefaultVisualConfig =
     [normalizeVisualTier \<lparr>pt_label = Some (js ''base''), pt_conditions = Some [],
        pt_cache_mode = Some CACHE_MODE_GENERIC,
        pt_costs = [js ''input_unit_cost'' \<mapsto> Fin 0, js ''output_unit_cost'' \<mapsto> Fin 0]\<rparr>]"

text \<open>A configuration is its list of tiers; a missing one is empty.\<close>

definition normalizeVisualConfig :: "VisualTier list \<Rightarrow> VisualTier list" where
  "normalizeVisualConfig tiers =
     (if tiers = [] then createDefaultVisualConfig else map (\<lambda>t. normalizeVisualTier (to_partial_tier t)) tiers)"

definition show_value :: "cond_value \<Rightarrow> jsstring" where
  "show_value v = (case v of CNum n \<Rightarrow> js_String n | CText s \<Rightarrow> s)"

definition written :: "TierConditionInput \<Rightarrow> bool" where
  "written c \<longleftrightarrow> ci_var c \<noteq> [] \<and> ci_op c \<noteq> [] \<and> ci_value c \<noteq> CText []"

definition show_condition :: "TierConditionInput \<Rightarrow> jsstring" where
  "show_condition c = ci_var c @ js '' '' @ ci_op c @ js '' '' @ show_value (ci_value c)"

definition buildConditionStr :: "TierConditionInput list \<Rightarrow> jsstring" where
  "buildConditionStr cs = join (js '' && '') (map show_condition (filter written cs))"

definition cost_of :: "VisualTier \<Rightarrow> jsstring \<Rightarrow> jsnum" where
  "cost_of tier f = or_zero (vt_costs tier f)"

definition cost_parts :: "VisualTier \<Rightarrow> jsstring list" where
  "cost_parts tier =
     map (\<lambda>(field, exprVar). exprVar @ js '' * '' @ js_String (cost_of tier field))
       (filter (\<lambda>(field, exprVar). cost_of tier field \<noteq> Fin 0) BILLING_CACHE_VAR_MAP)"

definition buildTierBodyExpr :: "VisualTier \<Rightarrow> jsstring" where
  "buildTierBodyExpr tier =
     join (js '' + '')
       ([js ''p * '' @ js_String (cost_of tier (js ''input_unit_cost'')),
         js ''c * '' @ js_String (cost_of tier (js ''output_unit_cost''))] @ cost_parts tier)"

definition no_cost :: jsstring where
  "no_cost = js ''p * 0 + c * 0''"

definition tier_call :: "jsstring \<Rightarrow> VisualTier \<Rightarrow> jsstring" where
  \<open>tier_call dflt tier = js ''tier("'' @ (if vt_label tier \<noteq> [] then vt_label tier else dflt) @ js ''", ''
     @ buildTierBodyExpr tier @ js '')''\<close>

fun tier_parts :: "nat \<Rightarrow> VisualTier list \<Rightarrow> jsstring list" where
  "tier_parts i [] = []"
| "tier_parts i (t # ts) =
     (let body = tier_call (js ''tier_'' @ show_nat (i + 1)) t; cond = buildConditionStr (vt_conditions t)
      in (if ts \<noteq> [] \<and> cond \<noteq> [] then cond @ js '' ? '' @ body else body) # tier_parts (i + 1) ts)"

definition generateExprFromVisualConfig :: "VisualTier list \<Rightarrow> jsstring" where
  "generateExprFromVisualConfig tiers =
     (case tiers of
        [] \<Rightarrow> no_cost
      | [tier] \<Rightarrow>
          (let body = tier_call (js ''default'') tier; cond = buildConditionStr (vt_conditions tier)
           in if cond \<noteq> [] then cond @ js '' ? '' @ body @ js '' : '' @ no_cost else body)
      | _ \<Rightarrow> join (js '' : '') (tier_parts 0 tiers))"

section \<open>Reading an expression back into the editor\<close>

definition opt_cost_re :: "jsstring \<Rightarrow> nat \<Rightarrow> re" where
  "opt_cost_re v i = ropt (rseqs [ws_re, rlit ''+'', ws_re, rlit_units v, ws_re, rlit ''*'', ws_re, num_re i])"

definition cacheVarNames :: "jsstring list" where
  "cacheVarNames = map snd BILLING_CACHE_VAR_MAP"

fun opt_costs :: "nat \<Rightarrow> jsstring list \<Rightarrow> re list" where
  "opt_costs i [] = []"
| "opt_costs i (v # vs) = opt_cost_re v i # opt_costs (i + 1) vs"

definition body_pat :: "nat \<Rightarrow> re list" where
  "body_pat i = [rlit ''p'', ws_re, rlit ''*'', ws_re, num_re i, ws_re, rlit ''+'', ws_re, rlit ''c'', ws_re, rlit ''*'',
     ws_re, num_re (i + 1)] @ opt_costs (i + 2) cacheVarNames"

definition singleRe :: re where
  \<open>singleRe = RSeq RBegin (rseqs ([rlit ''tier("'', label_re 1, rlit ''",'', ws_re] @ body_pat 2 @ [rlit '')'', REnd]))\<close>

definition visualTierRe :: re where
  \<open>visualTierRe = RSeq tier_head_re (rseqs ([rlit ''tier("'', label_re 2, rlit ''",'', ws_re] @ body_pat 3 @ [rlit '')'']))\<close>

definition plain_version_re :: re where
  "plain_version_re = RSeq RBegin (rseqs
     [rlit ''v'', rplus (RSet is_digit), rlit '':'', RGroup 1 (RStar (RSet any_dotall)), REnd])"

fun put_costs :: "caps \<Rightarrow> nat \<Rightarrow> (jsstring \<times> jsstring) list \<Rightarrow> costs \<Rightarrow> costs" where
  "put_costs m i [] t = t"
| "put_costs m i ((field, v) # fs) t =
     put_costs m (i + 1) fs (case m i of Some w \<Rightarrow> t(field \<mapsto> js_Number w) | None \<Rightarrow> t)"

definition to_input :: "TierCondition \<Rightarrow> TierConditionInput" where
  "to_input c = \<lparr>ci_var = tc_var c, ci_op = tc_op c, ci_value = CNum (tc_value c)\<rparr>"

text \<open>The tier of a match whose label is group \<open>i\<close>, whose costs are the groups from \<open>i + 1\<close> on.\<close>

definition matched_tier :: "TierConditionInput list \<Rightarrow> nat \<Rightarrow> caps \<Rightarrow> VisualTier" where
  "matched_tier cs i m =
     normalizeVisualTier \<lparr>pt_label = Some (group m i), pt_conditions = Some cs, pt_cache_mode = None,
       pt_costs = put_costs m (i + 3) BILLING_CACHE_VAR_MAP
         [js ''input_unit_cost'' \<mapsto> js_Number (group m (i + 1)), js ''output_unit_cost'' \<mapsto> js_Number (group m (i + 2))]\<rparr>"

definition no_ws :: "jsstring \<Rightarrow> jsstring" where
  "no_ws s = filter (\<lambda>u. \<not> is_ws u) s"

definition tryParseVisualConfig :: "jsstring \<Rightarrow> VisualTier list option" where
  "tryParseVisualConfig exprStr =
     (if exprStr = [] then None
      else
        (let body = (case re_match plain_version_re exprStr of Some m \<Rightarrow> group m 1 | None \<Rightarrow> exprStr)
         in case re_match singleRe body of
              Some m \<Rightarrow> Some (normalizeVisualConfig [matched_tier [] 1 m])
            | None \<Rightarrow>
                (let tiers = map (\<lambda>m. matched_tier (map to_input (read_conditions (group m 1))) 2 m)
                       (exec_all visualTierRe [] body)
                 in if tiers = [] then None
                    else
                      (let cfg = normalizeVisualConfig tiers
                       in if no_ws (generateExprFromVisualConfig cfg) \<noteq> no_ws body then None else Some cfg))))"

section \<open>The estimator\<close>

definition ESTIMATOR_VARS :: "(jsstring \<times> jsstring) list" where
  "ESTIMATOR_VARS =
     [(js ''cr'', js ''cacheReadTokens''), (js ''cc'', js ''cacheCreateTokens''), (js ''cc1h'', js ''cacheCreate1hTokens''),
      (js ''img'', js ''imageTokens''), (js ''img_o'', js ''imageOutputTokens''), (js ''ai'', js ''audioInputTokens''),
      (js ''ao'', js ''audioOutputTokens'')]"

definition exprUsesExtraVars :: "jsstring \<Rightarrow> bool" where
  "exprUsesExtraVars exprStr \<longleftrightarrow>
     exprStr \<noteq> [] \<and> re_test (rseqs [RWordB, RGroup 1 (rlits (map fst ESTIMATOR_VARS)), RWordB]) exprStr"

end
