(* ===== verification/Billing_Tiers_Reading.thy ===== *)
theory Billing_Tiers_Reading
  imports Billing_Tiers
begin

text \<open>
  How the patterns of tiers read: sequences of patterns run on known texts, the optional summands of
  the extra costs, and the conditions before a tier.
\<close>

section \<open>Sequences of patterns\<close>

lemma rmatch_eps: "rmatch REps = (\<lambda>st. [st])"
  by (rule ext) simp

lemma rseqs_Cons: "rmatch (rseqs (r # rs)) st = concat (map (rmatch (rseqs rs)) (rmatch r st))"
  by (cases rs) (simp_all add: rmatch_eps concat_map_singleton)

lemma rseqs_append: "rmatch (rseqs (rs @ rs')) st = concat (map (rmatch (rseqs rs')) (rmatch (rseqs rs) st))"
proof (induction rs arbitrary: st)
  case (Cons r rs)
  have "rmatch (rseqs (rs @ rs')) = (\<lambda>st. concat (map (rmatch (rseqs rs')) (rmatch (rseqs rs) st)))"
    using Cons by (rule ext)
  then show ?case
    by (simp add: rseqs_Cons concat_map_concat map_map comp_def del: rseqs.simps)
qed simp

lemma run_lit:
  "rmatch (rseqs (rlit_units w # rs)) (pre, s, c) =
     (if startsWith s w then rmatch (rseqs rs) (rev w @ pre, drop (length w) s, c) else [])"
  by (simp add: rseqs_Cons del: rseqs.simps)

lemma rlit_units_of: "rlit w = rlit_units (js w)"
  by (simp add: rlit_def)

lemma run_ws:
  "refuses (rseqs rs) is_ws \<Longrightarrow>
   rmatch (rseqs (ws_re # rs)) (pre, s, c) = rmatch (rseqs rs) (rev (takeWhile is_ws s) @ pre, dropWhile is_ws s, c)"
  by (simp add: rseqs_Cons ws_re_def greedy_run del: rmatch.simps rseqs.simps)

text \<open>A captured greedy run of a known text: what follows refuses the units of the text.\<close>

lemma greedy_known_aux:
  assumes "refuses k Q" "\<not> P u" "list_all (\<lambda>x. P x \<and> Q x) v"
  shows "concat (map (rmatch k) (map (with_group i p0) (rmatch (RStar (RSet P)) (rev w @ p0, v @ u # s, c))))
    = rmatch k (rev (w @ v) @ p0, u # s, c(i \<mapsto> w @ v))"
  using assms(3)
proof (induction v arbitrary: w)
  case Nil
  then show ?case using assms(2) by (simp add: rmatch_class_star fun_upd_def del: rmatch.simps(5))
next
  case (Cons x v)
  then have x: "P x" "Q x" by auto
  then show ?case
    using Cons.IH [of "w @ [x]"] Cons.prems refusesD [OF assms(1) x(2)]
    by (simp add: rmatch_class_star del: rmatch.simps(5))
qed

lemma run_plus:
  assumes "refuses (rseqs rs) Q" "\<not> P u" "list_all (\<lambda>x. P x \<and> Q x) v" "v \<noteq> []"
  shows "rmatch (rseqs (RGroup i (rplus (RSet P)) # rs)) (pre, v @ u # s, c)
    = rmatch (rseqs rs) (rev v @ pre, u # s, c(i \<mapsto> v))"
proof -
  obtain x v' where v: "v = x # v'" using assms(4) by (cases v) auto
  then show ?thesis
    using greedy_known_aux [where P = P and u = u, OF assms(1,2), of v' i pre "[x]" s c] assms(3)
    by (simp add: rseqs_Cons rplus_def rmatch_group del: rmatch.simps(5,6) rseqs.simps)
qed

lemma run_star:
  assumes "refuses (rseqs rs) P" "\<not> P u" "list_all P v"
  shows "rmatch (rseqs (RGroup i (RStar (RSet P)) # rs)) (pre, v @ u # s, c)
    = rmatch (rseqs rs) (rev v @ pre, u # s, c(i \<mapsto> v))"
  using greedy_known_aux [where P = P and u = u, OF assms(1,2), of v i pre "[]" s c] assms(3)
  by (simp add: rseqs_Cons rmatch_group list_all_iff del: rmatch.simps(5,6) rseqs.simps)

lemma run_opt:
  "rmatch (rseqs (ropt (rseqs as) # rs)) st = rmatch (rseqs (as @ rs)) st @ rmatch (rseqs rs) st"
  by (simp add: rseqs_Cons rseqs_append ropt_def del: rseqs.simps)

lemma refuses_run_lit: "w \<noteq> [] \<Longrightarrow> \<not> P (hd w) \<Longrightarrow> refuses (rseqs (rlit_units w # rs)) P"
  by (cases w) (auto simp: refuses_def run_lit startsWith_def simp del: rseqs.simps rlit_units.simps)

lemma refuses_run_ws:
  "refuses (rseqs rs) is_ws \<Longrightarrow> refuses (rseqs rs) P \<Longrightarrow> (\<And>u. P u \<Longrightarrow> \<not> is_ws u) \<Longrightarrow> refuses (rseqs (ws_re # rs)) P"
  by (simp add: refuses_def run_ws del: rseqs.simps)

lemma refuses_run_opt:
  "refuses (rseqs (as @ rs)) P \<Longrightarrow> refuses (rseqs rs) P \<Longrightarrow> refuses (rseqs (ropt (rseqs as) # rs)) P"
  by (simp add: refuses_def run_opt del: rseqs.simps)

section \<open>The costs of a tier\<close>

text \<open>The texts of prices: no plus sign, so that a number ends where the next summand starts.\<close>

definition pricec :: "unit16 \<Rightarrow> bool" where
  "pricec u \<longleftrightarrow> is_digit u \<or> u \<in> {46, 101, 45}"

definition price_text :: "jsstring \<Rightarrow> bool" where
  "price_text w \<longleftrightarrow> w \<noteq> [] \<and> list_all pricec w"

lemma pricec_numc: "pricec u \<Longrightarrow> numc u \<and> pricec u"
  by (auto simp: pricec_def numc_def)

lemma pricec_ws [simp]: "pricec u \<Longrightarrow> \<not> is_ws u"
  by (auto simp: pricec_def is_digit_def)

lemma price_text_runs: "price_text w \<Longrightarrow> list_all (\<lambda>x. numc x \<and> pricec x) w"
  by (auto simp: price_text_def list_all_iff pricec_numc)

lemma run_price:
  assumes "refuses (rseqs rs) pricec" "price_text v" "\<not> numc u"
  shows "rmatch (rseqs (num_re i # rs)) (pre, v @ u # s, c) = rmatch (rseqs rs) (rev v @ pre, u # s, c(i \<mapsto> v))"
  using run_plus [OF assms(1,3) price_text_runs [OF assms(2)]] assms(2) by (simp add: price_text_def)

text \<open>Two variables that the patterns tell apart: none is the other with a blank or a star behind it.\<close>

definition apart :: "jsstring \<Rightarrow> jsstring \<Rightarrow> bool" where
  "apart v w \<longleftrightarrow> 32 \<notin> set v \<and>
     (startsWith w v \<longrightarrow> length v < length w \<and> \<not> is_ws (w ! length v) \<and> w ! length v \<noteq> 42)"

definition cost_items :: "jsstring \<Rightarrow> nat \<Rightarrow> re list" where
  "cost_items v i = [ws_re, rlit ''+'', ws_re, rlit_units v, ws_re, rlit ''*'', ws_re, num_re i]"

lemma opt_cost_items: "opt_cost_re v i = ropt (rseqs (cost_items v i))"
  by (simp only: opt_cost_re_def cost_items_def)

lemma refuses_ws_lit: "\<not> is_ws (of_char x) \<Longrightarrow> refuses (rseqs (rlit (x # w) # rs)) is_ws"
  unfolding rlit_units_of by (rule refuses_run_lit) simp_all

lemma refuses_ws_var: "v \<noteq> [] \<Longrightarrow> \<not> is_ws (hd v) \<Longrightarrow> refuses (rseqs (rlit_units v # rs)) is_ws"
  by (rule refuses_run_lit)

lemma startsWith_Cons: "startsWith s (u # v) \<longleftrightarrow> (\<exists>r. s = u # r \<and> startsWith r v)"
  by (cases s) (auto simp: startsWith_def)

lemma startsWith_spaced: "32 \<notin> set v \<Longrightarrow> startsWith (w @ 32 # t) v \<longleftrightarrow> startsWith w v"
proof (induction v arbitrary: w)
  case (Cons u v)
  then show ?case by (cases w) (auto simp: startsWith_Cons)
qed (simp add: startsWith_def)

named_theorems runs \<open>running a sequence of patterns\<close>

lemmas [runs] = run_lit run_ws rlit_units_of startsWith_units refuses_run_lit

definition var_name :: "jsstring \<Rightarrow> bool" where
  "var_name v \<longleftrightarrow> v \<noteq> [] \<and> \<not> is_ws (hd v)"

lemma var_name_Cons: "var_name v \<Longrightarrow> \<exists>u r. v = u # r \<and> \<not> is_ws u"
  by (cases v) (auto simp: var_name_def)

lemma price_text_Cons: "price_text n \<Longrightarrow> \<exists>u r. n = u # r \<and> \<not> is_ws u"
  by (cases n) (auto simp: price_text_def)

lemma ws_run [runs]:
  "var_name v \<Longrightarrow> takeWhile is_ws (v @ s) = []" "var_name v \<Longrightarrow> dropWhile is_ws (v @ s) = v @ s"
  "price_text n \<Longrightarrow> takeWhile is_ws (n @ s) = []" "price_text n \<Longrightarrow> dropWhile is_ws (n @ s) = n @ s"
  using var_name_Cons price_text_Cons by fastforce+

lemma ws_space [simp]: "is_ws 32"
  by (simp add: is_ws_def)

lemma refuses_var [runs]: "var_name v \<Longrightarrow> refuses (rseqs (rlit_units v # rs)) is_ws"
  by (simp add: var_name_def refuses_run_lit)

lemma refuses_num_ws [runs]: "refuses (rseqs (num_re i # rs)) is_ws"
proof -
  have "\<not> numc u" if "is_ws u" for u using that by (auto simp: numc_def is_digit_def is_ws_def)
  then show ?thesis by (auto simp: refuses_def rseqs_Cons rplus_def rmatch_group simp del: rseqs.simps rmatch.simps(5,6))
qed

lemma items_paren: "rmatch (rseqs (cost_items v i @ rs)) (pre, 41 # s, c) = []"
  by (simp add: cost_items_def runs is_ws_def del: rseqs.simps rmatch.simps rlit_units.simps)

lemma items_apart:
  assumes "apart v w" "var_name v" "var_name w"
  shows "rmatch (rseqs (cost_items v i @ rs)) (pre, 32 # 43 # 32 # w @ 32 # t, c) = []"
proof (cases "startsWith w v")
  case True
  then have l: "length v < length w" and u: "\<not> is_ws (w ! length v)" "w ! length v \<noteq> 42"
    using assms(1) by (auto simp: apart_def)
  have d: "drop (length v) w = w ! length v # drop (Suc (length v)) w" using l by (simp add: Cons_nth_drop_Suc)
  show ?thesis
    using assms u l
    by (simp add: cost_items_def runs startsWith_spaced apart_def d refuses_num_ws
        del: rseqs.simps rmatch.simps rlit_units.simps)
next
  case False
  then show ?thesis
    using assms
    by (simp add: cost_items_def runs startsWith_spaced apart_def del: rseqs.simps rmatch.simps rlit_units.simps)
qed

lemma items_match:
  assumes "var_name v" "price_text n" "\<not> numc u" "refuses (rseqs rs) pricec"
  shows "rmatch (rseqs (cost_items v i @ rs)) (pre, 32 # 43 # 32 # v @ 32 # 42 # 32 # n @ u # s, c)
    = rmatch (rseqs rs) (rev (32 # 43 # 32 # v @ 32 # 42 # 32 # n) @ pre, u # s, c(i \<mapsto> n))"
  using assms
  by (simp add: cost_items_def runs run_price del: rseqs.simps rmatch.simps rlit_units.simps)

definition cost_text :: "(jsstring \<Rightarrow> jsstring option) \<Rightarrow> jsstring list \<Rightarrow> jsstring" where
  "cost_text val vs = concat (map (\<lambda>v. case val v of None \<Rightarrow> [] | Some n \<Rightarrow> 32 # 43 # 32 # v @ 32 # 42 # 32 # n) vs)"

fun cost_caps :: "(jsstring \<Rightarrow> jsstring option) \<Rightarrow> nat \<Rightarrow> jsstring list \<Rightarrow> caps \<Rightarrow> caps" where
  "cost_caps val i [] c = c"
| "cost_caps val i (v # vs) c = cost_caps val (i + 1) vs (case val v of None \<Rightarrow> c | Some n \<Rightarrow> c(i \<mapsto> n))"

lemma refuses_costs:
  assumes "\<not> pricec (hd w)" "w \<noteq> []"
  shows "refuses (rseqs (opt_costs i vs @ rlit_units w # rs)) pricec"
proof (induction vs arbitrary: i)
  case Nil
  then show ?case using assms by (simp add: refuses_run_lit del: rseqs.simps)
next
  case (Cons v vs)
  have "refuses (rseqs (cost_items v i @ opt_costs (i + 1) vs @ rlit_units w # rs)) pricec"
    unfolding cost_items_def append.simps rlit_units_of
    by (intro refuses_run_ws refuses_run_lit) (auto simp: pricec_def is_digit_def)
  then show ?case using Cons by (simp add: opt_cost_items refuses_run_opt del: rseqs.simps rlit_units.simps)
qed

lemma costs_stuck:
  assumes "\<forall>w\<in>set vs. apart w v \<and> var_name w" "var_name v"
  shows "rmatch (rseqs (opt_costs i vs @ rlit_units (41 # k) # rs)) (pre, 32 # 43 # 32 # v @ 32 # t, c) = []"
  using assms(1)
proof (induction vs arbitrary: i)
  case Nil
  then show ?case by (simp add: runs del: rseqs.simps rlit_units.simps)
next
  case (Cons w vs)
  then show ?case
    using items_apart [of w v i "opt_costs (Suc i) vs @ rlit_units (41 # k) # rs" pre t c] assms(2)
    by (simp add: opt_cost_items run_opt del: rseqs.simps rlit_units.simps)
qed

definition vars_apart :: "jsstring list \<Rightarrow> bool" where
  "vars_apart vs \<longleftrightarrow> distinct vs \<and> (\<forall>v\<in>set vs. var_name v \<and> (\<forall>w\<in>set vs. v \<noteq> w \<longrightarrow> apart v w))"

lemma cost_text_start:
  "cost_text val vs = [] \<or> (\<exists>v\<in>set vs. \<exists>t. cost_text val vs = 32 # 43 # 32 # v @ 32 # t)"
proof (induction vs)
  case (Cons v vs)
  then show ?case by (cases "val v") (auto simp: cost_text_def)
qed (simp add: cost_text_def)

lemma costs_match:
  assumes "vars_apart vs" "\<And>v n. v \<in> set vs \<Longrightarrow> val v = Some n \<Longrightarrow> price_text n"
  shows "rmatch (rseqs (opt_costs i vs @ rlit_units [41] # rs)) (pre, cost_text val vs @ 41 # s, c)
    = rmatch (rseqs rs) (41 # rev (cost_text val vs) @ pre, s, cost_caps val i vs c)"
  using assms
proof (induction vs arbitrary: i pre c)
  case Nil
  then show ?case by (simp add: cost_text_def runs del: rseqs.simps rlit_units.simps)
next
  case (Cons v vs)
  let ?rest = "opt_costs (Suc i) vs @ rlit_units [41] # rs"
  have v: "var_name v" "\<forall>w\<in>set vs. apart w v \<and> apart v w \<and> var_name w" and vs: "vars_apart vs"
    using Cons.prems(1) by (auto simp: vars_apart_def)
  have IH: "rmatch (rseqs ?rest) (pre, cost_text val vs @ 41 # s, c)
      = rmatch (rseqs rs) (41 # rev (cost_text val vs) @ pre, s, cost_caps val (Suc i) vs c)" for pre c
    using Cons.IH [OF vs, of "Suc i" pre c] Cons.prems(2) by (metis list.set_intros(2))
  show ?case
  proof (cases "val v")
    case None
    have "rmatch (rseqs (cost_items v i @ ?rest)) (pre, cost_text val vs @ 41 # s, c) = []"
      using cost_text_start [of val vs] items_apart v items_paren by fastforce
    then show ?thesis
      using None IH by (simp add: cost_text_def opt_cost_items run_opt del: rseqs.simps rlit_units.simps)
  next
    case (Some n)
    have n: "price_text n" using Cons.prems(2) [of v n] Some by simp
    obtain u t where t: "cost_text val vs @ 41 # s = u # t" "\<not> numc u"
      using cost_text_start [of val vs] by (auto simp: numc_def is_digit_def)
    have hit: "rmatch (rseqs (cost_items v i @ ?rest)) (pre, 32 # 43 # 32 # v @ 32 # 42 # 32 # n @ cost_text val vs @ 41 # s, c)
      = rmatch (rseqs ?rest) (rev (32 # 43 # 32 # v @ 32 # 42 # 32 # n) @ pre, cost_text val vs @ 41 # s, c(i \<mapsto> n))"
      unfolding t(1) by (rule items_match [OF v(1) n t(2)], rule refuses_costs) (simp_all add: pricec_def is_digit_def)
    have "rmatch (rseqs ?rest) (pre, 32 # 43 # 32 # v @ 32 # 42 # 32 # n @ cost_text val vs @ 41 # s, c) = []"
      using costs_stuck [of vs v "Suc i" "[]" rs pre "42 # 32 # n @ cost_text val vs @ 41 # s" c] v by simp
    then show ?thesis
      using Some hit IH by (simp add: cost_text_def opt_cost_items run_opt del: rseqs.simps rlit_units.simps)
  qed
qed

lemma join_Cons: "join sep (x # xs) = x @ concat (map (\<lambda>y. sep @ y) xs)"
  by (induction xs arbitrary: x) simp_all

section \<open>What a pattern can read\<close>

definition reach :: "re \<Rightarrow> jsstring \<Rightarrow> bool" where
  "reach r w \<longleftrightarrow> (\<forall>pre s k. (rev w @ pre, s, k) \<in> set (rmatch r (pre, w @ s, k)))"

lemma reach_seq: "reach a v \<Longrightarrow> reach b w \<Longrightarrow> reach (RSeq a b) (v @ w)"
  by (fastforce simp: reach_def)

lemma reach_lit: "reach (rlit w) (js w)"
  by (simp add: reach_def)

lemma reach_alt: "reach a w \<or> reach b w \<Longrightarrow> reach (RAlt a b) w"
  by (auto simp: reach_def)

lemma reach_class: "list_all P w \<Longrightarrow> reach (RStar (RSet P)) w"
  by (auto simp: reach_def set_class_star simp del: rmatch.simps)

lemma reach_plus: "list_all P w \<Longrightarrow> w \<noteq> [] \<Longrightarrow> reach (rplus (RSet P)) w"
  using reach_seq [of "RSet P" "[hd w]" "RStar (RSet P)" "tl w"] reach_class [of P "tl w"]
  by (cases w) (auto simp: rplus_def reach_def simp del: rmatch.simps(5))

lemma reach_star_Nil: "reach (RStar a) []"
  unfolding reach_def by (subst rmatch_star_unfold) simp

lemma reach_star: "reach a v \<Longrightarrow> v \<noteq> [] \<Longrightarrow> reach (RStar a) w \<Longrightarrow> reach (RStar a) (v @ w)"
  unfolding reach_def
proof (intro allI)
  fix pre s k
  assume a: "\<forall>pre s k. (rev v @ pre, s, k) \<in> set (rmatch a (pre, v @ s, k))" and v: "v \<noteq> []"
    and w: "\<forall>pre s k. (rev w @ pre, s, k) \<in> set (rmatch (RStar a) (pre, w @ s, k))"
  have "(rev v @ pre, w @ s, k) \<in> set (rmatch a (pre, (v @ w) @ s, k))" using a by simp
  moreover have "(rev (v @ w) @ pre, s, k) \<in> set (rmatch (RStar a) (rev v @ pre, w @ s, k))" using w by simp
  ultimately show "(rev (v @ w) @ pre, s, k) \<in> set (rmatch (RStar a) (pre, (v @ w) @ s, k))"
    using v by (subst rmatch_star_unfold) (force simp del: rmatch.simps)
qed

text \<open>Patterns without groups leave the groups alone.\<close>

primrec no_groups :: "re \<Rightarrow> bool" where
  "no_groups (RSet P) = True"
| "no_groups REps = True"
| "no_groups (RSeq a b) = (no_groups a \<and> no_groups b)"
| "no_groups (RAlt a b) = (no_groups a \<and> no_groups b)"
| "no_groups (RStar a) = no_groups a"
| "no_groups (RGroup i a) = False"
| "no_groups (RBack i) = True"
| "no_groups RBegin = True"
| "no_groups REnd = True"
| "no_groups RWordB = True"

lemma rstar_keeps:
  assumes "\<And>st st'. st' \<in> set (f st) \<Longrightarrow> Q st \<Longrightarrow> Q st'"
  shows "st' \<in> set (rstar f n st) \<Longrightarrow> Q st \<Longrightarrow> Q st'"
proof (induction n arbitrary: st)
  case (Suc n)
  then consider "st' = st" | st1 where "st1 \<in> set (f st)" "st' \<in> set (rstar f n st1)"
    by (auto split: if_splits)
  then show ?case
  proof cases
    case 2
    then show ?thesis using Suc assms by blast
  qed (use Suc in simp)
qed simp

lemma no_groups_keeps: "no_groups r \<Longrightarrow> st' \<in> set (rmatch r st) \<Longrightarrow> snd (snd st') = snd (snd st)"
proof (induction r arbitrary: st st')
  case (RSet P)
  then show ?case by (cases st) (auto split: list.splits if_splits)
next
  case (RSeq a b)
  then obtain st1 where "st1 \<in> set (rmatch a st)" "st' \<in> set (rmatch b st1)" by auto
  then show ?case using RSeq.IH RSeq.prems(1) by (metis no_groups.simps(3))
next
  case (RStar r)
  show ?case
    by (rule rstar_keeps [of "rmatch r" "\<lambda>x. snd (snd x) = snd (snd st)" st' "length (rest_of st)" st])
       (use RStar in \<open>auto simp del: rstar.simps\<close>)
next
  case (RBack i)
  then show ?case by (cases st) (auto simp: Let_def split: if_splits)
qed (auto split: if_splits)

section \<open>Conditions\<close>

definition cond_text :: "jsstring \<Rightarrow> bool" where
  "cond_text w \<longleftrightarrow> w \<noteq> [] \<and> list_all condc w"

definition canonical_cond :: "TierConditionInput \<Rightarrow> bool" where
  "canonical_cond c \<longleftrightarrow> ci_var c \<in> set (map js [''p'', ''c'', ''len'']) \<and> ci_op c \<in> set (map js [''<'', ''<='', ''>'', ''>=''])
     \<and> (\<exists>n. ci_value c = CNum n \<and> cond_text (js_String n) \<and> js_Number (js_String n) = n)"

lemma condc_not: "condc u \<Longrightarrow> \<not> is_ws u \<and> u \<noteq> 63 \<and> u \<noteq> 38"
  by (auto simp: condc_def is_digit_def)

lemma canonical_cond_text:
  assumes "canonical_cond c"
  obtains v op n where "v \<in> {''p'', ''c'', ''len''}" "op \<in> {''<'', ''<='', ''>'', ''>=''}" "ci_var c = js v" "ci_op c = js op"
    "ci_value c = CNum n" "cond_text (js_String n)" "js_Number (js_String n) = n"
    "show_condition c = js v @ [32] @ js op @ [32] @ js_String n"
  using assms by (auto simp: canonical_cond_def show_condition_def show_value_def simp del: js.simps)
     (auto simp add: js.simps)

lemma reach_ws_space: "reach ws_re [32]"
  unfolding ws_re_def by (rule reach_class) simp

lemma reach_var: "v \<in> {''p'', ''c'', ''len''} \<Longrightarrow> reach cond_var_re (js v)"
  unfolding cond_var_re_def ralts.simps
  by (elim insertE emptyE) (metis reach_alt reach_lit)+

lemma reach_op: "v \<in> {''<'', ''<='', ''>'', ''>=''} \<Longrightarrow> reach cond_op_re (js v)"
  unfolding cond_op_re_def ralts.simps
  by (elim insertE emptyE) (metis reach_alt reach_lit)+

lemma reach_cond: "canonical_cond c \<Longrightarrow> reach one_cond_re (show_condition c)"
  by (erule canonical_cond_text)
     (simp only: one_cond_re_def rseqs.simps, intro reach_seq reach_ws_space reach_var reach_op reach_plus;
      simp add: cond_text_def)

definition and_cond_re :: re where
  "and_cond_re = rseqs [ws_re, rlit ''&&'', ws_re, one_cond_re]"

definition conds_re :: re where
  "conds_re = RSeq one_cond_re (RStar and_cond_re)"

lemma condGroup_conds: "condGroup = RGroup 1 conds_re"
  by (simp add: condGroup_def conds_re_def and_cond_re_def)

lemma reach_and_cond: "canonical_cond c \<Longrightarrow> reach and_cond_re (js '' && '' @ show_condition c)"
proof -
  assume "canonical_cond c"
  then have "reach and_cond_re ([32] @ js ''&&'' @ [32] @ show_condition c)"
    unfolding and_cond_re_def rseqs.simps by (intro reach_seq reach_ws_space reach_lit reach_cond)
  then show ?thesis by simp
qed

definition conds_text :: "TierConditionInput list \<Rightarrow> jsstring" where
  "conds_text cs = join (js '' && '') (map show_condition cs)"

lemma reach_conds:
  assumes "cs \<noteq> []" "\<forall>c\<in>set cs. canonical_cond c"
  shows "reach conds_re (conds_text cs)"
proof -
  obtain c cs' where cs: "cs = c # cs'" using assms(1) by (cases cs) auto
  have "\<forall>c\<in>set cs'. canonical_cond c" using assms(2) cs by simp
  then have "reach (RStar and_cond_re) (concat (map (\<lambda>y. js '' && '' @ y) (map show_condition cs')))"
  proof (induction cs')
    case (Cons d ds)
    then show ?case
      using reach_star [OF reach_and_cond [of d]] by simp
  qed (simp add: reach_star_Nil)
  then show ?thesis
    using reach_cond [of c] assms(2) cs unfolding conds_re_def conds_text_def
    by (simp add: join_Cons reach_seq del: js.simps)
qed

lemma conds_no_groups: "no_groups conds_re"
  by (simp add: conds_re_def and_cond_re_def one_cond_re_def cond_var_re_def cond_op_re_def ws_re_def rplus_def rlit_def)

lemma conds_reads: "reads_only (\<lambda>u. u \<noteq> 63) conds_re"
  by (auto simp: conds_re_def and_cond_re_def one_cond_re_def cond_var_re_def cond_op_re_def ws_re_def rplus_def rlit_def
      condc_def is_digit_def is_ws_def)

lemma set_plus:
  "st' \<in> set (rmatch (rplus (RSet P)) st) \<Longrightarrow> \<exists>u r. fst st' = u # r \<and> P u"
proof -
  assume st: "st' \<in> set (rmatch (rplus (RSet P)) st)"
  obtain pre s c where "st = (pre, s, c)" by (cases st)
  then obtain u t where s: "s = u # t" "P u" and st': "st' \<in> set (rmatch (RStar (RSet P)) (u # pre, t, c))"
    using st by (cases s) (auto simp: rplus_def simp del: rmatch.simps(5) split: if_splits)
  obtain w r where "st' = (rev w @ u # pre, r, c)" "list_all P w" using st' by (auto simp: set_class_star simp del: rmatch.simps)
  then show ?thesis using s(2) by (cases w rule: rev_cases) auto
qed

definition ends_cond :: "rstate \<Rightarrow> bool" where
  "ends_cond st \<longleftrightarrow> (\<exists>u r. fst st = u # r \<and> condc u)"

lemma ends_one: "st' \<in> set (rmatch one_cond_re st) \<Longrightarrow> ends_cond st'"
  unfolding one_cond_re_def ends_cond_def by (auto simp: rseqs.simps simp del: rmatch.simps(1,4-10) dest!: set_plus)

lemma ends_and: "st' \<in> set (rmatch and_cond_re st) \<Longrightarrow> ends_cond st'"
  unfolding and_cond_re_def by (auto simp: rseqs.simps simp del: rmatch.simps(1,4-10) dest!: ends_one)

lemma ends_conds: "st' \<in> set (rmatch conds_re st) \<Longrightarrow> ends_cond st'"
proof -
  assume "st' \<in> set (rmatch conds_re st)"
  then obtain st1 where st1: "ends_cond st1" "st' \<in> set (rmatch (RStar and_cond_re) st1)"
    by (auto simp: conds_re_def simp del: rmatch.simps(1,4-10) dest!: ends_one)
  show ?thesis
    using rstar_keeps [of "rmatch and_cond_re" ends_cond st' "length (rest_of st1)" st1] st1 ends_and by simp
qed

section \<open>The condition before a tier\<close>

lemma first_sep_unique: "p @ u # b = q @ u # d \<Longrightarrow> u \<notin> set p \<Longrightarrow> u \<notin> set q \<Longrightarrow> p = q"
proof -
  assume eq: "p @ u # b = q @ u # d" and u: "u \<notin> set p" "u \<notin> set q"
  have run: "takeWhile (\<lambda>x. x \<noteq> u) (v @ u # w) = v" if "u \<notin> set v" for v w
    using that by (induction v) auto
  show ?thesis using run [OF u(1), of b] run [OF u(2), of d] eq by simp
qed

lemma cond_ends: "canonical_cond c \<Longrightarrow> \<exists>v u. show_condition c = v @ [u] \<and> condc u"
proof -
  assume "canonical_cond c"
  then obtain v op n where "cond_text (js_String n)" "show_condition c = js v @ [32] @ js op @ [32] @ js_String n"
    by (rule canonical_cond_text)
  moreover then obtain w u where "js_String n = w @ [u]" "condc u"
    by (cases "js_String n" rule: rev_cases) (auto simp: cond_text_def)
  ultimately have "show_condition c = (js v @ [32] @ js op @ [32] @ w) @ [u]" "condc u" by simp_all
  then show ?thesis by blast
qed

lemma conds_text_Cons: "ds \<noteq> [] \<Longrightarrow> conds_text (c # ds) = show_condition c @ js '' && '' @ conds_text ds"
  by (cases ds) (simp_all add: conds_text_def)

lemma conds_text_single: "conds_text [c] = show_condition c"
  by (simp add: conds_text_def)

lemma last_cond_unit: "cs \<noteq> [] \<Longrightarrow> \<forall>c\<in>set cs. canonical_cond c \<Longrightarrow> \<exists>v u. conds_text cs = v @ [u] \<and> condc u"
proof (induction cs)
  case (Cons c cs)
  show ?case
  proof (cases "cs = []")
    case True
    then show ?thesis using cond_ends [of c] Cons.prems(2) by (simp add: conds_text_single)
  next
    case False
    then obtain v u where "conds_text cs = v @ [u]" "condc u" using Cons by auto
    then show ?thesis using False by (intro exI [of _ "show_condition c @ js '' && '' @ v"] exI [of _ u]) (simp add: conds_text_Cons)
  qed
qed simp

lemma cond_units: "canonical_cond c \<Longrightarrow> 63 \<notin> set (show_condition c) \<and> 38 \<notin> set (show_condition c)"
proof -
  assume "canonical_cond c"
  then obtain v op n where "v \<in> {''p'', ''c'', ''len''}" "op \<in> {''<'', ''<='', ''>'', ''>=''}" and n: "cond_text (js_String n)"
      and t: "show_condition c = js v @ [32] @ js op @ [32] @ js_String n"
    by (rule canonical_cond_text)
  moreover have "63 \<notin> set (js_String n)" "38 \<notin> set (js_String n)"
    using n condc_not by (auto simp: cond_text_def list_all_iff)
  ultimately show ?thesis by (auto simp: t)
qed

lemma conds_no_question: "\<forall>c\<in>set cs. canonical_cond c \<Longrightarrow> 63 \<notin> set (conds_text cs)"
proof (induction cs)
  case (Cons c cs)
  then show ?case using cond_units [of c] by (cases "cs = []") (auto simp: conds_text_Cons conds_text_single)
qed (simp add: conds_text_def)

lemma first_concat:
  "a \<in> set xs \<Longrightarrow> \<forall>x\<in>set xs. f x = [] \<or> f x = f a \<Longrightarrow> first (concat (map f xs)) = first (f a)"
proof (induction xs)
  case (Cons x xs)
  show ?case
  proof (cases "f x = []")
    case True
    then show ?thesis
      using Cons by (cases "a \<in> set xs") (auto simp: concat_eq_Nil_conv)
  next
    case False
    then have "f x = f a" using Cons.prems by auto
    then show ?thesis using False by (cases "f a") auto
  qed
qed simp

definition after_cond :: "re list \<Rightarrow> re list" where
  "after_cond tail = ws_re # rlit ''?'' # ws_re # tail"

lemma after_cond_run:
  "refuses (rseqs tail) is_ws \<Longrightarrow> rmatch (rseqs (after_cond tail)) (pre, s, c) \<noteq> [] \<Longrightarrow> \<exists>r. dropWhile is_ws s = 63 # r"
  unfolding after_cond_def
  by (cases "dropWhile is_ws s")
     (auto simp: runs simp del: rseqs.simps rmatch.simps rlit_units.simps split: if_splits)

lemma conds_exact:
  assumes cs: "cs \<noteq> []" "\<forall>c\<in>set cs. canonical_cond c" and tail: "refuses (rseqs tail) is_ws"
    and st: "st \<in> set (rmatch conds_re (pre, conds_text cs @ 32 # 63 # x, k))"
    and go: "rmatch (rseqs (after_cond tail)) (with_group 1 pre st) \<noteq> []"
  shows "st = (rev (conds_text cs) @ pre, 32 # 63 # x, k)"
proof -
  obtain w r where w: "conds_text cs @ 32 # 63 # x = w @ r" "st = (rev w @ pre, r, k)"
    using rmatch_consumes [OF st] no_groups_keeps [OF conds_no_groups st] by (cases st) auto
  have q: "63 \<notin> set w"
    using reads_only_advance [OF conds_reads st] w by (auto simp: advance_def list_all_iff)
  obtain u w' where e: "rev w @ pre = u # w'" "condc u" using ends_conds [OF st] w(2) by (auto simp: ends_cond_def)
  have "\<exists>r'. dropWhile is_ws r = 63 # r'"
    using after_cond_run [OF tail] go unfolding w(2) with_group_append by blast
  then obtain a r' where a: "r = a @ 63 # r'" "list_all is_ws a"
    by (metis takeWhile_dropWhile_id list_all_iff set_takeWhileD)
  have qa: "63 \<notin> set a" using a(2) by (auto simp: list_all_iff is_ws_def)
  have "(w @ a) @ 63 # r' = (conds_text cs @ [32]) @ 63 # x" using w(1) a(1) by simp
  then have wa: "w @ a = conds_text cs @ [32]"
    by (rule first_sep_unique) (use q qa conds_no_question [OF cs(2)] in auto)
  obtain v z where vz: "conds_text cs = v @ [z]" "condc z" using last_cond_unit [OF cs] by blast
  have "a \<noteq> []"
  proof
    assume "a = []"
    then have "rev w @ pre = 32 # rev (conds_text cs) @ pre" using wa by simp
    then show False using e condc_not [of u] by simp
  qed
  then obtain a' where a': "a = a' @ [32]" using wa by (metis append_butlast_last_id last_appendR last_snoc)
  then have "w @ a' = v @ [z]" using wa vz by simp
  moreover have "a' = []"
  proof (rule ccontr)
    assume "a' \<noteq> []"
    then have "last a' = z" using calculation by (metis last_appendR last_snoc)
    then have "is_ws z" using a(2) a' \<open>a' \<noteq> []\<close> by (auto simp: list_all_iff)
    then show False using condc_not [OF vz(2)] by simp
  qed
  ultimately have "w = conds_text cs" using vz by simp
  then show ?thesis using w by simp
qed

lemma cond_head:
  assumes cs: "cs \<noteq> []" "\<forall>c\<in>set cs. canonical_cond c" and tail: "refuses (rseqs tail) is_ws"
    and that: "dropWhile is_ws x = x"
  shows "first (rmatch (rseqs (condGroup # after_cond tail)) (pre, conds_text cs @ 32 # 63 # 32 # x, k))
    = first (rmatch (rseqs tail) (rev (conds_text cs @ [32, 63, 32]) @ pre, x, k(1 \<mapsto> conds_text cs)))"
proof -
  let ?s = "conds_text cs @ 32 # 63 # 32 # x" and ?f = "\<lambda>st. rmatch (rseqs (after_cond tail)) (with_group 1 pre st)"
  let ?a = "(rev (conds_text cs) @ pre, 32 # 63 # 32 # x, k)"
  have "takeWhile is_ws x = []" using that by (metis dropWhile_eq_self_iff takeWhile_eq_Nil_iff)
  then have run: "?f ?a = rmatch (rseqs tail) (rev (conds_text cs @ [32, 63, 32]) @ pre, x, k(1 \<mapsto> conds_text cs))"
    using tail that unfolding with_group_append after_cond_def
    by (simp add: runs is_ws_def del: rseqs.simps rmatch.simps rlit_units.simps)
  have "?a \<in> set (rmatch conds_re (pre, ?s, k))" using reach_conds [OF cs] by (auto simp: reach_def)
  moreover have "\<forall>st\<in>set (rmatch conds_re (pre, ?s, k)). ?f st = [] \<or> ?f st = ?f ?a"
    using conds_exact [OF cs tail, of _ pre "32 # x" k] by blast
  ultimately have "first (concat (map ?f (rmatch conds_re (pre, ?s, k)))) = first (?f ?a)" by (rule first_concat)
  then show ?thesis
    using that unfolding run by (simp add: rseqs_Cons condGroup_conds rmatch_group comp_def del: rseqs.simps rmatch.simps)
qed

lemma cond_units_start: "cs \<noteq> [] \<Longrightarrow> \<forall>c\<in>set cs. canonical_cond c \<Longrightarrow> \<exists>u r. conds_text cs = u # r \<and> u \<in> {112, 99, 108}"
proof -
  assume cs: "cs \<noteq> []" "\<forall>c\<in>set cs. canonical_cond c"
  then obtain c ds where c: "cs = c # ds" "canonical_cond c" by (cases cs) auto
  then obtain v op n where v: "v \<in> {''p'', ''c'', ''len''}" "show_condition c = js v @ [32] @ js op @ [32] @ js_String n"
    by (metis canonical_cond_text)
  have "\<exists>z. conds_text cs = show_condition c @ z" using c by (cases "ds = []") (auto simp: conds_text_single conds_text_Cons)
  then show ?thesis using v by auto
qed

lemma cond_re_start: "u \<notin> {112, 99, 108} \<Longrightarrow> rmatch (rseqs (condGroup # rs)) (pre, u # s, c) = []"
proof -
  assume "u \<notin> {112, 99, 108}"
  then have "rmatch cond_var_re (pre, u # s, c) = []" by (simp add: cond_var_re_def startsWith_def)
  then have "rmatch conds_re (pre, u # s, c) = []"
    by (simp add: conds_re_def one_cond_re_def rseqs_Cons del: rseqs.simps rmatch.simps(1,4-10))
  then show ?thesis by (simp add: rseqs_Cons condGroup_conds rmatch_group del: rseqs.simps rmatch.simps)
qed

section \<open>Splitting and reading conditions\<close>

lemma and_at: "dropWhile is_ws s = u # r \<Longrightarrow> u \<noteq> 38 \<Longrightarrow> rmatch and_re (pre, s, c) = []"
  unfolding and_re_def by (simp add: runs is_ws_def del: rseqs.simps rmatch.simps rlit_units.simps)

lemma and_none: "38 \<notin> set s \<Longrightarrow> exec_from and_re pre s = None"
proof (induction s arbitrary: pre)
  case Nil
  have "rmatch and_re (pre, [], c) = []" for c
    unfolding and_re_def by (simp add: runs del: rseqs.simps rmatch.simps rlit_units.simps)
  then show ?case by (subst exec_from.simps) simp
next
  case (Cons u s)
  have "rmatch and_re (pre, u # s, c) = []" for c
  proof (cases "dropWhile is_ws (u # s)")
    case Nil
    then show ?thesis unfolding and_re_def by (simp add: runs is_ws_def del: rseqs.simps rmatch.simps rlit_units.simps)
  next
    case c: (Cons v r)
    then have "v \<in> set (u # s)" by (metis list.set_intros(1) set_dropWhileD)
    then show ?thesis using c Cons.prems and_at by metis
  qed
  then show ?case using Cons by (subst exec_from.simps) simp
qed

lemma and_found:
  "38 \<notin> set w \<Longrightarrow> w = [] \<or> \<not> is_ws (last w) \<Longrightarrow> dropWhile is_ws s = s \<Longrightarrow>
   exec_from and_re pre (w @ js '' && '' @ s) = Some (rev w @ pre, rev (w @ js '' && '') @ pre, s, no_caps)"
proof (induction w arbitrary: pre)
  case Nil
  then have "takeWhile is_ws s = []" by (metis dropWhile_eq_self_iff takeWhile_eq_Nil_iff)
  moreover have "rmatch and_re (pre, js '' && '' @ s, no_caps) = rmatch (RStar (RSet is_ws)) (rev (js '' &&'') @ pre, 32 # s, no_caps)"
  proof -
    have "refuses (rseqs [rlit_units [38, 38], ws_re]) is_ws" by (rule refuses_run_lit) simp_all
    then have "rmatch and_re (pre, js '' && '' @ s, no_caps) = rmatch (rseqs [ws_re]) (rev (js '' &&'') @ pre, 32 # s, no_caps)"
      unfolding and_re_def by (simp add: run_ws run_lit rlit_units_of startsWith_units del: rseqs.simps rmatch.simps rlit_units.simps)
    then show ?thesis by (simp only: rseqs.simps ws_re_def)
  qed
  ultimately have "first (rmatch and_re (pre, js '' && '' @ s, no_caps)) = Some (rev (js '' && '') @ pre, s, no_caps)"
    using Nil(3) first_class_star [of is_ws "rev (js '' &&'') @ pre" "32 # s" no_caps] by simp
  from first_Some [OF this] obtain ys where "rmatch and_re (pre, js '' && '' @ s, no_caps) = (rev (js '' && '') @ pre, s, no_caps) # ys"
    by (rule exE)
  then show ?case by (subst exec_from.simps) simp
next
  case (Cons u w)
  have "\<exists>v r. dropWhile is_ws (u # w) = v # r"
    using Cons.prems(2) by (metis dropWhile_eq_Nil_conv last_in_set list.distinct(1) list.exhaust)
  then obtain v r where v: "dropWhile is_ws (u # w) = v # r" by blast
  then have vin: "v \<in> set (u # w)" "\<not> is_ws v" by (metis list.set_intros(1) set_dropWhileD, metis hd_dropWhile list.distinct(1) list.sel(1))
  moreover have "dropWhile is_ws ((u # w) @ js '' && '' @ s) = v # r @ js '' && '' @ s"
    using dropWhile_append1 [where P = is_ws, OF vin, of "js '' && '' @ s"] v by simp
  ultimately have "rmatch and_re (pre, (u # w) @ js '' && '' @ s, no_caps) = []"
    using Cons.prems(1) and_at by metis
  moreover have "w = [] \<or> \<not> is_ws (last w)" using Cons.prems(2) by (cases "w = []") simp_all
  ultimately show ?case
    using Cons by (subst exec_from.simps) auto
qed

lemma cond_piece:
  assumes "canonical_cond c"
  shows "38 \<notin> set (show_condition c)" "\<not> is_ws (last (show_condition c))" "trimmed (show_condition c)"
    "dropWhile is_ws (show_condition c @ s) = show_condition c @ s"
proof -
  obtain v u where e: "show_condition c = v @ [u]" "condc u" using cond_ends [OF assms] by blast
  obtain w r where h: "show_condition c = w # r" "w \<in> {112, 99, 108}"
    using cond_units_start [of "[c]"] assms by (auto simp: conds_text_single)
  show "38 \<notin> set (show_condition c)" using cond_units [OF assms] by simp
  show l: "\<not> is_ws (last (show_condition c))" using e condc_not by simp
  show "trimmed (show_condition c)" using l h by (auto simp: trimmed_def)
  show "dropWhile is_ws (show_condition c @ s) = show_condition c @ s" using h by auto
qed

lemma split_conds:
  "cs \<noteq> [] \<Longrightarrow> \<forall>c\<in>set cs. canonical_cond c \<Longrightarrow> re_split and_re (conds_text cs) = map show_condition cs"
proof (induction cs)
  case (Cons c cs)
  have c: "canonical_cond c" using Cons.prems by simp
  show ?case
  proof (cases "cs = []")
    case True
    then show ?thesis
      using and_none [OF cond_piece(1) [OF c]] by (subst re_split.simps) (simp add: conds_text_single)
  next
    case False
    then obtain d ds where d: "cs = d # ds" "canonical_cond d" using Cons.prems(2) by (cases cs) auto
    have "dropWhile is_ws (conds_text cs) = conds_text cs"
      using d cond_piece(4) [OF d(2)] cond_piece(4) [OF d(2), of "[]"] by (cases "ds = []") (auto simp: conds_text_single conds_text_Cons)
    then have "exec_from and_re [] (conds_text (c # cs))
        = Some (rev (show_condition c) @ [], rev (show_condition c @ js '' && '') @ [], conds_text cs, no_caps)"
      using and_found [of "show_condition c" "conds_text cs" "[]"] cond_piece [OF c] False by (simp add: conds_text_Cons)
    then show ?thesis
      using Cons False by (subst re_split.simps) (simp add: conds_text_Cons)
  qed
qed simp

lemma var_group:
  assumes "v \<in> {''p'', ''c'', ''len''}"
  shows "rmatch (rseqs (RGroup i cond_var_re # ws_re # rs)) (pre, js v @ 32 # s, c)
    = rmatch (rseqs (ws_re # rs)) (rev (js v) @ pre, 32 # s, c(i \<mapsto> js v))"
  unfolding rseqs_Cons [of "RGroup i cond_var_re"] using assms
  by (elim insertE emptyE)
     (simp_all add: cond_var_re_def rmatch_group with_group_def startsWith_def del: rseqs.simps rmatch.simps(5,6))

lemma op_group:
  assumes "v \<in> {''<'', ''<='', ''>'', ''>=''}" "refuses (rseqs rs) is_ws" "refuses (rseqs rs) ((=) 61)"
  shows "rmatch (rseqs (RGroup i cond_op_re # ws_re # rs)) (pre, js v @ 32 # s, c)
    = rmatch (rseqs (ws_re # rs)) (rev (js v) @ pre, 32 # s, c(i \<mapsto> js v))"
proof -
  have "rmatch (rseqs (ws_re # rs)) (pre', 61 # s', c') = []" for pre' s' c'
    using refusesD [OF assms(3)] by (simp add: run_ws [OF assms(2)] is_ws_def del: rseqs.simps)
  then show ?thesis
    unfolding rseqs_Cons [of "RGroup i cond_op_re"] using assms(1)
    by (elim insertE emptyE)
       (simp_all add: cond_op_re_def rmatch_group with_group_def startsWith_def del: rseqs.simps rmatch.simps(5,6))
qed

lemma read_one:
  assumes "canonical_cond c"
  shows "map to_input (read_condition (show_condition c)) = [c]"
proof -
  obtain v op n where v: "v \<in> {''p'', ''c'', ''len''}" and op: "op \<in> {''<'', ''<='', ''>'', ''>=''}"
      and f: "ci_var c = js v" "ci_op c = js op" "ci_value c = CNum n" and n: "cond_text (js_String n)" "js_Number (js_String n) = n"
      and t: "show_condition c = js v @ [32] @ js op @ [32] @ js_String n"
    using assms by (rule canonical_cond_text)
  let ?n = "js_String n"
  let ?last = "[RGroup 3 (rplus (RSet condc)), REnd]"
  have ws: "refuses (rseqs ?last) P" if "\<And>u. P u \<Longrightarrow> \<not> condc u" for P
    using that by (auto simp: refuses_def rplus_def rmatch_group simp del: rmatch.simps(5,6))
  have n0: "takeWhile is_ws ?n = []" "dropWhile is_ws ?n = ?n"
    using n(1) condc_not by (cases ?n; auto simp: cond_text_def)+
  have num: "rmatch (rseqs ?last) (p, ?n, k) = [(rev ?n @ p, [], k(3 \<mapsto> ?n))]" for p k
    using greedy_group [of REnd condc 3 p ?n k] n(1)
    by (simp add: cond_text_def takeWhile_run rmatch_end del: rmatch.simps)
  have o1: "refuses (rseqs ?last) is_ws" "refuses (rseqs ?last) ((=) 61)"
    using ws [of is_ws] ws [of "(=) 61"] condc_not by (auto simp: condc_def is_digit_def)
  have o2: "refuses (rseqs (RGroup 2 cond_op_re # ws_re # ?last)) is_ws"
    by (auto simp: refuses_def rseqs_Cons cond_op_re_def rmatch_group startsWith_def is_ws_def simp del: rseqs.simps(2,3) rmatch.simps(5,6))
  have "rmatch (rseqs (RGroup 1 cond_var_re # ws_re # RGroup 2 cond_op_re # ws_re # ?last)) ([], show_condition c, no_caps)
      = [(rev (show_condition c), [], no_caps(1 \<mapsto> js v, 2 \<mapsto> js op, 3 \<mapsto> ?n))]"
    using var_group [OF v, of 1] op_group [OF op o1, of 2] num n0 op
    by (auto simp: t run_ws [OF o1(1)] run_ws [OF o2] simp del: rseqs.simps rmatch.simps)
  then have "re_match cond_match_re (show_condition c) = Some (no_caps(1 \<mapsto> js v, 2 \<mapsto> js op, 3 \<mapsto> ?n))"
    unfolding cond_match_re_def re_match_begin by (simp del: rseqs.simps)
  then show ?thesis
    using f n(2) trim_id [OF cond_piece(3) [OF assms]]
    by (cases c) (simp add: read_condition_def to_input_def group_def)
qed

lemma conditions_read_back:
  assumes "cs \<noteq> []" "\<forall>c\<in>set cs. canonical_cond c"
  shows "map to_input (read_conditions (conds_text cs)) = cs"
proof -
  have ne: "conds_text cs \<noteq> []" using cond_units_start [OF assms] by auto
  have "concat (map (\<lambda>c. map to_input (read_condition (show_condition c))) cs) = cs"
    using assms(2) by (induction cs) (simp_all add: read_one)
  then show ?thesis using ne by (simp add: read_conditions_def split_conds [OF assms] map_concat comp_def)
qed

end
