(* ===== verification/Billing_Tiers_Text.thy ===== *)
theory Billing_Tiers_Text
  imports Billing_Tiers_Reading
begin

text \<open>
  The text of a tier and its costs as the editor writes it, and the tier that is read from it.
\<close>

section \<open>The text of a tier\<close>

lemma cache_map:
  "BILLING_CACHE_VAR_MAP =
     [(js ''cache_read_unit_cost'', js ''cr''), (js ''cache_create_unit_cost'', js ''cc''),
      (js ''cache_create_1h_unit_cost'', js ''cc1h''), (js ''image_unit_cost'', js ''img''),
      (js ''image_output_unit_cost'', js ''img_o''), (js ''audio_input_unit_cost'', js ''ai''),
      (js ''audio_output_unit_cost'', js ''ao'')]"
  by (simp add: BILLING_CACHE_VAR_MAP_def BILLING_EXTRA_VARS_def BILLING_VARS_def price_var_def del: js.simps)

lemma cache_vars: "cacheVarNames = map js [''cr'', ''cc'', ''cc1h'', ''img'', ''img_o'', ''ai'', ''ao'']"
  by (simp add: cacheVarNames_def cache_map del: js.simps)

lemma cache_vars_apart: "vars_apart cacheVarNames"
  by (simp add: vars_apart_def cache_vars apart_def var_name_def startsWith_def)

text \<open>The text of the cost of a variable, when it is written.\<close>

definition cost_val :: "VisualTier \<Rightarrow> jsstring \<Rightarrow> jsstring option" where
  "cost_val t v =
     (case find (\<lambda>p. snd p = v) BILLING_CACHE_VAR_MAP of
        Some (f, _) \<Rightarrow> if cost_of t f = Fin 0 then None else Some (js_String (cost_of t f))
      | None \<Rightarrow> None)"

lemma find_snd: "distinct (map snd xs) \<Longrightarrow> (f, v) \<in> set xs \<Longrightarrow> find (\<lambda>p. snd p = v) xs = Some (f, v)"
  by (induction xs) force+

lemma cache_map_distinct: "distinct (map snd BILLING_CACHE_VAR_MAP)"
  by (simp add: cache_map del: js.simps)

lemma cost_val_map:
  "(f, v) \<in> set BILLING_CACHE_VAR_MAP \<Longrightarrow>
   cost_val t v = (if cost_of t f = Fin 0 then None else Some (js_String (cost_of t f)))"
  using find_snd [OF cache_map_distinct] by (simp add: cost_val_def)

lemma concat_map_filter:
  "concat (map (\<lambda>y. h y) (map g (filter P xs))) = concat (map (\<lambda>x. if P x then h (g x) else []) xs)"
  by (induction xs) auto

definition in_cost :: jsstring where
  "in_cost = js ''input_unit_cost''"

definition out_cost :: jsstring where
  "out_cost = js ''output_unit_cost''"

lemma parts_text:
  "concat (map (\<lambda>y. js '' + '' @ y) (cost_parts t)) = cost_text (cost_val t) cacheVarNames"
proof -
  have "concat (map (\<lambda>y. js '' + '' @ y) (cost_parts t)) =
      concat (map (\<lambda>p. if (case p of (f, v) \<Rightarrow> cost_of t f \<noteq> Fin 0)
        then js '' + '' @ (case p of (f, v) \<Rightarrow> v @ js '' * '' @ js_String (cost_of t f)) else []) BILLING_CACHE_VAR_MAP)"
    unfolding cost_parts_def by (rule concat_map_filter)
  also have "\<dots> = concat (map (\<lambda>p. case cost_val t (snd p) of None \<Rightarrow> []
      | Some n \<Rightarrow> 32 # 43 # 32 # snd p @ 32 # 42 # 32 # n) BILLING_CACHE_VAR_MAP)"
    by (intro arg_cong [where f = concat] map_cong refl) (auto simp: cost_val_map split: prod.splits)
  finally show ?thesis by (simp add: cost_text_def cacheVarNames_def comp_def)
qed

lemma body_text:
  "buildTierBodyExpr t = js ''p * '' @ js_String (cost_of t in_cost) @ js '' + c * '' @ js_String (cost_of t out_cost)
     @ cost_text (cost_val t) cacheVarNames"
  using parts_text [of t] by (simp add: buildTierBodyExpr_def join_Cons in_cost_def out_cost_def)

text \<open>Costs whose texts the patterns read.\<close>

definition good_price :: "jsnum \<Rightarrow> bool" where
  "good_price x \<longleftrightarrow> x \<noteq> NaN \<and> price_text (js_String x) \<and> js_Number (js_String x) = x"

definition good_costs :: "VisualTier \<Rightarrow> bool" where
  "good_costs t \<longleftrightarrow> dom (vt_costs t) = set (base_cost_fields @ extra_cost_fields)
     \<and> (\<forall>f x. vt_costs t f = Some x \<longrightarrow> good_price x)"

definition good_label :: "jsstring \<Rightarrow> bool" where
  "good_label l \<longleftrightarrow> l \<noteq> [] \<and> list_all notq l"

lemma good_cost_of:
  assumes "good_costs t" "f \<in> set (base_cost_fields @ extra_cost_fields)"
  shows "\<exists>x. vt_costs t f = Some x \<and> cost_of t f = x \<and> good_price x"
proof -
  have "f \<in> dom (vt_costs t)" using assms unfolding good_costs_def by blast
  then obtain x where x: "vt_costs t f = Some x" by blast
  then have "good_price x" using assms(1) by (auto simp: good_costs_def)
  moreover have "or_zero (Some x) = x" using calculation by (cases x) (auto simp: or_zero_def good_price_def)
  ultimately show ?thesis using x by (auto simp: cost_of_def)
qed

lemma cost_val_good:
  assumes "good_costs t" "v \<in> set cacheVarNames" "cost_val t v = Some n"
  shows "price_text n"
proof -
  obtain f where f: "(f, v) \<in> set BILLING_CACHE_VAR_MAP" using assms(2) by (auto simp: cacheVarNames_def)
  then have "f \<in> set (base_cost_fields @ extra_cost_fields)" by (auto simp: cache_map extra_cost_fields_def simp del: js.simps)
  then show ?thesis
    using good_cost_of [OF assms(1)] cost_val_map [OF f, of t] assms(3) by (auto simp: good_price_def split: if_splits)
qed

definition body_caps :: "VisualTier \<Rightarrow> nat \<Rightarrow> caps \<Rightarrow> caps" where
  "body_caps t i c = cost_caps (cost_val t) (i + 2) cacheVarNames
     (c(i \<mapsto> js_String (cost_of t in_cost), i + 1 \<mapsto> js_String (cost_of t out_cost)))"

lemma not_numc_units [simp]: "\<not> numc 32" "\<not> numc 41"
  by (simp_all add: numc_def is_digit_def)

lemma body_match:
  assumes "good_costs t"
  shows "rmatch (rseqs (body_pat i @ rlit_units [41] # rs)) (pre, buildTierBodyExpr t @ 41 # s, c)
    = rmatch (rseqs rs) (41 # rev (buildTierBodyExpr t) @ pre, s, body_caps t i c)"
proof -
  let ?a = "js_String (cost_of t in_cost)" and ?b = "js_String (cost_of t out_cost)"
  let ?x = "cost_text (cost_val t) cacheVarNames"
  let ?rest = "opt_costs (Suc (Suc i)) cacheVarNames @ rlit_units [41] # rs"
  have a: "price_text ?a" and b: "price_text ?b"
    using good_cost_of [OF assms, of in_cost] good_cost_of [OF assms, of out_cost]
    by (auto simp: in_cost_def out_cost_def base_cost_fields_def good_price_def)
  have r1: "refuses (rseqs ([ws_re, rlit_units [43], ws_re, rlit_units [99], ws_re, rlit_units [42], ws_re, num_re (Suc i)] @ ?rest)) pricec"
    unfolding append.simps by (intro refuses_run_ws refuses_run_lit) (auto simp: pricec_def is_digit_def)
  have r2: "refuses (rseqs ?rest) pricec" by (rule refuses_costs) (simp_all add: pricec_def is_digit_def)
  obtain u z where x: "?x @ 41 # s = u # z" "\<not> numc u"
    using cost_text_start [of "cost_val t" cacheVarNames] by auto
  have "rmatch (rseqs (num_re (Suc i) # ?rest)) (pre, ?b @ ?x @ 41 # s, c)
      = rmatch (rseqs ?rest) (rev ?b @ pre, ?x @ 41 # s, c(Suc i \<mapsto> ?b))" for pre c
    unfolding x(1) using run_price [OF r2 b x(2)] by simp
  then have "rmatch (rseqs (num_re (Suc i) # ?rest)) (pre, ?b @ ?x @ 41 # s, c)
      = rmatch (rseqs rs) (41 # rev ?x @ rev ?b @ pre, s, cost_caps (cost_val t) (Suc (Suc i)) cacheVarNames (c(Suc i \<mapsto> ?b)))" for pre c
    using costs_match [OF cache_vars_apart, of "cost_val t"] cost_val_good [OF assms] by simp
  then show ?thesis
    using a b run_price [OF r1 a, of 32 i] 
    by (simp add: body_text body_pat_def body_caps_def runs del: rseqs.simps rmatch.simps rlit_units.simps)
qed

lemma label_match:
  assumes "good_label l"
  shows \<open>rmatch (rseqs (rlit ''tier("'' # label_re i # rlit ''",'' # ws_re # body_pat j @ rs))
      (pre, js ''tier("'' @ l @ js ''", p'' @ s, c)
    = rmatch (rseqs (body_pat j @ rs)) (rev (js ''tier("'' @ l @ js ''", '') @ pre, 112 # s, c(i \<mapsto> l))\<close>
proof -
  have l: "list_all notq l" using assms by (simp add: good_label_def)
  have w: "refuses (rseqs (body_pat j @ rs)) is_ws"
    unfolding body_pat_def append.simps rlit_units_of by (rule refuses_run_lit) simp_all
  have k: "refuses (rseqs (rlit_units [34, 44] # ws_re # body_pat j @ rs)) notq"
    by (rule refuses_run_lit) (simp_all add: notq_def)
  have q: "\<not> notq 34" by (simp add: notq_def)
  show ?thesis
    using run_star [OF k q l, of i] w
    by (simp add: label_re_def runs del: rseqs.simps rmatch.simps rlit_units.simps)
qed

definition call_caps :: "VisualTier \<Rightarrow> nat \<Rightarrow> caps \<Rightarrow> caps" where
  "call_caps t i c = body_caps t (i + 1) (c(i \<mapsto> vt_label t))"

lemma body_starts: "\<exists>r. buildTierBodyExpr t = 112 # r"
  by (simp add: body_text)

lemma call_match:
  assumes "good_label (vt_label t)" "good_costs t"
  shows \<open>rmatch (rseqs ([rlit ''tier("'', label_re i, rlit ''",'', ws_re] @ body_pat (i + 1) @ rlit '')'' # rs))
      (pre, tier_call d t @ s, c)
    = rmatch (rseqs rs) (rev (tier_call d t) @ pre, s, call_caps t i c)\<close>
proof -
  obtain r where r: "buildTierBodyExpr t = 112 # r" using body_starts by blast
  have d: "tier_call d t = js ''tier(\"'' @ vt_label t @ js ''\", '' @ buildTierBodyExpr t @ [41]"
    using assms(1) by (simp add: tier_call_def good_label_def)
  have "rmatch (rseqs (body_pat (i + 1) @ rlit_units [41] # rs)) (pre', 112 # r @ 41 # s, c')
      = rmatch (rseqs rs) (41 # rev (buildTierBodyExpr t) @ pre', s, body_caps t (i + 1) c')" for pre' c'
    using body_match [OF assms(2), of "i + 1" rs pre' s c'] r by simp
  then show ?thesis
    using label_match [OF assms(1), of i "i + 1" "rlit_units [41] # rs" pre "r @ 41 # s" c]
    by (simp add: d r call_caps_def rlit_units_of del: rseqs.simps rmatch.simps rlit_units.simps)
qed

section \<open>The tier of a match\<close>

lemma cost_caps_other: "j < i \<Longrightarrow> cost_caps val i vs c j = c j"
  by (induction vs arbitrary: i c) (auto split: option.split)

lemma put_costs_caps:
  "(\<And>j. i \<le> j \<Longrightarrow> c j = None) \<Longrightarrow>
   put_costs (cost_caps val i (map snd fs) c) i fs t =
     foldl (\<lambda>t (f, v). case val v of Some n \<Rightarrow> t(f \<mapsto> js_Number n) | None \<Rightarrow> t) t fs"
proof (induction fs arbitrary: i c t)
  case (Cons p fs)
  obtain f v where p: "p = (f, v)" by (cases p)
  let ?c = "case val v of None \<Rightarrow> c | Some n \<Rightarrow> c(i \<mapsto> n)"
  have "cost_caps val (i + 1) (map snd fs) ?c i = val v"
    using Cons.prems [of i] by (simp add: cost_caps_other split: option.split)
  moreover have "?c j = None" if "i + 1 \<le> j" for j using that Cons.prems [of j] by (auto split: option.split)
  ultimately show ?case using Cons.IH [of "i + 1" ?c] by (simp add: p del: One_nat_def split: option.split)
qed simp

lemma foldl_costs:
  "distinct (map fst fs) \<Longrightarrow>
   foldl (\<lambda>t (f, v). case val v of Some n \<Rightarrow> t(f \<mapsto> js_Number n) | None \<Rightarrow> t) t fs g =
     (case map_of fs g of Some v \<Rightarrow> (case val v of Some n \<Rightarrow> Some (js_Number n) | None \<Rightarrow> t g) | None \<Rightarrow> t g)"
proof (induction fs arbitrary: t)
  case (Cons p fs)
  obtain f v where p: "p = (f, v)" by (cases p)
  have "map_of fs f = None" using Cons.prems p by (auto simp: map_of_eq_None_iff)
  then show ?case using Cons p by (auto split: option.split)
qed simp

lemma cache_map_fields: "map fst BILLING_CACHE_VAR_MAP = extra_cost_fields" "distinct (map fst BILLING_CACHE_VAR_MAP)"
  by (simp_all add: cache_map extra_cost_fields_def del: js.simps)

lemma fields_disjoint: "in_cost \<noteq> out_cost" "in_cost \<notin> set extra_cost_fields" "out_cost \<notin> set extra_cost_fields"
  "base_cost_fields = [in_cost, out_cost]" "cost_1h \<in> set extra_cost_fields" "cost_1h \<noteq> in_cost" "cost_1h \<noteq> out_cost"
  by (simp_all add: in_cost_def out_cost_def extra_cost_fields_def base_cost_fields_def cost_1h_def del: js.simps)

definition tier_mode :: "VisualTier \<Rightarrow> CacheMode" where
  "tier_mode t = (if js_less (Fin 0) (cost_of t cost_1h) then CACHE_MODE_TIMED else CACHE_MODE_GENERIC)"

text \<open>The tiers the editor can write and read back.\<close>

definition canonical_tier :: "VisualTier \<Rightarrow> bool" where
  "canonical_tier t \<longleftrightarrow> good_label (vt_label t) \<and> good_costs t \<and> vt_cache_mode t = tier_mode t"

lemma or_zero_good: "good_price x \<Longrightarrow> or_zero (Some x) = x"
  by (cases x) (auto simp: or_zero_def good_price_def)

lemma extra_cost_read:
  assumes "good_costs t" "f \<in> set extra_cost_fields"
  shows "\<exists>v x. map_of BILLING_CACHE_VAR_MAP f = Some v \<and> vt_costs t f = Some x \<and> cost_of t f = x \<and> good_price x
    \<and> cost_val t v = (if x = Fin 0 then None else Some (js_String x))"
proof -
  obtain v where v: "map_of BILLING_CACHE_VAR_MAP f = Some v"
    using assms(2) cache_map_fields(1) by (metis list.set_map map_of_eq_None_iff not_None_eq)
  then have "(f, v) \<in> set BILLING_CACHE_VAR_MAP" by (rule map_of_SomeD)
  then show ?thesis using v good_cost_of [OF assms(1), of f] assms(2) cost_val_map by fastforce
qed

lemma call_caps_groups:
  assumes "\<And>j. i \<le> j \<Longrightarrow> c j = None"
  shows "group (call_caps t i c) i = vt_label t" "group (call_caps t i c) (i + 1) = js_String (cost_of t in_cost)"
    "group (call_caps t i c) (i + 2) = js_String (cost_of t out_cost)"
    "put_costs (call_caps t i c) (i + 3) BILLING_CACHE_VAR_MAP m =
       foldl (\<lambda>t' (f, v). case cost_val t v of Some n \<Rightarrow> t'(f \<mapsto> js_Number n) | None \<Rightarrow> t') m BILLING_CACHE_VAR_MAP"
    "j < i \<Longrightarrow> call_caps t i c j = c j"
  using put_costs_caps [of "i + 3" "c(i \<mapsto> vt_label t, i + 1 \<mapsto> js_String (cost_of t in_cost), i + 2 \<mapsto> js_String (cost_of t out_cost))"
      "cost_val t" BILLING_CACHE_VAR_MAP m] assms
  by (simp_all add: call_caps_def body_caps_def group_def cost_caps_other cacheVarNames_def eval_nat_numeral)

lemma matched_canonical:
  assumes t: "canonical_tier t" and c: "\<And>j. i \<le> j \<Longrightarrow> c j = None"
  shows "matched_tier cs i (call_caps t i c) = t\<lparr>vt_conditions := cs\<rparr>"
proof -
  have g: "good_costs t" and mode: "vt_cache_mode t = tier_mode t" using t by (auto simp: canonical_tier_def)
  obtain a b where ab: "vt_costs t in_cost = Some a" "cost_of t in_cost = a" "good_price a"
      "vt_costs t out_cost = Some b" "cost_of t out_cost = b" "good_price b"
  proof -
    have "in_cost \<in> set (base_cost_fields @ extra_cost_fields)" "out_cost \<in> set (base_cost_fields @ extra_cost_fields)"
      by (simp_all add: fields_disjoint(4))
    then show thesis using that good_cost_of [OF g] by metis
  qed
  define m where "m = put_costs (call_caps t i c) (i + 3) BILLING_CACHE_VAR_MAP [in_cost \<mapsto> a, out_cost \<mapsto> b]"
  have m: "m f = (case map_of BILLING_CACHE_VAR_MAP f of
      Some v \<Rightarrow> (case cost_val t v of Some n \<Rightarrow> Some (js_Number n) | None \<Rightarrow> [in_cost \<mapsto> a, out_cost \<mapsto> b] f)
    | None \<Rightarrow> [in_cost \<mapsto> a, out_cost \<mapsto> b] f)" for f
    using call_caps_groups(4) [of i c t "[in_cost \<mapsto> a, out_cost \<mapsto> b]", OF c]
      foldl_costs [OF cache_map_fields(2), of "cost_val t" "[in_cost \<mapsto> a, out_cost \<mapsto> b]"] by (simp add: m_def)
  have none: "map_of BILLING_CACHE_VAR_MAP f = None" if "f \<notin> set extra_cost_fields" for f
    using that cache_map_fields(1) by (metis list.set_map map_of_eq_None_iff)
  have ex: "m f = (if cost_of t f = Fin 0 then None else Some (cost_of t f))" "or_zero (m f) = cost_of t f"
      "vt_costs t f = Some (cost_of t f)" if f: "f \<in> set extra_cost_fields" for f
  proof -
    obtain v x where x: "map_of BILLING_CACHE_VAR_MAP f = Some v" "vt_costs t f = Some x" "cost_of t f = x" "good_price x"
        "cost_val t v = (if x = Fin 0 then None else Some (js_String x))"
      using extra_cost_read [OF g f] by blast
    show mf: "m f = (if cost_of t f = Fin 0 then None else Some (cost_of t f))"
      using x f fields_disjoint by (auto simp: m good_price_def)
    show "or_zero (m f) = cost_of t f" unfolding mf using x or_zero_good by (auto simp: or_zero_def)
    show "vt_costs t f = Some (cost_of t f)" using x by simp
  qed
  have dom: "vt_costs t f = None" if "f \<notin> set extra_cost_fields" "f \<notin> set base_cost_fields" for f
    using that g by (auto simp: good_costs_def dom_def)
  have "(\<lambda>f. if f \<in> set extra_cost_fields then Some (or_zero (m f))
        else if f \<in> set base_cost_fields \<and> m f = None then Some (Fin 0) else m f) = vt_costs t"
    using ex(2,3) none dom ab fields_disjoint(1-3) by (intro ext) (auto simp: fields_disjoint(4) m)
  moreover have "getTierCacheMode \<lparr>pt_label = Some (vt_label t), pt_conditions = Some cs, pt_cache_mode = None, pt_costs = m\<rparr> = tier_mode t"
    using ex(1) [OF fields_disjoint(5)] by (simp add: getTierCacheMode_def tier_mode_def)
  ultimately show ?thesis
    using ab mode call_caps_groups(1-3) [of i c t, OF c]
    unfolding matched_tier_def normalizeVisualTier_def in_cost_def [symmetric] out_cost_def [symmetric]
    by (simp add: good_price_def m_def [symmetric] cong: if_cong)
qed

lemma normalize_canonical: "canonical_tier t \<Longrightarrow> normalizeVisualTier (to_partial_tier t) = t"
proof -
  assume t: "canonical_tier t"
  then have g: "good_costs t" by (simp add: canonical_tier_def)
  have "or_zero (vt_costs t f) = the (vt_costs t f)" "vt_costs t f \<noteq> None" if "f \<in> set extra_cost_fields" for f
    using extra_cost_read [OF g that] or_zero_good by auto
  moreover have "vt_costs t f \<noteq> None" if "f \<in> set base_cost_fields" for f
    using good_cost_of [OF g, of f] that by auto
  ultimately have "(\<lambda>f. if f \<in> set extra_cost_fields then Some (or_zero (vt_costs t f))
        else if f \<in> set base_cost_fields \<and> vt_costs t f = None then Some (Fin 0) else vt_costs t f) = vt_costs t"
    by (intro ext) (metis option.collapse)
  then show ?thesis
    by (simp add: normalizeVisualTier_def to_partial_tier_def getTierCacheMode_def cong: if_cong)
qed

lemma normalize_canonicals:
  assumes "ts \<noteq> []" "\<forall>t\<in>set ts. canonical_tier t"
  shows "normalizeVisualConfig ts = ts"
  using assms by (simp add: normalizeVisualConfig_def map_idI normalize_canonical)

section \<open>One tier without a condition\<close>

lemma call_text: "good_label (vt_label t) \<Longrightarrow> \<exists>r. tier_call d t = js ''tier('' @ r"
  by (auto simp: tier_call_def)

lemma single_read:
  assumes "canonical_tier t"
  shows "re_match singleRe (tier_call d t) = Some (call_caps t 1 no_caps)"
proof -
  let ?rs = \<open>[rlit ''tier("'', label_re 1, rlit ''",'', ws_re] @ body_pat 2 @ [rlit '')'', REnd]\<close>
  have "rmatch (rseqs ?rs) ([], tier_call d t, no_caps) = rmatch (rseqs [REnd]) (rev (tier_call d t) @ [], [], call_caps t 1 no_caps)"
    using call_match [of t 1 "[REnd]" "[]" d "[]" no_caps] assms
    by (simp only: canonical_tier_def append_Nil2 one_add_one)
  then have "first (rmatch (rseqs ?rs) ([], tier_call d t, no_caps)) = Some (rev (tier_call d t), [], call_caps t 1 no_caps)"
    by (simp only: rseqs.simps rmatch_end append_Nil2 simp_thms if_True first_simps)
  then show ?thesis unfolding singleRe_def re_match_begin by (simp only: option.map prod.case)
qed

lemma no_version: "hd s \<noteq> 118 \<Longrightarrow> re_match plain_version_re s = None" "hd s \<noteq> 118 \<Longrightarrow> s \<noteq> [] \<Longrightarrow> stripExprVersion s = (num 1, s)"
  by (cases s; simp add: plain_version_re_def version_re_def stripExprVersion_def rx del: rmatch.simps)+

lemma single_round_trip:
  assumes "canonical_tier t" "vt_conditions t = []"
  shows "tryParseVisualConfig (tier_call d t) = Some [t]"
proof -
  obtain r where "tier_call d t = js ''tier('' @ r" using call_text [of t d] assms(1) by (auto simp: canonical_tier_def)
  then have v: "re_match plain_version_re (tier_call d t) = None" "tier_call d t \<noteq> []"
    using no_version(1) [of "tier_call d t"] by auto
  have "matched_tier [] 1 (call_caps t 1 no_caps) = t"
    using matched_canonical [OF assms(1), of 1 no_caps "[]"] assms(2) by (cases t) (simp add: no_caps_def)
  then show ?thesis
    using v single_read [OF assms(1)] normalize_canonicals [of "[t]"] assms(1) by (simp add: tryParseVisualConfig_def)
qed

end
