(* ===== verification/Billing_Tiers_Props.thy ===== *)
theory Billing_Tiers_Props
  imports Billing_Tiers_Text
begin

text \<open>
  All tiers of an expression.  The pattern of the editor and the pattern of the price display share
  the head of a tier, its condition, and differ in how they read the call of \<open>tier\<close>: the locale
  \<open>tier_reader\<close> states what a pattern of a call promises and derives the reading of a whole
  expression.  The editor reads back what it writes, and the display shows the same tiers.
\<close>

section \<open>Expressions of tiers\<close>

lemma call_units: "\<exists>r. tier_call d t = 116 # r"
  by (simp add: tier_call_def)

definition headed :: "re list \<Rightarrow> re" where
  "headed calls = RSeq tier_head_re (rseqs calls)"

lemma headed_split:
  "rmatch (headed calls) st = rmatch (rseqs (condGroup # after_cond calls)) st @ rmatch (rseqs calls) st"
proof -
  have "rmatch (headed calls) st = rmatch (rseqs (tier_head_re # calls)) st"
    unfolding headed_def by (simp only: rseqs_Cons rmatch.simps(3))
  also have "\<dots> = rmatch (rseqs ([condGroup, ws_re, rlit ''?'', ws_re] @ calls)) st @ rmatch (rseqs calls) st"
    unfolding tier_head_re_def by (rule run_opt)
  finally show ?thesis by (simp only: after_cond_def append.simps)
qed

lemma exec_all_step:
  assumes "exec_from r (rev sep @ pre) s = Some (p0, p1, s', c)" "exec_from r pre (sep @ s) = exec_from r (rev sep @ pre) s"
    "length s' < length s"
  shows "exec_all r pre (sep @ s) = c # exec_all r p1 s'"
  using assms by (subst exec_all.simps) simp

fun config_text :: "VisualTier list \<Rightarrow> jsstring" where
  "config_text [] = []"
| "config_text [t] = tier_call [] t"
| "config_text (t # ts) = conds_text (vt_conditions t) @ js '' ? '' @ tier_call [] t @ js '' : '' @ config_text ts"

fun config_caps :: "(VisualTier \<Rightarrow> caps \<Rightarrow> caps) \<Rightarrow> VisualTier list \<Rightarrow> caps list" where
  "config_caps caps_of [] = []"
| "config_caps caps_of [t] = [caps_of t no_caps]"
| "config_caps caps_of (t # ts) = caps_of t (no_caps(1 \<mapsto> conds_text (vt_conditions t))) # config_caps caps_of ts"

definition canonical_conds :: "TierConditionInput list \<Rightarrow> bool" where
  "canonical_conds cs \<longleftrightarrow> cs \<noteq> [] \<and> list_all canonical_cond cs"

fun canonical_chain :: "VisualTier list \<Rightarrow> bool" where
  "canonical_chain [] \<longleftrightarrow> True"
| "canonical_chain [t] \<longleftrightarrow> canonical_tier t \<and> vt_conditions t = []"
| "canonical_chain (t # ts) \<longleftrightarrow> canonical_tier t \<and> canonical_conds (vt_conditions t) \<and> canonical_chain ts"

text \<open>A configuration the editor can write and read back: one tier with or without conditions, or
  several of which every one but the last has conditions.\<close>

definition canonical_config :: "VisualTier list \<Rightarrow> bool" where
  "canonical_config ts \<longleftrightarrow>
     (case ts of
        [] \<Rightarrow> False
      | [t] \<Rightarrow> canonical_tier t \<and> (vt_conditions t = [] \<or> canonical_conds (vt_conditions t))
      | _ \<Rightarrow> canonical_chain ts)"

definition caps_config :: "(VisualTier \<Rightarrow> caps \<Rightarrow> caps) \<Rightarrow> VisualTier list \<Rightarrow> caps list" where
  "caps_config caps_of ts =
     (case ts of
        [t] \<Rightarrow> [caps_of t (if vt_conditions t = [] then no_caps else no_caps(1 \<mapsto> conds_text (vt_conditions t)))]
      | _ \<Rightarrow> config_caps caps_of ts)"

lemma canonical_written: "canonical_cond c \<Longrightarrow> written c"
  by (auto simp: canonical_cond_def written_def)

lemma build_conds: "list_all canonical_cond cs \<Longrightarrow> buildConditionStr cs = conds_text cs"
  by (simp add: buildConditionStr_def conds_text_def list_all_iff canonical_written cong: filter_cong)

lemma conds_nonempty: "canonical_conds cs \<Longrightarrow> conds_text cs \<noteq> []"
  using cond_units_start [of cs] by (auto simp: canonical_conds_def list_all_iff)

lemma call_default: "canonical_tier t \<Longrightarrow> tier_call d t = tier_call [] t"
  by (simp add: tier_call_def canonical_tier_def good_label_def)

lemma parts_config: "canonical_chain ts \<Longrightarrow> ts \<noteq> [] \<Longrightarrow> join (js '' : '') (tier_parts i ts) = config_text ts"
proof (induction ts arbitrary: i rule: config_text.induct)
  case (2 t)
  then show ?case using call_default [of t] by (simp add: Let_def)
next
  case (3 t u us)
  then have t: "canonical_tier t" "canonical_conds (vt_conditions t)" by auto
  then have c: "buildConditionStr (vt_conditions t) = conds_text (vt_conditions t)" "conds_text (vt_conditions t) \<noteq> []"
    using build_conds conds_nonempty by (auto simp: canonical_conds_def)
  obtain p ps where p: "tier_parts (i + 1) (u # us) = p # ps" by (simp add: Let_def)
  have "join (js '' : '') (tier_parts (i + 1) (u # us)) = config_text (u # us)" using 3 by simp
  then show ?case
    using p c call_default [OF t(1), of "js ''tier_'' @ show_nat (i + 1)"]
    by (subst tier_parts.simps) (simp add: Let_def del: tier_parts.simps)
qed simp

lemma chain_tiers: "canonical_chain ts \<Longrightarrow> \<forall>t\<in>set ts. canonical_tier t"
  by (induction ts rule: canonical_chain.induct) auto

lemma config_cases:
  assumes "canonical_config ts"
  obtains t where "ts = [t]" "vt_conditions t = []" "canonical_tier t"
      "generateExprFromVisualConfig ts = tier_call [] t"
    | t where "ts = [t]" "canonical_conds (vt_conditions t)" "canonical_tier t"
      "generateExprFromVisualConfig ts = conds_text (vt_conditions t) @ js '' ? '' @ tier_call [] t @ js '' : '' @ no_cost"
    | t u us where "ts = t # u # us" "canonical_chain ts" "generateExprFromVisualConfig ts = config_text ts"
proof -
  consider t where "ts = [t]" "vt_conditions t = []" "canonical_tier t"
    | t where "ts = [t]" "canonical_conds (vt_conditions t)" "canonical_tier t"
    | t u us where "ts = t # u # us" "canonical_chain ts"
    using assms by (auto simp: canonical_config_def split: list.splits)
  then show thesis
  proof cases
    case 1
    moreover have "generateExprFromVisualConfig ts = tier_call [] t"
      using 1 call_default [of t] by (simp add: generateExprFromVisualConfig_def buildConditionStr_def Let_def)
    ultimately show ?thesis using that(1) by blast
  next
    case 2
    moreover have "generateExprFromVisualConfig ts = conds_text (vt_conditions t) @ js '' ? '' @ tier_call [] t @ js '' : '' @ no_cost"
      using 2 build_conds [of "vt_conditions t"] conds_nonempty [OF 2(2)] call_default [OF 2(3)]
      by (simp add: generateExprFromVisualConfig_def canonical_conds_def Let_def del: js.simps)
    ultimately show ?thesis using that(2) by blast
  next
    case 3
    moreover have "generateExprFromVisualConfig ts = config_text ts"
      using parts_config [OF 3(2), of 0] 3(1)
      by (simp add: generateExprFromVisualConfig_def del: js.simps tier_parts.simps config_text.simps)
    ultimately show ?thesis using that(3) by blast
  qed
qed

lemma config_tiers: "canonical_config ts \<Longrightarrow> ts \<noteq> [] \<and> (\<forall>t\<in>set ts. canonical_tier t)"
  using chain_tiers by (auto simp: canonical_config_def split: list.splits)

text \<open>An expression that starts with a condition is not a single tier and has no version.\<close>

lemma cond_body:
  assumes "canonical_conds cs"
  shows "hd (conds_text cs @ s) \<noteq> 118" "re_match singleRe (conds_text cs @ s) = None" "conds_text cs @ s \<noteq> []"
proof -
  obtain u r where u: "conds_text cs = u # r" "u \<in> {112, 99, 108}"
    using cond_units_start [of cs] assms by (auto simp: canonical_conds_def list_all_iff)
  show "hd (conds_text cs @ s) \<noteq> 118" "conds_text cs @ s \<noteq> []" using u by auto
  show "re_match singleRe (conds_text cs @ s) = None"
    using u unfolding singleRe_def re_match_begin append.simps rlit_units_of run_lit by (auto simp: startsWith_def)
qed

lemma config_start:
  assumes "canonical_config ts"
  shows "hd (generateExprFromVisualConfig ts) \<noteq> 118 \<and> generateExprFromVisualConfig ts \<noteq> []"
  using assms
proof (cases rule: config_cases)
  case (1 t)
  then show ?thesis using call_units [of "[]" t] by auto
next
  case (2 t)
  then show ?thesis using cond_body [OF 2(2)] by (simp only:) simp
next
  case (3 t u us)
  have "canonical_conds (vt_conditions t)" using 3(1,2) by simp
  note cond_body [OF this, of "js '' ? '' @ tier_call [] t @ js '' : '' @ config_text (u # us)"]
  then show ?thesis using 3(1,3) by simp
qed

section \<open>The contract of a pattern for calls\<close>

locale tier_reader =
  fixes calls after_name :: "re list" and caps_of :: "VisualTier \<Rightarrow> caps \<Rightarrow> caps"
  assumes calls_start: \<open>calls = rlit ''tier("'' # after_name\<close>
    and reads_call: "canonical_tier t \<Longrightarrow>
      first (rmatch (rseqs calls) (pre, tier_call d t @ s, c)) = Some (rev (tier_call d t) @ pre, s, caps_of t c)"
begin

lemma calls_refuse: "refuses (rseqs calls) is_ws"
  unfolding calls_start rlit_units_of by (rule refuses_run_lit) simp_all

lemma calls_start_unit: "u \<noteq> 116 \<Longrightarrow> rmatch (rseqs calls) (pre, u # s, c) = []"
  unfolding calls_start rlit_units_of run_lit by (simp add: startsWith_def)

lemma exec_call:
  assumes "canonical_tier t"
  shows "exec_from (headed calls) pre (tier_call d t @ s) = Some (pre, rev (tier_call d t) @ pre, s, caps_of t no_caps)"
proof -
  obtain r where r: "tier_call d t = 116 # r" using call_units by blast
  obtain ys where "rmatch (rseqs calls) (pre, tier_call d t @ s, no_caps) = (rev (tier_call d t) @ pre, s, caps_of t no_caps) # ys"
    using first_Some [OF reads_call [OF assms]] by (rule exE)
  then have "rmatch (headed calls) (pre, tier_call d t @ s, no_caps) = (rev (tier_call d t) @ pre, s, caps_of t no_caps) # ys"
    using cond_re_start [of 116 "after_cond calls" pre "r @ s" no_caps] by (simp add: headed_split r)
  then show ?thesis by (subst exec_from.simps) simp
qed

lemma exec_cond:
  assumes t: "canonical_tier t" and cs: "canonical_conds cs"
  shows "exec_from (headed calls) pre (conds_text cs @ js '' ? '' @ tier_call d t @ s)
    = Some (pre, rev (conds_text cs @ js '' ? '' @ tier_call d t) @ pre, s, caps_of t (no_caps(1 \<mapsto> conds_text cs)))"
proof -
  let ?x = "conds_text cs @ 32 # 63 # 32 # tier_call d t @ s"
  let ?st = "(rev (conds_text cs @ js '' ? '' @ tier_call d t) @ pre, s, caps_of t (no_caps(1 \<mapsto> conds_text cs)))"
  have cs': "cs \<noteq> []" "\<forall>c\<in>set cs. canonical_cond c" using cs by (auto simp: canonical_conds_def list_all_iff)
  obtain r where r: "tier_call d t = 116 # r" using call_units by blast
  then have "dropWhile is_ws (tier_call d t @ s) = tier_call d t @ s" by simp
  then have "first (rmatch (rseqs (condGroup # after_cond calls)) (pre, ?x, no_caps)) = Some ?st"
    using cond_head [OF cs' calls_refuse, of "tier_call d t @ s" pre no_caps] reads_call [OF t] by simp
  then obtain ys where "rmatch (headed calls) (pre, ?x, no_caps) = ?st # ys"
    unfolding headed_split by (metis append_Cons first_Some)
  then show ?thesis by (subst exec_from.simps) simp
qed

lemma exec_sep: "exec_from (headed calls) pre (32 # 58 # 32 # s) = exec_from (headed calls) (32 # 58 # 32 # pre) s"
proof -
  have "exec_from (headed calls) pre (u # s) = exec_from (headed calls) (u # pre) s" if "u \<notin> {112, 99, 108, 116}" for pre u s
    using that by (subst exec_from.simps) (simp add: headed_split cond_re_start calls_start_unit)
  then show ?thesis by simp
qed

lemma calls_need_quote: "34 \<notin> set (rest_of st) \<Longrightarrow> rmatch (rseqs calls) st = []"
proof -
  assume "34 \<notin> set (rest_of st)"
  then have \<open>\<not> startsWith (rest_of st) (js ''tier("'')\<close> using startsWith_set by fastforce
  then show ?thesis
    unfolding calls_start rlit_units_of
    by (cases st) (simp add: run_lit del: rseqs.simps rlit_units.simps js.simps)
qed

lemma headed_needs_quote: "34 \<notin> set s \<Longrightarrow> rmatch (headed calls) (pre, s, c) = []"
proof -
  assume s: "34 \<notin> set s"
  let ?r = "rseqs [condGroup, ws_re, rlit ''?'', ws_re]"
  have "rmatch (rseqs (condGroup # after_cond calls)) (pre, s, c) = concat (map (rmatch (rseqs calls)) (rmatch ?r (pre, s, c)))"
    using rseqs_append [of "[condGroup, ws_re, rlit ''?'', ws_re]" calls] by (simp only: after_cond_def append.simps)
  also have "\<dots> = []"
  proof -
    have "rmatch (rseqs calls) st = []" if "st \<in> set (rmatch ?r (pre, s, c))" for st
      using rmatch_consumes [OF that] s by (intro calls_need_quote) auto
    then show ?thesis by (simp only: concat_eq_Nil_conv set_map) blast
  qed
  finally show ?thesis using calls_need_quote [of "(pre, s, c)"] s by (simp add: headed_split)
qed

lemma exec_none: "34 \<notin> set s \<Longrightarrow> exec_from (headed calls) pre s = None"
proof (induction s arbitrary: pre)
  case Nil
  then show ?case using headed_needs_quote [of "[]"] by (subst exec_from.simps) simp
next
  case (Cons u s)
  then show ?case using headed_needs_quote [of "u # s"] by (subst exec_from.simps) simp
qed

lemma all_none: "34 \<notin> set s \<Longrightarrow> exec_all (headed calls) pre s = []"
  using exec_none by (subst exec_all.simps) simp

lemma chain_exec:
  "canonical_chain ts \<Longrightarrow> sep \<in> {[], [32, 58, 32]} \<Longrightarrow> exec_all (headed calls) pre (sep @ config_text ts) = config_caps caps_of ts"
proof (induction ts arbitrary: pre sep rule: config_text.induct)
  case 1
  then show ?case by (auto intro: all_none)
next
  case (2 t)
  obtain r where r: "tier_call [] t = 116 # r" using call_units by blast
  have e: "exec_from (headed calls) (rev sep @ pre) (tier_call [] t) =
      Some (rev sep @ pre, rev (tier_call [] t) @ rev sep @ pre, [], caps_of t no_caps)"
    using exec_call [of t "rev sep @ pre" "[]" "[]"] 2(1) by simp
  have "exec_from (headed calls) pre (sep @ tier_call [] t) = exec_from (headed calls) (rev sep @ pre) (tier_call [] t)"
    using 2(2) exec_sep by auto
  then show ?case using exec_all_step [OF e] r all_none [of "[]"] by simp
next
  case (3 t u ts)
  let ?c = "conds_text (vt_conditions t)"
  let ?s = "?c @ js '' ? '' @ tier_call [] t @ js '' : '' @ config_text (u # ts)"
  have e: "exec_from (headed calls) (rev sep @ pre) ?s = Some (rev sep @ pre,
      rev (?c @ js '' ? '' @ tier_call [] t) @ rev sep @ pre, js '' : '' @ config_text (u # ts), caps_of t (no_caps(1 \<mapsto> ?c)))"
    using exec_cond [of t "vt_conditions t" "rev sep @ pre" "[]"] 3(2) by simp
  have "exec_from (headed calls) pre (sep @ ?s) = exec_from (headed calls) (rev sep @ pre) ?s"
    using 3(3) exec_sep by auto
  moreover have "exec_all (headed calls) p (js '' : '' @ config_text (u # ts)) = config_caps caps_of (u # ts)" for p
    using 3(1) [of "[32, 58, 32]" p] 3(2) by simp
  ultimately show ?case using exec_all_step [OF e] by simp
qed

lemma reads_config:
  assumes "canonical_config ts"
  shows "exec_all (headed calls) [] (generateExprFromVisualConfig ts) = caps_config caps_of ts"
  using assms
proof (cases rule: config_cases)
  case (1 t)
  then show ?thesis using chain_exec [of "[t]" "[]" "[]"] by (simp add: caps_config_def)
next
  case (2 t)
  have "exec_all (headed calls) p (js '' : '' @ no_cost) = []" for p by (rule all_none) (simp add: no_cost_def)
  then show ?thesis
    using exec_all_step [of "headed calls" "[]" "[]"] exec_cond [OF 2(3,2), of "[]" "[]" "js '' : '' @ no_cost"] 2
    by (simp add: caps_config_def canonical_conds_def)
next
  case (3 t u us)
  then show ?thesis using chain_exec [OF 3(2), of "[]" "[]"] by (simp add: caps_config_def)
qed

end

section \<open>The editor\<close>

definition call_re :: "re list" where
  \<open>call_re = [rlit ''tier("'', label_re 2, rlit ''",'', ws_re] @ body_pat 3 @ [rlit '')'']\<close>

interpretation editor: tier_reader call_re \<open>[label_re 2, rlit ''",'', ws_re] @ body_pat 3 @ [rlit '')'']\<close> "\<lambda>t. call_caps t 2"
proof
  show \<open>call_re = rlit ''tier("'' # [label_re 2, rlit ''",'', ws_re] @ body_pat 3 @ [rlit '')'']\<close>
    by (simp add: call_re_def)
next
  fix t pre d s c
  assume "canonical_tier t"
  then have "rmatch (rseqs call_re) (pre, tier_call d t @ s, c) = rmatch (rseqs []) (rev (tier_call d t) @ pre, s, call_caps t 2 c)"
    using call_match [of t 2 "[]" pre d s c]
    by (simp add: call_re_def canonical_tier_def numeral_3_eq_3 del: rseqs.simps rmatch.simps)
  then show "first (rmatch (rseqs call_re) (pre, tier_call d t @ s, c)) = Some (rev (tier_call d t) @ pre, s, call_caps t 2 c)"
    by simp
qed

lemma visual_headed: "visualTierRe = headed call_re"
  by (simp add: visualTierRe_def headed_def call_re_def)

lemma caps_read:
  assumes "canonical_tier t" "canonical_conds cs"
  shows "matched_tier (map to_input (read_conditions (group (call_caps t 2 (no_caps(1 \<mapsto> conds_text cs))) 1))) 2
      (call_caps t 2 (no_caps(1 \<mapsto> conds_text cs))) = t\<lparr>vt_conditions := cs\<rparr>"
proof -
  let ?c = "no_caps(1 \<mapsto> conds_text cs)"
  have c: "\<And>j. 2 \<le> j \<Longrightarrow> ?c j = None" by (simp add: no_caps_def)
  have "group (call_caps t 2 ?c) 1 = conds_text cs"
    using call_caps_groups(5) [of 2 ?c 1 t, OF c] by (simp add: group_def)
  moreover have "map to_input (read_conditions (conds_text cs)) = cs"
    using assms(2) by (intro conditions_read_back) (auto simp: canonical_conds_def list_all_iff)
  ultimately show ?thesis using matched_canonical [of t 2 ?c cs, OF assms(1) c] by simp
qed

lemma caps_read_plain:
  assumes "canonical_tier t" "vt_conditions t = []"
  shows "matched_tier (map to_input (read_conditions (group (call_caps t 2 no_caps) 1))) 2 (call_caps t 2 no_caps) = t"
proof -
  have c: "\<And>j. 2 \<le> j \<Longrightarrow> no_caps j = None" by (simp add: no_caps_def)
  have "group (call_caps t 2 no_caps) 1 = []"
    using call_caps_groups(5) [of 2 no_caps 1 t, OF c] by (simp add: group_def no_caps_def)
  then show ?thesis using matched_canonical [of t 2 no_caps "[]", OF assms(1) c] assms(2) by (cases t) (simp add: read_conditions_def)
qed

lemma chain_read:
  "canonical_chain ts \<Longrightarrow>
   map (\<lambda>m. matched_tier (map to_input (read_conditions (group m 1))) 2 m) (config_caps (\<lambda>t. call_caps t 2) ts) = ts"
proof (induction ts rule: canonical_chain.induct)
  case (2 t)
  then show ?case using caps_read_plain [of t] by simp
next
  case (3 t u us)
  then show ?case using caps_read [of t "vt_conditions t"] by (cases t) simp
qed simp

lemma config_read:
  assumes "canonical_config ts"
  shows "map (\<lambda>m. matched_tier (map to_input (read_conditions (group m 1))) 2 m) (caps_config (\<lambda>t. call_caps t 2) ts) = ts"
  using assms
proof (cases rule: config_cases)
  case (1 t)
  then show ?thesis using caps_read_plain [of t] by (simp add: caps_config_def)
next
  case (2 t)
  then have "vt_conditions t \<noteq> []" by (simp add: canonical_conds_def)
  then show ?thesis using 2 caps_read [OF 2(3,2)] by (cases t) (simp add: caps_config_def)
next
  case (3 t u us)
  then show ?thesis using chain_read [OF 3(2)] by (simp add: caps_config_def)
qed

section \<open>Two tiers\<close>

lemma nat_price: "n \<le> 9007199254740992 \<Longrightarrow> good_price (num n)"
  using show_nat_digits [of n] js_Number_show_nat [of n] js_String_nat [of n]
  by (auto simp: good_price_def price_text_def pricec_def list_all_iff simp del: js_String.simps)

lemma nat_cond: "n \<le> 9007199254740992 \<Longrightarrow> cond_text (js_String (num n)) \<and> js_Number (js_String (num n)) = num n"
  using show_nat_digits [of n] js_Number_show_nat [of n] js_String_nat [of n]
  by (auto simp: cond_text_def condc_def list_all_iff simp del: js_String.simps)

text \<open>Two tiers with whole prices: up to two hundred thousand tokens and above, the latter with a
  price for writes to the cache of one hour.\<close>

definition whole_costs :: "nat list \<Rightarrow> costs" where
  "whole_costs ns = map_of (zip (base_cost_fields @ extra_cost_fields) (map num ns))"

definition sample_tiers :: "VisualTier list" where
  "sample_tiers =
     [\<lparr>vt_label = js ''small'', vt_conditions = [\<lparr>ci_var = js ''len'', ci_op = js ''<='', ci_value = CNum (num 200000)\<rparr>],
       vt_cache_mode = CACHE_MODE_GENERIC, vt_costs = whole_costs [3, 15, 0, 0, 0, 0, 0, 0, 0]\<rparr>,
      \<lparr>vt_label = js ''large'', vt_conditions = [], vt_cache_mode = CACHE_MODE_TIMED,
       vt_costs = whole_costs [6, 22, 1, 7, 12, 0, 0, 0, 0]\<rparr>]"

lemma whole_good_costs:
  assumes "length ns = 9" "\<forall>n\<in>set ns. n \<le> 9007199254740992"
  shows "good_costs \<lparr>vt_label = l, vt_conditions = cs, vt_cache_mode = m, vt_costs = whole_costs ns\<rparr>"
proof -
  have l: "length (base_cost_fields @ extra_cost_fields) = length (map num ns)"
    using assms(1) by (simp add: base_cost_fields_def extra_cost_fields_def)
  then have "dom (whole_costs ns) = set (base_cost_fields @ extra_cost_fields)"
    unfolding whole_costs_def by (rule dom_map_of_zip)
  moreover have "good_price x" if "whole_costs ns f = Some x" for f x
  proof -
    have "x \<in> set (map num ns)" using that unfolding whole_costs_def by (meson map_of_SomeD set_zip_rightD)
    then show ?thesis using assms(2) nat_price by auto
  qed
  ultimately show ?thesis by (simp add: good_costs_def)
qed

lemma sample_canonical: "canonical_config sample_tiers"
proof -
  have "good_label (js ''small'')" "good_label (js ''large'')" by (simp_all add: good_label_def notq_def)
  moreover have "canonical_conds [\<lparr>ci_var = js ''len'', ci_op = js ''<='', ci_value = CNum (num 200000)\<rparr>]"
    using nat_cond [of 200000] by (auto simp: canonical_conds_def canonical_cond_def)
  ultimately show ?thesis
    using whole_good_costs [of "[3, 15, 0, 0, 0, 0, 0, 0, 0]"] whole_good_costs [of "[6, 22, 1, 7, 12, 0, 0, 0, 0]"]
    by (simp add: canonical_config_def sample_tiers_def canonical_tier_def tier_mode_def cost_of_def or_zero_def
        whole_costs_def base_cost_fields_def extra_cost_fields_def cost_1h_def del: js.simps)
qed

section \<open>What the editor writes it reads back\<close>

lemma config_read_back:
  assumes "canonical_config ts"
  shows "tryParseVisualConfig (generateExprFromVisualConfig ts) = Some ts"
proof -
  let ?s = "generateExprFromVisualConfig ts"
  have s: "re_match plain_version_re ?s = None" "?s \<noteq> []" using config_start [OF assms] no_version(1) by auto
  have norm: "normalizeVisualConfig ts = ts" "ts \<noteq> []" using config_tiers [OF assms] normalize_canonicals by auto
  have read: "map (\<lambda>m. matched_tier (map to_input (read_conditions (group m 1))) 2 m) (exec_all visualTierRe [] ?s) = ts"
    unfolding visual_headed editor.reads_config [OF assms] by (rule config_read [OF assms])
  show ?thesis
  proof (cases "re_match singleRe ?s")
    case None
    then show ?thesis using s norm read by (simp add: tryParseVisualConfig_def Let_def)
  next
    case (Some m)
    from assms show ?thesis
    proof (cases rule: config_cases)
      case (1 t)
      then show ?thesis using single_round_trip [OF 1(3,2), of "[]"] by simp
    next
      case (2 t)
      then show ?thesis using Some cond_body(2) [OF 2(2)] by simp
    next
      case (3 t u us)
      then show ?thesis using Some cond_body(2) [of "vt_conditions t"] by simp
    qed
  qed
qed

text \<open>C25: The visual editor of tiers reads back what it writes, for a canonical configuration: a list of
  tiers with labels that are not empty and have no quotes, all their costs, as numbers whose text reads back, the
  cache mode that goes with the costs, and conditions on offered variables with numbers whose text
  reads back, where of several tiers every one but the last has conditions and the last has none.
  On the expression that \<open>generateExprFromVisualConfig\<close> writes for it, \<open>tryParseVisualConfig\<close> gives
  the same configuration.\<close>

theorem visual_config_round_trip:
  assumes "canonical_config ts"
  shows "tryParseVisualConfig (generateExprFromVisualConfig ts) = Some ts"
  using assms by (rule config_read_back)

theorem visual_config_round_trip_witness:
  "canonical_config sample_tiers \<and> tryParseVisualConfig (generateExprFromVisualConfig sample_tiers) = Some sample_tiers"
  using visual_config_round_trip [OF sample_canonical] sample_canonical by simp

end
