(* ===== verification/Billing_Tiers_Display.thy ===== *)
theory Billing_Tiers_Display
  imports Billing_Tiers_Props
begin

text \<open>
  The tiers that the price display reads from an expression of the editor: the same labels and
  conditions, and the costs under the names of the display.
\<close>

section \<open>The call of a tier\<close>

definition not_paren :: "unit16 \<Rightarrow> bool" where
  "not_paren u \<longleftrightarrow> u \<noteq> 41"

definition shown_re :: "re list" where
  \<open>shown_re = [rlit ''tier("'', label_re 2, rlit ''",'', ws_re, RGroup 3 (rplus (RSet not_paren)), rlit '')'']\<close>

lemma tierRe_headed: "tierRe = headed shown_re"
proof -
  have "(\<lambda>u. u \<noteq> 41) = not_paren" by (rule ext) (simp add: not_paren_def)
  then show ?thesis by (simp add: tierRe_def headed_def shown_re_def)
qed

definition shown_caps :: "VisualTier \<Rightarrow> caps \<Rightarrow> caps" where
  "shown_caps t c = c(2 \<mapsto> vt_label t, 3 \<mapsto> buildTierBodyExpr t)"

definition name_text :: "jsstring \<Rightarrow> jsstring" where
  \<open>name_text l = js ''tier("'' @ l @ js ''",''\<close>

lemma first_ws:
  assumes "rmatch (rseqs rs) (rev (takeWhile is_ws s) @ pre, dropWhile is_ws s, c) = x # ys"
  shows "first (rmatch (rseqs (ws_re # rs)) (pre, s, c)) = Some x"
proof -
  obtain zs where "rmatch (RStar (RSet is_ws)) (pre, s, c) = (rev (takeWhile is_ws s) @ pre, dropWhile is_ws s, c) # zs"
    using first_Some [OF first_class_star] by (rule exE)
  then show ?thesis using assms by (simp add: rseqs_Cons ws_re_def del: rseqs.simps rmatch.simps)
qed

lemma price_text_units: "price_text w \<Longrightarrow> list_all not_paren w"
  by (auto simp: price_text_def list_all_iff pricec_def is_digit_def not_paren_def)

lemma not_paren_units [simp]: "not_paren 32" "not_paren 43" "not_paren 42" "not_paren 112" "not_paren 99" "\<not> not_paren 41"
  by (simp_all add: not_paren_def)

lemma cost_text_units:
  "(\<And>v n. v \<in> set vs \<Longrightarrow> val v = Some n \<Longrightarrow> price_text n) \<Longrightarrow> (\<And>v. v \<in> set vs \<Longrightarrow> 41 \<notin> set v) \<Longrightarrow>
   list_all not_paren (cost_text val vs)"
proof (induction vs)
  case (Cons v vs)
  have "list_all not_paren v" using Cons.prems(2) [of v] by (auto simp: list_all_iff not_paren_def)
  then show ?case
    using Cons price_text_units by (cases "val v") (auto simp: cost_text_def)
qed (simp add: cost_text_def)

lemma body_units:
  assumes "good_costs t"
  shows "list_all not_paren (buildTierBodyExpr t)"
proof -
  have "price_text (js_String (cost_of t in_cost))" "price_text (js_String (cost_of t out_cost))"
    using good_cost_of [OF assms, of in_cost] good_cost_of [OF assms, of out_cost]
    by (auto simp: fields_disjoint(4) good_price_def)
  moreover have "list_all not_paren (cost_text (cost_val t) cacheVarNames)"
    by (rule cost_text_units) (use cost_val_good [OF assms] in \<open>auto simp: cache_vars\<close>)
  ultimately show ?thesis using price_text_units by (simp add: body_text)
qed

interpretation display: tier_reader shown_re
  \<open>[label_re 2, rlit ''",'', ws_re, RGroup 3 (rplus (RSet not_paren)), rlit '')'']\<close> shown_caps
proof
  show \<open>shown_re = rlit ''tier("'' # [label_re 2, rlit ''",'', ws_re, RGroup 3 (rplus (RSet not_paren)), rlit '')'']\<close>
    by (simp add: shown_re_def)
next
  fix t pre d s c
  assume t: "canonical_tier t"
  let ?b = "buildTierBodyExpr t" and ?l = "vt_label t"
  let ?body = "[RGroup 3 (rplus (RSet not_paren)), rlit_units [41]]"
  obtain r where r: "?b = 112 # r" using body_starts by blast
  have l: "list_all notq ?l" and d: \<open>tier_call d t = js ''tier("'' @ ?l @ js ''", '' @ ?b @ [41]\<close>
    using t by (auto simp: tier_call_def canonical_tier_def good_label_def)
  have b: "list_all (\<lambda>x. not_paren x \<and> not_paren x) ?b" "?b \<noteq> []" "\<not> not_paren 41"
    using body_units [of t] t by (simp_all add: canonical_tier_def r)
  have "refuses (rseqs [rlit_units [41]]) not_paren" by (rule refuses_run_lit) (simp_all add: not_paren_def)
  then have single: "rmatch (rseqs ?body) (p, ?b @ 41 # s, k) = [(41 # rev ?b @ p, s, k(3 \<mapsto> ?b))]" for p k
    using run_plus [of "[rlit_units [41]]" not_paren not_paren 41 ?b 3 p s k] b
    by (simp add: run_lit startsWith_units del: rlit_units.simps)
  have w: "takeWhile is_ws (32 # ?b @ 41 # s) = [32]" "dropWhile is_ws (32 # ?b @ 41 # s) = ?b @ 41 # s" by (simp_all add: r)
  have body: "first (rmatch (rseqs (ws_re # ?body)) (p, 32 # ?b @ 41 # s, k)) = Some (41 # rev ?b @ 32 # p, s, k(3 \<mapsto> ?b))" for p k
    by (rule first_ws) (simp only: w rev.simps append.simps single)
  have k: "refuses (rseqs (rlit_units [34, 44] # ws_re # ?body)) notq"
    by (rule refuses_run_lit) (simp_all add: notq_def)
  have q: "\<not> notq 34" by (simp add: notq_def)
  have "rmatch (rseqs shown_re) (pre, tier_call d t @ s, c) =
      rmatch (rseqs (ws_re # ?body)) (rev (name_text ?l) @ pre, 32 # ?b @ 41 # s, c(2 \<mapsto> ?l))"
    using run_star [OF k q l, of 2]
    by (simp add: shown_re_def d label_re_def name_text_def run_lit rlit_units_of startsWith_units del: rseqs.simps rmatch.simps rlit_units.simps)
  then show "first (rmatch (rseqs shown_re) (pre, tier_call d t @ s, c)) = Some (rev (tier_call d t) @ pre, s, shown_caps t c)"
    using body by (simp add: d shown_caps_def name_text_def)
qed

section \<open>The costs of a body\<close>

definition pricing_keys :: "jsstring list" where
  "pricing_keys = map bv_key BILLING_PRICING_VARS"

lemma pricing_keys: "pricing_keys = map js [''p'', ''c'', ''cr'', ''cc'', ''cc1h'', ''img'', ''img_o'', ''ai'', ''ao'']"
  by (simp add: pricing_keys_def BILLING_PRICING_VARS_def BILLING_VARS_def price_var_def del: js.simps)

lemma pricing_keys_apart: "vars_apart pricing_keys"
  by (simp add: vars_apart_def pricing_keys apart_def var_name_def startsWith_def)

lemma rmatch_alts:
  "ws \<noteq> [] \<Longrightarrow> rmatch (rlits ws) st = concat (map (\<lambda>w. rmatch (rlit_units w) st) ws)"
  unfolding rlits_def
proof (induction ws)
  case (Cons w ws)
  then show ?case by (cases ws) (simp_all del: rlit_units.simps)
qed simp

definition after_key :: "re list" where
  "after_key = [ws_re, rlit ''*'', ws_re, num_re 2]"

lemma after_key_apart:
  assumes "apart v w" "startsWith w v"
  shows "rmatch (rseqs after_key) (pre, drop (length v) (w @ 32 # t), c) = []"
proof -
  have l: "length v < length w" and u: "\<not> is_ws (w ! length v)" "w ! length v \<noteq> 42"
    using assms by (auto simp: apart_def)
  have "drop (length v) (w @ 32 # t) = w ! length v # drop (Suc (length v)) w @ 32 # t"
    using l by (simp add: Cons_nth_drop_Suc [symmetric])
  then show ?thesis
    using u by (simp add: after_key_def runs refuses_num_ws del: rseqs.simps rmatch.simps rlit_units.simps)
qed

lemma first_plus:
  assumes "list_all P v" "v \<noteq> []" "s = [] \<or> \<not> P (hd s)"
  shows "first (rmatch (RGroup i (rplus (RSet P))) (pre, v @ s, c)) = Some (rev v @ pre, s, c(i \<mapsto> v))"
proof -
  obtain x w where v: "v = x # w" using assms(2) by (cases v) auto
  have run: "takeWhile P (w @ s) = w" "dropWhile P (w @ s) = s"
    using assms(1,3) v by (cases s; auto simp: takeWhile_run list_all_iff)+
  have "rmatch (rplus (RSet P)) (pre, v @ s, c) = rmatch (RStar (RSet P)) (x # pre, w @ s, c)"
    using assms(1) v by (simp add: rplus_def del: rmatch.simps(5))
  moreover obtain zs where "rmatch (RStar (RSet P)) (x # pre, w @ s, c) = (rev w @ x # pre, s, c) # zs"
    using first_Some [OF first_class_star [of P "x # pre" "w @ s" c]] unfolding run by (rule exE)
  ultimately show ?thesis
    using with_group_append [of i pre v s c] v by (simp add: rmatch_group del: rmatch.simps)
qed

lemma after_key_run:
  assumes "price_text n" "s = [] \<or> \<not> numc (hd s)"
  shows "first (rmatch (rseqs after_key) (pre, 32 # 42 # 32 # n @ s, c)) = Some (rev (32 # 42 # 32 # n) @ pre, s, c(2 \<mapsto> n))"
proof -
  have "rmatch (rseqs after_key) (pre, 32 # 42 # 32 # n @ s, c) = rmatch (rseqs [num_re 2]) (32 # 42 # 32 # pre, n @ s, c)"
    using assms(1) by (simp add: after_key_def runs del: rseqs.simps rmatch.simps rlit_units.simps)
  moreover have "list_all numc n" "n \<noteq> []" using assms(1) pricec_numc by (auto simp: price_text_def list_all_iff)
  ultimately show ?thesis using first_plus [of numc n s 2 "32 # 42 # 32 # pre" c] assms(2) by simp
qed

lemma first_concat_one:
  assumes "distinct xs" "a \<in> set xs" "\<And>x. x \<in> set xs \<Longrightarrow> x \<noteq> a \<Longrightarrow> f x = []"
  shows "concat (map f xs) = f a"
  using assms
proof (induction xs)
  case (Cons x xs)
  show ?case
  proof (cases "x = a")
    case True
    then have "concat (map f xs) = []" using Cons.prems by (auto simp: concat_eq_Nil_conv)
    then show ?thesis using True by simp
  next
    case False
    then show ?thesis using Cons by auto
  qed
qed simp

lemma concat_nested: "concat (concat xss) = concat (map concat xss)"
  by (induction xss) simp_all

definition not_word_end :: "jsstring \<Rightarrow> bool" where
  "not_word_end pre \<longleftrightarrow> \<not> word_at pre"

lemma var_match:
  assumes v: "v \<in> set pricing_keys" and n: "price_text n" and s: "s = [] \<or> \<not> numc (hd s)" and pre: "not_word_end pre"
  shows "first (rmatch BILLING_VAR_REGEX (pre, v @ 32 # 42 # 32 # n @ s, no_caps))
    = Some (rev (v @ 32 # 42 # 32 # n) @ pre, s, no_caps(1 \<mapsto> v, 2 \<mapsto> n))"
proof -
  let ?t = "v @ 32 # 42 # 32 # n @ s"
  let ?f = "\<lambda>w. concat (map (rmatch (rseqs after_key)) (map (with_group 1 pre) (rmatch (rlit_units w) (pre, ?t, no_caps))))"
  have va: "distinct pricing_keys" "\<forall>w\<in>set pricing_keys. \<forall>x\<in>set pricing_keys. w \<noteq> x \<longrightarrow> apart w x"
    using pricing_keys_apart by (auto simp: vars_apart_def)
  have "word_at ?t" using v by (auto simp: pricing_keys word_at_def is_word_def)
  then have b: "rmatch RWordB (pre, ?t, no_caps) = [(pre, ?t, no_caps)]" using pre by (simp add: not_word_end_def)
  have ne: "pricing_keys \<noteq> []" by (simp add: pricing_keys)
  have split: "BILLING_VAR_REGEX = rseqs (RWordB # RGroup 1 (rlits pricing_keys) # after_key)"
    by (simp add: BILLING_VAR_REGEX_def after_key_def pricing_keys_def)
  have "rmatch BILLING_VAR_REGEX (pre, ?t, no_caps) = concat (map ?f pricing_keys)"
    unfolding split rseqs_Cons [of RWordB] b
    by (simp add: rseqs_Cons rmatch_group rmatch_alts [OF ne] map_concat concat_nested comp_def
        del: rseqs.simps rmatch.simps rlit_units.simps)
  also have "\<dots> = ?f v"
  proof (rule first_concat_one [OF va(1) v])
    fix w
    assume w: "w \<in> set pricing_keys" "w \<noteq> v"
    then have a: "apart w v" using va(2) v by blast
    then have "32 \<notin> set w" by (simp add: apart_def)
    then show "?f w = []"
      using after_key_apart [OF a, of "rev w @ pre" "42 # 32 # n @ s" "no_caps(1 \<mapsto> w)"] startsWith_spaced [of w v]
      by (auto simp del: rseqs.simps rmatch.simps rlit_units.simps simp add: rmatch_lit_units)
  qed
  also have "?f v = rmatch (rseqs after_key) (rev v @ pre, 32 # 42 # 32 # n @ s, no_caps(1 \<mapsto> v))"
    by (simp del: rseqs.simps rmatch.simps rlit_units.simps add: rmatch_lit_units)
  finally show ?thesis using after_key_run [OF n s] by simp
qed

lemma var_skip:
  assumes "u \<in> {32, 43}"
  shows "exec_from BILLING_VAR_REGEX pre (u # s) = exec_from BILLING_VAR_REGEX (u # pre) s"
proof -
  have ne: "pricing_keys \<noteq> []" by (simp add: pricing_keys)
  have "rmatch (rlits pricing_keys) (p, u # s, c) = []" for p c
    unfolding rmatch_alts [OF ne] using assms by (auto simp: pricing_keys startsWith_def simp del: rlit_units.simps)
  then have none: "rmatch (rseqs (RGroup 1 (rlits pricing_keys) # after_key)) (p, u # s, c) = []" for p c
    by (simp add: rseqs_Cons rmatch_group del: rseqs.simps rmatch.simps)
  have "rmatch BILLING_VAR_REGEX = rmatch (rseqs (RWordB # RGroup 1 (rlits pricing_keys) # after_key))"
    by (simp add: BILLING_VAR_REGEX_def after_key_def pricing_keys_def)
  moreover have "rmatch (rseqs (RWordB # RGroup 1 (rlits pricing_keys) # after_key)) (pre, u # s, no_caps) = []"
    unfolding rseqs_Cons [of RWordB] using none by (simp del: rseqs.simps)
  ultimately have "rmatch BILLING_VAR_REGEX (pre, u # s, no_caps) = []" by simp
  then show ?thesis by (subst exec_from.simps) simp
qed

definition item_text :: "jsstring \<times> jsstring \<Rightarrow> jsstring" where
  "item_text p = fst p @ 32 # 42 # 32 # snd p"

definition item_caps :: "jsstring \<times> jsstring \<Rightarrow> caps" where
  "item_caps p = no_caps(1 \<mapsto> fst p, 2 \<mapsto> snd p)"

definition good_item :: "jsstring \<times> jsstring \<Rightarrow> bool" where
  "good_item p \<longleftrightarrow> fst p \<in> set pricing_keys \<and> price_text (snd p)"

lemma items_exec:
  "list_all good_item ps \<Longrightarrow> sep \<in> {[], [32, 43, 32]} \<Longrightarrow> not_word_end (rev sep @ pre) \<Longrightarrow>
   exec_all BILLING_VAR_REGEX pre (sep @ join (js '' + '') (map item_text ps)) = (if ps = [] then exec_all BILLING_VAR_REGEX pre sep else map item_caps ps)"
proof (induction ps arbitrary: sep pre)
  case (Cons p ps)
  let ?rest = "if ps = [] then [] else [32, 43, 32] @ join (js '' + '') (map item_text ps)"
  have t: "join (js '' + '') (map item_text (p # ps)) = fst p @ 32 # 42 # 32 # snd p @ ?rest"
    by (cases ps) (simp_all add: item_text_def)
  have p: "fst p \<in> set pricing_keys" "price_text (snd p)" using Cons.prems(1) by (auto simp: good_item_def)
  have "?rest = [] \<or> \<not> numc (hd ?rest)" by simp
  note var_match [OF p this Cons.prems(3)]
  from first_Some [OF this] obtain ys where
    "rmatch BILLING_VAR_REGEX (rev sep @ pre, fst p @ 32 # 42 # 32 # snd p @ ?rest, no_caps) =
      (rev (fst p @ 32 # 42 # 32 # snd p) @ rev sep @ pre, ?rest, item_caps p) # ys"
    unfolding item_caps_def by (rule exE)
  then have e: "exec_from BILLING_VAR_REGEX (rev sep @ pre) (fst p @ 32 # 42 # 32 # snd p @ ?rest) =
      Some (rev sep @ pre, rev (fst p @ 32 # 42 # 32 # snd p) @ rev sep @ pre, ?rest, item_caps p)"
    by (subst exec_from.simps) simp
  have k: "exec_from BILLING_VAR_REGEX pre (sep @ x) = exec_from BILLING_VAR_REGEX (rev sep @ pre) x" for x
    using Cons.prems(2) by (auto simp: var_skip)
  have none: "exec_all BILLING_VAR_REGEX q [] = []" for q
    by (subst exec_all.simps, subst exec_from.simps)
       (simp add: BILLING_VAR_REGEX_def pricing_keys_def [symmetric] pricing_keys rlits_def rseqs_Cons rmatch_group startsWith_def
         del: rseqs.simps rmatch.simps(1,5,6) rlit_units.simps)
  have "exec_all BILLING_VAR_REGEX q ?rest = map item_caps ps" for q
    using Cons.IH [of "[32, 43, 32]" q] Cons.prems(1) none by (auto simp: not_word_end_def word_at_def is_word_def)
  then show ?case
    unfolding t using exec_all_step [OF e k] by simp
qed simp

definition written_costs :: "VisualTier \<Rightarrow> (jsstring \<times> jsstring) list" where
  "written_costs t = map (\<lambda>(f, v). (v, js_String (cost_of t f)))
     ([(in_cost, js ''p''), (out_cost, js ''c'')] @ filter (\<lambda>(f, v). cost_of t f \<noteq> Fin 0) BILLING_CACHE_VAR_MAP)"

lemma body_items: "buildTierBodyExpr t = join (js '' + '') (map item_text (written_costs t))"
proof -
  have "cost_parts t = map item_text (map (\<lambda>(f, v). (v, js_String (cost_of t f)))
      (filter (\<lambda>(f, v). cost_of t f \<noteq> Fin 0) BILLING_CACHE_VAR_MAP))"
    unfolding cost_parts_def map_map by (intro map_cong refl) (auto simp: item_text_def)
  then show ?thesis
    by (simp add: buildTierBodyExpr_def written_costs_def item_text_def in_cost_def out_cost_def del: join.simps)
qed

text \<open>The fields of the costs with their variables, the base costs first.\<close>

definition all_costs :: "(jsstring \<times> jsstring) list" where
  "all_costs = [(in_cost, js ''p''), (out_cost, js ''c'')] @ BILLING_CACHE_VAR_MAP"

lemma pricing_costs: "map (\<lambda>v. (the (bv_tierField v), bv_key v)) BILLING_PRICING_VARS = all_costs"
  by (simp add: all_costs_def BILLING_PRICING_VARS_def BILLING_VARS_def price_var_def in_cost_def out_cost_def cache_map del: js.simps)

lemma all_costs_fields: "map fst all_costs = base_cost_fields @ extra_cost_fields"
  by (simp add: all_costs_def fields_disjoint(4) cache_map_fields)

lemma all_costs_vars: "map snd all_costs = pricing_keys" "distinct (map snd all_costs)"
  by (simp_all add: pricing_costs [symmetric] pricing_keys_def comp_def)
     (simp add: pricing_keys_def [symmetric] pricing_keys)

lemma all_costs_good:
  assumes "good_costs t" "(f, v) \<in> set all_costs"
  shows "good_price (cost_of t f)" "v \<in> set pricing_keys"
proof -
  have "f \<in> set (map fst all_costs)" "v \<in> set (map snd all_costs)" using assms(2) by force+
  then show "good_price (cost_of t f)" "v \<in> set pricing_keys"
    using good_cost_of [OF assms(1), of f] unfolding all_costs_fields all_costs_vars by auto
qed

lemma written_costs_good:
  assumes "good_costs t"
  shows "list_all good_item (written_costs t)"
proof -
  have "set (written_costs t) \<subseteq> (\<lambda>(f, v). (v, js_String (cost_of t f))) ` set all_costs"
    unfolding written_costs_def all_costs_def by auto
  then show ?thesis
    using all_costs_good [OF assms] by (fastforce simp: list_all_iff good_item_def good_price_def)
qed

lemma coeffs_of_items:
  "distinct (map fst ps) \<Longrightarrow> fst ` set cs \<inter> fst ` set ps = {} \<Longrightarrow>
   foldl add_coeff cs (map item_caps ps) = cs @ map (\<lambda>p. (fst p, js_Number (snd p))) ps"
proof (induction ps arbitrary: cs)
  case (Cons p ps)
  have "add_coeff cs (item_caps p) = cs @ [(fst p, js_Number (snd p))]"
    using Cons.prems by (simp add: add_coeff_def item_caps_def group_def)
  then show ?case using Cons by simp
qed simp

lemma map_of_filtered:
  "distinct (map snd xs) \<Longrightarrow> (f, v) \<in> set xs \<Longrightarrow>
   map_of (map (\<lambda>(f, v). (v, g f)) (filter P xs)) v = (if P (f, v) then Some (g f) else None)"
proof (induction xs)
  case (Cons x xs)
  have "v \<notin> fst ` set (map (\<lambda>(f, v). (v, g f)) (filter P xs))" if "v \<notin> snd ` set xs"
    using that by (auto simp: image_iff)
  then show ?case using Cons by (cases x) (auto simp: map_of_eq_None_iff image_iff)
qed simp

text \<open>The price a variable shows for a tier.\<close>

definition shown_price :: "VisualTier \<Rightarrow> BillingVar \<Rightarrow> jsstring \<times> jsnum" where
  "shown_price t v = (the (bv_field v), cost_of t (the (bv_tierField v)))"

lemma read_coeffs:
  assumes "good_costs t"
  shows "foldl add_coeff [] (exec_all BILLING_VAR_REGEX [] (buildTierBodyExpr t)) = map (\<lambda>p. (fst p, js_Number (snd p))) (written_costs t)"
proof -
  have ne: "written_costs t \<noteq> []" by (simp add: written_costs_def)
  have "not_word_end (rev [] @ [])" by (simp add: not_word_end_def word_at_def)
  then have "exec_all BILLING_VAR_REGEX [] (buildTierBodyExpr t) = map item_caps (written_costs t)"
    using items_exec [OF written_costs_good [OF assms], of "[]" "[]"] ne by (simp add: body_items)
  moreover have "distinct (map fst (written_costs t))"
  proof -
    have "map fst (written_costs t) = js ''p'' # js ''c'' # map snd (filter (\<lambda>(f, v). cost_of t f \<noteq> Fin 0) BILLING_CACHE_VAR_MAP)"
      by (simp add: written_costs_def comp_def case_prod_beta del: js.simps)
    moreover have "distinct (map snd (filter (\<lambda>(f, v). cost_of t f \<noteq> Fin 0) BILLING_CACHE_VAR_MAP))"
      by (rule distinct_map_filter [OF cache_map_distinct])
    moreover have "js ''p'' \<notin> snd ` set BILLING_CACHE_VAR_MAP" "js ''c'' \<notin> snd ` set BILLING_CACHE_VAR_MAP" "js ''p'' \<noteq> js ''c''"
      by (simp_all add: cache_map)
    ultimately show ?thesis by (auto simp del: js.simps)
  qed
  ultimately show ?thesis using coeffs_of_items [of "written_costs t" "[]"] by simp
qed

lemma coeff_of:
  assumes "good_costs t"
  shows "(f, v) \<in> set all_costs \<Longrightarrow>
    or_zero (map_of (map (\<lambda>p. (fst p, js_Number (snd p))) (written_costs t)) v) = cost_of t f"
proof -
  assume fv: "(f, v) \<in> set all_costs"
  let ?P = "\<lambda>(f, v). v \<in> {js ''p'', js ''c''} \<or> cost_of t f \<noteq> Fin 0"
  have c: "js ''p'' \<notin> snd ` set BILLING_CACHE_VAR_MAP" "js ''c'' \<notin> snd ` set BILLING_CACHE_VAR_MAP" "js ''p'' \<noteq> js ''c''"
    by (simp_all add: cache_map)
  have "filter ?P BILLING_CACHE_VAR_MAP = filter (\<lambda>(f, v). cost_of t f \<noteq> Fin 0) BILLING_CACHE_VAR_MAP"
    using c(1,2) by (intro filter_cong refl) (force simp del: js.simps)
  then have "map (\<lambda>p. (fst p, js_Number (snd p))) (written_costs t) = map (\<lambda>(f, v). (v, js_Number (js_String (cost_of t f)))) (filter ?P all_costs)"
    by (simp add: written_costs_def all_costs_def comp_def case_prod_beta del: js.simps)
  moreover have "good_price (cost_of t f)" using all_costs_good [OF assms fv] by simp
  ultimately show ?thesis
    using map_of_filtered [OF all_costs_vars(2) fv, of "\<lambda>f. js_Number (js_String (cost_of t f))" ?P] or_zero_good [of "cost_of t f"]
    by (auto simp: good_price_def or_zero_def simp del: js.simps)
qed

lemma body_prices:
  assumes "good_costs t"
  shows "parseTierBody (buildTierBodyExpr t) = map (shown_price t) BILLING_PRICING_VARS"
proof -
  have "or_zero (map_of (map (\<lambda>p. (fst p, js_Number (snd p))) (written_costs t)) (bv_key v)) = cost_of t (the (bv_tierField v))"
      "case_option [] (\<lambda>f. f) (bv_field v) = the (bv_field v)"
    if "v \<in> set BILLING_PRICING_VARS" for v
  proof -
    have m: "(the (bv_tierField v), bv_key v) \<in> set all_costs"
      using that unfolding pricing_costs [symmetric] by simp
    have f: "bv_field v \<noteq> None"
      using that by (auto simp: BILLING_PRICING_VARS_def BILLING_VARS_def price_var_def simp del: js.simps)
    show "or_zero (map_of (map (\<lambda>p. (fst p, js_Number (snd p))) (written_costs t)) (bv_key v)) = cost_of t (the (bv_tierField v))"
      by (rule coeff_of [OF assms m])
    show "case_option [] (\<lambda>f. f) (bv_field v) = the (bv_field v)" using f by auto
  qed
  then show ?thesis
    unfolding parseTierBody_def read_coeffs [OF assms] BILLING_VAR_KEY_TO_FIELD_def Let_def map_map
    by (intro map_cong refl) (simp add: shown_price_def)
qed

section \<open>The tiers that are shown\<close>

definition shown_cond :: "TierConditionInput \<Rightarrow> TierCondition" where
  "shown_cond c = \<lparr>tc_var = ci_var c, tc_op = ci_op c, tc_value = (case ci_value c of CNum n \<Rightarrow> n | CText s \<Rightarrow> js_Number s)\<rparr>"

definition shown_tier :: "VisualTier \<Rightarrow> ParsedTier" where
  "shown_tier t = \<lparr>tier_label = vt_label t, tier_conditions = map shown_cond (vt_conditions t),
     tier_prices = map (shown_price t) BILLING_PRICING_VARS\<rparr>"

lemma shown_input: "shown_cond (to_input c) = c"
  by (simp add: shown_cond_def to_input_def)

lemma shown_conditions:
  assumes "canonical_conds cs"
  shows "read_conditions (conds_text cs) = map shown_cond cs"
proof -
  have "map to_input (read_conditions (conds_text cs)) = cs"
    using assms by (intro conditions_read_back) (auto simp: canonical_conds_def list_all_iff)
  then have "map shown_cond cs = map shown_cond (map to_input (read_conditions (conds_text cs)))" by simp
  then show ?thesis by (simp add: comp_def shown_input)
qed

definition shown_of :: "caps \<Rightarrow> ParsedTier" where
  "shown_of m = \<lparr>tier_label = group m 2, tier_conditions = read_conditions (group m 1), tier_prices = parseTierBody (group m 3)\<rparr>"

lemma shown_with_conds:
  assumes "canonical_tier t" "canonical_conds (vt_conditions t)"
  shows "shown_of (shown_caps t (no_caps(1 \<mapsto> conds_text (vt_conditions t)))) = shown_tier t"
  using assms body_prices [of t] shown_conditions [OF assms(2)]
  by (simp add: shown_of_def shown_caps_def shown_tier_def group_def canonical_tier_def)

lemma shown_plain:
  assumes "canonical_tier t" "vt_conditions t = []"
  shows "shown_of (shown_caps t no_caps) = shown_tier t"
  using assms body_prices [of t]
  by (simp add: shown_of_def shown_caps_def shown_tier_def group_def canonical_tier_def read_conditions_def no_caps_def)

lemma chain_shown: "canonical_chain ts \<Longrightarrow> map shown_of (config_caps shown_caps ts) = map shown_tier ts"
proof (induction ts rule: canonical_chain.induct)
  case (2 t)
  then show ?case using shown_plain by simp
next
  case (3 t u us)
  then show ?case using shown_with_conds by simp
qed simp

lemma config_shown:
  assumes "canonical_config ts"
  shows "map shown_of (caps_config shown_caps ts) = map shown_tier ts"
  using assms
proof (cases rule: config_cases)
  case (1 t)
  then show ?thesis using shown_plain by (simp add: caps_config_def)
next
  case (2 t)
  then have "vt_conditions t \<noteq> []" by (simp add: canonical_conds_def)
  then show ?thesis using 2 shown_with_conds by (simp add: caps_config_def)
next
  case (3 t u us)
  then show ?thesis using chain_shown [OF 3(2)] by (simp add: caps_config_def)
qed

text \<open>C26: The price display shows the tiers of the editor, for a canonical configuration (labels without
  quotes, numbers whose text reads back, the cache mode of the costs, and of several tiers every one but
  the last with conditions and the last with none): on the expression that
  \<open>generateExprFromVisualConfig\<close> writes for it, \<open>parseTiersFromExpr\<close> gives, tier by tier and in order, the
  label, the conditions and under each field of the display the cost of the editor's field.\<close>

theorem display_shows_editor_tiers:
  assumes "canonical_config ts"
  shows "parseTiersFromExpr (generateExprFromVisualConfig ts) = map shown_tier ts"
proof -
  let ?s = "generateExprFromVisualConfig ts"
  have "?s \<noteq> []" "stripExprVersion ?s = (num 1, ?s)" using config_start [OF assms] no_version(2) by auto
  then show ?thesis
    using config_shown [OF assms]
    by (simp add: parseTiersFromExpr_def tierRe_headed display.reads_config [OF assms] shown_of_def [abs_def])
qed

theorem display_shows_editor_tiers_witness:
  "canonical_config sample_tiers \<and> parseTiersFromExpr (generateExprFromVisualConfig sample_tiers) = map shown_tier sample_tiers"
  using display_shows_editor_tiers [OF sample_canonical] sample_canonical by simp

end
