(* ===== verification/Param_Override.thy ===== *)
theory Param_Override
  imports JSON_Text List_Splice
begin

text \<open>
  The rules of the parameter override editor
  (\<open>features/channels/components/dialogs/param-override-editor-dialog.tsx\<close>): modes and what they
  need, reading a rule from JSON, the drafts of the values of \<open>return_error\<close> and \<open>prune_objects\<close>, the
  checks before saving and the JSON that is saved.  An identifier is made from the clock and a
  counter: \<open>clock i\<close> is the time of the \<open>i\<close>-th call, and functions that make identifiers take and
  return the counter.
\<close>

section \<open>Modes\<close>

definition OPERATION_MODE_OPTIONS :: "(jsstring \<times> jsstring) list" where
  "OPERATION_MODE_OPTIONS = map (\<lambda>(l, v). (js l, js v))
     [(''Set Field'', ''set''), (''Delete Field'', ''delete''), (''Append to End'', ''append''),
      (''Prepend to Start'', ''prepend''), (''Copy Field'', ''copy''), (''Move Field'', ''move''),
      (''String Replace'', ''replace''), (''Regex Replace'', ''regex_replace''), (''Trim Prefix'', ''trim_prefix''),
      (''Trim Suffix'', ''trim_suffix''), (''Ensure Prefix'', ''ensure_prefix''), (''Ensure Suffix'', ''ensure_suffix''),
      (''Trim Space'', ''trim_space''), (''To Lowercase'', ''to_lower''), (''To Uppercase'', ''to_upper''),
      (''Return Custom Error'', ''return_error''), (''Prune Object Items'', ''prune_objects''),
      (''Pass Through Headers'', ''pass_headers''), (''Sync Fields'', ''sync_fields''),
      (''Set Request Header'', ''set_header''), (''Delete Request Header'', ''delete_header''),
      (''Copy Request Header'', ''copy_header''), (''Move Request Header'', ''move_header'')]"

definition OPERATION_MODE_VALUES :: "jsstring list" where
  "OPERATION_MODE_VALUES = map snd OPERATION_MODE_OPTIONS"

definition CONDITION_MODE_OPTIONS :: "(jsstring \<times> jsstring) list" where
  "CONDITION_MODE_OPTIONS = map (\<lambda>(l, v). (js l, js v))
     [(''Exact Match'', ''full''), (''Prefix'', ''prefix''), (''Suffix'', ''suffix''), (''Contains'', ''contains''),
      (''Greater Than'', ''gt''), (''Greater Than or Equal'', ''gte''), (''Less Than'', ''lt''),
      (''Less Than or Equal'', ''lte'')]"

definition CONDITION_MODE_VALUES :: "jsstring list" where
  "CONDITION_MODE_VALUES = map snd CONDITION_MODE_OPTIONS"

record mode_meta =
  needs_path :: bool
  pathOptional :: bool
  has_value :: bool
  has_from :: bool
  has_to :: bool
  keepOrigin :: bool
  pathAlias :: bool

definition no_meta :: mode_meta where
  "no_meta = \<lparr>needs_path = False, pathOptional = False, has_value = False, has_from = False, has_to = False,
     keepOrigin = False, pathAlias = False\<rparr>"

definition path_meta :: mode_meta where
  "path_meta = no_meta\<lparr>needs_path := True\<rparr>"

definition set_meta :: mode_meta where
  "set_meta = no_meta\<lparr>needs_path := True, has_value := True, keepOrigin := True\<rparr>"

definition text_meta :: mode_meta where
  "text_meta = no_meta\<lparr>needs_path := True, has_value := True\<rparr>"

definition copy_meta :: mode_meta where
  "copy_meta = no_meta\<lparr>has_from := True, has_to := True\<rparr>"

definition replace_meta :: mode_meta where
  "replace_meta = no_meta\<lparr>needs_path := True, has_from := True\<rparr>"

definition header_copy_meta :: mode_meta where
  "header_copy_meta = no_meta\<lparr>has_from := True, has_to := True, keepOrigin := True, pathAlias := True\<rparr>"

definition MODE_META :: "(jsstring \<times> mode_meta) list" where
  "MODE_META =
     [(js ''delete'', path_meta), (js ''set'', set_meta), (js ''append'', set_meta), (js ''prepend'', set_meta),
      (js ''copy'', copy_meta), (js ''move'', copy_meta), (js ''replace'', replace_meta), (js ''regex_replace'', replace_meta),
      (js ''trim_prefix'', text_meta), (js ''trim_suffix'', text_meta), (js ''ensure_prefix'', text_meta),
      (js ''ensure_suffix'', text_meta), (js ''trim_space'', path_meta), (js ''to_lower'', path_meta),
      (js ''to_upper'', path_meta), (js ''return_error'', no_meta\<lparr>has_value := True\<rparr>),
      (js ''prune_objects'', no_meta\<lparr>pathOptional := True, has_value := True\<rparr>),
      (js ''pass_headers'', no_meta\<lparr>has_value := True, keepOrigin := True\<rparr>), (js ''sync_fields'', copy_meta),
      (js ''set_header'', set_meta), (js ''delete_header'', path_meta), (js ''copy_header'', header_copy_meta),
      (js ''move_header'', header_copy_meta)]"

text \<open>\<open>MODE_META[mode] || MODE_META.set\<close>.\<close>

definition meta_of :: "jsstring \<Rightarrow> mode_meta" where
  "meta_of mode = (case map_of MODE_META mode of Some m \<Rightarrow> m | None \<Rightarrow> set_meta)"

definition VALUE_REQUIRED_MODES :: "jsstring list" where
  "VALUE_REQUIRED_MODES = map js [''trim_prefix'', ''trim_suffix'', ''ensure_prefix'', ''ensure_suffix'', ''set_header'',
     ''return_error'', ''prune_objects'', ''pass_headers'']"

definition FROM_REQUIRED_MODES :: "jsstring list" where
  "FROM_REQUIRED_MODES = map js [''copy'', ''move'', ''replace'', ''regex_replace'', ''copy_header'', ''move_header'', ''sync_fields'']"

definition TO_REQUIRED_MODES :: "jsstring list" where
  "TO_REQUIRED_MODES = map js [''copy'', ''move'', ''copy_header'', ''move_header'', ''sync_fields'']"

section \<open>Values\<close>

text \<open>\<open>Number(v)\<close>; an array is converted by its text.\<close>

definition json_Number :: "json option \<Rightarrow> jsnum" where
  "json_Number v = (case v of
     None \<Rightarrow> NaN | Some JNull \<Rightarrow> Fin 0 | Some (JBool b) \<Rightarrow> if b then Fin 1 else Fin 0 | Some (JNum n) \<Rightarrow> n
   | Some (JStr s) \<Rightarrow> js_Number s | Some (JArr vs) \<Rightarrow> js_Number (json_String (JArr vs)) | Some (JObj _) \<Rightarrow> NaN)"

text \<open>\<open>toUpperCase\<close> on ASCII: its results are only compared with \<open>AND\<close> and \<open>OR\<close>, and no other character
  has an upper case of these letters.\<close>

definition upper_unit :: "unit16 \<Rightarrow> unit16" where
  "upper_unit u = (if 97 \<le> u \<and> u \<le> 122 then u - 32 else u)"

definition toUpperCase :: "jsstring \<Rightarrow> jsstring" where
  "toUpperCase s = map upper_unit s"

definition string_member :: "string \<Rightarrow> json \<Rightarrow> jsstring" where
  "string_member k v = (case member k v of Some (JStr s) \<Rightarrow> s | _ \<Rightarrow> [])"

definition mode_member :: "jsstring list \<Rightarrow> string \<Rightarrow> json \<Rightarrow> jsstring" where
  "mode_member modes dflt v =
     (case member ''mode'' v of Some (JStr s) \<Rightarrow> if s \<in> set modes then s else js dflt | _ \<Rightarrow> js dflt)"

definition toValueText :: "json option \<Rightarrow> jsstring" where
  "toValueText value = (case value of None \<Rightarrow> [] | Some (JStr s) \<Rightarrow> s | Some v \<Rightarrow> json_stringify v)"

definition parseLooseValue :: "jsstring \<Rightarrow> json" where
  "parseLooseValue valueText =
     (let raw = trim valueText
      in if raw = [] then JStr [] else (case json_parse raw of Some v \<Rightarrow> v | None \<Rightarrow> JStr raw))"

definition verifyJSON :: "jsstring \<Rightarrow> bool" where
  "verifyJSON t \<longleftrightarrow> json_parse t \<noteq> None"

section \<open>Rules\<close>

record ParamOverrideCondition =
  pc_id :: jsstring
  pc_path :: jsstring
  pc_mode :: jsstring
  pc_value_text :: jsstring
  pc_invert :: bool
  pc_pass_missing_key :: bool

record ParamOverrideOperation =
  po_id :: jsstring
  po_description :: jsstring
  po_path :: jsstring
  po_mode :: jsstring
  po_from :: jsstring
  po_to :: jsstring
  po_value_text :: jsstring
  po_keep_origin :: bool
  po_logic :: jsstring
  po_conditions :: "ParamOverrideCondition list"

type_synonym clock = "nat \<Rightarrow> nat"

definition nextLocalId :: "clock \<Rightarrow> nat \<Rightarrow> jsstring" where
  "nextLocalId clock i = js ''po_'' @ show_nat (clock i) @ js ''_'' @ show_nat i"

datatype type_error = TypeError

definition normalizeParamCondition :: "clock \<Rightarrow> nat \<Rightarrow> json \<Rightarrow> ParamOverrideCondition" where
  "normalizeParamCondition clock i c =
     \<lparr>pc_id = nextLocalId clock i, pc_path = string_member ''path'' c,
      pc_mode = mode_member CONDITION_MODE_VALUES ''full'' c, pc_value_text = toValueText (member ''value'' c),
      pc_invert = (member ''invert'' c = Some (JBool True)),
      pc_pass_missing_key = (member ''pass_missing_key'' c = Some (JBool True))\<rparr>"

text \<open>\<open>list.map(normalizeCondition)\<close>, which throws at a \<open>null\<close>.\<close>

fun normalize_conditions :: "clock \<Rightarrow> nat \<Rightarrow> json list \<Rightarrow> type_error + ParamOverrideCondition list" where
  "normalize_conditions clock i [] = Inr []"
| "normalize_conditions clock i (c # cs) =
     (if c = JNull then Inl TypeError
      else map_sum id ((#) (normalizeParamCondition clock i c)) (normalize_conditions clock (i + 1) cs))"

definition createDefaultCondition :: "clock \<Rightarrow> nat \<Rightarrow> ParamOverrideCondition" where
  "createDefaultCondition clock i = normalizeParamCondition clock i (JObj [])"

definition logic_of :: "string \<Rightarrow> json \<Rightarrow> jsstring" where
  "logic_of dflt v =
     (let l = member ''logic'' v
      in toUpperCase (if json_truthy l then json_String (the l) else js dflt))"

definition normalizeOperation :: "clock \<Rightarrow> nat \<Rightarrow> json \<Rightarrow> type_error + ParamOverrideOperation" where
  "normalizeOperation clock i v =
     (if v = JNull then Inl TypeError
      else map_sum id (\<lambda>cs.
        \<lparr>po_id = nextLocalId clock i, po_description = string_member ''description'' v, po_path = string_member ''path'' v,
         po_mode = mode_member OPERATION_MODE_VALUES ''set'' v, po_from = string_member ''from'' v,
         po_to = string_member ''to'' v, po_value_text = toValueText (member ''value'' v),
         po_keep_origin = (member ''keep_origin'' v = Some (JBool True)),
         po_logic = (if logic_of ''OR'' v = js ''AND'' then js ''AND'' else js ''OR''), po_conditions = cs\<rparr>)
        (case member ''conditions'' v of Some (JArr cs) \<Rightarrow> normalize_conditions clock (i + 1) cs | _ \<Rightarrow> Inr []))"

text \<open>How many identifiers a rule takes.\<close>

definition ids_used :: "ParamOverrideOperation \<Rightarrow> nat" where
  "ids_used op = 1 + length (po_conditions op)"

fun normalize_operations :: "clock \<Rightarrow> nat \<Rightarrow> json list \<Rightarrow> type_error + ParamOverrideOperation list" where
  "normalize_operations clock i [] = Inr []"
| "normalize_operations clock i (v # vs) =
     bind_sum (normalizeOperation clock i v) (\<lambda>op.
       map_sum id ((#) op) (normalize_operations clock (i + ids_used op) vs))"

definition createDefaultOperation :: "clock \<Rightarrow> nat \<Rightarrow> ParamOverrideOperation" where
  "createDefaultOperation clock i =
     \<lparr>po_id = nextLocalId clock i, po_description = [], po_path = [], po_mode = js ''set'', po_from = [], po_to = [],
      po_value_text = [], po_keep_origin = False, po_logic = js ''OR'', po_conditions = []\<rparr>"

lemma default_operation: "normalizeOperation clock i (JObj [(js ''mode'', JStr (js ''set''))]) = Inr (createDefaultOperation clock i)"
  by (simp add: normalizeOperation_def createDefaultOperation_def member_def string_member_def mode_member_def obj_get_def
      toValueText_def logic_of_def json_truthy_def OPERATION_MODE_VALUES_def OPERATION_MODE_OPTIONS_def toUpperCase_def upper_unit_def Let_def)

datatype drop_position = Before | After

definition reorderOperations ::
    "ParamOverrideOperation list \<Rightarrow> jsstring \<Rightarrow> jsstring \<Rightarrow> drop_position \<Rightarrow> ParamOverrideOperation list" where
  "reorderOperations ops sourceId targetId position =
     (if sourceId = [] \<or> targetId = [] \<or> sourceId = targetId then ops
      else (case find_index (\<lambda>op. po_id op = sourceId) ops of
         None \<Rightarrow> ops
       | Some srcIdx \<Rightarrow>
           (let rest = splice_out srcIdx ops
            in case find_index (\<lambda>op. po_id op = targetId) rest of
                 None \<Rightarrow> ops
               | Some insertIdx \<Rightarrow>
                   splice_in (if position = After then insertIdx + 1 else insertIdx) (ops ! srcIdx) rest)))"

definition has_condition :: "ParamOverrideCondition \<Rightarrow> bool" where
  "has_condition c \<longleftrightarrow> trim (pc_path c) \<noteq> [] \<or> trim (pc_value_text c) \<noteq> [] \<or> pc_mode c \<noteq> js ''full'' \<or> pc_invert c
     \<or> pc_pass_missing_key c"

definition isOperationBlank :: "ParamOverrideOperation \<Rightarrow> bool" where
  "isOperationBlank op \<longleftrightarrow> po_mode op = js ''set'' \<and> trim (po_path op) = [] \<and> trim (po_from op) = []
     \<and> trim (po_to op) = [] \<and> trim (po_value_text op) = [] \<and> \<not> po_keep_origin op
     \<and> \<not> list_ex has_condition (po_conditions op)"

definition or_text3 :: "jsstring \<Rightarrow> jsstring \<Rightarrow> jsstring \<Rightarrow> jsstring" where
  "or_text3 a b c = (if a \<noteq> [] then a else if b \<noteq> [] then b else c)"

definition getOperationSummary :: "ParamOverrideOperation \<Rightarrow> nat \<Rightarrow> jsstring" where
  "getOperationSummary op i =
     (let mode = (if po_mode op \<noteq> [] then po_mode op else js ''set'');
          modeLabel = (case map_of (map (\<lambda>(l, v). (v, l)) OPERATION_MODE_OPTIONS) mode of Some l \<Rightarrow> l | None \<Rightarrow> mode);
          tail = or_text3 (trim (po_from op)) (trim (po_to op)) (js ''-'')
      in show_nat (i + 1) @ js ''. '' @ modeLabel @ [32, 183, 32]
         @ (if mode \<noteq> js ''sync_fields'' \<and> trim (po_path op) \<noteq> [] then trim (po_path op) else tail))"

section \<open>Specifications of synchronised fields\<close>

definition parseSyncTargetSpec :: "jsstring \<Rightarrow> jsstring \<times> jsstring" where
  "parseSyncTargetSpec spec =
     (let raw = trim spec
      in if raw = [] then (js ''json'', [])
         else (case index_of (js '':'') raw of
            None \<Rightarrow> (js ''json'', raw)
          | Some idx \<Rightarrow>
              (if toLowerCase (trim (take idx raw)) = js ''header'' then js ''header'' else js ''json'', trim (drop (idx + 1) raw))))"

definition buildSyncTargetSpec :: "jsstring \<Rightarrow> jsstring \<Rightarrow> jsstring" where
  "buildSyncTargetSpec type key =
     (if trim key = [] then []
      else (if type = js ''header'' then js ''header'' else js ''json'') @ js '':'' @ trim key)"

section \<open>Custom errors\<close>

record ReturnErrorDraft =
  re_message :: jsstring
  re_statusCode :: jsnum
  re_code :: jsstring
  re_type :: jsstring
  re_skipRetry :: bool
  re_simpleMode :: bool

definition error_defaults :: ReturnErrorDraft where
  "error_defaults = \<lparr>re_message = [], re_statusCode = num 400, re_code = [], re_type = [], re_skipRetry = True,
     re_simpleMode = True\<rparr>"

text \<open>\<open>String(v || '')\<close>.\<close>

definition text_or_empty :: "json option \<Rightarrow> jsstring" where
  "text_or_empty v = (if json_truthy v then json_String (the v) else [])"

definition valid_status :: "jsnum \<Rightarrow> jsnum" where
  "valid_status n = (if js_isInteger n \<and> js_le (num 100) n \<and> js_le n (num 599) then n else num 400)"

definition parseReturnErrorDraft :: "jsstring \<Rightarrow> ReturnErrorDraft" where
  "parseReturnErrorDraft valueText =
     (let raw = trim valueText
      in if raw = [] then error_defaults
         else (case json_parse raw of
            Some (JObj ps) \<Rightarrow>
              (let v = JObj ps;
                   statusRaw = (if member ''status_code'' v \<noteq> None then member ''status_code'' v else member ''status'' v);
                   message = (if json_truthy (member ''message'' v) then member ''message'' v else member ''msg'' v)
               in \<lparr>re_message = trim (text_or_empty message), re_statusCode = valid_status (json_Number statusRaw),
                   re_code = trim (text_or_empty (member ''code'' v)), re_type = trim (text_or_empty (member ''type'' v)),
                   re_skipRetry = (member ''skip_retry'' v \<noteq> Some (JBool False)), re_simpleMode = False\<rparr>)
          | _ \<Rightarrow> error_defaults\<lparr>re_message := raw\<rparr>))"

definition error_payload :: "ReturnErrorDraft \<Rightarrow> json" where
  "error_payload d =
     JObj ([(js ''message'', JStr (trim (re_message d))), (js ''status_code'', JNum (valid_status (re_statusCode d)))]
       @ opt_member (trim (re_code d) \<noteq> []) ''code'' (JStr (trim (re_code d)))
       @ opt_member (trim (re_type d) \<noteq> []) ''type'' (JStr (trim (re_type d)))
       @ opt_member (\<not> re_skipRetry d) ''skip_retry'' (JBool False))"

definition buildReturnErrorValueText :: "ReturnErrorDraft \<Rightarrow> jsstring" where
  "buildReturnErrorValueText d =
     (if re_simpleMode d then trim (re_message d) else json_stringify (error_payload d))"

section \<open>Pruning\<close>

text \<open>A rule of pruning has the fields of a condition.\<close>

type_synonym PruneRule = ParamOverrideCondition

record PruneObjectsDraft =
  pd_simpleMode :: bool
  pd_typeText :: jsstring
  pd_logic :: jsstring
  pd_recursive :: bool
  pd_rules :: "PruneRule list"

definition prune_defaults :: PruneObjectsDraft where
  "prune_defaults = \<lparr>pd_simpleMode = True, pd_typeText = [], pd_logic = js ''AND'', pd_recursive = True, pd_rules = []\<rparr>"

definition normalizePruneRule :: "clock \<Rightarrow> nat \<Rightarrow> json \<Rightarrow> PruneRule" where
  "normalizePruneRule clock i rule =
     \<lparr>pc_id = nextLocalId clock i, pc_path = string_member ''path'' rule,
      pc_mode = mode_member CONDITION_MODE_VALUES ''full'' rule, pc_value_text = toValueText (member ''value'' rule),
      pc_invert = (member ''invert'' rule = Some (JBool True)),
      pc_pass_missing_key = (member ''pass_missing_key'' rule = Some (JBool True))\<rparr>"

definition entry_rule :: "jsstring \<times> json \<Rightarrow> json" where
  "entry_rule e = JObj [(js ''path'', JStr (fst e)), (js ''mode'', JStr (js ''full'')), (js ''value'', snd e)]"

definition is_object :: "json \<Rightarrow> bool" where
  "is_object v \<longleftrightarrow> (case v of JObj _ \<Rightarrow> True | JArr _ \<Rightarrow> True | _ \<Rightarrow> False)"

text \<open>The values that become rules, in their order.\<close>

definition prune_items :: "json \<Rightarrow> json list" where
  "prune_items v =
     (case member ''where'' v of Some (JObj ws) \<Rightarrow> map entry_rule (obj_entries ws) | _ \<Rightarrow> [])
     @ (case member ''conditions'' v of
          Some (JArr cs) \<Rightarrow> filter is_object cs
        | Some (JObj cs) \<Rightarrow> map entry_rule (obj_entries cs)
        | _ \<Rightarrow> [])"

fun number_rules :: "clock \<Rightarrow> nat \<Rightarrow> json list \<Rightarrow> PruneRule list" where
  "number_rules clock i [] = []"
| "number_rules clock i (v # vs) = normalizePruneRule clock i v # number_rules clock (i + 1) vs"

definition parsePruneObjectsDraft :: "clock \<Rightarrow> nat \<Rightarrow> jsstring \<Rightarrow> PruneObjectsDraft" where
  "parsePruneObjectsDraft clock i valueText =
     (let raw = trim valueText
      in if raw = [] then prune_defaults
         else (case json_parse raw of
            None \<Rightarrow> prune_defaults\<lparr>pd_typeText := raw\<rparr>
          | Some (JStr s) \<Rightarrow> prune_defaults\<lparr>pd_typeText := trim s\<rparr>
          | Some (JObj ps) \<Rightarrow>
              (let v = JObj ps
               in \<lparr>pd_simpleMode = (member ''logic'' v = None \<and> member ''recursive'' v = None \<and> member ''where'' v = None
                     \<and> member ''conditions'' v = None),
                   pd_typeText = (case member ''type'' v of None \<Rightarrow> [] | Some t \<Rightarrow> trim (json_String t)),
                   pd_logic = (if logic_of ''AND'' v = js ''OR'' then js ''OR'' else js ''AND''),
                   pd_recursive = (member ''recursive'' v \<noteq> Some (JBool False)),
                   pd_rules = number_rules clock i (prune_items v)\<rparr>)
          | Some JNull \<Rightarrow> prune_defaults
          | Some v \<Rightarrow> prune_defaults\<lparr>pd_typeText := trim (json_String v)\<rparr>))"

definition prune_condition :: "PruneRule \<Rightarrow> json" where
  "prune_condition rule =
     JObj ([(js ''path'', JStr (trim (pc_path rule))),
            (js ''mode'', JStr (if pc_mode rule \<in> set CONDITION_MODE_VALUES then pc_mode rule else js ''full''))]
       @ opt_member (trim (pc_value_text rule) \<noteq> []) ''value'' (parseLooseValue (trim (pc_value_text rule)))
       @ opt_member (pc_invert rule) ''invert'' (JBool True)
       @ opt_member (pc_pass_missing_key rule) ''pass_missing_key'' (JBool True))"

definition buildPruneObjectsValueText :: "PruneObjectsDraft \<Rightarrow> jsstring" where
  "buildPruneObjectsValueText draft =
     (let typeText = trim (pd_typeText draft);
          logic = (if pd_logic draft \<noteq> [] then pd_logic draft else js ''AND'');
          conditions = map prune_condition (filter (\<lambda>rule. trim (pc_path rule) \<noteq> []) (pd_rules draft))
      in if pd_simpleMode draft then typeText
         else if typeText = [] \<and> conditions = [] then json_stringify (JObj [(js ''logic'', JStr (js ''AND''))])
         else json_stringify (JObj (opt_member (typeText \<noteq> []) ''type'' (JStr typeText)
           @ opt_member (toUpperCase logic = js ''OR'') ''logic'' (JStr (js ''OR''))
           @ opt_member (\<not> pd_recursive draft) ''recursive'' (JBool False)
           @ opt_member (conditions \<noteq> []) ''conditions'' (JArr conditions))))"

section \<open>Headers that are passed on\<close>

text \<open>\<open>String(i ?? '')\<close>.\<close>

definition text_or_null :: "json \<Rightarrow> jsstring" where
  "text_or_null v = (if v = JNull then [] else json_String v)"

definition parsePassHeaderNames :: "json \<Rightarrow> jsstring list" where
  "parsePassHeaderNames rawValue =
     (case rawValue of
        JArr vs \<Rightarrow> filter (\<lambda>s. s \<noteq> []) (map (trim \<circ> text_or_null) vs)
      | JObj ps \<Rightarrow>
          (case (obj_get (js ''headers'') ps, obj_get (js ''header'') ps) of
             (Some (JArr vs), _) \<Rightarrow> filter (\<lambda>s. s \<noteq> []) (map (trim \<circ> text_or_null) vs)
           | (_, Some v) \<Rightarrow> filter (\<lambda>s. s \<noteq> []) [trim (text_or_null v)]
           | _ \<Rightarrow> [])
      | JStr s \<Rightarrow> filter (\<lambda>s. s \<noteq> []) (map trim (split_unit 44 s))
      | _ \<Rightarrow> [])"

section \<open>Checking and writing rules\<close>

definition buildConditionPayload :: "ParamOverrideCondition \<Rightarrow> json option" where
  "buildConditionPayload c =
     (if trim (pc_path c) = [] then None
      else Some (JObj ([(js ''path'', JStr (trim (pc_path c))),
          (js ''mode'', JStr (if pc_mode c \<noteq> [] then pc_mode c else js ''full'')),
          (js ''value'', parseLooseValue (pc_value_text c))]
        @ opt_member (pc_invert c) ''invert'' (JBool True)
        @ opt_member (pc_pass_missing_key c) ''pass_missing_key'' (JBool True))))"

text \<open>The translation of a message, with the number of the rule where it has one.\<close>

type_synonym translation = "jsstring \<Rightarrow> nat option \<Rightarrow> jsstring"

definition mode_of :: "ParamOverrideOperation \<Rightarrow> jsstring" where
  "mode_of op = (if po_mode op \<noteq> [] then po_mode op else js ''set'')"

text \<open>The message of the first check that a rule fails.\<close>

definition rule_problem :: "ParamOverrideOperation \<Rightarrow> jsstring option" where
  "rule_problem op =
     (let mode = mode_of op; meta = meta_of mode; pathValue = trim (po_path op);
          aliased = (pathAlias meta \<and> pathValue \<noteq> []); raw = trim (po_value_text op)
      in if needs_path meta \<and> pathValue = [] then Some (js ''Rule {{line}} is missing target path'')
         else if mode \<in> set FROM_REQUIRED_MODES \<and> trim (po_from op) = [] \<and> \<not> aliased
           then Some (js ''Rule {{line}} is missing source field'')
         else if mode \<in> set TO_REQUIRED_MODES \<and> trim (po_to op) = [] \<and> \<not> aliased
           then Some (js ''Rule {{line}} is missing target field'')
         else if mode \<in> set VALUE_REQUIRED_MODES \<and> raw = [] then Some (js ''Rule {{line}} is missing value'')
         else if mode = js ''return_error'' then
           (case json_parse raw of
              Some (JObj ps) \<Rightarrow>
                if trim (text_or_empty (member ''message'' (JObj ps))) = []
                then Some (js ''Rule {{line}} return_error requires a message field'') else None
            | _ \<Rightarrow> None)
         else if mode = js ''pass_headers'' then
           (if parsePassHeaderNames (parseLooseValue raw) = [] then Some (js ''Rule {{line}} pass_headers format is invalid'') else None)
         else None)"

fun validate_from :: "translation \<Rightarrow> nat \<Rightarrow> ParamOverrideOperation list \<Rightarrow> jsstring" where
  "validate_from t i [] = []"
| "validate_from t i (op # ops) =
     (case rule_problem op of Some m \<Rightarrow> t m (Some (i + 1)) | None \<Rightarrow> validate_from t (i + 1) ops)"

definition validateOperations :: "translation \<Rightarrow> ParamOverrideOperation list \<Rightarrow> jsstring" where
  "validateOperations t ops = validate_from t 0 ops"

text \<open>The members of a saved rule, in the order in which they are assigned.  Where an alias fills an
  empty source or target, the member keeps its place.\<close>

definition operation_payload :: "ParamOverrideOperation \<Rightarrow> json" where
  "operation_payload op =
     (let mode = mode_of op; meta = meta_of mode; descriptionValue = trim (po_description op); pathValue = trim (po_path op);
          aliased = (\<lambda>v. if pathAlias meta \<and> v = [] \<and> pathValue \<noteq> [] then pathValue else v);
          conditions = List.map_filter buildConditionPayload (po_conditions op)
      in JObj ([(js ''mode'', JStr mode)]
        @ opt_member (descriptionValue \<noteq> []) ''description'' (JStr descriptionValue)
        @ opt_member (needs_path meta \<or> pathOptional meta \<and> pathValue \<noteq> []) ''path'' (JStr pathValue)
        @ opt_member (has_value meta) ''value'' (parseLooseValue (po_value_text op))
        @ opt_member (keepOrigin meta \<and> po_keep_origin op) ''keep_origin'' (JBool True)
        @ opt_member (has_from meta) ''from'' (JStr (aliased (trim (po_from op))))
        @ opt_member (has_to meta \<or> trim (po_to op) \<noteq> []) ''to'' (JStr (aliased (trim (po_to op))))
        @ opt_member (conditions \<noteq> []) ''conditions'' (JArr conditions)
        @ opt_member (conditions \<noteq> []) ''logic'' (JStr (if po_logic op = js ''AND'' then js ''AND'' else js ''OR''))))"

definition buildOperationsJson :: "translation \<Rightarrow> bool \<Rightarrow> ParamOverrideOperation list \<Rightarrow> jsstring + jsstring" where
  "buildOperationsJson t validate sourceOperations =
     (let filteredOps = filter (\<lambda>op. \<not> isOperationBlank op) sourceOperations; message = validateOperations t filteredOps
      in if filteredOps = [] then Inr []
         else if validate \<and> message \<noteq> [] then Inl message
         else Inr (json_pretty (JObj [(js ''operations'', JArr (map operation_payload filteredOps))])))"

section \<open>Opening the editor\<close>

datatype edit_mode = EditVisual | EditJson

datatype visual_mode = VisualOperations | VisualLegacy

record EditorState =
  editMode :: edit_mode
  visualMode :: visual_mode
  legacyValue :: jsstring
  operations :: "ParamOverrideOperation list"
  jsonText :: jsstring
  jsonError :: jsstring

definition operations_or_default :: "clock \<Rightarrow> nat \<Rightarrow> json list \<Rightarrow> type_error + ParamOverrideOperation list" where
  "operations_or_default clock i vs =
     (if vs \<noteq> [] then normalize_operations clock i vs else Inr [createDefaultOperation clock i])"

definition parseInitialState :: "clock \<Rightarrow> nat \<Rightarrow> jsstring \<Rightarrow> type_error + EditorState" where
  "parseInitialState clock i rawValue =
     (let trimmed = trim rawValue;
          fresh = \<lparr>editMode = EditVisual, visualMode = VisualOperations, legacyValue = [],
            operations = [createDefaultOperation clock i], jsonText = [], jsonError = []\<rparr>
      in if trimmed = [] then Inr fresh
         else (case json_parse trimmed of
            None \<Rightarrow> Inr (fresh\<lparr>editMode := EditJson, jsonText := rawValue, jsonError := js ''Invalid JSON format''\<rparr>)
          | Some v \<Rightarrow>
              (case member ''operations'' v of
                 Some (JArr vs) \<Rightarrow>
                   map_sum id (\<lambda>ops. fresh\<lparr>operations := ops, jsonText := json_pretty v\<rparr>) (operations_or_default clock i vs)
               | _ \<Rightarrow>
                   (case v of
                      JObj _ \<Rightarrow> Inr (fresh\<lparr>visualMode := VisualLegacy, legacyValue := json_pretty v, jsonText := json_pretty v\<rparr>)
                    | _ \<Rightarrow> Inr (fresh\<lparr>editMode := EditJson, jsonText := json_pretty v\<rparr>)))))"

end
