(* ===== verification/Param_Override_Editor.thy ===== *)
theory Param_Override_Editor
  imports Param_Override
begin

text \<open>
  The state of the parameter override dialog and its callbacks
  (\<open>ParamOverrideEditorDialog\<close> in \<open>param-override-editor-dialog.tsx\<close>).  A callback is a function on the
  state; the effect that keeps the selection on a rule runs after every one of them.  \<open>seed\<close> is the
  counter of identifiers, \<open>clock\<close> the time of each call, \<open>t\<close> the translation.  The messages that are
  shown and the text that is handed to \<open>onSave\<close> are part of the state.
\<close>

section \<open>Templates\<close>

definition LEGACY_TEMPLATE :: json where
  "LEGACY_TEMPLATE = JObj [(js ''temperature'', JNum (num 0)), (js ''max_tokens'', JNum (num 1000))]"

definition condition_json :: "string \<Rightarrow> string \<Rightarrow> string \<Rightarrow> json" where
  "condition_json p m v = JObj [(js ''path'', JStr (js p)), (js ''mode'', JStr (js m)), (js ''value'', JStr (js v))]"

definition OPERATION_TEMPLATE :: json where
  "OPERATION_TEMPLATE = JObj [(js ''operations'', JArr [JObj
     [(js ''description'', JStr (js ''Set default temperature for openai/* models.'')), (js ''path'', JStr (js ''temperature'')),
      (js ''mode'', JStr (js ''set'')), (js ''value'', JNum (js_Number (js ''0.7''))),
      (js ''conditions'', JArr [condition_json ''model'' ''prefix'' ''openai/'']), (js ''logic'', JStr (js ''AND''))]])]"

definition HEADER_PASSTHROUGH_TEMPLATE :: json where
  "HEADER_PASSTHROUGH_TEMPLATE = JObj [(js ''operations'', JArr [JObj
     [(js ''description'', JStr (js ''Pass through X-Request-Id header to upstream.'')), (js ''mode'', JStr (js ''pass_headers'')),
      (js ''value'', JArr [JStr (js ''X-Request-Id'')]), (js ''keep_origin'', JBool True)]])]"

definition GEMINI_IMAGE_4K_TEMPLATE :: json where
  "GEMINI_IMAGE_4K_TEMPLATE = JObj [(js ''operations'', JArr [JObj
     [(js ''description'', JStr (js ''Set imageSize to 4K when model contains gemini/image and ends with 4k.'')),
      (js ''mode'', JStr (js ''set'')), (js ''path'', JStr (js ''generationConfig.imageConfig.imageSize'')),
      (js ''value'', JStr (js ''4K'')),
      (js ''conditions'', JArr [condition_json ''original_model'' ''contains'' ''gemini'',
         condition_json ''original_model'' ''contains'' ''image'', condition_json ''original_model'' ''suffix'' ''4k'']),
      (js ''logic'', JStr (js ''AND''))]])]"

definition CODEX_CLI_HEADER_PASSTHROUGH_HEADERS :: "jsstring list" where
  "CODEX_CLI_HEADER_PASSTHROUGH_HEADERS = map js
     [''Originator'', ''Session_id'', ''User-Agent'', ''X-Codex-Beta-Features'', ''X-Codex-Turn-Metadata'']"

definition CLAUDE_CLI_HEADER_PASSTHROUGH_HEADERS :: "jsstring list" where
  "CLAUDE_CLI_HEADER_PASSTHROUGH_HEADERS = map js
     [''X-Stainless-Arch'', ''X-Stainless-Lang'', ''X-Stainless-Os'', ''X-Stainless-Package-Version'', ''X-Stainless-Retry-Count'',
      ''X-Stainless-Runtime'', ''X-Stainless-Runtime-Version'', ''X-Stainless-Timeout'', ''User-Agent'', ''X-App'', ''Anthropic-Beta'',
      ''Anthropic-Dangerous-Direct-Browser-Access'', ''Anthropic-Version'']"

definition buildPassHeadersTemplate :: "jsstring list \<Rightarrow> json" where
  "buildPassHeadersTemplate headers = JObj [(js ''operations'', JArr [JObj
     [(js ''mode'', JStr (js ''pass_headers'')), (js ''value'', JArr (map JStr headers)), (js ''keep_origin'', JBool True)]])]"

definition beta_kept :: "string \<Rightarrow> jsstring \<times> json" where
  "beta_kept k = (js k, JStr (js k))"

definition beta_dropped :: "string \<Rightarrow> jsstring \<times> json" where
  "beta_dropped k = (js k, JNull)"

definition AWS_BEDROCK_ANTHROPIC_COMPAT_TEMPLATE :: json where
  "AWS_BEDROCK_ANTHROPIC_COMPAT_TEMPLATE = JObj [(js ''operations'', JArr
     [JObj [(js ''description'', JStr (js ''Normalize anthropic-beta header tokens for Bedrock compatibility.'')),
        (js ''mode'', JStr (js ''set_header'')), (js ''path'', JStr (js ''anthropic-beta'')),
        (js ''value'', JObj
          ([(js ''advanced-tool-use-2025-11-20'', JStr (js ''tool-search-tool-2025-10-19''))]
           @ map beta_dropped [''bash_20241022'', ''bash_20250124'', ''code-execution-2025-08-25'']
           @ map beta_kept [''compact-2026-01-12'', ''computer-use-2025-01-24'', ''computer-use-2025-11-24'', ''context-1m-2025-08-07'',
               ''context-management-2025-06-27'']
           @ map beta_dropped [''effort-2025-11-24'', ''fast-mode-2026-02-01'', ''files-api-2025-04-14'',
               ''fine-grained-tool-streaming-2025-05-14'']
           @ [beta_kept ''interleaved-thinking-2025-05-14'']
           @ map beta_dropped [''mcp-client-2025-11-20'', ''mcp-client-2025-04-04'', ''mcp-servers-2025-12-04'', ''output-128k-2025-02-19'',
               ''structured-output-2024-03-01'', ''prompt-caching-scope-2026-01-05'', ''skills-2025-10-02'', ''structured-outputs-2025-11-13'',
               ''text_editor_20241022'', ''text_editor_20250124'', ''token-efficient-tools-2025-02-19'']
           @ [beta_kept ''tool-search-tool-2025-10-19'']
           @ map beta_dropped [''web-fetch-2025-09-10'', ''web-search-2025-03-05'', ''oauth-2025-04-20'']))],
      JObj [(js ''description'', JStr (js ''Remove all tools[*].custom.input_examples before upstream relay.'')),
        (js ''mode'', JStr (js ''delete'')), (js ''path'', JStr (js ''tools.*.custom.input_examples''))]])]"

datatype template_kind = KindOperations | KindLegacy

definition TEMPLATE_PRESET_CONFIG :: "(jsstring \<times> template_kind \<times> json) list" where
  "TEMPLATE_PRESET_CONFIG =
     [(js ''operations_default'', KindOperations, OPERATION_TEMPLATE), (js ''legacy_default'', KindLegacy, LEGACY_TEMPLATE),
      (js ''pass_headers_auth'', KindOperations, HEADER_PASSTHROUGH_TEMPLATE),
      (js ''gemini_image_4k'', KindOperations, GEMINI_IMAGE_4K_TEMPLATE),
      (js ''claude_cli_headers_passthrough'', KindOperations, buildPassHeadersTemplate CLAUDE_CLI_HEADER_PASSTHROUGH_HEADERS),
      (js ''codex_cli_headers_passthrough'', KindOperations, buildPassHeadersTemplate CODEX_CLI_HEADER_PASSTHROUGH_HEADERS),
      (js ''aws_bedrock_anthropic_beta_override'', KindOperations, AWS_BEDROCK_ANTHROPIC_COMPAT_TEMPLATE)]"

section \<open>The state\<close>

record Dialog = EditorState +
  operationSearch :: jsstring
  selectedOperationId :: jsstring
  expandedConditions :: "jsstring \<Rightarrow> bool option"
  draggedOperationId :: jsstring
  dragOverOperationId :: jsstring
  dragOverPosition :: drop_position
  templatePresetKey :: jsstring
  seed :: nat
  toasts :: "jsstring list"
  saved :: "jsstring list"

definition first_id :: "ParamOverrideOperation list \<Rightarrow> jsstring" where
  "first_id ops = (case ops of [] \<Rightarrow> [] | op # _ \<Rightarrow> po_id op)"

definition ids_in :: "ParamOverrideOperation list \<Rightarrow> nat" where
  "ids_in ops = sum_list (map ids_used ops)"

text \<open>Opening the dialog on a value; a thrown error leaves it as it is.\<close>

definition open_dialog :: "clock \<Rightarrow> jsstring \<Rightarrow> Dialog \<Rightarrow> type_error + Dialog" where
  "open_dialog clock value d =
     map_sum id (\<lambda>s.
       d\<lparr>editMode := editMode s, visualMode := visualMode s, legacyValue := legacyValue s, operations := operations s,
         jsonText := jsonText s, jsonError := jsonError s, operationSearch := [], selectedOperationId := first_id (operations s),
         expandedConditions := (\<lambda>_. None), draggedOperationId := [], dragOverOperationId := [], dragOverPosition := Before,
         templatePresetKey := js (if visualMode s = VisualLegacy then ''legacy_default'' else ''operations_default''),
         seed := seed d + ids_in (operations s)\<rparr>)
       (parseInitialState clock (seed d) value)"

text \<open>The effect that keeps the selection valid.\<close>

definition keep_selected :: "Dialog \<Rightarrow> Dialog" where
  "keep_selected d =
     (if operations d = [] then d\<lparr>selectedOperationId := []\<rparr>
      else if selectedOperationId d \<in> po_id ` set (operations d) then d
      else d\<lparr>selectedOperationId := first_id (operations d)\<rparr>)"

section \<open>Rules\<close>

text \<open>A patch names the fields it changes; no widget passes an identifier.\<close>

record OperationPatch =
  np_description :: "jsstring option"
  np_path :: "jsstring option"
  np_mode :: "jsstring option"
  np_from :: "jsstring option"
  np_to :: "jsstring option"
  np_value_text :: "jsstring option"
  np_keep_origin :: "bool option"
  np_logic :: "jsstring option"

definition patched :: "'a option \<Rightarrow> 'a \<Rightarrow> 'a" where
  "patched p x = (case p of Some y \<Rightarrow> y | None \<Rightarrow> x)"

definition patch_operation :: "OperationPatch \<Rightarrow> ParamOverrideOperation \<Rightarrow> ParamOverrideOperation" where
  "patch_operation p op = op\<lparr>po_description := patched (np_description p) (po_description op), po_path := patched (np_path p) (po_path op),
     po_mode := patched (np_mode p) (po_mode op), po_from := patched (np_from p) (po_from op), po_to := patched (np_to p) (po_to op),
     po_value_text := patched (np_value_text p) (po_value_text op), po_keep_origin := patched (np_keep_origin p) (po_keep_origin op),
     po_logic := patched (np_logic p) (po_logic op)\<rparr>"

record ConditionPatch =
  cp_path :: "jsstring option"
  cp_mode :: "jsstring option"
  cp_value_text :: "jsstring option"
  cp_invert :: "bool option"
  cp_pass_missing_key :: "bool option"

definition patch_condition :: "ConditionPatch \<Rightarrow> ParamOverrideCondition \<Rightarrow> ParamOverrideCondition" where
  "patch_condition p c = c\<lparr>pc_path := patched (cp_path p) (pc_path c), pc_mode := patched (cp_mode p) (pc_mode c),
     pc_value_text := patched (cp_value_text p) (pc_value_text c), pc_invert := patched (cp_invert p) (pc_invert c),
     pc_pass_missing_key := patched (cp_pass_missing_key p) (pc_pass_missing_key c)\<rparr>"

definition map_operation ::
    "jsstring \<Rightarrow> (ParamOverrideOperation \<Rightarrow> ParamOverrideOperation) \<Rightarrow> ParamOverrideOperation list \<Rightarrow> ParamOverrideOperation list" where
  "map_operation i f ops = map (\<lambda>op. if po_id op = i then f op else op) ops"

definition updateOperation :: "jsstring \<Rightarrow> OperationPatch \<Rightarrow> Dialog \<Rightarrow> Dialog" where
  "updateOperation i p d = d\<lparr>operations := map_operation i (patch_operation p) (operations d)\<rparr>"

definition addOperation :: "clock \<Rightarrow> Dialog \<Rightarrow> Dialog" where
  "addOperation clock d =
     (let created = createDefaultOperation clock (seed d)
      in d\<lparr>operations := operations d @ [created], selectedOperationId := po_id created, seed := seed d + 1\<rparr>)"

text \<open>The copy of a rule is read from the values of its texts.\<close>

definition clone_condition :: "clock \<Rightarrow> nat \<Rightarrow> ParamOverrideCondition \<Rightarrow> ParamOverrideCondition" where
  "clone_condition clock i c = c\<lparr>pc_id := nextLocalId clock i,
     pc_mode := (if pc_mode c \<in> set CONDITION_MODE_VALUES then pc_mode c else js ''full''),
     pc_value_text := toValueText (Some (parseLooseValue (pc_value_text c)))\<rparr>"

fun clone_conditions :: "clock \<Rightarrow> nat \<Rightarrow> ParamOverrideCondition list \<Rightarrow> ParamOverrideCondition list" where
  "clone_conditions clock i [] = []"
| "clone_conditions clock i (c # cs) = clone_condition clock i c # clone_conditions clock (i + 1) cs"

definition clone_operation :: "clock \<Rightarrow> nat \<Rightarrow> ParamOverrideOperation \<Rightarrow> ParamOverrideOperation" where
  "clone_operation clock i op = op\<lparr>po_id := nextLocalId clock i,
     po_mode := (if po_mode op \<in> set OPERATION_MODE_VALUES then po_mode op else js ''set''),
     po_value_text := toValueText (Some (parseLooseValue (po_value_text op))),
     po_logic := (if toUpperCase (if po_logic op \<noteq> [] then po_logic op else js ''OR'') = js ''AND'' then js ''AND'' else js ''OR''),
     po_conditions := clone_conditions clock (i + 1) (po_conditions op)\<rparr>"

text \<open>The identifier of the copy is known to the callback only if React ran the update at once
  (\<open>known\<close>); otherwise the selection stays.\<close>

definition duplicateOperation :: "clock \<Rightarrow> bool \<Rightarrow> jsstring \<Rightarrow> Dialog \<Rightarrow> Dialog" where
  "duplicateOperation clock known i d =
     (case find_index (\<lambda>op. po_id op = i) (operations d) of
        None \<Rightarrow> d
      | Some idx \<Rightarrow>
          (let cloned = clone_operation clock (seed d) (operations d ! idx)
           in d\<lparr>operations := splice_in (idx + 1) cloned (operations d),
               selectedOperationId := (if known then po_id cloned else selectedOperationId d),
               seed := seed d + ids_used cloned\<rparr>))"

definition removeOperation :: "clock \<Rightarrow> jsstring \<Rightarrow> Dialog \<Rightarrow> Dialog" where
  "removeOperation clock i d =
     (if length (operations d) \<le> 1 then d\<lparr>operations := [createDefaultOperation clock (seed d)], seed := seed d + 1\<rparr>
      else d\<lparr>operations := filter (\<lambda>op. po_id op \<noteq> i) (operations d)\<rparr>)"

definition addCondition :: "clock \<Rightarrow> jsstring \<Rightarrow> Dialog \<Rightarrow> Dialog" where
  "addCondition clock i d =
     (let created = createDefaultCondition clock (seed d)
      in d\<lparr>operations := map_operation i (\<lambda>op. op\<lparr>po_conditions := po_conditions op @ [created]\<rparr>) (operations d),
          expandedConditions := (expandedConditions d)(pc_id created \<mapsto> True), seed := seed d + 1\<rparr>)"

definition updateCondition :: "jsstring \<Rightarrow> jsstring \<Rightarrow> ConditionPatch \<Rightarrow> Dialog \<Rightarrow> Dialog" where
  "updateCondition i c p d =
     d\<lparr>operations := map_operation i (\<lambda>op. op\<lparr>po_conditions :=
        map (\<lambda>x. if pc_id x = c then patch_condition p x else x) (po_conditions op)\<rparr>) (operations d)\<rparr>"

definition removeCondition :: "jsstring \<Rightarrow> jsstring \<Rightarrow> Dialog \<Rightarrow> Dialog" where
  "removeCondition i c d =
     d\<lparr>operations := map_operation i (\<lambda>op. op\<lparr>po_conditions := filter (\<lambda>x. pc_id x \<noteq> c) (po_conditions op)\<rparr>) (operations d)\<rparr>"

section \<open>Drafts of values\<close>

text \<open>The widgets of a custom error pass a changed draft.\<close>

definition updateReturnErrorDraft :: "jsstring \<Rightarrow> (ReturnErrorDraft \<Rightarrow> ReturnErrorDraft) \<Rightarrow> Dialog \<Rightarrow> Dialog" where
  "updateReturnErrorDraft i f d =
     d\<lparr>operations := map_operation i (\<lambda>op. op\<lparr>po_value_text :=
        buildReturnErrorValueText (f (parseReturnErrorDraft (po_value_text op)))\<rparr>) (operations d)\<rparr>"

text \<open>The draft of a pruning value is read again at every change, with new identifiers for its rules;
  every rule of the list takes those after the counter.\<close>

definition updatePruneObjectsDraft :: "clock \<Rightarrow> jsstring \<Rightarrow> (PruneObjectsDraft \<Rightarrow> PruneObjectsDraft) \<Rightarrow> Dialog \<Rightarrow> Dialog" where
  "updatePruneObjectsDraft clock i f d =
     (let rules = (\<lambda>op. length (pd_rules (parsePruneObjectsDraft clock (seed d) (po_value_text op))));
          used = sum_list (map rules (filter (\<lambda>op. po_id op = i) (operations d)))
      in d\<lparr>operations := map_operation i (\<lambda>op. op\<lparr>po_value_text :=
           buildPruneObjectsValueText (f (parsePruneObjectsDraft clock (seed d) (po_value_text op)))\<rparr>) (operations d),
          seed := seed d + used\<rparr>)"

definition addPruneRule :: "clock \<Rightarrow> jsstring \<Rightarrow> Dialog \<Rightarrow> Dialog" where
  "addPruneRule clock i d =
     (let d' = updatePruneObjectsDraft clock i (\<lambda>draft. draft\<lparr>pd_simpleMode := False,
          pd_rules := pd_rules draft @ [normalizePruneRule clock (seed d + length (pd_rules draft)) (JObj [])]\<rparr>) d
      in d'\<lparr>seed := seed d' + length (filter (\<lambda>op. po_id op = i) (operations d))\<rparr>)"

definition updatePruneRule :: "clock \<Rightarrow> jsstring \<Rightarrow> jsstring \<Rightarrow> ConditionPatch \<Rightarrow> Dialog \<Rightarrow> Dialog" where
  "updatePruneRule clock i ruleId p d =
     updatePruneObjectsDraft clock i (\<lambda>draft. draft\<lparr>pd_rules :=
       map (\<lambda>r. if pc_id r = ruleId then patch_condition p r else r) (pd_rules draft)\<rparr>) d"

definition removePruneRule :: "clock \<Rightarrow> jsstring \<Rightarrow> jsstring \<Rightarrow> Dialog \<Rightarrow> Dialog" where
  "removePruneRule clock i ruleId d =
     updatePruneObjectsDraft clock i (\<lambda>draft. draft\<lparr>pd_rules := filter (\<lambda>r. pc_id r \<noteq> ruleId) (pd_rules draft)\<rparr>) d"

text \<open>The draft that is shown is computed while rendering, after the initial value of the rules, which
  every rendering creates anew and only the first one uses.\<close>

definition selectedOperation :: "Dialog \<Rightarrow> ParamOverrideOperation option" where
  "selectedOperation d = find (\<lambda>op. po_id op = selectedOperationId d) (operations d)"

definition returnErrorDraft :: "Dialog \<Rightarrow> ReturnErrorDraft option" where
  "returnErrorDraft d =
     (case selectedOperation d of
        None \<Rightarrow> None
      | Some op \<Rightarrow> if po_mode op \<noteq> js ''return_error'' then None else Some (parseReturnErrorDraft (po_value_text op)))"

definition pruneObjectsDraft :: "clock \<Rightarrow> Dialog \<Rightarrow> PruneObjectsDraft option" where
  "pruneObjectsDraft clock d =
     (case selectedOperation d of
        None \<Rightarrow> None
      | Some op \<Rightarrow>
          if po_mode op \<noteq> js ''prune_objects'' then None
          else Some (parsePruneObjectsDraft clock (seed d + 1) (po_value_text op)))"

definition render :: "clock \<Rightarrow> Dialog \<Rightarrow> Dialog" where
  "render clock d =
     d\<lparr>seed := seed d + 1 + (case pruneObjectsDraft clock d of None \<Rightarrow> 0 | Some draft \<Rightarrow> length (pd_rules draft))\<rparr>"

section \<open>Dragging\<close>

definition resetDragState :: "Dialog \<Rightarrow> Dialog" where
  "resetDragState d = d\<lparr>draggedOperationId := [], dragOverOperationId := [], dragOverPosition := Before\<rparr>"

definition handleDragStart :: "jsstring \<Rightarrow> Dialog \<Rightarrow> Dialog" where
  "handleDragStart i d = d\<lparr>draggedOperationId := i, selectedOperationId := i\<rparr>"

definition handleDragOver :: "jsstring \<Rightarrow> drop_position \<Rightarrow> Dialog \<Rightarrow> Dialog" where
  "handleDragOver i position d =
     (if draggedOperationId d = [] \<or> draggedOperationId d = i then d
      else d\<lparr>dragOverOperationId := i, dragOverPosition := position\<rparr>)"

text \<open>\<open>data\<close> is the text of the transfer, which the browser keeps.\<close>

definition handleDrop :: "jsstring \<Rightarrow> jsstring \<Rightarrow> Dialog \<Rightarrow> Dialog" where
  "handleDrop data i d =
     (let sourceId = (if draggedOperationId d \<noteq> [] then draggedOperationId d else data);
          position = (if dragOverOperationId d = i then dragOverPosition d else Before)
      in resetDragState
           (if sourceId \<noteq> [] \<and> i \<noteq> [] \<and> sourceId \<noteq> i
            then d\<lparr>operations := reorderOperations (operations d) sourceId i position, selectedOperationId := sourceId\<rparr>
            else d))"

section \<open>Modes, templates and saving\<close>

definition buildVisualJson :: "translation \<Rightarrow> Dialog \<Rightarrow> jsstring + jsstring" where
  "buildVisualJson t d =
     (if visualMode d = VisualLegacy then
        (let trimmed = trim (legacyValue d)
         in if trimmed = [] then Inr []
            else (case json_parse trimmed of
               None \<Rightarrow> Inl (t (js ''Parameter override must be valid JSON format'') None)
             | Some (JObj ps) \<Rightarrow> Inr (json_pretty (JObj ps))
             | Some _ \<Rightarrow> Inl (t (js ''Legacy format must be a JSON object'') None)))
      else buildOperationsJson t True (operations d))"

definition unchecked_json :: "translation \<Rightarrow> Dialog \<Rightarrow> jsstring" where
  "unchecked_json t d =
     (if visualMode d = VisualLegacy then legacyValue d
      else (case buildOperationsJson t False (operations d) of Inl m \<Rightarrow> [] | Inr s \<Rightarrow> s))"

definition switchToJsonMode :: "translation \<Rightarrow> Dialog \<Rightarrow> Dialog" where
  "switchToJsonMode t d =
     (if editMode d = EditJson then d
      else (case buildVisualJson t d of
         Inr s \<Rightarrow> d\<lparr>jsonText := s, jsonError := [], editMode := EditJson\<rparr>
       | Inl m \<Rightarrow> d\<lparr>toasts := toasts d @ [m], jsonText := unchecked_json t d,
           jsonError := (if m \<noteq> [] then m else t (js ''Parameter configuration error'') None), editMode := EditJson\<rparr>))"

definition show_toast :: "jsstring \<Rightarrow> Dialog \<Rightarrow> Dialog" where
  "show_toast m d = d\<lparr>toasts := toasts d @ [m]\<rparr>"

text \<open>The operations that a mode or a template brings, with the first one selected.\<close>

definition show_operations :: "ParamOverrideOperation list \<Rightarrow> Dialog \<Rightarrow> Dialog" where
  "show_operations ops d = d\<lparr>visualMode := VisualOperations, operations := ops, selectedOperationId := first_id ops,
     legacyValue := [], jsonError := [], editMode := EditVisual, seed := seed d + ids_in ops\<rparr>"

definition switchToVisualMode :: "translation \<Rightarrow> clock \<Rightarrow> Dialog \<Rightarrow> type_error + Dialog" where
  "switchToVisualMode t clock d =
     (let trimmed = trim (jsonText d); fallback = createDefaultOperation clock (seed d)
      in if editMode d = EditVisual then Inr d
         else if trimmed = [] then Inr (show_operations [fallback] d)
         else (case json_parse trimmed of
            None \<Rightarrow> Inr (show_toast (t (js ''Parameter override must be valid JSON format'') None) d)
          | Some v \<Rightarrow>
              (case member ''operations'' v of
                 Some (JArr vs) \<Rightarrow>
                   map_sum id (\<lambda>ops. (show_operations ops d)\<lparr>templatePresetKey := js ''operations_default''\<rparr>)
                     (operations_or_default clock (seed d) vs)
               | _ \<Rightarrow>
                   (case v of
                      JObj _ \<Rightarrow> Inr ((show_operations [fallback] d)\<lparr>visualMode := VisualLegacy, legacyValue := json_pretty v,
                        templatePresetKey := js ''legacy_default''\<rparr>)
                    | _ \<Rightarrow> Inr (show_toast (t (js ''Parameter override must be a valid JSON object'') None) d)))))"

text \<open>The own members of a value that is spread into an object.\<close>

fun number_members :: "nat \<Rightarrow> json list \<Rightarrow> (jsstring \<times> json) list" where
  "number_members i [] = []"
| "number_members i (v # vs) = (show_nat i, v) # number_members (i + 1) vs"

definition spread_members :: "json \<Rightarrow> (jsstring \<times> json) list" where
  "spread_members v =
     (case v of
        JObj ps \<Rightarrow> obj_entries ps
      | JArr vs \<Rightarrow> number_members 0 vs
      | JStr s \<Rightarrow> number_members 0 (map (\<lambda>u. JStr [u]) s)
      | _ \<Rightarrow> [])"

definition spread_over :: "json \<Rightarrow> json \<Rightarrow> json" where
  "spread_over a b = JObj (foldl (\<lambda>ps (k, v). obj_put k v ps) [] (spread_members a @ spread_members b))"

definition show_legacy :: "clock \<Rightarrow> jsstring \<Rightarrow> Dialog \<Rightarrow> Dialog" where
  "show_legacy clock s d = d\<lparr>visualMode := VisualLegacy, legacyValue := s, operations := [createDefaultOperation clock (seed d)],
     jsonText := s, jsonError := [], editMode := EditVisual, seed := seed d + 1\<rparr>"

datatype fill_mode = Fill | Append

definition preset_of :: "jsstring \<Rightarrow> template_kind \<times> json" where
  "preset_of k = (case map_of TEMPLATE_PRESET_CONFIG k of Some p \<Rightarrow> p | None \<Rightarrow> (KindOperations, OPERATION_TEMPLATE))"

definition fillTemplate :: "translation \<Rightarrow> clock \<Rightarrow> fill_mode \<Rightarrow> Dialog \<Rightarrow> type_error + Dialog" where
  "fillTemplate t clock mode d =
     (case preset_of (templatePresetKey d) of
        (KindLegacy, payload) \<Rightarrow>
          (if mode = Append \<and> visualMode d = VisualLegacy then
             (let trimmed = trim (legacyValue d)
              in if trimmed = [] then Inr (show_legacy clock (json_pretty (spread_over payload (JObj []))) d)
                 else (case json_parse trimmed of
                    None \<Rightarrow> Inr (show_toast (t (js ''Current legacy JSON is invalid, cannot append'') None) d)
                  | Some v \<Rightarrow> Inr (show_legacy clock (json_pretty (spread_over payload v)) d)))
           else Inr (show_legacy clock (json_pretty payload) d))
      | (KindOperations, payload) \<Rightarrow>
          (let vs = (case member ''operations'' payload of Some (JArr vs) \<Rightarrow> vs | _ \<Rightarrow> [])
           in if mode = Append then
                map_sum id (\<lambda>appended.
                  let existing = (if visualMode d = VisualOperations then filter (\<lambda>op. \<not> isOperationBlank op) (operations d) else [])
                  in (show_operations (existing @ appended) d)\<lparr>jsonText := [], seed := seed d + ids_in appended\<rparr>)
                  (normalize_operations clock (seed d) vs)
              else
                map_sum id (\<lambda>ops. d\<lparr>visualMode := VisualOperations, operations := ops, selectedOperationId := first_id ops,
                    jsonText := json_pretty (JObj [(js ''operations'', JArr vs)]), jsonError := [], editMode := EditVisual,
                    seed := seed d + ids_in ops\<rparr>)
                  (operations_or_default clock (seed d) vs)))"

definition resetEditorState :: "clock \<Rightarrow> Dialog \<Rightarrow> Dialog" where
  "resetEditorState clock d =
     (show_operations [createDefaultOperation clock (seed d)] d)\<lparr>jsonText := [], templatePresetKey := js ''operations_default''\<rparr>"

definition handleJsonChange :: "translation \<Rightarrow> jsstring \<Rightarrow> Dialog \<Rightarrow> Dialog" where
  "handleJsonChange t nextValue d =
     d\<lparr>jsonText := nextValue,
       jsonError := (if trim nextValue = [] \<or> verifyJSON (trim nextValue) then [] else t (js ''JSON format error'') None)\<rparr>"

definition formatJson :: "translation \<Rightarrow> Dialog \<Rightarrow> Dialog" where
  "formatJson t d =
     (let trimmed = trim (jsonText d)
      in if trimmed = [] then d
         else (case json_parse trimmed of
            None \<Rightarrow> show_toast (t (js ''Parameter override must be valid JSON format'') None) d
          | Some v \<Rightarrow> d\<lparr>jsonText := json_pretty v, jsonError := []\<rparr>))"

definition save_text :: "translation \<Rightarrow> Dialog \<Rightarrow> jsstring + jsstring" where
  "save_text t d =
     (if editMode d = EditJson then
        (let trimmed = trim (jsonText d)
         in if trimmed = [] then Inr []
            else (case json_parse trimmed of
               None \<Rightarrow> Inl (t (js ''Parameter override must be valid JSON format'') None)
             | Some v \<Rightarrow> Inr (json_pretty v)))
      else buildVisualJson t d)"

definition handleSave :: "translation \<Rightarrow> Dialog \<Rightarrow> Dialog" where
  "handleSave t d =
     (case save_text t d of Inl m \<Rightarrow> show_toast m d | Inr s \<Rightarrow> d\<lparr>saved := saved d @ [s]\<rparr>)"

definition set_conditions_open :: "bool \<Rightarrow> Dialog \<Rightarrow> Dialog" where
  "set_conditions_open b d =
     (case selectedOperation d of
        None \<Rightarrow> d
      | Some op \<Rightarrow> d\<lparr>expandedConditions := (\<lambda>k. if k \<in> pc_id ` set (po_conditions op) then Some b else expandedConditions d k)\<rparr>)"

definition expandAllConditions :: "Dialog \<Rightarrow> Dialog" where
  "expandAllConditions d = set_conditions_open True d"

definition collapseAllConditions :: "Dialog \<Rightarrow> Dialog" where
  "collapseAllConditions d = set_conditions_open False d"

section \<open>What is shown\<close>

definition operationCount :: "Dialog \<Rightarrow> nat" where
  "operationCount d = length (filter (\<lambda>op. \<not> isOperationBlank op) (operations d))"

definition searchable_text :: "ParamOverrideOperation \<Rightarrow> jsstring" where
  "searchable_text op = toLowerCase (join (js '' '') (filter (\<lambda>s. s \<noteq> [])
     [po_description op, po_mode op, po_path op, po_from op, po_to op, po_value_text op]))"

fun count_mode :: "jsstring \<Rightarrow> (jsstring \<times> nat) list \<Rightarrow> (jsstring \<times> nat) list" where
  "count_mode m [] = [(m, 1)]"
| "count_mode m ((k, n) # cs) = (if m = k then (k, n + 1) # cs else (k, n) # count_mode m cs)"

definition topOperationModes :: "Dialog \<Rightarrow> (jsstring \<times> nat) list" where
  "topOperationModes d =
     (let counts = foldl (\<lambda>cs op. count_mode (if po_mode op \<noteq> [] then po_mode op else js ''set'') cs) [] (operations d)
      in take 4 (sort_key (\<lambda>(m, n). - int n) (obj_entries counts)))"

definition filteredOperations :: "Dialog \<Rightarrow> ParamOverrideOperation list" where
  "filteredOperations d =
     (let keyword = toLowerCase (trim (operationSearch d))
      in if keyword = [] then operations d else filter (\<lambda>op. includes_str (searchable_text op) keyword) (operations d))"

definition visualValidationError :: "translation \<Rightarrow> Dialog \<Rightarrow> jsstring" where
  "visualValidationError t d =
     (if editMode d \<noteq> EditVisual then []
      else (case buildVisualJson t d of Inr _ \<Rightarrow> [] | Inl m \<Rightarrow> if m \<noteq> [] then m else t (js ''Parameter configuration error'') None))"

section \<open>Runs of the dialog\<close>

text \<open>What can happen to the dialog: it is opened on a value, a widget calls a callback or a setter,
  or it is rendered.\<close>

datatype dialog_event =
    Open jsstring | Render | UpdateOperation jsstring OperationPatch | AddOperation
  | DuplicateOperation bool jsstring | RemoveOperation jsstring | AddCondition jsstring
  | UpdateCondition jsstring jsstring ConditionPatch | RemoveCondition jsstring jsstring
  | UpdateReturnError jsstring "ReturnErrorDraft \<Rightarrow> ReturnErrorDraft"
  | UpdatePruneObjects jsstring "PruneObjectsDraft \<Rightarrow> PruneObjectsDraft"
  | AddPruneRule jsstring | UpdatePruneRule jsstring jsstring ConditionPatch | RemovePruneRule jsstring jsstring
  | DragStart jsstring | DragOver jsstring drop_position | DropOn jsstring jsstring | DragEnd
  | ToJson | ToVisual | FillTemplate fill_mode | ResetEditor | JsonChange jsstring | FormatJson | Save
  | ExpandAll | CollapseAll | SetExpanded jsstring bool
  | SelectOperation jsstring | SetSearch jsstring | SetLegacyValue jsstring | SetPreset jsstring

fun handle :: "translation \<Rightarrow> clock \<Rightarrow> dialog_event \<Rightarrow> Dialog \<Rightarrow> type_error + Dialog" where
  "handle t clock (Open value) d = open_dialog clock value d"
| "handle t clock Render d = Inr (render clock d)"
| "handle t clock (UpdateOperation i p) d = Inr (updateOperation i p d)"
| "handle t clock AddOperation d = Inr (addOperation clock d)"
| "handle t clock (DuplicateOperation known i) d = Inr (duplicateOperation clock known i d)"
| "handle t clock (RemoveOperation i) d = Inr (removeOperation clock i d)"
| "handle t clock (AddCondition i) d = Inr (addCondition clock i d)"
| "handle t clock (UpdateCondition i c p) d = Inr (updateCondition i c p d)"
| "handle t clock (RemoveCondition i c) d = Inr (removeCondition i c d)"
| "handle t clock (UpdateReturnError i f) d = Inr (updateReturnErrorDraft i f d)"
| "handle t clock (UpdatePruneObjects i f) d = Inr (updatePruneObjectsDraft clock i f d)"
| "handle t clock (AddPruneRule i) d = Inr (addPruneRule clock i d)"
| "handle t clock (UpdatePruneRule i r p) d = Inr (updatePruneRule clock i r p d)"
| "handle t clock (RemovePruneRule i r) d = Inr (removePruneRule clock i r d)"
| "handle t clock (DragStart i) d = Inr (handleDragStart i d)"
| "handle t clock (DragOver i position) d = Inr (handleDragOver i position d)"
| "handle t clock (DropOn data i) d = Inr (handleDrop data i d)"
| "handle t clock DragEnd d = Inr (resetDragState d)"
| "handle t clock ToJson d = Inr (switchToJsonMode t d)"
| "handle t clock ToVisual d = switchToVisualMode t clock d"
| "handle t clock (FillTemplate mode) d = fillTemplate t clock mode d"
| "handle t clock ResetEditor d = Inr (resetEditorState clock d)"
| "handle t clock (JsonChange s) d = Inr (handleJsonChange t s d)"
| "handle t clock FormatJson d = Inr (formatJson t d)"
| "handle t clock Save d = Inr (handleSave t d)"
| "handle t clock ExpandAll d = Inr (expandAllConditions d)"
| "handle t clock CollapseAll d = Inr (collapseAllConditions d)"
| "handle t clock (SetExpanded c b) d = Inr (d\<lparr>expandedConditions := (expandedConditions d)(c \<mapsto> b)\<rparr>)"
| "handle t clock (SelectOperation i) d = Inr (d\<lparr>selectedOperationId := i\<rparr>)"
| "handle t clock (SetSearch s) d = Inr (d\<lparr>operationSearch := s\<rparr>)"
| "handle t clock (SetLegacyValue s) d = Inr (d\<lparr>legacyValue := s\<rparr>)"
| "handle t clock (SetPreset k) d = Inr (d\<lparr>templatePresetKey := (if k \<noteq> [] then k else js ''operations_default'')\<rparr>)"

definition closed_dialog :: "clock \<Rightarrow> Dialog" where
  "closed_dialog clock =
     \<lparr>editMode = EditVisual, visualMode = VisualOperations, legacyValue = [], operations = [createDefaultOperation clock 0],
      jsonText = [], jsonError = [], operationSearch = [], selectedOperationId = [], expandedConditions = (\<lambda>_. None),
      draggedOperationId = [], dragOverOperationId = [], dragOverPosition = Before, templatePresetKey = js ''operations_default'',
      seed = 1, toasts = [], saved = []\<rparr>"

text \<open>The effect on the selection follows every event.  A callback that throws changes nothing.\<close>

inductive reachable_dialog :: "translation \<Rightarrow> clock \<Rightarrow> Dialog \<Rightarrow> bool" for t clock where
  mounted: "reachable_dialog t clock (keep_selected (closed_dialog clock))"
| happens: "reachable_dialog t clock d \<Longrightarrow> handle t clock e d = Inr d' \<Longrightarrow> reachable_dialog t clock (keep_selected d')"

end
