(* ===== verification/Param_Override_Dialog.thy ===== *)
theory Param_Override_Dialog
  imports Param_Override_Editor
begin

text \<open>
  Identifiers of the rules and conditions of the parameter override dialog: whatever is done in the
  dialog, they stay distinct, there is a rule, and the selection is one of the rules.
\<close>

section \<open>A source of identifiers\<close>

lemma distinct_submset:
  assumes "distinct xs" "mset ys \<subseteq># mset xs"
  shows "distinct ys"
proof -
  have "count (mset ys) a = (if a \<in> set ys then 1 else 0)" for a
  proof -
    have "count (mset ys) a \<le> count (mset xs) a" using assms(2) by (simp add: mset_subset_eq_count)
    also have "\<dots> \<le> 1" using assms(1) by (simp add: distinct_count_atmost_1)
    finally have "count (mset ys) a \<le> 1" .
    moreover have "1 \<le> count (mset ys) a" if "a \<in> set ys" using that count_greater_eq_one_iff [of "mset ys" a] by simp
    ultimately show ?thesis by (cases "a \<in> set ys") (simp_all add: order_antisym)
  qed
  then show ?thesis by (simp add: distinct_count_atmost_1)
qed

locale id_source =
  fixes next_id :: "nat \<Rightarrow> 'a"
  assumes next_id_inj: "next_id i = next_id j \<Longrightarrow> i = j"
begin

definition taken :: "nat \<Rightarrow> 'a list \<Rightarrow> bool" where
  "taken s xs \<longleftrightarrow> distinct xs \<and> set xs \<subseteq> next_id ` {..<s}"

lemma fresh: "s \<le> i \<Longrightarrow> next_id i \<notin> next_id ` {..<s}"
  using next_id_inj by force

lemma block: "distinct (map next_id [i..<j])"
  using next_id_inj by (auto simp: distinct_map inj_on_def)

text \<open>Elements are dropped, moved or added with new identifiers.\<close>

lemma taken_step:
  assumes "taken s xs" "s \<le> i" "j \<le> s'" "s \<le> s'" "mset ys \<subseteq># mset xs + mset (map next_id [i..<j])"
  shows "taken s' ys"
proof -
  have "set xs \<inter> set (map next_id [i..<j]) = {}"
    using assms(1,2) fresh by (fastforce simp: taken_def)
  then have "distinct (xs @ map next_id [i..<j])" using assms(1) block by (simp add: taken_def)
  moreover have sub: "mset ys \<subseteq># mset (xs @ map next_id [i..<j])" using assms(5) by simp
  ultimately have "distinct ys" by (rule distinct_submset)
  moreover have "set ys \<subseteq> set xs \<union> next_id ` {i..<j}"
    using set_mset_mono [OF sub] by auto
  then have "set ys \<subseteq> next_id ` {..<s'}"
    using assms(1,3,4) by (force simp: taken_def)
  ultimately show ?thesis by (simp add: taken_def)
qed

lemmas taken_kept = taken_step [OF _ order_refl order_refl, of _ _ 0]

end

lemma nextLocalId_inj: "nextLocalId clock i = nextLocalId clock j \<Longrightarrow> i = j"
proof -
  assume "nextLocalId clock i = nextLocalId clock j"
  then have e: "show_nat (clock i) @ 95 # show_nat i = show_nat (clock j) @ 95 # show_nat j" by (simp add: nextLocalId_def)
  have n: "u \<in> set (show_nat k) \<Longrightarrow> u \<noteq> 95" for u k using show_nat_digits [of k] by (auto simp: is_digit_def)
  have "show_nat i = show_nat j"
    using arg_cong [OF e, of "\<lambda>s. tl (dropWhile (\<lambda>u. u \<noteq> 95) s)"] n by (simp add: dropWhile_append2)
  then show "i = j" using read_show_nat by metis
qed

interpretation ids: id_source "nextLocalId clock" for clock
  by unfold_locales (rule nextLocalId_inj)

section \<open>Identifiers of rules\<close>

definition operation_ids :: "ParamOverrideOperation \<Rightarrow> jsstring list" where
  "operation_ids op = po_id op # map pc_id (po_conditions op)"

definition all_ids :: "ParamOverrideOperation list \<Rightarrow> jsstring list" where
  "all_ids ops = concat (map operation_ids ops)"

lemma all_ids_simps [simp]:
  "all_ids [] = []" "all_ids (op # ops) = operation_ids op @ all_ids ops" "all_ids (xs @ ys) = all_ids xs @ all_ids ys"
  by (simp_all add: all_ids_def)

lemma mset_all_ids: "mset (all_ids ops) = sum_list (map (mset \<circ> operation_ids) ops)"
  by (induction ops) simp_all


lemma map_sum_Inr_iff: "map_sum f g r = Inr y \<longleftrightarrow> (\<exists>x. r = Inr x \<and> y = g x)"
  by (cases r) auto

text \<open>New rules take the next identifiers in order.\<close>

lemma normalize_conditions_ids:
  "normalize_conditions clock i vs = Inr cs \<Longrightarrow> map pc_id cs = map (nextLocalId clock) [i..<i + length cs]"
proof (induction vs arbitrary: i cs)
  case (Cons v vs)
  then obtain c' where c: "v \<noteq> JNull" "normalize_conditions clock (i + 1) vs = Inr c'" "cs = normalizeParamCondition clock i v # c'"
    by (auto simp: map_sum_Inr_iff split: if_splits)
  from Cons.IH [OF c(2)] c(3) show ?case by (simp add: normalizeParamCondition_def upt_conv_Cons del: upt_Suc)
qed simp

lemma normalizeOperation_ids:
  assumes "normalizeOperation clock i v = Inr op"
  shows "operation_ids op = map (nextLocalId clock) [i..<i + ids_used op]"
proof -
  have "po_id op = nextLocalId clock i \<and> map pc_id (po_conditions op) = map (nextLocalId clock) [i + 1..<i + 1 + length (po_conditions op)]"
    using assms normalize_conditions_ids [of clock "i + 1"]
    by (auto simp: normalizeOperation_def map_sum_Inr_iff simp del: upt_Suc split: if_splits option.splits json.splits)
  then show ?thesis by (simp add: operation_ids_def ids_used_def upt_conv_Cons del: upt_Suc)
qed

lemma normalize_operations_ids:
  "normalize_operations clock i vs = Inr ops \<Longrightarrow> all_ids ops = map (nextLocalId clock) [i..<i + ids_in ops] \<and> length ops = length vs"
proof (induction vs arbitrary: i ops)
  case (Cons v vs)
  then obtain op ops' where o: "normalizeOperation clock i v = Inr op" "normalize_operations clock (i + ids_used op) vs = Inr ops'" "ops = op # ops'"
    by (auto simp: bind_sum_Inr map_sum_Inr_iff)
  have "map (nextLocalId clock) [i..<i + ids_in ops]
      = map (nextLocalId clock) [i..<i + ids_used op] @ map (nextLocalId clock) [i + ids_used op..<i + ids_used op + ids_in ops']"
    using upt_add_eq_append [of i "i + ids_used op" "ids_in ops'"] by (simp add: o(3) ids_in_def add.assoc del: upt_Suc)
  then show ?case using normalizeOperation_ids [OF o(1)] Cons.IH [OF o(2)] o(3) by simp
qed (simp add: ids_in_def)

lemma default_ids: "operation_ids (createDefaultOperation clock i) = [nextLocalId clock i]" "ids_used (createDefaultOperation clock i) = 1"
  by (simp_all add: createDefaultOperation_def operation_ids_def ids_used_def)

lemma operations_or_default_ids:
  "operations_or_default clock i vs = Inr ops \<Longrightarrow> all_ids ops = map (nextLocalId clock) [i..<i + ids_in ops] \<and> ops \<noteq> []"
proof (cases "vs = []")
  case True
  assume "operations_or_default clock i vs = Inr ops"
  then have "ops = [createDefaultOperation clock i]" using True by (simp add: operations_or_default_def)
  then show ?thesis by (simp add: ids_in_def default_ids)
next
  case False
  assume "operations_or_default clock i vs = Inr ops"
  then have "normalize_operations clock i vs = Inr ops" using False by (simp add: operations_or_default_def)
  from normalize_operations_ids [OF this] False show ?thesis by auto
qed

lemma clone_operation_ids: "operation_ids (clone_operation clock i op) = map (nextLocalId clock) [i..<i + ids_used (clone_operation clock i op)]"
proof -
  have c: "map pc_id (clone_conditions clock j cs) = map (nextLocalId clock) [j..<j + length cs]" "length (clone_conditions clock j cs) = length cs" for j cs
    by (induction cs arbitrary: j) (simp_all add: clone_condition_def upt_conv_Cons del: upt_Suc)
  show ?thesis by (simp add: clone_operation_def operation_ids_def ids_used_def c upt_conv_Cons del: upt_Suc)
qed

section \<open>What an event does to the identifiers\<close>

definition all_kept :: "clock \<Rightarrow> Dialog \<Rightarrow> Dialog \<Rightarrow> bool" where
  "all_kept clock d d' \<longleftrightarrow> operations d' \<noteq> [] \<and> seed d \<le> seed d' \<and>
     mset (all_ids (operations d')) \<subseteq># mset (all_ids (operations d)) + mset (map (nextLocalId clock) [seed d..<seed d'])"

definition good_dialog :: "clock \<Rightarrow> Dialog \<Rightarrow> bool" where
  "good_dialog clock d \<longleftrightarrow> operations d \<noteq> [] \<and> distinct (all_ids (operations d)) \<and>
     set (all_ids (operations d)) \<subseteq> nextLocalId clock ` {..<seed d}"

lemma good_dialog_taken: "good_dialog clock d \<longleftrightarrow> operations d \<noteq> [] \<and> ids.taken clock (seed d) (all_ids (operations d))"
  by (simp add: good_dialog_def ids.taken_def)

lemma good_kept: "good_dialog clock d \<Longrightarrow> all_kept clock d d' \<Longrightarrow> good_dialog clock d'"
  using ids.taken_step [of clock "seed d" "all_ids (operations d)" "seed d" "seed d'" "seed d'"]
  by (auto simp: good_dialog_taken all_kept_def)

lemma all_kept_same:
  "operations d \<noteq> [] \<Longrightarrow> operations d' = operations d \<Longrightarrow> seed d \<le> seed d' \<Longrightarrow> all_kept clock d d'"
  by (simp add: all_kept_def)

lemma all_kept_sub:
  "operations d' \<noteq> [] \<Longrightarrow> seed d \<le> seed d' \<Longrightarrow> mset (all_ids (operations d')) \<subseteq># mset (all_ids (operations d)) \<Longrightarrow> all_kept clock d d'"
  by (metis all_kept_def mset_subset_eq_add_left subset_mset.order_trans)

text \<open>The rules are replaced by new ones, or some are kept and new ones added.\<close>

lemma all_kept_new:
  assumes "operations d' \<noteq> []" "all_ids (operations d') = map (nextLocalId clock) [seed d..<seed d + n]" "seed d' = seed d + n"
  shows "all_kept clock d d'"
  using assms by (simp add: all_kept_def)

lemma all_kept_added:
  assumes "operations d' \<noteq> []" "seed d' = seed d + n" "mset old \<subseteq># mset (all_ids (operations d))"
    "mset (all_ids (operations d')) = mset old + mset (map (nextLocalId clock) [seed d..<seed d + n])"
  shows "all_kept clock d d'"
  using assms by (simp add: all_kept_def)

lemma all_ids_mset: "mset (all_ids ops) = \<Sum>\<^sub># (image_mset (mset \<circ> operation_ids) (mset ops))"
  by (induction ops) simp_all

lemma all_ids_perm: "mset xs = mset ys \<Longrightarrow> mset (all_ids xs) = mset (all_ids ys)"
  by (simp add: all_ids_mset)

lemma all_ids_filter: "mset (all_ids (filter P ops)) \<subseteq># mset (all_ids ops)"
  by (induction ops) (auto intro: subset_mset.add_mono subset_mset.add_increasing)

lemma operation_names: "mset (map po_id ops) \<subseteq># mset (all_ids ops)"
  by (induction ops) (auto simp: operation_ids_def intro: subset_mset.add_increasing)

lemma distinct_names: "distinct (all_ids ops) \<Longrightarrow> distinct (map po_id ops)"
  using distinct_submset operation_names by blast

text \<open>Changing one rule.\<close>

lemma map_operation_Nil [simp]: "map_operation i f ops = [] \<longleftrightarrow> ops = []"
  by (simp add: map_operation_def)

lemma map_operation_same:
  "(\<And>op. operation_ids (f op) = operation_ids op) \<Longrightarrow> all_ids (map_operation i f ops) = all_ids ops"
  by (induction ops) (simp_all add: map_operation_def)

lemma map_operation_sub:
  "(\<And>op. mset (operation_ids (f op)) \<subseteq># mset (operation_ids op)) \<Longrightarrow> mset (all_ids (map_operation i f ops)) \<subseteq># mset (all_ids ops)"
  by (induction ops) (auto simp: map_operation_def intro: subset_mset.add_mono)

lemma map_operation_absent: "i \<notin> po_id ` set ops \<Longrightarrow> map_operation i f ops = ops"
  by (induction ops) (auto simp: map_operation_def)

lemma map_operation_added:
  assumes "\<And>op. mset (operation_ids (f op)) = mset (operation_ids op) + M"
  shows "distinct (map po_id ops) \<Longrightarrow> mset (all_ids (map_operation i f ops)) \<subseteq># mset (all_ids ops) + M"
proof (induction ops)
  case (Cons op ops)
  show ?case
  proof (cases "po_id op = i")
    case True
    then have "map_operation i f ops = ops" using Cons.prems by (intro map_operation_absent) auto
    then show ?thesis using True assms by (simp add: map_operation_def)
  next
    case False
    then show ?thesis using Cons by (simp add: map_operation_def)
  qed
qed (simp add: map_operation_def)

lemma operation_ids_update [simp]:
  "operation_ids (op\<lparr>po_value_text := v\<rparr>) = operation_ids op" "operation_ids (patch_operation p op) = operation_ids op"
  by (simp_all add: operation_ids_def patch_operation_def)

lemma operation_ids_patch_condition [simp]:
  "operation_ids (op\<lparr>po_conditions := map (\<lambda>x. if pc_id x = c then patch_condition p x else x) (po_conditions op)\<rparr>) = operation_ids op"
  by (simp add: operation_ids_def patch_condition_def)

lemma reorder_perm: "mset (reorderOperations ops s t position) = mset ops"
  by (auto simp: reorderOperations_def Let_def mset_splice_in mset_splice_out dest!: find_index_Some split: option.splits)

section \<open>Events\<close>

lemma kept_new_rules:
  assumes "good_dialog clock d"
  shows "all_kept clock d (addOperation clock d)" "all_kept clock d (duplicateOperation clock known i d)"
    "all_kept clock d (removeOperation clock i d)" "all_kept clock d (resetEditorState clock d)"
proof -
  have ne: "operations d \<noteq> []" using assms by (simp add: good_dialog_def)
  show "all_kept clock d (addOperation clock d)"
    by (rule all_kept_added [where n = 1 and old = "all_ids (operations d)"]) (simp_all add: addOperation_def Let_def default_ids)
  show "all_kept clock d (duplicateOperation clock known i d)"
  proof (cases "find_index (\<lambda>op. po_id op = i) (operations d)")
    case None
    then show ?thesis using ne by (simp add: duplicateOperation_def all_kept_same)
  next
    case (Some idx)
    let ?c = "clone_operation clock (seed d) (operations d ! idx)"
    have "mset (all_ids (splice_in (idx + 1) ?c (operations d))) = mset (all_ids (operations d)) + mset (operation_ids ?c)"
      using all_ids_perm [of "splice_in (idx + 1) ?c (operations d)" "?c # operations d"] by (simp add: mset_splice_in add.commute)
    then show ?thesis using Some
      by (intro all_kept_added [where n = "ids_used ?c" and old = "all_ids (operations d)"])
        (simp_all add: duplicateOperation_def Let_def clone_operation_ids splice_in_def)
  qed
  show "all_kept clock d (removeOperation clock i d)"
  proof (cases "length (operations d) \<le> 1")
    case True
    then show ?thesis by (intro all_kept_new [where n = 1]) (simp_all add: removeOperation_def default_ids)
  next
    case False
    have "filter (\<lambda>op. po_id op \<noteq> i) (operations d) \<noteq> []"
    proof
      assume "filter (\<lambda>op. po_id op \<noteq> i) (operations d) = []"
      then have "set (map po_id (operations d)) \<subseteq> {i}" by (auto simp: filter_empty_conv)
      then have "card (set (map po_id (operations d))) \<le> 1" using card_mono [of "{i}"] by fastforce
      moreover have "distinct (map po_id (operations d))" using assms distinct_names by (simp add: good_dialog_def)
      ultimately show False using False distinct_card by fastforce
    qed
    then show ?thesis using False by (intro all_kept_sub) (simp_all add: removeOperation_def all_ids_filter)
  qed
  show "all_kept clock d (resetEditorState clock d)"
    by (rule all_kept_new [where n = 1]) (simp_all add: resetEditorState_def show_operations_def default_ids ids_in_def)
qed

lemma kept_conditions:
  assumes "good_dialog clock d"
  shows "all_kept clock d (addCondition clock i d)" "all_kept clock d (updateCondition i c p d)" "all_kept clock d (removeCondition i c d)"
proof -
  have ne: "operations d \<noteq> []" "distinct (map po_id (operations d))" using assms distinct_names by (simp_all add: good_dialog_def)
  let ?new = "createDefaultCondition clock (seed d)"
  have "mset (operation_ids (op\<lparr>po_conditions := po_conditions op @ [?new]\<rparr>)) = mset (operation_ids op) + {#nextLocalId clock (seed d)#}" for op
    by (simp add: operation_ids_def createDefaultCondition_def normalizeParamCondition_def)
  from map_operation_added [OF this ne(2), of i] show "all_kept clock d (addCondition clock i d)"
    using ne by (simp add: all_kept_def addCondition_def Let_def)
  show "all_kept clock d (updateCondition i c p d)"
    using ne(1) by (intro all_kept_sub) (simp_all add: updateCondition_def map_operation_same)
  have "mset (operation_ids (op\<lparr>po_conditions := filter (\<lambda>x. pc_id x \<noteq> c) (po_conditions op)\<rparr>)) \<subseteq># mset (operation_ids op)" for op
    by (simp add: operation_ids_def image_mset_subseteq_mono)
  from map_operation_sub [OF this] ne(1) show "all_kept clock d (removeCondition i c d)"
    by (intro all_kept_sub) (simp_all add: removeCondition_def)
qed

lemma kept_values:
  assumes "operations d \<noteq> []"
  shows "all_kept clock d (updateOperation i p d)" "all_kept clock d (updateReturnErrorDraft i e d)"
    "all_kept clock d (updatePruneObjectsDraft clock i f d)" "all_kept clock d (addPruneRule clock i d)"
    "all_kept clock d (updatePruneRule clock i r q d)" "all_kept clock d (removePruneRule clock i r d)"
  using assms
  by (auto intro!: all_kept_sub simp: updateOperation_def updateReturnErrorDraft_def updatePruneObjectsDraft_def addPruneRule_def
      updatePruneRule_def removePruneRule_def Let_def map_operation_same)

lemma kept_view:
  assumes "operations d \<noteq> []"
  shows "all_kept clock d (render clock d)" "all_kept clock d (handleDragStart i d)" "all_kept clock d (handleDragOver i position d)"
    "all_kept clock d (resetDragState d)" "all_kept clock d (switchToJsonMode t d)" "all_kept clock d (handleJsonChange t s d)"
    "all_kept clock d (formatJson t d)" "all_kept clock d (handleSave t d)" "all_kept clock d (set_conditions_open b d)"
  using assms
  by (auto intro!: all_kept_same simp: render_def handleDragStart_def handleDragOver_def resetDragState_def switchToJsonMode_def
      handleJsonChange_def formatJson_def handleSave_def show_toast_def set_conditions_open_def Let_def split: sum.splits option.splits)

lemma kept_drop: "operations d \<noteq> [] \<Longrightarrow> all_kept clock d (handleDrop data i d)"
proof -
  assume ne: "operations d \<noteq> []"
  have "reorderOperations (operations d) s i position \<noteq> []" for s position
    using reorder_perm [of "operations d" s i position] ne by auto
  then show ?thesis using ne reorder_perm [THEN all_ids_perm]
    by (intro all_kept_sub) (simp_all add: handleDrop_def Let_def resetDragState_def)
qed

lemma kept_read:
  assumes "operations_or_default clock (seed d) vs = Inr ops" "operations d' = ops" "seed d' = seed d + ids_in ops"
  shows "all_kept clock d d'"
  using operations_or_default_ids [OF assms(1)] assms(2,3) by (intro all_kept_new [where n = "ids_in ops"]) simp_all

lemma kept_default:
  assumes "operations d' = [createDefaultOperation clock (seed d)]" "seed d' = seed d + 1"
  shows "all_kept clock d d'"
  using assms by (intro all_kept_new [where n = 1]) (simp_all add: default_ids)

lemma ids_in_default [simp]: "ids_in [createDefaultOperation clock i] = 1"
  by (simp add: ids_in_def default_ids)

lemma initial_operations:
  assumes "parseInitialState clock i value = Inr s"
  shows "\<exists>vs. operations_or_default clock i vs = Inr (operations s)"
proof -
  have "operations_or_default clock i [] = Inr [createDefaultOperation clock i]" by (simp add: operations_or_default_def)
  then show ?thesis using assms
    by (auto simp: parseInitialState_def Let_def map_sum_Inr_iff split: if_splits option.splits json.splits)
qed

lemma kept_open: "open_dialog clock value d = Inr d' \<Longrightarrow> all_kept clock d d'"
  using initial_operations kept_read by (fastforce simp: open_dialog_def map_sum_Inr_iff)

lemma kept_visual:
  assumes "switchToVisualMode t clock d = Inr d'" "operations d \<noteq> []"
  shows "all_kept clock d d'"
proof -
  have "operations d' = [createDefaultOperation clock (seed d)] \<and> seed d' = seed d + 1
      \<or> (\<exists>vs ops. operations_or_default clock (seed d) vs = Inr ops \<and> operations d' = ops \<and> seed d' = seed d + ids_in ops)
      \<or> operations d' = operations d \<and> seed d' = seed d"
    using assms(1)
    by (auto simp: switchToVisualMode_def show_operations_def show_toast_def Let_def map_sum_Inr_iff
        split: if_splits option.splits json.splits)
  then show ?thesis using kept_default kept_read all_kept_same [OF assms(2)] by fastforce
qed

lemmas template_defs = OPERATION_TEMPLATE_def HEADER_PASSTHROUGH_TEMPLATE_def GEMINI_IMAGE_4K_TEMPLATE_def
  buildPassHeadersTemplate_def AWS_BEDROCK_ANTHROPIC_COMPAT_TEMPLATE_def

lemma preset_operations:
  assumes "preset_of k = (KindOperations, payload)"
  shows "\<exists>v vs. member ''operations'' payload = Some (JArr (v # vs))"
proof -
  let ?ok = "\<lambda>payload. \<exists>v vs. member ''operations'' payload = Some (JArr (v # vs))"
  have "list_all (\<lambda>(_, k, payload). k = KindLegacy \<or> ?ok payload) TEMPLATE_PRESET_CONFIG" "?ok OPERATION_TEMPLATE"
    by (simp_all add: TEMPLATE_PRESET_CONFIG_def member_def obj_get_def template_defs)
  then show ?thesis using assms
    by (fastforce simp: preset_of_def list_all_iff split: option.splits dest: map_of_SomeD)
qed

lemma kept_template:
  assumes "fillTemplate t clock mode d = Inr d'" "operations d \<noteq> []"
  shows "all_kept clock d d'"
proof (cases "preset_of (templatePresetKey d)")
  case (Pair k payload)
  show ?thesis
  proof (cases k)
    case KindLegacy
    then have "operations d' = [createDefaultOperation clock (seed d)] \<and> seed d' = seed d + 1 \<or> operations d' = operations d \<and> seed d' = seed d"
      using assms(1) Pair by (auto simp: fillTemplate_def show_legacy_def show_toast_def Let_def split: if_splits option.splits)
    then show ?thesis using kept_default all_kept_same [OF assms(2)] by fastforce
  next
    case KindOperations
    with Pair obtain v vs where vs: "member ''operations'' payload = Some (JArr (v # vs))" using preset_operations by blast
    show ?thesis
    proof (cases mode)
      case Fill
      then have "\<exists>ops. operations_or_default clock (seed d) (v # vs) = Inr ops \<and> operations d' = ops \<and> seed d' = seed d + ids_in ops"
        using assms(1) Pair KindOperations vs by (auto simp: fillTemplate_def Let_def map_sum_Inr_iff)
      then show ?thesis using kept_read by blast
    next
      case Append
      define old where "old = (if visualMode d = VisualOperations then filter (\<lambda>op. \<not> isOperationBlank op) (operations d) else [])"
      obtain ops where ops: "normalize_operations clock (seed d) (v # vs) = Inr ops" "operations d' = old @ ops" "seed d' = seed d + ids_in ops"
        using assms(1) Pair KindOperations vs Append
        by (auto simp: fillTemplate_def show_operations_def Let_def map_sum_Inr_iff old_def simp del: normalize_operations.simps)
      have "mset (all_ids old) \<subseteq># mset (all_ids (operations d))" by (simp add: old_def all_ids_filter)
      moreover have "ops \<noteq> []" "all_ids ops = map (nextLocalId clock) [seed d..<seed d + ids_in ops]"
        using normalize_operations_ids [OF ops(1)] by auto
      ultimately show ?thesis using ops by (intro all_kept_added [where n = "ids_in ops" and old = "all_ids old"]) simp_all
    qed
  qed
qed

lemma handle_kept:
  assumes "good_dialog clock d" "handle t clock e d = Inr d'"
  shows "all_kept clock d d'"
proof -
  have ne: "operations d \<noteq> []" using assms(1) by (simp add: good_dialog_def)
  note same = all_kept_same [OF ne]
  show ?thesis using assms(2)
    by (cases e) (auto simp: expandAllConditions_def collapseAllConditions_def kept_open kept_visual [OF _ ne] kept_template [OF _ ne]
      kept_drop [OF ne] kept_new_rules [OF assms(1)] kept_conditions [OF assms(1)] kept_values [OF ne] kept_view [OF ne] same)
qed

section \<open>The invariant\<close>

lemma keep_selected_simps [simp]: "operations (keep_selected d) = operations d" "seed (keep_selected d) = seed d"
  by (simp_all add: keep_selected_def)

lemma keep_selected_valid: "operations d \<noteq> [] \<Longrightarrow> selectedOperationId (keep_selected d) \<in> po_id ` set (operations d)"
  by (auto simp: keep_selected_def first_id_def split: list.splits)

lemma reachable_good: "reachable_dialog t clock d \<Longrightarrow> good_dialog clock d \<and> selectedOperationId d \<in> po_id ` set (operations d)"
proof (induction rule: reachable_dialog.induct)
  case mounted
  then show ?case using keep_selected_valid [of "closed_dialog clock"] by (simp add: good_dialog_def closed_dialog_def default_ids lessThan_Suc)
next
  case (happens d e d')
  then have "good_dialog clock d'" using handle_kept good_kept by blast
  then show ?case using keep_selected_valid [of d'] by (simp add: good_dialog_def)
qed

text \<open>C5: Whatever is done in the override dialog (the value it is opened on, rules and conditions added,
  copied, removed, edited or dragged, templates filled in, modes switched, in any order), it has a
  rule, the identifiers of all rules and conditions are distinct, and the selection is one of the
  rules, so every callback addresses exactly the rule or condition it was called for.\<close>

theorem dialog_invariant:
  assumes "reachable_dialog t clock d"
  shows "operations d \<noteq> [] \<and> distinct (all_ids (operations d)) \<and> selectedOperationId d \<in> po_id ` set (operations d)"
  using reachable_good [OF assms] by (simp add: good_dialog_def)

definition added_dialog :: Dialog where
  "added_dialog = keep_selected (addCondition (\<lambda>i. i) (js ''po_1_1'') (keep_selected (addOperation (\<lambda>i. i) (keep_selected (closed_dialog (\<lambda>i. i))))))"

theorem dialog_invariant_witness:
  "reachable_dialog (\<lambda>m _. m) (\<lambda>i. i) added_dialog \<and> distinct (all_ids (operations added_dialog)) \<and> length (all_ids (operations added_dialog)) = 3"
proof -
  have "reachable_dialog (\<lambda>m _. m) (\<lambda>i. i) added_dialog" unfolding added_dialog_def
    by (rule happens [where e = "AddCondition (js ''po_1_1'')"], rule happens [where e = AddOperation], rule mounted) simp_all
  from dialog_invariant [OF this] this show ?thesis
    by (simp add: added_dialog_def keep_selected_def addCondition_def addOperation_def closed_dialog_def createDefaultOperation_def
      createDefaultCondition_def map_operation_def operation_ids_def nextLocalId_def show_nat.simps Let_def)
qed

end
