(* ===== verification/Param_Override_Props.thy ===== *)
theory Param_Override_Props
  imports Param_Override
begin

text \<open>
  What the parameter override editor writes and reads: the rules it saves open as they were, only
  complete rules pass its check, a string value that looks like JSON changes its type, and the
  drafts of custom errors and synchronised fields survive their texts.
\<close>

section \<open>Texts of values\<close>

text \<open>A value that its text gives again: a string only if the text is not itself JSON.\<close>

definition loose :: "json \<Rightarrow> bool" where
  "loose v \<longleftrightarrow> wf_json v \<and> (case v of JStr s \<Rightarrow> s = [] \<or> trimmed s \<and> json_parse s = None | _ \<Rightarrow> True)"

lemma loose_read_back: "loose v \<Longrightarrow> parseLooseValue (toValueText (Some v)) = v"
proof -
  assume v: "loose v"
  show ?thesis
  proof (cases "\<exists>s. v = JStr s")
    case True
    then show ?thesis using v by (auto simp: loose_def parseLooseValue_def toValueText_def Let_def)
  next
    case False
    then have "toValueText (Some v) = json_stringify v" by (cases v) (auto simp: toValueText_def)
    moreover have "trimmed (json_stringify v)" "json_stringify v \<noteq> []" "json_parse (json_stringify v) = Some v"
      using v json_text_trimmed [of v "[]" "[]"] json_stringify_reads_back [of v] by (auto simp: loose_def json_stringify_def)
    ultimately show ?thesis by (simp add: parseLooseValue_def Let_def)
  qed
qed

text \<open>The texts that stand for such values.\<close>

definition loose_text :: "jsstring \<Rightarrow> bool" where
  "loose_text s \<longleftrightarrow> loose (parseLooseValue s) \<and> toValueText (Some (parseLooseValue s)) = s"

lemma loose_text_of: "loose v \<Longrightarrow> loose_text (toValueText (Some v))"
  by (simp add: loose_text_def loose_read_back)

section \<open>Rules that are saved and opened again\<close>

definition good_text :: "jsstring \<Rightarrow> bool" where
  "good_text s \<longleftrightarrow> trimmed s \<and> list_all (\<lambda>u. u < 65536) s"

definition canonical_condition :: "ParamOverrideCondition \<Rightarrow> bool" where
  "canonical_condition c \<longleftrightarrow> good_text (pc_path c) \<and> pc_path c \<noteq> [] \<and> pc_mode c \<in> set CONDITION_MODE_VALUES
     \<and> loose_text (pc_value_text c)"

text \<open>A rule as the editor shows it: only the fields of its mode are filled.\<close>

definition canonical_operation :: "ParamOverrideOperation \<Rightarrow> bool" where
  "canonical_operation op \<longleftrightarrow>
     (let meta = meta_of (po_mode op)
      in po_mode op \<in> set OPERATION_MODE_VALUES \<and> \<not> isOperationBlank op
         \<and> list_all good_text [po_description op, po_path op, po_from op, po_to op]
         \<and> (po_path op = [] \<or> needs_path meta \<or> pathOptional meta) \<and> (po_from op = [] \<or> has_from meta)
         \<and> (if has_value meta then loose_text (po_value_text op) else po_value_text op = [])
         \<and> (po_keep_origin op \<longrightarrow> keepOrigin meta) \<and> list_all canonical_condition (po_conditions op)
         \<and> (po_logic op = js ''OR'' \<or> po_logic op = js ''AND'' \<and> po_conditions op \<noteq> []))"

text \<open>The same rules with new identifiers.\<close>

fun renumber_conditions :: "clock \<Rightarrow> nat \<Rightarrow> ParamOverrideCondition list \<Rightarrow> ParamOverrideCondition list" where
  "renumber_conditions clock i [] = []"
| "renumber_conditions clock i (c # cs) = c\<lparr>pc_id := nextLocalId clock i\<rparr> # renumber_conditions clock (i + 1) cs"

definition renumber_operation :: "clock \<Rightarrow> nat \<Rightarrow> ParamOverrideOperation \<Rightarrow> ParamOverrideOperation" where
  "renumber_operation clock i op =
     op\<lparr>po_id := nextLocalId clock i, po_conditions := renumber_conditions clock (i + 1) (po_conditions op)\<rparr>"

fun renumber :: "clock \<Rightarrow> nat \<Rightarrow> ParamOverrideOperation list \<Rightarrow> ParamOverrideOperation list" where
  "renumber clock i [] = []"
| "renumber clock i (op # ops) = renumber_operation clock i op # renumber clock (i + ids_used op) ops"

definition named :: "string list \<Rightarrow> (jsstring \<times> json) list \<Rightarrow> bool" where
  "named ks ps \<longleftrightarrow> fst ` set ps \<subseteq> js ` set ks \<and> distinct (map fst ps)"

lemma named_Nil: "named [] []"
  by (simp add: named_def)

lemma named_Cons: "named ks ps \<Longrightarrow> k \<notin> set ks \<Longrightarrow> named (k # ks) ((js k, v) # ps)"
  by (auto simp: named_def)

lemma named_opt: "named ks ps \<Longrightarrow> k \<notin> set ks \<Longrightarrow> named (k # ks) (opt_member b k v @ ps)"
  by (auto simp: named_def opt_member_def)

lemma named_distinct: "named ks ps \<Longrightarrow> distinct (map fst ps)"
  by (simp add: named_def)

definition plain_member :: "jsstring \<times> json \<Rightarrow> bool" where
  "plain_member p \<longleftrightarrow> fst p \<noteq> [] \<and> \<not> is_digit (hd (fst p)) \<and> list_all (\<lambda>u. u < 65536) (fst p) \<and> wf_json (snd p)"

definition plain_name :: "string \<Rightarrow> bool" where
  "plain_name k \<longleftrightarrow> js k \<noteq> [] \<and> \<not> is_digit (hd (js k)) \<and> list_all (\<lambda>u. u < 65536) (js k)"

lemma plain_opt: "list_all plain_member (opt_member b k v) \<longleftrightarrow> (b \<longrightarrow> plain_name k \<and> wf_json v)"
  by (simp add: opt_member_def plain_member_def plain_name_def)

lemma plain_key: "plain_member (js k, v) \<longleftrightarrow> plain_name k \<and> wf_json v"
  by (simp add: plain_member_def plain_name_def)

lemma plain_names [simp]: "list_all plain_name [''mode'', ''description'', ''path'', ''value'', ''keep_origin'', ''from'', ''to'', ''conditions'', ''logic'']"
  by (simp add: plain_name_def is_digit_def)

subsection \<open>Conditions\<close>

lemma condition_payload:
  assumes "canonical_condition c"
  shows "\<exists>v. buildConditionPayload c = Some v \<and> v \<noteq> JNull \<and> wf_json v \<and> normalizeParamCondition clock i v = c\<lparr>pc_id := nextLocalId clock i\<rparr>"
proof -
  have p: "trim (pc_path c) = pc_path c" "pc_path c \<noteq> []" "list_all (\<lambda>u. u < 65536) (pc_path c)" "pc_mode c \<in> set CONDITION_MODE_VALUES"
    "loose (parseLooseValue (pc_value_text c))" "toValueText (Some (parseLooseValue (pc_value_text c))) = pc_value_text c"
    using assms by (auto simp: canonical_condition_def good_text_def loose_text_def)
  have m: "pc_mode c \<noteq> []" "list_all (\<lambda>u. u < 65536) (pc_mode c)"
    using p(4) by (auto simp: CONDITION_MODE_VALUES_def CONDITION_MODE_OPTIONS_def)
  let ?v = "JObj ([(js ''path'', JStr (pc_path c)), (js ''mode'', JStr (pc_mode c)), (js ''value'', parseLooseValue (pc_value_text c))]
        @ opt_member (pc_invert c) ''invert'' (JBool True) @ opt_member (pc_pass_missing_key c) ''pass_missing_key'' (JBool True))"
  have "buildConditionPayload c = Some ?v" using p m by (simp add: buildConditionPayload_def)
  moreover have "wf_json ?v"
    using p m by (intro wf_object) (auto simp: opt_member_def loose_def is_digit_def)
  moreover have "normalizeParamCondition clock i ?v = c\<lparr>pc_id := nextLocalId clock i\<rparr>"
    using p by (cases c) (simp add: normalizeParamCondition_def string_member_def mode_member_def member_simps del: map_of_append)
  ultimately show ?thesis by auto
qed

lemma conditions_payload:
  assumes "list_all canonical_condition cs"
  shows "normalize_conditions clock i (List.map_filter buildConditionPayload cs) = Inr (renumber_conditions clock i cs)
    \<and> list_all wf_json (List.map_filter buildConditionPayload cs) \<and> (List.map_filter buildConditionPayload cs = [] \<longleftrightarrow> cs = [])"
  using assms
proof (induction cs arbitrary: i)
  case (Cons c cs)
  obtain v where v: "buildConditionPayload c = Some v" "v \<noteq> JNull" "wf_json v"
      "normalizeParamCondition clock i v = c\<lparr>pc_id := nextLocalId clock i\<rparr>"
    using condition_payload [of c clock i] Cons.prems by auto
  then show ?case using Cons.IH [of "i + 1"] Cons.prems by (simp add: map_filter_simps)
qed (simp add: map_filter_simps)

subsection \<open>Rules\<close>

lemma modes_have_meta:
  assumes "mode \<in> set OPERATION_MODE_VALUES"
  shows "mode \<noteq> [] \<and> list_all (\<lambda>u. u < 65536) mode"
  using assms by (auto simp: OPERATION_MODE_VALUES_def OPERATION_MODE_OPTIONS_def)

lemma alias_no_path:
  assumes "pathAlias (meta_of mode)"
  shows "\<not> needs_path (meta_of mode) \<and> \<not> pathOptional (meta_of mode)"
proof -
  have "list_all (\<lambda>(k, m). pathAlias m \<longrightarrow> \<not> needs_path m \<and> \<not> pathOptional m) MODE_META"
    by (simp add: MODE_META_def no_meta_def path_meta_def set_meta_def text_meta_def copy_meta_def replace_meta_def header_copy_meta_def)
  then show ?thesis
    using assms by (auto simp: meta_of_def set_meta_def no_meta_def list_all_iff dest!: map_of_SomeD split: option.splits)
qed

lemma operation_payload_read:
  assumes "canonical_operation op"
  shows "operation_payload op \<noteq> JNull \<and> wf_json (operation_payload op)
    \<and> normalizeOperation clock i (operation_payload op) = Inr (renumber_operation clock i op)"
proof -
  let ?meta = "meta_of (po_mode op)" and ?cs = "List.map_filter buildConditionPayload (po_conditions op)"
  have m: "po_mode op \<in> set OPERATION_MODE_VALUES" "po_mode op \<noteq> []" "list_all (\<lambda>u. u < 65536) (po_mode op)"
    using assms modes_have_meta [of "po_mode op"] by (auto simp: canonical_operation_def Let_def)
  have t: "trim (po_description op) = po_description op" "trim (po_path op) = po_path op" "trim (po_from op) = po_from op"
      "trim (po_to op) = po_to op" "list_all (\<lambda>u. u < 65536) (po_description op)" "list_all (\<lambda>u. u < 65536) (po_path op)"
      "list_all (\<lambda>u. u < 65536) (po_from op)" "list_all (\<lambda>u. u < 65536) (po_to op)"
    using assms by (auto simp: canonical_operation_def good_text_def Let_def)
  have cs: "normalize_conditions clock j ?cs = Inr (renumber_conditions clock j (po_conditions op))" "list_all wf_json ?cs"
      "?cs = [] \<longleftrightarrow> po_conditions op = []" for j
    using assms conditions_payload [of "po_conditions op" clock j] by (auto simp: canonical_operation_def Let_def)
  have f: "po_path op = [] \<or> needs_path ?meta \<or> pathOptional ?meta" "po_from op = [] \<or> has_from ?meta"
      "po_keep_origin op \<Longrightarrow> keepOrigin ?meta" "po_logic op = js ''OR'' \<or> po_logic op = js ''AND'' \<and> po_conditions op \<noteq> []"
    using assms by (auto simp: canonical_operation_def Let_def)
  have v: "has_value ?meta \<Longrightarrow> wf_json (parseLooseValue (po_value_text op)) \<and> toValueText (Some (parseLooseValue (po_value_text op))) = po_value_text op"
      "\<not> has_value ?meta \<Longrightarrow> po_value_text op = []"
    using assms by (auto simp: canonical_operation_def loose_text_def loose_def Let_def split: if_splits)
  have al: "pathAlias ?meta \<Longrightarrow> po_path op = []" using alias_no_path f(1) by blast
  define ps where "ps = [(js ''mode'', JStr (po_mode op))]
        @ opt_member (po_description op \<noteq> []) ''description'' (JStr (po_description op))
        @ opt_member (needs_path ?meta \<or> pathOptional ?meta \<and> po_path op \<noteq> []) ''path'' (JStr (po_path op))
        @ opt_member (has_value ?meta) ''value'' (parseLooseValue (po_value_text op))
        @ opt_member (keepOrigin ?meta \<and> po_keep_origin op) ''keep_origin'' (JBool True)
        @ opt_member (has_from ?meta) ''from'' (JStr (po_from op))
        @ opt_member (has_to ?meta \<or> po_to op \<noteq> []) ''to'' (JStr (po_to op))
        @ opt_member (?cs \<noteq> []) ''conditions'' (JArr ?cs)
        @ opt_member (?cs \<noteq> []) ''logic'' (JStr (if po_logic op = js ''AND'' then js ''AND'' else js ''OR''))"
  have o: "operation_payload op = JObj ps"
    using t m(2) al by (auto simp: operation_payload_def mode_of_def ps_def Let_def simp del: js.simps)
  have "named [''mode'', ''description'', ''path'', ''value'', ''keep_origin'', ''from'', ''to'', ''conditions'', ''logic''] (ps @ [])"
    unfolding ps_def append_assoc append_Cons append_Nil by (intro named_opt named_Cons named_Nil) simp_all
  then have "distinct (map fst ps)" using named_distinct by simp
  moreover have "k \<noteq> [] \<and> \<not> is_digit (hd k) \<and> list_all (\<lambda>u. u < 65536) k \<and> wf_json w" if "(k, w) \<in> set ps" for k w
  proof -
    have "list_all plain_member ps"
      using m t cs(2) v by (simp add: ps_def plain_opt plain_key wf_elems_iff plain_names [simplified] list_all_iff [of wf_json] list_all_iff [of "\<lambda>u. u < 65536"] del: js.simps) (simp add: js.simps)
    then show ?thesis using that by (auto simp: list_all_iff plain_member_def)
  qed
  ultimately have wf: "wf_json (JObj ps)" by (rule wf_object)
  have mem: "member ''mode'' (JObj ps) = Some (JStr (po_mode op))"
      "member ''description'' (JObj ps) = (if po_description op \<noteq> [] then Some (JStr (po_description op)) else None)"
      "member ''path'' (JObj ps) = (if needs_path ?meta \<or> pathOptional ?meta \<and> po_path op \<noteq> [] then Some (JStr (po_path op)) else None)"
      "member ''value'' (JObj ps) = (if has_value ?meta then Some (parseLooseValue (po_value_text op)) else None)"
      "member ''keep_origin'' (JObj ps) = (if keepOrigin ?meta \<and> po_keep_origin op then Some (JBool True) else None)"
      "member ''from'' (JObj ps) = (if has_from ?meta then Some (JStr (po_from op)) else None)"
      "member ''to'' (JObj ps) = (if has_to ?meta \<or> po_to op \<noteq> [] then Some (JStr (po_to op)) else None)"
      "member ''conditions'' (JObj ps) = (if ?cs \<noteq> [] then Some (JArr ?cs) else None)"
      "member ''logic'' (JObj ps) = (if ?cs \<noteq> [] then Some (JStr (if po_logic op = js ''AND'' then js ''AND'' else js ''OR'')) else None)"
    by (simp_all add: ps_def member_simps del: map_of_append)
  have logic: "(if logic_of ''OR'' (JObj ps) = js ''AND'' then js ''AND'' else js ''OR'') = po_logic op"
    using f(4) cs(3) by (auto simp: logic_of_def mem(9) json_truthy_def toUpperCase_def upper_unit_def)
  have g: "string_member ''description'' (JObj ps) = po_description op" "string_member ''path'' (JObj ps) = po_path op"
      "string_member ''from'' (JObj ps) = po_from op" "string_member ''to'' (JObj ps) = po_to op"
      "mode_member OPERATION_MODE_VALUES ''set'' (JObj ps) = po_mode op"
      "(member ''keep_origin'' (JObj ps) = Some (JBool True)) = po_keep_origin op"
    using f(1-3) m(1) by (auto simp: string_member_def mode_member_def mem)
  have vt: "toValueText (member ''value'' (JObj ps)) = po_value_text op"
    using v by (cases "has_value ?meta") (simp_all add: mem toValueText_def)
  have "(case member ''conditions'' (JObj ps) of Some (JArr cs) \<Rightarrow> normalize_conditions clock (i + 1) cs | _ \<Rightarrow> Inr [])
      = Inr (renumber_conditions clock (i + 1) (po_conditions op))"
    using cs(1,3) mem(8) by auto
  then have "normalizeOperation clock i (JObj ps) = Inr (renumber_operation clock i op)"
    using g vt logic by (cases op) (simp add: normalizeOperation_def renumber_operation_def)
  then show ?thesis using wf o by simp
qed

lemma operations_read:
  "list_all canonical_operation ops \<Longrightarrow>
   normalize_operations clock i (map operation_payload ops) = Inr (renumber clock i ops) \<and> list_all wf_json (map operation_payload ops)"
proof (induction ops arbitrary: i)
  case (Cons op ops)
  have "ids_used (renumber_operation clock i op) = ids_used op"
  proof -
    have "length (renumber_conditions clock j cs) = length cs" for j cs by (induction cs arbitrary: j) simp_all
    then show ?thesis by (simp add: ids_used_def renumber_operation_def)
  qed
  then show ?case using Cons.IH [of "i + ids_used op"] Cons.prems operation_payload_read [of op clock i] by simp
qed simp

definition saved_json :: "ParamOverrideOperation list \<Rightarrow> json" where
  "saved_json ops = JObj [(js ''operations'', JArr (map operation_payload ops))]"

lemma saved_json_wf: "list_all canonical_operation ops \<Longrightarrow> wf_json (saved_json ops)"
  unfolding saved_json_def using operations_read [of ops] by (intro wf_object) (auto simp: wf_elems_iff list_all_iff is_digit_def)

lemma saved_json_open:
  assumes "list_all canonical_operation ops" "ops \<noteq> []"
  shows "operations_or_default clock i (map operation_payload ops) = Inr (renumber clock i ops)"
    "json_parse (trim (json_pretty (saved_json ops))) = Some (saved_json ops)" "trim (json_pretty (saved_json ops)) \<noteq> []"
proof -
  have wf: "wf_json (saved_json ops)" by (rule saved_json_wf [OF assms(1)])
  have t: "trimmed (json_pretty (saved_json ops))" "json_pretty (saved_json ops) \<noteq> []"
    using json_text_trimmed [OF wf] by (auto simp: json_pretty_def)
  show "operations_or_default clock i (map operation_payload ops) = Inr (renumber clock i ops)"
    using operations_read [OF assms(1)] assms(2) by (simp add: operations_or_default_def)
  show "json_parse (trim (json_pretty (saved_json ops))) = Some (saved_json ops)" "trim (json_pretty (saved_json ops)) \<noteq> []"
    using t json_pretty_reads_back [OF wf] by simp_all
qed

lemma canonical_kept: "list_all canonical_operation ops \<Longrightarrow> filter (\<lambda>op. \<not> isOperationBlank op) ops = ops"
  by (auto simp: filter_id_conv list_all_iff canonical_operation_def Let_def)

lemma built_json:
  assumes "list_all canonical_operation ops" "ops \<noteq> []" "buildOperationsJson t validate ops = Inr txt"
  shows "txt = json_pretty (saved_json ops)"
  using assms canonical_kept [OF assms(1)] by (auto simp: buildOperationsJson_def saved_json_def Let_def split: if_splits)

text \<open>C4: Rules that were saved open as they were: when \<open>buildOperationsJson\<close> writes canonical rules,
  \<open>parseInitialState\<close> on its text opens the visual editor with the same rules under new identifiers.
  A canonical rule is not blank, has a mode the editor offers and fills only the fields of that mode;
  its texts are trimmed; the texts of its value and of the values of its conditions are what the
  editor shows for the value it reads from them (so not \<open>1.0\<close>, which is shown as \<open>1\<close>); every condition
  has a path and an offered mode; and the logic is \<open>AND\<close> only with conditions.\<close>

theorem override_rules_read_back:
  assumes "list_all canonical_operation ops" "ops \<noteq> []" "buildOperationsJson t validate ops = Inr txt"
  shows "parseInitialState clock i txt = Inr \<lparr>editMode = EditVisual, visualMode = VisualOperations, legacyValue = [],
    operations = renumber clock i ops, jsonText = txt, jsonError = []\<rparr>"
  using saved_json_open [OF assms(1,2)]
  by (simp add: parseInitialState_def built_json [OF assms] saved_json_def member_JObj Let_def del: js.simps)

text \<open>Two rules: a header that is passed on, and a field that is set for some models.\<close>

definition sample_rules :: "ParamOverrideOperation list" where
  "sample_rules =
     [\<lparr>po_id = js ''a'', po_description = js ''trace'', po_path = [], po_mode = js ''pass_headers'', po_from = [], po_to = [],
       po_value_text = toValueText (Some (JArr [JStr (js ''X-Request-Id'')])), po_keep_origin = True, po_logic = js ''OR'', po_conditions = []\<rparr>,
      \<lparr>po_id = js ''b'', po_description = [], po_path = js ''stream'', po_mode = js ''set'', po_from = [], po_to = [],
       po_value_text = js ''true'', po_keep_origin = False, po_logic = js ''AND'',
       po_conditions = [\<lparr>pc_id = js ''c'', pc_path = js ''model'', pc_mode = js ''prefix'', pc_value_text = js ''gpt/'',
         pc_invert = False, pc_pass_missing_key = True\<rparr>]\<rparr>]"

lemma sample_texts:
  "loose_text (toValueText (Some (JArr [JStr (js ''X-Request-Id'')])))" "loose_text (js ''true'')" "loose_text (js ''gpt/'')"
proof -
  show "loose_text (toValueText (Some (JArr [JStr (js ''X-Request-Id'')])))" by (rule loose_text_of) (simp add: loose_def)
  have "loose (JBool True)" by (simp add: loose_def)
  from loose_text_of [OF this] show "loose_text (js ''true'')"
    by (simp add: toValueText_def json_stringify_def)
  have "json_parse (js ''gpt/'') = None"
    by (simp add: json_eval parse_word_def startsWith_def parse_number_def json_number_re_def ropt_def rlit_def is_digit_def)
  then have "loose (JStr (js ''gpt/''))" by (simp add: loose_def trimmed_def is_ws_def)
  from loose_text_of [OF this] show "loose_text (js ''gpt/'')" by (simp add: toValueText_def)
qed

lemma sample_rules_canonical: "list_all canonical_operation sample_rules"
proof -
  have "meta_of (js ''pass_headers'') = no_meta\<lparr>has_value := True, keepOrigin := True\<rparr>" "meta_of (js ''set'') = set_meta"
    by (simp_all add: meta_of_def MODE_META_def)
  then show ?thesis
    using sample_texts
    by (simp add: sample_rules_def canonical_operation_def canonical_condition_def good_text_def isOperationBlank_def
        OPERATION_MODE_VALUES_def OPERATION_MODE_OPTIONS_def CONDITION_MODE_VALUES_def CONDITION_MODE_OPTIONS_def
        no_meta_def set_meta_def trimmed_def is_ws_def)
qed

lemma sample_rules_built: "buildOperationsJson t True sample_rules = Inr (json_pretty (saved_json sample_rules))"
proof -
  let ?v = "JArr [JStr (js ''X-Request-Id'')]"
  have v: "loose ?v" by (simp add: loose_def)
  have "trimmed (toValueText (Some ?v))" using json_text_trimmed [of ?v "[]" "[]"] by (simp add: toValueText_def json_stringify_def)
  then have t: "trim (toValueText (Some ?v)) = toValueText (Some ?v)" "toValueText (Some ?v) \<noteq> []"
    by (simp_all add: toValueText_def json_stringify_def json_bracket_def)
  have h: "parsePassHeaderNames (parseLooseValue (toValueText (Some ?v))) \<noteq> []"
    unfolding loose_read_back [OF v] by (simp add: parsePassHeaderNames_def text_or_null_def trim_def is_ws_def)
  have "list_all (\<lambda>op. rule_problem op = None) sample_rules"
    using t h by (simp add: sample_rules_def rule_problem_def mode_of_def meta_of_def MODE_META_def no_meta_def set_meta_def
        FROM_REQUIRED_MODES_def TO_REQUIRED_MODES_def VALUE_REQUIRED_MODES_def trim_def is_ws_def)
  then have "validateOperations t sample_rules = []" by (simp add: validateOperations_def sample_rules_def)
  then show ?thesis
    using canonical_kept [OF sample_rules_canonical] by (simp add: buildOperationsJson_def saved_json_def) (simp add: sample_rules_def)
qed

theorem override_rules_read_back_witness:
  "operations (projr (parseInitialState (\<lambda>i. i) 0 (json_pretty (saved_json sample_rules)))) = renumber (\<lambda>i. i) 0 sample_rules"
  using override_rules_read_back [OF sample_rules_canonical _ sample_rules_built] by (simp add: sample_rules_def)

section \<open>Values that change their type\<close>

text \<open>Opening and saving a rule changes the type of a string value whose text is JSON: the value is
  shown without quotes and read as JSON again, so the string "123" becomes the number 123.\<close>

theorem string_value_retyped:
  assumes "json_parse (trim s) = Some v" "p \<noteq> []" "trimmed p"
  shows "\<exists>op. normalizeOperation clock i (JObj [(js ''mode'', JStr (js ''set'')), (js ''path'', JStr p), (js ''value'', JStr s)]) = Inr op
    \<and> rule_problem op = None \<and> member ''value'' (operation_payload op) = Some v"
proof -
  have m: "meta_of (js ''set'') = set_meta" by (simp add: meta_of_def MODE_META_def)
  have "trim s \<noteq> []" using assms(1) by (auto simp: json_parse_def json_parse_fuel_def skip_json_ws_def)
  then have v: "parseLooseValue s = v" using assms(1) by (simp add: parseLooseValue_def)
  define op where "op = \<lparr>po_id = nextLocalId clock i, po_description = [], po_path = p, po_mode = js ''set'', po_from = [], po_to = [],
      po_value_text = s, po_keep_origin = False, po_logic = js ''OR'', po_conditions = []\<rparr>"
  have "normalizeOperation clock i (JObj [(js ''mode'', JStr (js ''set'')), (js ''path'', JStr p), (js ''value'', JStr s)]) = Inr op"
    by (simp add: op_def normalizeOperation_def member_JObj string_member_def mode_member_def toValueText_def logic_of_def json_truthy_def
        OPERATION_MODE_VALUES_def OPERATION_MODE_OPTIONS_def toUpperCase_def upper_unit_def Let_def)
  moreover have "rule_problem op = None"
    using assms(2,3) by (simp add: op_def rule_problem_def mode_of_def m set_meta_def no_meta_def FROM_REQUIRED_MODES_def TO_REQUIRED_MODES_def
        VALUE_REQUIRED_MODES_def)
  moreover have "member ''value'' (operation_payload op) = Some v"
    by (simp add: op_def operation_payload_def mode_of_def m [simplified] v member_simps set_meta_def no_meta_def Let_def del: map_of_append)
  ultimately show ?thesis by blast
qed

theorem string_value_retyped_witness:
  "\<exists>op. normalizeOperation (\<lambda>i. i) 0 (JObj [(js ''mode'', JStr (js ''set'')), (js ''path'', JStr (js ''user'')), (js ''value'', JStr (js ''true''))])
      = Inr op \<and> rule_problem op = None \<and> member ''value'' (operation_payload op) = Some (JBool True)"
  by (rule string_value_retyped) (simp_all add: trimmed_def is_ws_def trim_def json_eval parse_word_def startsWith_def)

section \<open>What the checks guarantee of a saved rule\<close>

definition filled :: "string \<Rightarrow> json \<Rightarrow> bool" where
  "filled k v \<longleftrightarrow> (\<exists>s. member k v = Some (JStr s) \<and> s \<noteq> [] \<and> trimmed s)"

text \<open>A rule and its saved JSON, which has what the mode of the rule needs.\<close>

definition complete_rule :: "ParamOverrideOperation \<Rightarrow> json \<Rightarrow> bool" where
  "complete_rule op v \<longleftrightarrow>
     (\<exists>mode. member ''mode'' v = Some (JStr mode) \<and> mode \<noteq> []
       \<and> (needs_path (meta_of mode) \<longrightarrow> filled ''path'' v) \<and> (mode \<in> set FROM_REQUIRED_MODES \<longrightarrow> filled ''from'' v)
       \<and> (mode \<in> set TO_REQUIRED_MODES \<longrightarrow> filled ''to'' v) \<and> (mode \<in> set VALUE_REQUIRED_MODES \<longrightarrow>
             trim (po_value_text op) \<noteq> [] \<and> member ''value'' v = Some (parseLooseValue (po_value_text op)))
       \<and> (mode = js ''pass_headers'' \<longrightarrow> (\<exists>x. member ''value'' v = Some x \<and> parsePassHeaderNames x \<noteq> []))
       \<and> (mode = js ''return_error'' \<longrightarrow> (\<forall>ps. member ''value'' v = Some (JObj ps) \<longrightarrow> trim (text_or_empty (member ''message'' (JObj ps))) \<noteq> [])))"

lemma required_metas:
  "mode \<in> set FROM_REQUIRED_MODES \<Longrightarrow> has_from (meta_of mode)" "mode \<in> set TO_REQUIRED_MODES \<Longrightarrow> has_to (meta_of mode)"
  "mode \<in> set VALUE_REQUIRED_MODES \<Longrightarrow> has_value (meta_of mode)"
proof -
  have "list_all (has_from \<circ> meta_of) FROM_REQUIRED_MODES" "list_all (has_to \<circ> meta_of) TO_REQUIRED_MODES"
    "list_all (has_value \<circ> meta_of) VALUE_REQUIRED_MODES"
    by (simp_all add: FROM_REQUIRED_MODES_def TO_REQUIRED_MODES_def VALUE_REQUIRED_MODES_def meta_of_def MODE_META_def
        no_meta_def set_meta_def text_meta_def copy_meta_def replace_meta_def header_copy_meta_def)
  then show "mode \<in> set FROM_REQUIRED_MODES \<Longrightarrow> has_from (meta_of mode)" "mode \<in> set TO_REQUIRED_MODES \<Longrightarrow> has_to (meta_of mode)"
    "mode \<in> set VALUE_REQUIRED_MODES \<Longrightarrow> has_value (meta_of mode)"
    by (auto simp: list_all_iff)
qed

lemma rule_problem_None:
  assumes "rule_problem op = None"
  shows "needs_path (meta_of (mode_of op)) \<Longrightarrow> trim (po_path op) \<noteq> []"
    "mode_of op \<in> set FROM_REQUIRED_MODES \<Longrightarrow> trim (po_from op) \<noteq> [] \<or> pathAlias (meta_of (mode_of op)) \<and> trim (po_path op) \<noteq> []"
    "mode_of op \<in> set TO_REQUIRED_MODES \<Longrightarrow> trim (po_to op) \<noteq> [] \<or> pathAlias (meta_of (mode_of op)) \<and> trim (po_path op) \<noteq> []"
    "mode_of op \<in> set VALUE_REQUIRED_MODES \<Longrightarrow> trim (po_value_text op) \<noteq> []"
    "mode_of op = js ''pass_headers'' \<Longrightarrow> parsePassHeaderNames (parseLooseValue (trim (po_value_text op))) \<noteq> []"
    "mode_of op = js ''return_error'' \<Longrightarrow> json_parse (trim (po_value_text op)) = Some (JObj ps) \<Longrightarrow>
       trim (text_or_empty (member ''message'' (JObj ps))) \<noteq> []"
  using assms unfolding rule_problem_def Let_def by (simp_all del: js.simps split: if_splits)

lemma loose_trim: "parseLooseValue (trim s) = parseLooseValue s"
  by (simp add: parseLooseValue_def)

lemma loose_object: "parseLooseValue s = JObj ps \<Longrightarrow> json_parse (trim s) = Some (JObj ps)"
  by (auto simp: parseLooseValue_def Let_def split: if_splits option.splits)

lemma payload_members:
  fixes op :: ParamOverrideOperation
  defines "meta \<equiv> meta_of (mode_of op)"
  shows "member ''mode'' (operation_payload op) = Some (JStr (mode_of op))"
    "needs_path meta \<Longrightarrow> member ''path'' (operation_payload op) = Some (JStr (trim (po_path op)))"
    "has_value meta \<Longrightarrow> member ''value'' (operation_payload op) = Some (parseLooseValue (po_value_text op))"
    "has_from meta \<Longrightarrow> member ''from'' (operation_payload op) =
       Some (JStr (if pathAlias meta \<and> trim (po_from op) = [] \<and> trim (po_path op) \<noteq> [] then trim (po_path op) else trim (po_from op)))"
    "has_to meta \<Longrightarrow> member ''to'' (operation_payload op) =
       Some (JStr (if pathAlias meta \<and> trim (po_to op) = [] \<and> trim (po_path op) \<noteq> [] then trim (po_path op) else trim (po_to op)))"
  unfolding operation_payload_def Let_def meta_def [symmetric] by (simp_all add: member_simps del: map_of_append)

lemma payload_complete:
  assumes "rule_problem op = None"
  shows "complete_rule op (operation_payload op)"
proof -
  let ?mode = "mode_of op"
  note p = payload_members [of op] and r = rule_problem_None [OF assms] and q = required_metas [of ?mode]
  have "?mode \<noteq> []" by (simp add: mode_of_def)
  moreover have "filled ''path'' (operation_payload op)" if "needs_path (meta_of ?mode)"
    using p(2) r(1) that by (simp add: filled_def)
  moreover have "filled ''from'' (operation_payload op)" if "?mode \<in> set FROM_REQUIRED_MODES"
    using p(4) q(1) r(2) that by (auto simp: filled_def)
  moreover have "filled ''to'' (operation_payload op)" if "?mode \<in> set TO_REQUIRED_MODES"
    using p(5) q(2) r(3) that by (auto simp: filled_def)
  moreover have "trim (po_value_text op) \<noteq> [] \<and> member ''value'' (operation_payload op) = Some (parseLooseValue (po_value_text op))"
    if "?mode \<in> set VALUE_REQUIRED_MODES"
    using p(3) q(3) r(4) that by simp
  moreover have "js ''pass_headers'' \<in> set VALUE_REQUIRED_MODES" "js ''return_error'' \<in> set VALUE_REQUIRED_MODES"
    by (simp_all add: VALUE_REQUIRED_MODES_def)
  moreover have "parsePassHeaderNames (parseLooseValue (po_value_text op)) \<noteq> []" if "?mode = js ''pass_headers''"
    using r(5) [OF that] by (simp add: loose_trim)
  moreover have "trim (text_or_empty (member ''message'' (JObj ps))) \<noteq> []"
    if "?mode = js ''return_error''" "parseLooseValue (po_value_text op) = JObj ps" for ps
    using r(6) [OF that(1)] loose_object [OF that(2)] by simp
  ultimately show ?thesis unfolding complete_rule_def using p(1) by (intro exI [of _ ?mode]) auto
qed

lemma validate_none: "(\<And>m l. t m l \<noteq> []) \<Longrightarrow> validate_from t i ops = [] \<longleftrightarrow> list_all (\<lambda>op. rule_problem op = None) ops"
  by (induction ops arbitrary: i) (auto split: option.splits)

text \<open>C6: Only complete rules are saved: with a translation that is never empty, the checked text of
  \<open>buildOperationsJson\<close> is empty, when every rule is blank, or the JSON of the rules that are not,
  each with the path, the source, the target and the value that its mode needs, headers to pass on
  and a message for a custom error given as an object.\<close>

theorem saved_rules_complete:
  assumes "\<And>m l. t m l \<noteq> []" "buildOperationsJson t True ops = Inr txt"
  shows "if list_all isOperationBlank ops then txt = []
    else \<exists>vs. txt = json_pretty (JObj [(js ''operations'', JArr vs)])
      \<and> list_all2 complete_rule (filter (\<lambda>op. \<not> isOperationBlank op) ops) vs"
proof -
  let ?ops = "filter (\<lambda>op. \<not> isOperationBlank op) ops"
  have b: "?ops = [] \<longleftrightarrow> list_all isOperationBlank ops" by (auto simp: filter_empty_conv list_all_iff)
  show ?thesis
  proof (cases "?ops = []")
    case True
    then show ?thesis using assms(2) b by (simp add: buildOperationsJson_def)
  next
    case False
    have "validateOperations t ?ops = []" "txt = json_pretty (JObj [(js ''operations'', JArr (map operation_payload ?ops))])"
      using False assms(2) by (auto simp: buildOperationsJson_def Let_def split: if_splits)
    moreover from this have "list_all (\<lambda>op. rule_problem op = None) ?ops"
      using validate_none [of t, OF assms(1)] by (simp add: validateOperations_def)
    then have "list_all2 complete_rule ?ops (map operation_payload ?ops)"
      using payload_complete by (simp add: list_all_iff list_all2_map2 list.rel_refl_strong del: set_filter)
    ultimately show ?thesis using False b by auto
  qed
qed

theorem saved_rules_complete_witness:
  "\<exists>vs. json_pretty (saved_json sample_rules) = json_pretty (JObj [(js ''operations'', JArr vs)]) \<and> list_all2 complete_rule sample_rules vs"
proof -
  have t: "js ''!'' @ m \<noteq> []" for m :: jsstring by simp
  have "\<not> list_all isOperationBlank sample_rules" using sample_rules_canonical by (auto simp: sample_rules_def canonical_operation_def Let_def)
  then show ?thesis using saved_rules_complete [of "\<lambda>m _. js ''!'' @ m", OF t sample_rules_built] canonical_kept [OF sample_rules_canonical] by simp
qed

section \<open>Drafts\<close>

definition good_draft :: "ReturnErrorDraft \<Rightarrow> bool" where
  "good_draft d \<longleftrightarrow> \<not> re_simpleMode d \<and> list_all good_text [re_message d, re_code d, re_type d]
     \<and> (\<exists>n. re_statusCode d = num n \<and> 100 \<le> n \<and> n \<le> 599)"

lemma valid_status_nat: "100 \<le> n \<Longrightarrow> n \<le> 599 \<Longrightarrow> valid_status (num n) = num n"
  by (simp add: valid_status_def js_le_def js_isInteger_nat)

lemma error_payload_wf:
  assumes "good_draft d"
  shows "wf_json (error_payload d)"
proof -
  obtain n where n: "re_statusCode d = num n" "100 \<le> n" "n \<le> 599" using assms by (auto simp: good_draft_def)
  have j: "json_num (num n)" by (rule json_num_nat) (use n in simp)
  have v: "valid_status (num n) = num n" by (rule valid_status_nat [OF n(2,3)])
  have t: "list_all (\<lambda>u. u < 65536) (trim (re_message d))" "list_all (\<lambda>u. u < 65536) (trim (re_code d))" "list_all (\<lambda>u. u < 65536) (trim (re_type d))"
    using assms by (auto simp: good_draft_def good_text_def)
  show ?thesis unfolding error_payload_def
  proof (rule wf_object)
    fix k w
    assume "(k, w) \<in> set ([(js ''message'', JStr (trim (re_message d))), (js ''status_code'', JNum (valid_status (re_statusCode d)))]
       @ opt_member (trim (re_code d) \<noteq> []) ''code'' (JStr (trim (re_code d)))
       @ opt_member (trim (re_type d) \<noteq> []) ''type'' (JStr (trim (re_type d)))
       @ opt_member (\<not> re_skipRetry d) ''skip_retry'' (JBool False))"
    then show "k \<noteq> [] \<and> \<not> is_digit (hd k) \<and> list_all (\<lambda>u. u < 65536) k \<and> wf_json w"
      using t j v n(1) by (auto simp: opt_member_def is_digit_def split: if_splits)
  qed (simp add: opt_member_def)
qed

text \<open>A custom error survives its text: the value that \<open>buildReturnErrorValueText\<close> writes for a draft
  with trimmed texts and a status from 100 to 599 is read by \<open>parseReturnErrorDraft\<close> as the same draft.\<close>

theorem return_error_read_back:
  assumes "good_draft d"
  shows "parseReturnErrorDraft (buildReturnErrorValueText d) = d"
proof -
  obtain n where n: "re_statusCode d = num n" "100 \<le> n" "n \<le> 599" using assms by (auto simp: good_draft_def)
  have d: "\<not> re_simpleMode d" "trim (re_message d) = re_message d" "trim (re_code d) = re_code d" "trim (re_type d) = re_type d"
    using assms by (auto simp: good_draft_def good_text_def)
  have v: "valid_status (num n) = num n" by (rule valid_status_nat [OF n(2,3)])
  have wf: "wf_json (error_payload d)" by (rule error_payload_wf [OF assms])
  have t: "trimmed (json_stringify (error_payload d))" "json_stringify (error_payload d) \<noteq> []"
    using json_text_trimmed [OF wf] by (auto simp: json_stringify_def)
  obtain ps where ps: "error_payload d = JObj ps" by (simp add: error_payload_def)
  have mem: "member ''message'' (JObj ps) = Some (JStr (re_message d))" "member ''msg'' (JObj ps) = None"
      "member ''status_code'' (JObj ps) = Some (JNum (num n))"
      "member ''code'' (JObj ps) = (if re_code d \<noteq> [] then Some (JStr (re_code d)) else None)"
      "member ''type'' (JObj ps) = (if re_type d \<noteq> [] then Some (JStr (re_type d)) else None)"
      "member ''skip_retry'' (JObj ps) = (if re_skipRetry d then None else Some (JBool False))"
    unfolding ps [symmetric] error_payload_def by (simp_all add: member_simps d v n(1) del: map_of_append)
  have "parseReturnErrorDraft (json_stringify (error_payload d)) = d"
    using t json_stringify_reads_back [OF wf] d n(1) v unfolding ps
    by (cases d) (auto simp: parseReturnErrorDraft_def mem text_or_empty_def json_truthy_def json_Number_def Let_def)
  then show ?thesis using d(1) by (simp add: buildReturnErrorValueText_def)
qed

definition sample_error :: ReturnErrorDraft where
  "sample_error = \<lparr>re_message = js ''quota exceeded'', re_statusCode = num 429, re_code = js ''quota'',
     re_type = [], re_skipRetry = False, re_simpleMode = False\<rparr>"

theorem return_error_read_back_witness:
  "good_draft sample_error \<and> parseReturnErrorDraft (buildReturnErrorValueText sample_error) = sample_error"
proof -
  have "good_draft sample_error"
    unfolding good_draft_def sample_error_def by (auto simp: good_text_def trimmed_def is_ws_def intro!: exI [of _ 429])
  then show ?thesis using return_error_read_back [of sample_error] by blast
qed

text \<open>A field to synchronise keeps its kind and name, if it has a name.\<close>

lemma sync_spec_read_back:
  assumes "k \<in> {js ''json'', js ''header''}" "trimmed name" "name \<noteq> []"
  shows "parseSyncTargetSpec (buildSyncTargetSpec k name) = (k, name)"
proof -
  let ?spec = "k @ js '':'' @ name"
  have k: "trim k = k" "toLowerCase k = k" "k \<noteq> []"
    using assms(1) by (auto simp: trim_def is_ws_def toLowerCase_def lower_unit_def)
  have "trimmed ?spec" using assms by (auto simp: trimmed_def is_ws_def)
  then have t: "trim ?spec = ?spec" by simp
  have i: "index_of (js '':'') ?spec = Some (length k)" using assms(1) by (auto simp: startsWith_def)
  have b: "buildSyncTargetSpec k name = ?spec" using assms by (auto simp: buildSyncTargetSpec_def)
  have "parseSyncTargetSpec ?spec = (if k = js ''header'' then js ''header'' else js ''json'', name)"
    unfolding parseSyncTargetSpec_def Let_def t i using k assms(2) by simp
  then show ?thesis unfolding b using assms(1) by auto
qed

lemma sync_kind_lost: "parseSyncTargetSpec (buildSyncTargetSpec (js ''header'') []) = (js ''json'', [])"
  by (simp add: parseSyncTargetSpec_def buildSyncTargetSpec_def trim_def)

end
