(* ===== verification/Param_Override_Moves.thy ===== *)
theory Param_Override_Moves
  imports Param_Override_Dialog Param_Override_Props
begin

text \<open>
  What editing does in the parameter override dialog: rules of a pruning value cannot be edited,
  dragging moves one rule, and switching between the visual editor and the text keeps the rules.
\<close>

section \<open>Rules of a pruning value\<close>

lemma number_rules_ids: "r \<in> set (number_rules clock i vs) \<Longrightarrow> pc_id r \<in> nextLocalId clock ` {i..<i + length vs}"
  by (induction vs arbitrary: i) (force simp: normalizePruneRule_def)+

lemma number_rules_length [simp]: "length (number_rules clock i vs) = length vs"
  by (induction vs arbitrary: i) simp_all

lemma draft_rule_ids:
  "r \<in> set (pd_rules (parsePruneObjectsDraft clock i s))
   \<Longrightarrow> pc_id r \<in> nextLocalId clock ` {i..<i + length (pd_rules (parsePruneObjectsDraft clock i s))}"
  using number_rules_ids [of r clock i]
  by (auto simp: parsePruneObjectsDraft_def prune_defaults_def Let_def split: if_splits option.splits json.splits)

lemma shown_rule_old:
  assumes "pruneObjectsDraft clock d0 = Some draft" "r \<in> set (pd_rules draft)" "seed (render clock d0) \<le> seed d"
    "r' \<in> set (pd_rules (parsePruneObjectsDraft clock (seed d) s))"
  shows "pc_id r' \<noteq> pc_id r"
proof -
  have "\<exists>v. draft = parsePruneObjectsDraft clock (seed d0 + 1) v"
    using assms(1) by (auto simp: pruneObjectsDraft_def split: option.splits if_splits)
  with draft_rule_ids assms(2) obtain j where "j < seed d0 + 1 + length (pd_rules draft)" "pc_id r = nextLocalId clock j" by fastforce
  moreover obtain k where "seed d \<le> k" "pc_id r' = nextLocalId clock k" using draft_rule_ids [OF assms(4)] by auto
  ultimately show ?thesis using nextLocalId_inj assms(1,3) by (fastforce simp: render_def)
qed

lemma updatePrune_cong:
  assumes "\<And>op :: ParamOverrideOperation. f (parsePruneObjectsDraft clock (seed d) (po_value_text op)) = g (parsePruneObjectsDraft clock (seed d) (po_value_text op))"
  shows "updatePruneObjectsDraft clock i f d = updatePruneObjectsDraft clock i g d"
  by (simp add: updatePruneObjectsDraft_def assms)

lemma blank_rule_dropped:
  "buildPruneObjectsValueText (draft\<lparr>pd_simpleMode := False, pd_rules := rs @ [normalizePruneRule clock i (JObj [])]\<rparr>)
   = buildPruneObjectsValueText (draft\<lparr>pd_simpleMode := False, pd_rules := rs\<rparr>)"
proof -
  have "trim (pc_path (normalizePruneRule clock i (JObj []))) = []"
    by (simp add: normalizePruneRule_def string_member_def json_truthy_def member_def obj_get_def trim_def)
  then show ?thesis by (simp add: buildPruneObjectsValueText_def Let_def)
qed

text \<open>C31: In the advanced form of a pruning value no rule can be added, changed or removed: the value
  is parsed again, with new identifiers, at every change, so the identifier of the rule that is shown
  matches none, and the blank rule that is added is dropped when the value is written.\<close>

theorem prune_rules_not_edited:
  assumes "pruneObjectsDraft clock d0 = Some draft" "r \<in> set (pd_rules draft)" "seed (render clock d0) \<le> seed d"
  shows "updatePruneRule clock i (pc_id r) p d = updatePruneObjectsDraft clock i id d \<and>
    removePruneRule clock i (pc_id r) d = updatePruneObjectsDraft clock i id d \<and>
    operations (addPruneRule clock i d) = operations (updatePruneObjectsDraft clock i (\<lambda>draft. draft\<lparr>pd_simpleMode := False\<rparr>) d)"
proof (intro conjI)
  let ?rules = "\<lambda>op :: ParamOverrideOperation. pd_rules (parsePruneObjectsDraft clock (seed d) (po_value_text op))"
  have none: "pc_id r' \<noteq> pc_id r" if "r' \<in> set (?rules op)" for r' op
    by (rule shown_rule_old [OF assms that])
  have m: "map (\<lambda>x. if pc_id x = pc_id r then patch_condition p x else x) (?rules op) = ?rules op"
      "filter (\<lambda>x. pc_id x \<noteq> pc_id r) (?rules op) = ?rules op" for op
    using none by (auto intro!: map_idI filter_True)
  show "updatePruneRule clock i (pc_id r) p d = updatePruneObjectsDraft clock i id d"
    "removePruneRule clock i (pc_id r) d = updatePruneObjectsDraft clock i id d"
    unfolding updatePruneRule_def removePruneRule_def by (rule updatePrune_cong, simp add: m)+
  show "operations (addPruneRule clock i d) = operations (updatePruneObjectsDraft clock i (\<lambda>draft. draft\<lparr>pd_simpleMode := False\<rparr>) d)"
    by (simp add: addPruneRule_def updatePruneObjectsDraft_def Let_def blank_rule_dropped)
qed

definition sample_prune :: json where
  "sample_prune = JObj [(js ''conditions'', JArr [JObj [(js ''path'', JStr (js ''type'')), (js ''mode'', JStr (js ''full''))]])]"

definition prune_dialog :: Dialog where
  "prune_dialog = (closed_dialog (\<lambda>i. i))\<lparr>
     operations := [(createDefaultOperation (\<lambda>i. i) 0)\<lparr>po_mode := js ''prune_objects'', po_value_text := json_stringify sample_prune\<rparr>],
     selectedOperationId := js ''po_0_0''\<rparr>"

definition sample_prune_rule :: PruneRule where
  "sample_prune_rule = normalizePruneRule (\<lambda>i. i) 2 (JObj [(js ''path'', JStr (js ''type'')), (js ''mode'', JStr (js ''full''))])"

lemma sample_prune_draft:
  "parsePruneObjectsDraft (\<lambda>i. i) i (json_stringify sample_prune) =
     \<lparr>pd_simpleMode = False, pd_typeText = [], pd_logic = js ''AND'', pd_recursive = True,
      pd_rules = [normalizePruneRule (\<lambda>i. i) i (JObj [(js ''path'', JStr (js ''type'')), (js ''mode'', JStr (js ''full''))])]\<rparr>"
proof -
  have wf: "wf_json sample_prune" by (simp add: sample_prune_def is_digit_def obj_entries_def is_index_key_def)
  have t: "trimmed (json_stringify sample_prune)" "json_stringify sample_prune \<noteq> []"
    using json_text_trimmed [OF wf] by (auto simp: json_stringify_def)
  then show ?thesis
    using json_stringify_reads_back [OF wf]
    by (simp add: parsePruneObjectsDraft_def sample_prune_def member_def obj_get_def logic_of_def json_truthy_def prune_items_def
        is_object_def toUpperCase_def upper_unit_def Let_def)
qed

theorem prune_rules_not_edited_witness:
  "sample_prune_rule \<in> set (pd_rules (the (pruneObjectsDraft (\<lambda>i. i) prune_dialog))) \<and>
   removePruneRule (\<lambda>i. i) (js ''po_0_0'') (pc_id sample_prune_rule) (render (\<lambda>i. i) prune_dialog)
     = updatePruneObjectsDraft (\<lambda>i. i) (js ''po_0_0'') id (render (\<lambda>i. i) prune_dialog)"
proof -
  obtain draft where d: "pruneObjectsDraft (\<lambda>i. i) prune_dialog = Some draft" "pd_rules draft = [sample_prune_rule]"
    by (simp add: pruneObjectsDraft_def selectedOperation_def prune_dialog_def closed_dialog_def createDefaultOperation_def nextLocalId_def
        show_nat.simps sample_prune_draft sample_prune_rule_def numeral_2_eq_2)
  from prune_rules_not_edited [OF d(1), of sample_prune_rule "render (\<lambda>i. i) prune_dialog"] d show ?thesis by simp
qed

section \<open>Dragging a rule\<close>

lemma find_index_at: "P v \<Longrightarrow> \<forall>u\<in>set us. \<not> P u \<Longrightarrow> find_index P (us @ v # vs) = Some (length us)"
  by (induction us) simp_all

lemma splice_out_split: "length us = i \<Longrightarrow> splice_out i (us @ v # vs) = us @ vs"
  by (simp add: splice_out_def)

lemma splice_in_split: "length us = i \<Longrightarrow> splice_in i v (us @ vs) = us @ v # vs"
  by (simp add: splice_in_def)

text \<open>Dropping one rule on another moves only it: the other rules keep their order, and the rule
  stands right before or right after the target, as the pointer said.\<close>

theorem reorder_moves_one:
  assumes "distinct (map po_id ops)" "{s, u} \<subseteq> po_id ` set ops" "s \<noteq> u" "s \<noteq> []" "u \<noteq> []"
  shows "filter (\<lambda>op. po_id op \<noteq> s) (reorderOperations ops s u position) = filter (\<lambda>op. po_id op \<noteq> s) ops \<and>
    (\<exists>xs a b ys. reorderOperations ops s u position = xs @ (if position = Before then [a, b] else [b, a]) @ ys \<and> po_id a = s \<and> po_id b = u)"
proof -
  obtain us a vs where o: "ops = us @ a # vs" "po_id a = s" using assms(2) by (auto dest: split_list)
  then have ns: "s \<notin> po_id ` set (us @ vs)" using assms(1) by auto
  obtain b where "b \<in> set (us @ vs)" and b: "po_id b = u" using assms(2,3) o by auto
  then obtain xs ys where r: "us @ vs = xs @ b # ys" using split_list by metis
  have nu: "u \<notin> po_id ` set xs"
  proof -
    have "distinct (map po_id (us @ vs))" using assms(1) o(1) by auto
    then show ?thesis unfolding r using b by auto
  qed
  have f: "find_index (\<lambda>op. po_id op = s) ops = Some (length us)" "find_index (\<lambda>op. po_id op = u) (us @ vs) = Some (length xs)"
    unfolding o(1) r using o(2) ns b nu by (auto intro!: find_index_at simp: image_iff ball_Un)
  have e: "reorderOperations ops s u position = (if position = Before then xs @ a # b # ys else xs @ b # a # ys)"
    using assms(3-5) f o(1) r splice_in_split [of "xs @ [b]" "length xs + 1" a ys]
    by (cases position) (simp_all add: reorderOperations_def splice_out_split splice_in_split Let_def)
  have same: "filter (\<lambda>op. po_id op \<noteq> s) (us @ vs) = us @ vs" by (rule filter_True) (use ns in auto)
  then have k: "filter (\<lambda>op. po_id op \<noteq> s) ops = us @ vs" using o by simp
  have k': "filter (\<lambda>op. po_id op \<noteq> s) (xs @ b # ys) = us @ vs" using same unfolding r .
  have "filter (\<lambda>op. po_id op \<noteq> s) (reorderOperations ops s u position) = filter (\<lambda>op. po_id op \<noteq> s) (xs @ b # ys)"
    using o(2) by (simp add: e)
  then show ?thesis using e o(2) b k k' by auto
qed

theorem reorder_moves_one_witness:
  "\<exists>xs a b ys. reorderOperations sample_rules (js ''a'') (js ''b'') After = xs @ [b, a] @ ys \<and> po_id a = js ''a'' \<and> po_id b = js ''b''"
  using reorder_moves_one [of sample_rules "js ''a''" "js ''b''" After] by (simp add: sample_rules_def)

section \<open>Switching the mode\<close>

text \<open>C7: Switching to the text and back keeps canonical rules, whether or not they pass the check: when every
  rule of the visual editor is canonical (not blank, only the fields of its mode filled, trimmed texts,
  value texts that read back as they are, conditions with a path), the editor afterwards shows the same
  rules under new identifiers.  Rules that are not canonical, such as blank ones, may be dropped or
  rewritten by the text.\<close>

theorem modes_keep_rules:
  assumes "editMode d = EditVisual" "visualMode d = VisualOperations" "operations d \<noteq> []" "list_all canonical_operation (operations d)"
  shows "\<exists>d'. switchToVisualMode t clock (switchToJsonMode t d) = Inr d' \<and> operations d' = renumber clock (seed d) (operations d)
    \<and> editMode d' = EditVisual \<and> visualMode d' = VisualOperations"
proof -
  let ?txt = "json_pretty (saved_json (operations d))"
  have same: "\<And>v s. buildOperationsJson t v (operations d) = Inr s \<Longrightarrow> s = ?txt" by (rule built_json [OF assms(4,3)])
  have "\<exists>s. buildOperationsJson t False (operations d) = Inr s"
    using canonical_kept [OF assms(4)] by (simp add: buildOperationsJson_def Let_def)
  then have "buildOperationsJson t False (operations d) = Inr ?txt" using same [of False] by blast
  then have j: "jsonText (switchToJsonMode t d) = ?txt" "editMode (switchToJsonMode t d) = EditJson" "seed (switchToJsonMode t d) = seed d"
    using assms(1,2) same [of True]
    by (cases "buildOperationsJson t True (operations d)"; simp add: switchToJsonMode_def buildVisualJson_def unchecked_json_def)+
  note r = saved_json_open [OF assms(4,3)]
  have "member ''operations'' (saved_json (operations d)) = Some (JArr (map operation_payload (operations d)))"
    by (simp add: saved_json_def member_JObj)
  then show ?thesis using j r by (simp add: switchToVisualMode_def show_operations_def Let_def)
qed

definition sample_dialog :: Dialog where
  "sample_dialog = (closed_dialog (\<lambda>i. i))\<lparr>operations := sample_rules\<rparr>"

theorem modes_keep_rules_witness:
  "\<exists>d'. switchToVisualMode (\<lambda>m _. m) (\<lambda>i. i) (switchToJsonMode (\<lambda>m _. m) sample_dialog) = Inr d' \<and> operations d' = renumber (\<lambda>i. i) 1 sample_rules"
  using modes_keep_rules [of sample_dialog "\<lambda>m _. m" "\<lambda>i. i"] sample_rules_canonical
  by (auto simp: sample_dialog_def closed_dialog_def sample_rules_def)

end
