(* ===== verification/Notifications.thy ===== *)
theory Notifications
  imports JSON_Text "HOL-Library.Word"
begin

text \<open>
  Notices and announcements (\<open>lib/notifications.ts\<close>): their keys, which of them are published and
  which are recent and unread.  An announcement is a JSON value.  What the platform says of dates is
  an argument: \<open>parse_date\<close> is \<open>Date.parse\<close>, with \<open>None\<close> for \<open>NaN\<close>, \<open>day_of\<close> is \<open>toDateString\<close> and
  \<open>iso_of\<close> is \<open>toISOString\<close> of a time in milliseconds.
\<close>

type_synonym Announcement = json
type_synonym date_parser = "jsstring \<Rightarrow> int option"
type_synonym date_text = "jsnum \<Rightarrow> jsstring"

record Notice =
  nt_content :: jsstring
  published_at :: jsnum

record NotificationFeed =
  server_time :: jsnum
  fd_notice :: Notice
  fd_announcements :: "Announcement list"

record NotificationSnapshot =
  sn_notice :: Notice
  sn_announcements :: "Announcement list"

record NotificationReadState =
  readNoticeKeys :: "jsstring list"
  readAnnouncementKeys :: "jsstring list"
  closedUntilDate :: "jsstring option"
  closedNotificationKeys :: "jsstring list"

definition DAY_MS :: jsnum where
  "DAY_MS = num (24 * 60 * 60 * 1000)"

section \<open>Keys\<close>

text \<open>The hash of a text: \<open>hash << 5\<close>, the difference and the code unit are added exactly, and
  \<open>hash |= 0\<close> keeps the lower 32 bits.\<close>

fun hash_from :: "32 word \<Rightarrow> jsstring \<Rightarrow> 32 word" where
  "hash_from hash [] = hash"
| "hash_from hash (u # s) = hash_from (push_bit 5 hash - hash + of_nat u) s"

definition digit36 :: "nat \<Rightarrow> nat" where
  "digit36 d = (if d < 10 then 48 + d else 87 + d)"

fun show_radix36 :: "nat \<Rightarrow> jsstring" where
  "show_radix36 n = (if n < 36 then [digit36 n] else show_radix36 (n div 36) @ [digit36 (n mod 36)])"

declare show_radix36.simps [simp del]

definition show_int36 :: "int \<Rightarrow> jsstring" where
  "show_int36 i = (if i < 0 then 45 # show_radix36 (nat (- i)) else show_radix36 (nat i))"

definition hashString :: "jsstring \<Rightarrow> jsstring" where
  "hashString input = show_int36 (sint (hash_from 0 input))"

definition trimmed_member :: "string \<Rightarrow> Announcement \<Rightarrow> jsstring" where
  "trimmed_member k item = (case member k item of Some (JStr s) \<Rightarrow> trim s | _ \<Rightarrow> [])"

definition getAnnouncementKey :: "Announcement \<Rightarrow> jsstring" where
  "getAnnouncementKey item =
     (let revision = hashString (json_stringify (JObj (map (\<lambda>k. (js k, JStr (trimmed_member k item)))
        [''publishDate'', ''content'', ''extra'', ''type'', ''title'', ''link''])))
      in case member ''id'' item of
           None \<Rightarrow> js ''hash:'' @ revision
         | Some JNull \<Rightarrow> js ''hash:'' @ revision
         | Some i \<Rightarrow> js ''id:'' @ json_String i @ js '':'' @ revision)"

definition getNoticeKey :: "Notice \<Rightarrow> jsstring" where
  "getNoticeKey n = js ''notice:'' @ js_String (if js_truthy_num (published_at n) then published_at n else num 0)
     @ js '':'' @ hashString (trim (nt_content n))"

section \<open>What is published\<close>

definition publicationTime :: "date_parser \<Rightarrow> Announcement \<Rightarrow> int" where
  "publicationTime parse_date item =
     (case member ''publishDate'' item of
        Some (JStr s) \<Rightarrow> (case parse_date s of Some time \<Rightarrow> time | None \<Rightarrow> 0)
      | _ \<Rightarrow> 0)"

definition has_content :: "Announcement \<Rightarrow> bool" where
  "has_content item \<longleftrightarrow> trimmed_member ''content'' item \<noteq> []"

definition newest_announcements :: "date_parser \<Rightarrow> Announcement list \<Rightarrow> Announcement list" where
  "newest_announcements parse_date items = sort_key (\<lambda>item. - publicationTime parse_date item) items"

definition getStatusAnnouncements :: "date_parser \<Rightarrow> json option \<Rightarrow> Announcement list" where
  "getStatusAnnouncements parse_date status =
     (case status of
        None \<Rightarrow> []
      | Some st \<Rightarrow>
          if \<not> json_truthy (member ''announcements_enabled'' st) then []
          else (case member ''announcements'' st of
             Some (JArr items) \<Rightarrow> newest_announcements parse_date (filter has_content items)
           | _ \<Rightarrow> []))"

definition getPublishedNotifications :: "date_parser \<Rightarrow> NotificationFeed \<Rightarrow> NotificationSnapshot" where
  "getPublishedNotifications parse_date feed =
     (let status = JObj [(js ''announcements_enabled'', JBool True), (js ''announcements'', JArr (fd_announcements feed))];
          announcements = filter (\<lambda>item. js_le (Fin (of_int (publicationTime parse_date item))) (server_time feed))
            (getStatusAnnouncements parse_date (Some status));
          notice = (fd_notice feed)\<lparr>nt_content := trim (nt_content (fd_notice feed))\<rparr>
      in \<lparr>sn_notice = (if js_less (server_time feed) (js_mul (published_at notice) (num 1000)) then notice\<lparr>nt_content := []\<rparr> else notice),
          sn_announcements = announcements\<rparr>)"

section \<open>What is unread\<close>

definition isRecent :: "jsnum \<Rightarrow> jsnum \<Rightarrow> bool" where
  "isRecent now time \<longleftrightarrow> js_isFinite time \<and> js_less (num 0) time \<and> js_le time now \<and> js_less (js_sub now time) DAY_MS"

definition no_notice :: Notice where
  "no_notice = \<lparr>nt_content = [], published_at = num 0\<rparr>"

definition closed_keys :: "date_text \<Rightarrow> jsnum \<Rightarrow> NotificationReadState \<Rightarrow> jsstring list" where
  "closed_keys day_of now r = (if closedUntilDate r = Some (day_of now) then closedNotificationKeys r else [])"

definition notice_unread :: "date_text \<Rightarrow> jsnum \<Rightarrow> NotificationReadState \<Rightarrow> Notice \<Rightarrow> bool" where
  "notice_unread day_of now r n \<longleftrightarrow> nt_content n \<noteq> [] \<and> isRecent now (js_mul (published_at n) (num 1000))
     \<and> getNoticeKey n \<notin> set (readNoticeKeys r) \<and> getNoticeKey n \<notin> set (closed_keys day_of now r)"

definition announcement_unread :: "date_parser \<Rightarrow> date_text \<Rightarrow> jsnum \<Rightarrow> NotificationReadState \<Rightarrow> Announcement \<Rightarrow> bool" where
  "announcement_unread parse_date day_of now r item \<longleftrightarrow> isRecent now (Fin (of_int (publicationTime parse_date item)))
     \<and> getAnnouncementKey item \<notin> set (readAnnouncementKeys r) \<and> getAnnouncementKey item \<notin> set (closed_keys day_of now r)"

definition getRecentUnreadNotifications ::
    "date_parser \<Rightarrow> date_text \<Rightarrow> NotificationFeed \<Rightarrow> NotificationReadState \<Rightarrow> NotificationSnapshot option" where
  "getRecentUnreadNotifications parse_date day_of feed r =
     (let published = getPublishedNotifications parse_date feed; now = server_time feed;
          noticeUnread = notice_unread day_of now r (sn_notice published);
          announcements = filter (announcement_unread parse_date day_of now r) (sn_announcements published)
      in if \<not> noticeUnread \<and> announcements = [] then None
         else Some \<lparr>sn_notice = (if noticeUnread then sn_notice published else no_notice), sn_announcements = announcements\<rparr>)"

definition getSnapshotKeys :: "NotificationSnapshot \<Rightarrow> jsstring list \<times> jsstring list" where
  "getSnapshotKeys snapshot =
     (if nt_content (sn_notice snapshot) \<noteq> [] then [getNoticeKey (sn_notice snapshot)] else [],
      map getAnnouncementKey (sn_announcements snapshot))"

definition getSnapshotAnnouncements :: "date_parser \<Rightarrow> date_text \<Rightarrow> NotificationSnapshot \<Rightarrow> Announcement list" where
  "getSnapshotAnnouncements parse_date iso_of snapshot =
     (let n = sn_notice snapshot;
          item = JObj ([(js ''content'', JStr (nt_content n)), (js ''type'', JStr (js ''ongoing''))]
            @ opt_member (js_less (num 0) (published_at n)) ''publishDate'' (JStr (iso_of (js_mul (published_at n) (num 1000)))))
      in newest_announcements parse_date (sn_announcements snapshot @ (if nt_content n \<noteq> [] then [item] else [])))"

end
