(* ===== verification/Notification_Store.thy ===== *)
theory Notification_Store
  imports Notifications "HOL-Library.List_Lexorder" "HOL-Library.AList"
begin

text \<open>
  What a viewer has read (\<open>stores/notification-store.ts\<close>): every tab of the browser has a copy in
  memory, and all share the text that the persistence middleware keeps under one key of
  \<open>localStorage\<close>.  The middleware is an argument: \<open>persisted\<close> is the text it writes for the viewers of a
  tab.  \<open>localStorage\<close> may refuse to be read or written.
\<close>

type_synonym viewers = "(jsstring \<times> NotificationReadState) list"

definition EMPTY_NOTIFICATION_READ_STATE :: NotificationReadState where
  "EMPTY_NOTIFICATION_READ_STATE =
     \<lparr>readNoticeKeys = [], readAnnouncementKeys = [], closedUntilDate = None, closedNotificationKeys = []\<rparr>"

definition getNotificationViewerKey :: "jsnum option \<Rightarrow> jsstring" where
  "getNotificationViewerKey userId =
     (case userId of
        None \<Rightarrow> js ''guest''
      | Some n \<Rightarrow> if js_truthy_num n then js ''user:'' @ js_String n else js ''guest'')"

text \<open>The default \<open>sort\<close> compares the code units of two strings.\<close>

definition union_keys :: "jsstring list \<Rightarrow> jsstring list \<Rightarrow> jsstring list" where
  "union_keys a b = sort (js_set (a @ b))"

definition string_items :: "json option \<Rightarrow> jsstring list" where
  "string_items v = (case v of Some (JArr vs) \<Rightarrow> List.map_filter (\<lambda>x. case x of JStr s \<Rightarrow> Some s | _ \<Rightarrow> None) vs | _ \<Rightarrow> [])"

section \<open>Values from outside\<close>

text \<open>\<open>/^(guest|user:[0-9]+)$/\<close>.\<close>

definition viewer_key :: "jsstring \<Rightarrow> bool" where
  "viewer_key k \<longleftrightarrow> k = js ''guest'' \<or> (startsWith k (js ''user:'') \<and> drop 5 k \<noteq> [] \<and> list_all is_digit (drop 5 k))"

definition object_item :: "json \<Rightarrow> bool" where
  "object_item v \<longleftrightarrow> (case v of JObj _ \<Rightarrow> True | JArr _ \<Rightarrow> True | _ \<Rightarrow> False)"

definition normalize_state :: "json \<Rightarrow> NotificationReadState" where
  "normalize_state item =
     (let legacy = (case member ''lastReadNotice'' item of
            Some (JStr s) \<Rightarrow> if s \<noteq> [] then [getNoticeKey \<lparr>nt_content = s, published_at = num 0\<rparr>] else []
          | _ \<Rightarrow> [])
      in \<lparr>readNoticeKeys = union_keys (string_items (member ''readNoticeKeys'' item) @ legacy) [],
          readAnnouncementKeys = string_items (member ''readAnnouncementKeys'' item),
          closedUntilDate = (case member ''closedUntilDate'' item of Some (JStr s) \<Rightarrow> Some s | _ \<Rightarrow> None),
          closedNotificationKeys = string_items (member ''closedNotificationKeys'' item)\<rparr>)"

definition keep_viewer :: "viewers \<Rightarrow> jsstring \<times> json \<Rightarrow> viewers" where
  "keep_viewer vs e = (if viewer_key (fst e) \<and> object_item (snd e) then AList.update (fst e) (normalize_state (snd e)) vs else vs)"

definition normalizeViewers :: "json option \<Rightarrow> viewers" where
  "normalizeViewers v = (case v of Some (JObj ps) \<Rightarrow> foldl keep_viewer [] (obj_entries ps) | _ \<Rightarrow> [])"

section \<open>Merging\<close>

definition lookup_viewer :: "jsstring \<Rightarrow> viewers \<Rightarrow> NotificationReadState" where
  "lookup_viewer k vs = (case map_of vs k of Some r \<Rightarrow> r | None \<Rightarrow> EMPTY_NOTIFICATION_READ_STATE)"

definition date_or_empty :: "jsstring option \<Rightarrow> jsstring" where
  "date_or_empty d = (case d of Some s \<Rightarrow> s | None \<Rightarrow> [])"

definition closed_later :: "date_parser \<Rightarrow> jsstring option \<Rightarrow> jsstring option \<Rightarrow> bool" where
  "closed_later parse_date a b \<longleftrightarrow>
     (case (parse_date (date_or_empty a), parse_date (date_or_empty b)) of (Some x, Some y) \<Rightarrow> x > y | _ \<Rightarrow> False)"

definition merge_state :: "date_parser \<Rightarrow> NotificationReadState \<Rightarrow> NotificationReadState \<Rightarrow> NotificationReadState" where
  "merge_state parse_date current incoming =
     (let closed = (if closed_later parse_date (closedUntilDate current) (closedUntilDate incoming) \<or> date_or_empty (closedUntilDate incoming) = []
                    then current else incoming)
      in \<lparr>readNoticeKeys = union_keys (readNoticeKeys current) (readNoticeKeys incoming),
          readAnnouncementKeys = union_keys (readAnnouncementKeys current) (readAnnouncementKeys incoming),
          closedUntilDate = closedUntilDate closed,
          closedNotificationKeys =
            (if closedUntilDate current = closedUntilDate incoming
             then union_keys (closedNotificationKeys current) (closedNotificationKeys incoming)
             else closedNotificationKeys closed)\<rparr>)"

definition merge_viewer :: "date_parser \<Rightarrow> viewers \<Rightarrow> jsstring \<times> NotificationReadState \<Rightarrow> viewers" where
  "merge_viewer parse_date vs e = AList.update (fst e) (merge_state parse_date (lookup_viewer (fst e) vs) (snd e)) vs"

definition mergeNotificationViewers :: "date_parser \<Rightarrow> json option \<Rightarrow> json option \<Rightarrow> viewers" where
  "mergeNotificationViewers parse_date left right = foldl (merge_viewer parse_date) (normalizeViewers left) (normalizeViewers right)"

section \<open>The store of a tab\<close>

definition read_state_json :: "NotificationReadState \<Rightarrow> json" where
  "read_state_json r = JObj
     [(js ''readNoticeKeys'', JArr (map JStr (readNoticeKeys r))),
      (js ''readAnnouncementKeys'', JArr (map JStr (readAnnouncementKeys r))),
      (js ''closedUntilDate'', case closedUntilDate r of None \<Rightarrow> JNull | Some s \<Rightarrow> JStr s),
      (js ''closedNotificationKeys'', JArr (map JStr (closedNotificationKeys r)))]"

definition viewers_json :: "viewers \<Rightarrow> json" where
  "viewers_json vs = JObj (map (\<lambda>(k, r). (k, read_state_json r)) vs)"

text \<open>\<open>item\<close> is what \<open>getItem\<close> answers; \<open>None\<close> also when it throws.\<close>

definition readStoredViewers :: "jsstring option \<Rightarrow> json option" where
  "readStoredViewers item =
     (case item of
        None \<Rightarrow> None
      | Some raw \<Rightarrow>
          (case json_parse raw of
             None \<Rightarrow> None
           | Some v \<Rightarrow> (case member ''state'' v of None \<Rightarrow> None | Some st \<Rightarrow> member ''readByViewer'' st)))"

definition getReadState :: "date_parser \<Rightarrow> jsstring option \<Rightarrow> jsstring \<Rightarrow> viewers \<Rightarrow> NotificationReadState" where
  "getReadState parse_date item viewer memory =
     lookup_viewer viewer (mergeNotificationViewers parse_date (Some (viewers_json memory)) (readStoredViewers item))"

definition update_viewer ::
    "date_parser \<Rightarrow> jsstring option \<Rightarrow> jsstring \<Rightarrow> (NotificationReadState \<Rightarrow> NotificationReadState) \<Rightarrow> viewers \<Rightarrow> viewers" where
  "update_viewer parse_date item viewer mutate memory =
     (let readByViewer = mergeNotificationViewers parse_date (Some (viewers_json memory)) (readStoredViewers item)
      in AList.update viewer (mutate (lookup_viewer viewer readByViewer)) readByViewer)"

definition markNoticeRead :: "jsstring \<Rightarrow> jsnum \<Rightarrow> NotificationReadState \<Rightarrow> NotificationReadState" where
  "markNoticeRead content publishedAt r =
     r\<lparr>readNoticeKeys := union_keys (readNoticeKeys r) [getNoticeKey \<lparr>nt_content = content, published_at = publishedAt\<rparr>]\<rparr>"

definition markAnnouncementsRead :: "jsstring list \<Rightarrow> NotificationReadState \<Rightarrow> NotificationReadState" where
  "markAnnouncementsRead keys r = r\<lparr>readAnnouncementKeys := union_keys (readAnnouncementKeys r) keys\<rparr>"

definition acknowledgeSnapshot ::
    "date_text \<Rightarrow> NotificationSnapshot \<Rightarrow> bool \<Rightarrow> jsnum \<Rightarrow> NotificationReadState \<Rightarrow> NotificationReadState" where
  "acknowledgeSnapshot day_of snapshot closeToday now r =
     (let keys = getSnapshotKeys snapshot
      in \<lparr>readNoticeKeys = union_keys (readNoticeKeys r) (fst keys),
          readAnnouncementKeys = union_keys (readAnnouncementKeys r) (snd keys),
          closedUntilDate = (if closeToday then Some (day_of now) else closedUntilDate r),
          closedNotificationKeys =
            (if closeToday
             then union_keys (if closedUntilDate r = Some (day_of now) then closedNotificationKeys r else []) (fst keys @ snd keys)
             else closedNotificationKeys r)\<rparr>)"

text \<open>Earlier versions of the stored state.\<close>

definition migrate_viewers :: "json \<Rightarrow> nat \<Rightarrow> viewers" where
  "migrate_viewers v version = (if version \<ge> 1 then normalizeViewers (member ''readByViewer'' v) else [])"

section \<open>Tabs\<close>

record Browser =
  memory :: "nat \<Rightarrow> viewers"
  disk :: "jsstring option"

datatype store_action =
    MarkNoticeRead jsstring jsnum
  | MarkAnnouncementsRead "jsstring list"
  | AcknowledgeSnapshot NotificationSnapshot bool jsnum

fun apply_action :: "date_text \<Rightarrow> store_action \<Rightarrow> NotificationReadState \<Rightarrow> NotificationReadState" where
  "apply_action day_of (MarkNoticeRead content publishedAt) r = markNoticeRead content publishedAt r"
| "apply_action day_of (MarkAnnouncementsRead keys) r = markAnnouncementsRead keys r"
| "apply_action day_of (AcknowledgeSnapshot snapshot closeToday now) r = acknowledgeSnapshot day_of snapshot closeToday now r"

text \<open>A tab acts for a viewer, reads the stored state again (at the start, and when another tab has
  written), or is closed and opened anew.  \<open>readable\<close> and \<open>writable\<close> say whether \<open>localStorage\<close> answers.
  A step of a tab is not interrupted by another tab.\<close>

datatype store_event =
    Act nat jsstring store_action bool bool
  | Rehydrate nat bool bool
  | Reopen nat

definition read_disk :: "bool \<Rightarrow> Browser \<Rightarrow> jsstring option" where
  "read_disk readable b = (if readable then disk b else None)"

definition set_memory :: "(viewers \<Rightarrow> jsstring) \<Rightarrow> nat \<Rightarrow> viewers \<Rightarrow> bool \<Rightarrow> Browser \<Rightarrow> Browser" where
  "set_memory persisted i vs writes b =
     b\<lparr>memory := (memory b)(i := vs), disk := (if writes then Some (persisted vs) else disk b)\<rparr>"

fun store_step :: "date_parser \<Rightarrow> date_text \<Rightarrow> (viewers \<Rightarrow> jsstring) \<Rightarrow> store_event \<Rightarrow> Browser \<Rightarrow> Browser" where
  "store_step parse_date day_of persisted (Act i viewer a readable writable) b =
     set_memory persisted i (update_viewer parse_date (read_disk readable b) viewer (apply_action day_of a) (memory b i)) writable b"
| "store_step parse_date day_of persisted (Rehydrate i readable writes) b =
     set_memory persisted i (mergeNotificationViewers parse_date (Some (viewers_json (memory b i))) (readStoredViewers (read_disk readable b)))
       writes b"
| "store_step parse_date day_of persisted (Reopen i) b = b\<lparr>memory := (memory b)(i := [])\<rparr>"

definition store_run :: "date_parser \<Rightarrow> date_text \<Rightarrow> (viewers \<Rightarrow> jsstring) \<Rightarrow> store_event list \<Rightarrow> Browser \<Rightarrow> Browser" where
  "store_run parse_date day_of persisted es b = foldl (\<lambda>b e. store_step parse_date day_of persisted e b) b es"

end
