(* ===== verification/Notification_Props.thy ===== *)
theory Notification_Props
  imports Notification_Store
begin

text \<open>
  The keys of notifications, and the tabs that share what was read: the store of every viewer refines
  copies of sets of keys that are joined, so nothing that was read is lost.
\<close>

section \<open>Keys\<close>

text \<open>The hash is the polynomial of the code units at 31, modulo \<open>2 ^ 32\<close>.\<close>

definition polynomial31 :: "jsstring \<Rightarrow> nat" where
  "polynomial31 s = foldl (\<lambda>a u. 31 * a + u) 0 s"

lemma hash_from_polynomial: "hash_from (of_nat a) s = of_nat (foldl (\<lambda>a u. 31 * a + u) a s)"
proof (induction s arbitrary: a)
  case (Cons u s)
  have "push_bit 5 (of_nat a) - of_nat a + of_nat u = (of_nat (31 * a + u) :: 32 word)"
    by (simp add: push_bit_eq_mult algebra_simps)
  then show ?case using Cons [of "31 * a + u"] by simp
qed simp

definition value36 :: "nat \<Rightarrow> nat" where
  "value36 c = (if c < 58 then c - 48 else c - 87)"

lemma read_radix36: "foldl (\<lambda>a c. 36 * a + value36 c) 0 (show_radix36 n) = n"
proof (induction n rule: show_radix36.induct)
  case (1 n)
  then show ?case by (subst show_radix36.simps) (auto simp: digit36_def value36_def)
qed

lemma show_radix36_start: "\<exists>c t. show_radix36 n = c # t \<and> c \<noteq> 45"
proof (induction n rule: show_radix36.induct)
  case (1 n)
  then show ?case by (cases "n < 36") (auto simp: show_radix36.simps [of n] digit36_def)
qed

lemma show_int36_inj: "show_int36 i = show_int36 j \<longleftrightarrow> i = j"
proof
  assume e: "show_int36 i = show_int36 j"
  have r: "show_radix36 a = show_radix36 b \<Longrightarrow> a = b" for a b using read_radix36 by metis
  have n: "45 # s \<noteq> show_radix36 k" for s k using show_radix36_start [of k] by auto
  show "i = j"
  proof (cases "i < 0")
    case True
    then have "j < 0" using e n by (metis show_int36_def)
    with True e have "nat (- i) = nat (- j)" by (intro r) (simp add: show_int36_def)
    with True \<open>j < 0\<close> show ?thesis by simp
  next
    case False
    then have "\<not> j < 0" using e n by (metis show_int36_def)
    with False e have "nat i = nat j" by (intro r) (simp add: show_int36_def)
    with False \<open>\<not> j < 0\<close> show ?thesis by simp
  qed
qed simp

text \<open>The hash in a key says as much of a text as the polynomial of its code units at 31 modulo
  \<open>2 ^ 32\<close>, although the code computes it in signed 32-bit steps and prints it in base 36.\<close>

theorem hash_text_polynomial: "hashString a = hashString b \<longleftrightarrow> polynomial31 a mod 2 ^ 32 = polynomial31 b mod 2 ^ 32"
proof -
  have "hash_from 0 s = of_nat (polynomial31 s)" for s
    using hash_from_polynomial [of 0 s] by (simp add: polynomial31_def)
  moreover have "sint x = sint y \<longleftrightarrow> x = y" for x y :: "32 word" by (auto dest: signed_word_eqI)
  ultimately show ?thesis
    by (simp add: hashString_def show_int36_inj word_of_nat_eq_iff take_bit_eq_mod)
qed

section \<open>Sets of keys\<close>

lemma set_union_keys [simp]: "set (union_keys a b) = set a \<union> set b"
  by (simp add: union_keys_def)

lemma string_items_own [simp]: "string_items (Some (JArr (map JStr ks))) = ks"
  by (induction ks) (simp_all add: string_items_def map_filter_def)

lemma normalize_own: "normalize_state (read_state_json r) = r\<lparr>readNoticeKeys := union_keys (readNoticeKeys r) []\<rparr>"
  by (simp add: normalize_state_def read_state_json_def member_JObj split: option.splits)

lemma map_of_kept:
  "distinct (map fst ps) \<Longrightarrow> map_of (foldl keep_viewer vs ps) k =
     (case map_of ps k of
        Some x \<Rightarrow> if viewer_key k \<and> object_item x then Some (normalize_state x) else map_of vs k
      | None \<Rightarrow> map_of vs k)"
proof (induction ps arbitrary: vs)
  case (Cons p ps)
  then have "map_of ps (fst p) = None" by (simp add: map_of_eq_None_iff)
  then show ?case using Cons by (auto simp: keep_viewer_def update_conv' split: option.splits)
qed simp

lemma map_of_merged:
  "distinct (map fst es) \<Longrightarrow> map_of (foldl (merge_viewer parse_date) vs es) k =
     (case map_of es k of Some r \<Rightarrow> Some (merge_state parse_date (lookup_viewer k vs) r) | None \<Rightarrow> map_of vs k)"
proof (induction es arbitrary: vs)
  case (Cons e es)
  then have "map_of es (fst e) = None" by (simp add: map_of_eq_None_iff)
  then show ?case using Cons by (auto simp: merge_viewer_def update_conv' lookup_viewer_def split: option.splits)
qed simp

lemma distinct_kept: "distinct (map fst vs) \<Longrightarrow> distinct (map fst (foldl keep_viewer vs ps))"
  by (induction ps arbitrary: vs) (simp_all add: keep_viewer_def distinct_update)

lemma distinct_normalize: "distinct (map fst (normalizeViewers v))"
  by (auto simp: normalizeViewers_def intro: distinct_kept split: option.splits json.splits)

lemma distinct_merge: "distinct (map fst (mergeNotificationViewers parse_date l r))"
proof -
  have "distinct (map fst vs) \<Longrightarrow> distinct (map fst (foldl (merge_viewer parse_date) vs es))" for vs es
    by (induction es arbitrary: vs) (simp_all add: merge_viewer_def distinct_update)
  then show ?thesis by (simp add: mergeNotificationViewers_def distinct_normalize)
qed

section \<open>States that can be stored\<close>

definition code_units :: "jsstring \<Rightarrow> bool" where
  "code_units s \<longleftrightarrow> list_all (\<lambda>u. u < 65536) s"

definition state_ok :: "NotificationReadState \<Rightarrow> bool" where
  "state_ok r \<longleftrightarrow> (\<forall>k \<in> set (readNoticeKeys r) \<union> set (readAnnouncementKeys r) \<union> set (closedNotificationKeys r) \<union> set_option (closedUntilDate r).
     code_units k)"

definition storable :: "viewers \<Rightarrow> bool" where
  "storable vs \<longleftrightarrow> distinct (map fst vs) \<and> (\<forall>k r. map_of vs k = Some r \<longrightarrow> viewer_key k \<and> state_ok r)"

text \<open>What the store relies on of the persistence middleware: the text it writes has the viewers under
  \<open>state.readByViewer\<close>.\<close>

definition persist_law :: "(viewers \<Rightarrow> jsstring) \<Rightarrow> bool" where
  "persist_law persisted \<longleftrightarrow> (\<forall>vs. storable vs \<longrightarrow> readStoredViewers (Some (persisted vs)) = Some (viewers_json vs))"

lemma viewer_key_plain: "viewer_key k \<Longrightarrow> k \<noteq> [] \<and> \<not> is_digit (hd k) \<and> code_units k"
proof (cases "k = js ''guest''")
  case False
  assume "viewer_key k"
  then have "take 5 k = js ''user:''" and r: "list_all is_digit (drop 5 k)"
    using False by (auto simp: viewer_key_def startsWith_def eval_nat_numeral)
  then have e: "js ''user:'' @ drop 5 k = k" by (metis append_take_drop_id)
  have "code_units (drop 5 k)" using r by (auto simp: code_units_def list_all_iff is_digit_def)
  then have "js ''user:'' @ w \<noteq> [] \<and> \<not> is_digit (hd (js ''user:'' @ w)) \<and> code_units (js ''user:'' @ w)" if "w = drop 5 k" for w
    using that by (simp add: is_digit_def code_units_def)
  from this [OF refl] show ?thesis unfolding e .
qed (simp add: is_digit_def code_units_def)

lemma storable_entries: "storable vs \<Longrightarrow> obj_entries (map (\<lambda>(k, r). (k, f r)) vs) = map (\<lambda>(k, r). (k, f r)) vs"
  using viewer_key_plain not_index_key by (intro no_index_entries) (force simp: storable_def)

lemma map_of_own:
  assumes "storable vs"
  shows "map_of (normalizeViewers (Some (viewers_json vs))) k = map_option (\<lambda>r. r\<lparr>readNoticeKeys := union_keys (readNoticeKeys r) []\<rparr>) (map_of vs k)"
proof -
  let ?ps = "map (\<lambda>(k, r). (k, read_state_json r)) vs"
  have "map fst ?ps = map fst vs" by (induction vs) auto
  then have d: "distinct (map fst ?ps)" using assms by (simp only: storable_def)
  have m: "map_of ?ps k = map_option read_state_json (map_of vs k)" by (induction vs) auto
  have "object_item (read_state_json r)" for r by (simp add: object_item_def read_state_json_def)
  then show ?thesis
    using map_of_kept [OF d, of "[]" k] assms m
    by (cases "map_of vs k") (simp_all add: normalizeViewers_def viewers_json_def storable_entries [OF assms] normalize_own storable_def)
qed

section \<open>Sets of keys that are read\<close>

record read_sets =
  notices :: "jsstring set"
  announced :: "jsstring set"
  closed_on :: "jsstring option"
  closed_set :: "jsstring set"

definition sets_of :: "NotificationReadState \<Rightarrow> read_sets" where
  "sets_of r = \<lparr>notices = set (readNoticeKeys r), announced = set (readAnnouncementKeys r), closed_on = closedUntilDate r,
     closed_set = set (closedNotificationKeys r)\<rparr>"

definition nothing_read :: read_sets where
  "nothing_read = \<lparr>notices = {}, announced = {}, closed_on = None, closed_set = {}\<rparr>"

definition join_sets :: "date_parser \<Rightarrow> read_sets \<Rightarrow> read_sets \<Rightarrow> read_sets" where
  "join_sets parse_date a b =
     (let closed = (if closed_later parse_date (closed_on a) (closed_on b) \<or> date_or_empty (closed_on b) = [] then a else b)
      in \<lparr>notices = notices a \<union> notices b, announced = announced a \<union> announced b, closed_on = closed_on closed,
          closed_set = (if closed_on a = closed_on b then closed_set a \<union> closed_set b else closed_set closed)\<rparr>)"

lemma sets_of_merge: "sets_of (merge_state parse_date a b) = join_sets parse_date (sets_of a) (sets_of b)"
  by (simp add: sets_of_def merge_state_def join_sets_def Let_def)

lemma sets_of_empty: "sets_of EMPTY_NOTIFICATION_READ_STATE = nothing_read"
  by (simp add: sets_of_def EMPTY_NOTIFICATION_READ_STATE_def nothing_read_def)

lemma join_nothing: "join_sets parse_date a nothing_read = a"
  by (auto simp: join_sets_def nothing_read_def date_or_empty_def Let_def)

definition sets_for :: "jsstring \<Rightarrow> viewers \<Rightarrow> read_sets" where
  "sets_for k vs = sets_of (lookup_viewer k vs)"

lemma sets_for_own: "storable vs \<Longrightarrow> sets_for k (normalizeViewers (Some (viewers_json vs))) = sets_for k vs"
  by (auto simp: sets_for_def lookup_viewer_def map_of_own sets_of_def split: option.splits)

text \<open>What is on the disk: nothing of use, or viewers that a tab has stored.\<close>

definition on_disk :: "json option \<Rightarrow> viewers \<Rightarrow> bool" where
  "on_disk v ds \<longleftrightarrow> storable ds \<and> (v = None \<and> ds = [] \<or> v = Some (viewers_json ds))"

lemma merged_sets:
  assumes "storable vs" "on_disk v ds"
  shows "sets_for k (mergeNotificationViewers parse_date (Some (viewers_json vs)) v) = join_sets parse_date (sets_for k vs) (sets_for k ds)"
proof -
  have "sets_for k (normalizeViewers v) = sets_for k ds"
    using assms(2) sets_for_own [of ds k] by (auto simp: on_disk_def normalizeViewers_def)
  then show ?thesis
    using map_of_merged [OF distinct_normalize, of parse_date "normalizeViewers (Some (viewers_json vs))" v k] sets_for_own [OF assms(1), of k]
    by (auto simp: sets_for_def lookup_viewer_def mergeNotificationViewers_def sets_of_merge sets_of_empty join_nothing split: option.splits)
qed

section \<open>Copies that are joined\<close>

text \<open>The abstract store of one viewer: a copy in every tab and one that is shared.\<close>

record 's replica =
  copies :: "nat \<Rightarrow> 's"
  shared :: 's

definition sync :: "('s \<Rightarrow> 's \<Rightarrow> 's) \<Rightarrow> 's \<Rightarrow> nat \<Rightarrow> ('s \<Rightarrow> 's) \<Rightarrow> bool \<Rightarrow> bool \<Rightarrow> 's replica \<Rightarrow> 's replica" where
  "sync combine nothing i f reads writes R =
     (let x = f (combine (copies R i) (if reads then shared R else nothing))
      in R\<lparr>copies := (copies R)(i := x), shared := (if writes then x else shared R)\<rparr>)"

fun apply_sets :: "date_text \<Rightarrow> store_action \<Rightarrow> read_sets \<Rightarrow> read_sets" where
  "apply_sets day_of (MarkNoticeRead content publishedAt) r =
     r\<lparr>notices := insert (getNoticeKey \<lparr>nt_content = content, published_at = publishedAt\<rparr>) (notices r)\<rparr>"
| "apply_sets day_of (MarkAnnouncementsRead keys) r = r\<lparr>announced := announced r \<union> set keys\<rparr>"
| "apply_sets day_of (AcknowledgeSnapshot snapshot closeToday now) r =
     \<lparr>notices = notices r \<union> set (fst (getSnapshotKeys snapshot)), announced = announced r \<union> set (snd (getSnapshotKeys snapshot)),
      closed_on = (if closeToday then Some (day_of now) else closed_on r),
      closed_set = (if closeToday then (if closed_on r = Some (day_of now) then closed_set r else {})
          \<union> set (fst (getSnapshotKeys snapshot)) \<union> set (snd (getSnapshotKeys snapshot)) else closed_set r)\<rparr>"

fun replica_step :: "date_parser \<Rightarrow> date_text \<Rightarrow> jsstring \<Rightarrow> store_event \<Rightarrow> read_sets replica \<Rightarrow> read_sets replica" where
  "replica_step parse_date day_of v (Act i viewer a readable writable) R =
     sync (join_sets parse_date) nothing_read i (if viewer = v then apply_sets day_of a else id) readable writable R"
| "replica_step parse_date day_of v (Rehydrate i readable writes) R = sync (join_sets parse_date) nothing_read i id readable writes R"
| "replica_step parse_date day_of v (Reopen i) R = R\<lparr>copies := (copies R)(i := nothing_read)\<rparr>"

definition replica_of :: "jsstring \<Rightarrow> Browser \<Rightarrow> read_sets replica" where
  "replica_of v b = \<lparr>copies = (\<lambda>i. sets_for v (memory b i)), shared = sets_for v (normalizeViewers (readStoredViewers (disk b)))\<rparr>"

definition good_browser :: "Browser \<Rightarrow> bool" where
  "good_browser b \<longleftrightarrow> (\<forall>i. storable (memory b i)) \<and> (\<exists>ds. on_disk (readStoredViewers (disk b)) ds)"

fun action_texts :: "date_text \<Rightarrow> store_action \<Rightarrow> jsstring set" where
  "action_texts day_of (MarkNoticeRead content publishedAt) = {getNoticeKey \<lparr>nt_content = content, published_at = publishedAt\<rparr>}"
| "action_texts day_of (MarkAnnouncementsRead keys) = set keys"
| "action_texts day_of (AcknowledgeSnapshot snapshot closeToday now) =
     set (fst (getSnapshotKeys snapshot)) \<union> set (snd (getSnapshotKeys snapshot)) \<union> (if closeToday then {day_of now} else {})"

fun event_ok :: "date_text \<Rightarrow> store_event \<Rightarrow> bool" where
  "event_ok day_of (Act i viewer a readable writable) \<longleftrightarrow> viewer_key viewer \<and> (\<forall>k\<in>action_texts day_of a. code_units k)"
| "event_ok day_of e \<longleftrightarrow> True"

lemma sets_of_action: "sets_of (apply_action day_of a r) = apply_sets day_of a (sets_of r)"
  by (cases a) (auto simp: sets_of_def markNoticeRead_def markAnnouncementsRead_def acknowledgeSnapshot_def Let_def)

lemma state_ok_action: "state_ok r \<Longrightarrow> \<forall>k\<in>action_texts day_of a. code_units k \<Longrightarrow> state_ok (apply_action day_of a r)"
  by (cases a) (auto simp: state_ok_def markNoticeRead_def markAnnouncementsRead_def acknowledgeSnapshot_def Let_def split: if_splits)

lemma state_ok_empty [simp]: "state_ok EMPTY_NOTIFICATION_READ_STATE"
  by (simp add: state_ok_def EMPTY_NOTIFICATION_READ_STATE_def)

lemma state_ok_merge: "state_ok a \<Longrightarrow> state_ok b \<Longrightarrow> state_ok (merge_state parse_date a b)"
  by (auto simp: state_ok_def merge_state_def Let_def)

lemma storable_lookup: "storable vs \<Longrightarrow> state_ok (lookup_viewer k vs)"
  by (auto simp: storable_def lookup_viewer_def split: option.splits)

lemma storable_update: "storable vs \<Longrightarrow> viewer_key k \<Longrightarrow> state_ok r \<Longrightarrow> storable (AList.update k r vs)"
  by (auto simp: storable_def update_conv' distinct_update dest: map_of_SomeD split: if_splits)

lemma storable_own: "storable vs \<Longrightarrow> storable (normalizeViewers (Some (viewers_json vs)))"
  using distinct_normalize by (auto simp: storable_def map_of_own [unfolded storable_def] state_ok_def)

lemma storable_Nil [simp]: "storable []"
  by (simp add: storable_def)

lemma storable_merge:
  assumes "storable vs" "on_disk v ds"
  shows "storable (mergeNotificationViewers parse_date (Some (viewers_json vs)) v)"
proof -
  have l: "storable (normalizeViewers (Some (viewers_json vs)))" by (rule storable_own [OF assms(1)])
  have r: "storable (normalizeViewers v)" using assms(2) storable_own by (auto simp: on_disk_def normalizeViewers_def)
  show ?thesis unfolding storable_def
  proof (intro conjI distinct_merge allI impI)
    fix k s
    assume "map_of (mergeNotificationViewers parse_date (Some (viewers_json vs)) v) k = Some s"
    then show "viewer_key k" "state_ok s"
      using l r storable_lookup [OF l, of k] map_of_merged [OF distinct_normalize, of parse_date "normalizeViewers (Some (viewers_json vs))" v k]
      by (auto simp: storable_def mergeNotificationViewers_def intro: state_ok_merge split: option.splits)
  qed
qed

section \<open>The store refines the copies\<close>

lemma read_disk_on:
  assumes "good_browser b"
  obtains ds where "on_disk (readStoredViewers (read_disk reads b)) ds"
    "sets_for v ds = (if reads then shared (replica_of v b) else nothing_read)"
proof (cases reads)
  case True
  obtain ds where d: "on_disk (readStoredViewers (disk b)) ds" using assms by (auto simp: good_browser_def)
  then have "sets_for v ds = shared (replica_of v b)"
    using sets_for_own [of ds v] by (auto simp: on_disk_def replica_of_def normalizeViewers_def)
  then show ?thesis using that [of ds] d True by (simp add: read_disk_def)
next
  case False
  then show ?thesis
    using that [of "[]"] by (simp add: read_disk_def on_disk_def readStoredViewers_def sets_for_def lookup_viewer_def sets_of_empty)
qed

lemma sets_for_update: "sets_for v (AList.update k r vs) = (if v = k then sets_of r else sets_for v vs)"
  by (simp add: sets_for_def lookup_viewer_def update_conv')

lemma set_memory_refines:
  assumes "persist_law persisted" "good_browser b" "storable vs"
  shows "good_browser (set_memory persisted i vs writes b)"
    "replica_of v (set_memory persisted i vs writes b)
      = (replica_of v b)\<lparr>copies := (copies (replica_of v b))(i := sets_for v vs), shared := (if writes then sets_for v vs else shared (replica_of v b))\<rparr>"
proof -
  have p: "readStoredViewers (Some (persisted vs)) = Some (viewers_json vs)" using assms(1,3) by (simp add: persist_law_def)
  show "good_browser (set_memory persisted i vs writes b)"
    using assms(2,3) p by (auto simp: good_browser_def set_memory_def on_disk_def)
  show "replica_of v (set_memory persisted i vs writes b)
      = (replica_of v b)\<lparr>copies := (copies (replica_of v b))(i := sets_for v vs), shared := (if writes then sets_for v vs else shared (replica_of v b))\<rparr>"
    using p sets_for_own [OF assms(3)] by (auto simp: replica_of_def set_memory_def)
qed

lemma store_step_refines:
  assumes "persist_law persisted" "good_browser b" "event_ok day_of e"
  shows "good_browser (store_step parse_date day_of persisted e b)"
    "replica_of v (store_step parse_date day_of persisted e b) = replica_step parse_date day_of v e (replica_of v b)"
proof -
  have m: "storable (memory b i)" "copies (replica_of v b) i = sets_for v (memory b i)" for i
    using assms(2) by (auto simp: good_browser_def replica_of_def)
  have "good_browser (store_step parse_date day_of persisted e b)
      \<and> replica_of v (store_step parse_date day_of persisted e b) = replica_step parse_date day_of v e (replica_of v b)"
  proof (cases e)
    case (Act i viewer a reads writes)
    obtain ds where d: "on_disk (readStoredViewers (read_disk reads b)) ds"
        "sets_for v ds = (if reads then shared (replica_of v b) else nothing_read)"
      using read_disk_on [OF assms(2)] .
    define ms where "ms = mergeNotificationViewers parse_date (Some (viewers_json (memory b i))) (readStoredViewers (read_disk reads b))"
    have ms: "storable ms" "sets_for v ms = join_sets parse_date (sets_for v (memory b i)) (sets_for v ds)"
      unfolding ms_def by (rule storable_merge [OF m(1) d(1)], rule merged_sets [OF m(1) d(1)])
    let ?vs = "AList.update viewer (apply_action day_of a (lookup_viewer viewer ms)) ms"
    have vs: "storable ?vs" using ms(1) assms(3) Act by (intro storable_update state_ok_action storable_lookup) auto
    have "sets_for v ?vs = (if viewer = v then apply_sets day_of a else id) (sets_for v ms)"
      by (simp add: sets_for_update sets_of_action) (simp add: sets_for_def)
    then show ?thesis
      using set_memory_refines [OF assms(1,2) vs] ms(2) d(2) m(2) [of i] Act
      by (simp add: update_viewer_def Let_def sync_def flip: ms_def)
  next
    case (Rehydrate i reads writes)
    obtain ds where d: "on_disk (readStoredViewers (read_disk reads b)) ds"
        "sets_for v ds = (if reads then shared (replica_of v b) else nothing_read)"
      using read_disk_on [OF assms(2)] .
    define ms where "ms = mergeNotificationViewers parse_date (Some (viewers_json (memory b i))) (readStoredViewers (read_disk reads b))"
    have ms: "storable ms" "sets_for v ms = join_sets parse_date (sets_for v (memory b i)) (sets_for v ds)"
      unfolding ms_def by (rule storable_merge [OF m(1) d(1)], rule merged_sets [OF m(1) d(1)])
    then show ?thesis
      using set_memory_refines [OF assms(1,2) ms(1)] d(2) m(2) [of i] Rehydrate
      by (simp add: sync_def Let_def flip: ms_def)
  next
    case (Reopen i)
    then show ?thesis using assms(2)
      by (auto simp: good_browser_def replica_of_def sets_for_def lookup_viewer_def sets_of_empty fun_eq_iff)
  qed
  then show "good_browser (store_step parse_date day_of persisted e b)"
    "replica_of v (store_step parse_date day_of persisted e b) = replica_step parse_date day_of v e (replica_of v b)" by blast+
qed

section \<open>Nothing that was read is lost\<close>

locale joined_copies =
  fixes below :: "'s \<Rightarrow> 's \<Rightarrow> bool" and combine :: "'s \<Rightarrow> 's \<Rightarrow> 's" and nothing :: 's
  assumes below_refl: "below a a"
    and below_trans: "below a b \<Longrightarrow> below b c \<Longrightarrow> below a c"
    and below_left: "below a (combine a b)"
    and below_right: "below b (combine a b)"
begin

lemma sync_copies:
  assumes "\<And>x. below x (f x)"
  shows "below (copies R j) (copies (sync combine nothing i f reads writes R) j)"
  using below_refl below_trans [OF below_left assms] by (simp add: sync_def Let_def)

lemma sync_shared:
  assumes "\<And>x. below x (f x)" "reads \<or> \<not> writes"
  shows "below (shared R) (shared (sync combine nothing i f reads writes R))"
  using assms(2) below_refl below_trans [OF below_right assms(1)] by (auto simp: sync_def Let_def)

end

definition read_below :: "read_sets \<Rightarrow> read_sets \<Rightarrow> bool" where
  "read_below a b \<longleftrightarrow> notices a \<subseteq> notices b \<and> announced a \<subseteq> announced b"

interpretation read_copies: joined_copies read_below "join_sets parse_date" nothing_read for parse_date
  by unfold_locales (auto simp: read_below_def join_sets_def Let_def)

lemma apply_sets_above: "read_below r (apply_sets day_of a r)"
  by (cases a) (auto simp: read_below_def)

text \<open>The keys that an action marks.\<close>

fun marked :: "store_action \<Rightarrow> read_sets" where
  "marked (MarkNoticeRead content publishedAt) = nothing_read\<lparr>notices := {getNoticeKey \<lparr>nt_content = content, published_at = publishedAt\<rparr>}\<rparr>"
| "marked (MarkAnnouncementsRead keys) = nothing_read\<lparr>announced := set keys\<rparr>"
| "marked (AcknowledgeSnapshot snapshot closeToday now) =
     nothing_read\<lparr>notices := set (fst (getSnapshotKeys snapshot)), announced := set (snd (getSnapshotKeys snapshot))\<rparr>"

lemma apply_sets_marked: "read_below (marked a) (apply_sets day_of a r)"
  by (cases a) (auto simp: read_below_def nothing_read_def)

lemma replica_step_copies:
  "e \<noteq> Reopen i \<Longrightarrow> read_below (copies R i) (copies (replica_step parse_date day_of v e R) i)"
  using apply_sets_above by (cases e) (auto intro!: read_copies.sync_copies simp: read_copies.below_refl)

fun reliable :: "store_event \<Rightarrow> bool" where
  "reliable (Act i viewer a readable writable) \<longleftrightarrow> readable \<and> writable"
| "reliable (Rehydrate i readable writes) \<longleftrightarrow> readable"
| "reliable (Reopen i) \<longleftrightarrow> True"

lemma replica_step_shared: "reliable e \<Longrightarrow> read_below (shared R) (shared (replica_step parse_date day_of v e R))"
  using apply_sets_above by (cases e) (auto intro!: read_copies.sync_shared simp: read_copies.below_refl)

lemma store_run_Cons [simp]:
  "store_run parse_date day_of persisted (e # es) b = store_run parse_date day_of persisted es (store_step parse_date day_of persisted e b)"
  "store_run parse_date day_of persisted [] b = b"
  by (simp_all add: store_run_def)

lemma run_good: "persist_law persisted \<Longrightarrow> good_browser b \<Longrightarrow> list_all (event_ok day_of) es
    \<Longrightarrow> good_browser (store_run parse_date day_of persisted es b)"
  by (induction es arbitrary: b) (simp_all add: store_step_refines(1))

lemma run_copies:
  assumes "persist_law persisted"
  shows "good_browser b \<Longrightarrow> list_all (event_ok day_of) es \<Longrightarrow> Reopen i \<notin> set es \<Longrightarrow>
    read_below (copies (replica_of v b) i) (copies (replica_of v (store_run parse_date day_of persisted es b)) i)"
proof (induction es arbitrary: b)
  case (Cons e es)
  let ?b = "store_step parse_date day_of persisted e b"
  have "read_below (copies (replica_of v b) i) (copies (replica_of v ?b) i)"
    using store_step_refines(2) [OF assms] replica_step_copies Cons.prems by auto
  moreover have "read_below (copies (replica_of v ?b) i) (copies (replica_of v (store_run parse_date day_of persisted es ?b)) i)"
    using Cons store_step_refines(1) [OF assms] by auto
  ultimately show ?case using read_copies.below_trans by auto
qed (simp add: read_copies.below_refl)

lemma run_shared:
  assumes "persist_law persisted"
  shows "good_browser b \<Longrightarrow> list_all (event_ok day_of) es \<Longrightarrow> list_all reliable es \<Longrightarrow>
    read_below (shared (replica_of v b)) (shared (replica_of v (store_run parse_date day_of persisted es b)))"
proof (induction es arbitrary: b)
  case (Cons e es)
  let ?b = "store_step parse_date day_of persisted e b"
  have "read_below (shared (replica_of v b)) (shared (replica_of v ?b))"
    using store_step_refines(2) [OF assms] replica_step_shared Cons.prems by auto
  moreover have "read_below (shared (replica_of v ?b)) (shared (replica_of v (store_run parse_date day_of persisted es ?b)))"
    using Cons store_step_refines(1) [OF assms] by auto
  ultimately show ?case using read_copies.below_trans by auto
qed (simp add: read_copies.below_refl)

lemma read_state_sets:
  assumes "good_browser b"
  shows "sets_of (getReadState parse_date (read_disk reads b) v (memory b i))
    = join_sets parse_date (copies (replica_of v b) i) (if reads then shared (replica_of v b) else nothing_read)"
proof -
  obtain ds where d: "on_disk (readStoredViewers (read_disk reads b)) ds"
      "sets_for v ds = (if reads then shared (replica_of v b) else nothing_read)"
    using read_disk_on [OF assms] .
  have "storable (memory b i)" using assms by (simp add: good_browser_def)
  from merged_sets [OF this d(1), of v parse_date] d(2) show ?thesis
    by (simp add: getReadState_def sets_for_def replica_of_def)
qed


lemma act_marks:
  assumes "persist_law persisted" "good_browser b" "event_ok day_of (Act i v a reads writes)"
  shows "read_below (marked a) (copies (replica_of v (store_step parse_date day_of persisted (Act i v a reads writes) b)) i)"
    "writes \<Longrightarrow> read_below (marked a) (shared (replica_of v (store_step parse_date day_of persisted (Act i v a reads writes) b)))"
  using store_step_refines(2) [OF assms] apply_sets_marked by (simp_all add: sync_def Let_def)

lemmas below_state = read_copies.below_trans [OF _ read_copies.below_left] read_copies.below_trans [OF _ read_copies.below_right]

text \<open>What a tab has marked as read stays read in it: after any further steps of any tabs, whether or
  not the storage of the browser can be read or written, the read state of the tab has the keys that
  the action marked, unless the tab was closed.\<close>

theorem marked_stays_read:
  assumes "persist_law persisted" "good_browser b" "list_all (event_ok day_of) (Act i v a reads writes # es)" "Reopen i \<notin> set es"
    and "b' = store_run parse_date day_of persisted (Act i v a reads writes # es) b"
  shows "notices (marked a) \<subseteq> set (readNoticeKeys (getReadState parse_date (read_disk readable b') v (memory b' i)))
    \<and> announced (marked a) \<subseteq> set (readAnnouncementKeys (getReadState parse_date (read_disk readable b') v (memory b' i)))"
proof -
  let ?b = "store_step parse_date day_of persisted (Act i v a reads writes) b"
  have ok: "event_ok day_of (Act i v a reads writes)" "list_all (event_ok day_of) es" using assms(3) by simp_all
  have g: "good_browser ?b" by (rule store_step_refines(1) [OF assms(1,2) ok(1)])
  have "read_below (marked a) (copies (replica_of v b') i)"
    using act_marks(1) [OF assms(1,2) ok(1)] run_copies [OF assms(1) g ok(2) assms(4)] read_copies.below_trans assms(5) by simp blast
  moreover have "good_browser b'" using run_good [OF assms(1) g ok(2)] assms(5) by simp
  ultimately have "read_below (marked a) (sets_of (getReadState parse_date (read_disk readable b') v (memory b' i)))"
    using below_state(1) by (simp add: read_state_sets del: if_split)
  then show ?thesis by (simp add: read_below_def sets_of_def)
qed

text \<open>C12: What one tab has marked as read is read in all: with a storage that answers, after any further
  steps of any tabs, closed and reopened ones included, the read state of every tab has the keys that
  the action marked, so no tab overwrites the acknowledgements of another with an older copy.\<close>

theorem marked_read_everywhere:
  assumes "persist_law persisted" "good_browser b" "list_all (event_ok day_of) (Act i v a True True # es)" "list_all reliable es"
    and "b' = store_run parse_date day_of persisted (Act i v a True True # es) b"
  shows "notices (marked a) \<subseteq> set (readNoticeKeys (getReadState parse_date (disk b') v (memory b' j)))
    \<and> announced (marked a) \<subseteq> set (readAnnouncementKeys (getReadState parse_date (disk b') v (memory b' j)))"
proof -
  let ?b = "store_step parse_date day_of persisted (Act i v a True True) b"
  have ok: "event_ok day_of (Act i v a True True)" "list_all (event_ok day_of) es" using assms(3) by simp_all
  have g: "good_browser ?b" by (rule store_step_refines(1) [OF assms(1,2) ok(1)])
  have "read_below (marked a) (shared (replica_of v b'))"
    using act_marks(2) [OF assms(1,2) ok(1)] run_shared [OF assms(1) g ok(2) assms(4)] read_copies.below_trans assms(5) by simp blast
  moreover have "good_browser b'" using run_good [OF assms(1) g ok(2)] assms(5) by simp
  ultimately have "read_below (marked a) (sets_of (getReadState parse_date (read_disk True b') v (memory b' j)))"
    using below_state(2) by (simp add: read_state_sets)
  then show ?thesis by (simp add: read_below_def sets_of_def read_disk_def)
qed

section \<open>Nothing is shown twice\<close>

lemma join_same: "join_sets parse_date x x = x"
  by (simp add: join_sets_def Let_def)

text \<open>After the tab has acknowledged the recent unread notifications of a feed, for today or not, the
  same feed has none for it.\<close>

lemma acknowledged_not_unread:
  assumes "persist_law persisted" "good_browser b"
    and "getRecentUnreadNotifications parse_date day_of feed (getReadState parse_date (disk b) v (memory b i)) = Some snap"
    and "e = Act i v (AcknowledgeSnapshot snap closeToday (server_time feed)) True True" "event_ok day_of e"
    and "b' = store_step parse_date day_of persisted e b"
  shows "getRecentUnreadNotifications parse_date day_of feed (getReadState parse_date (disk b') v (memory b' i)) = None"
proof -
  define r r' where "r = getReadState parse_date (disk b) v (memory b i)" and "r' = getReadState parse_date (disk b') v (memory b' i)"
  let ?now = "server_time feed" and ?p = "getPublishedNotifications parse_date feed"
  have b': "good_browser b'" "replica_of v b' = replica_step parse_date day_of v e (replica_of v b)"
    using store_step_refines [OF assms(1,2,5)] assms(6) by simp_all
  have "sets_of r = join_sets parse_date (copies (replica_of v b) i) (shared (replica_of v b))"
    using read_state_sets [OF assms(2), of parse_date True v i] by (simp add: r_def read_disk_def)
  moreover have "sets_of r' = join_sets parse_date (copies (replica_of v b') i) (shared (replica_of v b'))"
    using read_state_sets [OF b'(1), of parse_date True v i] by (simp add: r'_def read_disk_def)
  ultimately have s: "sets_of r' = apply_sets day_of (AcknowledgeSnapshot snap closeToday ?now) (sets_of r)"
    by (simp add: b'(2) assms(4) sync_def Let_def join_same)
  have keys: "set (readNoticeKeys r') = set (readNoticeKeys r) \<union> set (fst (getSnapshotKeys snap))"
      "set (readAnnouncementKeys r') = set (readAnnouncementKeys r) \<union> set (snd (getSnapshotKeys snap))"
      "set (closed_keys day_of ?now r) \<subseteq> set (closed_keys day_of ?now r')"
    using s by (auto simp: sets_of_def closed_keys_def)
  have snap: "sn_notice snap = (if notice_unread day_of ?now r (sn_notice ?p) then sn_notice ?p else no_notice)"
      "sn_announcements snap = filter (announcement_unread parse_date day_of ?now r) (sn_announcements ?p)"
    using assms(3) by (auto simp: getRecentUnreadNotifications_def Let_def r_def split: if_splits)
  have "\<not> notice_unread day_of ?now r' (sn_notice ?p)"
    using keys snap(1) by (auto simp: notice_unread_def getSnapshotKeys_def split: if_splits)
  moreover have "\<not> announcement_unread parse_date day_of ?now r' item" if "item \<in> set (sn_announcements ?p)" for item
    using keys snap(2) that by (auto simp: announcement_unread_def getSnapshotKeys_def)
  ultimately show ?thesis by (simp add: getRecentUnreadNotifications_def Let_def filter_empty_conv flip: r'_def)
qed

section \<open>A text that keeps the law\<close>

text \<open>The text of the state and its version, as the middleware writes it.\<close>

definition zustand_text :: "viewers \<Rightarrow> jsstring" where
  "zustand_text vs = json_stringify (JObj [(js ''state'', JObj [(js ''readByViewer'', viewers_json vs)]), (js ''version'', JNum (num 2))])"

lemma wf_strings: "wf_json (JArr (map JStr ks)) \<longleftrightarrow> (\<forall>k\<in>set ks. code_units k)"
  by (induction ks) (simp_all add: code_units_def)

lemma read_state_wf: "state_ok r \<Longrightarrow> wf_json (read_state_json r)"
proof -
  assume ok: "state_ok r"
  then have k: "wf_json (JArr (map JStr (readNoticeKeys r)))" "wf_json (JArr (map JStr (readAnnouncementKeys r)))"
      "wf_json (JArr (map JStr (closedNotificationKeys r)))"
    unfolding wf_strings by (auto simp: state_ok_def)
  have d: "wf_json (case closedUntilDate r of None \<Rightarrow> JNull | Some s \<Rightarrow> JStr s)"
    using ok by (auto simp: state_ok_def code_units_def split: option.splits)
  show ?thesis unfolding read_state_json_def
    by (rule wf_object) (use k d in \<open>auto simp: is_digit_def\<close>)
qed

lemma viewers_wf:
  assumes "storable vs"
  shows "wf_json (viewers_json vs)"
  unfolding viewers_json_def
proof (rule wf_object)
  have "map fst (map (\<lambda>(k, r). (k, read_state_json r)) vs) = map fst vs" by (induction vs) auto
  then show "distinct (map fst (map (\<lambda>(k, r). (k, read_state_json r)) vs))" using assms by (simp only: storable_def)
next
  fix k w
  assume "(k, w) \<in> set (map (\<lambda>(k, r). (k, read_state_json r)) vs)"
  then obtain r where "(k, r) \<in> set vs" "w = read_state_json r" by auto
  then show "k \<noteq> [] \<and> \<not> is_digit (hd k) \<and> list_all (\<lambda>u. u < 65536) k \<and> wf_json w"
    using assms viewer_key_plain [of k] read_state_wf by (auto simp: storable_def code_units_def)
qed

lemma zustand_persists: "persist_law zustand_text"
  unfolding persist_law_def
proof (intro allI impI)
  fix vs :: viewers
  assume "storable vs"
  then have v: "wf_json (viewers_json vs)" by (rule viewers_wf)
  have s: "wf_json (JObj [(js ''readByViewer'', viewers_json vs)])" by (rule wf_object) (use v in \<open>auto simp: is_digit_def\<close>)
  have n: "wf_json (JNum (num 2))" using json_num_nat [of 2] by simp
  have "wf_json (JObj [(js ''state'', JObj [(js ''readByViewer'', viewers_json vs)]), (js ''version'', JNum (num 2))])"
    by (rule wf_object) (use s n in \<open>auto simp: is_digit_def\<close>)
  from json_stringify_reads_back [OF this] show "readStoredViewers (Some (zustand_text vs)) = Some (viewers_json vs)"
    by (simp add: readStoredViewers_def zustand_text_def member_JObj)
qed

definition new_browser :: Browser where
  "new_browser = \<lparr>memory = (\<lambda>_. []), disk = None\<rparr>"

lemma new_browser_good: "good_browser new_browser"
  by (auto simp: good_browser_def new_browser_def on_disk_def readStoredViewers_def)

text \<open>Two tabs: the second marks an announcement, the first is reopened and marks another.\<close>

definition two_tabs :: "store_event list" where
  "two_tabs = [Rehydrate 1 True False, Act 1 (js ''guest'') (MarkAnnouncementsRead [js ''id:2:b'']) True True, Reopen 1]"

text \<open>C11: For every viewer the store of the tabs behaves as copies of sets of keys that are joined with the
  shared one, changed and written back: the JSON texts, their repair on reading, the sorted lists and
  the other viewers make no difference, in any sequence of steps of any tabs and with a storage that
  fails at any of them.\<close>

theorem store_run_refines:
  assumes "persist_law persisted" "good_browser b" "list_all (event_ok day_of) es"
  shows "replica_of v (store_run parse_date day_of persisted es b) = foldl (\<lambda>R e. replica_step parse_date day_of v e R) (replica_of v b) es"
  using assms(2,3)
proof (induction es arbitrary: b)
  case (Cons e es)
  then show ?case using store_step_refines [OF assms(1), of b day_of e] by simp
qed simp

theorem store_run_refines_witness:
  "replica_of (js ''guest'') (store_run (\<lambda>_. None) (\<lambda>_. []) zustand_text two_tabs new_browser)
   = \<lparr>copies = (\<lambda>_. nothing_read), shared = nothing_read\<lparr>announced := {js ''id:2:b''}\<rparr>\<rparr>"
proof -
  have n: "replica_of (js ''guest'') new_browser = \<lparr>copies = (\<lambda>_. nothing_read), shared = nothing_read\<rparr>"
    by (simp add: replica_of_def new_browser_def sets_for_def lookup_viewer_def readStoredViewers_def normalizeViewers_def sets_of_empty)
  have ok: "list_all (event_ok (\<lambda>_. [])) two_tabs" by (simp add: two_tabs_def viewer_key_def code_units_def)
  show ?thesis
    unfolding store_run_refines [OF zustand_persists new_browser_good ok] n
    by (simp add: two_tabs_def sync_def join_nothing Let_def fun_eq_iff) (simp add: nothing_read_def)
qed

theorem marked_stays_read_witness:
  "js ''id:1:a'' \<in> set (readAnnouncementKeys (getReadState (\<lambda>_. None) None (js ''guest'')
     (memory (store_run (\<lambda>_. None) (\<lambda>_. []) zustand_text (Act 0 (js ''guest'') (MarkAnnouncementsRead [js ''id:1:a'']) False False # two_tabs) new_browser) 0)))"
  using marked_stays_read [OF zustand_persists new_browser_good, of "\<lambda>_. []" 0 "js ''guest''" "MarkAnnouncementsRead [js ''id:1:a'']" False False
      two_tabs _ "\<lambda>_. None" False, OF _ _ refl]
  by (simp add: two_tabs_def viewer_key_def code_units_def nothing_read_def read_disk_def)

theorem marked_read_everywhere_witness:
  "js ''id:1:a'' \<in> set (readAnnouncementKeys (getReadState (\<lambda>_. None)
     (disk (store_run (\<lambda>_. None) (\<lambda>_. []) zustand_text (Act 0 (js ''guest'') (MarkAnnouncementsRead [js ''id:1:a'']) True True # two_tabs) new_browser))
     (js ''guest'')
     (memory (store_run (\<lambda>_. None) (\<lambda>_. []) zustand_text (Act 0 (js ''guest'') (MarkAnnouncementsRead [js ''id:1:a'']) True True # two_tabs) new_browser) 1)))"
  using marked_read_everywhere [OF zustand_persists new_browser_good, of "\<lambda>_. []" 0 "js ''guest''" "MarkAnnouncementsRead [js ''id:1:a'']"
      two_tabs _ "\<lambda>_. None" 1, OF _ _ refl]
  by (simp add: two_tabs_def viewer_key_def code_units_def nothing_read_def)

text \<open>A feed with a notice of one second ago.\<close>

definition sample_feed :: NotificationFeed where
  "sample_feed = \<lparr>server_time = num 1000, fd_notice = \<lparr>nt_content = js ''hi'', published_at = num 1\<rparr>, fd_announcements = []\<rparr>"

definition sample_notice :: NotificationSnapshot where
  "sample_notice = \<lparr>sn_notice = \<lparr>nt_content = js ''hi'', published_at = num 1\<rparr>, sn_announcements = []\<rparr>"

lemma hash_units: "code_units (hashString s)"
proof -
  have "code_units (show_radix36 n)" for n
  proof (induction n rule: show_radix36.induct)
    case (1 n)
    have "n mod 36 < 36" by simp
    then show ?case using 1 by (subst show_radix36.simps) (auto simp: code_units_def digit36_def)
  qed
  then show ?thesis by (simp add: hashString_def show_int36_def code_units_def)
qed

lemma sample_unread:
  "getRecentUnreadNotifications (\<lambda>_. None) (\<lambda>_. []) sample_feed (getReadState (\<lambda>_. None) (disk new_browser) (js ''guest'') (memory new_browser 0))
   = Some sample_notice"
proof -
  have r: "getReadState (\<lambda>_. None) (disk new_browser) (js ''guest'') (memory new_browser 0) = EMPTY_NOTIFICATION_READ_STATE"
    by (simp add: getReadState_def new_browser_def mergeNotificationViewers_def normalizeViewers_def viewers_json_def readStoredViewers_def
        lookup_viewer_def obj_entries_def)
  have t: "js_mul (num 1) (num 1000) = num 1000" using round64_nat [of 1000] by simp
  have d: "js_sub (num 1000) (num 1000) = num 0" using round64_nat [of 0] by (simp add: js_sub_def)
  have p: "getPublishedNotifications (\<lambda>_. None) sample_feed = sample_notice"
    using t by (simp add: getPublishedNotifications_def sample_feed_def sample_notice_def getStatusAnnouncements_def member_JObj json_truthy_def
        newest_announcements_def trim_def is_ws_def Let_def)
  have "notice_unread (\<lambda>_. []) (num 1000) EMPTY_NOTIFICATION_READ_STATE (sn_notice sample_notice)"
    using t d by (simp add: notice_unread_def sample_notice_def isRecent_def EMPTY_NOTIFICATION_READ_STATE_def closed_keys_def DAY_MS_def js_le_def)
  moreover have "server_time sample_feed = num 1000" by (simp add: sample_feed_def)
  ultimately show ?thesis unfolding r by (simp add: getRecentUnreadNotifications_def p Let_def) (simp add: sample_notice_def)
qed

lemma sample_key_units: "code_units (getNoticeKey (sn_notice sample_notice))"
  using hash_units js_String_nat [of 1] show_nat_digits [of 1]
  by (auto simp: getNoticeKey_def sample_notice_def code_units_def list_all_iff is_digit_def)

end
