(* ===== verification/Notification_Session.thy ===== *)
theory Notification_Session
  imports Notification_Props
begin

text \<open>
  The notification dialog (\<open>hooks/use-notifications.ts\<close>) over the store of tab 0: it opens by itself when
  a refreshed feed has recent unread items, or when the viewer opens it, and acknowledges what it
  shows.  The answer of the server, whether the page may be interrupted and the clock are part of an
  event; React keeps \<open>session\<close> and \<open>sessionRef\<close> equal between events.
\<close>

datatype session_kind = Automatic | Manual
datatype NotificationTab = NoticeTab | AnnouncementsTab

record NotificationSession =
  ns_viewer :: jsstring
  ns_kind :: session_kind
  ns_tab :: NotificationTab
  ns_snapshot :: NotificationSnapshot

record NotificationHook =
  viewerKey :: jsstring
  session :: "NotificationSession option"
  manualOpening :: "jsstring option"
  feed_data :: "NotificationFeed option"
  browser :: Browser

definition tab_part :: "NotificationTab \<Rightarrow> NotificationSnapshot \<Rightarrow> NotificationSnapshot" where
  "tab_part tab snapshot =
     (if tab = NoticeTab then \<lparr>sn_notice = sn_notice snapshot, sn_announcements = []\<rparr>
      else \<lparr>sn_notice = no_notice, sn_announcements = sn_announcements snapshot\<rparr>)"

definition own_session :: "NotificationHook \<Rightarrow> NotificationSession option" where
  "own_session h = (case session h of Some s \<Rightarrow> if ns_viewer s = viewerKey h then Some s else None | None \<Rightarrow> None)"

text \<open>The dates of the platform, the persistence middleware, and whether \<open>localStorage\<close> can be read and
  written.\<close>

record platform =
  pf_parse :: date_parser
  pf_day :: date_text
  pf_text :: "viewers \<Rightarrow> jsstring"
  pf_readable :: bool
  pf_writable :: bool

definition read_now :: "platform \<Rightarrow> NotificationHook \<Rightarrow> NotificationReadState" where
  "read_now pf h = getReadState (pf_parse pf) (read_disk (pf_readable pf) (browser h)) (viewerKey h) (memory (browser h) 0)"

definition acknowledge_event :: "platform \<Rightarrow> jsstring \<Rightarrow> NotificationSnapshot \<Rightarrow> bool \<Rightarrow> jsnum \<Rightarrow> store_event" where
  "acknowledge_event pf viewer snapshot today now = Act 0 viewer (AcknowledgeSnapshot snapshot today now) (pf_readable pf) (pf_writable pf)"

text \<open>A handler answers the new state and the steps it has the store do.\<close>

definition with_store :: "platform \<Rightarrow> store_event list \<Rightarrow> NotificationHook \<Rightarrow> NotificationHook \<times> store_event list" where
  "with_store pf es h = (h\<lparr>browser := store_run (pf_parse pf) (pf_day pf) (pf_text pf) es (browser h)\<rparr>, es)"

definition refresh :: "platform \<Rightarrow> bool \<Rightarrow> NotificationFeed option \<Rightarrow> NotificationHook \<Rightarrow> NotificationHook" where
  "refresh pf quiet result h =
     (case result of
        None \<Rightarrow> h
      | Some feed \<Rightarrow>
          (let h' = h\<lparr>feed_data := Some feed\<rparr>
           in if \<not> quiet \<or> manualOpening h = Some (viewerKey h) \<or> own_session h \<noteq> None then h'
              else (case getRecentUnreadNotifications (pf_parse pf) (pf_day pf) feed (read_now pf h) of
                 None \<Rightarrow> h'
               | Some snapshot \<Rightarrow>
                   h'\<lparr>session := Some \<lparr>ns_viewer = viewerKey h, ns_kind = Automatic, ns_tab = AnnouncementsTab, ns_snapshot = snapshot\<rparr>\<rparr>)))"

definition closeDialog :: "platform \<Rightarrow> bool \<Rightarrow> jsnum \<Rightarrow> NotificationHook \<Rightarrow> NotificationHook \<times> store_event list" where
  "closeDialog pf today clock_now h =
     (case own_session h of
        None \<Rightarrow> (h, [])
      | Some closing \<Rightarrow>
          (let snapshot = (if ns_kind closing = Automatic then ns_snapshot closing else tab_part (ns_tab closing) (ns_snapshot closing));
               now = (case feed_data h of Some feed \<Rightarrow> server_time feed | None \<Rightarrow> clock_now)
           in with_store pf [acknowledge_event pf (viewerKey h) snapshot today now] (h\<lparr>session := None\<rparr>)))"

definition target_tab :: "platform \<Rightarrow> NotificationTab option \<Rightarrow> NotificationSnapshot \<Rightarrow> NotificationHook \<Rightarrow> NotificationTab" where
  "target_tab pf tab snapshot h =
     (let n = sn_notice snapshot; noticeUnread = (nt_content n \<noteq> [] \<and> getNoticeKey n \<notin> set (readNoticeKeys (read_now pf h)))
      in case tab of
           Some t \<Rightarrow> t
         | None \<Rightarrow> if nt_content n \<noteq> [] \<and> (noticeUnread \<or> sn_announcements snapshot = []) then NoticeTab else AnnouncementsTab)"

text \<open>\<open>opener\<close> and \<open>shown\<close> are the viewer and the feed of the rendering in which the dialog was asked for;
  \<open>mounted\<close> tells that the component still is.\<close>

definition openDialog ::
    "platform \<Rightarrow> jsstring \<Rightarrow> NotificationFeed option \<Rightarrow> bool \<Rightarrow> NotificationFeed option \<Rightarrow> NotificationTab option \<Rightarrow> jsnum
     \<Rightarrow> NotificationHook \<Rightarrow> NotificationHook \<times> store_event list" where
  "openDialog pf opener shown mounted result tab clock_now h =
     (let opened = (if manualOpening h = Some opener then None else manualOpening h);
          h' = h\<lparr>manualOpening := opened, feed_data := (case result of Some feed \<Rightarrow> Some feed | None \<Rightarrow> feed_data h)\<rparr>
      in if \<not> mounted \<or> viewerKey h \<noteq> opener then (h', [])
         else (case (case result of Some feed \<Rightarrow> Some feed | None \<Rightarrow> shown) of
            None \<Rightarrow> (h', [])
          | Some feed \<Rightarrow>
              (let snapshot = getPublishedNotifications (pf_parse pf) feed; target = target_tab pf tab snapshot h
               in with_store pf [acknowledge_event pf opener (tab_part target snapshot) False clock_now]
                    (h'\<lparr>session := Some \<lparr>ns_viewer = opener, ns_kind = Manual, ns_tab = target, ns_snapshot = snapshot\<rparr>\<rparr>))))"

definition setActiveTab :: "platform \<Rightarrow> NotificationTab \<Rightarrow> jsnum \<Rightarrow> NotificationHook \<Rightarrow> NotificationHook \<times> store_event list" where
  "setActiveTab pf tab clock_now h =
     (case own_session h of
        None \<Rightarrow> (h, [])
      | Some previous \<Rightarrow>
          with_store pf [acknowledge_event pf (viewerKey h) (tab_part tab (ns_snapshot previous)) False clock_now]
            (h\<lparr>session := Some (previous\<lparr>ns_tab := tab\<rparr>)\<rparr>))"

definition unreadCounts :: "date_parser \<Rightarrow> NotificationFeed option \<Rightarrow> NotificationReadState \<Rightarrow> nat \<times> nat" where
  "unreadCounts parse_date data r =
     (case data of
        None \<Rightarrow> (0, 0)
      | Some feed \<Rightarrow>
          (let p = getPublishedNotifications parse_date feed
           in (if nt_content (sn_notice p) \<noteq> [] \<and> getNoticeKey (sn_notice p) \<notin> set (readNoticeKeys r) then 1 else 0,
               length (filter (\<lambda>item. getAnnouncementKey item \<notin> set (readAnnouncementKeys r)) (sn_announcements p)))))"

datatype hook_event =
    Refreshed bool "NotificationFeed option"
  | OpenAsked
  | Opened jsstring "NotificationFeed option" bool "NotificationFeed option" "NotificationTab option" jsnum
  | TabChosen NotificationTab jsnum
  | Closed bool jsnum
  | ViewerChanged jsstring
  | OtherTab store_event

fun hook_step :: "platform \<Rightarrow> hook_event \<Rightarrow> NotificationHook \<Rightarrow> NotificationHook \<times> store_event list" where
  "hook_step pf (Refreshed quiet result) h = (refresh pf quiet result h, [])"
| "hook_step pf OpenAsked h = (h\<lparr>manualOpening := Some (viewerKey h)\<rparr>, [])"
| "hook_step pf (Opened opener shown mounted result tab clock_now) h = openDialog pf opener shown mounted result tab clock_now h"
| "hook_step pf (TabChosen tab clock_now) h = setActiveTab pf tab clock_now h"
| "hook_step pf (Closed today clock_now) h = closeDialog pf today clock_now h"
| "hook_step pf (ViewerChanged v) h = (h\<lparr>viewerKey := v\<rparr>, [])"
| "hook_step pf (OtherTab e) h = (h\<lparr>browser := store_step (pf_parse pf) (pf_day pf) (pf_text pf) e (browser h)\<rparr>, [])"

section \<open>What the dialog acknowledges\<close>

definition snapshot_keys :: "NotificationSnapshot \<Rightarrow> jsstring set" where
  "snapshot_keys snapshot = set (fst (getSnapshotKeys snapshot)) \<union> set (snd (getSnapshotKeys snapshot))"

definition shown_keys :: "NotificationSession option \<Rightarrow> jsstring set" where
  "shown_keys s = (case s of None \<Rightarrow> {} | Some x \<Rightarrow> snapshot_keys (ns_snapshot x))"

lemma tab_part_keys: "snapshot_keys (tab_part tab snapshot) \<subseteq> snapshot_keys snapshot"
  by (auto simp: snapshot_keys_def getSnapshotKeys_def tab_part_def no_notice_def)

lemma own_session_Some: "own_session h = Some s \<longleftrightarrow> session h = Some s \<and> ns_viewer s = viewerKey h"
  by (auto simp: own_session_def split: option.splits if_splits)

definition marks_shown :: "platform \<Rightarrow> NotificationHook \<Rightarrow> NotificationHook \<Rightarrow> store_event \<Rightarrow> bool" where
  "marks_shown pf h h' x \<longleftrightarrow> (\<exists>snapshot today now. x = acknowledge_event pf (viewerKey h) snapshot today now
     \<and> snapshot_keys snapshot \<subseteq> shown_keys (own_session h) \<union> shown_keys (own_session h'))"

lemma marks_shownI:
  "snapshot_keys snapshot \<subseteq> shown_keys (own_session h) \<union> shown_keys (own_session h')
   \<Longrightarrow> marks_shown pf h h' (acknowledge_event pf (viewerKey h) snapshot today now)"
  by (auto simp: marks_shown_def)

lemma openDialog_marks: "openDialog pf opener shown mounted result tab clock_now h = (h', es) \<Longrightarrow> list_all (marks_shown pf h h') es"
  by (auto simp: openDialog_def with_store_def Let_def own_session_def shown_keys_def intro!: marks_shownI
      dest!: tab_part_keys [THEN subsetD] split: if_splits option.splits)

text \<open>The events in which the viewer does something with the dialog of this tab.\<close>

fun viewer_acts :: "hook_event \<Rightarrow> bool" where
  "viewer_acts (Opened opener shown mounted result tab clock_now) = True"
| "viewer_acts (TabChosen tab clock_now) = True"
| "viewer_acts (Closed today clock_now) = True"
| "viewer_acts _ = False"

lemma hook_step_writes:
  assumes "hook_step pf e h = (h', es)" "\<forall>x. e \<noteq> OtherTab x"
  shows "browser h' = store_run (pf_parse pf) (pf_day pf) (pf_text pf) es (browser h) \<and> (\<not> viewer_acts e \<longrightarrow> es = [])"
  using assms
  by (cases e) (auto simp: refresh_def openDialog_def setActiveTab_def closeDialog_def with_store_def store_run_def Let_def
      split: option.splits if_splits)

lemma hook_step_marks:
  assumes "hook_step pf e h = (h', es)"
  shows "list_all (marks_shown pf h h') es"
proof (cases e)
  case (Opened opener shown mounted result tab clock_now)
  then show ?thesis using assms openDialog_marks by auto
next
  case (TabChosen tab clock_now)
  then show ?thesis using assms
    by (cases "own_session h") (auto simp: setActiveTab_def with_store_def shown_keys_def intro!: marks_shownI dest!: tab_part_keys [THEN subsetD])
next
  case (Closed today clock_now)
  then show ?thesis using assms
    by (cases "own_session h") (auto simp: closeDialog_def with_store_def shown_keys_def Let_def intro!: marks_shownI dest!: tab_part_keys [THEN subsetD] split: if_splits)
qed (use assms in auto)

text \<open>C13: The dialog acknowledges only what it shows, and only when the viewer opens it, chooses a tab or
  closes it.  In every step other than another tab's, what the store holds afterwards is what the
  recorded store actions make of it; each of them is for the current viewer, with keys of the batch
  of a session of that viewer that was open before the step or is after it.  A refreshed feed, also
  one that opens the dialog, a request to open it and another viewer record none and leave the store
  as it is, and a refreshed feed leaves an open session as it is.\<close>

theorem acknowledges_only_shown:
  assumes "hook_step pf e h = (h', es)"
  shows "list_all (marks_shown pf h h') es
    \<and> ((\<forall>x. e \<noteq> OtherTab x) \<longrightarrow> browser h' = store_run (pf_parse pf) (pf_day pf) (pf_text pf) es (browser h))
    \<and> (e = Refreshed quiet result \<or> e = OpenAsked \<or> e = ViewerChanged v \<longrightarrow> es = [] \<and> browser h' = browser h)
    \<and> (e = Refreshed quiet result \<longrightarrow> own_session h \<noteq> None \<longrightarrow> session h' = session h)"
proof -
  have "browser h' = browser h" "es = []" if "e = Refreshed quiet result \<or> e = OpenAsked \<or> e = ViewerChanged v"
    using that hook_step_writes [OF assms] by (auto simp: store_run_def)
  moreover have "session h' = session h" if "e = Refreshed quiet result" "own_session h \<noteq> None"
    using that assms by (auto simp: refresh_def Let_def split: option.splits)
  ultimately show ?thesis using hook_step_marks [OF assms] hook_step_writes [OF assms] by blast
qed

section \<open>Examples\<close>

definition sample_platform :: platform where
  "sample_platform = \<lparr>pf_parse = (\<lambda>_. None), pf_day = (\<lambda>_. []), pf_text = zustand_text, pf_readable = True, pf_writable = True\<rparr>"

definition sample_hook :: NotificationHook where
  "sample_hook = \<lparr>viewerKey = js ''guest'', session = None, manualOpening = None, feed_data = None, browser = new_browser\<rparr>"

definition sample_session :: NotificationSession where
  "sample_session = \<lparr>ns_viewer = js ''guest'', ns_kind = Automatic, ns_tab = AnnouncementsTab, ns_snapshot = sample_notice\<rparr>"

lemma sample_opens:
  "refresh sample_platform True (Some sample_feed) sample_hook = sample_hook\<lparr>feed_data := Some sample_feed, session := Some sample_session\<rparr>"
  using sample_unread
  by (simp add: refresh_def sample_platform_def sample_hook_def sample_session_def own_session_def read_now_def read_disk_def)

theorem acknowledges_only_shown_witness:
  "snd (hook_step sample_platform (Closed True (num 0)) (sample_hook\<lparr>session := Some sample_session\<rparr>)) \<noteq> [] \<and>
   list_all (marks_shown sample_platform (sample_hook\<lparr>session := Some sample_session\<rparr>)
       (fst (hook_step sample_platform (Closed True (num 0)) (sample_hook\<lparr>session := Some sample_session\<rparr>))))
     (snd (hook_step sample_platform (Closed True (num 0)) (sample_hook\<lparr>session := Some sample_session\<rparr>)))"
proof -
  obtain h es where e: "hook_step sample_platform (Closed True (num 0)) (sample_hook\<lparr>session := Some sample_session\<rparr>) = (h, es)" by fastforce
  have "es \<noteq> []"
    using e by (auto simp: closeDialog_def with_store_def own_session_def sample_hook_def sample_session_def Let_def)
  then show ?thesis unfolding e using acknowledges_only_shown [OF e] by simp
qed

section \<open>Closing the dialog\<close>

text \<open>C14: A batch that was closed does not come back: when a refreshed feed has opened the dialog by itself
  and the viewer closes it, for today or not, refreshing with the same feed opens nothing.\<close>

theorem closed_batch_stays_closed:
  assumes "persist_law (pf_text pf)" "pf_readable pf" "pf_writable pf" "good_browser (browser h)" "viewer_key (viewerKey h)"
    and "manualOpening h \<noteq> Some (viewerKey h)" "own_session h = None"
    and "own_session (refresh pf True (Some feed) h) = Some s"
    and "\<forall>k \<in> insert (pf_day pf (server_time feed)) (snapshot_keys (ns_snapshot s)). code_units k"
    and "closeDialog pf today clock_now (refresh pf True (Some feed) h) = (h', es)"
  shows "session (refresh pf True (Some feed) h') = None"
proof -
  let ?r = "\<lambda>b. getReadState (pf_parse pf) (disk b) (viewerKey h) (memory b 0)"
  let ?unread = "\<lambda>b. getRecentUnreadNotifications (pf_parse pf) (pf_day pf) feed (?r b)"
  let ?e = "Act 0 (viewerKey h) (AcknowledgeSnapshot (ns_snapshot s) today (server_time feed)) True True"
  obtain snap where snap: "?unread (browser h) = Some snap" and s: "s = \<lparr>ns_viewer = viewerKey h, ns_kind = Automatic, ns_tab = AnnouncementsTab, ns_snapshot = snap\<rparr>"
    and h1: "refresh pf True (Some feed) h = h\<lparr>feed_data := Some feed, session := Some s\<rparr>"
    using assms(2,6,7,8)
    by (auto simp: refresh_def read_now_def read_disk_def own_session_def Let_def split: option.splits if_splits)
  have h': "h' = h\<lparr>feed_data := Some feed, session := None, browser := store_step (pf_parse pf) (pf_day pf) (pf_text pf) ?e (browser h)\<rparr>"
    using assms(2,3,10) unfolding h1
    by (auto simp: closeDialog_def own_session_def with_store_def acknowledge_event_def s Let_def)
  have ok: "event_ok (pf_day pf) ?e" using assms(5,9) by (auto simp: snapshot_keys_def)
  have "?unread (store_step (pf_parse pf) (pf_day pf) (pf_text pf) ?e (browser h)) = None"
    by (rule acknowledged_not_unread [OF assms(1,4) _ _ ok refl, where closeToday = today]) (use snap s in simp_all)
  then show ?thesis using assms(2) by (simp add: h' refresh_def read_now_def read_disk_def own_session_def Let_def)
qed

theorem closed_batch_stays_closed_witness:
  "own_session (refresh sample_platform True (Some sample_feed) sample_hook) = Some sample_session \<and>
   session (refresh sample_platform True (Some sample_feed)
     (fst (closeDialog sample_platform True (num 0) (refresh sample_platform True (Some sample_feed) sample_hook)))) = None"
proof -
  have o: "own_session (refresh sample_platform True (Some sample_feed) sample_hook) = Some sample_session"
    unfolding sample_opens by (simp add: own_session_def sample_session_def sample_hook_def)
  have u: "\<forall>k \<in> insert (pf_day sample_platform (server_time sample_feed)) (snapshot_keys (ns_snapshot sample_session)). code_units k"
    using sample_key_units
    by (auto simp: sample_platform_def sample_session_def snapshot_keys_def getSnapshotKeys_def code_units_def sample_notice_def)
  have p: "persist_law (pf_text sample_platform)" "pf_readable sample_platform" "pf_writable sample_platform" "good_browser (browser sample_hook)"
      "viewer_key (viewerKey sample_hook)" "manualOpening sample_hook \<noteq> Some (viewerKey sample_hook)" "own_session sample_hook = None"
    by (simp_all add: sample_platform_def sample_hook_def zustand_persists new_browser_good viewer_key_def own_session_def)
  obtain h es where c: "closeDialog sample_platform True (num 0) (refresh sample_platform True (Some sample_feed) sample_hook) = (h, es)" by fastforce
  from closed_batch_stays_closed [OF p o u c] o show ?thesis unfolding c by simp
qed

end
