(* ===== verification/Tiered_Editor.thy ===== *)
theory Tiered_Editor
  imports Billing_Tiers_Props Billing_Props
begin

text \<open>
  The editor of tiered prices (\<open>TieredPricingEditor\<close> in \<open>tiered-pricing-editor.tsx\<close>).  The billing
  expression and the request rules belong to the form around it and come as properties; the editor
  keeps its own copy, visual or as text, and effects pass changes back.  A \<open>View\<close> is what one rendering
  sees.  After a rendering the effects whose dependencies changed run in their order: they see the
  values of that rendering, the reference \<open>initRef\<close> at once, and set the state of the next rendering.
  Reading an expression may throw, as \<open>tryParseRequestRuleExpr\<close> does.
\<close>

datatype EditorMode = VisualMode | RawMode

record TieredProps =
  modelName :: jsstring
  currentExpr :: jsstring
  currentRequestRuleExpr :: jsstring

record View = TieredProps +
  editorMode :: EditorMode
  visualConfig :: "VisualTier list option"
  rawExpr :: jsstring
  requestRuleGroups :: "RequestRuleGroup list"
  initRef :: bool

definition config_expr :: "VisualTier list option \<Rightarrow> jsstring" where
  "config_expr config = generateExprFromVisualConfig (case config of Some ts \<Rightarrow> ts | None \<Rightarrow> [])"

definition rule_groups :: "jsstring \<Rightarrow> parse_error + RequestRuleGroup list" where
  "rule_groups s = map_sum id (\<lambda>r. case r of Some gs \<Rightarrow> gs | None \<Rightarrow> []) (tryParseRequestRuleExpr s)"

section \<open>Rendering\<close>

text \<open>The first rendering, with the initial state.\<close>

definition mount_editor :: "jsstring \<Rightarrow> jsstring \<Rightarrow> jsstring \<Rightarrow> parse_error + View" where
  "mount_editor name expr ruleExpr =
     map_sum id (\<lambda>gs. \<lparr>modelName = name, currentExpr = expr, currentRequestRuleExpr = ruleExpr, editorMode = VisualMode,
         visualConfig = tryParseVisualConfig expr, rawExpr = combineBillingExpr expr ruleExpr, requestRuleGroups = gs, initRef = False\<rparr>)
       (rule_groups ruleExpr)"

definition effectiveExpr :: "View \<Rightarrow> parse_error + jsstring" where
  "effectiveExpr v =
     (if editorMode v = VisualMode then Inr (config_expr (visualConfig v))
      else map_sum id billingExpr (splitBillingExprAndRequestRules (rawExpr v)))"

definition canUseVisualRules :: "View \<Rightarrow> parse_error + bool" where
  "canUseVisualRules v =
     (if currentRequestRuleExpr v = [] then Inr True
      else map_sum id (\<lambda>r. r \<noteq> None) (tryParseRequestRuleExpr (currentRequestRuleExpr v)))"

section \<open>Effects\<close>

text \<open>The state is read from the properties once.\<close>

definition init_effect :: "View \<Rightarrow> parse_error + View" where
  "init_effect v =
     (if initRef v then Inr v
      else map_sum id (\<lambda>gs.
          (case tryParseVisualConfig (currentExpr v) of
             Some ts \<Rightarrow> v\<lparr>visualConfig := Some ts, editorMode := VisualMode\<rparr>
           | None \<Rightarrow>
               if currentExpr v \<noteq> [] then v\<lparr>visualConfig := None, editorMode := RawMode\<rparr>
               else v\<lparr>visualConfig := Some createDefaultVisualConfig\<rparr>)
            \<lparr>rawExpr := combineBillingExpr (currentExpr v) (currentRequestRuleExpr v), requestRuleGroups := gs, initRef := True\<rparr>)
          (rule_groups (currentRequestRuleExpr v)))"

definition changed :: "(View \<Rightarrow> 'a) \<Rightarrow> View option \<Rightarrow> View \<Rightarrow> bool" where
  "changed f prev v = (case prev of None \<Rightarrow> True | Some u \<Rightarrow> f u \<noteq> f v)"

text \<open>The effects after the rendering \<open>v\<close> that follows \<open>prev\<close>, and what the next rendering sees.\<close>

definition commit :: "View option \<Rightarrow> View \<Rightarrow> parse_error + View" where
  "commit prev v =
     bind_sum (if changed (\<lambda>v. (currentExpr v, currentRequestRuleExpr v)) prev v then init_effect v else Inr v) (\<lambda>v1.
     bind_sum (effectiveExpr v) (\<lambda>expr.
       (let v2 = (if changed modelName prev v then v1\<lparr>initRef := False\<rparr> else v1);
            v3 = (if changed (\<lambda>v. (effectiveExpr v, currentExpr v)) prev v \<and> expr \<noteq> currentExpr v then v2\<lparr>currentExpr := expr\<rparr> else v2);
            ruleExpr = buildRequestRuleExpr (requestRuleGroups v)
        in Inr (if changed (\<lambda>v. (editorMode v, requestRuleGroups v, currentRequestRuleExpr v)) prev v
                   \<and> editorMode v = VisualMode \<and> ruleExpr \<noteq> currentRequestRuleExpr v
                then v3\<lparr>currentRequestRuleExpr := ruleExpr\<rparr> else v3))))"

fun commits :: "nat \<Rightarrow> View option \<Rightarrow> View \<Rightarrow> parse_error + View" where
  "commits 0 prev v = Inr v"
| "commits (Suc n) prev v = bind_sum (commit prev v) (commits n (Some v))"

section \<open>Callbacks\<close>

text \<open>The form around the editor (\<open>ModelPricingEditorPanel\<close> in \<open>model-pricing-sheet.tsx\<close>) is given another
  model with a tiered price; the editor stays mounted, since it has no key.\<close>

definition load_model :: "jsstring \<Rightarrow> jsstring \<Rightarrow> jsstring \<Rightarrow> View \<Rightarrow> View" where
  "load_model name expr ruleExpr v = v\<lparr>modelName := name, currentExpr := expr, currentRequestRuleExpr := ruleExpr\<rparr>"

definition handleVisualChange :: "VisualTier list \<Rightarrow> View \<Rightarrow> View" where
  "handleVisualChange next v = v\<lparr>visualConfig := Some next\<rparr>"

definition handleRawChange :: "jsstring \<Rightarrow> View \<Rightarrow> parse_error + View" where
  "handleRawChange value v =
     map_sum id (\<lambda>s. v\<lparr>rawExpr := value, currentRequestRuleExpr := requestRuleExpr s\<rparr>) (splitBillingExprAndRequestRules value)"

definition handleModeChange :: "EditorMode \<Rightarrow> View \<Rightarrow> parse_error + View" where
  "handleModeChange next v =
     (if next = VisualMode then
        bind_sum (splitBillingExprAndRequestRules (rawExpr v)) (\<lambda>s.
          map_sum id (\<lambda>gs. v\<lparr>visualConfig := Some (case tryParseVisualConfig (billingExpr s) of Some ts \<Rightarrow> ts | None \<Rightarrow> createDefaultVisualConfig),
              requestRuleGroups := gs, currentRequestRuleExpr := requestRuleExpr s, editorMode := next\<rparr>)
            (rule_groups (requestRuleExpr s)))
      else
        (let expr = config_expr (visualConfig v); combined = combineBillingExpr expr (buildRequestRuleExpr (requestRuleGroups v))
         in Inr (v\<lparr>rawExpr := (if combined \<noteq> [] then combined else expr), editorMode := next\<rparr>)))"

record Preset =
  preset_key :: jsstring
  preset_label :: jsstring
  preset_expr :: jsstring
  requestRules :: "RequestRuleGroup list option"

definition applyPreset :: "Preset \<Rightarrow> View \<Rightarrow> View" where
  "applyPreset preset v =
     (let presetGroups = (case requestRules preset of Some gs \<Rightarrow> gs | None \<Rightarrow> []); ruleExpr = buildRequestRuleExpr presetGroups;
          combined = combineBillingExpr (preset_expr preset) ruleExpr;
          v1 = v\<lparr>rawExpr := (if combined \<noteq> [] then combined else preset_expr preset)\<rparr>;
          v2 = (case tryParseVisualConfig (preset_expr preset) of
                  Some ts \<Rightarrow> v1\<lparr>visualConfig := Some ts, editorMode := VisualMode\<rparr>
                | None \<Rightarrow> v1\<lparr>editorMode := RawMode, visualConfig := None\<rparr>)
      in v2\<lparr>requestRuleGroups := presetGroups, currentRequestRuleExpr := ruleExpr\<rparr>)"

text \<open>One of the presets that have request rules.\<close>

definition night_discount :: Preset where
  \<open>night_discount =
     \<lparr>preset_key = js ''night-discount'', preset_label = js ''Night discount (50%)'',
      preset_expr = js ''tier("base", p * 3 + c * 15)'',
      requestRules = Some [\<lparr>conditions = [Time \<lparr>timeFunc = js ''hour'', timezone = js ''Asia/Shanghai'', t_mode = MATCH_RANGE,
          t_value = [], rangeStart = js ''21'', rangeEnd = js ''6''\<rparr>], multiplier = js ''0.5''\<rparr>]\<rparr>\<close>

definition handleRuleGroupsChange :: "RequestRuleGroup list \<Rightarrow> View \<Rightarrow> View" where
  "handleRuleGroupsChange next v = v\<lparr>requestRuleGroups := next\<rparr>"

end
