(* ===== verification/Tiered_Editor_Text.thy ===== *)
theory Tiered_Editor_Text
  imports Billing_Tiers_Props Billing_Props
begin

text \<open>
  The text of tiers under the splitter of request rules: at the top level it has no product that could
  be taken for a rule, so the text of a price splits into its tiers and its rules.
\<close>

text \<open>A text that has no product at the top level, also when another one follows.\<close>

definition undivided :: "jsstring \<Rightarrow> bool" where
  "undivided s \<longleftrightarrow> balanced s \<and> s \<noteq> [] \<and> hd s \<noteq> 42 \<and>
     (\<forall>cur r. (r = [] \<or> hd r \<noteq> 42) \<longrightarrow> split_top (js '' * '') 0 cur (s @ r) = split_top (js '' * '') 0 (rev s @ cur) r)"

lemma undivided_append: "undivided s \<Longrightarrow> undivided t \<Longrightarrow> undivided (s @ t)"
  by (auto simp: undivided_def balanced_append simp del: js.simps)

lemma undivided_units:
  assumes "s \<noteq> []" "\<forall>u\<in>set s. u \<notin> {40, 41, 42}"
  shows "undivided s"
proof -
  have "split_top (js '' * '') 0 cur (s @ r) = split_top (js '' * '') 0 (rev s @ cur) r" if "r = [] \<or> hd r \<noteq> 42" for cur r
    using that assms(2)
  proof (induction s arbitrary: cur)
    case (Cons u s)
    have "\<not> startsWith (u # s @ r) (js '' * '')"
    proof (cases "s @ r")
      case (Cons x xs)
      moreover have "x \<noteq> 42" using Cons.prems \<open>s @ r = x # xs\<close> by (cases s) auto
      ultimately show ?thesis by (simp add: startsWith_def)
    qed (simp add: startsWith_def)
    then show ?case using Cons by (simp add: depth_step_def del: js.simps)
  qed simp
  moreover have "hd s \<noteq> 42" using assms by (cases s) auto
  ultimately show ?thesis using assms no_brackets_balanced [of s] by (auto simp: undivided_def simp del: js.simps)
qed

lemma undivided_wrap: "balanced b \<Longrightarrow> undivided (wrap b)"
  using balanced_wrap [of b] mul.split_over_wrap [of b] by (simp add: undivided_def wrap_def)

lemma undivided_opaque:
  assumes "undivided s"
  shows "mul.opaque s"
proof -
  have "r = [] \<or> hd r \<noteq> 42" if "r = [] \<or> startsWith r (js '' * '')" for r
    using that by (cases r) (auto simp: startsWith_def)
  then show ?thesis using assms unfolding undivided_def mul.opaque_def by blast
qed

lemma units_cond:
  assumes "canonical_cond c"
  shows "\<forall>u\<in>set (show_condition c). u \<notin> {40, 41, 42}"
proof -
  obtain v op n where c: "v \<in> {''p'', ''c'', ''len''}" "op \<in> {''<'', ''<='', ''>'', ''>=''}" "cond_text (js_String n)"
      "show_condition c = js v @ [32] @ js op @ [32] @ js_String n"
    using canonical_cond_text [OF assms] by metis
  have "\<forall>u\<in>set (js v). u \<notin> {40, 41, 42}" "\<forall>u\<in>set (js op). u \<notin> {40, 41, 42}" using c(1,2) by auto
  moreover have "\<forall>u\<in>set (js_String n). u \<notin> {40, 41, 42}"
    using c(3) by (auto simp: cond_text_def list_all_iff condc_def is_digit_def)
  ultimately show ?thesis unfolding c(4) by auto
qed

lemma units_conds: "\<forall>c\<in>set cs. canonical_cond c \<Longrightarrow> \<forall>u\<in>set (conds_text cs). u \<notin> {40, 41, 42}"
proof (induction cs)
  case (Cons c cs)
  then show ?case using units_cond [of c] by (cases "cs = []") (auto simp: conds_text_Cons conds_text_single)
qed (simp add: conds_text_def)

text \<open>A label without brackets, which the splitters would count.\<close>

definition plain_labels :: "VisualTier list \<Rightarrow> bool" where
  "plain_labels ts \<longleftrightarrow> (\<forall>t\<in>set ts. \<forall>u\<in>set (vt_label t). u \<notin> {40, 41})"

lemma price_units: "price_text w \<Longrightarrow> \<forall>u\<in>set w. u \<notin> {40, 41}"
  by (auto simp: price_text_def list_all_iff pricec_def is_digit_def)

lemma body_no_brackets:
  assumes "good_costs t"
  shows "\<forall>u\<in>set (buildTierBodyExpr t). u \<notin> {40, 41}"
proof -
  have "price_text (js_String (cost_of t in_cost))" "price_text (js_String (cost_of t out_cost))"
    using good_cost_of [OF assms, of in_cost] good_cost_of [OF assms, of out_cost]
    by (auto simp: in_cost_def out_cost_def base_cost_fields_def good_price_def)
  note base = this [THEN price_units]
  have "\<forall>u\<in>set (cost_text val vs). u \<notin> {40, 41}"
    if "\<forall>v\<in>set vs. \<forall>u\<in>set v. u \<notin> {40, 41}" "\<forall>v\<in>set vs. \<forall>n. val v = Some n \<longrightarrow> price_text n" for val vs
    using that
  proof (induction vs)
    case (Cons v vs)
    then show ?case using price_units [of "the (val v)"] by (cases "val v") (auto simp: cost_text_def)
  qed (simp add: cost_text_def)
  moreover have "\<forall>v\<in>set cacheVarNames. \<forall>u\<in>set v. u \<notin> {40, 41}" by (simp add: cache_vars)
  ultimately have "\<forall>u\<in>set (cost_text (cost_val t) cacheVarNames). u \<notin> {40, 41}" using cost_val_good [OF assms] by blast
  then show ?thesis using base unfolding body_text by auto
qed

lemma undivided_call:
  assumes "canonical_tier t" "\<forall>u\<in>set (vt_label t). u \<notin> {40, 41}"
  shows "undivided (tier_call [] t)"
proof -
  let ?b = "34 # vt_label t @ js [CHR 0x22, CHR '','', CHR '' ''] @ buildTierBodyExpr t"
  have "tier_call [] t = js ''tier'' @ wrap ?b" by (simp add: tier_call_def wrap_def)
  moreover have "balanced ?b"
    using assms body_no_brackets [of t] by (intro no_brackets_balanced) (auto simp: canonical_tier_def)
  ultimately show ?thesis using undivided_append [OF undivided_units [of "js ''tier''"] undivided_wrap [of ?b]] by simp
qed

lemma last_call: "last (tier_call [] t) = 41"
  by (simp add: tier_call_def)

lemma undivided_conds:
  assumes "canonical_conds cs" "undivided s"
  shows "undivided (conds_text cs @ js '' ? '' @ s)"
proof -
  have "undivided (conds_text cs)"
    using assms(1) units_conds [of cs] conds_nonempty [of cs] by (intro undivided_units) (auto simp: canonical_conds_def list_all_iff)
  moreover have "undivided (js '' ? '')" by (rule undivided_units) simp_all
  ultimately show ?thesis using assms(2) by (intro undivided_append)
qed

lemma chain_text:
  "canonical_chain ts \<Longrightarrow> ts \<noteq> [] \<Longrightarrow> plain_labels ts \<Longrightarrow> undivided (config_text ts) \<and> last (config_text ts) = 41"
proof (induction ts rule: config_text.induct)
  case (2 t)
  then show ?case using undivided_call [of t] last_call [of t] by (auto simp: plain_labels_def)
next
  case (3 t u us)
  then have c: "undivided (config_text (u # us))" "last (config_text (u # us)) = 41" by (auto simp: plain_labels_def)
  moreover have "undivided (tier_call [] t)" using 3 undivided_call [of t] by (auto simp: plain_labels_def)
  moreover have "undivided (js '' : '')" by (rule undivided_units) simp_all
  ultimately have "undivided (conds_text (vt_conditions t) @ js '' ? '' @ tier_call [] t @ js '' : '' @ config_text (u # us))"
    using 3(2) by (intro undivided_conds undivided_append) simp_all
  moreover have "config_text (u # us) \<noteq> []" using c(1) by (simp add: undivided_def)
  ultimately show ?case using c(2) by (simp del: js.simps)
qed simp

lemma no_rule_start:
  assumes "hd p \<noteq> 40 \<or> p = []"
  shows "tryParseRuleGroupFactor p = Inr None"
  using assms by (cases p) (simp_all add: tryParseRuleGroupFactor_def factor_re_def rx)

lemma wrapped_no_rule:
  assumes "e \<noteq> []" "last e \<noteq> 49"
  shows "tryParseRuleGroupFactor (wrap e) = Inr None"
proof -
  let ?k = "RSeq (rlit '' ? '') (RSeq (num_re 2) (RSeq (rlit '' : 1)'') REnd))"
  let ?g = "RGroup 1 (rplus (RSet any_dotall))"
  let ?ms = "concat (map (rmatch ?k) (rmatch ?g ([40], e @ [41], no_caps)))"
  have start: "re_match factor_re (wrap e) = map_option (\<lambda>(_, _, c). c) (first ?ms)"
    by (simp add: factor_re_def rx wrap_def del: rmatch.simps) (simp del: rmatch.simps(1,2,4-))
  have False if m: "st \<in> set ?ms" for st
  proof -
    from m obtain st1 where "st1 \<in> set (rmatch ?g ([40], e @ [41], no_caps))" "st \<in> set (rmatch ?k st1)"
      by (auto simp del: rmatch.simps)
    then obtain v r where v: "e @ [41] = v @ r" "st \<in> set (rmatch ?k (rev v @ [40], r, no_caps(1 \<mapsto> v)))"
      unfolding set_group_plus by blast
    from factor_tail [OF v(2)] obtain n where "r = js '' ? '' @ n @ js '' : 1)''" by blast
    then have "e = v @ js '' ? '' @ n @ js '' : 1''" using v(1) by simp
    then show False using assms(2) by simp
  qed
  then have "?ms = []" by (metis list.set_intros(1) neq_Nil_conv)
  then have "re_match factor_re (wrap e) = None" unfolding start by (simp only: first_simps option.map)
  then show ?thesis by (simp add: tryParseRuleGroupFactor_def)
qed

lemma split_no_rules:
  assumes "trimmed e" "e \<noteq> []" "classify (splitTopLevelMultiply e) = Inr ([], bs)"
  shows "splitBillingExprAndRequestRules e = Inr \<lparr>billingExpr = e, requestRuleExpr = []\<rparr>"
  using assms by (simp add: splitBillingExprAndRequestRules_def trim_id Let_def)

lemma try_no_rule:
  assumes "mul.opaque p" "p \<noteq> []" "trimmed p" "hd p \<noteq> 40"
  shows "tryParseRequestRuleExpr p = Inr None"
proof -
  have "splitTopLevelMultiply p = [p]" using splitTopLevelMultiply_join [of "[p]"] assms by simp
  then show ?thesis using assms no_rule_start [of p] by (simp add: tryParseRequestRuleExpr_def trim_id)
qed

lemma classify_bases:
  "\<forall>p\<in>set ps. mul.opaque p \<and> p \<noteq> [] \<and> trimmed p \<and> hd p \<noteq> 40 \<Longrightarrow> classify ps = Inr ([], ps)"
  by (induction ps) (auto simp: try_no_rule)

lemma split_bases:
  assumes "fs \<noteq> []" "\<forall>p\<in>set fs. mul.opaque p \<and> p \<noteq> [] \<and> trimmed p \<and> hd p \<noteq> 40" "trimmed (join (js '' * '') fs)"
  shows "splitBillingExprAndRequestRules (join (js '' * '') fs) = Inr \<lparr>billingExpr = join (js '' * '') fs, requestRuleExpr = []\<rparr>"
proof (rule split_no_rules)
  show "join (js '' * '') fs \<noteq> []" using assms(1,2) by (cases fs rule: list.exhaust) (auto simp: join_Cons)
  show "classify (splitTopLevelMultiply (join (js '' * '') fs)) = Inr ([], fs)"
    using assms splitTopLevelMultiply_join [of fs] classify_bases [of fs] by auto
qed (rule assms(3))

lemma undivided_price:
  assumes "undivided e" "hd e \<noteq> 40" "trimmed e"
  shows "balanced e \<and> e \<noteq> [] \<and> splitBillingExprAndRequestRules e = Inr \<lparr>billingExpr = e, requestRuleExpr = []\<rparr>"
  using assms split_bases [of "[e]"] undivided_opaque [of e] by (auto simp: undivided_def simp del: js.simps)

lemma conds_start:
  "canonical_conds cs \<Longrightarrow> hd (conds_text cs @ s) \<noteq> 40 \<and> \<not> is_ws (hd (conds_text cs @ s))"
  using cond_units_start [of cs] by (auto simp: canonical_conds_def list_all_iff is_ws_def)

lemma call_start: "hd (tier_call d t) = 116"
  by (simp add: tier_call_def)

lemma config_text_start: "canonical_chain ts \<Longrightarrow> ts \<noteq> [] \<Longrightarrow> hd (config_text ts) \<noteq> 40 \<and> \<not> is_ws (hd (config_text ts))"
proof (cases ts rule: config_text.cases)
  case (2 t)
  then show ?thesis using call_start [of "[]" t] by (simp add: is_ws_def)
next
  case (3 t u us)
  assume "canonical_chain ts"
  then show ?thesis using conds_start [of "vt_conditions t"] 3 by simp
qed simp

lemma price_expr_text:
  assumes "canonical_config ts" "plain_labels ts"
  defines "e \<equiv> generateExprFromVisualConfig ts"
  shows "balanced e \<and> trimmed e \<and> e \<noteq> [] \<and> hd e \<noteq> 40 \<and> last e \<noteq> 49
    \<and> splitBillingExprAndRequestRules e = Inr \<lparr>billingExpr = e, requestRuleExpr = []\<rparr>"
  using assms(1)
proof (cases rule: config_cases)
  case (1 t)
  have u: "undivided e" using undivided_call [of t] 1 assms(2) by (auto simp: e_def plain_labels_def)
  have "hd e \<noteq> 40" "trimmed e" "last e \<noteq> 49"
    using 1 call_start [of "[]" t] last_call [of t] u by (auto simp: e_def trimmed_def is_ws_def undivided_def)
  then show ?thesis using undivided_price [OF u] by blast
next
  case (3 t us vs)
  have c: "undivided e" "last e = 41" using chain_text [OF 3(2) _ assms(2)] 3 by (auto simp: e_def)
  then have "hd e \<noteq> 40" "trimmed e" "last e \<noteq> 49"
    using config_text_start [OF 3(2)] 3 by (auto simp: e_def trimmed_def is_ws_def)
  then show ?thesis using undivided_price [OF c(1)] by blast
next
  case (2 t)
  let ?x = "conds_text (vt_conditions t) @ js '' ? '' @ tier_call [] t @ js '' : p''"
  have e: "e = join (js '' * '') [?x, js ''0 + c'', js ''0'']" unfolding e_def 2(4) no_cost_def by simp
  have "undivided (tier_call [] t)" using undivided_call [of t] 2 assms(2) by (auto simp: plain_labels_def)
  moreover have s: "undivided (js '' : p'')" "undivided (js ''0 + c'')" "undivided (js ''0'')" by (auto intro!: undivided_units)
  ultimately have x: "undivided ?x" using 2 by (intro undivided_conds undivided_append)
  have hx: "hd ?x \<noteq> 40" "\<not> is_ws (hd ?x)" using conds_start [OF 2(2)] by auto
  have t: "trimmed ?x" using hx by (simp add: trimmed_def is_ws_def)
  have "trimmed e" "last e \<noteq> 49" "hd e \<noteq> 40" "e \<noteq> []"
    using hx conds_nonempty [OF 2(2)] by (simp_all add: e trimmed_def is_ws_def hd_append)
  moreover have "balanced e"
  proof -
    have "e = ?x @ js '' * 0 + c * 0''" by (simp add: e)
    moreover have "balanced (js '' * 0 + c * 0'')" by (rule no_brackets_balanced) simp
    ultimately show ?thesis using x balanced_append [of ?x] by (simp add: undivided_def del: js.simps append_assoc)
  qed
  moreover have "splitBillingExprAndRequestRules e = Inr \<lparr>billingExpr = e, requestRuleExpr = []\<rparr>"
    unfolding e
  proof (rule split_bases)
    show "\<forall>p\<in>set [?x, js ''0 + c'', js ''0'']. mul.opaque p \<and> p \<noteq> [] \<and> trimmed p \<and> hd p \<noteq> 40"
      using undivided_opaque [OF x] undivided_opaque [OF s(2)] undivided_opaque [OF s(3)] hx(1) t
      by (simp add: trimmed_def is_ws_def)
    show "trimmed (join (js '' * '') [?x, js ''0 + c'', js ''0''])" using \<open>trimmed e\<close> unfolding e .
  qed simp
  ultimately show ?thesis by blast
qed

end
