(* ===== verification/Tiered_Editor_Props.thy ===== *)
theory Tiered_Editor_Props
  imports Tiered_Editor Tiered_Editor_Text
begin

text \<open>
  What the editor of tiered prices does with the form around it: rounds of effects as functions on a
  price in the form and a price that is shown, and what they make of opening, editing, changing
  the mode, presets, pasted texts and the choice of another model.
\<close>

section \<open>Prices\<close>

text \<open>The tiers and the request rules of a model, as the visual editor shows them.\<close>

type_synonym price = "VisualTier list \<times> RequestRuleGroup list"

definition price_expr :: "price \<Rightarrow> jsstring" where
  "price_expr p = generateExprFromVisualConfig (fst p)"

definition price_rules :: "price \<Rightarrow> jsstring" where
  "price_rules p = buildRequestRuleExpr (snd p)"

definition canonical_price :: "price \<Rightarrow> bool" where
  "canonical_price p \<longleftrightarrow> canonical_config (fst p) \<and> list_all canonical_group (snd p)"

text \<open>The form holds one price and the visual editor shows another.\<close>

definition editing :: "jsstring \<Rightarrow> price \<Rightarrow> price \<Rightarrow> jsstring \<Rightarrow> bool \<Rightarrow> View" where
  "editing name held seen raw i =
     \<lparr>modelName = name, currentExpr = price_expr held, currentRequestRuleExpr = price_rules held,
      editorMode = VisualMode, visualConfig = Some (fst seen), rawExpr = raw, requestRuleGroups = snd seen, initRef = i\<rparr>"

lemma editing_select [simp]:
  "modelName (editing name held seen raw i) = name"
  "currentExpr (editing name held seen raw i) = price_expr held"
  "currentRequestRuleExpr (editing name held seen raw i) = price_rules held"
  "editorMode (editing name held seen raw i) = VisualMode"
  "requestRuleGroups (editing name held seen raw i) = snd seen"
  "initRef (editing name held seen raw i) = i"
  by (simp_all add: editing_def)

lemma editing_update [simp]:
  "initRef_update (\<lambda>_. j) (editing name held seen raw i) = editing name held seen raw j"
  by (simp add: editing_def)

lemma effective_editing [simp]: "effectiveExpr (editing name held seen raw i) = Inr (price_expr seen)"
  by (simp add: effectiveExpr_def editing_def price_expr_def config_expr_def)

lemma price_read_back:
  assumes "canonical_price p"
  shows "tryParseVisualConfig (price_expr p) = Some (fst p)" "rule_groups (price_rules p) = Inr (snd p)"
  using assms by (auto simp: canonical_price_def price_expr_def price_rules_def config_read_back rule_groups_def rules_read_back)

lemma mount_canonical:
  "canonical_price p \<Longrightarrow> mount_editor name (price_expr p) (price_rules p)
     = Inr (editing name p p (combineBillingExpr (price_expr p) (price_rules p)) False)"
  by (simp add: mount_editor_def price_read_back editing_def)

lemma init_editing:
  "canonical_price held \<Longrightarrow> init_effect (editing name held seen raw i) =
    Inr (if i then editing name held seen raw i
         else editing name held held (combineBillingExpr (price_expr held) (price_rules held)) True)"
  by (simp add: init_effect_def price_read_back editing_def)

section \<open>Rounds of effects\<close>

definition differ :: "price \<Rightarrow> price \<Rightarrow> bool" where
  "differ p q \<longleftrightarrow> price_expr p \<noteq> price_expr q \<or> price_rules p \<noteq> price_rules q"

text \<open>The effects that write to the form leave there what is shown, unless nothing they depend on changed.\<close>

lemma commit_editing:
  assumes "(if changed (\<lambda>v. (currentExpr v, currentRequestRuleExpr v)) prev (editing name held seen raw i)
      then init_effect (editing name held seen raw i) else Inr (editing name held seen raw i)) = Inr (editing name held seen' raw' j)"
    and "price_expr seen = price_expr held \<or> changed (\<lambda>v. (effectiveExpr v, currentExpr v)) prev (editing name held seen raw i)"
    and "price_rules seen = price_rules held
      \<or> changed (\<lambda>v. (editorMode v, requestRuleGroups v, currentRequestRuleExpr v)) prev (editing name held seen raw i)"
  shows "commit prev (editing name held seen raw i) =
    Inr (editing name seen seen' raw' (j \<and> \<not> changed modelName prev (editing name held seen raw i)))"
proof -
  have built: "buildRequestRuleExpr (snd seen) = price_rules seen" by (simp add: price_rules_def)
  have w: "(if b \<and> price_rules seen \<noteq> price_rules held
        then (if a \<and> price_expr seen \<noteq> price_expr held then editing name held seen' raw' k\<lparr>currentExpr := price_expr seen\<rparr>
              else editing name held seen' raw' k)\<lparr>currentRequestRuleExpr := price_rules seen\<rparr>
        else (if a \<and> price_expr seen \<noteq> price_expr held then editing name held seen' raw' k\<lparr>currentExpr := price_expr seen\<rparr>
              else editing name held seen' raw' k)) = editing name seen seen' raw' k"
    if "price_expr seen = price_expr held \<or> a" "price_rules seen = price_rules held \<or> b" for a b k
    using that by (auto simp: editing_def)
  show ?thesis
    unfolding commit_def assms(1) using w [OF assms(2,3)] by (auto simp: built Let_def)
qed

text \<open>When the form changed, it takes what is shown; an editor that was not initialised takes what was
  in the form.\<close>

lemma commit_changed_form:
  assumes "canonical_price held" "differ held' held" "seen = held \<or> seen = held'"
  shows "commit (Some (editing name' held' seen' raw' i')) (editing name held seen raw i) =
    Inr (if i then editing name seen seen raw (name' = name)
         else editing name seen held (combineBillingExpr (price_expr held) (price_rules held)) (name' = name))"
proof -
  have "changed (\<lambda>v. (currentExpr v, currentRequestRuleExpr v)) (Some (editing name' held' seen' raw' i')) (editing name held seen raw i)"
    using assms(2) by (auto simp: changed_def differ_def)
  moreover have "price_expr seen = price_expr held
      \<or> changed (\<lambda>v. (effectiveExpr v, currentExpr v)) (Some (editing name' held' seen' raw' i')) (editing name held seen raw i)"
    using assms(3) by (auto simp: changed_def)
  moreover have "price_rules seen = price_rules held
      \<or> changed (\<lambda>v. (editorMode v, requestRuleGroups v, currentRequestRuleExpr v)) (Some (editing name' held' seen' raw' i'))
          (editing name held seen raw i)"
    using assms(3) by (auto simp: changed_def)
  ultimately show ?thesis
    by (cases i) (subst commit_editing [where j = True], simp_all add: init_editing [OF assms(1)] changed_def)+
qed

section \<open>Opening, editing, choosing another model\<close>

lemma commit_settled:
  assumes "prev = None \<or> (\<exists>u. prev = Some u \<and> modelName u = name)"
  shows "commit prev (editing name p p raw True) = Inr (editing name p p raw (prev \<noteq> None))"
  using assms by (subst commit_editing [where j = True]) (auto simp: init_effect_def changed_def)

lemma commits_settled:
  "modelName u = name \<Longrightarrow> commits n (Some u) (editing name p p raw True) = Inr (editing name p p raw True)"
  by (induction n arbitrary: u) (simp_all add: commit_settled)

lemma commit_opened:
  assumes "canonical_price p"
  shows "commit None (editing name p p raw False) = Inr (editing name p p (combineBillingExpr (price_expr p) (price_rules p)) False)"
  using assms by (subst commit_editing [where j = True]) (simp_all add: init_editing changed_def)

lemma commit_idle: "commit (Some (editing name p p raw i)) (editing name p p raw i) = Inr (editing name p p raw i)"
  by (subst commit_editing [where j = i]) (auto simp: changed_def)

lemma commits_idle: "commits n (Some (editing name p p raw i)) (editing name p p raw i) = Inr (editing name p p raw i)"
  by (induction n) (simp_all add: commit_idle)

text \<open>What the viewer sees after opening the editor on a price, however many renderings later.\<close>

definition opened :: "jsstring \<Rightarrow> price \<Rightarrow> View" where
  "opened name p = editing name p p (combineBillingExpr (price_expr p) (price_rules p)) False"

lemma opened_stays:
  "canonical_price p \<Longrightarrow> bind_sum (mount_editor name (price_expr p) (price_rules p)) (commits n None) = Inr (opened name p)"
  by (cases n) (simp_all add: mount_canonical opened_def commit_opened commits_idle)

text \<open>An edit of the tiers or of the rules reaches the form.\<close>

lemma commits_edited:
  assumes "canonical_price q"
  shows "\<exists>raw' j. commits (n + 2) (Some (editing name p p raw i)) (editing name p q t i) = Inr (editing name q q raw' j)"
proof (cases "differ p q")
  case True
  have "commit (Some (editing name p p raw i)) (editing name p q t i) = Inr (editing name q q t i)"
    by (subst commit_editing [where j = i]) (auto simp: changed_def price_rules_def)
  moreover have "commit (Some (editing name p q t i)) (editing name q q t i) =
      Inr (editing name q q (if i then t else combineBillingExpr (price_expr q) (price_rules q)) True)"
    using commit_changed_form [OF assms True, of q name] by simp
  ultimately show ?thesis by (auto simp: commits_settled numeral_2_eq_2)
next
  case False
  then have "editing name p q t i = editing name q q t i" by (simp add: editing_def differ_def)
  moreover have "commit (Some (editing name p p raw i)) (editing name q q t i) = Inr (editing name q q t i)"
    using False by (subst commit_editing [where j = i]) (auto simp: changed_def differ_def)
  ultimately show ?thesis by (auto simp: commits_idle)
qed

lemma commits_next_model:
  assumes "canonical_price p" "canonical_price q" "differ p q" "other \<noteq> name"
  shows "\<exists>raw'. commits (n + 3) (Some (editing name p p raw i)) (editing other q p raw i) = Inr (editing other p p raw' True)"
proof -
  have d: "differ q p" using assms(3) by (auto simp: differ_def)
  show ?thesis
  proof (cases i)
    case True
    then show ?thesis
      using commit_changed_form [OF assms(2,3), of p name p raw True other raw True]
        commit_changed_form [OF assms(1) d, of p other p raw True other raw False] assms(4)
      by (auto simp: commit_settled commits_settled numeral_3_eq_3)
  next
    case False
    let ?raw = "\<lambda>p. combineBillingExpr (price_expr p) (price_rules p)"
    have "commit (Some (editing name p p raw False)) (editing other q p raw False) = Inr (editing other p q (?raw q) False)"
      using commit_changed_form [OF assms(2,3), of p name p raw False other raw False] assms(4) by simp
    moreover have "commit (Some (editing other q p raw False)) (editing other p q (?raw q) False) = Inr (editing other q p (?raw p) True)"
      using commit_changed_form [OF assms(1) d, of q other p raw False other "?raw q" False] by simp
    moreover have "commit (Some (editing other p q (?raw q) False)) (editing other q p (?raw p) True) = Inr (editing other p p (?raw p) True)"
      using commit_changed_form [OF assms(2,3), of p other q "?raw q" False other "?raw p" True] by simp
    ultimately show ?thesis using False by (auto simp: commits_settled numeral_3_eq_3)
  qed
qed

lemma price_split:
  assumes "canonical_price p" "plain_labels (fst p)"
  shows "splitBillingExprAndRequestRules (combineBillingExpr (price_expr p) (price_rules p))
      = Inr \<lparr>billingExpr = price_expr p, requestRuleExpr = price_rules p\<rparr>"
    "combineBillingExpr (price_expr p) (price_rules p) \<noteq> []"
proof -
  have e: "balanced (price_expr p)" "trimmed (price_expr p)" "price_expr p \<noteq> []" "hd (price_expr p) \<noteq> 40" "last (price_expr p) \<noteq> 49"
      "splitBillingExprAndRequestRules (price_expr p) = Inr \<lparr>billingExpr = price_expr p, requestRuleExpr = []\<rparr>"
    using price_expr_text [of "fst p"] assms by (auto simp: canonical_price_def price_expr_def)
  have u: "unwrapOuterParens (price_expr p) = price_expr p"
  proof -
    have "\<not> hasFullOuterParens (price_expr p)" using e(4) by (cases "price_expr p") (auto simp: hasFullOuterParens_def startsWith_def)
    then show ?thesis using e(2) by (simp add: unwrapOuterParens_def trim_id unwrap_loop.simps [of "price_expr p"])
  qed
  let ?fs = "map buildRuleGroupFactor (snd p)"
  have f: "\<forall>f\<in>set ?fs. (\<exists>c. f = wrap c \<and> balanced c) \<and> (\<exists>g. tryParseRuleGroupFactor f = Inr (Some g))"
    using assms(1) group_factor by (auto simp: canonical_price_def list_all_iff)
  then have "filter (\<lambda>f. f \<noteq> []) ?fs = ?fs" by (auto simp: filter_id_conv)
  then have r: "price_rules p = join (js '' * '') ?fs" by (simp add: price_rules_def buildRequestRuleExpr_def)
  show "splitBillingExprAndRequestRules (combineBillingExpr (price_expr p) (price_rules p))
      = Inr \<lparr>billingExpr = price_expr p, requestRuleExpr = price_rules p\<rparr>"
  proof (cases "snd p = []")
    case True
    then show ?thesis using e by (simp add: r combineBillingExpr_def trim_id Let_def)
  next
    case False
    then show ?thesis
      using combine_then_split [OF e(1,2,3) _ f wrapped_no_rule [OF e(3,5)]] by (simp add: r u del: js.simps)
  qed
  show "combineBillingExpr (price_expr p) (price_rules p) \<noteq> []"
    using e(2,3) by (simp add: combineBillingExpr_def trim_id Let_def)
qed

section \<open>The text of a price\<close>

text \<open>The editor of expressions, with a text in it.\<close>

definition typing :: "jsstring \<Rightarrow> price \<Rightarrow> price \<Rightarrow> jsstring \<Rightarrow> bool \<Rightarrow> View" where
  "typing name held seen raw i = (editing name held seen raw i)\<lparr>editorMode := RawMode\<rparr>"

lemma typing_select [simp]:
  "modelName (typing name held seen raw i) = name"
  "currentExpr (typing name held seen raw i) = price_expr held"
  "currentRequestRuleExpr (typing name held seen raw i) = price_rules held"
  "editorMode (typing name held seen raw i) = RawMode"
  "requestRuleGroups (typing name held seen raw i) = snd seen"
  "rawExpr (typing name held seen raw i) = raw"
  "initRef (typing name held seen raw i) = i"
  by (simp_all add: typing_def editing_def)

abbreviation price_text_of :: "price \<Rightarrow> jsstring" where
  "price_text_of p \<equiv> combineBillingExpr (price_expr p) (price_rules p)"

definition plain_price :: "price \<Rightarrow> bool" where
  "plain_price p \<longleftrightarrow> canonical_price p \<and> plain_labels (fst p)"

lemma effective_typing: "plain_price p \<Longrightarrow> effectiveExpr (typing name held seen (price_text_of p) i) = Inr (price_expr p)"
  using price_split(1) [of p] by (simp add: effectiveExpr_def plain_price_def)

lemma to_text:
  "plain_price p \<Longrightarrow> handleModeChange RawMode (editing name held p raw i) = Inr (typing name held p (price_text_of p) i)"
  using price_split(2) [of p]
  by (simp add: handleModeChange_def typing_def editing_def config_expr_def plain_price_def price_expr_def price_rules_def)

lemma to_visual:
  assumes "plain_price p"
  shows "handleModeChange VisualMode (typing name p seen (price_text_of p) i) = Inr (editing name p p (price_text_of p) i)"
proof -
  note r = price_read_back [of p] and s = price_split(1) [of p]
  show ?thesis using assms r s by (simp add: handleModeChange_def plain_price_def) (simp add: typing_def editing_def)
qed

lemma commits_typing:
  assumes "plain_price p" "prev = typing name p p (price_text_of p) i \<or> prev = editing name p p raw i"
  shows "commits n (Some prev) (typing name p p (price_text_of p) i) = Inr (typing name p p (price_text_of p) i)"
  using assms(2)
proof (induction n arbitrary: prev)
  case (Suc n)
  have "commit (Some prev) (typing name p p (price_text_of p) i) = Inr (typing name p p (price_text_of p) i)"
    using Suc.prems effective_typing [OF assms(1)] by (auto simp: commit_def changed_def)
  then show ?case using Suc.IH by simp
qed simp

text \<open>A pasted text reaches the form from an editor that was initialised before.  Right after opening,
  the editor initialises itself from the old tiers and the new rules instead.\<close>

definition mixed :: "price \<Rightarrow> price \<Rightarrow> price" where
  "mixed p q = (fst p, snd q)"

lemma mixed_price [simp]: "price_expr (mixed p q) = price_expr p" "price_rules (mixed p q) = price_rules q"
  by (simp_all add: mixed_def price_expr_def price_rules_def)

lemma paste_text:
  "plain_price q \<Longrightarrow> handleRawChange (price_text_of q) (typing name p seen raw i) = Inr (typing name (mixed p q) seen (price_text_of q) i)"
  using price_split(1) [of q] by (simp add: handleRawChange_def plain_price_def) (simp add: typing_def editing_def)

lemma init_typing:
  "canonical_price held \<Longrightarrow> init_effect (typing name held seen raw False) = Inr (editing name held held (price_text_of held) True)"
  using price_read_back [of held] by (simp add: init_effect_def) (simp add: typing_def editing_def)

lemma commit_pasted:
  assumes "plain_price p" "plain_price q" "price_rules p \<noteq> price_rules q"
  shows "commit (Some (typing name p seen (price_text_of p) False)) (typing name (mixed p q) seen (price_text_of q) False)
    = Inr (editing name q (mixed p q) (price_text_of (mixed p q)) True)"
proof -
  have c: "canonical_price (mixed p q)" using assms(1,2) by (simp add: plain_price_def canonical_price_def mixed_def)
  let ?v = "editing name (mixed p q) (mixed p q) (price_text_of (mixed p q)) True"
  have "commit (Some (typing name p seen (price_text_of p) False)) (typing name (mixed p q) seen (price_text_of q) False)
      = Inr (if price_expr q \<noteq> price_expr p then ?v\<lparr>currentExpr := price_expr q\<rparr> else ?v)"
    unfolding commit_def
    using init_typing [OF c, of name seen "price_text_of q"] effective_typing [OF assms(1), of name p seen False]
      effective_typing [OF assms(2), of name "mixed p q" seen False] assms(3)
    by (simp add: changed_def)
  then show ?thesis by (simp add: editing_def)
qed

lemma commits_pasted:
  assumes "plain_price p" "plain_price q" "price_rules p \<noteq> price_rules q"
  shows "commits (n + 2) (Some (typing name p seen (price_text_of p) False)) (typing name (mixed p q) seen (price_text_of q) False)
    = Inr (editing name (mixed p q) (mixed p q) (price_text_of (mixed p q)) True)"
proof -
  have "commit (Some (typing name (mixed p q) seen (price_text_of q) False)) (editing name q (mixed p q) (price_text_of (mixed p q)) True)
      = Inr (editing name (mixed p q) (mixed p q) (price_text_of (mixed p q)) True)"
    using effective_typing [OF assms(2), of name "mixed p q" seen False]
    by (subst commit_editing [where j = True]) (auto simp: init_effect_def changed_def)
  then show ?thesis using commit_pasted [OF assms] by (simp add: commits_settled numeral_2_eq_2)
qed

lemma commits_pasted_later:
  assumes "plain_price p" "plain_price q"
  shows "commits (n + 2) (Some (typing name p seen (price_text_of p) True)) (typing name (mixed p q) seen (price_text_of q) True)
    = Inr (typing name q seen (price_text_of q) True)"
proof -
  have c: "commit (Some u) (typing name q seen (price_text_of q) True) = Inr (typing name q seen (price_text_of q) True)"
    if "modelName u = name" for u
    using that effective_typing [OF assms(2), of name q seen True] by (auto simp: commit_def init_effect_def changed_def)
  have s: "commits n (Some u) (typing name q seen (price_text_of q) True) = Inr (typing name q seen (price_text_of q) True)"
    if "modelName u = name" for u n
    using that by (induction n arbitrary: u) (simp_all add: c)
  let ?v = "typing name (mixed p q) seen (price_text_of q) True"
  have "commit (Some (typing name p seen (price_text_of p) True)) ?v
      = Inr (if price_expr q \<noteq> price_expr p then ?v\<lparr>currentExpr := price_expr q\<rparr> else ?v)"
    unfolding commit_def
    using effective_typing [OF assms(1), of name p seen True] effective_typing [OF assms(2), of name "mixed p q" seen True]
    by (simp add: changed_def init_effect_def)
  then have "commit (Some (typing name p seen (price_text_of p) True)) ?v = Inr (typing name q seen (price_text_of q) True)"
    by (simp add: typing_def editing_def)
  then show ?thesis using s c by simp
qed

section \<open>Presets\<close>

definition price_preset :: "jsstring \<Rightarrow> jsstring \<Rightarrow> price \<Rightarrow> Preset" where
  "price_preset k l q = \<lparr>preset_key = k, preset_label = l, preset_expr = price_expr q, requestRules = Some (snd q)\<rparr>"

lemma apply_preset:
  assumes "canonical_price q"
  shows "\<exists>raw'. applyPreset (price_preset k l q) (editing name p seen raw i) = editing name (mixed p q) q raw' i"
  using price_read_back(1) [OF assms] mixed_price [of p q]
  by (simp add: applyPreset_def price_preset_def editing_def Let_def price_rules_def del: mixed_price)

lemma commits_preset:
  assumes "canonical_price p" "canonical_price q"
  shows "\<exists>raw' j. commits (n + 2) (Some (editing name p p raw i)) (editing name (mixed p q) q t i)
    = Inr (if i \<or> price_rules p = price_rules q then editing name q q raw' j else editing name (mixed p q) (mixed p q) raw' j)"
proof -
  let ?m = "mixed p q" and ?u = "editing name p p raw i"
  have m: "canonical_price ?m" using assms by (simp add: canonical_price_def mixed_def)
  consider "i" | "\<not> i" "price_rules p = price_rules q" | "\<not> i" "price_rules p \<noteq> price_rules q" by blast
  then show ?thesis
  proof cases
    case 1
    have "commit (Some ?u) (editing name ?m q t True) = Inr (editing name q q t True)"
      by (subst commit_editing [where j = True]) (auto simp: init_effect_def changed_def)
    then show ?thesis using 1 by (auto simp: commit_settled commits_settled)
  next
    case 2
    then have "editing name ?m q t i = editing name p q t i" by (simp add: editing_def)
    then show ?thesis using 2 commits_edited [OF assms(2)] by fastforce
  next
    case 3
    have "commit (Some ?u) (editing name ?m q t False) = Inr (editing name q ?m (price_text_of ?m) True)"
      using 3(2) by (subst commit_editing [where j = True]) (auto simp: init_editing [OF m] changed_def)
    moreover have "commit (Some (editing name ?m q t False)) (editing name q ?m (price_text_of ?m) True) = Inr (editing name ?m ?m (price_text_of ?m) True)"
      by (subst commit_editing [where j = True]) (auto simp: init_effect_def changed_def)
    ultimately show ?thesis using 3 by (auto simp: commits_settled)
  qed
qed

section \<open>The first edit\<close>

text \<open>Opening the editor leaves it uninitialised, so the first edit is read again from its text.\<close>

lemma init_rereads:
  assumes "tryParseVisualConfig (price_expr q) = Some (fst r)" "rule_groups (price_rules q) = Inr (snd r)"
  shows "init_effect (editing name q seen raw False) = Inr (editing name q r (price_text_of q) True)"
  using assms by (simp add: init_effect_def) (simp add: editing_def)

lemma commits_reread:
  assumes "differ p q" "tryParseVisualConfig (price_expr q) = Some (fst r)" "rule_groups (price_rules q) = Inr (snd r)"
  shows "commits (n + 3) (Some (editing name p p raw False)) (editing name p q t False) = Inr (editing name r r (price_text_of q) True)"
proof -
  have "commit (Some (editing name p p raw False)) (editing name p q t False) = Inr (editing name q q t False)"
    by (subst commit_editing [where j = False]) (auto simp: changed_def price_rules_def)
  moreover have "commit (Some (editing name p q t False)) (editing name q q t False) = Inr (editing name q r (price_text_of q) True)"
    using assms(1) by (subst commit_editing [where j = True]) (auto simp: init_rereads [OF assms(2,3)] changed_def differ_def)
  moreover have "commit (Some (editing name q q t False)) (editing name q r (price_text_of q) True) = Inr (editing name r r (price_text_of q) True)"
    by (subst commit_editing [where j = True]) (auto simp: init_effect_def changed_def price_rules_def)
  ultimately show ?thesis by (simp add: commits_settled numeral_3_eq_3)
qed

section \<open>Examples\<close>

definition sample_price :: price where
  "sample_price = (sample_tiers, [])"

definition pasted_price :: price where
  "pasted_price = ([last sample_tiers], example_groups)"

lemma sample_prices: "plain_price sample_price" "plain_price pasted_price"
proof -
  have t: "canonical_tier (last sample_tiers)" "vt_conditions (last sample_tiers) = []"
    using config_tiers [OF sample_canonical] by (auto simp: sample_tiers_def)
  show "plain_price sample_price"
    using sample_canonical by (simp add: plain_price_def canonical_price_def sample_price_def plain_labels_def) (simp add: sample_tiers_def)
  show "plain_price pasted_price"
    using t example_groups_canonical
    by (simp add: plain_price_def canonical_price_def pasted_price_def canonical_config_def plain_labels_def) (simp add: sample_tiers_def)
qed

lemma rules_differ:
  assumes "canonical_price p" "canonical_price q" "snd p \<noteq> snd q"
  shows "price_rules p \<noteq> price_rules q"
proof
  assume "price_rules p = price_rules q"
  then have "tryParseRequestRuleExpr (price_rules p) = tryParseRequestRuleExpr (price_rules q)" by simp
  then show False using assms by (simp add: canonical_price_def price_rules_def rules_read_back)
qed

lemma sample_rules_differ: "price_rules sample_price \<noteq> price_rules pasted_price"
  using sample_prices by (intro rules_differ) (auto simp: plain_price_def sample_price_def pasted_price_def example_groups_def)

text \<open>The price of a model that was just given tiers, and the price of a preset.\<close>

definition base_tier :: "nat \<Rightarrow> nat \<Rightarrow> VisualTier" where
  "base_tier a b = \<lparr>vt_label = js ''base'', vt_conditions = [], vt_cache_mode = CACHE_MODE_GENERIC, vt_costs = whole_costs [a, b, 0, 0, 0, 0, 0, 0, 0]\<rparr>"

definition zero_price :: price where
  "zero_price = ([base_tier 0 0], [])"

definition night_price :: price where
  "night_price = ([base_tier 3 15], the (requestRules night_discount))"

lemma base_tier_canonical:
  assumes "a \<le> 9007199254740992" "b \<le> 9007199254740992"
  shows "canonical_config [base_tier a b]"
proof -
  have "good_label (js ''base'')" by (simp add: good_label_def notq_def)
  then show ?thesis
    using whole_good_costs [of "[a, b, 0, 0, 0, 0, 0, 0, 0]"] assms
    by (simp add: canonical_config_def base_tier_def canonical_tier_def tier_mode_def cost_of_def or_zero_def
        whole_costs_def base_cost_fields_def extra_cost_fields_def cost_1h_def del: js.simps)
qed

lemma preset_prices: "canonical_price zero_price" "canonical_price night_price"
proof -
  have "canonical_group (hd (the (requestRules night_discount)))"
    using numeric_examples
    by (simp add: night_discount_def canonical_group_def TIME_FUNCS_def match_defs plain_def plain_unit_def trimmed_def)
  then have "list_all canonical_group (the (requestRules night_discount))" by (simp add: night_discount_def)
  then show "canonical_price zero_price" "canonical_price night_price"
    by (simp_all add: canonical_price_def zero_price_def night_price_def base_tier_canonical)
qed

lemma base_tier_expr:
  assumes "a \<le> 9007199254740992" "b \<le> 9007199254740992"
  shows "generateExprFromVisualConfig [base_tier a b] = js ''tier('' @ [34] @ js ''base'' @ [34] @ js '', p * '' @ show_nat a @ js '' + c * '' @ show_nat b @ js '')''"
proof -
  have c: "cost_of (base_tier a b) (js ''input_unit_cost'') = num a" "cost_of (base_tier a b) (js ''output_unit_cost'') = num b"
    by (simp_all add: cost_of_def base_tier_def whole_costs_def base_cost_fields_def or_zero_def)
  have "\<forall>f\<in>set (map fst BILLING_CACHE_VAR_MAP). cost_of (base_tier a b) f = Fin 0"
    unfolding cache_map_fields(1) by (simp add: extra_cost_fields_def cost_of_def base_tier_def whole_costs_def base_cost_fields_def or_zero_def)
  then have "cost_parts (base_tier a b) = []"
    by (auto simp: cost_parts_def filter_empty_conv)
  then have b: "buildTierBodyExpr (base_tier a b) = js ''p * '' @ show_nat a @ js '' + c * '' @ show_nat b"
    unfolding buildTierBodyExpr_def c js_String_nat [OF assms(1)] js_String_nat [OF assms(2)] by simp
  have l: "vt_label (base_tier a b) = js ''base''" "vt_conditions (base_tier a b) = []" by (simp_all add: base_tier_def)
  show ?thesis by (simp add: generateExprFromVisualConfig_def tier_call_def b l buildConditionStr_def)
qed

lemma night_discount_price: "night_discount = price_preset (js ''night-discount'') (js ''Night discount (50%)'') night_price"
  by (simp add: price_preset_def night_price_def price_expr_def base_tier_expr night_discount_def show_nat.simps)

lemma zero_expr: \<open>price_expr zero_price = js ''tier("base", p * 0 + c * 0)''\<close>
  by (simp add: zero_price_def price_expr_def base_tier_expr show_nat.simps)

lemma night_rules_differ: "price_rules zero_price \<noteq> price_rules night_price"
  using preset_prices by (intro rules_differ) (auto simp: zero_price_def night_price_def night_discount_def)

section \<open>Properties\<close>

text \<open>C8: The editor of a tiered price keeps what it is given and passes on what is edited, for canonical prices,
  that is tiers (readable numbers, labels without quotes, conditions on every tier but the last) and
  request rules (none with a comparison of a request parameter) that the parsers read back: opening it
  on a canonical price changes nothing in the form, however often it renders, and after an edit right
  after opening that gives another canonical price the form holds exactly the edited price, and the
  editor shows it.\<close>

theorem price_edits_reach_form:
  assumes "canonical_price p" "canonical_price q"
  shows "bind_sum (mount_editor name (price_expr p) (price_rules p)) (commits n None) = Inr (opened name p)
    \<and> (\<exists>w. commits (n + 2) (Some (opened name p)) (handleRuleGroupsChange (snd q) (handleVisualChange (fst q) (opened name p))) = Inr w
        \<and> currentExpr w = price_expr q \<and> currentRequestRuleExpr w = price_rules q
        \<and> visualConfig w = Some (fst q) \<and> requestRuleGroups w = snd q \<and> editorMode w = VisualMode)"
proof -
  have "handleRuleGroupsChange (snd q) (handleVisualChange (fst q) (opened name p)) = editing name p q (price_text_of p) False"
    by (simp add: handleRuleGroupsChange_def handleVisualChange_def opened_def editing_def)
  moreover obtain raw j where "commits (n + 2) (Some (opened name p)) (editing name p q (price_text_of p) False) = Inr (editing name q q raw j)"
    using commits_edited [OF assms(2)] unfolding opened_def by blast
  moreover have "visualConfig (editing name q q raw j) = Some (fst q)" by (simp add: editing_def)
  ultimately show ?thesis using opened_stays [OF assms(1)] by simp
qed

theorem price_edits_reach_form_witness:
  "\<exists>w. commits 5 (Some (opened (js ''m'') sample_price))
      (handleRuleGroupsChange example_groups (handleVisualChange [last sample_tiers] (opened (js ''m'') sample_price))) = Inr w
    \<and> currentExpr w = price_expr pasted_price"
  using price_edits_reach_form [of sample_price pasted_price "js ''m''" 3] sample_prices
  by (auto simp: plain_price_def pasted_price_def)

text \<open>C9: Changing to the text of a price and back keeps the price: for a canonical price (tiers and request rules
  that the parsers read back) whose labels have no brackets, with the editor as it is after opening,
  the expression editor gets a text that splits into exactly the tiers and the request rules, the form
  does not change while it is shown, and the visual editor then shows what it showed before.\<close>

theorem mode_switch_keeps_price:
  assumes "plain_price p"
  shows "bind_sum (handleModeChange RawMode (opened name p)) (\<lambda>v.
      bind_sum (commits n (Some (opened name p)) v) (handleModeChange VisualMode)) = Inr (opened name p)"
  using to_text [OF assms] to_visual [OF assms] commits_typing [OF assms disjI2 [OF refl]] by (simp add: opened_def)

theorem mode_switch_keeps_price_witness:
  "bind_sum (handleModeChange RawMode (opened (js ''m'') pasted_price)) (\<lambda>v.
      bind_sum (commits 4 (Some (opened (js ''m'') pasted_price)) v) (handleModeChange VisualMode)) = Inr (opened (js ''m'') pasted_price)"
  by (rule mode_switch_keeps_price [OF sample_prices(2)])

text \<open>C29: When the form goes on to another model with a tiered price, the editor writes the price of the
  model it showed before into the form of the new one: after three renderings, edited before or
  not, the form of the second model holds the tiers and the request rules of the first.\<close>

theorem next_model_gets_old_price:
  assumes "canonical_price p" "canonical_price q" "differ p q" "other \<noteq> name"
  shows "\<exists>w. commits (n + 3) (Some (editing name p p raw i))
        (load_model other (price_expr q) (price_rules q) (editing name p p raw i)) = Inr w
    \<and> modelName w = other \<and> currentExpr w = price_expr p \<and> currentRequestRuleExpr w = price_rules p"
proof -
  have "load_model other (price_expr q) (price_rules q) (editing name p p raw i) = editing other q p raw i"
    by (simp add: load_model_def editing_def)
  then show ?thesis using commits_next_model [OF assms] by fastforce
qed

theorem next_model_gets_old_price_witness:
  "\<exists>w. commits 3 (Some (editing (js ''m'') sample_price sample_price [] False))
        (load_model (js ''n'') (price_expr pasted_price) (price_rules pasted_price) (editing (js ''m'') sample_price sample_price [] False)) = Inr w
    \<and> modelName w = js ''n'' \<and> currentExpr w = price_expr sample_price"
  using next_model_gets_old_price [of sample_price pasted_price "js ''n''" "js ''m''" 0] sample_prices sample_rules_differ
  by (auto simp: plain_price_def differ_def)

text \<open>Pasting the text of a price into the expression editor: when the editor has passed on an edit
  before, the form takes the pasted tiers and rules; right after opening, and with other rules than
  the model has, the form takes the pasted rules, keeps the old tiers, and the visual editor comes
  back.\<close>

theorem pasted_price_in_form:
  assumes "plain_price p" "plain_price q" "price_rules p \<noteq> price_rules q"
  shows "\<exists>w. bind_sum (handleModeChange RawMode (editing name p p raw i)) (\<lambda>v.
        bind_sum (handleRawChange (combineBillingExpr (price_expr q) (price_rules q)) v) (commits (n + 2) (Some v))) = Inr w
    \<and> currentRequestRuleExpr w = price_rules q
    \<and> currentExpr w = (if i then price_expr q else price_expr p) \<and> editorMode w = (if i then RawMode else VisualMode)"
proof -
  note to_text [OF assms(1)] paste_text [OF assms(2)] commits_pasted [OF assms] commits_pasted_later [OF assms(1,2)]
  then show ?thesis by (cases i) simp_all
qed

theorem pasted_price_in_form_witness:
  "\<exists>w. bind_sum (handleModeChange RawMode (opened (js ''m'') sample_price)) (\<lambda>v.
        bind_sum (handleRawChange (combineBillingExpr (price_expr pasted_price) (price_rules pasted_price)) v) (commits 2 (Some v))) = Inr w
    \<and> currentRequestRuleExpr w = price_rules pasted_price \<and> currentExpr w = price_expr sample_price"
  using pasted_price_in_form [OF sample_prices sample_rules_differ, of "js ''m''" "price_text_of sample_price" False 0]
  by (auto simp: opened_def numeral_2_eq_2)

text \<open>C30: Choosing a preset: its request rules reach the form, and its tiers do when the editor has
  passed on an edit before or the preset has the rules of the model; otherwise, right after opening,
  the form keeps the tiers it had, so that a model that was just given tiers and then the preset of the
  night discount costs nothing.\<close>

theorem preset_in_form:
  assumes "canonical_price p" "canonical_price q"
  shows "\<exists>w. commits (n + 2) (Some (editing name p p raw i)) (applyPreset (price_preset k l q) (editing name p p raw i)) = Inr w
    \<and> currentRequestRuleExpr w = price_rules q
    \<and> currentExpr w = (if i \<or> price_rules p = price_rules q then price_expr q else price_expr p)"
proof -
  obtain t where t: "applyPreset (price_preset k l q) (editing name p p raw i) = editing name (mixed p q) q t i"
    using apply_preset [OF assms(2)] by blast
  obtain raw' j where "commits (n + 2) (Some (editing name p p raw i)) (editing name (mixed p q) q t i)
      = Inr (if i \<or> price_rules p = price_rules q then editing name q q raw' j else editing name (mixed p q) (mixed p q) raw' j)"
    using commits_preset [OF assms] by blast
  then show ?thesis unfolding t by (auto split: if_splits)
qed

theorem preset_in_form_witness:
  \<open>\<exists>w. commits 2 (Some (opened (js ''m'') zero_price)) (applyPreset night_discount (opened (js ''m'') zero_price)) = Inr w
    \<and> currentRequestRuleExpr w = buildRequestRuleExpr (the (requestRules night_discount))
    \<and> currentExpr w = js ''tier("base", p * 0 + c * 0)''\<close>
proof -
  have "price_rules night_price = buildRequestRuleExpr (the (requestRules night_discount))" by (simp add: price_rules_def night_price_def)
  then show ?thesis
    using preset_in_form [OF preset_prices, of 0 "js ''m''" "price_text_of zero_price" False "js ''night-discount''" "js ''Night discount (50%)''"]
      night_rules_differ
    unfolding night_discount_price [symmetric] by (auto simp: opened_def zero_expr numeral_2_eq_2 simp del: js.simps)
qed

text \<open>The first edit after opening is replaced by what its text reads back: the form and the editor end
  with the tiers and the rules that the parser finds in it, so that a rule the parser does not
  read, such as a comparison of a request parameter, removes the rules.\<close>

theorem first_edit_read_again:
  assumes "differ p q" "tryParseVisualConfig (price_expr q) = Some (fst r)" "rule_groups (price_rules q) = Inr (snd r)"
  shows "\<exists>w. commits (n + 3) (Some (opened name p)) (handleRuleGroupsChange (snd q) (handleVisualChange (fst q) (opened name p))) = Inr w
    \<and> currentExpr w = price_expr r \<and> currentRequestRuleExpr w = price_rules r \<and> requestRuleGroups w = snd r"
proof -
  have "handleRuleGroupsChange (snd q) (handleVisualChange (fst q) (opened name p)) = editing name p q (price_text_of p) False"
    by (simp add: handleRuleGroupsChange_def handleVisualChange_def opened_def editing_def)
  then show ?thesis using commits_reread [OF assms] by (simp add: opened_def)
qed

definition compared_price :: price where
  "compared_price = (sample_tiers, [\<lparr>conditions = [ph SOURCE_PARAM (js ''n'') MATCH_GT (js ''2'')], multiplier = js ''6''\<rparr>])"

theorem first_edit_read_again_witness:
  "\<exists>w. commits 3 (Some (opened (js ''m'') pasted_price))
      (handleRuleGroupsChange (snd compared_price) (handleVisualChange sample_tiers (opened (js ''m'') pasted_price))) = Inr w
    \<and> currentRequestRuleExpr w = []"
proof -
  have u: "tryParseRequestRuleExpr (price_rules compared_price) = Inr None"
    using param_comparison_unread [of "js ''n''" MATCH_GT "js ''2''" "js ''6''"] numeric_examples
    by (simp add: price_rules_def compared_price_def plain_def plain_unit_def trimmed_def)
  have "tryParseRequestRuleExpr (price_rules pasted_price) = Inr (Some example_groups)"
    by (simp add: price_rules_def pasted_price_def rules_read_back example_groups_canonical)
  then have "differ pasted_price compared_price" using u by (auto simp: differ_def)
  moreover have "tryParseVisualConfig (price_expr compared_price) = Some (fst (sample_tiers, []))"
    using config_read_back [OF sample_canonical] by (simp add: price_expr_def compared_price_def)
  moreover have "rule_groups (price_rules compared_price) = Inr (snd (sample_tiers, []))" using u by (simp add: rule_groups_def)
  ultimately have "\<exists>w. commits (0 + 3) (Some (opened (js ''m'') pasted_price))
      (handleRuleGroupsChange (snd compared_price) (handleVisualChange (fst compared_price) (opened (js ''m'') pasted_price))) = Inr w
    \<and> currentExpr w = price_expr (sample_tiers, []) \<and> currentRequestRuleExpr w = price_rules (sample_tiers, [])
    \<and> requestRuleGroups w = snd (sample_tiers, [])"
    by (rule first_edit_read_again)
  moreover have "price_rules (sample_tiers, []) = []" by (simp add: price_rules_def buildRequestRuleExpr_def)
  ultimately show ?thesis by (auto simp: compared_price_def)
qed

end
