(* ===== verification/Tiered_Visual.thy ===== *)
theory Tiered_Visual
  imports Billing_Tiers_Props Billing_Props List_Splice
begin

text \<open>
  The visual editor of tiered prices (\<open>DraftNumberInput\<close>, \<open>ConditionRow\<close>, \<open>VisualTierCard\<close>,
  \<open>VisualEditor\<close>, \<open>RuleConditionRow\<close> and \<open>RuleGroupCard\<close> in \<open>tiered-pricing-editor.tsx\<close>): what its callbacks
  make of the tiers and of the request rules.
\<close>

section \<open>Number inputs\<close>

definition parseNumberDraft :: "jsstring \<Rightarrow> jsnum" where
  "parseNumberDraft value =
     (if trim value = [] then Fin 0
      else (let next = js_Number value in if js_isFinite next then next else Fin 0))"

definition formatNumberDraft :: "cond_value \<Rightarrow> jsstring" where
  "formatNumberDraft value =
     (case value of
        CText s \<Rightarrow> s
      | CNum n \<Rightarrow> if js_isFinite n then js_String n else js ''0'')"

definition isZeroDraft :: "jsstring \<Rightarrow> bool" where
  "isZeroDraft value \<longleftrightarrow> trim value \<noteq> [] \<and> parseNumberDraft value = Fin 0"

text \<open>The state of an input; the callbacks also give the number they pass on.\<close>

record NumberInput =
  ni_draft :: jsstring
  ni_focused :: bool

definition mount_input :: "cond_value \<Rightarrow> NumberInput" where
  "mount_input value = \<lparr>ni_draft = formatNumberDraft value, ni_focused = False\<rparr>"

definition displayValue :: "cond_value \<Rightarrow> NumberInput \<Rightarrow> jsstring" where
  "displayValue value i = (if ni_focused i then ni_draft i else formatNumberDraft value)"

definition input_change :: "jsstring \<Rightarrow> NumberInput \<Rightarrow> NumberInput \<times> jsnum" where
  "input_change nextDraft i = (i\<lparr>ni_draft := nextDraft\<rparr>, parseNumberDraft nextDraft)"

definition input_focus :: "NumberInput \<Rightarrow> NumberInput" where
  "input_focus i = i\<lparr>ni_focused := True\<rparr>"

definition input_blur :: "jsstring \<Rightarrow> NumberInput \<Rightarrow> NumberInput \<times> jsnum" where
  "input_blur current i =
     (let normalized = parseNumberDraft current
      in (i\<lparr>ni_focused := False, ni_draft := js_String normalized\<rparr>, normalized))"

section \<open>Tiers\<close>

definition CONDITION_INPUT_OPTIONS :: "(jsstring \<times> jsstring) list" where
  "CONDITION_INPUT_OPTIONS =
     [(js ''len'', js ''Full input length''), (js ''p'', js ''Billable input tokens''), (js ''c'', js ''Billable output tokens'')]"

definition OPS :: "jsstring list" where
  "OPS = map js [''<'', ''<='', ''>'', ''>='']"

definition priceToUnitCost :: "jsnum \<Rightarrow> jsnum" where
  "priceToUnitCost price = or_zero (Some price)"

text \<open>The changes that a row of a condition passes on; a number comes from the text of its input.\<close>

datatype condition_edit = SetVar jsstring | SetOp jsstring | SetValue jsstring

fun edit_condition :: "condition_edit \<Rightarrow> TierConditionInput \<Rightarrow> TierConditionInput" where
  "edit_condition (SetVar v) c = c\<lparr>ci_var := v\<rparr>"
| "edit_condition (SetOp op) c = c\<lparr>ci_op := op\<rparr>"
| "edit_condition (SetValue draft) c = c\<lparr>ci_value := CNum (parseNumberDraft draft)\<rparr>"

definition handleConditionChange :: "nat \<Rightarrow> TierConditionInput \<Rightarrow> VisualTier \<Rightarrow> VisualTier" where
  "handleConditionChange i next tier = tier\<lparr>vt_conditions := (vt_conditions tier)[i := next]\<rparr>"

definition handleConditionRemove :: "nat \<Rightarrow> VisualTier \<Rightarrow> VisualTier" where
  "handleConditionRemove i tier = tier\<lparr>vt_conditions := splice_out i (vt_conditions tier)\<rparr>"

definition handlePriceChange :: "jsstring \<Rightarrow> jsnum \<Rightarrow> VisualTier \<Rightarrow> VisualTier" where
  "handlePriceChange field value tier = tier\<lparr>vt_costs := (vt_costs tier)(field \<mapsto> value)\<rparr>"

definition handleCacheModeChange :: "CacheMode \<Rightarrow> VisualTier \<Rightarrow> VisualTier" where
  "handleCacheModeChange mode tier =
     tier\<lparr>vt_cache_mode := mode,
       vt_costs := (vt_costs tier)(cost_1h \<mapsto> (if mode = CACHE_MODE_TIMED
         then (case vt_costs tier cost_1h of Some x \<Rightarrow> x | None \<Rightarrow> Fin 0) else Fin 0))\<rparr>"

datatype tier_edit = SetLabel jsstring | EditCondition nat condition_edit | RemoveCondition nat
  | SetPrice jsstring jsstring | SetCacheMode CacheMode

fun edit_tier :: "tier_edit \<Rightarrow> VisualTier \<Rightarrow> VisualTier" where
  "edit_tier (SetLabel l) t = t\<lparr>vt_label := l\<rparr>"
| "edit_tier (EditCondition i e) t = handleConditionChange i (edit_condition e (vt_conditions t ! i)) t"
| "edit_tier (RemoveCondition i) t = handleConditionRemove i t"
| "edit_tier (SetPrice f draft) t = handlePriceChange f (priceToUnitCost (parseNumberDraft draft)) t"
| "edit_tier (SetCacheMode m) t = handleCacheModeChange m t"

text \<open>The list of tiers; \<open>config\<close> is the normalised configuration that is shown.\<close>

definition handleTierChange :: "nat \<Rightarrow> VisualTier \<Rightarrow> VisualTier list \<Rightarrow> VisualTier list" where
  "handleTierChange index next config = config[index := normalizeVisualTier (to_partial_tier next)]"

definition default_condition :: "jsstring \<Rightarrow> TierConditionInput" where
  "default_condition v = \<lparr>ci_var = v, ci_op = js ''<'', ci_value = CNum (num 200000)\<rparr>"

definition handleAddTier :: "VisualTier list \<Rightarrow> VisualTier list" where
  "handleAddTier config =
     (let tiers = (if config \<noteq> [] \<and> vt_conditions (last config) = []
            then butlast config @ [normalizeVisualTier (to_partial_tier ((last config)\<lparr>vt_conditions := [default_condition (js ''len'')]\<rparr>))]
            else config)
      in tiers @ [normalizeVisualTier \<lparr>pt_label = Some (js ''tier_'' @ show_nat (length tiers + 1)), pt_conditions = Some [],
           pt_cache_mode = None, pt_costs = [js ''input_unit_cost'' \<mapsto> Fin 0, js ''output_unit_cost'' \<mapsto> Fin 0]\<rparr>])"

definition handleRemoveTier :: "nat \<Rightarrow> VisualTier list \<Rightarrow> VisualTier list" where
  "handleRemoveTier index config =
     (let tiers = splice_out index config in if length tiers > 0 then tiers else config)"

text \<open>\<open>None\<close> when the change is not passed on.\<close>

definition handleAddCondition :: "nat \<Rightarrow> VisualTier list \<Rightarrow> VisualTier list option" where
  "handleAddCondition index config =
     (let cs = vt_conditions (config ! index)
      in if length cs \<ge> 2 then None
         else Some (config[index := (config ! index)\<lparr>vt_conditions :=
           cs @ [default_condition (if js ''len'' \<in> ci_var ` set cs then js ''c'' else js ''len'')]\<rparr>]))"

text \<open>A change of the configuration by the widgets.\<close>

datatype config_edit = EditTier nat tier_edit | AddTier | RemoveTier nat | AddConditionTo nat

definition edit_config :: "config_edit \<Rightarrow> VisualTier list option \<Rightarrow> VisualTier list option" where
  "edit_config e visualConfig =
     (let config = normalizeVisualConfig (case visualConfig of Some ts \<Rightarrow> ts | None \<Rightarrow> [])
      in case e of
           EditTier i te \<Rightarrow> Some (handleTierChange i (edit_tier te (config ! i)) config)
         | AddTier \<Rightarrow> Some (handleAddTier config)
         | RemoveTier i \<Rightarrow> Some (handleRemoveTier i config)
         | AddConditionTo i \<Rightarrow> (case handleAddCondition i config of Some next \<Rightarrow> Some next | None \<Rightarrow> visualConfig))"

section \<open>Request rules\<close>

definition handleSourceChange :: "jsstring \<Rightarrow> RequestCondition option" where
  "handleSourceChange source =
     (if source = SOURCE_TIME then Some (Time createEmptyTimeCondition)
      else if source = SOURCE_HEADER \<or> source = SOURCE_PARAM then Some (PH (createEmptyCondition\<lparr>ph_source := source\<rparr>))
      else None)"

definition rule_mode_change :: "jsstring \<Rightarrow> RequestCondition \<Rightarrow> RequestCondition" where
  "rule_mode_change mode c = (case c of PH p \<Rightarrow> PH (p\<lparr>ph_mode := mode\<rparr>) | Time t \<Rightarrow> Time (t\<lparr>t_mode := mode\<rparr>))"

definition rule_condition_change :: "nat \<Rightarrow> RequestCondition \<Rightarrow> RequestRuleGroup \<Rightarrow> RequestRuleGroup" where
  "rule_condition_change i next g = g\<lparr>conditions := (conditions g)[i := next]\<rparr>"

definition rule_condition_remove :: "nat \<Rightarrow> RequestRuleGroup \<Rightarrow> RequestRuleGroup" where
  "rule_condition_remove i g = g\<lparr>conditions := splice_out i (conditions g)\<rparr>"

definition rule_add_condition :: "bool \<Rightarrow> RequestRuleGroup \<Rightarrow> RequestRuleGroup" where
  "rule_add_condition timeMode g =
     g\<lparr>conditions := conditions g @ [if timeMode then Time createEmptyTimeCondition else PH createEmptyCondition]\<rparr>"

definition rule_multiplier_change :: "jsnum \<Rightarrow> RequestRuleGroup \<Rightarrow> RequestRuleGroup" where
  "rule_multiplier_change value g = g\<lparr>multiplier := js_String value\<rparr>"

definition rule_group_change :: "nat \<Rightarrow> RequestRuleGroup \<Rightarrow> RequestRuleGroup list \<Rightarrow> RequestRuleGroup list" where
  "rule_group_change i next groups = groups[i := next]"

definition rule_group_remove :: "nat \<Rightarrow> RequestRuleGroup list \<Rightarrow> RequestRuleGroup list" where
  "rule_group_remove i groups = splice_out i groups"

definition rule_group_add :: "RequestRuleGroup list \<Rightarrow> RequestRuleGroup list" where
  "rule_group_add groups = groups @ [createEmptyRuleGroup]"

end
