(* ===== verification/Tiered_Visual_Props.thy ===== *)
theory Tiered_Visual_Props
  imports Tiered_Visual
begin

text \<open>
  What the visual editor of tiered prices keeps: the form of the tiers under every edit, and tiers
  that read back when one is added; and the conditions that it shows and does not write.
\<close>

section \<open>Numbers\<close>

lemma parse_finite [simp]: "js_isFinite (parseNumberDraft s)"
  by (simp add: parseNumberDraft_def Let_def)

lemma or_zero_finite: "js_isFinite n \<Longrightarrow> js_isFinite (or_zero (Some n))"
  by (simp add: or_zero_def)

section \<open>What every edit keeps\<close>

text \<open>What is kept, for a greatest number of conditions \<open>k\<close> and a set \<open>N\<close> of numbers that need not be finite:
  each condition has a variable and an operator that the editor offers and a number; every cost is there.\<close>

definition fine_number :: "jsnum set \<Rightarrow> jsnum \<Rightarrow> bool" where
  "fine_number N n \<longleftrightarrow> js_isFinite n \<or> n \<in> N"

definition offered_condition :: "jsnum set \<Rightarrow> TierConditionInput \<Rightarrow> bool" where
  "offered_condition N c \<longleftrightarrow> ci_var c \<in> fst ` set CONDITION_INPUT_OPTIONS \<and> ci_op c \<in> set OPS
     \<and> (\<exists>n. ci_value c = CNum n \<and> fine_number N n)"

definition offered_tier :: "nat \<Rightarrow> jsnum set \<Rightarrow> VisualTier \<Rightarrow> bool" where
  "offered_tier k N t \<longleftrightarrow> length (vt_conditions t) \<le> k \<and> (\<forall>c\<in>set (vt_conditions t). offered_condition N c)
     \<and> set (base_cost_fields @ extra_cost_fields) \<subseteq> dom (vt_costs t) \<and> (\<forall>n\<in>ran (vt_costs t). fine_number N n)"

definition offered_config :: "nat \<Rightarrow> jsnum set \<Rightarrow> VisualTier list \<Rightarrow> bool" where
  "offered_config k N ts \<longleftrightarrow> ts \<noteq> [] \<and> (\<forall>t\<in>set ts. offered_tier k N t)"

lemma fine_finite [simp]: "js_isFinite n \<Longrightarrow> fine_number N n"
  by (simp add: fine_number_def)

lemma or_zero_fine: "fine_number N n \<Longrightarrow> fine_number N (or_zero (Some n))"
  by (simp add: or_zero_def)

text \<open>The widgets name tiers and conditions that are there, and choose from their options.\<close>

fun offered_edit :: "config_edit \<Rightarrow> VisualTier list \<Rightarrow> bool" where
  "offered_edit (EditTier i (EditCondition j (SetVar v))) ts \<longleftrightarrow>
     i < length ts \<and> j < length (vt_conditions (ts ! i)) \<and> v \<in> fst ` set CONDITION_INPUT_OPTIONS"
| "offered_edit (EditTier i (EditCondition j (SetOp op))) ts \<longleftrightarrow>
     i < length ts \<and> j < length (vt_conditions (ts ! i)) \<and> op \<in> set OPS"
| "offered_edit (EditTier i (EditCondition j (SetValue s))) ts \<longleftrightarrow> i < length ts \<and> j < length (vt_conditions (ts ! i))"
| "offered_edit (EditTier i e) ts \<longleftrightarrow> i < length ts"
| "offered_edit AddTier ts \<longleftrightarrow> True"
| "offered_edit (RemoveTier i) ts \<longleftrightarrow> i < length ts"
| "offered_edit (AddConditionTo i) ts \<longleftrightarrow> i < length ts"

lemma normal_partial:
  assumes "pt_conditions t = Some cs" "length cs \<le> k" "\<forall>c\<in>set cs. offered_condition N c"
    and "\<forall>n\<in>ran (pt_costs t). fine_number N n"
  shows "offered_tier k N (normalizeVisualTier t)"
proof -
  have "fine_number N n" if "vt_costs (normalizeVisualTier t) f = Some n" for f n
    using that assms(4) ranI [of "pt_costs t" f] by (cases "pt_costs t f") (auto simp: normalizeVisualTier_def or_zero_def simp: fine_number_def split: if_splits)
  moreover have "set (base_cost_fields @ extra_cost_fields) \<subseteq> dom (vt_costs (normalizeVisualTier t))" by (auto simp: normalizeVisualTier_def)
  moreover have "vt_conditions (normalizeVisualTier t) = cs" using assms(1) by (simp add: normalizeVisualTier_def)
  ultimately show ?thesis using assms(2,3) by (auto simp: offered_tier_def ran_def)
qed

lemma default_tier: "offered_tier k N (normalizeVisualTier \<lparr>pt_label = Some l, pt_conditions = Some [], pt_cache_mode = m,
    pt_costs = [js ''input_unit_cost'' \<mapsto> Fin 0, js ''output_unit_cost'' \<mapsto> Fin 0]\<rparr>)"
  by (rule normal_partial [where cs = "[]"]) (auto simp: ran_def split: if_splits)

lemma default_offered: "offered_condition N (default_condition (js ''len''))" "offered_condition N (default_condition (js ''c''))"
  by (simp_all add: offered_condition_def default_condition_def CONDITION_INPUT_OPTIONS_def OPS_def)

lemma default_config: "offered_config k N createDefaultVisualConfig"
  using default_tier by (simp add: offered_config_def createDefaultVisualConfig_def)

text \<open>A tier with fine numbers is offered after normalisation.\<close>

definition fine_tier :: "nat \<Rightarrow> jsnum set \<Rightarrow> VisualTier \<Rightarrow> bool" where
  "fine_tier k N t \<longleftrightarrow> length (vt_conditions t) \<le> k \<and> (\<forall>c\<in>set (vt_conditions t). offered_condition N c) \<and> (\<forall>n\<in>ran (vt_costs t). fine_number N n)"

lemma normal_tier: "fine_tier k N t \<Longrightarrow> offered_tier k N (normalizeVisualTier (to_partial_tier t))"
  by (rule normal_partial [of _ "vt_conditions t"]) (auto simp: fine_tier_def to_partial_tier_def)

lemma offered_fine: "offered_tier k N t \<Longrightarrow> fine_tier k N t"
  by (simp add: offered_tier_def fine_tier_def)

lemma normal_config: "offered_config k N ts \<Longrightarrow> offered_config k N (normalizeVisualConfig ts) \<and> length (normalizeVisualConfig ts) = length ts"
  by (auto simp: offered_config_def normalizeVisualConfig_def intro: normal_tier offered_fine)

lemma edited_condition:
  assumes "offered_condition N c" "\<And>v. e = SetVar v \<Longrightarrow> v \<in> fst ` set CONDITION_INPUT_OPTIONS" "\<And>op. e = SetOp op \<Longrightarrow> op \<in> set OPS"
  shows "offered_condition N (edit_condition e c)"
  using assms by (cases e) (auto simp: offered_condition_def)

lemma ran_upd_fine: "\<forall>n\<in>ran m. fine_number N n \<Longrightarrow> fine_number N x \<Longrightarrow> \<forall>n\<in>ran (m(f \<mapsto> x)). fine_number N n"
  by (auto simp: ran_def split: if_splits)

lemma set_splice_out: "set (splice_out i xs) \<subseteq> set xs"
  by (auto simp: splice_out_def dest: in_set_takeD in_set_dropD)

lemma length_splice_le: "length (splice_out i xs) \<le> length xs"
  by (simp add: splice_out_def)

lemma edited_tier:
  assumes t: "offered_tier k N (ts ! i)" and e: "offered_edit (EditTier i e) ts"
  shows "fine_tier k N (edit_tier e (ts ! i))"
proof (cases e)
  case (SetLabel l)
  then show ?thesis using t by (simp add: offered_tier_def fine_tier_def)
next
  case (EditCondition j ce)
  have j: "j < length (vt_conditions (ts ! i))" using e EditCondition by (cases ce) auto
  then have "offered_condition N (edit_condition ce (vt_conditions (ts ! i) ! j))"
    using t e EditCondition by (intro edited_condition) (auto simp: offered_tier_def)
  then show ?thesis using t EditCondition
    by (auto simp: offered_tier_def fine_tier_def handleConditionChange_def dest: subsetD [OF set_update_subset_insert])
next
  case (RemoveCondition j)
  then show ?thesis using t set_splice_out [of j "vt_conditions (ts ! i)"] length_splice_le [of j "vt_conditions (ts ! i)"]
    by (auto simp: offered_tier_def fine_tier_def handleConditionRemove_def)
next
  case (SetPrice f draft)
  have "\<forall>n\<in>ran ((vt_costs (ts ! i))(f \<mapsto> priceToUnitCost (parseNumberDraft draft))). fine_number N n"
    using t by (intro ran_upd_fine) (simp_all add: offered_tier_def priceToUnitCost_def or_zero_fine)
  then show ?thesis using t SetPrice by (simp add: offered_tier_def fine_tier_def handlePriceChange_def)
next
  case (SetCacheMode m)
  let ?x = "if m = CACHE_MODE_TIMED then (case vt_costs (ts ! i) cost_1h of Some x \<Rightarrow> x | None \<Rightarrow> Fin 0) else Fin 0"
  have "fine_number N ?x" using t by (auto simp: offered_tier_def split: option.splits intro: ranI)
  then have "\<forall>n\<in>ran ((vt_costs (ts ! i))(cost_1h \<mapsto> ?x)). fine_number N n"
    using t by (intro ran_upd_fine) (simp_all add: offered_tier_def)
  then show ?thesis using t SetCacheMode by (simp add: offered_tier_def fine_tier_def handleCacheModeChange_def)
qed

lemma offered_update:
  "offered_config k N ts \<Longrightarrow> i < length ts \<Longrightarrow> offered_tier k N t \<Longrightarrow> offered_config k N (ts[i := t])"
  by (auto simp: offered_config_def dest: subsetD [OF set_update_subset_insert])

lemma offered_nth: "offered_config k N ts \<Longrightarrow> i < length ts \<Longrightarrow> offered_tier k N (ts ! i)"
  by (simp add: offered_config_def)

lemma add_tier_offered:
  assumes "offered_config k N ts" "2 \<le> k"
  shows "offered_config k N (handleAddTier ts)"
proof -
  have l: "offered_tier k N (last ts)" "\<forall>t\<in>set (butlast ts). offered_tier k N t"
    using assms by (auto simp: offered_config_def dest: in_set_butlastD)
  then have "offered_tier k N (normalizeVisualTier (to_partial_tier ((last ts)\<lparr>vt_conditions := [default_condition (js ''len'')]\<rparr>)))"
    using default_offered(1) assms(2) by (intro normal_tier) (auto simp: fine_tier_def offered_tier_def)
  then show ?thesis using l assms default_tier by (auto simp: handleAddTier_def offered_config_def Let_def simp del: js.simps)
qed

lemma edit_offered:
  assumes "offered_config k N ts" "offered_edit e (normalizeVisualConfig ts)" "edit_config e (Some ts) = Some us" "2 \<le> k"
  shows "offered_config k N us"
proof -
  let ?ts = "normalizeVisualConfig ts"
  have n: "offered_config k N ?ts" using normal_config [OF assms(1)] by blast
  show ?thesis
  proof (cases e)
    case (EditTier i te)
    have i: "i < length ?ts" using assms(2) EditTier by (cases te) (auto split: condition_edit.splits elim: offered_edit.elims)
    have "fine_tier k N (edit_tier te (?ts ! i))" using edited_tier [OF offered_nth [OF n i]] assms(2) EditTier by blast
    then show ?thesis using assms(3) EditTier offered_update [OF n i normal_tier] by (auto simp: edit_config_def handleTierChange_def Let_def)
  next
    case AddTier
    then show ?thesis using assms(3) add_tier_offered [OF n assms(4)] by (simp add: edit_config_def Let_def)
  next
    case (RemoveTier i)
    then show ?thesis using assms(3) n set_splice_out [of i ?ts]
      by (auto simp: edit_config_def handleRemoveTier_def Let_def offered_config_def split: if_splits)
  next
    case (AddConditionTo i)
    then have i: "i < length ?ts" using assms(2) by simp
    have "offered_tier k N ((?ts ! i)\<lparr>vt_conditions := vt_conditions (?ts ! i) @ [default_condition v]\<rparr>)"
      if "length (vt_conditions (?ts ! i)) < 2" "v = js ''c'' \<or> v = js ''len''" for v
      using that assms(4) offered_nth [OF n i] default_offered by (auto simp: offered_tier_def simp del: js.simps)
    then show ?thesis using assms(1,3) AddConditionTo offered_update [OF n i]
      by (auto simp: edit_config_def handleAddCondition_def Let_def not_le simp del: js.simps split: if_splits)
  qed
qed

text \<open>The configurations that the visual editor reaches from one that was read or from the default.\<close>

inductive reachable_config :: "VisualTier list \<Rightarrow> VisualTier list \<Rightarrow> bool" for ts where
  start: "reachable_config ts ts"
| edit: "reachable_config ts us \<Longrightarrow> offered_edit e (normalizeVisualConfig us) \<Longrightarrow> edit_config e (Some us) = Some vs \<Longrightarrow> reachable_config ts vs"

section \<open>What is read\<close>

primrec groups_of :: "re \<Rightarrow> nat set" where
  "groups_of (RSet P) = {}"
| "groups_of REps = {}"
| "groups_of (RSeq a b) = groups_of a \<union> groups_of b"
| "groups_of (RAlt a b) = groups_of a \<union> groups_of b"
| "groups_of (RStar a) = groups_of a"
| "groups_of (RGroup i a) = insert i (groups_of a)"
| "groups_of (RBack i) = {}"
| "groups_of RBegin = {}"
| "groups_of REnd = {}"
| "groups_of RWordB = {}"

lemma group_kept: "j \<notin> groups_of r \<Longrightarrow> st' \<in> set (rmatch r st) \<Longrightarrow> snd (snd st') j = snd (snd st) j"
proof (induction r arbitrary: st st')
  case (RSet P)
  then show ?case by (cases st) (auto split: list.splits if_splits)
next
  case (RSeq a b)
  then obtain st1 where "st1 \<in> set (rmatch a st)" "st' \<in> set (rmatch b st1)" by auto
  then show ?case using RSeq.IH RSeq.prems(1) by (metis UnCI groups_of.simps(3))
next
  case (RStar r)
  show ?case
    by (rule rstar_keeps [of "rmatch r" "\<lambda>x. snd (snd x) j = snd (snd st) j" st' "length (rest_of st)" st])
       (use RStar in \<open>auto simp del: rstar.simps\<close>)
next
  case (RGroup i r)
  then obtain pre w c where "(pre, w, c) \<in> set (rmatch r st)" "snd (snd st') = c(i \<mapsto> rev (take (length pre - length (fst st)) pre))"
    by auto
  then show ?case using RGroup.IH [of "(pre, w, c)" st] RGroup.prems(1) by simp
next
  case (RBack i)
  then show ?case by (cases st) (auto simp: Let_def split: if_splits)
qed (auto split: if_splits)

text \<open>A group around alternatives of literals holds one of them, whatever follows it.\<close>

lemma literal_group:
  "st' \<in> set (rmatch (RSeq (RGroup i (ralts (map rlit ws))) k) st) \<Longrightarrow> ws \<noteq> [] \<Longrightarrow> i \<notin> groups_of k
   \<Longrightarrow> \<exists>w\<in>set ws. snd (snd st') i = Some (js w)"
proof (induction "map rlit ws" arbitrary: ws rule: ralts.induct)
  case (2 r)
  then obtain w where w: "ws = [w]" "r = rlit w" by auto
  obtain pre s c where st: "st = (pre, s, c)" by (cases st)
  have "st' \<in> set (rmatch k (rev (js w) @ pre, drop (length w) s, c(i \<mapsto> js w)))"
    using 2 unfolding w st list.map ralts.simps rmatch_seq_group_lit by (simp split: if_splits)
  then show ?case using group_kept [OF "2.prems"(3)] w by fastforce
next
  case (3 r r' rs)
  then obtain w ws' where w: "ws = w # ws'" "ws' \<noteq> []" "r' # rs = map rlit ws'" by auto
  obtain pre s c where st: "st = (pre, s, c)" by (cases st)
  have alts: "ralts (map rlit ws) = RAlt (rlit w) (ralts (map rlit ws'))" using w by (cases ws') auto
  consider "st' \<in> set (rmatch (RSeq (RGroup i (rlit w)) k) st)" | "st' \<in> set (rmatch (RSeq (RGroup i (ralts (map rlit ws'))) k) st)"
    using "3.prems"(1) unfolding alts rmatch_seq_group_alt set_append by blast
  then show ?case
  proof cases
    case 1
    then have "st' \<in> set (rmatch k (rev (js w) @ pre, drop (length w) s, c(i \<mapsto> js w)))"
      unfolding st rmatch_seq_group_lit by (simp split: if_splits)
    then show ?thesis using group_kept [OF "3.prems"(3)] w by fastforce
  next
    case 2
    then show ?thesis using "3.hyps"(1) [OF w(3)] w "3.prems"(3) by auto
  qed
qed auto

lemma first_in_set: "first xs = Some x \<Longrightarrow> x \<in> set xs"
  by (cases xs) auto

lemma read_condition_offered:
  assumes "c \<in> set (read_condition s)"
  shows "tc_var c \<in> fst ` set CONDITION_INPUT_OPTIONS \<and> tc_op c \<in> set OPS"
proof -
  let ?k = "rseqs [ws_re, RGroup 3 (rplus (RSet condc)), REnd]" and ?vars = "[''p'', ''c'', ''len'']" and ?ops = "[''<'', ''<='', ''>'', ''>='']"
  let ?r = "RSeq (RGroup 1 (ralts (map rlit ?vars))) (RSeq ws_re (RSeq (RGroup 2 (ralts (map rlit ?ops))) ?k))"
  have re: "cond_match_re = RSeq RBegin ?r"
    by (simp add: cond_match_re_def cond_var_re_def cond_op_re_def)
  obtain cm where cm: "re_match cond_match_re (trim s) = Some cm" "c = \<lparr>tc_var = group cm 1, tc_op = group cm 2, tc_value = js_Number (group cm 3)\<rparr>"
    using assms unfolding read_condition_def by (cases "re_match cond_match_re (trim s)") auto
  then obtain pre r where st: "(pre, r, cm) \<in> set (rmatch ?r ([], trim s, no_caps))"
    unfolding re re_match_begin by (auto simp del: rmatch.simps ralts.simps rseqs.simps dest!: first_in_set)
  have g: "groups_of ?k = {3}" "groups_of (RSeq ws_re (RSeq (RGroup 2 (ralts (map rlit ?ops))) ?k)) = {2, 3}"
    by (auto simp: ws_re_def rplus_def rlit_def)
  have "\<exists>w\<in>set ?vars. cm 1 = Some (js w)"
    using literal_group [OF st] unfolding g by simp
  moreover obtain st1 where st1: "(pre, r, cm) \<in> set (rmatch (RSeq (RGroup 2 (ralts (map rlit ?ops))) ?k) st1)"
    using st unfolding seq_through [of _ "RGroup 1 _"] seq_through [of _ ws_re] by blast
  have "\<exists>w\<in>set ?ops. cm 2 = Some (js w)"
    using literal_group [OF st1] unfolding g by simp
  ultimately show ?thesis
    by (auto simp: cm(2) group_def CONDITION_INPUT_OPTIONS_def OPS_def)
qed

text \<open>The configuration that the visual editor starts from: the one that is read from the expression, or
  the default when none is.\<close>

definition read_config :: "jsstring \<Rightarrow> VisualTier list" where
  "read_config exprStr = (case tryParseVisualConfig exprStr of Some ts \<Rightarrow> ts | None \<Rightarrow> createDefaultVisualConfig)"

definition most_conditions :: "VisualTier list \<Rightarrow> nat" where
  "most_conditions ts = foldr (\<lambda>t. max (length (vt_conditions t))) ts 0"

definition tier_numbers :: "VisualTier \<Rightarrow> jsnum set" where
  "tier_numbers t = ran (vt_costs t) \<union> {n. \<exists>c\<in>set (vt_conditions t). ci_value c = CNum n}"

definition config_numbers :: "VisualTier list \<Rightarrow> jsnum set" where
  "config_numbers ts = (\<Union>t\<in>set ts. tier_numbers t)"

lemma most_conditions_ge: "t \<in> set ts \<Longrightarrow> length (vt_conditions t) \<le> most_conditions ts"
  unfolding most_conditions_def by (induction ts) auto

text \<open>What every configuration has that the editor reads.\<close>

definition read_tier :: "VisualTier \<Rightarrow> bool" where
  "read_tier t \<longleftrightarrow> set (base_cost_fields @ extra_cost_fields) \<subseteq> dom (vt_costs t)
     \<and> (\<forall>c\<in>set (vt_conditions t). ci_var c \<in> fst ` set CONDITION_INPUT_OPTIONS \<and> ci_op c \<in> set OPS \<and> (\<exists>n. ci_value c = CNum n))"

lemma normal_costs: "set (base_cost_fields @ extra_cost_fields) \<subseteq> dom (vt_costs (normalizeVisualTier t))"
  by (auto simp: normalizeVisualTier_def)

lemma read_tier_normal: "read_tier t \<Longrightarrow> read_tier (normalizeVisualTier (to_partial_tier t))"
  using normal_costs [of "to_partial_tier t"] by (simp add: read_tier_def) (simp add: normalizeVisualTier_def to_partial_tier_def)

lemma matched_read:
  assumes "\<forall>c\<in>set cs. ci_var c \<in> fst ` set CONDITION_INPUT_OPTIONS \<and> ci_op c \<in> set OPS \<and> (\<exists>n. ci_value c = CNum n)"
  shows "read_tier (matched_tier cs i m)"
  using assms normal_costs unfolding read_tier_def matched_tier_def by (simp add: normalizeVisualTier_def)

lemma read_conditions_offered:
  "\<forall>c\<in>set (map to_input (read_conditions s)). ci_var c \<in> fst ` set CONDITION_INPUT_OPTIONS \<and> ci_op c \<in> set OPS \<and> (\<exists>n. ci_value c = CNum n)"
  using read_condition_offered by (fastforce simp: read_conditions_def to_input_def split: if_splits)

lemma tryParse_matched:
  assumes "tryParseVisualConfig s = Some ts"
  shows "\<exists>us. ts = normalizeVisualConfig us \<and> us \<noteq> []
    \<and> (\<forall>t\<in>set us. \<exists>cs i m. t = matched_tier cs i m \<and> (cs = [] \<or> (\<exists>w. cs = map to_input (read_conditions w))))"
proof -
  define body where "body = (case re_match plain_version_re s of Some m \<Rightarrow> group m 1 | None \<Rightarrow> s)"
  show ?thesis
  proof (cases "re_match singleRe body")
    case (Some m)
    then have "ts = normalizeVisualConfig [matched_tier [] 1 m]"
      using assms by (simp add: tryParseVisualConfig_def Let_def body_def split: if_splits)
    then show ?thesis by (intro exI [of _ "[matched_tier [] 1 m]"]) auto
  next
    case None
    define us where "us = map (\<lambda>m. matched_tier (map to_input (read_conditions (group m 1))) 2 m) (exec_all visualTierRe [] body)"
    have "us \<noteq> [] \<and> ts = normalizeVisualConfig us"
      using assms None unfolding tryParseVisualConfig_def body_def [symmetric] by (simp add: Let_def us_def split: if_splits)
    moreover have "\<forall>t\<in>set us. \<exists>cs i m. t = matched_tier cs i m \<and> (cs = [] \<or> (\<exists>w. cs = map to_input (read_conditions w)))"
      by (auto simp: us_def)
    ultimately show ?thesis by blast
  qed
qed

lemma read_config_tiers: "read_config s \<noteq> [] \<and> (\<forall>t\<in>set (read_config s). read_tier t)"
proof -
  have normal: "normalizeVisualConfig ts \<noteq> [] \<and> (\<forall>t\<in>set (normalizeVisualConfig ts). read_tier t)"
    if "ts \<noteq> []" "\<forall>t\<in>set ts. read_tier t" for ts
    using that read_tier_normal by (simp add: normalizeVisualConfig_def)
  have default: "createDefaultVisualConfig \<noteq> [] \<and> (\<forall>t\<in>set createDefaultVisualConfig. read_tier t)"
    using normal_costs unfolding read_tier_def createDefaultVisualConfig_def by (simp add: normalizeVisualTier_def)
  have "ts \<noteq> [] \<and> (\<forall>t\<in>set ts. read_tier t)" if ts: "tryParseVisualConfig s = Some ts" for ts
  proof -
    obtain us where us: "ts = normalizeVisualConfig us" "us \<noteq> []" "\<forall>t\<in>set us. \<exists>cs i m. t = matched_tier cs i m \<and> (cs = [] \<or> (\<exists>w. cs = map to_input (read_conditions w)))"
      using tryParse_matched [OF ts] by blast
    have "read_tier t" if t: "t \<in> set us" for t
    proof -
      obtain cs i m where "t = matched_tier cs i m" "cs = [] \<or> (\<exists>w. cs = map to_input (read_conditions w))" using us(3) t by blast
      then show ?thesis using matched_read [of cs i m] read_conditions_offered by (elim disjE exE) simp_all
    qed
    then show ?thesis using normal [of us] us(1,2) by simp
  qed
  then show ?thesis using default by (simp add: read_config_def split: option.splits)
qed

lemma read_config_offered: "offered_config (max 2 (most_conditions (read_config s))) (config_numbers (read_config s)) (read_config s)"
proof -
  have "offered_tier (max 2 (most_conditions (read_config s))) (config_numbers (read_config s)) t" if t: "t \<in> set (read_config s)" for t
  proof -
    have "read_tier t" using t read_config_tiers by blast
    moreover have "n \<in> tier_numbers t \<Longrightarrow> fine_number (config_numbers (read_config s)) n" for n
      using t by (auto simp: fine_number_def config_numbers_def)
    ultimately show ?thesis
      using most_conditions_ge [OF t] by (fastforce simp: offered_tier_def offered_condition_def read_tier_def tier_numbers_def)
  qed
  then show ?thesis using read_config_tiers by (simp add: offered_config_def)
qed

lemma reachable_offered: "reachable_config ts us \<Longrightarrow> offered_config k N ts \<Longrightarrow> 2 \<le> k \<Longrightarrow> offered_config k N us"
proof (induction rule: reachable_config.induct)
  case (edit us e vs)
  then show ?case using edit_offered by blast
qed

section \<open>Adding a tier\<close>

definition new_tier :: "jsstring \<Rightarrow> VisualTier" where
  "new_tier l = normalizeVisualTier \<lparr>pt_label = Some l, pt_conditions = Some [], pt_cache_mode = None,
     pt_costs = [js ''input_unit_cost'' \<mapsto> Fin 0, js ''output_unit_cost'' \<mapsto> Fin 0]\<rparr>"

lemma new_tier_costs: "vt_costs (new_tier l) f = (if f \<in> set (base_cost_fields @ extra_cost_fields) then Some (Fin 0) else None)"
  by (auto simp: new_tier_def normalizeVisualTier_def or_zero_def base_cost_fields_def extra_cost_fields_def)

lemma new_tier_canonical:
  assumes "good_label l"
  shows "canonical_tier (new_tier l)" "vt_conditions (new_tier l) = []"
proof -
  have "good_price (Fin 0)" using nat_price [of 0] by simp
  then have "good_costs (new_tier l)" by (auto simp: good_costs_def new_tier_costs dom_def split: if_splits)
  moreover have "cost_of (new_tier l) cost_1h = Fin 0" by (simp add: cost_of_def new_tier_costs or_zero_def)
  moreover have "vt_cache_mode (new_tier l) = CACHE_MODE_GENERIC" "vt_label (new_tier l) = l"
    by (simp_all add: new_tier_def normalizeVisualTier_def getTierCacheMode_def cost_1h_def)
  ultimately show "canonical_tier (new_tier l)" using assms by (simp add: canonical_tier_def tier_mode_def)
  show "vt_conditions (new_tier l) = []" by (simp add: new_tier_def normalizeVisualTier_def)
qed

lemma numbered_label: "good_label (js ''tier_'' @ show_nat n)"
  using show_nat_digits [of n] by (auto simp: good_label_def notq_def list_all_iff is_digit_def)

lemma canonical_reconditioned: "canonical_tier t \<Longrightarrow> canonical_tier (t\<lparr>vt_conditions := cs\<rparr>)"
  by (simp add: canonical_tier_def good_costs_def tier_mode_def cost_of_def)

lemma default_canonical: "canonical_conds [default_condition (js ''len'')]"
  using nat_cond [of 200000] by (auto simp: canonical_conds_def canonical_cond_def default_condition_def)

lemma chain_extend:
  "canonical_chain ts \<Longrightarrow> ts \<noteq> [] \<Longrightarrow> canonical_tier n \<Longrightarrow> vt_conditions n = []
   \<Longrightarrow> canonical_chain (butlast ts @ [(last ts)\<lparr>vt_conditions := [default_condition (js ''len'')]\<rparr>, n]) \<and> vt_conditions (last ts) = []"
proof (induction ts rule: canonical_chain.induct)
  case (2 t)
  then show ?case using default_canonical canonical_reconditioned by (simp del: js.simps)
next
  case (3 t u us)
  then show ?case by (cases us) (auto simp del: js.simps)
qed simp

lemma chain_config: "canonical_chain ts \<Longrightarrow> ts \<noteq> [] \<Longrightarrow> canonical_config ts"
  by (cases ts rule: canonical_chain.cases) (auto simp: canonical_config_def)

lemma add_tier_canonical:
  assumes "canonical_config ts"
  shows "canonical_config (handleAddTier ts)"
proof -
  have n: "canonical_tier (last ts)" "ts \<noteq> []" using config_tiers [OF assms] by auto
  let ?l = "\<lambda>n. js ''tier_'' @ show_nat n" and ?d = "(last ts)\<lparr>vt_conditions := [default_condition (js ''len'')]\<rparr>"
  have new: "canonical_tier (new_tier (?l k))" "vt_conditions (new_tier (?l k)) = []" for k
    using new_tier_canonical [OF numbered_label] by auto
  have d: "normalizeVisualTier (to_partial_tier ?d) = ?d" using normalize_canonical [OF canonical_reconditioned [OF n(1)]] .
  show ?thesis
  proof (cases "vt_conditions (last ts) = []")
    case True
    have c: "canonical_chain ts" using assms True by (cases ts rule: canonical_chain.cases) (auto simp: canonical_config_def canonical_conds_def)
    have "handleAddTier ts = butlast ts @ [?d, new_tier (?l (length ts + 1))]"
      using True n(2) d unfolding handleAddTier_def new_tier_def [symmetric] by (simp add: Let_def del: js.simps)
    then show ?thesis using chain_extend [OF c n(2) new] chain_config by (metis Nil_is_append_conv list.distinct(1))
  next
    case False
    have "\<not> canonical_chain ts" using False chain_extend [of ts "new_tier (?l 0)"] new n(2) by blast
    then obtain t where t: "ts = [t]" "canonical_conds (vt_conditions t)"
      using assms by (cases ts rule: canonical_chain.cases) (auto simp: canonical_config_def)
    then have "handleAddTier ts = [t, new_tier (?l 2)]"
      using False unfolding handleAddTier_def new_tier_def [symmetric] by (simp add: Let_def numeral_2_eq_2 del: js.simps)
    then show ?thesis using t new n(1) by (simp add: canonical_config_def)
  qed
qed

section \<open>Conditions that are not written\<close>

lemma parts_last: "tier_parts i (ts @ [t]) = tier_parts i (ts @ [t\<lparr>vt_conditions := cs\<rparr>])"
proof (induction ts arbitrary: i)
  case Nil
  have "buildTierBodyExpr (t\<lparr>vt_conditions := cs\<rparr>) = buildTierBodyExpr t"
    by (simp add: buildTierBodyExpr_def cost_parts_def cost_of_def)
  then show ?case by (simp add: tier_call_def)
qed (simp add: Let_def)

lemma last_condition_not_written:
  "ts \<noteq> [] \<Longrightarrow> generateExprFromVisualConfig (ts @ [t]) = generateExprFromVisualConfig (ts @ [t\<lparr>vt_conditions := cs\<rparr>])"
proof -
  assume "ts \<noteq> []"
  then have "generateExprFromVisualConfig (ts @ [u]) = join (js '' : '') (tier_parts 0 (ts @ [u]))" for u
    unfolding generateExprFromVisualConfig_def by (cases ts rule: remdups_adj.cases) (simp_all del: tier_parts.simps)
  then show ?thesis using parts_last by metis
qed

text \<open>Without the condition of a tier that another one follows, the conditional has no question.\<close>

lemma unconditioned_tier_written:
  "vt_conditions t = [] \<Longrightarrow> generateExprFromVisualConfig [t, u] =
     tier_call (js ''tier_1'') t @ js '' : '' @ tier_call (js ''tier_2'') u"
  by (simp add: generateExprFromVisualConfig_def buildConditionStr_def Let_def show_nat.simps)

section \<open>Properties\<close>

text \<open>C10: What the widgets of the visual editor make of a price expression, by changing, adding and removing
  tiers and conditions in any order and with any texts in the number inputs, starting from the tiers
  read from the expression, or from the default tier when it cannot be read: there is always a tier;
  every tier has all its costs; every condition has a variable and an operator the editor offers and a
  number; no tier gets more than two conditions, except those that the expression already had more
  of; and every cost and every number of a condition is finite, except those the expression
  already had.  From the default tier all of them are at most two and finite.\<close>

theorem visual_edits_offered:
  assumes "reachable_config (read_config s) us"
  shows "us \<noteq> [] \<and> (\<forall>t\<in>set us.
      set (base_cost_fields @ extra_cost_fields) \<subseteq> dom (vt_costs t)
    \<and> (\<forall>c\<in>set (vt_conditions t). ci_var c \<in> fst ` set CONDITION_INPUT_OPTIONS \<and> ci_op c \<in> set OPS \<and> (\<exists>n. ci_value c = CNum n))
    \<and> length (vt_conditions t) \<le> max 2 (most_conditions (read_config s))
    \<and> (\<forall>n\<in>tier_numbers t. js_isFinite n \<or> n \<in> config_numbers (read_config s))
    \<and> (tryParseVisualConfig s = None \<longrightarrow> length (vt_conditions t) \<le> 2 \<and> (\<forall>n\<in>tier_numbers t. js_isFinite n)))"
proof -
  have tier: "set (base_cost_fields @ extra_cost_fields) \<subseteq> dom (vt_costs t)
      \<and> (\<forall>c\<in>set (vt_conditions t). ci_var c \<in> fst ` set CONDITION_INPUT_OPTIONS \<and> ci_op c \<in> set OPS \<and> (\<exists>n. ci_value c = CNum n))
      \<and> length (vt_conditions t) \<le> k \<and> (\<forall>n\<in>tier_numbers t. js_isFinite n \<or> n \<in> N)" if "offered_tier k N t" for k N t
    using that by (fastforce simp: offered_tier_def offered_condition_def fine_number_def tier_numbers_def)
  have "offered_config (max 2 (most_conditions (read_config s))) (config_numbers (read_config s)) us"
    using reachable_offered [OF assms read_config_offered] by simp
  moreover have "offered_config 2 {} us" if "tryParseVisualConfig s = None"
    using reachable_offered [OF assms] default_config that by (simp add: read_config_def)
  ultimately have "us \<noteq> []" "\<And>t. t \<in> set us \<Longrightarrow> offered_tier (max 2 (most_conditions (read_config s))) (config_numbers (read_config s)) t"
    "\<And>t. t \<in> set us \<Longrightarrow> tryParseVisualConfig s = None \<Longrightarrow> offered_tier 2 {} t"
    by (simp_all add: offered_config_def)
  then have "\<forall>t\<in>set us. (set (base_cost_fields @ extra_cost_fields) \<subseteq> dom (vt_costs t)
      \<and> (\<forall>c\<in>set (vt_conditions t). ci_var c \<in> fst ` set CONDITION_INPUT_OPTIONS \<and> ci_op c \<in> set OPS \<and> (\<exists>n. ci_value c = CNum n))
      \<and> length (vt_conditions t) \<le> max 2 (most_conditions (read_config s))
      \<and> (\<forall>n\<in>tier_numbers t. js_isFinite n \<or> n \<in> config_numbers (read_config s)))
      \<and> (tryParseVisualConfig s = None \<longrightarrow> length (vt_conditions t) \<le> 2 \<and> (\<forall>n\<in>tier_numbers t. js_isFinite n \<or> n \<in> {}))"
    using tier by blast
  then show ?thesis using \<open>us \<noteq> []\<close> by (simp only: empty_iff simp_thms conj_assoc)
qed

lemma added_tier_reachable:
  "reachable_config (read_config []) (handleAddTier (normalizeVisualConfig createDefaultVisualConfig))"
  using reachable_config.edit [OF reachable_config.start, of AddTier createDefaultVisualConfig]
  by (simp add: edit_config_def read_config_def tryParseVisualConfig_def)

theorem visual_edits_offered_witness:
  "list_all (\<lambda>t. length (vt_conditions t) \<le> 2 \<and> tier_numbers t \<subseteq> Collect js_isFinite)
     (handleAddTier (normalizeVisualConfig createDefaultVisualConfig))"
  using visual_edits_offered [OF added_tier_reachable] by (auto simp: tryParseVisualConfig_def list_all_iff)

text \<open>Adding a tier to a configuration that the editor can write gives one that it can write, which has
  one tier more, and which its expression gives back.\<close>

theorem added_tier_reads_back:
  assumes "canonical_config ts"
  shows "length (handleAddTier ts) = length ts + 1
    \<and> tryParseVisualConfig (generateExprFromVisualConfig (handleAddTier ts)) = Some (handleAddTier ts)"
proof -
  have "ts \<noteq> []" using config_tiers [OF assms] by blast
  then have "length (handleAddTier ts) = length ts + 1" by (simp add: handleAddTier_def Let_def)
  then show ?thesis using config_read_back [OF add_tier_canonical [OF assms]] by blast
qed

end
