(* ===== verification/Spec2Isabelle.thy ===== *)
theory Spec2Isabelle
  imports Status_Code_Rules Billing_Props Video_References_Props Video_Request_Props
    Creation_Session_Props Playground_Send
    Model_Mapping Playground_Chat_Props Reference_Files_Tree Creation_Center_Props
    Billing_Tiers_Display Param_Override_Moves Notification_Session Tiered_Editor_Props
    Tiered_Visual_Props
begin

text \<open>
  A verification library for the web console of the new-api gateway
  (\<open>src/web/default/src\<close>, TypeScript).  The gateway relays requests to model providers; the
  console is where an administrator writes billing rules, status code rules and model mappings,
  and where a user talks to models (playground) and generates images and videos (playground and
  creation center).  A channel may override the parameters of the requests it relays, and the
  console shows notices and announcements to everybody.  Modelled is the logic between the widgets and the HTTP client: parsers and
  printers of settings, the rules for which options a model has, the checks of reference media,
  the bodies of requests, the reading of answers, the conversation with its streams, the polling
  of tasks, and the history that is kept in the browser.

  \<^bold>\<open>How JavaScript is represented.\<close>  A string is its list of UTF-16 code units
  (\<open>jsstring\<close>, theory \<open>Prelude\<close>, with \<open>trim\<close>, \<open>split\<close>, \<open>join\<close>, \<open>slice\<close>, \<open>includes\<close>, \<open>replace\<close> and
  \<open>toLowerCase\<close>).  A number is an IEEE 754 binary64 value (\<open>JS_Number\<close>): a finite one is its
  rational value, results are rounded to nearest, and \<open>Number(s)\<close> and \<open>String(n)\<close> are those of the
  standard.  A regular expression is data with the backtracking matcher of the standard
  (\<open>JS_Regex\<close>), so that greedy and lazy choices and capture groups are those of the code.
  \<open>JS_JSON\<close> has \<open>JSON.parse\<close> on text, \<open>JSON.stringify\<close> on strings and objects as ordered lists of
  members; \<open>JSON_Text\<close> has \<open>JSON.stringify\<close> on all values, with and without indentation, and shows
  that \<open>JSON.parse\<close> reads back what it writes for values whose numbers and strings print and read
  back (\<open>wf_json\<close>).  \<open>List_Splice\<close> has \<open>Array.prototype.splice\<close> as the code uses it to move an item.
  A thrown error is the left summand of a sum, a missing property is \<open>None\<close>, a mutable
  object is a record that is passed on.  \<open>Web_Address\<close> has what the patterns for http and https
  addresses accept.

  \<^bold>\<open>Parts and their theories.\<close>

  \<^item> Status code rules (\<open>lib/http-status-code-rules.ts\<close>): \<open>Status_Code_Rules\<close>.  The parser of a
    setting such as \<open>401,500-503\<close>, the merging of ranges and the printer.  Shown: the result is
    the sorted, disjoint, non-adjacent list that covers exactly the codes named, what is
    printed reads back, and a setting is refused exactly for the segments that name no code or range
    in decimal notation (\<open>names_codes\<close>, stated without the parser).

  \<^item> Billing expressions (\<open>features/pricing/lib/billing-expr.ts\<close>): \<open>Billing_Expr\<close> (splitting at
    the top level, the patterns of rule conditions, the parser), \<open>Billing_Editor\<close> (the registry of
    variables, empty conditions, normalisation, the printer), \<open>Billing_Split\<close> (what the splitters
    promise, as the locale \<open>top_level_separator\<close>, interpreted for the product and the conjunction),
    \<open>Billing_Props\<close> (round trip of rules, normal form of conditions, and the two forms that the
    parser does not read back).

  \<^item> Tiers of a billing expression (the tier parser of \<open>billing-expr.ts\<close> and
    \<open>features/pricing/lib/tier-expr.ts\<close>): \<open>Billing_Tiers\<close> (both readers and the printer of the visual
    editor), \<open>Billing_Tiers_Reading\<close> and \<open>Billing_Tiers_Text\<close> (how the patterns run on the texts of
    conditions, costs and calls), \<open>Billing_Tiers_Props\<close> (the locale \<open>tier_reader\<close>, what a pattern of a
    call promises, with the reading of a whole expression derived once; the editor reads back what
    it writes), \<open>Billing_Tiers_Display\<close> (the display interprets the same locale and shows the tiers
    of the editor).

  \<^item> Tiered pricing editor (\<open>features/system-settings/models/tiered-pricing-editor.tsx\<close>, and of
    \<open>model-pricing-sheet.tsx\<close> that it loads another model): \<open>Tiered_Visual\<close> and \<open>Tiered_Visual_Props\<close> (number
    inputs, the callbacks on tiers, conditions and rules, and what every sequence of edits keeps of the
    tiers that are read from any expression),
    \<open>Tiered_Editor\<close> (what a rendering sees, the effects that run after it and the callbacks),
    \<open>Tiered_Editor_Text\<close> (the text of tiers under the splitter of rules) and \<open>Tiered_Editor_Props\<close> (an edit
    reaches the form, the mode can be changed and changed back, and what the order of the effects does
    to the first edit, to presets and to the next model).

  \<^item> Video creation (\<open>features/media-generation/video-options.ts\<close>, \<open>xjz-video-models.ts\<close>, the
    integration types of \<open>features/pricing/types.ts\<close>): \<open>Video_Types\<close>, \<open>XJZ_Models\<close> (the table, entry
    by entry), \<open>Video_Capability\<close> (which capability an identifier or the metadata of a model gives),
    \<open>Video_Options\<close> (resolutions, durations, normalisation), \<open>Video_References\<close> (reference media and
    their mention in the prompt), \<open>Video_Request\<close> (the checks and the body for every provider).
    \<open>Video_Identity\<close>, \<open>Video_Options_Props\<close>, \<open>Video_References_Props\<close> and \<open>Video_Request_Props\<close>
    show that normalised options are offered by the model and stable, that normalising references
    is idempotent, that the mention loop finds exactly the mentions, that an accepted request is
    within the limits of the model and carries only checked addresses.

  \<^item> Image creation (\<open>features/media-generation/image-options.ts\<close>): \<open>Image_Options\<close> and
    \<open>Image_Options_Props\<close>, with the same questions.

  \<^item> Submission and results of the creation center (\<open>features/creation-center/video-request.ts\<close>,
    \<open>features/media-generation/result-parsers.ts\<close>): \<open>Creation_Request\<close>, \<open>Media_Results\<close>.  Shown: what
    is taken for the address of a video in an answer is a web address.

  \<^item> Creation history (\<open>features/creation-center/session.ts\<close> and \<open>persistHistoryItem\<close> of \<open>index.tsx\<close>):
    \<open>Creation_Session\<close> (items, sanitising, insertion; items as JSON values and back, the shape test of a
    parsed value, and saving and loading over a storage that maps keys to texts and may refuse one),
    \<open>Creation_Item_JSON\<close> (an item passes the test and reads back through its JSON value and, for
    texts and numbers that JSON holds, through its text) and \<open>Creation_Session_Props\<close>.  The abstract
    specification is a map from identifiers to items that is cut down to its newest entries; insertion
    refines its update, a history survives storage as text, and nothing but web addresses is stored.  A
    stored value that passes the shape test without being of the declared type has no result in the
    model.

  \<^item> Reference files (\<open>features/creation-center/video-reference-files.ts\<close>): \<open>Reference_Files\<close> (types
    by extension, the reader of MP4 boxes over bytes, with a read outside the buffer as an error
    value), \<open>Reference_Files_Props\<close> (no input makes it read outside the buffer), \<open>Reference_Files_Tree\<close>
    (trees of boxes as the specification: on the bytes of a tree the reader gives the codec and the
    frame rate of the tree).

  \<^item> The smaller parts of the creation center (\<open>model-order.ts\<close>, \<open>category-rows.ts\<close>, \<open>cost.ts\<close>,
    \<open>lib/prompt-mentions.ts\<close>, \<open>lib/preview-state.ts\<close>, the countdown of
    \<open>session.ts\<close>): \<open>Creation_Center\<close> and \<open>Creation_Center_Props\<close>.

  \<^item> Channel model mapping (\<open>features/channels/lib/model-mapping-validation.ts\<close>): \<open>Model_Mapping\<close>.

  \<^item> Playground messages (\<open>features/playground/lib/message-utils.ts\<close>, \<open>payload-builder.ts\<close>,
    \<open>responses.ts\<close>): \<open>Playground_Messages\<close>, \<open>Playground_Messages_Props\<close>, \<open>Playground_Payload\<close>.
    Reasoning tags, streaming updates, the repair of stored messages, chat payloads and the extra
    parameters they accept.

  \<^item> Playground conversation (\<open>hooks/use-stream-request.ts\<close>, \<open>hooks/use-chat-handler.ts\<close> and the
    handlers of \<open>index.tsx\<close>): \<open>Playground_Chat\<close> and \<open>Playground_Chat_Props\<close>.  Every callback is a
    function on the state; the events of the user and of the network are an inductive step
    relation.  Shown: the invariant of all states that intended use reaches, that a generation can
    always end, that chunks give the same messages as a whole answer, and which events break the
    invariant.

  \<^item> Playground media (\<open>lib/model-integration.ts\<close>, \<open>lib/media-routing.ts\<close>,
    \<open>lib/media-task-polling.ts\<close>, \<open>api.ts\<close>, \<open>features/media-generation/image-transport.ts\<close>):
    \<open>Playground_Integration\<close> (groups, published endpoints, references), \<open>Playground_Media\<close> (mode,
    choices, endpoint), \<open>Playground_Request\<close> with \<open>Playground_Request_Props\<close> (the request body:
    what extra parameters cannot change, which references it carries, and that a single text among the
    extra parameters is not checked),
    \<open>Playground_Results\<close> (the answer), \<open>Media_Polling\<close> (the polling loop) and \<open>Playground_Send\<close>
    (\<open>sendPlaygroundMediaGeneration\<close>, which composes all of them).

  \<^item> Channel parameter override (\<open>features/channels/components/dialogs/param-override-editor-dialog.tsx\<close>):
    \<open>Param_Override\<close> (the modes and what each asks for, the reading of stored rules, the checks, the
    printing of rules, the legacy form), \<open>Param_Override_Props\<close> (rules that the editor shows are read
    back from the text it saves), \<open>Param_Override_Editor\<close> (the state of the dialog and every callback
    that changes it, with the states they reach as an inductive predicate), \<open>Param_Override_Dialog\<close>
    (the invariant of those states and what a saved text has), \<open>Param_Override_Moves\<close> (switching
    between the visual form and the text, and dragging rules about).

  \<^item> Notifications (\<open>lib/notifications.ts\<close>, \<open>stores/notification-store.ts\<close>,
    \<open>hooks/use-notifications.ts\<close>): \<open>Notifications\<close> (keys of announcements, fingerprints, formats of the stored state),
    \<open>Notification_Store\<close> (the operations of the store and the persistence middleware),
    \<open>Notification_Props\<close> (sequences of events in several tabs over one storage; the abstract
    specification is replicated sets of read keys that are joined, and every run of the store refines
    it),
    \<open>Notification_Session\<close> (the dialog that reads the store: what it acknowledges, that nothing but the
    viewer's own steps writes to the store, and when it opens).

  The locales \<open>normaliser\<close> (a function whose results are its fixed points) and \<open>item_codec\<close> (a
  printer and a parser for separated items) of \<open>Prelude\<close> are interpreted for every component that
  promises such a contract.

  \<^bold>\<open>Conditions of the round trips.\<close>  The printers of the editors do not write everything the editors can
  hold, so what reads back is stated for canonical values, named in the theorems: \<open>canonical_group\<close>
  (request rules), \<open>canonical_config\<close> (tiers: labels without quotes, numbers whose text reads back, of
  several tiers every one but the last with conditions), \<open>canonical_price\<close> and \<open>plain_price\<close> (both of them,
  and labels without brackets), \<open>canonical_operation\<close> (override rules: no blank rule, only the fields of
  the mode, value texts that read back as they are) and \<open>storable_item\<close> (history items: 16-bit texts and
  numbers that JSON holds).  What becomes of some values outside of them is stated beside the
  theorems: \<open>last_condition_not_written\<close>, \<open>unconditioned_tier_written\<close>, \<open>first_edit_read_again\<close>,
  \<open>string_value_retyped\<close>, \<open>split_closing_tag_leaks\<close>.

  \<^bold>\<open>Fuel and bounds.\<close>  \<open>JSON.parse\<close> runs with fuel twice the length of the text plus two, which
  \<open>json_parse_enough\<close> shows to suffice; the star of a regular expression is bounded by the length of
  the remaining text, since an empty iteration is discarded.  The search for a video address in an
  answer has the depth bound six of the code.  The polling loop is a partial function; that it
  returns, with a clock that does not run backwards, is proved.

  \<^bold>\<open>Parameters.\<close>  The URL parser of the browser, the generated identifiers of messages, the clock,
  the abort signal, the answers of the servers, the translation function, the collation of the
  locale, the formats of money, the reading of dates, the middleware that persists the
  notification store and whether the storage takes a text are arguments of the definitions that use them.  \<open>toLowerCase\<close> is that of ASCII,
  Latin-1, Greek, Cyrillic and full-width letters; no model identifier or marker of the sources has
  others.

  \<^bold>\<open>Not modelled.\<close>  React components, hooks that only connect queries to widgets, and the classic
  console (\<open>src/web/classic\<close>) render state and hold no logic apart from the above; the API clients
  pass data on; \<open>evalExprLocally\<close> runs an expression as JavaScript, the durations of reference files
  come from a media element of the browser; routes and translations are generated or data; the gateway itself is written in
  Go.  The component list of the manifest names each part with its reason.
\<close>

end
